(* ===== verification/Prelude.thy ===== *)
theory Prelude
  imports Main "HOL-Library.Char_ord" "HOL-Library.List_Lexorder" "HOL-Library.Product_Lexorder"
begin

section \<open>Shared vocabulary: time, tables and their generic lemmas\<close>

text \<open>
  The services keep their state in PostgreSQL tables and speak SQL to them.  A table is
  modelled as the list of its rows; the three statement shapes the code uses are the
  functions below: \<open>UPDATE .. WHERE .. RETURNING\<close> is \<open>upd_where\<close> with \<open>rows_where\<close>,
  \<open>INSERT .. ON CONFLICT DO NOTHING\<close> is \<open>insert_unless\<close>, and \<open>ORDER BY .. LIMIT\<close> is
  \<open>sort_key\<close> followed by \<open>take\<close>.  Time is the microsecond count of a \<open>TIMESTAMPTZ\<close>.
\<close>

type_synonym time = int
type_synonym uuid = string

named_theorems table_simps "rewrite rules for table updates and selections"
named_theorems status_simps "evaluation of the status classifications"

definition secs :: "int \<Rightarrow> time" where
  "secs n = 1000000 * n"

lemma secs_mono: "m \<le> n \<Longrightarrow> secs m \<le> secs n"
  by (simp add: secs_def)

lemma secs_pos: "0 < n \<Longrightarrow> 0 < secs n"
  by (simp add: secs_def)

lemma secs_nonneg: "0 \<le> n \<Longrightarrow> 0 \<le> secs n"
  by (simp add: secs_def)

subsection \<open>Tables\<close>

definition upd_where :: "('r \<Rightarrow> bool) \<Rightarrow> ('r \<Rightarrow> 'r) \<Rightarrow> 'r list \<Rightarrow> 'r list" where
  "upd_where p f rs = map (\<lambda>r. if p r then f r else r) rs"

definition rows_where :: "('r \<Rightarrow> bool) \<Rightarrow> 'r list \<Rightarrow> 'r list" where
  "rows_where p rs = filter p rs"

definition insert_unless :: "('r \<Rightarrow> bool) \<Rightarrow> 'r \<Rightarrow> 'r list \<Rightarrow> 'r option \<times> 'r list" where
  "insert_unless clash r rs = (if list_ex clash rs then (None, rs) else (Some r, rs @ [r]))"

definition first_row :: "('r \<Rightarrow> bool) \<Rightarrow> 'r list \<Rightarrow> 'r option" where
  "first_row p rs = find p rs"

lemma length_upd_where [table_simps]: "length (upd_where p f rs) = length rs"
  by (simp add: upd_where_def)

lemma upd_where_Nil [table_simps]: "upd_where p f [] = []"
  by (simp add: upd_where_def)

lemma upd_where_Cons [table_simps]:
  "upd_where p f (r # rs) = (if p r then f r else r) # upd_where p f rs"
  by (simp add: upd_where_def)

lemma upd_where_append [table_simps]:
  "upd_where p f (rs @ qs) = upd_where p f rs @ upd_where p f qs"
  by (simp add: upd_where_def)

lemma set_upd_where: "set (upd_where p f rs) = (\<lambda>r. if p r then f r else r) ` set rs"
  by (auto simp: upd_where_def)

lemma map_upd_where:
  assumes "\<And>r. r \<in> set rs \<Longrightarrow> p r \<Longrightarrow> g (f r) = g r"
  shows "map g (upd_where p f rs) = map g rs"
  using assms by (induction rs) (auto simp: table_simps)

lemma upd_where_none: "\<not> list_ex p rs \<Longrightarrow> upd_where p f rs = rs"
  by (induction rs) (auto simp: table_simps)

lemma ball_upd_where:
  "(\<forall>r \<in> set (upd_where p f rs). q r) \<longleftrightarrow> (\<forall>r \<in> set rs. q (if p r then f r else r))"
  by (auto simp: set_upd_where)

lemma list_all_upd_where:
  assumes "list_all q rs" and "\<And>r. r \<in> set rs \<Longrightarrow> p r \<Longrightarrow> q r \<Longrightarrow> q (f r)"
  shows "list_all q (upd_where p f rs)"
  using assms by (auto simp: list_all_iff set_upd_where)

lemma list_ex_upd_where:
  assumes "list_ex q rs" and "\<And>r. r \<in> set rs \<Longrightarrow> p r \<Longrightarrow> q r \<Longrightarrow> q (f r)"
  shows "list_ex q (upd_where p f rs)"
  using assms by (auto simp: list_ex_iff set_upd_where)

lemma in_upd_whereE:
  assumes "r' \<in> set (upd_where p f rs)"
  obtains r where "r \<in> set rs" and "r' = (if p r then f r else r)"
  using assms by (auto simp: set_upd_where)

lemma in_upd_whereI: "r \<in> set rs \<Longrightarrow> (if p r then f r else r) \<in> set (upd_where p f rs)"
  by (auto simp: set_upd_where)

lemma upd_where_le:
  assumes "\<And>r. r \<in> set rs \<Longrightarrow> p r \<Longrightarrow> le r (f r)" and "\<And>r. le r r"
  shows "\<forall>r \<in> set rs. \<exists>r' \<in> set (upd_where p f rs). le r r'"
proof
  fix r
  assume r: "r \<in> set rs"
  with assms have "le r (if p r then f r else r)" by simp
  with in_upd_whereI [OF r] show "\<exists>r' \<in> set (upd_where p f rs). le r r'" by blast
qed

lemma each_refl: "(\<And>x. le x x) \<Longrightarrow> \<forall>x \<in> A. \<exists>y \<in> A. le x y"
  by blast

lemma list_ex_key: "list_ex (\<lambda>r. g r = x) rs \<longleftrightarrow> x \<in> set (map g rs)"
  by (auto simp: list_ex_iff)

lemma set_rows_where [table_simps]: "set (rows_where p rs) = {r \<in> set rs. p r}"
  by (auto simp: rows_where_def)

lemma rows_where_Nil_iff: "rows_where p rs = [] \<longleftrightarrow> (\<forall>r \<in> set rs. \<not> p r)"
  by (auto simp: rows_where_def filter_empty_conv)

lemma first_row_SomeD: "first_row p rs = Some r \<Longrightarrow> r \<in> set rs \<and> p r"
  by (auto simp: first_row_def find_Some_iff)

lemma first_row_None_iff: "first_row p rs = None \<longleftrightarrow> (\<forall>r \<in> set rs. \<not> p r)"
  by (auto simp: first_row_def find_None_iff)

lemma first_row_unique:
  assumes "r \<in> set rs" and "p r" and "\<And>q. q \<in> set rs \<Longrightarrow> p q \<Longrightarrow> q = r"
  shows "first_row p rs = Some r"
proof (cases "first_row p rs")
  case None
  with assms(1,2) show ?thesis by (auto simp: first_row_None_iff)
next
  case (Some q)
  then have "q \<in> set rs \<and> p q" by (rule first_row_SomeD)
  then have "q = r" using assms(3) [of q] by blast
  with Some show ?thesis by simp
qed

lemma first_row_append:
  "first_row p (rs @ qs) = (case first_row p rs of Some r \<Rightarrow> Some r | None \<Rightarrow> first_row p qs)"
  by (induction rs) (auto simp: first_row_def)

lemma first_row_snoc: "first_row p rs = None \<Longrightarrow> p q \<Longrightarrow> first_row p (rs @ [q]) = Some q"
  by (simp add: first_row_append) (simp add: first_row_def)

lemma distinct_map_upd_where:
  assumes "\<And>r. r \<in> set rs \<Longrightarrow> p r \<Longrightarrow> g (f r) = g r"
  shows "distinct (map g (upd_where p f rs)) = distinct (map g rs)"
proof -
  have "map g (upd_where p f rs) = map g rs" by (rule map_upd_where) (rule assms)
  then show ?thesis by (rule arg_cong)
qed

lemma distinct_map_eqD:
  "distinct (map g rs) \<Longrightarrow> r \<in> set rs \<Longrightarrow> q \<in> set rs \<Longrightarrow> g r = g q \<Longrightarrow> r = q"
  by (auto simp: distinct_map dest: inj_onD)

lemma hd_sort_key:
  "sort_key k xs = x # ys \<Longrightarrow> x \<in> set xs \<and> (\<forall>y \<in> set xs. k x \<le> k y)"
  by (metis insort_key_left_comm list.set_intros(1) set_sort sorted_sort_key sorted_simps(2)
      list.simps(9) list.set_map image_eqI set_ConsD order_refl)

lemma sort_key_Nil_iff: "sort_key k xs = [] \<longleftrightarrow> xs = []"
  by (metis length_0_conv length_sort)

lemma insert_unless_Some:
  "insert_unless clash r rs = (Some q, rs') \<longleftrightarrow> \<not> list_ex clash rs \<and> q = r \<and> rs' = rs @ [r]"
  by (auto simp: insert_unless_def)

lemma insert_unless_None:
  "insert_unless clash r rs = (None, rs') \<longleftrightarrow> list_ex clash rs \<and> rs' = rs"
  by (auto simp: insert_unless_def)

subsection \<open>Clamping, as the code writes it: \<open>max(lo, min(x, hi))\<close>\<close>

definition clamp :: "int \<Rightarrow> int \<Rightarrow> int \<Rightarrow> int" where
  "clamp lo hi x = max lo (min x hi)"

lemma clamp_bounds: "lo \<le> hi \<Longrightarrow> lo \<le> clamp lo hi x \<and> clamp lo hi x \<le> hi"
  by (auto simp: clamp_def)

lemma clamp_id: "lo \<le> x \<Longrightarrow> x \<le> hi \<Longrightarrow> clamp lo hi x = x"
  by (auto simp: clamp_def)

lemma clamp_mono: "x \<le> y \<Longrightarrow> clamp lo hi x \<le> clamp lo hi y"
  by (auto simp: clamp_def)

end
