(* ===== verification/Effects.thy ===== *)
theory Effects
  imports Prelude
begin

section \<open>Programs with a database, failures and interference\<close>

text \<open>
  A coroutine of the services is a program over a world: the database, the answers the
  outside gives it, and the fresh identifiers \<open>uuid4()\<close> returns.  Between two statements
  of one coroutine other workers and API replicas run, and time passes: before every
  statement the world applies an arbitrary \<^emph>\<open>interference\<close> function to the database.  A
  statement may also fail at the connection, before the server executed it or after the
  server committed it (\<open>fate\<close>).  Errors are values of \<open>exn\<close>, so an exception
  handler of the source is a case of the model.
\<close>

datatype exn =
    HTTPException nat string
  | ValueError string
  | RuntimeError string
  | TypeError
  | LookupError string
  | DatabaseError
  | OtherError string string

fun exn_name :: "exn \<Rightarrow> string" where
  "exn_name (HTTPException c d) = ''HTTPException''"
| "exn_name (ValueError s) = ''ValueError''"
| "exn_name (RuntimeError s) = ''RuntimeError''"
| "exn_name TypeError = ''TypeError''"
| "exn_name (LookupError s) = ''LookupError''"
| "exn_name DatabaseError = ''ConnectionDoesNotExistError''"
| "exn_name (OtherError n s) = n"

datatype fate = Completed | Lost_before | Lost_after

record ('d, 'x) world =
  wdb :: 'd
  wenv :: "nat \<Rightarrow> ('d \<Rightarrow> 'd) \<times> fate"
  wext :: "nat \<Rightarrow> 'x"
  wrnd :: "nat \<Rightarrow> uuid"

type_synonym ('d, 'x, 'a) prog = "('d, 'x) world \<Rightarrow> (exn + 'a) \<times> ('d, 'x) world"

definition ret :: "'a \<Rightarrow> ('d, 'x, 'a) prog" where
  "ret a = (\<lambda>w. (Inr a, w))"

definition raise :: "exn \<Rightarrow> ('d, 'x, 'a) prog" where
  "raise e = (\<lambda>w. (Inl e, w))"

definition lift :: "exn + 'a \<Rightarrow> ('d, 'x, 'a) prog" where
  "lift r = (\<lambda>w. (r, w))"

definition bindM ::
  "('d, 'x, 'a) prog \<Rightarrow> ('a \<Rightarrow> ('d, 'x, 'b) prog) \<Rightarrow> ('d, 'x, 'b) prog" where
  "bindM m f = (\<lambda>w. case m w of (Inl e, w') \<Rightarrow> (Inl e, w') | (Inr a, w') \<Rightarrow> f a w')"

definition catch ::
  "('d, 'x, 'a) prog \<Rightarrow> (exn \<Rightarrow> ('d, 'x, 'a) prog) \<Rightarrow> ('d, 'x, 'a) prog" where
  "catch m h = (\<lambda>w. case m w of (Inl e, w') \<Rightarrow> h e w' | (Inr a, w') \<Rightarrow> (Inr a, w'))"

text \<open>
  \<open>try: m except Exception as e: h(e) else: f\<close>: a failure of \<open>f\<close> is not handled by \<open>h\<close>.
\<close>

definition tryM ::
  "('d, 'x, 'a) prog \<Rightarrow> (exn \<Rightarrow> ('d, 'x, 'b) prog) \<Rightarrow> ('a \<Rightarrow> ('d, 'x, 'b) prog) \<Rightarrow> ('d, 'x, 'b) prog" where
  "tryM m h f = (\<lambda>w. case m w of (Inl e, w') \<Rightarrow> h e w' | (Inr a, w') \<Rightarrow> f a w')"

text \<open>\<open>try: m finally: u\<close> where a failure of \<open>u\<close> is only logged.\<close>

definition finallyM :: "('d, 'x, 'a) prog \<Rightarrow> ('d, 'x, unit) prog \<Rightarrow> ('d, 'x, 'a) prog" where
  "finallyM m u = (\<lambda>w. case m w of (r, w') \<Rightarrow> (r, snd (u w')))"

text \<open>
  One statement (or one transaction, whose body fails as a whole): interference, then the
  statement's own effect on the database.  \<open>Lost_before\<close> is a connection failure before
  execution, \<open>Lost_after\<close> one after the commit.
\<close>

definition stmt :: "('d \<Rightarrow> exn + 'a \<times> 'd) \<Rightarrow> ('d, 'x, 'a) prog" where
  "stmt f = (\<lambda>w.
     let d = fst (wenv w 0) (wdb w);
         ft = snd (wenv w 0);
         w0 = w\<lparr>wenv := (\<lambda>n. wenv w (Suc n))\<rparr>
     in if ft = Lost_before then (Inl DatabaseError, w0\<lparr>wdb := d\<rparr>)
        else (case f d of
            Inl e \<Rightarrow> (Inl e, w0\<lparr>wdb := d\<rparr>)
          | Inr (a, d') \<Rightarrow>
              (if ft = Completed then Inr a else Inl DatabaseError, w0\<lparr>wdb := d'\<rparr>)))"

definition query :: "('d \<Rightarrow> 'a) \<Rightarrow> ('d, 'x, 'a) prog" where
  "query q = stmt (\<lambda>d. Inr (q d, d))"

definition uuid4 :: "('d, 'x, uuid) prog" where
  "uuid4 = (\<lambda>w. (Inr (wrnd w 0), w\<lparr>wrnd := (\<lambda>n. wrnd w (Suc n))\<rparr>))"

definition receive :: "('d, 'x, 'x) prog" where
  "receive = (\<lambda>w. (Inr (wext w 0), w\<lparr>wext := (\<lambda>n. wext w (Suc n))\<rparr>))"

text \<open>
  An observable action outside the database (a delivery), recorded in the state: other
  workers may run before it, and it cannot fail on its own.
\<close>

definition emit :: "('d \<Rightarrow> 'd) \<Rightarrow> ('d, 'x, unit) prog" where
  "emit f = (\<lambda>w. (Inr (), w\<lparr>wdb := f (fst (wenv w 0) (wdb w)), wenv := (\<lambda>n. wenv w (Suc n))\<rparr>))"

named_theorems prog_simps "evaluation of programs on a world"

lemmas prog_defs [prog_simps] =
  ret_def raise_def lift_def bindM_def catch_def tryM_def finallyM_def query_def uuid4_def receive_def emit_def

text \<open>What a program that returned has gone through.\<close>

lemma bind_InrE:
  assumes "fst (bindM m f w) = Inr b"
  obtains a w' where "m w = (Inr a, w')" and "fst (f a w') = Inr b"
  using assms by (auto simp: bindM_def split: prod.splits sum.splits)

lemma query_Inr: "query q w = (Inr a, w') \<Longrightarrow> \<exists>d. a = q d"
  by (auto simp: query_def stmt_def Let_def split: if_splits)

subsection \<open>Interference described by a relation\<close>

definition env_in :: "('d \<Rightarrow> 'd \<Rightarrow> bool) \<Rightarrow> ('d, 'x) world \<Rightarrow> bool" where
  "env_in R w \<longleftrightarrow> (\<forall>n d. R d (fst (wenv w n) d))"

definition quiet :: "('d, 'x) world \<Rightarrow> bool" where
  "quiet w \<longleftrightarrow> (\<forall>n. wenv w n = ((\<lambda>d. d), Completed))"

definition quiet_world :: "'d \<Rightarrow> (nat \<Rightarrow> 'x) \<Rightarrow> (nat \<Rightarrow> uuid) \<Rightarrow> ('d, 'x) world" where
  "quiet_world d answers ids =
     \<lparr>wdb = d, wenv = (\<lambda>n. ((\<lambda>d. d), Completed)), wext = answers, wrnd = ids\<rparr>"

definition stable :: "('d \<Rightarrow> 'd \<Rightarrow> bool) \<Rightarrow> ('d \<Rightarrow> bool) \<Rightarrow> bool" where
  "stable R P \<longleftrightarrow> (\<forall>d d'. P d \<longrightarrow> R d d' \<longrightarrow> P d')"

fun post :: "('a \<Rightarrow> 'd \<Rightarrow> bool) \<Rightarrow> (exn \<Rightarrow> 'd \<Rightarrow> bool) \<Rightarrow> exn + 'a \<Rightarrow> 'd \<Rightarrow> bool" where
  "post Q E (Inr a) d = Q a d"
| "post Q E (Inl e) d = E e d"

definition triple ::
  "('d \<Rightarrow> 'd \<Rightarrow> bool) \<Rightarrow> ('d \<Rightarrow> bool) \<Rightarrow> ('d, 'x, 'a) prog \<Rightarrow>
   ('a \<Rightarrow> 'd \<Rightarrow> bool) \<Rightarrow> (exn \<Rightarrow> 'd \<Rightarrow> bool) \<Rightarrow> bool" where
  "triple R P m Q E \<longleftrightarrow>
     (\<forall>w r w'. env_in R w \<longrightarrow> P (wdb w) \<longrightarrow> m w = (r, w') \<longrightarrow>
        env_in R w' \<and> post Q E r (wdb w'))"

lemma tripleI:
  assumes "\<And>w r w'. env_in R w \<Longrightarrow> P (wdb w) \<Longrightarrow> m w = (r, w') \<Longrightarrow>
      env_in R w' \<and> post Q E r (wdb w')"
  shows "triple R P m Q E"
  using assms unfolding triple_def by blast

lemma tripleE:
  assumes "triple R P m Q E" and "env_in R w" and "P (wdb w)" and "m w = (r, w')"
  shows "env_in R w' \<and> post Q E r (wdb w')"
  using assms unfolding triple_def by blast

lemma tripleD:
  assumes "triple R P m Q E" and "env_in R w" and "P (wdb w)"
  shows "post Q E (fst (m w)) (wdb (snd (m w)))"
  using tripleE [OF assms, of "fst (m w)" "snd (m w)"] by simp

lemma tripleD_inv:
  assumes "triple R P m (\<lambda>_. I) (\<lambda>_. I)" and "env_in R w" and "P (wdb w)"
  shows "I (wdb (snd (m w)))"
  using tripleD [OF assms] by (cases "fst (m w)") simp_all

lemma env_in_Suc: "env_in R w \<Longrightarrow> env_in R (w\<lparr>wenv := (\<lambda>n. wenv w (Suc n))\<rparr>)"
  by (simp add: env_in_def)

lemma env_in_wdb [simp]: "env_in R (w\<lparr>wdb := d\<rparr>) = env_in R w"
  by (simp add: env_in_def)

lemma env_in_wext [simp]: "env_in R (w\<lparr>wext := x\<rparr>) = env_in R w"
  by (simp add: env_in_def)

lemma env_in_wrnd [simp]: "env_in R (w\<lparr>wrnd := x\<rparr>) = env_in R w"
  by (simp add: env_in_def)

lemma quiet_env_in: "quiet w \<Longrightarrow> (\<And>d. R d d) \<Longrightarrow> env_in R w"
  by (simp add: quiet_def env_in_def)

lemma quiet_quiet_world [simp]: "quiet (quiet_world d x r)"
  by (simp add: quiet_def quiet_world_def)

lemma wdb_quiet_world [simp]: "wdb (quiet_world d x r) = d"
  by (simp add: quiet_world_def)

lemma stmt_quiet:
  assumes "quiet w"
  shows "stmt f w = (case f (wdb w) of Inl e \<Rightarrow> (Inl e, w)
    | Inr (a, d) \<Rightarrow> (Inr a, w\<lparr>wdb := d\<rparr>))"
proof -
  have "wenv w = (\<lambda>n. ((\<lambda>d. d), Completed))" using assms by (auto simp: quiet_def)
  then show ?thesis by (cases w) (auto simp: stmt_def Let_def split: sum.splits)
qed

lemma query_quiet: "quiet w \<Longrightarrow> query q w = (Inr (q (wdb w)), w)"
  by (simp add: query_def stmt_quiet)

lemma emit_quiet: "quiet w \<Longrightarrow> emit f w = (Inr (), w\<lparr>wdb := f (wdb w)\<rparr>)"
  by (cases w) (auto simp: quiet_def emit_def)

lemma quiet_wdb [simp]: "quiet (w\<lparr>wdb := d\<rparr>) = quiet w"
  by (simp add: quiet_def)

lemma quiet_wrnd [simp]: "quiet (w\<lparr>wrnd := r\<rparr>) = quiet w"
  by (simp add: quiet_def)

lemma quiet_wext [simp]: "quiet (w\<lparr>wext := x\<rparr>) = quiet w"
  by (simp add: quiet_def)

lemmas quiet_simps = stmt_quiet query_quiet emit_quiet

lemma bind_read:
  assumes "snd (m w) = w"
  shows "bindM m f w = (case fst (m w) of Inl e \<Rightarrow> (Inl e, w) | Inr a \<Rightarrow> f a w)"
  using assms by (cases "m w"; cases "fst (m w)") (auto simp: bindM_def)

lemma bind_stmt_quiet: "quiet w \<Longrightarrow> bindM (stmt f) g w =
    (case f (wdb w) of Inl e \<Rightarrow> (Inl e, w) | Inr (a, d) \<Rightarrow> g a (w\<lparr>wdb := d\<rparr>))"
  by (auto simp: bindM_def stmt_quiet split: sum.splits)

lemma bind_query_quiet: "quiet w \<Longrightarrow> bindM (query q) g w = g (q (wdb w)) w"
  by (simp add: bindM_def query_quiet)

lemma bind_uuid4: "bindM uuid4 f w = f (wrnd w 0) (w\<lparr>wrnd := (\<lambda>n. wrnd w (Suc n))\<rparr>)"
  by (simp add: bindM_def uuid4_def)

lemma bind_receive: "bindM receive f w = f (wext w 0) (w\<lparr>wext := (\<lambda>n. wext w (Suc n))\<rparr>)"
  by (simp add: bindM_def receive_def)

lemma bind_ret: "bindM (ret a) f w = f a w"
  by (simp add: bindM_def ret_def)

lemma bind_raise: "bindM (raise e) f w = (Inl e, w)"
  by (simp add: bindM_def raise_def)

lemma bind_lift: "bindM (lift r) f w = (case r of Inl e \<Rightarrow> (Inl e, w) | Inr a \<Rightarrow> f a w)"
  by (simp add: bindM_def lift_def split: sum.splits)

lemmas quiet_binds = bind_stmt_quiet bind_query_quiet bind_uuid4 bind_receive bind_ret bind_raise bind_lift

named_theorems triple_intros "proof rules for programs under interference"

lemma triple_ret [triple_intros]: "(\<And>d. P d \<Longrightarrow> Q a d) \<Longrightarrow> triple R P (ret a) Q E"
  by (rule tripleI) (auto simp: ret_def)

lemma triple_raise [triple_intros]: "(\<And>d. P d \<Longrightarrow> E e d) \<Longrightarrow> triple R P (raise e) Q E"
  by (rule tripleI) (auto simp: raise_def)

lemma triple_lift:
  assumes "\<And>a d. r = Inr a \<Longrightarrow> P d \<Longrightarrow> Q a d" and "\<And>e d. r = Inl e \<Longrightarrow> P d \<Longrightarrow> E e d"
  shows "triple R P (lift r) Q E"
  using assms by (intro tripleI) (cases r; auto simp: lift_def)

lemma triple_uuid4 [triple_intros]: "(\<And>a d. P d \<Longrightarrow> Q a d) \<Longrightarrow> triple R P uuid4 Q E"
  by (rule tripleI) (auto simp: uuid4_def)

lemma triple_receive [triple_intros]: "(\<And>a d. P d \<Longrightarrow> Q a d) \<Longrightarrow> triple R P receive Q E"
  by (rule tripleI) (auto simp: receive_def)

lemma triple_bind:
  assumes m: "triple R P m Q' E" and f: "\<And>a. triple R (Q' a) (f a) Q E"
  shows "triple R P (bindM m f) Q E"
proof (rule tripleI)
  fix w r w'
  assume w: "env_in R w" "P (wdb w)" and run: "bindM m f w = (r, w')"
  obtain x w1 where mw: "m w = (x, w1)" by force
  have 1: "env_in R w1 \<and> post Q' E x (wdb w1)" using tripleE [OF m w mw] .
  show "env_in R w' \<and> post Q E r (wdb w')"
  proof (cases x)
    case (Inl e)
    with 1 mw run show ?thesis by (auto simp: bindM_def)
  next
    case (Inr a)
    with mw run have "f a w1 = (r, w')" by (simp add: bindM_def)
    with 1 Inr show ?thesis using tripleE [OF f, of w1 a r w'] by simp
  qed
qed

lemma triple_catch:
  assumes m: "triple R P m Q E'" and h: "\<And>e. triple R (E' e) (h e) Q E"
  shows "triple R P (catch m h) Q E"
proof (rule tripleI)
  fix w r w'
  assume w: "env_in R w" "P (wdb w)" and run: "catch m h w = (r, w')"
  obtain x w1 where mw: "m w = (x, w1)" by force
  have 1: "env_in R w1 \<and> post Q E' x (wdb w1)" using tripleE [OF m w mw] .
  show "env_in R w' \<and> post Q E r (wdb w')"
  proof (cases x)
    case (Inl e)
    with mw run have "h e w1 = (r, w')" by (simp add: catch_def)
    with 1 Inl show ?thesis using tripleE [OF h, of w1 e r w'] by simp
  next
    case (Inr a)
    with 1 mw run show ?thesis by (auto simp: catch_def)
  qed
qed

lemma triple_stmt:
  assumes st: "stable R P"
    and ok: "\<And>d a d'. P d \<Longrightarrow> f d = Inr (a, d') \<Longrightarrow> Q a d' \<and> E DatabaseError d'"
    and err: "\<And>d e. P d \<Longrightarrow> f d = Inl e \<Longrightarrow> E e d"
    and lost: "\<And>d. P d \<Longrightarrow> E DatabaseError d"
  shows "triple R P (stmt f) Q E"
proof (rule tripleI)
  fix w r w'
  assume w: "env_in R w" "P (wdb w)" and run: "stmt f w = (r, w')"
  let ?d = "fst (wenv w 0) (wdb w)"
  from w st have d: "P ?d" unfolding env_in_def stable_def by blast
  from w(1) have R: "env_in R (w\<lparr>wenv := (\<lambda>n. wenv w (Suc n))\<rparr>)" by (rule env_in_Suc)
  show "env_in R w' \<and> post Q E r (wdb w')"
  proof (cases "f ?d")
    case (Inl e)
    with R err [OF d] lost [OF d] run show ?thesis
      by (auto simp: stmt_def Let_def split: if_splits)
  next
    case (Inr p)
    then obtain a d' where "f ?d = Inr (a, d')" by (cases p) auto
    with R ok [OF d this] lost [OF d] run show ?thesis
      by (auto simp: stmt_def Let_def split: if_splits)
  qed
qed

lemma triple_emit:
  assumes st: "stable R P" and ok: "\<And>d. P d \<Longrightarrow> Q () (f d)"
  shows "triple R P (emit f) Q E"
proof (rule tripleI)
  fix w r w'
  assume w: "env_in R w" "P (wdb w)" and run: "emit f w = (r, w')"
  from w st have "P (fst (wenv w 0) (wdb w))" unfolding env_in_def stable_def by blast
  with run ok env_in_Suc [OF w(1)] show "env_in R w' \<and> post Q E r (wdb w')"
    by (auto simp: emit_def env_in_def)
qed

lemma triple_query:
  assumes "stable R P" and "\<And>d. P d \<Longrightarrow> Q (q d) d \<and> E DatabaseError d"
  shows "triple R P (query q) Q E"
  unfolding query_def by (rule triple_stmt) (use assms in auto)

lemma triple_conseq:
  assumes "triple R P' m Q' E'" and "\<And>d. P d \<Longrightarrow> P' d"
    and "\<And>a d. Q' a d \<Longrightarrow> Q a d" and "\<And>e d. E' e d \<Longrightarrow> E e d"
  shows "triple R P m Q E"
proof (rule tripleI)
  fix w r w'
  assume "env_in R w" "P (wdb w)" "m w = (r, w')"
  then have "env_in R w' \<and> post Q' E' r (wdb w')"
    using tripleE [OF assms(1)] assms(2) by blast
  then show "env_in R w' \<and> post Q E r (wdb w')"
    using assms(3,4) by (cases r) auto
qed

lemma triple_pre: "triple R P' m Q E \<Longrightarrow> (\<And>d. P d \<Longrightarrow> P' d) \<Longrightarrow> triple R P m Q E"
  by (rule triple_conseq)

lemma triple_pre_pure:
  "(A \<Longrightarrow> triple R P m Q E) \<Longrightarrow> triple R (\<lambda>d. A \<and> P d) m Q E"
  unfolding triple_def by blast

lemma triple_if [triple_intros]:
  "(b \<Longrightarrow> triple R P m Q E) \<Longrightarrow> (\<not> b \<Longrightarrow> triple R P m' Q E) \<Longrightarrow>
   triple R P (if b then m else m') Q E"
  by simp

subsection \<open>The protocol interface\<close>

text \<open>
  Several workers run the same statements against one database.  A \<^emph>\<open>protocol\<close> is an
  invariant with a relation that every interfering step keeps: the relation is a preorder
  and keeps the invariant.  \<open>keeps inv R P m Q\<close> says that the program \<open>m\<close>, started where \<open>P\<close>
  holds and run among interference in \<open>R\<close>, keeps the invariant, moves the database inside
  \<open>R\<close> on every outcome, and ends in \<open>Q\<close> when it returns.  Such a program is itself admissible
  interference for the others.
\<close>

definition keeps ::
  "('d \<Rightarrow> bool) \<Rightarrow> ('d \<Rightarrow> 'd \<Rightarrow> bool) \<Rightarrow> ('d \<Rightarrow> bool) \<Rightarrow> ('d, 'x, 'a) prog \<Rightarrow>
   ('a \<Rightarrow> 'd \<Rightarrow> bool) \<Rightarrow> bool" where
  "keeps I R P m Q \<longleftrightarrow> (\<forall>d0.
     triple R (\<lambda>d. I d \<and> R d0 d \<and> P d) m (\<lambda>a d. I d \<and> R d0 d \<and> Q a d)
       (\<lambda>_ d. I d \<and> R d0 d))"

abbreviation safe ::
  "('d \<Rightarrow> bool) \<Rightarrow> ('d \<Rightarrow> 'd \<Rightarrow> bool) \<Rightarrow> ('d, 'x, 'a) prog \<Rightarrow> bool" where
  "safe I R m \<equiv> keeps I R (\<lambda>_. True) m (\<lambda>_ _. True)"

named_theorems keeps_intros "closure rules for programs that keep a protocol"

lemma keeps_ret [keeps_intros]: "(\<And>d. I d \<Longrightarrow> P d \<Longrightarrow> Q a d) \<Longrightarrow> keeps I R P (ret a) Q"
  unfolding keeps_def by (intro allI triple_ret) blast

lemma keeps_raise [keeps_intros]: "keeps I R P (raise e) Q"
  unfolding keeps_def by (intro allI triple_raise) blast

lemma keeps_lift [keeps_intros]:
  "(\<And>a d. r = Inr a \<Longrightarrow> I d \<Longrightarrow> P d \<Longrightarrow> Q a d) \<Longrightarrow> keeps I R P (lift r) Q"
  unfolding keeps_def by (intro allI triple_lift) blast+

lemma keeps_uuid4 [keeps_intros]:
  "(\<And>a d. I d \<Longrightarrow> P d \<Longrightarrow> Q a d) \<Longrightarrow> keeps I R P uuid4 Q"
  unfolding keeps_def by (intro allI triple_uuid4) blast

lemma keeps_receive [keeps_intros]:
  "(\<And>a d. I d \<Longrightarrow> P d \<Longrightarrow> Q a d) \<Longrightarrow> keeps I R P receive Q"
  unfolding keeps_def by (intro allI triple_receive) blast

lemma keeps_bind:
  assumes "keeps I R P m Q'" and "\<And>a. keeps I R (Q' a) (f a) Q"
  shows "keeps I R P (bindM m f) Q"
  using assms unfolding keeps_def by (blast intro: triple_bind)

lemma keeps_conseq:
  assumes "keeps I R P' m Q'" and "\<And>d. I d \<Longrightarrow> P d \<Longrightarrow> P' d"
    and "\<And>a d. I d \<Longrightarrow> Q' a d \<Longrightarrow> Q a d"
  shows "keeps I R P m Q"
  unfolding keeps_def
proof
  fix d0
  have t: "triple R (\<lambda>d. I d \<and> R d0 d \<and> P' d) m (\<lambda>a d. I d \<and> R d0 d \<and> Q' a d)
      (\<lambda>_ d. I d \<and> R d0 d)"
    using assms(1) unfolding keeps_def by blast
  show "triple R (\<lambda>d. I d \<and> R d0 d \<and> P d) m (\<lambda>a d. I d \<and> R d0 d \<and> Q a d)
      (\<lambda>_ d. I d \<and> R d0 d)"
    by (rule triple_conseq [OF t]) (use assms(2,3) in blast)+
qed

lemma keeps_pure: "(A \<Longrightarrow> keeps I R P m Q) \<Longrightarrow> keeps I R (\<lambda>d. A \<and> P d) m Q"
  unfolding keeps_def triple_def by blast

lemma keeps_safe: "safe I R m \<Longrightarrow> keeps I R P m (\<lambda>_ _. True)"
  by (rule keeps_conseq) auto

lemma safe_bind [keeps_intros]:
  "safe I R m \<Longrightarrow> (\<And>a. safe I R (f a)) \<Longrightarrow> safe I R (bindM m f)"
  by (rule keeps_bind)

lemma keeps_if [keeps_intros]:
  "(b \<Longrightarrow> keeps I R P m Q) \<Longrightarrow> (\<not> b \<Longrightarrow> keeps I R P m' Q) \<Longrightarrow>
   keeps I R P (if b then m else m') Q"
  by simp

lemma keeps_case_option [keeps_intros]:
  "(x = None \<Longrightarrow> keeps I R P m Q) \<Longrightarrow> (\<And>a. x = Some a \<Longrightarrow> keeps I R P (f a) Q) \<Longrightarrow>
   keeps I R P (case x of None \<Rightarrow> m | Some a \<Rightarrow> f a) Q"
  by (cases x) simp_all

lemma keeps_case_prod [keeps_intros]:
  "(\<And>a b. x = (a, b) \<Longrightarrow> keeps I R P (f a b) Q) \<Longrightarrow> keeps I R P (case x of (a, b) \<Rightarrow> f a b) Q"
  by (cases x) simp

lemma keeps_case_sum [keeps_intros]:
  "(\<And>a. x = Inl a \<Longrightarrow> keeps I R P (f a) Q) \<Longrightarrow> (\<And>b. x = Inr b \<Longrightarrow> keeps I R P (g b) Q) \<Longrightarrow>
   keeps I R P (case x of Inl a \<Rightarrow> f a | Inr b \<Rightarrow> g b) Q"
  by (cases x) simp_all

lemma safe_catch [keeps_intros]:
  assumes "safe I R m" and "\<And>e. safe I R (h e)"
  shows "safe I R (catch m h)"
  unfolding keeps_def
proof
  fix d0
  have m: "triple R (\<lambda>d. I d \<and> R d0 d \<and> True) m (\<lambda>a d. I d \<and> R d0 d \<and> True)
      (\<lambda>_ d. I d \<and> R d0 d \<and> True)"
    using assms(1) unfolding keeps_def by simp
  show "triple R (\<lambda>d. I d \<and> R d0 d \<and> True) (catch m h) (\<lambda>a d. I d \<and> R d0 d \<and> True)
      (\<lambda>_ d. I d \<and> R d0 d)"
    by (rule triple_catch [OF m]) (use assms(2) in \<open>auto simp: keeps_def\<close>)
qed

lemma safe_tryM [keeps_intros]:
  assumes "safe I R m" and "\<And>e. safe I R (h e)" and "\<And>a. safe I R (f a)"
  shows "safe I R (tryM m h f)"
proof -
  have "tryM m h f = bindM (catch (bindM m (\<lambda>a. ret (Inr a))) (\<lambda>e. ret (Inl e)))
      (\<lambda>r. case r of Inl e \<Rightarrow> h e | Inr a \<Rightarrow> f a)"
    by (intro ext)
      (auto simp: tryM_def bindM_def catch_def ret_def split: prod.splits sum.splits)
  then show ?thesis by (simp only:) (intro keeps_intros assms TrueI)
qed

lemma safe_finallyM [keeps_intros]:
  assumes "safe I R m" and "safe I R u"
  shows "safe I R (finallyM m u)"
proof -
  have "finallyM m u = bindM (catch (bindM m (\<lambda>a. ret (Inr a))) (\<lambda>e. ret (Inl e)))
      (\<lambda>r. bindM (catch u (\<lambda>_. ret ())) (\<lambda>_. lift r))"
    by (intro ext)
      (auto simp: finallyM_def bindM_def catch_def ret_def lift_def split: prod.splits sum.splits)
  then show ?thesis by (simp only:) (intro keeps_intros assms TrueI)
qed

lemma keepsD:
  assumes "keeps I R P m Q" and "\<And>d. R d d" and "env_in R w" and "I (wdb w)" and "P (wdb w)"
    and "m w = (r, w')"
  shows "I (wdb w') \<and> R (wdb w) (wdb w') \<and> (\<forall>a. r = Inr a \<longrightarrow> Q a (wdb w'))"
proof -
  have "triple R (\<lambda>d. I d \<and> R (wdb w) d \<and> P d) m (\<lambda>a d. I d \<and> R (wdb w) d \<and> Q a d)
      (\<lambda>_ d. I d \<and> R (wdb w) d)"
    using assms(1) unfolding keeps_def by blast
  from tripleE [OF this assms(3) _ assms(6)] assms(2,4,5) show ?thesis by (cases r) auto
qed

locale protocol =
  fixes inv :: "'d \<Rightarrow> bool" and R :: "'d \<Rightarrow> 'd \<Rightarrow> bool"
  assumes rely_refl: "R d d"
    and rely_trans: "R d d' \<Longrightarrow> R d' d'' \<Longrightarrow> R d d''"
    and rely_inv: "R d d' \<Longrightarrow> inv d \<Longrightarrow> inv d'"
    and rely_vacuous: "\<not> inv d \<Longrightarrow> R d d'"
begin

lemma stable_true: "stable R (\<lambda>d. inv d \<and> True)"
  unfolding stable_def using rely_inv by blast

lemma stable_since:
  "stable R (\<lambda>d. inv d \<and> P d) \<Longrightarrow> stable R (\<lambda>d. inv d \<and> R d0 d \<and> P d)"
  using rely_trans unfolding stable_def by blast

lemma keeps_stmt:
  assumes "stable R (\<lambda>d. inv d \<and> P d)"
    and "\<And>d a d'. inv d \<Longrightarrow> P d \<Longrightarrow> f d = Inr (a, d') \<Longrightarrow> R d d' \<and> Q a d'"
  shows "keeps inv R P (stmt f) Q"
  unfolding keeps_def
proof (intro allI triple_stmt stable_since assms(1))
  fix d0 d a d'
  assume d: "inv d \<and> R d0 d \<and> P d" and f: "f d = Inr (a, d')"
  with assms(2) have "R d d' \<and> Q a d'" by blast
  with d rely_inv rely_trans
  show "(inv d' \<and> R d0 d' \<and> Q a d') \<and> inv d' \<and> R d0 d'" by blast
qed auto

lemma safe_stmt:
  assumes "\<And>d a d'. inv d \<Longrightarrow> f d = Inr (a, d') \<Longrightarrow> R d d'"
  shows "safe inv R (stmt f)"
  by (rule keeps_stmt [OF stable_true]) (use assms in blast)

lemma keeps_query:
  assumes "stable R (\<lambda>d. inv d \<and> P d)" and "\<And>d. inv d \<Longrightarrow> P d \<Longrightarrow> Q (q d) d"
  shows "keeps inv R P (query q) Q"
  unfolding query_def by (rule keeps_stmt) (use assms rely_refl in auto)

lemma safe_query: "safe inv R (query q)"
  by (rule keeps_query [OF stable_true]) simp

lemma keeps_emit:
  assumes "stable R (\<lambda>d. inv d \<and> P d)" and "\<And>d. inv d \<Longrightarrow> P d \<Longrightarrow> R d (f d) \<and> Q () (f d)"
  shows "keeps inv R P (emit f) Q"
  unfolding keeps_def
proof (intro allI triple_emit stable_since assms(1))
  fix d0 d
  assume d: "inv d \<and> R d0 d \<and> P d"
  with assms(2) have "R d (f d) \<and> Q () (f d)" by blast
  with d rely_inv rely_trans show "inv (f d) \<and> R d0 (f d) \<and> Q () (f d)" by blast
qed

lemma safe_emit: "(\<And>d. inv d \<Longrightarrow> R d (f d)) \<Longrightarrow> safe inv R (emit f)"
  by (rule keeps_emit [OF stable_true]) blast

lemma safe_run:
  assumes "safe inv R m" and "env_in R w" and "inv (wdb w)"
  shows "inv (wdb (snd (m w))) \<and> R (wdb w) (wdb (snd (m w)))"
  using keepsD [OF assms(1) rely_refl assms(2,3), of "fst (m w)" "snd (m w)"] by simp

lemma keeps_run:
  assumes "keeps inv R P m Q" and "env_in R w" and "inv (wdb w)" and "P (wdb w)"
    and "fst (m w) = Inr a"
  shows "Q a (wdb (snd (m w)))"
proof -
  from assms(5) have "m w = (Inr a, snd (m w))" by (metis prod.collapse)
  from keepsD [OF assms(1) rely_refl assms(2-4) this] show ?thesis by simp
qed

text \<open>What interference cannot invalidate is still true after a program that keeps the protocol.\<close>

lemma keeps_run_full:
  assumes m: "keeps inv R P m Q" and st: "stable R (\<lambda>d. inv d \<and> F d)"
    and w: "env_in R w" "inv (wdb w) \<and> R d0 (wdb w) \<and> P (wdb w) \<and> F (wdb w)" "m w = (r, w')"
  shows "env_in R w' \<and> inv (wdb w') \<and> R d0 (wdb w') \<and> F (wdb w') \<and> (\<forall>a. r = Inr a \<longrightarrow> Q a (wdb w'))"
proof -
  from m have t: "triple R (\<lambda>d. inv d \<and> R (wdb w) d \<and> P d) m
      (\<lambda>a d. inv d \<and> R (wdb w) d \<and> Q a d) (\<lambda>_ d. inv d \<and> R (wdb w) d)"
    unfolding keeps_def by blast
  from w(2) rely_refl have "inv (wdb w) \<and> R (wdb w) (wdb w) \<and> P (wdb w)" by blast
  from tripleE [OF t w(1) this w(3)]
  have e: "env_in R w'" "inv (wdb w')" "R (wdb w) (wdb w')"
    and q: "\<And>a. r = Inr a \<Longrightarrow> Q a (wdb w')"
    by (cases r; auto)+
  from st w(2) e(3) have "F (wdb w')" unfolding stable_def by blast
  with e q w(2) rely_trans [OF _ e(3)] show ?thesis by blast
qed

lemma keeps_frame:
  assumes m: "keeps inv R P m Q" and st: "stable R (\<lambda>d. inv d \<and> F d)"
  shows "keeps inv R (\<lambda>d. P d \<and> F d) m (\<lambda>a d. Q a d \<and> F d)"
  unfolding keeps_def
proof (intro allI tripleI)
  fix d0 w r w'
  assume w: "env_in R w" "inv (wdb w) \<and> R d0 (wdb w) \<and> P (wdb w) \<and> F (wdb w)" "m w = (r, w')"
  from keeps_run_full [OF m st w]
  show "env_in R w' \<and> post (\<lambda>a d. inv d \<and> R d0 d \<and> Q a d \<and> F d)
      (\<lambda>_ d. inv d \<and> R d0 d) r (wdb w')"
    by (cases r) auto
qed

text \<open>A handler, too, starts where a fact that interference cannot invalidate still holds.\<close>

lemma keeps_catch:
  assumes st: "stable R (\<lambda>d. inv d \<and> P d)"
    and m: "keeps inv R P m Q" and h: "\<And>e. keeps inv R P (h e) Q"
  shows "keeps inv R P (catch m h) Q"
  unfolding keeps_def
proof (intro allI tripleI)
  fix d0 w r w'
  assume w: "env_in R w" "inv (wdb w) \<and> R d0 (wdb w) \<and> P (wdb w)" and run: "catch m h w = (r, w')"
  obtain x w1 where mw: "m w = (x, w1)" by force
  have 1: "env_in R w1 \<and> inv (wdb w1) \<and> R d0 (wdb w1) \<and> P (wdb w1) \<and> (\<forall>a. x = Inr a \<longrightarrow> Q a (wdb w1))"
    by (rule keeps_run_full [OF m st w(1) _ mw]) (use w(2) in blast)
  show "env_in R w' \<and> post (\<lambda>a d. inv d \<and> R d0 d \<and> Q a d) (\<lambda>_ d. inv d \<and> R d0 d) r (wdb w')"
  proof (cases x)
    case (Inl e)
    with mw run have "h e w1 = (r, w')" by (simp add: catch_def)
    from keeps_run_full [OF h st _ _ this, of d0] 1 show ?thesis by (cases r) auto
  next
    case (Inr a)
    with 1 mw run show ?thesis by (auto simp: catch_def)
  qed
qed

lemma keeps_tryM:
  assumes st: "stable R (\<lambda>d. inv d \<and> P d)" and m: "keeps inv R P m Q'"
    and h: "\<And>e. keeps inv R P (h e) Q" and f: "\<And>a. keeps inv R (Q' a) (f a) Q"
  shows "keeps inv R P (tryM m h f) Q"
  unfolding keeps_def
proof (intro allI tripleI)
  fix d0 w r w'
  assume w: "env_in R w" "inv (wdb w) \<and> R d0 (wdb w) \<and> P (wdb w)" and run: "tryM m h f w = (r, w')"
  obtain x w1 where mw: "m w = (x, w1)" by force
  have 1: "env_in R w1 \<and> inv (wdb w1) \<and> R d0 (wdb w1) \<and> P (wdb w1) \<and> (\<forall>a. x = Inr a \<longrightarrow> Q' a (wdb w1))"
    by (rule keeps_run_full [OF m st w(1) _ mw]) (use w(2) in blast)
  show "env_in R w' \<and> post (\<lambda>a d. inv d \<and> R d0 d \<and> Q a d) (\<lambda>_ d. inv d \<and> R d0 d) r (wdb w')"
  proof (cases x)
    case (Inl e)
    with mw run have "h e w1 = (r, w')" by (simp add: tryM_def)
    from keeps_run_full [OF h st _ _ this, of d0] 1 show ?thesis by (cases r) auto
  next
    case (Inr a)
    with mw run have "f a w1 = (r, w')" by (simp add: tryM_def)
    from f [of a] have "triple R (\<lambda>d. inv d \<and> R d0 d \<and> Q' a d) (f a)
        (\<lambda>a d. inv d \<and> R d0 d \<and> Q a d) (\<lambda>_ d. inv d \<and> R d0 d)"
      unfolding keeps_def by blast
    from tripleE [OF this _ _ \<open>f a w1 = (r, w')\<close>] 1 Inr show ?thesis by auto
  qed
qed

text \<open>
  A whole program of another worker is itself admissible interference: the relation is
  closed under everything that keeps the protocol.
\<close>

lemma program_interferes:
  assumes "safe inv R m" and "env_in R w"
  shows "R d (wdb (snd (m (w\<lparr>wdb := d\<rparr>))))"
proof (cases "inv d")
  case True
  with safe_run [OF assms(1), of "w\<lparr>wdb := d\<rparr>"] assms(2) show ?thesis by simp
qed (rule rely_vacuous)

lemma stmt_interferes:
  assumes "\<And>d a d'. inv d \<Longrightarrow> f d = Inr (a, d') \<Longrightarrow> R d d'"
  shows "R d (case f d of Inl e \<Rightarrow> d | Inr p \<Rightarrow> snd p)"
  using assms rely_vacuous rely_refl by (cases "inv d") (auto split: sum.splits)

lemmas protocol_intros = keeps_intros safe_query

end

end
