(* ===== verification/Py_Values.thy ===== *)
theory Py_Values
  imports Complex_Main Effects
begin

section \<open>Python values: strings, JSON documents, conversions\<close>

text \<open>
  Strings are lists of \<open>char\<close>, read as the code points U+0000 to U+00FF; \<open>strip\<close>, \<open>lower\<close>,
  \<open>isalnum\<close> and \<open>isspace\<close> are Python's, restricted to these code points.  A JSON document is the
  datatype \<open>json\<close>: integers are unbounded, a float is the rational number it denotes, an
  object is the association list of a Python \<open>dict\<close> (insertion order, distinct keys).
  \<open>py_eq\<close> is Python's \<open>==\<close>: it ignores the order of a dict and compares numbers by value.
\<close>

datatype json =
    JNull
  | JBool bool
  | JInt int
  | JFloat rat
  | JStr string
  | JArr "json list"
  | JObj "(string \<times> json) list"

type_synonym jdict = "(string \<times> json) list"

named_theorems json_simps "evaluation of JSON accessors"

subsection \<open>Strings\<close>

definition code_point :: "char \<Rightarrow> nat" where
  "code_point c = of_char c"

definition is_space :: "char \<Rightarrow> bool" where
  "is_space c \<longleftrightarrow> (let n = code_point c in
     (9 \<le> n \<and> n \<le> 13) \<or> (28 \<le> n \<and> n \<le> 32) \<or> n = 133 \<or> n = 160)"

definition is_digit :: "char \<Rightarrow> bool" where
  "is_digit c \<longleftrightarrow> 48 \<le> code_point c \<and> code_point c \<le> 57"

definition is_alnum :: "char \<Rightarrow> bool" where
  "is_alnum c \<longleftrightarrow> (let n = code_point c in
     (48 \<le> n \<and> n \<le> 57) \<or> (65 \<le> n \<and> n \<le> 90) \<or> (97 \<le> n \<and> n \<le> 122)
     \<or> n = 170 \<or> n = 178 \<or> n = 179 \<or> n = 181 \<or> (185 \<le> n \<and> n \<le> 186) \<or> (188 \<le> n \<and> n \<le> 190)
     \<or> (192 \<le> n \<and> n \<le> 214) \<or> (216 \<le> n \<and> n \<le> 246) \<or> 248 \<le> n)"

definition lower_char :: "char \<Rightarrow> char" where
  "lower_char c = (let n = code_point c in
     if (65 \<le> n \<and> n \<le> 90) \<or> (192 \<le> n \<and> n \<le> 222 \<and> n \<noteq> 215) then char_of (n + 32) else c)"

definition py_strip :: "string \<Rightarrow> string" where
  "py_strip s = rev (dropWhile is_space (rev (dropWhile is_space s)))"

definition py_lower :: "string \<Rightarrow> string" where
  "py_lower s = map lower_char s"

definition py_startswith :: "string \<Rightarrow> string \<Rightarrow> bool" where
  "py_startswith s p \<longleftrightarrow> take (length p) s = p"

definition py_endswith :: "string \<Rightarrow> string \<Rightarrow> bool" where
  "py_endswith s p \<longleftrightarrow> py_startswith (rev s) (rev p)"

definition utf8_length :: "string \<Rightarrow> nat" where
  "utf8_length s = sum_list (map (\<lambda>c. if code_point c < 128 then 1 else 2) s)"

fun py_contains :: "string \<Rightarrow> string \<Rightarrow> bool" where
  "py_contains p [] = (p = [])"
| "py_contains p (c # cs) = (py_startswith (c # cs) p \<or> py_contains p cs)"

fun split_on :: "char \<Rightarrow> string \<Rightarrow> string list" where
  "split_on c [] = [[]]"
| "split_on c (x # xs) = (if x = c then [] # split_on c xs
     else (case split_on c xs of [] \<Rightarrow> [[x]] | y # ys \<Rightarrow> (x # y) # ys))"

fun digits_of :: "nat \<Rightarrow> string" where
  "digits_of n = (if n < 10 then [char_of (48 + n)]
                  else digits_of (n div 10) @ [char_of (48 + n mod 10)])"

declare digits_of.simps [simp del]

definition py_str_int :: "int \<Rightarrow> string" where
  "py_str_int i = (if i < 0 then ''-'' @ digits_of (nat (- i)) else digits_of (nat i))"

fun parse_digits :: "bool \<Rightarrow> int \<Rightarrow> string \<Rightarrow> int option" where
  "parse_digits d acc [] = (if d then Some acc else None)"
| "parse_digits d acc (c # cs) =
     (if is_digit c then parse_digits True (acc * 10 + int (code_point c) - 48) cs
      else if c = CHR ''_'' \<and> d then parse_digits False acc cs
      else None)"

definition py_int_str :: "string \<Rightarrow> int option" where
  "py_int_str s = (if 4300 < length (filter is_digit s) then None
     else case py_strip s of
       [] \<Rightarrow> None
     | c # cs \<Rightarrow>
         if c = CHR ''-'' then map_option uminus (parse_digits False 0 cs)
         else if c = CHR ''+'' then parse_digits False 0 cs
         else parse_digits False 0 (c # cs))"

subsection \<open>JSON documents\<close>

fun truthy :: "json \<Rightarrow> bool" where
  "truthy JNull = False"
| "truthy (JBool b) = b"
| "truthy (JInt i) = (i \<noteq> 0)"
| "truthy (JFloat q) = (q \<noteq> 0)"
| "truthy (JStr s) = (s \<noteq> [])"
| "truthy (JArr xs) = (xs \<noteq> [])"
| "truthy (JObj kvs) = (kvs \<noteq> [])"

definition jget :: "jdict \<Rightarrow> string \<Rightarrow> json" where
  "jget kvs k = (case map_of kvs k of None \<Rightarrow> JNull | Some v \<Rightarrow> v)"

definition jget_default :: "jdict \<Rightarrow> string \<Rightarrow> json \<Rightarrow> json" where
  "jget_default kvs k d = (case map_of kvs k of None \<Rightarrow> d | Some v \<Rightarrow> v)"

definition py_or :: "json \<Rightarrow> json \<Rightarrow> json" where
  "py_or a b = (if truthy a then a else b)"

definition dict_set :: "string \<Rightarrow> 'v \<Rightarrow> (string \<times> 'v) list \<Rightarrow> (string \<times> 'v) list" where
  "dict_set k v kvs = (if k \<in> fst ` set kvs
     then map (\<lambda>(k', v'). if k' = k then (k', v) else (k', v')) kvs else kvs @ [(k, v)])"

definition restrict_keys :: "string list \<Rightarrow> (string \<times> 'v) list \<Rightarrow> (string \<times> 'v) list" where
  "restrict_keys ks kvs = filter (\<lambda>kv. fst kv \<in> set ks) kvs"

fun num_value :: "json \<Rightarrow> rat option" where
  "num_value (JBool b) = Some (if b then 1 else 0)"
| "num_value (JInt i) = Some (of_int i)"
| "num_value (JFloat q) = Some q"
| "num_value _ = None"

fun py_eq :: "json \<Rightarrow> json \<Rightarrow> bool"
  and py_eq_list :: "json list \<Rightarrow> json list \<Rightarrow> bool"
  and py_eq_obj :: "jdict \<Rightarrow> jdict \<Rightarrow> bool" where
  "py_eq JNull w = (w = JNull)"
| "py_eq (JStr s) w = (w = JStr s)"
| "py_eq (JArr xs) w = (case w of JArr ys \<Rightarrow> py_eq_list xs ys | _ \<Rightarrow> False)"
| "py_eq (JObj xs) w = (case w of JObj ys \<Rightarrow> length xs = length ys \<and> py_eq_obj xs ys | _ \<Rightarrow> False)"
| "py_eq v w = (num_value w = num_value v)"
| "py_eq_list [] ys = (ys = [])"
| "py_eq_list (x # xs) ys = (case ys of [] \<Rightarrow> False | y # ys' \<Rightarrow> py_eq x y \<and> py_eq_list xs ys')"
| "py_eq_obj [] ys = True"
| "py_eq_obj ((k, v) # xs) ys =
     ((case map_of ys k of None \<Rightarrow> False | Some v' \<Rightarrow> py_eq v v') \<and> py_eq_obj xs ys)"

definition dict_eq :: "jdict \<Rightarrow> jdict \<Rightarrow> bool" where
  "dict_eq xs ys \<longleftrightarrow> py_eq (JObj xs) (JObj ys)"

fun json_wf :: "json \<Rightarrow> bool" where
  "json_wf (JArr xs) = (\<forall>x \<in> set xs. json_wf x)"
| "json_wf (JObj kvs) = (distinct (map fst kvs) \<and> (\<forall>kv \<in> set kvs. json_wf (snd kv)))"
| "json_wf _ = True"

subsection \<open>Conversions\<close>

text \<open>
  \<open>repr\<close> stands for Python's rendering of floats, lists and dicts by \<open>str()\<close>, which no
  statement below depends on.
\<close>

fun py_str :: "(json \<Rightarrow> string) \<Rightarrow> json \<Rightarrow> string" where
  "py_str repr (JStr s) = s"
| "py_str repr (JInt i) = py_str_int i"
| "py_str repr (JBool b) = (if b then ''True'' else ''False'')"
| "py_str repr JNull = ''None''"
| "py_str repr v = repr v"

fun py_int :: "json \<Rightarrow> exn + int" where
  "py_int (JInt i) = Inr i"
| "py_int (JBool b) = Inr (if b then 1 else 0)"
| "py_int (JFloat q) = Inr (if 0 \<le> q then floor q else ceiling q)"
| "py_int (JStr s) = (case py_int_str s of
     Some i \<Rightarrow> Inr i | None \<Rightarrow> Inl (ValueError ''invalid literal for int() with base 10''))"
| "py_int _ = Inl TypeError"

definition py_float :: "(string \<Rightarrow> rat option) \<Rightarrow> json \<Rightarrow> exn + rat" where
  "py_float parse v = (case v of
     JStr s \<Rightarrow> (case parse s of Some q \<Rightarrow> Inr q | None \<Rightarrow> Inl (ValueError ''could not convert string to float''))
   | _ \<Rightarrow> (case num_value v of Some q \<Rightarrow> Inr q | None \<Rightarrow> Inl TypeError))"

fun json_object :: "(string \<Rightarrow> json option) \<Rightarrow> json \<Rightarrow> jdict" where
  "json_object loads (JObj kvs) = kvs"
| "json_object loads (JStr s) = (case loads s of Some (JObj kvs) \<Rightarrow> kvs | _ \<Rightarrow> [])"
| "json_object loads _ = []"

subsection \<open>Lemmas\<close>

lemma length_py_strip_le: "length (py_strip s) \<le> length s"
proof -
  have "length (py_strip s) \<le> length (dropWhile is_space s)"
    using length_dropWhile_le [of is_space "rev (dropWhile is_space s)"] by (simp add: py_strip_def)
  also have "\<dots> \<le> length s" by (rule length_dropWhile_le)
  finally show ?thesis .
qed

lemma jget_Nil [json_simps]: "jget [] k = JNull"
  by (simp add: jget_def)

lemma jget_Cons [json_simps]: "jget ((k', v) # kvs) k = (if k = k' then v else jget kvs k)"
  by (simp add: jget_def)

lemma jget_default_Nil [json_simps]: "jget_default [] k d = d"
  by (simp add: jget_default_def)

lemma jget_default_Cons [json_simps]:
  "jget_default ((k', v) # kvs) k d = (if k = k' then v else jget_default kvs k d)"
  by (simp add: jget_default_def)

lemma py_or_truthy [json_simps]: "truthy a \<Longrightarrow> py_or a b = a"
  by (simp add: py_or_def)

lemma py_or_falsy [json_simps]: "\<not> truthy a \<Longrightarrow> py_or a b = b"
  by (simp add: py_or_def)

lemma restrict_keys_idem [simp]: "restrict_keys ks (restrict_keys ks kvs) = restrict_keys ks kvs"
  by (simp add: restrict_keys_def)

lemma keys_restrict_keys: "fst ` set (restrict_keys ks kvs) \<subseteq> set ks"
  by (auto simp: restrict_keys_def)

lemma py_eq_refl:
  "json_wf v \<Longrightarrow> py_eq v v"
proof (induction v)
  case (JArr xs)
  have "(\<And>x. x \<in> set ys \<Longrightarrow> py_eq x x) \<Longrightarrow> py_eq_list ys ys" for ys
    by (induction ys) auto
  with JArr show ?case by auto
next
  case (JObj kvs)
  have "(\<And>k v. (k, v) \<in> set ys \<Longrightarrow> map_of kvs k = Some v \<and> py_eq v v) \<Longrightarrow> py_eq_obj ys kvs" for ys
    by (induction ys) force+
  moreover have "map_of kvs k = Some v \<and> py_eq v v" if "(k, v) \<in> set kvs" for k v
    using JObj that by (auto intro!: map_of_is_SomeI JObj.IH [of "(k, v)" v] simp: snds.simps)
  ultimately show ?case by simp
qed auto

lemma dict_eq_refl: "json_wf (JObj kvs) \<Longrightarrow> dict_eq kvs kvs"
  unfolding dict_eq_def by (rule py_eq_refl)

subsection \<open>Decimal digits\<close>

lemma code_point_char_of: "n < 256 \<Longrightarrow> code_point (char_of n) = n"
  by (simp add: code_point_def)

lemma digits_of_digits: "c \<in> set (digits_of n) \<Longrightarrow> is_digit c"
proof (induction n rule: digits_of.induct)
  case (1 n)
  then show ?case
    by (subst (asm) (2) digits_of.simps)
      (auto simp: is_digit_def code_point_char_of split: if_splits)
qed

lemma digits_of_nonempty [simp]: "digits_of n \<noteq> []"
  by (subst digits_of.simps) simp

lemma digit_inj: "i < 10 \<Longrightarrow> j < 10 \<Longrightarrow> char_of (48 + i) = (char_of (48 + j) :: char) \<Longrightarrow> i = (j :: nat)"
  using code_point_char_of [of "48 + i"] code_point_char_of [of "48 + j"] by simp

lemma digits_of_small: "n < 10 \<Longrightarrow> digits_of n = [char_of (48 + n)]"
  by (subst digits_of.simps) simp

lemma digits_of_big: "\<not> n < 10 \<Longrightarrow> digits_of n = digits_of (n div 10) @ [char_of (48 + n mod 10)]"
  by (subst digits_of.simps) simp

lemma digits_of_inj: "digits_of m = digits_of n \<Longrightarrow> m = n"
proof (induction m arbitrary: n rule: digits_of.induct)
  case (1 m)
  consider "m < 10" "n < 10" | "\<not> m < 10" "\<not> n < 10" | "(m < 10) \<noteq> (n < 10)" by blast
  then show ?case
  proof cases
    case 1
    with "1.prems" digit_inj [of m n] show ?thesis by (simp add: digits_of_small)
  next
    case 2
    with "1.prems" have "digits_of (m div 10) = digits_of (n div 10)"
      and "char_of (48 + m mod 10) = (char_of (48 + n mod 10) :: char)"
      by (simp_all add: digits_of_big)
    with "1.IH" [OF 2(1)] digit_inj [of "m mod 10" "n mod 10"] have "m div 10 = n div 10" "m mod 10 = n mod 10"
      by simp_all
    then show ?thesis by (metis mult_div_mod_eq)
  next
    case 3
    with "1.prems" show ?thesis by (cases "m < 10") (auto simp: digits_of_small digits_of_big digits_of_nonempty [symmetric])
  qed
qed

text \<open>Two texts of digits, a dash and anything: both parts can be read back.\<close>

lemma dashed_inj:
  assumes "digits_of m @ CHR ''-'' # v = digits_of n @ CHR ''-'' # w"
  shows "m = n \<and> v = w"
proof -
  have no: "CHR ''-'' \<notin> set (digits_of k)" for k
    using digits_of_digits [of "CHR ''-''" k] by (auto simp: is_digit_def code_point_def)
  have t: "takeWhile (\<lambda>c. c \<noteq> CHR ''-'') (digits_of k @ CHR ''-'' # u) = digits_of k" for k u
    using no [of k] by (subst takeWhile_append2) auto
  from arg_cong [OF assms, of "takeWhile (\<lambda>c. c \<noteq> CHR ''-'')"] have "digits_of m = digits_of n"
    unfolding t .
  with assms digits_of_inj show ?thesis by simp
qed

end
