(* ===== verification/Outbound.thy ===== *)
theory Outbound
  imports Py_Values
begin

section \<open>Guard on outbound destinations\<close>

text \<open>
  \<open>validate_outbound_url\<close> and its helpers of \<open>services/threat_intel.py\<close>: the check every
  webhook (and TAXII) destination passes before a request is made.  \<open>urlsplit\<close>, IDNA
  encoding, \<open>ipaddress\<close> and the resolver are parameters of the check: their results are
  part of its input (\<open>net_env\<close>, \<open>dns_answer\<close>).
\<close>

record url_parts =
  up_scheme :: string
  up_username :: string
  up_password :: string
  up_fragment :: string
  up_hostname :: string
  up_port_valid :: bool

datatype dns_answer = Resolved "string list" | Resolve_failed

record net_env =
  ne_production :: bool
  ne_allowlist :: string
  ne_urlsplit :: "string \<Rightarrow> url_parts option"
  ne_idna :: "string \<Rightarrow> string option"
  ne_ip_global :: "string \<Rightarrow> bool option"

datatype outbound_error = Rejected string | Unresolved string

definition rstrip_dots :: "string \<Rightarrow> string" where
  "rstrip_dots s = rev (dropWhile (\<lambda>c. c = CHR ''.'') (rev s))"

text \<open>One rule of the allowlist: an exact host, or \<open>*.suffix\<close> for its proper subdomains.\<close>

definition rule_matches :: "string \<Rightarrow> string \<Rightarrow> bool" where
  "rule_matches raw_rule normalized \<longleftrightarrow>
     (let rule = py_lower (rstrip_dots (py_strip raw_rule)) in
      if rule = [] \<or> py_contains ''://'' rule \<or> CHR ''/'' \<in> set rule then False
      else if py_startswith rule ''*.''
      then (let suffix = drop 2 rule in
            suffix \<noteq> [] \<and> normalized \<noteq> suffix \<and> py_endswith normalized (''.'' @ suffix))
      else CHR ''*'' \<notin> set rule \<and> normalized = rule)"

definition host_matches_outbound_allowlist :: "string \<Rightarrow> string \<Rightarrow> bool" where
  "host_matches_outbound_allowlist hostname allowlist =
     list_ex (\<lambda>raw. rule_matches raw (py_lower (rstrip_dots hostname)))
       (split_on (CHR '','') allowlist)"

text \<open>\<open>ne_ip_global a\<close>: None when \<open>a\<close> is no IP literal, else whether it is globally routable.\<close>

definition reject_non_public_address :: "net_env \<Rightarrow> string \<Rightarrow> bool" where
  "reject_non_public_address ne a \<longleftrightarrow> ne_ip_global ne a \<noteq> Some True"

definition validate_outbound_url ::
  "net_env \<Rightarrow> dns_answer \<Rightarrow> string \<Rightarrow> outbound_error + string" where
  "validate_outbound_url ne dns url =
     (let clean = py_strip url in
      case ne_urlsplit ne clean of
        None \<Rightarrow> Inl (Rejected ''invalid URL'')
      | Some parsed \<Rightarrow>
     (let allowed = (if ne_production ne then [''https''] else [''https'', ''http'']);
          hostname = py_lower (rstrip_dots (up_hostname parsed)) in
      if py_lower (up_scheme parsed) \<notin> set allowed then Inl (Rejected ''scheme'')
      else if up_username parsed \<noteq> [] \<or> up_password parsed \<noteq> []
      then Inl (Rejected ''embedded credentials'')
      else if up_fragment parsed \<noteq> [] then Inl (Rejected ''fragment'')
      else (case ne_idna ne hostname of
        None \<Rightarrow> Inl (Rejected ''hostname is invalid'')
      | Some host \<Rightarrow>
          if host = [] \<or> host \<in> {''localhost'', ''localhost.localdomain''}
          then Inl (Rejected ''requires a public hostname'')
          else if list_ex (py_endswith host) [''.local'', ''.internal'', ''.localhost'']
          then Inl (Rejected ''requires a public hostname'')
          else if ne_production ne \<and> \<not> host_matches_outbound_allowlist host (ne_allowlist ne)
          then Inl (Rejected ''not in OUTBOUND_HOST_ALLOWLIST'')
          else (case ne_ip_global ne host of
              Some True \<Rightarrow> Inr clean
            | Some False \<Rightarrow> Inl (Rejected ''non-public network address'')
            | None \<Rightarrow>
                if \<not> up_port_valid parsed then Inl (Rejected ''port'')
                else (case dns of
                    Resolve_failed \<Rightarrow> Inl (Unresolved ''hostname could not be resolved'')
                  | Resolved items \<Rightarrow>
                      (let addresses = map (\<lambda>a. takeWhile (\<lambda>c. c \<noteq> CHR ''%'') a) items in
                       if addresses = [] then Inl (Rejected ''hostname did not resolve'')
                       else if list_ex (reject_non_public_address ne) addresses
                       then Inl (Rejected ''non-public network address'')
                       else Inr clean))))))"

subsection \<open>Lemmas\<close>

lemma validate_returns_stripped:
  "validate_outbound_url ne dns url = Inr u \<Longrightarrow> u = py_strip url"
  by (auto simp: validate_outbound_url_def Let_def
      split: option.splits if_splits bool.splits dns_answer.splits)

text \<open>What acceptance means: every test of the guard, for the URL it returns.\<close>

definition public_destination :: "net_env \<Rightarrow> dns_answer \<Rightarrow> string \<Rightarrow> url_parts \<Rightarrow> string \<Rightarrow> bool" where
  "public_destination ne dns url parsed host \<longleftrightarrow>
     ne_urlsplit ne url = Some parsed
     \<and> py_lower (up_scheme parsed) \<in> (if ne_production ne then {''https''} else {''https'', ''http''})
     \<and> up_username parsed = [] \<and> up_password parsed = [] \<and> up_fragment parsed = []
     \<and> ne_idna ne (py_lower (rstrip_dots (up_hostname parsed))) = Some host
     \<and> host \<notin> {[], ''localhost'', ''localhost.localdomain''}
     \<and> (\<forall>suffix \<in> {''.local'', ''.internal'', ''.localhost''}. \<not> py_endswith host suffix)
     \<and> (ne_production ne \<longrightarrow> host_matches_outbound_allowlist host (ne_allowlist ne))
     \<and> (case ne_ip_global ne host of
          Some public \<Rightarrow> public
        | None \<Rightarrow> (\<exists>items. dns = Resolved items \<and> items \<noteq> [] \<and> (\<forall>a \<in> set items.
            ne_ip_global ne (takeWhile (\<lambda>c. c \<noteq> CHR ''%'') a) = Some True)))"

lemma validate_public:
  assumes "validate_outbound_url ne dns url = Inr u"
  shows "\<exists>parsed host. public_destination ne dns u parsed host"
  using assms validate_returns_stripped [OF assms]
  by (auto simp: validate_outbound_url_def public_destination_def Let_def list_ex_iff
      reject_non_public_address_def
      split: option.splits if_splits bool.splits dns_answer.splits)

lemma validate_complete:
  assumes "public_destination ne dns (py_strip url) parsed host"
    and "ne_ip_global ne host = None \<longrightarrow> up_port_valid parsed"
  shows "validate_outbound_url ne dns url = Inr (py_strip url)"
  using assms
  by (auto simp: validate_outbound_url_def public_destination_def Let_def list_ex_iff
      reject_non_public_address_def split: option.splits if_splits bool.splits)

lemma rule_matches_boundary:
  assumes "rule_matches raw host"
  shows "host = py_lower (rstrip_dots (py_strip raw))
    \<or> (\<exists>label suffix. py_lower (rstrip_dots (py_strip raw)) = ''*.'' @ suffix
         \<and> host = label @ ''.'' @ suffix \<and> suffix \<noteq> [])"
proof -
  let ?rule = "py_lower (rstrip_dots (py_strip raw))"
  show ?thesis
  proof (cases "py_startswith ?rule ''*.''")
    case False
    with assms show ?thesis by (auto simp: rule_matches_def Let_def split: if_splits)
  next
    case True
    let ?suffix = "drop 2 ?rule"
    from True have r: "?rule = ''*.'' @ ?suffix"
      by (metis append_take_drop_id length_Cons list.size(3) numeral_2_eq_2 py_startswith_def)
    from assms True have "?suffix \<noteq> []" and e: "py_endswith host (''.'' @ ?suffix)"
      by (auto simp: rule_matches_def Let_def split: if_splits)
    let ?n = "length (''.'' @ ?suffix)"
    from e have "take ?n (rev host) = rev (''.'' @ ?suffix)"
      unfolding py_endswith_def py_startswith_def by (simp only: length_rev)
    then have "rev (take ?n (rev host)) = ''.'' @ ?suffix" by simp
    then have "drop (length host - ?n) host = ''.'' @ ?suffix" by (simp add: rev_take)
    then have "host = take (length host - ?n) host @ ''.'' @ ?suffix"
      by (metis append_take_drop_id)
    with r \<open>?suffix \<noteq> []\<close> show ?thesis by blast
  qed
qed

end
