(* ===== verification/Platform.thy ===== *)
theory Platform
  imports Py_Values
begin

section \<open>Tenancy, principals and the audit trail\<close>

text \<open>
  The part of the database every service shares (the clock, tenant membership, the
  append-only audit table, and whether the secure schema is present), the authorisation
  gate of \<open>services/tenants.py\<close> and the mandatory audit writer of \<open>services/audit.py\<close>.
  The databases of the services extend \<open>core_db\<close>, so these programs run on each of them.
\<close>

datatype principal_kind = USER | SERVICE | ERASE_TOMBSTONE

definition kind_value :: "principal_kind \<Rightarrow> string" where
  "kind_value k = (case k of USER \<Rightarrow> ''user'' | SERVICE \<Rightarrow> ''service''
     | ERASE_TOMBSTONE \<Rightarrow> ''erase_tombstone'')"

record auth_user =
  au_user_id :: string
  au_kind :: principal_kind
  au_tenant_id :: "uuid option"
  au_subprocessor :: "string option"
  au_scopes :: "string list"
  au_token_prefix :: "string option"
  au_token_hash :: "string option"

definition actor_id :: "auth_user \<Rightarrow> string" where
  "actor_id u = (if au_kind u = SERVICE then ''svc:'' @ au_user_id u else au_user_id u)"

definition require_user_principal :: "auth_user \<Rightarrow> exn + auth_user" where
  "require_user_principal u = (if au_kind u \<noteq> USER
     then Inl (HTTPException 403 ''enterprise user JWT required (service tokens cannot perform this action)'')
     else Inr u)"

record member_row =
  tm_tenant :: uuid
  tm_user :: string
  tm_role :: string

record audit_row =
  ae_actor :: "string option"
  ae_tenant :: "uuid option"
  ae_action :: string
  ae_resource_type :: string
  ae_resource_id :: string
  ae_details :: jdict

record core_db =
  now :: time
  schema_ready :: bool
  tenant_members :: "member_row list"
  audit_events :: "audit_row list"

type_synonym ('z, 'x, 'a) core_prog = "('z core_db_scheme, 'x, 'a) prog"

text \<open>Reading the process clock.\<close>

definition read_clock :: "('z, 'x, time) core_prog" where
  "read_clock = (\<lambda>w. (Inr (now (wdb w)), w))"

lemma triple_read_clock [triple_intros]:
  "(\<And>a d. P d \<Longrightarrow> Q a d) \<Longrightarrow> triple R P read_clock Q E"
  by (rule tripleI) (auto simp: read_clock_def)

lemma keeps_read_clock [keeps_intros]:
  "(\<And>a d. I d \<Longrightarrow> P d \<Longrightarrow> Q a d) \<Longrightarrow> keeps I R P read_clock Q"
  unfolding keeps_def by (intro allI triple_read_clock) blast

subsection \<open>Authorisation\<close>

definition user_role_in_tenant :: "uuid \<Rightarrow> string \<Rightarrow> ('z, 'x, string option) core_prog" where
  "user_role_in_tenant tenant user = query (\<lambda>d.
     map_option tm_role
       (first_row (\<lambda>m. tm_tenant m = tenant \<and> tm_user m = user) (tenant_members d)))"

definition require_member ::
  "uuid \<Rightarrow> string \<Rightarrow> string list option \<Rightarrow> ('z, 'x, string) core_prog" where
  "require_member tenant user min_roles =
     bindM (user_role_in_tenant tenant user) (\<lambda>role. case role of
       None \<Rightarrow> raise (HTTPException 403 ''not a tenant member'')
     | Some r \<Rightarrow> (case min_roles of
         Some roles \<Rightarrow> if r \<notin> set roles then raise (HTTPException 403 ''insufficient role'') else ret r
       | None \<Rightarrow> ret r))"

definition service_has_scope :: "string list \<Rightarrow> string list \<Rightarrow> bool" where
  "service_has_scope scopes required \<longleftrightarrow>
     ''*'' \<in> set scopes \<or> list_ex (\<lambda>s. s \<in> set required) scopes"

definition require_tenant_access ::
  "auth_user \<Rightarrow> uuid \<Rightarrow> string list option \<Rightarrow> string list option \<Rightarrow> ('z, 'x, string) core_prog" where
  "require_tenant_access user tenant min_roles required_scopes =
     (if au_kind user = ERASE_TOMBSTONE
      then raise (HTTPException 403 ''erased credential is valid only for its completed erase receipt'')
      else if au_kind user = SERVICE
      then if au_tenant_id user \<noteq> Some tenant \<or> au_tenant_id user = Some []
           then raise (HTTPException 403 ''service principal is bound to a different tenant'')
           else (case required_scopes of
               Some (s # ss) \<Rightarrow>
                 if service_has_scope (au_scopes user) (s # ss) then ret ''service''
                 else raise (HTTPException 403 ''insufficient service scope'')
             | _ \<Rightarrow> ret ''service'')
      else require_member tenant (au_user_id user) min_roles)"

subsection \<open>The audit trail\<close>

definition forbidden_keys :: "string list" where
  "forbidden_keys = [''ciphertext'', ''plaintext'', ''nonce'', ''key'', ''private_key'', ''secret'',
     ''password'', ''token'', ''ratchet_header'', ''message_key'', ''session_key'']"

definition secret_key :: "string \<Rightarrow> bool" where
  "secret_key k \<longleftrightarrow> (let lk = py_lower k in
     lk \<in> set forbidden_keys \<or>
     list_ex (\<lambda>p. py_contains p lk) [''cipher'', ''secret'', ''private''])"

fun json_scalar :: "json \<Rightarrow> bool" where
  "json_scalar (JStr s) = True"
| "json_scalar (JInt i) = True"
| "json_scalar (JFloat q) = True"
| "json_scalar (JBool b) = True"
| "json_scalar _ = False"

fun sanitize_details :: "jdict \<Rightarrow> jdict" where
  "sanitize_details [] = []"
| "sanitize_details ((k, v) # kvs) =
     (if secret_key k then sanitize_details kvs
      else if json_scalar v \<or> v = JNull then (k, v) # sanitize_details kvs
      else (case v of
          JArr xs \<Rightarrow> if list_all json_scalar (take 50 xs)
                     then (k, JArr (take 50 xs)) # sanitize_details kvs
                     else sanitize_details kvs
        | JObj inner \<Rightarrow> (k, JObj (sanitize_details inner)) # sanitize_details kvs
        | _ \<Rightarrow> sanitize_details kvs))"

definition audit_record ::
  "string \<Rightarrow> string option \<Rightarrow> uuid option \<Rightarrow> string \<Rightarrow> string \<Rightarrow> jdict \<Rightarrow> audit_row" where
  "audit_record action actor tenant rtype rid details =
     \<lparr>ae_actor = actor, ae_tenant = tenant, ae_action = take 128 action,
      ae_resource_type = take 64 rtype, ae_resource_id = take 256 rid,
      ae_details = sanitize_details details\<rparr>"

definition add_audit :: "audit_row \<Rightarrow> 'z core_db_scheme \<Rightarrow> 'z core_db_scheme" where
  "add_audit row d = d\<lparr>audit_events := audit_events d @ [row]\<rparr>"

definition record_required ::
  "string \<Rightarrow> string option \<Rightarrow> uuid option \<Rightarrow> string \<Rightarrow> string \<Rightarrow> jdict \<Rightarrow>
   ('z, 'x, unit) core_prog" where
  "record_required action actor tenant rtype rid details =
     stmt (\<lambda>d. Inr ((), add_audit (audit_record action actor tenant rtype rid details) d))"

definition ensure_schema :: "string \<Rightarrow> ('z, 'x, unit) core_prog" where
  "ensure_schema missing =
     stmt (\<lambda>d. if schema_ready d then Inr ((), d) else Inl (RuntimeError missing))"

definition ensure_secure_schema :: "('z, 'x, unit) core_prog" where
  "ensure_secure_schema = ensure_schema ''secure schema missing''"

subsection \<open>Lemmas\<close>

text \<open>No key that looks like key material or ciphertext survives, at any depth.\<close>

fun audit_clean :: "json \<Rightarrow> bool" where
  "audit_clean (JObj kvs) = list_all (\<lambda>kv. \<not> secret_key (fst kv) \<and> audit_clean (snd kv)) kvs"
| "audit_clean (JArr xs) = (length xs \<le> 50 \<and> list_all json_scalar xs)"
| "audit_clean _ = True"

lemma audit_clean_scalar: "json_scalar v \<Longrightarrow> audit_clean v"
  by (cases v) auto

lemma sanitize_details_clean: "audit_clean (JObj (sanitize_details kvs))"
proof (induction kvs rule: sanitize_details.induct)
  case (2 k v kvs)
  then show ?case by (cases v) (auto simp: audit_clean_scalar split: if_splits)
qed simp

lemma sanitize_details_keys: "fst ` set (sanitize_details kvs) \<subseteq> fst ` set kvs"
proof (induction kvs)
  case (Cons kv kvs)
  then show ?case by (cases kv; cases "snd kv") auto
qed simp

lemma add_audit_simps [simp]:
  "now (add_audit r d) = now d" "schema_ready (add_audit r d) = schema_ready d"
  "tenant_members (add_audit r d) = tenant_members d"
  "audit_events (add_audit r d) = audit_events d @ [r]"
  "core_db.more (add_audit r d) = core_db.more d"
  by (simp_all add: add_audit_def)

text \<open>
  The interface between the platform and a service's protocol: writing an audit row is an
  admissible step.  Then the gate, the schema check and the audit writer keep the protocol.
\<close>

locale core_protocol = protocol inv R
  for inv :: "'z core_db_scheme \<Rightarrow> bool" and R :: "'z core_db_scheme \<Rightarrow> 'z core_db_scheme \<Rightarrow> bool" +
  assumes rely_audit: "inv d \<Longrightarrow> R d (add_audit row d)"
begin

lemma safe_record_required: "safe inv R (record_required act actor tenant rtype rid details)"
  unfolding record_required_def by (rule safe_stmt) (auto intro: rely_audit)

lemma safe_ensure_schema: "safe inv R (ensure_schema msg)"
  unfolding ensure_schema_def by (rule safe_stmt) (auto intro: rely_refl split: if_splits)

lemma safe_require_member: "safe inv R (require_member tenant u roles)"
  unfolding require_member_def user_role_in_tenant_def
  by (intro keeps_intros safe_query TrueI)

lemma safe_require_tenant_access: "safe inv R (require_tenant_access u tenant roles scopes)"
  unfolding require_tenant_access_def
  by (auto intro!: keeps_intros safe_require_member split: option.splits list.splits)

lemmas core_intros = keeps_intros safe_query safe_record_required safe_ensure_schema
  safe_require_tenant_access

end

lemma tenant_access_service_iff:
  assumes "au_kind u = SERVICE" and "tenant \<noteq> []"
  shows "fst (require_tenant_access u tenant roles (Some scopes) w) = Inr role \<longleftrightarrow>
    role = ''service'' \<and> au_tenant_id u = Some tenant
      \<and> (scopes = [] \<or> ''*'' \<in> set (au_scopes u) \<or> set (au_scopes u) \<inter> set scopes \<noteq> {})"
  using assms
  by (cases scopes)
    (auto simp: require_tenant_access_def service_has_scope_def list_ex_iff ret_def raise_def)

text \<open>Alone, the gates only read.\<close>

lemma require_tenant_access_quiet:
  "quiet w \<Longrightarrow> snd (require_tenant_access user tenant roles scopes w) = w"
  by (auto simp: require_tenant_access_def require_member_def user_role_in_tenant_def bindM_def
      query_quiet raise_def ret_def split: option.splits list.splits)

lemma ensure_schema_quiet: "quiet w \<Longrightarrow> snd (ensure_schema msg w) = w"
  by (simp add: ensure_schema_def stmt_quiet)

text \<open>Their answer depends on the membership table and on the schema only.\<close>

lemma require_tenant_access_stable:
  assumes "quiet w" and "quiet w'" and "tenant_members (wdb w') = tenant_members (wdb w)"
  shows "fst (require_tenant_access user tenant roles scopes w') =
    fst (require_tenant_access user tenant roles scopes w)"
  using assms
  by (auto simp: require_tenant_access_def require_member_def user_role_in_tenant_def bindM_def
      query_quiet raise_def ret_def split: option.splits list.splits)

lemma ensure_schema_stable:
  assumes "quiet w" and "quiet w'" and "schema_ready (wdb w') = schema_ready (wdb w)"
  shows "fst (ensure_schema msg w') = fst (ensure_schema msg w)"
  using assms by (simp add: ensure_schema_def stmt_quiet)

end
