(* ===== verification/Playbook_Plan.thy ===== *)
theory Playbook_Plan
  imports Outbound Platform
begin

section \<open>Playbooks: plans, webhook outcomes, run status\<close>

text \<open>
  The pure part of \<open>services/playbooks.py\<close>: the constants, the validation of an action's
  configuration, the normalisation of a frozen action plan, the classification of a webhook
  response, the durable outcome with its bounded backoff, and the run status that collapses
  the statuses of the actions.  \<open>py_env\<close> holds what the code takes from the standard library
  and from the settings.
\<close>

record py_env =
  pe_loads :: "string \<Rightarrow> json option"
  pe_dumps :: "json \<Rightarrow> string"
  pe_repr :: "json \<Rightarrow> string"
  pe_uuid :: "string \<Rightarrow> uuid option"
  pe_date :: "string \<Rightarrow> time option"
  pe_sha256 :: "string \<Rightarrow> string"
  pe_hmac :: "string \<Rightarrow> string \<Rightarrow> string"
  pe_secrets_json :: string
  pe_net :: net_env

datatype action_status = Running | Retry_scheduled | Awaiting_ack | Succeeded | Failed | Unsupported

datatype run_status = R_running | R_retrying | R_awaiting_ack | R_succeeded | R_partial | R_failed
  | R_unsupported

fun action_status_text :: "action_status \<Rightarrow> string" where
  "action_status_text Running = ''running''"
| "action_status_text Retry_scheduled = ''retry_scheduled''"
| "action_status_text Awaiting_ack = ''awaiting_ack''"
| "action_status_text Succeeded = ''succeeded''"
| "action_status_text Failed = ''failed''"
| "action_status_text Unsupported = ''unsupported''"

fun run_status_text :: "run_status \<Rightarrow> string" where
  "run_status_text R_running = ''running''"
| "run_status_text R_retrying = ''retrying''"
| "run_status_text R_awaiting_ack = ''awaiting_ack''"
| "run_status_text R_succeeded = ''succeeded''"
| "run_status_text R_partial = ''partial''"
| "run_status_text R_failed = ''failed''"
| "run_status_text R_unsupported = ''unsupported''"

definition control_plane_actions :: "string list" where
  "control_plane_actions = [''email_alert'', ''block_ip'', ''revoke_api_key'']"

definition action_configuration_keys :: "string \<Rightarrow> string list" where
  "action_configuration_keys t =
     (if t = ''webhook'' then [''url'', ''secret_ref'']
      else if t = ''email_alert'' then [''template'', ''channel_ref'']
      else if t = ''block_ip'' then [''provider_ref'', ''duration_seconds'']
      else if t = ''revoke_api_key'' then [''credential_ref'']
      else [])"

definition webhook_max_attempts :: int where "webhook_max_attempts = 5"
definition webhook_retry_base_seconds :: int where "webhook_retry_base_seconds = 5"
definition webhook_retry_cap_seconds :: int where "webhook_retry_cap_seconds = 300"
definition webhook_lease_seconds :: int where "webhook_lease_seconds = 30"

subsection \<open>Signing secrets and configuration\<close>

definition webhook_signing_secret :: "py_env \<Rightarrow> jdict \<Rightarrow> exn + (string \<times> string) option" where
  "webhook_signing_secret env configuration =
     (if ''secret_ref'' \<notin> fst ` set configuration then Inr None
      else (case jget configuration ''secret_ref'' of
        JStr secret_ref \<Rightarrow>
          if secret_ref = [] then Inl (ValueError ''webhook secret_ref is invalid'')
          else (case pe_loads env (if pe_secrets_json env = [] then ''{}'' else pe_secrets_json env) of
            Some (JObj configured) \<Rightarrow>
              (case jget configured secret_ref of
                JStr secret \<Rightarrow>
                  if utf8_length secret < 16
                  then Inl (ValueError ''webhook secret_ref is not configured'')
                  else Inr (Some (secret_ref, secret))
              | _ \<Rightarrow> Inl (ValueError ''webhook secret_ref is not configured''))
          | _ \<Rightarrow> Inl (ValueError ''webhook signing secret configuration is invalid''))
      | _ \<Rightarrow> Inl (ValueError ''webhook secret_ref is invalid'')))"

definition validate_action_configuration :: "py_env \<Rightarrow> string \<Rightarrow> jdict \<Rightarrow> exn + unit" where
  "validate_action_configuration env action_type configuration =
     (if action_type = ''webhook''
      then (case webhook_signing_secret env configuration of
          Inr _ \<Rightarrow> Inr ()
        | Inl (ValueError s) \<Rightarrow> Inl (HTTPException 422 s)
        | Inl e \<Rightarrow> Inl e)
      else Inr ())"

subsection \<open>Action plans\<close>

record plan_action =
  pl_key :: string
  pl_action_id :: "uuid option"
  pl_type :: string
  pl_config :: jdict
  pl_sort :: int

definition invalid_plan :: exn where
  "invalid_plan = HTTPException 409 ''playbook action plan is invalid''"

definition plan_key :: "py_env \<Rightarrow> nat \<Rightarrow> jdict \<Rightarrow> string" where
  "plan_key env ordinal raw =
     py_str (pe_repr env)
       (py_or (py_or (jget raw ''key'') (jget raw ''playbook_action_id''))
          (JStr (''plan:'' @ digits_of ordinal)))"

definition normalize_action :: "py_env \<Rightarrow> nat \<Rightarrow> string list \<Rightarrow> json \<Rightarrow> exn + plan_action" where
  "normalize_action env ordinal seen v =
     (case v of
        JObj raw \<Rightarrow>
          (let action_type =
                 take 64 (py_str (pe_repr env) (py_or (jget raw ''action_type'') (JStr [])));
               key = plan_key env ordinal raw in
           if action_type = [] \<or> \<not> (1 \<le> length key \<and> length key \<le> 128) \<or> key \<in> set seen
           then Inl invalid_plan
           else (case py_int (jget_default raw ''sort_order'' (JInt (int ordinal))) of
               Inl e \<Rightarrow> Inl e
             | Inr sort_order \<Rightarrow>
                 Inr \<lparr>pl_key = key,
                      pl_action_id =
                        pe_uuid env (py_str (pe_repr env) (jget raw ''playbook_action_id'')),
                      pl_type = action_type,
                      pl_config = restrict_keys (action_configuration_keys action_type)
                        (json_object (pe_loads env) (jget raw ''configuration'')),
                      pl_sort = sort_order\<rparr>))
      | _ \<Rightarrow> Inl invalid_plan)"

fun normalize_from :: "py_env \<Rightarrow> nat \<Rightarrow> string list \<Rightarrow> json list \<Rightarrow> exn + plan_action list" where
  "normalize_from env ordinal seen [] = Inr []"
| "normalize_from env ordinal seen (v # vs) =
     (case normalize_action env ordinal seen v of
        Inl e \<Rightarrow> Inl e
      | Inr a \<Rightarrow> (case normalize_from env (Suc ordinal) (pl_key a # seen) vs of
            Inl e \<Rightarrow> Inl e
          | Inr rest \<Rightarrow> Inr (a # rest)))"

definition normalize_action_plan :: "py_env \<Rightarrow> json \<Rightarrow> exn + plan_action list" where
  "normalize_action_plan env value =
     (let normalize_list = (\<lambda>v. case v of
            JArr xs \<Rightarrow> if 50 < length xs then Inl invalid_plan else normalize_from env 0 [] xs
          | _ \<Rightarrow> Inl invalid_plan) in
      case value of
        JStr s \<Rightarrow> (case pe_loads env s of None \<Rightarrow> Inl invalid_plan | Some v \<Rightarrow> normalize_list v)
      | v \<Rightarrow> normalize_list v)"

definition plan_action_json :: "plan_action \<Rightarrow> json" where
  "plan_action_json a = JObj
     [(''key'', JStr (pl_key a)),
      (''playbook_action_id'', case pl_action_id a of None \<Rightarrow> JNull | Some u \<Rightarrow> JStr u),
      (''action_type'', JStr (pl_type a)),
      (''configuration'', JObj (pl_config a)),
      (''sort_order'', JInt (pl_sort a))]"

definition plan_json :: "plan_action list \<Rightarrow> json" where
  "plan_json p = JArr (map plan_action_json p)"

subsection \<open>Webhook outcomes\<close>

record webhook_outcome =
  wo_status :: action_status
  wo_code :: "int option"
  wo_error :: "string option"
  wo_metadata :: jdict
  wo_retryable :: bool
  wo_retry_after :: "int option"

record durable_outcome =
  do_status :: action_status
  do_code :: "int option"
  do_error :: "string option"
  do_metadata :: jdict
  do_retry_after :: "int option"

definition failure :: "int option \<Rightarrow> string \<Rightarrow> bool \<Rightarrow> int option \<Rightarrow> webhook_outcome" where
  "failure code err retryable retry_after =
     \<lparr>wo_status = Failed, wo_code = code, wo_error = Some err, wo_metadata = [],
      wo_retryable = retryable, wo_retry_after = retry_after\<rparr>"

definition retry_backoff_seconds :: "int \<Rightarrow> int option \<Rightarrow> int" where
  "retry_backoff_seconds attempt retry_after =
     (let exponent = max 0 (min (attempt - 1) 10);
          delay = min webhook_retry_cap_seconds (webhook_retry_base_seconds * 2 ^ nat exponent);
          delay = (case retry_after of
              None \<Rightarrow> delay
            | Some s \<Rightarrow> max delay (min (max 0 s) webhook_retry_cap_seconds))
      in min delay webhook_retry_cap_seconds)"

definition parse_retry_after :: "py_env \<Rightarrow> string option \<Rightarrow> time \<Rightarrow> int option" where
  "parse_retry_after env value current =
     (case value of
        None \<Rightarrow> None
      | Some v \<Rightarrow>
          (let clean = py_strip v in
           if clean = [] then None
           else (case py_int_str clean of
               Some seconds \<Rightarrow> Some (min (max 0 seconds) webhook_retry_cap_seconds)
             | None \<Rightarrow> (case pe_date env clean of
                   None \<Rightarrow> None
                 | Some parsed \<Rightarrow>
                     Some (min (max 0 (- ((current - parsed) div 1000000)))
                             webhook_retry_cap_seconds)))))"

definition is_retryable_webhook_status :: "int \<Rightarrow> bool" where
  "is_retryable_webhook_status code \<longleftrightarrow>
     code \<in> {408, 425, 429} \<or> (500 \<le> code \<and> code < 600)"

definition response_error_code :: "int \<Rightarrow> string" where
  "response_error_code code =
     (if 300 \<le> code \<and> code < 400 then ''redirect_rejected''
      else if code = 429 then ''rate_limited''
      else if code = 408 then ''request_timeout''
      else if code = 425 then ''too_early''
      else if 500 \<le> code \<and> code < 600 then ''upstream_error''
      else ''http_error'')"

definition response_outcome ::
  "py_env \<Rightarrow> int \<Rightarrow> string option \<Rightarrow> time \<Rightarrow> webhook_outcome" where
  "response_outcome env code retry_after_value current =
     (if 200 \<le> code \<and> code < 300
      then \<lparr>wo_status = Succeeded, wo_code = Some code, wo_error = None, wo_metadata = [],
            wo_retryable = False, wo_retry_after = None\<rparr>
      else failure (Some code) (response_error_code code) (is_retryable_webhook_status code)
             (if is_retryable_webhook_status code
              then parse_retry_after env retry_after_value current else None))"

definition durable_webhook_outcome ::
  "webhook_outcome \<Rightarrow> int \<Rightarrow> int \<Rightarrow> durable_outcome" where
  "durable_webhook_outcome outcome attempt max_attempts =
     (let durable = \<lparr>do_status = wo_status outcome, do_code = wo_code outcome,
            do_error = wo_error outcome, do_metadata = wo_metadata outcome,
            do_retry_after = None\<rparr> in
      if wo_status outcome \<noteq> Failed \<or> \<not> wo_retryable outcome then durable
      else if max_attempts \<le> attempt
      then durable\<lparr>do_metadata := dict_set ''retry_exhausted'' (JBool True) (do_metadata durable)\<rparr>
      else (let delay = retry_backoff_seconds attempt (wo_retry_after outcome) in
        durable\<lparr>do_status := Retry_scheduled,
          do_metadata := dict_set ''retry_after_seconds'' (JInt delay)
            (dict_set ''retryable'' (JBool True) (do_metadata durable)),
          do_retry_after := Some delay\<rparr>))"

subsection \<open>Run status\<close>

definition summarize_action_statuses :: "action_status list \<Rightarrow> run_status" where
  "summarize_action_statuses statuses =
     (if statuses = [] then R_succeeded
      else if Running \<in> set statuses then R_running
      else if Retry_scheduled \<in> set statuses then R_retrying
      else if Awaiting_ack \<in> set statuses then R_awaiting_ack
      else if set statuses = {Succeeded} then R_succeeded
      else if set statuses = {Unsupported} then R_unsupported
      else if set statuses = {Failed} then R_failed
      else R_partial)"

definition run_complete :: "run_status \<Rightarrow> bool" where
  "run_complete s \<longleftrightarrow> s \<notin> {R_running, R_retrying, R_awaiting_ack}"

definition pending :: "action_status \<Rightarrow> bool" where
  "pending s \<longleftrightarrow> s \<in> {Running, Retry_scheduled, Awaiting_ack}"

subsection \<open>Lemmas: normalised plans\<close>

definition plan_action_ok :: "py_env \<Rightarrow> plan_action \<Rightarrow> bool" where
  "plan_action_ok env a \<longleftrightarrow>
     1 \<le> length (pl_key a) \<and> length (pl_key a) \<le> 128
     \<and> pl_type a \<noteq> [] \<and> length (pl_type a) \<le> 64
     \<and> fst ` set (pl_config a) \<subseteq> set (action_configuration_keys (pl_type a))
     \<and> (case pl_action_id a of
          None \<Rightarrow> pe_uuid env ''None'' = None | Some u \<Rightarrow> pe_uuid env u = Some u)"

definition plan_ok :: "py_env \<Rightarrow> plan_action list \<Rightarrow> bool" where
  "plan_ok env p \<longleftrightarrow> length p \<le> 50 \<and> distinct (map pl_key p) \<and> (\<forall>a \<in> set p. plan_action_ok env a)"

text \<open>
  What the code relies on of \<open>str(UUID(x))\<close>: it parses the canonical text it produced to
  itself, and rejects the text \<open>None\<close>.
\<close>

definition uuid_canonical :: "py_env \<Rightarrow> bool" where
  "uuid_canonical env \<longleftrightarrow>
     pe_uuid env ''None'' = None \<and> (\<forall>s u. pe_uuid env s = Some u \<longrightarrow> pe_uuid env u = Some u)"

lemma normalize_action_SomeD:
  assumes "normalize_action env n seen v = Inr a"
  shows "pl_key a \<notin> set seen \<and> 1 \<le> length (pl_key a) \<and> length (pl_key a) \<le> 128
    \<and> pl_type a \<noteq> [] \<and> length (pl_type a) \<le> 64
    \<and> fst ` set (pl_config a) \<subseteq> set (action_configuration_keys (pl_type a))
    \<and> (\<exists>s. pl_action_id a = pe_uuid env s)"
  using assms keys_restrict_keys
  by (fastforce simp: normalize_action_def Let_def split: json.splits if_splits sum.splits)

lemma normalize_from_SomeD:
  "normalize_from env n seen vs = Inr p \<Longrightarrow>
     length p = length vs \<and> distinct (map pl_key p) \<and> set (map pl_key p) \<inter> set seen = {}
     \<and> (\<forall>a \<in> set p. \<exists>m seen' v. normalize_action env m seen' v = Inr a)"
proof (induction vs arbitrary: n seen p)
  case (Cons v vs)
  then obtain a rest where a: "normalize_action env n seen v = Inr a"
    and r: "normalize_from env (Suc n) (pl_key a # seen) vs = Inr rest" and p: "p = a # rest"
    by (auto split: sum.splits)
  from Cons.IH [OF r] normalize_action_SomeD [OF a] a p show ?case by auto
qed simp

lemma normalize_action_plan_cases:
  assumes "normalize_action_plan env v = Inr p"
  obtains xs where "length xs \<le> 50" and "normalize_from env 0 [] xs = Inr p"
proof -
  have "\<exists>xs. length xs \<le> 50 \<and> normalize_from env 0 [] xs = Inr p"
    using assms unfolding normalize_action_plan_def Let_def
    by (simp split: json.splits if_splits option.splits) (metis linorder_not_less)+
  with that show ?thesis by blast
qed

lemma normalize_plan_ok:
  assumes "normalize_action_plan env v = Inr p" and "uuid_canonical env"
  shows "plan_ok env p"
proof -
  from assms(1) obtain xs where xs: "length xs \<le> 50" "normalize_from env 0 [] xs = Inr p"
    by (rule normalize_action_plan_cases)
  have "plan_action_ok env a" if "a \<in> set p" for a
  proof -
    from normalize_from_SomeD [OF xs(2)] that obtain m seen v
      where "normalize_action env m seen v = Inr a" by blast
    from normalize_action_SomeD [OF this] assms(2) show ?thesis
      by (auto simp: plan_action_ok_def uuid_canonical_def split: option.splits)
  qed
  with normalize_from_SomeD [OF xs(2)] xs(1) show ?thesis by (simp add: plan_ok_def)
qed

lemma normalize_action_json:
  assumes "plan_action_ok env a" and "pl_key a \<notin> set seen"
  shows "normalize_action env n seen (plan_action_json a) = Inr a"
proof -
  have r: "restrict_keys (action_configuration_keys (pl_type a)) (pl_config a) = pl_config a"
    using assms(1) by (auto simp: restrict_keys_def plan_action_ok_def intro!: filter_True)
  have i: "pe_uuid env (py_str (pe_repr env)
      (case pl_action_id a of None \<Rightarrow> JNull | Some u \<Rightarrow> JStr u)) = pl_action_id a"
    using assms(1) by (auto simp: plan_action_ok_def split: option.splits)
  from assms r i show ?thesis
    by (auto simp: normalize_action_def plan_action_json_def plan_key_def json_simps Let_def
        plan_action_ok_def py_or_def split: if_splits)
qed

lemma normalize_from_json:
  "\<forall>a \<in> set p. plan_action_ok env a \<Longrightarrow> distinct (map pl_key p) \<Longrightarrow>
   set (map pl_key p) \<inter> set seen = {} \<Longrightarrow>
   normalize_from env n seen (map plan_action_json p) = Inr p"
  by (induction p arbitrary: n seen) (auto simp: normalize_action_json)

lemma normalize_plan_json: "plan_ok env p \<Longrightarrow> normalize_action_plan env (plan_json p) = Inr p"
  by (simp add: normalize_action_plan_def plan_json_def plan_ok_def normalize_from_json)

subsection \<open>Lemmas: backoff and outcomes\<close>

lemmas webhook_constants =
  webhook_max_attempts_def webhook_retry_base_seconds_def webhook_retry_cap_seconds_def
  webhook_lease_seconds_def

definition capped_delay :: "int \<Rightarrow> int option \<Rightarrow> int" where
  "capped_delay p r = min (case r of None \<Rightarrow> min 300 (5 * p)
     | Some s \<Rightarrow> max (min 300 (5 * p)) (min (max 0 s) 300)) 300"

lemma backoff_capped_delay:
  "retry_backoff_seconds a r = capped_delay (2 ^ nat (max 0 (min (a - 1) 10))) r"
  by (cases r) (simp_all add: retry_backoff_seconds_def webhook_constants Let_def capped_delay_def)

lemma capped_delay_bounds: "1 \<le> p \<Longrightarrow> 5 \<le> capped_delay p r \<and> capped_delay p r \<le> 300"
  by (cases r) (auto simp: capped_delay_def)

lemma capped_delay_mono: "p \<le> q \<Longrightarrow> capped_delay p r \<le> capped_delay q r"
  by (cases r) (auto simp: capped_delay_def)

lemma backoff_bounds: "5 \<le> retry_backoff_seconds a r \<and> retry_backoff_seconds a r \<le> 300"
  unfolding backoff_capped_delay by (rule capped_delay_bounds) simp

lemma backoff_mono: "a \<le> b \<Longrightarrow> retry_backoff_seconds a r \<le> retry_backoff_seconds b r"
  unfolding backoff_capped_delay by (intro capped_delay_mono power_increasing) auto

lemma backoff_honours_retry_after:
  "0 \<le> s \<Longrightarrow> s \<le> 300 \<Longrightarrow> s \<le> retry_backoff_seconds a (Some s)"
  by (simp add: backoff_capped_delay capped_delay_def)

lemma durable_status_cases:
  "do_status (durable_webhook_outcome out a m) =
     (if wo_status out = Failed \<and> wo_retryable out \<and> a < m then Retry_scheduled else wo_status out)"
  by (auto simp: durable_webhook_outcome_def Let_def)

lemma durable_retry_after:
  "do_retry_after (durable_webhook_outcome out a m) =
     (if wo_status out = Failed \<and> wo_retryable out \<and> a < m
      then Some (retry_backoff_seconds a (wo_retry_after out)) else None)"
  by (auto simp: durable_webhook_outcome_def Let_def)

lemma response_outcome_status:
  "wo_status (response_outcome env code v t) = (if 200 \<le> code \<and> code < 300 then Succeeded else Failed)"
  by (simp add: response_outcome_def failure_def)

lemma backoff_reaches:
  assumes "1 \<le> a" and "a < 5"
  shows "5 * 2 ^ nat (a - 1) \<le> retry_backoff_seconds a r"
proof -
  from assms have "a \<in> {1, 2, 3, 4}" by auto
  then show ?thesis by (cases r) (auto simp: backoff_capped_delay capped_delay_def)
qed

lemma parse_retry_after_capped: "parse_retry_after env v t = Some r \<Longrightarrow> 0 \<le> r \<and> r \<le> 300"
  by (auto simp: parse_retry_after_def Let_def webhook_constants split: option.splits if_splits)

subsection \<open>Lemmas: run status\<close>

lemma run_complete_summary:
  "run_complete (summarize_action_statuses ss) \<longleftrightarrow> (\<forall>s \<in> set ss. \<not> pending s)"
  by (auto simp: summarize_action_statuses_def run_complete_def pending_def)

lemma summary_succeeded_iff:
  "summarize_action_statuses ss = R_succeeded \<longleftrightarrow> (\<forall>s \<in> set ss. s = Succeeded)"
proof -
  have "set ss = {Succeeded} \<longleftrightarrow> ss \<noteq> [] \<and> (\<forall>s \<in> set ss. s = Succeeded)"
    by (cases ss) auto
  then show ?thesis by (auto simp: summarize_action_statuses_def)
qed

lemma summary_set: "set ss = set ts \<Longrightarrow> summarize_action_statuses ss = summarize_action_statuses ts"
proof -
  assume "set ss = set ts"
  moreover from this have "ss = [] \<longleftrightarrow> ts = []" by (metis set_empty)
  ultimately show ?thesis by (simp add: summarize_action_statuses_def)
qed

end
