(* ===== verification/Playbook_Store.thy ===== *)
theory Playbook_Store
  imports Playbook_Plan
begin

section \<open>Playbooks: tables and statements\<close>

text \<open>
  The tables of \<open>services/playbooks.py\<close> (columns as in \<open>ensure_playbook_schema\<close>) and every
  SQL statement the service issues, one definition per statement.  A statement is a
  function on the database that returns the rows of its \<open>RETURNING\<close> or \<open>SELECT\<close> clause.
  \<open>deliveries\<close> records the webhook requests that left the process.
\<close>

record playbook_row =
  pbk_id :: uuid
  pbk_tenant :: uuid
  pbk_name :: string
  pbk_description :: string
  pbk_active :: bool
  pbk_conditions :: jdict
  pbk_version :: int
  pbk_created :: time
  pbk_updated :: time

record action_row =
  pba_id :: uuid
  pba_playbook :: uuid
  pba_type :: string
  pba_config :: jdict
  pba_sort :: int

record run_row =
  run_id :: uuid
  run_tenant :: uuid
  run_playbook :: uuid
  run_version :: int
  run_signal :: "uuid option"
  run_key :: string
  run_sha :: string
  run_source :: string
  run_st :: run_status
  run_context :: jdict
  run_plan :: json
  run_actor :: "string option"
  run_created :: time
  run_updated :: time
  run_completed :: "time option"

record result_row =
  res_id :: uuid
  res_run :: uuid
  res_key :: string
  res_action :: "uuid option"
  res_type :: string
  res_status :: action_status
  res_attempt :: int
  res_max :: int
  res_code :: "int option"
  res_error :: "string option"
  res_ext :: "string option"
  res_config :: jdict
  res_meta :: jdict
  res_next :: "time option"
  res_last :: "time option"
  res_owner :: "string option"
  res_expires :: "time option"
  res_created :: time
  res_updated :: time
  res_completed :: "time option"

record delivery =
  dl_result :: uuid
  dl_url :: string
  dl_headers :: "(string \<times> string) list"
  dl_body :: string

record pb_db = core_db +
  playbooks :: "playbook_row list"
  playbook_actions :: "action_row list"
  playbook_runs :: "run_row list"
  action_results :: "result_row list"
  deliveries :: "delivery list"

datatype http_answer = Response int "string option" | Http_failure | Crashed

record net_answer =
  na_dns :: dns_answer
  na_http :: http_answer

type_synonym ('z, 'a) pb_prog = "('z pb_db_scheme, net_answer, 'a) prog"
type_synonym ('z, 'a) pb_stmt = "'z pb_db_scheme \<Rightarrow> exn + 'a \<times> 'z pb_db_scheme"

abbreviation is_webhook :: "string \<Rightarrow> bool" where
  "is_webhook t \<equiv> t = ''webhook''"

subsection \<open>Playbooks and their actions\<close>

definition insert_playbook ::
  "uuid \<Rightarrow> uuid \<Rightarrow> string \<Rightarrow> string \<Rightarrow> jdict \<Rightarrow> 'z pb_db_scheme \<Rightarrow> playbook_row \<times> 'z pb_db_scheme" where
  "insert_playbook pid tenant name description conditions d =
     (let row = \<lparr>pbk_id = pid, pbk_tenant = tenant, pbk_name = py_strip name,
            pbk_description = description, pbk_active = True, pbk_conditions = conditions,
            pbk_version = 1, pbk_created = now d, pbk_updated = now d\<rparr>
      in (row, d\<lparr>playbooks := playbooks d @ [row]\<rparr>))"

definition delete_actions_of :: "uuid \<Rightarrow> 'z pb_db_scheme \<Rightarrow> 'z pb_db_scheme" where
  "delete_actions_of pid d =
     d\<lparr>playbook_actions := filter (\<lambda>a. pba_playbook a \<noteq> pid) (playbook_actions d),
       action_results := upd_where
         (\<lambda>r. case res_action r of None \<Rightarrow> False
            | Some aid \<Rightarrow> list_ex (\<lambda>a. pba_playbook a = pid \<and> pba_id a = aid) (playbook_actions d))
         (\<lambda>r. r\<lparr>res_action := None\<rparr>) (action_results d)\<rparr>"

definition actions_of :: "uuid \<Rightarrow> 'z pb_db_scheme \<Rightarrow> action_row list" where
  "actions_of pid d = sort_key (\<lambda>a. (pba_sort a, pba_id a))
     (filter (\<lambda>a. pba_playbook a = pid) (playbook_actions d))"

text \<open>\<open>jsonb_agg(jsonb_build_object(..) ORDER BY sort_order, id)\<close>\<close>

definition action_plan_snapshot :: "uuid \<Rightarrow> 'z pb_db_scheme \<Rightarrow> json" where
  "action_plan_snapshot pid d = JArr (map (\<lambda>a. JObj
     [(''key'', JStr (pba_id a)), (''playbook_action_id'', JStr (pba_id a)),
      (''action_type'', JStr (pba_type a)), (''configuration'', JObj (pba_config a)),
      (''sort_order'', JInt (pba_sort a))]) (actions_of pid d))"

definition select_playbook :: "uuid \<Rightarrow> uuid \<Rightarrow> 'z pb_db_scheme \<Rightarrow> (playbook_row \<times> json) option" where
  "select_playbook pid tenant d =
     map_option (\<lambda>p. (p, action_plan_snapshot pid d))
       (first_row (\<lambda>p. pbk_id p = pid \<and> pbk_tenant p = tenant) (playbooks d))"

subsection \<open>Runs\<close>

text \<open>
  \<open>ON CONFLICT (tenant_id, idempotency_key) DO NOTHING\<close> returns no row; a second row with
  the same primary key raises.
\<close>

definition select_run_by_key :: "uuid \<Rightarrow> string \<Rightarrow> 'z pb_db_scheme \<Rightarrow> run_row option" where
  "select_run_by_key tenant key d =
     first_row (\<lambda>r. run_tenant r = tenant \<and> run_key r = key) (playbook_runs d)"

definition insert_run :: "run_row \<Rightarrow> ('z, run_row option) pb_stmt" where
  "insert_run row d =
     (let row = row\<lparr>run_created := now d, run_updated := now d\<rparr>;
          (r, rs) = insert_unless
            (\<lambda>q. run_tenant q = run_tenant row \<and> run_key q = run_key row) row (playbook_runs d)
      in if r \<noteq> None \<and> list_ex (\<lambda>q. run_id q = run_id row) (playbook_runs d)
         then Inl DatabaseError
         else Inr (r, d\<lparr>playbook_runs := rs\<rparr>))"

definition select_run_snapshot :: "uuid \<Rightarrow> uuid \<Rightarrow> uuid \<Rightarrow> 'z pb_db_scheme \<Rightarrow> run_row option" where
  "select_run_snapshot rid tenant pid d = first_row
     (\<lambda>r. run_id r = rid \<and> run_tenant r = tenant \<and> run_playbook r = pid) (playbook_runs d)"

definition run_in_tenant :: "uuid \<Rightarrow> uuid \<Rightarrow> 'z pb_db_scheme \<Rightarrow> bool" where
  "run_in_tenant rid tenant d =
     list_ex (\<lambda>r. run_id r = rid \<and> run_tenant r = tenant) (playbook_runs d)"

definition set_run_status ::
  "uuid \<Rightarrow> uuid \<Rightarrow> run_status \<Rightarrow> bool \<Rightarrow> 'z pb_db_scheme \<Rightarrow> 'z pb_db_scheme" where
  "set_run_status rid tenant st is_done d = d\<lparr>playbook_runs := upd_where
     (\<lambda>r. run_id r = rid \<and> run_tenant r = tenant)
     (\<lambda>r. r\<lparr>run_st := st, run_updated := now d,
        run_completed := (if is_done
          then (case run_completed r of Some t \<Rightarrow> Some t | None \<Rightarrow> Some (now d)) else None)\<rparr>)
     (playbook_runs d)\<rparr>"

definition run_action_statuses :: "uuid \<Rightarrow> uuid \<Rightarrow> 'z pb_db_scheme \<Rightarrow> action_status list" where
  "run_action_statuses rid tenant d =
     (if run_in_tenant rid tenant d
      then map res_status (filter (\<lambda>r. res_run r = rid) (action_results d)) else [])"

definition continuation_ready :: "nat \<Rightarrow> 'z pb_db_scheme \<Rightarrow> run_row list" where
  "continuation_ready limit d = take limit (sort_key (\<lambda>r. (run_updated r, run_id r))
     (filter (\<lambda>run. run_st run \<in> {R_running, R_retrying, R_awaiting_ack}
        \<and> \<not> list_ex (\<lambda>r. res_run r = run_id run \<and> pending (res_status r)) (action_results d))
       (playbook_runs d)))"

subsection \<open>Action results\<close>

definition initial_result ::
  "uuid \<Rightarrow> uuid \<Rightarrow> plan_action \<Rightarrow> string option \<Rightarrow> 'z pb_db_scheme \<Rightarrow> result_row" where
  "initial_result rid run a lease_owner d =
     (let t = pl_type a; cp = t \<in> set control_plane_actions in
      \<lparr>res_id = rid, res_run = run, res_key = pl_key a,
       res_action = (case pl_action_id a of None \<Rightarrow> None
          | Some aid \<Rightarrow> map_option pba_id (first_row (\<lambda>p. pba_id p = aid) (playbook_actions d))),
       res_type = t,
       res_status = (if is_webhook t then Running else if cp then Awaiting_ack else Unsupported),
       res_attempt = 1,
       res_max = (if is_webhook t then webhook_max_attempts else 1),
       res_code = None, res_error = None, res_ext = None,
       res_config = pl_config a,
       res_meta = (if is_webhook t then []
          else if cp then [(''reason'', JStr ''control_plane_ack_required'')] else []),
       res_next = None,
       res_last = (if is_webhook t then Some (now d) else None),
       res_owner = lease_owner,
       res_expires = (case lease_owner of None \<Rightarrow> None
          | Some _ \<Rightarrow> Some (now d + secs webhook_lease_seconds)),
       res_created = now d, res_updated = now d,
       res_completed = (if is_webhook t \<or> cp then None else Some (now d))\<rparr>)"

definition insert_result ::
  "uuid \<Rightarrow> uuid \<Rightarrow> plan_action \<Rightarrow> string option \<Rightarrow> ('z, result_row option) pb_stmt" where
  "insert_result rid run a lease_owner d =
     (let (r, rs) = insert_unless (\<lambda>q. res_run q = run \<and> res_key q = pl_key a)
            (initial_result rid run a lease_owner d) (action_results d)
      in if r \<noteq> None \<and> list_ex (\<lambda>q. res_id q = rid) (action_results d)
         then Inl DatabaseError
         else Inr (r, d\<lparr>action_results := rs\<rparr>))"

definition select_result_status :: "uuid \<Rightarrow> string \<Rightarrow> 'z pb_db_scheme \<Rightarrow> action_status option" where
  "select_result_status run key d = map_option res_status
     (first_row (\<lambda>r. res_run r = run \<and> res_key r = key) (action_results d))"

definition persist_outcome ::
  "uuid \<Rightarrow> uuid \<Rightarrow> uuid \<Rightarrow> string \<Rightarrow> durable_outcome \<Rightarrow> string option \<Rightarrow> string \<Rightarrow> 'z pb_db_scheme \<Rightarrow>
   action_status option \<times> 'z pb_db_scheme" where
  "persist_outcome rid run tenant owner out actor action d =
     (let hit = (\<lambda>r. res_id r = rid \<and> res_run r = run \<and> res_owner r = Some owner
            \<and> res_status r = Running);
          retry_after = (case do_retry_after out of None \<Rightarrow> 0 | Some s \<Rightarrow> s);
          upd = (\<lambda>r. r\<lparr>res_status := do_status out, res_code := do_code out,
            res_error := do_error out, res_meta := do_metadata out,
            res_next := (if do_status out = Retry_scheduled
              then Some (now d + secs retry_after) else None),
            res_owner := None, res_expires := None, res_updated := now d,
            res_completed := (if do_status out \<in> {Succeeded, Failed, Unsupported}
              then Some (now d) else None)\<rparr>)
      in case first_row hit (action_results d) of
           None \<Rightarrow> (None, d)
         | Some r \<Rightarrow> (Some (do_status out),
             add_audit \<lparr>ae_actor = actor, ae_tenant = Some tenant, ae_action = action,
                 ae_resource_type = ''playbook_action_result'', ae_resource_id = rid,
                 ae_details = [(''run_id'', JStr run), (''action_type'', JStr (res_type r)),
                   (''status'', JStr (action_status_text (do_status out))),
                   (''attempt'', JInt (res_attempt r)), (''max_attempts'', JInt (res_max r))]\<rparr>
               (d\<lparr>action_results := upd_where hit upd (action_results d)\<rparr>)))"

text \<open>
  The claim of one due retry: the first row in queue order among those whose retry time has
  come and whose lease, if any, has expired, or that are running on an expired lease.
\<close>

definition claimable :: "time \<Rightarrow> result_row \<Rightarrow> bool" where
  "claimable t r \<longleftrightarrow> is_webhook (res_type r) \<and> res_attempt r < res_max r \<and>
     ((res_status r = Retry_scheduled
       \<and> (case res_next r of None \<Rightarrow> False | Some n \<Rightarrow> n \<le> t)
       \<and> (case res_expires r of None \<Rightarrow> True | Some e \<Rightarrow> e \<le> t))
      \<or> (res_status r = Running
       \<and> (case res_expires r of None \<Rightarrow> False | Some e \<Rightarrow> e \<le> t)))"

definition claim_order :: "result_row \<Rightarrow> time \<times> time \<times> uuid" where
  "claim_order r = (case res_next r of Some n \<Rightarrow> n | None \<Rightarrow>
       (case res_expires r of Some e \<Rightarrow> e | None \<Rightarrow> 0), res_created r, res_id r)"

definition claim_result :: "time \<Rightarrow> string \<Rightarrow> result_row \<Rightarrow> result_row" where
  "claim_result t worker r = r\<lparr>res_status := Running, res_attempt := res_attempt r + 1,
     res_last := Some t, res_next := None, res_owner := Some worker,
     res_expires := Some (t + secs webhook_lease_seconds), res_completed := None,
     res_updated := t\<rparr>"

definition claim_due_webhook_retry ::
  "string \<Rightarrow> 'z pb_db_scheme \<Rightarrow> (result_row \<times> run_row) option \<times> 'z pb_db_scheme" where
  "claim_due_webhook_retry worker d =
     (let due = sort_key claim_order (filter (\<lambda>r. claimable (now d) r
            \<and> list_ex (\<lambda>q. run_id q = res_run r) (playbook_runs d)) (action_results d))
      in case due of
           [] \<Rightarrow> (None, d)
         | r # _ \<Rightarrow>
             (case first_row (\<lambda>q. run_id q = res_run r) (playbook_runs d) of
                None \<Rightarrow> (None, d)
              | Some run \<Rightarrow> (Some (claim_result (now d) worker r, run),
                  d\<lparr>action_results := upd_where (\<lambda>q. res_id q = res_id r)
                      (claim_result (now d) worker) (action_results d)\<rparr>)))"

definition lease_exhausted :: "time \<Rightarrow> result_row \<Rightarrow> bool" where
  "lease_exhausted t r \<longleftrightarrow> is_webhook (res_type r) \<and> res_status r = Running
     \<and> res_max r \<le> res_attempt r
     \<and> (case res_expires r of None \<Rightarrow> False | Some e \<Rightarrow> e \<le> t)"

definition finalize_expired_retry_leases :: "'z pb_db_scheme \<Rightarrow> result_row list \<times> 'z pb_db_scheme" where
  "finalize_expired_retry_leases d =
     (let hit = lease_exhausted (now d);
          upd = (\<lambda>r. r\<lparr>res_status := Failed,
            res_error := (case res_error r of Some e \<Rightarrow> Some e | None \<Rightarrow> Some ''retry_lease_expired''),
            res_meta := dict_set ''delivery_outcome_unknown'' (JBool True)
              (dict_set ''retry_exhausted'' (JBool True) (res_meta r)),
            res_next := None, res_owner := None, res_expires := None,
            res_updated := now d, res_completed := Some (now d)\<rparr>)
      in (rows_where hit (action_results d),
          d\<lparr>action_results := upd_where hit upd (action_results d)\<rparr>))"

definition acknowledge_stmt ::
  "uuid \<Rightarrow> uuid \<Rightarrow> uuid \<Rightarrow> action_status \<Rightarrow> string option \<Rightarrow> jdict \<Rightarrow> string \<Rightarrow> 'z pb_db_scheme \<Rightarrow>
   uuid option \<times> 'z pb_db_scheme" where
  "acknowledge_stmt rid run tenant st ext metadata actor d =
     (let hit = (\<lambda>r. res_id r = rid \<and> res_run r = run \<and> res_status r = Awaiting_ack
            \<and> res_type r \<in> set control_plane_actions);
          upd = (\<lambda>r. r\<lparr>res_status := st, res_ext := ext, res_meta := metadata,
            res_updated := now d, res_completed := Some (now d)\<rparr>)
      in case first_row (\<lambda>q. run_id q = run \<and> run_tenant q = tenant) (playbook_runs d) of
           None \<Rightarrow> (None, d)
         | Some q \<Rightarrow> if list_ex hit (action_results d)
             then (Some (run_playbook q),
               add_audit \<lparr>ae_actor = Some actor, ae_tenant = Some tenant,
                   ae_action = ''playbook.action_ack'',
                   ae_resource_type = ''playbook_action_result'', ae_resource_id = rid,
                   ae_details = [(''run_id'', JStr run),
                     (''status'', JStr (action_status_text st))]\<rparr>
                 (d\<lparr>action_results := upd_where hit upd (action_results d)\<rparr>))
             else (None, d))"

definition select_result ::
  "uuid \<Rightarrow> uuid \<Rightarrow> uuid \<Rightarrow> 'z pb_db_scheme \<Rightarrow> (result_row \<times> uuid) option" where
  "select_result rid run tenant d =
     (case first_row (\<lambda>q. run_id q = run \<and> run_tenant q = tenant) (playbook_runs d) of
        None \<Rightarrow> None
      | Some q \<Rightarrow> map_option (\<lambda>r. (r, run_playbook q))
          (first_row (\<lambda>r. res_id r = rid \<and> res_run r = run) (action_results d)))"

definition retryable_by_operator :: "result_row \<Rightarrow> bool" where
  "retryable_by_operator r \<longleftrightarrow> is_webhook (res_type r)
     \<and> res_status r \<in> {Failed, Retry_scheduled} \<and> res_attempt r < res_max r"

definition queue_retry ::
  "uuid \<Rightarrow> uuid \<Rightarrow> uuid \<Rightarrow> 'z pb_db_scheme \<Rightarrow> result_row option \<times> 'z pb_db_scheme" where
  "queue_retry rid run tenant d =
     (let hit = (\<lambda>r. res_id r = rid \<and> res_run r = run \<and> retryable_by_operator r);
          upd = (\<lambda>r. r\<lparr>res_status := Retry_scheduled, res_next := Some (now d),
            res_owner := None, res_expires := None, res_completed := None,
            res_updated := now d\<rparr>)
      in if run_in_tenant run tenant d
         then (map_option upd (first_row hit (action_results d)),
               d\<lparr>action_results := upd_where hit upd (action_results d)\<rparr>)
         else (None, d))"

end
