(* ===== verification/Playbook_Runs.thy ===== *)
theory Playbook_Runs
  imports Playbook_Store
begin

section \<open>Playbooks: handlers and workers\<close>

text \<open>
  The coroutines of \<open>services/playbooks.py\<close>, statement by statement: authoring, execution and
  resumption of a run, acknowledgement and operator retry, and the two worker ticks.  Every
  \<open>HTTPException\<close>, early return and \<open>break\<close> of the source is a branch.
\<close>

subsection \<open>Views\<close>

record action_view =
  av_row :: result_row
  av_config :: "jdict option"

record run_view =
  rv_run :: run_row
  rv_name :: string
  rv_actions :: "action_view list"
  rv_duplicate :: "bool option"

definition action_result_dict :: "result_row \<Rightarrow> action_view" where
  "action_result_dict r = \<lparr>av_row = r\<lparr>res_config := [], res_owner := None, res_expires := None\<rparr>,
     av_config = (if res_type r \<in> set control_plane_actions
       then Some (restrict_keys (action_configuration_keys (res_type r)) (res_config r))
       else None)\<rparr>"

definition run_dict :: "run_row \<Rightarrow> string \<Rightarrow> result_row list \<Rightarrow> run_view" where
  "run_dict run name rows = \<lparr>rv_run = run\<lparr>run_sha := [], run_context := [], run_plan := JNull\<rparr>,
     rv_name = name, rv_actions = map action_result_dict rows, rv_duplicate = None\<rparr>"

definition results_of :: "uuid \<Rightarrow> 'z pb_db_scheme \<Rightarrow> result_row list" where
  "results_of rid d = sort_key (\<lambda>r. (res_created r, res_id r))
     (filter (\<lambda>r. res_run r = rid) (action_results d))"

definition run_with_name :: "run_row \<Rightarrow> 'z pb_db_scheme \<Rightarrow> (run_row \<times> string) option" where
  "run_with_name run d = map_option (\<lambda>p. (run, pbk_name p))
     (first_row (\<lambda>p. pbk_id p = run_playbook run) (playbooks d))"

definition fetch_run :: "uuid \<Rightarrow> uuid \<Rightarrow> ('z, run_view) pb_prog" where
  "fetch_run tenant rid =
     bindM (query (\<lambda>d. Option.bind
         (first_row (\<lambda>r. run_id r = rid \<and> run_tenant r = tenant) (playbook_runs d))
         (\<lambda>r. run_with_name r d))) (\<lambda>row. case row of
       None \<Rightarrow> raise (HTTPException 404 ''playbook run not found'')
     | Some (run, name) \<Rightarrow>
         bindM (query (results_of rid)) (\<lambda>rows. ret (run_dict run name rows)))"

definition refresh_run_status :: "uuid \<Rightarrow> uuid \<Rightarrow> ('z, run_status) pb_prog" where
  "refresh_run_status tenant rid =
     bindM (query (run_action_statuses rid tenant)) (\<lambda>rows.
       let st = summarize_action_statuses rows in
       bindM (stmt (\<lambda>d. Inr ((), set_run_status rid tenant st (run_complete st) d)))
         (\<lambda>_. ret st))"

subsection \<open>Delivering a webhook\<close>

definition webhook_body :: "py_env \<Rightarrow> jdict \<Rightarrow> string" where
  "webhook_body env context =
     pe_dumps env (JObj [(''context'', JObj context), (''source'', JStr ''forjd-playbook'')])"

definition webhook_headers ::
  "py_env \<Rightarrow> (string \<times> string) option \<Rightarrow> string \<Rightarrow> uuid \<Rightarrow> uuid \<Rightarrow> time \<Rightarrow> (string \<times> string) list" where
  "webhook_headers env signing_key body run rid t =
     [(''Content-Type'', ''application/json''), (''X-FORJD-Run-ID'', run),
      (''X-FORJD-Action-ID'', rid), (''Idempotency-Key'', run @ '':'' @ rid)]
     @ (case signing_key of
          None \<Rightarrow> []
        | Some (secret_ref, secret) \<Rightarrow>
            (let timestamp = py_str_int (t div 1000000) in
             [(''X-FORJD-Timestamp'', timestamp), (''X-FORJD-Key-ID'', secret_ref),
              (''X-FORJD-Signature'', ''v1='' @ pe_hmac env secret (timestamp @ ''.'' @ body))]))"

definition run_webhook ::
  "py_env \<Rightarrow> jdict \<Rightarrow> jdict \<Rightarrow> uuid \<Rightarrow> uuid \<Rightarrow> ('z, webhook_outcome) pb_prog" where
  "run_webhook env configuration context run rid =
     (let url = py_strip (py_str (pe_repr env) (py_or (jget configuration ''url'') (JStr []))) in
      if url = [] then ret (failure None ''invalid_configuration'' False None)
      else (case webhook_signing_secret env configuration of
        Inl _ \<Rightarrow> ret (failure None ''signing_secret_unavailable'' False None)
      | Inr signing_key \<Rightarrow>
          bindM receive (\<lambda>ans.
            case validate_outbound_url (pe_net env) (na_dns ans) url of
              Inl (Unresolved _) \<Rightarrow> ret (failure None ''network_error'' True None)
            | Inl (Rejected _) \<Rightarrow> ret (failure None ''destination_rejected'' False None)
            | Inr safe_url \<Rightarrow>
                (let body = webhook_body env context in
                 bindM (emit (\<lambda>d. d\<lparr>deliveries := deliveries d @
                     [\<lparr>dl_result = rid, dl_url = safe_url,
                       dl_headers = webhook_headers env signing_key body run rid (now d),
                       dl_body = body\<rparr>]\<rparr>)) (\<lambda>_.
                 case na_http ans of
                   Response code retry_after \<Rightarrow>
                     bindM read_clock (\<lambda>t. ret (response_outcome env code retry_after t))
                 | Http_failure \<Rightarrow> ret (failure None ''network_error'' True None)
                 | Crashed \<Rightarrow> ret (failure None ''execution_error'' False None))))))"

definition persist_webhook_outcome ::
  "uuid \<Rightarrow> uuid \<Rightarrow> uuid \<Rightarrow> string \<Rightarrow> int \<Rightarrow> int \<Rightarrow> webhook_outcome \<Rightarrow> string option \<Rightarrow> string \<Rightarrow>
   ('z, (durable_outcome \<times> bool)) pb_prog" where
  "persist_webhook_outcome tenant run rid lease_owner attempt max_attempts outcome actor action =
     (let durable = durable_webhook_outcome outcome attempt max_attempts in
      bindM (stmt (\<lambda>d. Inr (persist_outcome rid run tenant lease_owner durable actor action d)))
        (\<lambda>row. ret (durable, row \<noteq> None)))"

subsection \<open>Executing the actions of a run\<close>

definition attempt_details :: "uuid \<Rightarrow> string \<Rightarrow> jdict \<Rightarrow> int \<Rightarrow> int \<Rightarrow> jdict" where
  "attempt_details run t extra attempt max_attempts =
     [(''run_id'', JStr run), (''action_type'', JStr t)] @ extra @
     [(''attempt'', JInt attempt), (''max_attempts'', JInt max_attempts)]"

text \<open>
  The three branches of the loop body, each given the rest of the loop (\<open>next\<close>): the row
  already existed, a webhook row was inserted, another action's row was inserted.
\<close>

definition present_action :: "uuid \<Rightarrow> plan_action \<Rightarrow> ('z, unit) pb_prog \<Rightarrow> ('z, unit) pb_prog" where
  "present_action run a rest =
     bindM (query (select_result_status run (pl_key a))) (\<lambda>existing.
       if existing \<noteq> Some Succeeded then ret () else rest)"

definition webhook_action ::
  "py_env \<Rightarrow> string option \<Rightarrow> uuid \<Rightarrow> uuid \<Rightarrow> jdict \<Rightarrow> plan_action \<Rightarrow> string option \<Rightarrow> result_row \<Rightarrow>
   ('z, unit) pb_prog \<Rightarrow> ('z, unit) pb_prog" where
  "webhook_action env actor tenant run context a lease_owner r rest =
     bindM (record_required ''playbook.action_attempt'' actor (Some tenant)
         ''playbook_action_result'' (res_id r)
         (attempt_details run (pl_type a) [] 1 (res_max r))) (\<lambda>_.
     bindM (run_webhook env (pl_config a) context run (res_id r)) (\<lambda>outcome.
     bindM (persist_webhook_outcome tenant run (res_id r)
         (case lease_owner of Some lo \<Rightarrow> lo | None \<Rightarrow> ''None'') 1 (res_max r) outcome actor
         ''playbook.action_result'') (\<lambda>durable_persisted.
     let durable = fst durable_persisted; persisted = snd durable_persisted in
     if \<not> persisted then ret ()
     else if do_status durable \<noteq> Succeeded then ret ()
     else rest)))"

definition control_action ::
  "string option \<Rightarrow> uuid \<Rightarrow> uuid \<Rightarrow> plan_action \<Rightarrow> result_row \<Rightarrow> ('z, unit) pb_prog \<Rightarrow> ('z, unit) pb_prog" where
  "control_action actor tenant run a r rest =
     bindM (record_required ''playbook.action_result'' actor (Some tenant)
         ''playbook_action_result'' (res_id r)
         (attempt_details run (pl_type a)
            [(''status'', JStr (action_status_text (res_status r)))] 1 (res_max r))) (\<lambda>_.
     if res_status r \<noteq> Succeeded then ret () else rest)"

fun run_actions ::
  "py_env \<Rightarrow> string option \<Rightarrow> uuid \<Rightarrow> uuid \<Rightarrow> jdict \<Rightarrow> plan_action list \<Rightarrow> ('z, unit) pb_prog" where
  "run_actions env actor tenant run context [] = ret ()"
| "run_actions env actor tenant run context (a # actions) =
     bindM uuid4 (\<lambda>rid.
     bindM (if is_webhook (pl_type a)
            then bindM uuid4 (\<lambda>u. ret (Some (''initial:'' @ u))) else ret None) (\<lambda>lease_owner.
     bindM (stmt (insert_result rid run a lease_owner)) (\<lambda>inserted.
     case inserted of
       None \<Rightarrow> present_action run a (run_actions env actor tenant run context actions)
     | Some r \<Rightarrow>
         if is_webhook (pl_type a)
         then webhook_action env actor tenant run context a lease_owner r
                (run_actions env actor tenant run context actions)
         else control_action actor tenant run a r
                (run_actions env actor tenant run context actions))))"

definition execute_run_actions ::
  "py_env \<Rightarrow> auth_user option \<Rightarrow> uuid \<Rightarrow> uuid \<Rightarrow> uuid \<Rightarrow> ('z, unit) pb_prog" where
  "execute_run_actions env user tenant run pid =
     bindM (query (select_run_snapshot run tenant pid)) (\<lambda>snapshot.
     case snapshot of
       None \<Rightarrow> raise (HTTPException 404 ''playbook run not found'')
     | Some r \<Rightarrow>
         bindM (lift (normalize_action_plan env (run_plan r))) (\<lambda>actions.
         let actor = (case user of Some u \<Rightarrow> Some (actor_id u) | None \<Rightarrow> run_actor r) in
         bindM (run_actions env actor tenant run (run_context r) actions) (\<lambda>_.
         bindM (refresh_run_status tenant run) (\<lambda>_. ret ()))))"

end
