(* ===== verification/Playbook_Handlers.thy ===== *)
theory Playbook_Handlers
  imports Playbook_Runs
begin

section \<open>Playbooks: the public operations and the worker ticks\<close>

text \<open>
  Authoring (\<open>create_playbook\<close>, \<open>update_playbook\<close>, \<open>list_playbooks\<close>), execution with an
  idempotency key, acknowledgement, operator retry, listing of runs, and the two ticks of
  the retry worker.
\<close>

subsection \<open>Authoring\<close>

record new_action =
  nw_type :: string
  nw_config :: jdict
  nw_sort :: "int option"

record playbook_updates =
  pu_name :: "string option"
  pu_description :: "string option"
  pu_active :: "bool option"
  pu_conditions :: "jdict option"

definition authorize ::
  "auth_user \<Rightarrow> uuid \<Rightarrow> string \<Rightarrow> string list option \<Rightarrow> ('z, unit) pb_prog" where
  "authorize user tenant scope min_roles =
     bindM (require_tenant_access user tenant min_roles (Some [scope])) (\<lambda>_. ret ())"

definition ensure_playbook_schema :: "('z, unit) pb_prog" where
  "ensure_playbook_schema = ensure_schema ''secure SOAR schema missing; apply backend/sql/020''"

fun draw_ids :: "nat \<Rightarrow> ('z, uuid list) pb_prog" where
  "draw_ids 0 = ret []"
| "draw_ids (Suc n) = bindM uuid4 (\<lambda>u. bindM (draw_ids n) (\<lambda>us. ret (u # us)))"

fun insert_actions ::
  "py_env \<Rightarrow> uuid \<Rightarrow> nat \<Rightarrow> (new_action \<times> uuid) list \<Rightarrow> 'z pb_db_scheme \<Rightarrow> exn + action_row list \<times> 'z pb_db_scheme" where
  "insert_actions env pid index [] d = Inr ([], d)"
| "insert_actions env pid index ((a, aid) # rest) d =
     (case validate_action_configuration env (nw_type a) (nw_config a) of
        Inl e \<Rightarrow> Inl e
      | Inr _ \<Rightarrow>
          (let row = \<lparr>pba_id = aid, pba_playbook = pid, pba_type = nw_type a,
                 pba_config = nw_config a,
                 pba_sort = (case nw_sort a of Some s \<Rightarrow> s | None \<Rightarrow> int index)\<rparr> in
           case insert_actions env pid (Suc index) rest
                  (d\<lparr>playbook_actions := playbook_actions d @ [row]\<rparr>) of
             Inl e \<Rightarrow> Inl e
           | Inr (rows, d') \<Rightarrow> Inr (row # rows, d')))"

definition create_playbook ::
  "py_env \<Rightarrow> auth_user \<Rightarrow> uuid \<Rightarrow> string \<Rightarrow> string \<Rightarrow> jdict \<Rightarrow> new_action list \<Rightarrow>
   ('z, (playbook_row \<times> action_row list)) pb_prog" where
  "create_playbook env user tenant name description conditions actions =
     bindM (authorize user tenant ''playbooks:write'' (Some [''owner'', ''admin''])) (\<lambda>_.
     bindM ensure_playbook_schema (\<lambda>_.
     bindM (record_required ''playbook.create_attempt'' (Some (actor_id user)) (Some tenant)
         ''playbook'' [] [(''action_count'', JInt (int (length actions)))]) (\<lambda>_.
     bindM uuid4 (\<lambda>pid.
     bindM (draw_ids (length actions)) (\<lambda>ids.
     bindM (stmt (\<lambda>d. let (row, d1) = insert_playbook pid tenant name description conditions d in
         case insert_actions env pid 0 (zip actions ids) d1 of
           Inl e \<Rightarrow> Inl e
         | Inr (rows, d2) \<Rightarrow> Inr ((row, rows), d2))) (\<lambda>out.
     bindM (record_required ''playbook.create'' (Some (actor_id user)) (Some tenant) ''playbook''
         (pbk_id (fst out)) [(''action_count'', JInt (int (length (snd out))))]) (\<lambda>_.
     ret out)))))))"

definition updated_fields :: "playbook_updates \<Rightarrow> bool \<Rightarrow> string list" where
  "updated_fields u has_actions =
     (if has_actions then [''actions''] else [])
     @ (if pu_description u \<noteq> None then [''description''] else [])
     @ (if pu_active u \<noteq> None then [''is_active''] else [])
     @ (if pu_name u \<noteq> None then [''name''] else [])
     @ (if pu_conditions u \<noteq> None then [''trigger_conditions''] else [])"

definition apply_updates :: "playbook_updates \<Rightarrow> time \<Rightarrow> playbook_row \<Rightarrow> playbook_row" where
  "apply_updates u t p = p\<lparr>
     pbk_name := (case pu_name u of Some v \<Rightarrow> v | None \<Rightarrow> pbk_name p),
     pbk_description := (case pu_description u of Some v \<Rightarrow> v | None \<Rightarrow> pbk_description p),
     pbk_active := (case pu_active u of Some v \<Rightarrow> v | None \<Rightarrow> pbk_active p),
     pbk_conditions := (case pu_conditions u of Some v \<Rightarrow> v | None \<Rightarrow> pbk_conditions p),
     pbk_version := pbk_version p + 1, pbk_updated := t\<rparr>"

definition update_playbook_txn ::
  "py_env \<Rightarrow> uuid \<Rightarrow> uuid \<Rightarrow> playbook_updates \<Rightarrow> (new_action \<times> uuid) list option \<Rightarrow> 'z pb_db_scheme \<Rightarrow>
   exn + (playbook_row \<times> action_row list) \<times> 'z pb_db_scheme" where
  "update_playbook_txn env tenant pid updates actions d =
     (let hit = (\<lambda>p. pbk_id p = pid \<and> pbk_tenant p = tenant);
          d1 = d\<lparr>playbooks := upd_where hit (apply_updates updates (now d)) (playbooks d)\<rparr> in
      case first_row hit (playbooks d1) of
        None \<Rightarrow> Inl (HTTPException 404 ''playbook not found'')
      | Some row \<Rightarrow> (case actions of
            None \<Rightarrow> Inr ((row, actions_of pid d1), d1)
          | Some new \<Rightarrow> (case insert_actions env pid 0 new (delete_actions_of pid d1) of
                Inl e \<Rightarrow> Inl e
              | Inr (rows, d2) \<Rightarrow> Inr ((row, rows), d2))))"

definition update_playbook ::
  "py_env \<Rightarrow> auth_user \<Rightarrow> uuid \<Rightarrow> uuid \<Rightarrow> playbook_updates \<Rightarrow> new_action list option \<Rightarrow>
   ('z, (playbook_row \<times> action_row list)) pb_prog" where
  "update_playbook env user tenant pid updates actions =
     bindM (authorize user tenant ''playbooks:write'' (Some [''owner'', ''admin''])) (\<lambda>_.
     bindM ensure_playbook_schema (\<lambda>_.
     let fields = updated_fields updates (actions \<noteq> None);
         details = [(''fields'', JArr (map JStr fields))] in
     if fields = [] then raise (ValueError ''at least one playbook field must be supplied'')
     else
     bindM (record_required ''playbook.update_attempt'' (Some (actor_id user)) (Some tenant)
         ''playbook'' pid details) (\<lambda>_.
     bindM (draw_ids (case actions of Some a \<Rightarrow> length a | None \<Rightarrow> 0)) (\<lambda>ids.
     bindM (stmt (update_playbook_txn env tenant pid updates
         (map_option (\<lambda>a. zip a ids) actions))) (\<lambda>out.
     bindM (record_required ''playbook.update'' (Some (actor_id user)) (Some tenant)
         ''playbook'' pid details) (\<lambda>_.
     ret out))))))"

definition list_playbooks ::
  "auth_user \<Rightarrow> uuid \<Rightarrow> ('z, (playbook_row \<times> action_row list) list) pb_prog" where
  "list_playbooks user tenant =
     bindM (authorize user tenant ''playbooks:read'' None) (\<lambda>_.
     bindM ensure_playbook_schema (\<lambda>_.
     bindM (query (\<lambda>d. rev (sort_key pbk_created
         (filter (\<lambda>p. pbk_tenant p = tenant) (playbooks d))))) (\<lambda>rows.
     if rows = [] then ret []
     else bindM (query (\<lambda>d. map (\<lambda>p. (p, actions_of (pbk_id p) d)) rows)) ret)))"

subsection \<open>Executing with an idempotency key\<close>

definition run_request_sha256 ::
  "py_env \<Rightarrow> uuid \<Rightarrow> int \<Rightarrow> jdict \<Rightarrow> string \<Rightarrow> uuid option \<Rightarrow> plan_action list \<Rightarrow> string" where
  "run_request_sha256 env pid version context source signal plan =
     pe_sha256 env (pe_dumps env (JObj
       [(''playbook_id'', JStr pid), (''playbook_version'', JInt version),
        (''context'', JObj context), (''trigger_source'', JStr source),
        (''source_signal_id'', case signal of None \<Rightarrow> JNull | Some s \<Rightarrow> JStr s),
        (''action_plan'', plan_json plan)]))"

definition resume_existing_run ::
  "py_env \<Rightarrow> auth_user \<Rightarrow> uuid \<Rightarrow> uuid \<Rightarrow> jdict \<Rightarrow> string \<Rightarrow> uuid option \<Rightarrow> run_row \<Rightarrow>
   ('z, run_view) pb_prog" where
  "resume_existing_run env user tenant pid context source signal existing =
     (if run_playbook existing \<noteq> pid
      then raise (HTTPException 409 ''idempotency key is already used by a different playbook'')
      else if \<not> dict_eq (run_context existing) context \<or> run_source existing \<noteq> source
           \<or> run_signal existing \<noteq> signal
      then raise (HTTPException 409
        ''idempotency key was already used with a different playbook request'')
      else
        bindM (execute_run_actions env (Some user) tenant (run_id existing) pid) (\<lambda>_.
        bindM (fetch_run tenant (run_id existing)) (\<lambda>result.
        ret (result\<lparr>rv_duplicate := Some True\<rparr>))))"

definition new_run_row ::
  "py_env \<Rightarrow> auth_user \<Rightarrow> uuid \<Rightarrow> uuid \<Rightarrow> playbook_row \<Rightarrow> string \<Rightarrow> jdict \<Rightarrow> string \<Rightarrow> uuid option \<Rightarrow>
   plan_action list \<Rightarrow> run_row" where
  "new_run_row env user tenant rid p key context source signal plan =
     \<lparr>run_id = rid, run_tenant = tenant, run_playbook = pbk_id p, run_version = pbk_version p,
      run_signal = signal, run_key = key,
      run_sha = run_request_sha256 env (pbk_id p) (pbk_version p) context source signal plan,
      run_source = source, run_st = R_running, run_context = context,
      run_plan = plan_json plan, run_actor = Some (au_user_id user),
      run_created = 0, run_updated = 0, run_completed = None\<rparr>"

definition run_audit_details :: "uuid \<Rightarrow> string \<Rightarrow> run_status option \<Rightarrow> uuid option \<Rightarrow> jdict" where
  "run_audit_details pid source st signal =
     [(''playbook_id'', JStr pid), (''trigger_source'', JStr source)]
     @ (case st of None \<Rightarrow> [] | Some s \<Rightarrow> [(''status'', JStr (run_status_text s))])
     @ [(''source_signal_id'', case signal of None \<Rightarrow> JNull | Some s \<Rightarrow> JStr s)]"

definition start_run ::
  "py_env \<Rightarrow> auth_user \<Rightarrow> uuid \<Rightarrow> uuid \<Rightarrow> string \<Rightarrow> jdict \<Rightarrow> string \<Rightarrow> uuid option \<Rightarrow> ('z, run_view) pb_prog" where
  "start_run env user tenant pid key context source signal =
     bindM (query (select_playbook pid tenant)) (\<lambda>playbook.
     case playbook of
       None \<Rightarrow> raise (HTTPException 404 ''playbook not found'')
     | Some (p, snapshot) \<Rightarrow>
         if \<not> pbk_active p then raise (HTTPException 409 ''playbook is inactive'')
         else
         bindM (lift (normalize_action_plan env snapshot)) (\<lambda>plan.
         bindM uuid4 (\<lambda>rid.
         bindM (stmt (insert_run
             (new_run_row env user tenant rid p key context source signal plan))) (\<lambda>row.
         case row of
           None \<Rightarrow>
             bindM (query (select_run_by_key tenant key)) (\<lambda>existing. case existing of
               None \<Rightarrow> raise (RuntimeError ''idempotent playbook run could not be resolved'')
             | Some e \<Rightarrow> resume_existing_run env user tenant pid context source signal e)
         | Some run \<Rightarrow>
             bindM (record_required ''playbook.run_started'' (Some (actor_id user)) (Some tenant)
                 ''playbook_run'' (run_id run) (run_audit_details pid source None signal)) (\<lambda>_.
             bindM (execute_run_actions env (Some user) tenant (run_id run) pid) (\<lambda>_.
             bindM (fetch_run tenant (run_id run)) (\<lambda>result.
             bindM (record_required ''playbook.run'' (Some (actor_id user)) (Some tenant)
                 ''playbook_run'' (run_id run)
                 (run_audit_details pid source (Some (run_st (rv_run result))) signal)) (\<lambda>_.
             ret (result\<lparr>rv_duplicate := Some False\<rparr>)))))))))"

definition execute_playbook ::
  "py_env \<Rightarrow> auth_user \<Rightarrow> uuid \<Rightarrow> uuid \<Rightarrow> string \<Rightarrow> jdict \<Rightarrow> string \<Rightarrow> uuid option \<Rightarrow> ('z, run_view) pb_prog" where
  "execute_playbook env user tenant pid key context source signal =
     bindM (authorize user tenant ''playbooks:execute'' (Some [''owner'', ''admin'', ''member''])) (\<lambda>_.
     bindM ensure_playbook_schema (\<lambda>_.
     bindM (record_required ''playbook.run_attempt'' (Some (actor_id user)) (Some tenant)
         ''playbook'' pid [(''trigger_source'', JStr source)]) (\<lambda>_.
     bindM (query (select_run_by_key tenant key)) (\<lambda>existing. case existing of
         Some e \<Rightarrow> resume_existing_run env user tenant pid context source signal e
       | None \<Rightarrow> start_run env user tenant pid key context source signal))))"

subsection \<open>Acknowledgement and operator retry\<close>

definition acknowledge_action ::
  "py_env \<Rightarrow> auth_user \<Rightarrow> uuid \<Rightarrow> uuid \<Rightarrow> uuid \<Rightarrow> bool \<Rightarrow> string option \<Rightarrow> jdict \<Rightarrow>
   ('z, (run_view \<times> bool)) pb_prog" where
  "acknowledge_action env user tenant rid aid succeeded ext metadata =
     bindM (authorize user tenant ''playbooks:execute'' None) (\<lambda>_.
     bindM ensure_playbook_schema (\<lambda>_.
     let new_status = (if succeeded then Succeeded else Failed) in
     bindM (stmt (\<lambda>d. Inr (acknowledge_stmt aid rid tenant new_status ext metadata
         (actor_id user) d))) (\<lambda>updated.
     bindM (case updated of
         Some pid \<Rightarrow> ret (pid, False)
       | None \<Rightarrow>
           bindM (query (select_result aid rid tenant)) (\<lambda>current. case current of
             None \<Rightarrow> raise (HTTPException 404 ''action result not found'')
           | Some (r, pid) \<Rightarrow>
               if res_type r \<in> set control_plane_actions \<and> res_status r = new_status
                  \<and> res_ext r = ext \<and> dict_eq (res_meta r) metadata
               then ret (pid, True)
               else raise (HTTPException 409
                 ''acknowledgement conflicts with the action's durable decision''))) (\<lambda>pd.
     bindM (if succeeded then execute_run_actions env (Some user) tenant rid (fst pd)
            else bindM (refresh_run_status tenant rid) (\<lambda>_. ret ())) (\<lambda>_.
     bindM (fetch_run tenant rid) (\<lambda>result. ret (result, snd pd)))))))"

definition retry_conflict_detail :: "result_row \<Rightarrow> string" where
  "retry_conflict_detail r =
     (if \<not> is_webhook (res_type r)
      then ''control-plane actions must use acknowledgement, not retry''
      else if res_status r \<in> {Running, Succeeded, Awaiting_ack}
      then ''action in '' @ action_status_text (res_status r) @ '' state cannot be retried''
      else if res_max r \<le> res_attempt r then ''action retry attempts are exhausted''
      else ''action is not eligible for retry'')"

definition retry_action ::
  "auth_user \<Rightarrow> uuid \<Rightarrow> uuid \<Rightarrow> uuid \<Rightarrow> ('z, run_view) pb_prog" where
  "retry_action user tenant rid aid =
     bindM (authorize user tenant ''playbooks:execute'' (Some [''owner'', ''admin''])) (\<lambda>_.
     bindM ensure_playbook_schema (\<lambda>_.
     bindM (record_required ''playbook.action_retry_request_attempt'' (Some (actor_id user))
         (Some tenant) ''playbook_action_result'' aid [(''run_id'', JStr rid)]) (\<lambda>_.
     bindM (stmt (\<lambda>d. Inr (queue_retry aid rid tenant d))) (\<lambda>queued. case queued of
       None \<Rightarrow>
         bindM (query (select_result aid rid tenant)) (\<lambda>current. case current of
           None \<Rightarrow> raise (HTTPException 404 ''action result not found'')
         | Some (r, _) \<Rightarrow> raise (HTTPException 409 (retry_conflict_detail r)))
     | Some r \<Rightarrow>
         bindM (refresh_run_status tenant rid) (\<lambda>_.
         bindM (record_required ''playbook.action_retry_requested'' (Some (actor_id user))
             (Some tenant) ''playbook_action_result'' aid
             [(''run_id'', JStr rid), (''attempt'', JInt (res_attempt r)),
              (''max_attempts'', JInt (res_max r))]) (\<lambda>_.
         fetch_run tenant rid))))))"

definition list_runs ::
  "auth_user \<Rightarrow> uuid \<Rightarrow> uuid option \<Rightarrow> uuid option \<Rightarrow> int \<Rightarrow> ('z, run_view list) pb_prog" where
  "list_runs user tenant pid signal limit =
     bindM (authorize user tenant ''playbooks:read'' None) (\<lambda>_.
     bindM ensure_playbook_schema (\<lambda>_.
     bindM (query (\<lambda>d. take (nat (clamp 1 500 limit))
         (rev (sort_key (\<lambda>rn. (run_created (fst rn), run_id (fst rn)))
           (List.map_filter (\<lambda>r. run_with_name r d)
             (filter (\<lambda>r. run_tenant r = tenant \<and> (pid = None \<or> pid = Some (run_playbook r))
                \<and> (signal = None \<or> run_signal r = signal)) (playbook_runs d))))))) (\<lambda>rows.
     if rows = [] then ret []
     else bindM (query (\<lambda>d. map (\<lambda>rn. results_of (run_id (fst rn)) d) rows)) (\<lambda>grouped.
       ret (map (\<lambda>(rn, rs). run_dict (fst rn) (snd rn) rs) (zip rows grouped))))))"

subsection \<open>The retry worker\<close>

record tick_counts =
  tc_claimed :: nat
  tc_succeeded :: nat
  tc_rescheduled :: nat
  tc_failed :: nat
  tc_lease_lost :: nat
  tc_exhausted :: nat

definition run_tenant_of :: "uuid \<Rightarrow> 'z pb_db_scheme \<Rightarrow> uuid option" where
  "run_tenant_of rid d = map_option run_tenant (first_row (\<lambda>r. run_id r = rid) (playbook_runs d))"

text \<open>
  \<open>UPDATE .. FROM playbook_runs .. RETURNING run.tenant_id\<close>: the join drops rows without a run.
\<close>

definition finalize_stmt :: "'z pb_db_scheme \<Rightarrow> (result_row \<times> uuid) list \<times> 'z pb_db_scheme" where
  "finalize_stmt d = (let (rows, d') = finalize_expired_retry_leases d in
     (List.map_filter (\<lambda>r. map_option (Pair r) (run_tenant_of (res_run r) d)) rows, d'))"

fun audit_exhausted :: "(result_row \<times> uuid) list \<Rightarrow> ('z, unit) pb_prog" where
  "audit_exhausted [] = ret ()"
| "audit_exhausted ((r, tenant) # rest) =
     bindM (record_required ''playbook.action_retry_exhausted'' None (Some tenant)
         ''playbook_action_result'' (res_id r)
         [(''run_id'', JStr (res_run r)), (''attempt'', JInt (res_attempt r)),
          (''reason'', JStr ''expired_final_lease'')]) (\<lambda>_.
     bindM (refresh_run_status tenant (res_run r)) (\<lambda>_.
     audit_exhausted rest))"

definition count_outcome :: "action_status \<Rightarrow> tick_counts \<Rightarrow> tick_counts" where
  "count_outcome st c = (if st = Succeeded then c\<lparr>tc_succeeded := Suc (tc_succeeded c)\<rparr>
     else if st = Retry_scheduled then c\<lparr>tc_rescheduled := Suc (tc_rescheduled c)\<rparr>
     else c\<lparr>tc_failed := Suc (tc_failed c)\<rparr>)"

definition retry_claimed ::
  "py_env \<Rightarrow> string \<Rightarrow> result_row \<Rightarrow> run_row \<Rightarrow> tick_counts \<Rightarrow> ('z, tick_counts) pb_prog" where
  "retry_claimed env owner r run c0 =
     (let c = c0\<lparr>tc_claimed := Suc (tc_claimed c0)\<rparr> in
     bindM (record_required ''playbook.action_attempt'' None (Some (run_tenant run))
         ''playbook_action_result'' (res_id r)
         (attempt_details (run_id run) ''webhook'' [] (res_attempt r) (res_max r))) (\<lambda>_.
     bindM (run_webhook env (res_config r) (run_context run) (run_id run) (res_id r)) (\<lambda>outcome.
     bindM (persist_webhook_outcome (run_tenant run) (run_id run) (res_id r) owner
         (res_attempt r) (res_max r) outcome (run_actor run) ''playbook.action_retry'') (\<lambda>dp.
     if \<not> snd dp then ret (c\<lparr>tc_lease_lost := Suc (tc_lease_lost c)\<rparr>)
     else
       bindM (if do_status (fst dp) = Succeeded
              then execute_run_actions env None (run_tenant run) (run_id run) (run_playbook run)
              else bindM (refresh_run_status (run_tenant run) (run_id run)) (\<lambda>_. ret ())) (\<lambda>_.
       ret (count_outcome (do_status (fst dp)) c))))))"

fun retry_loop :: "py_env \<Rightarrow> string \<Rightarrow> nat \<Rightarrow> tick_counts \<Rightarrow> ('z, tick_counts) pb_prog" where
  "retry_loop env owner 0 c = ret c"
| "retry_loop env owner (Suc n) c =
     bindM (stmt (\<lambda>d. Inr (claim_due_webhook_retry owner d))) (\<lambda>claimed. case claimed of
       None \<Rightarrow> ret c
     | Some (r, run) \<Rightarrow>
         bindM (retry_claimed env owner r run c) (\<lambda>c'. retry_loop env owner n c'))"

definition tick_playbook_retries ::
  "py_env \<Rightarrow> int \<Rightarrow> string option \<Rightarrow> bool \<Rightarrow> ('z, tick_counts) pb_prog" where
  "tick_playbook_retries env batch_size worker_id is_ready =
     bindM (if is_ready then ret () else ensure_playbook_schema) (\<lambda>_.
     bindM uuid4 (\<lambda>u.
     let owner = take 128 (case worker_id of
             Some s \<Rightarrow> if s = [] then ''soar:'' @ u else s | None \<Rightarrow> ''soar:'' @ u);
         limit = nat (clamp 1 200 batch_size) in
     bindM (stmt (\<lambda>d. Inr (finalize_stmt d))) (\<lambda>exhausted.
     bindM (audit_exhausted exhausted) (\<lambda>_.
     retry_loop env owner limit
       \<lparr>tc_claimed = 0, tc_succeeded = 0, tc_rescheduled = 0, tc_failed = 0, tc_lease_lost = 0,
        tc_exhausted = length exhausted\<rparr>))))"

fun resume_all :: "py_env \<Rightarrow> run_row list \<Rightarrow> nat \<times> nat \<Rightarrow> ('z, (nat \<times> nat)) pb_prog" where
  "resume_all env [] counts = ret counts"
| "resume_all env (run # runs) (resumed, failed) =
     bindM (catch
         (bindM (execute_run_actions env None (run_tenant run) (run_id run) (run_playbook run))
            (\<lambda>_. ret (Suc resumed, failed)))
         (\<lambda>_. ret (resumed, Suc failed))) (resume_all env runs)"

definition tick_playbook_continuations ::
  "py_env \<Rightarrow> int \<Rightarrow> bool \<Rightarrow> ('z, (nat \<times> nat \<times> nat)) pb_prog" where
  "tick_playbook_continuations env batch_size is_ready =
     bindM (if is_ready then ret () else ensure_playbook_schema) (\<lambda>_.
     bindM (query (continuation_ready (nat (clamp 1 200 batch_size)))) (\<lambda>rows.
     bindM (resume_all env rows (0, 0)) (\<lambda>counts. ret (length rows, counts))))"

end
