(* ===== verification/Playbook_Safety.thy ===== *)
theory Playbook_Safety
  imports Playbook_Handlers
begin

section \<open>Playbooks: the run protocol under interference\<close>

text \<open>
  The invariant of the playbook tables and the relation every statement of every worker
  stays in.  The heart is the baton: an action of the frozen plan has a result row only if
  every earlier action of the plan has succeeded.
\<close>

definition result_ok :: "result_row \<Rightarrow> bool" where
  "result_ok r \<longleftrightarrow>
     1 \<le> res_attempt r \<and> res_attempt r \<le> res_max r
     \<and> res_max r = (if is_webhook (res_type r) then webhook_max_attempts else 1)
     \<and> (res_owner r = None \<longleftrightarrow> res_expires r = None)
     \<and> (res_owner r \<noteq> None \<longrightarrow> res_status r = Running)
     \<and> (res_status r \<in> {Running, Retry_scheduled} \<longrightarrow> is_webhook (res_type r))
     \<and> (res_status r = Retry_scheduled \<longrightarrow> res_next r \<noteq> None)
     \<and> (res_status r = Awaiting_ack \<longrightarrow> res_type r \<in> set control_plane_actions)"

definition started :: "pb_db \<Rightarrow> uuid \<Rightarrow> string \<Rightarrow> bool" where
  "started d run k \<longleftrightarrow> list_ex (\<lambda>r. res_run r = run \<and> res_key r = k) (action_results d)"

definition succeeded :: "pb_db \<Rightarrow> uuid \<Rightarrow> string \<Rightarrow> bool" where
  "succeeded d run k \<longleftrightarrow>
     list_ex (\<lambda>r. res_run r = run \<and> res_key r = k \<and> res_status r = Succeeded) (action_results d)"

fun baton :: "(string \<Rightarrow> bool) \<Rightarrow> (string \<Rightarrow> bool) \<Rightarrow> string list \<Rightarrow> bool" where
  "baton strt succ [] = True"
| "baton strt succ (k # ks) = (if succ k then baton strt succ ks else list_all (\<lambda>j. \<not> strt j) ks)"

definition run_baton :: "py_env \<Rightarrow> pb_db \<Rightarrow> run_row \<Rightarrow> bool" where
  "run_baton env d q = (case normalize_action_plan env (run_plan q) of
       Inl _ \<Rightarrow> True
     | Inr plan \<Rightarrow> baton (started d (run_id q)) (succeeded d (run_id q)) (map pl_key plan))"

definition pb_inv :: "py_env \<Rightarrow> pb_db \<Rightarrow> bool" where
  "pb_inv env d \<longleftrightarrow>
     list_all result_ok (action_results d)
     \<and> distinct (map res_id (action_results d))
     \<and> distinct (map (\<lambda>r. (res_run r, res_key r)) (action_results d))
     \<and> distinct (map run_id (playbook_runs d))
     \<and> distinct (map (\<lambda>q. (run_tenant q, run_key q)) (playbook_runs d))
     \<and> list_all (\<lambda>r. list_ex (\<lambda>q. run_id q = res_run r) (playbook_runs d)) (action_results d)
     \<and> list_all (run_baton env d) (playbook_runs d)"

definition result_le :: "result_row \<Rightarrow> result_row \<Rightarrow> bool" where
  "result_le r r' \<longleftrightarrow> res_id r' = res_id r \<and> res_run r' = res_run r \<and> res_key r' = res_key r
     \<and> res_type r' = res_type r \<and> res_config r' = res_config r \<and> res_max r' = res_max r
     \<and> res_attempt r \<le> res_attempt r' \<and> (res_status r = Succeeded \<longrightarrow> res_status r' = Succeeded)"

definition run_le :: "run_row \<Rightarrow> run_row \<Rightarrow> bool" where
  "run_le q q' \<longleftrightarrow> q'\<lparr>run_st := run_st q, run_updated := run_updated q,
      run_completed := run_completed q\<rparr> = q"

definition pb_rely :: "py_env \<Rightarrow> pb_db \<Rightarrow> pb_db \<Rightarrow> bool" where
  "pb_rely env d d' \<longleftrightarrow>
     (pb_inv env d \<longrightarrow> pb_inv env d' \<and> now d \<le> now d'
       \<and> (\<forall>r \<in> set (action_results d). \<exists>r' \<in> set (action_results d'). result_le r r')
       \<and> (\<forall>q \<in> set (playbook_runs d). \<exists>q' \<in> set (playbook_runs d'). run_le q q'))"

subsection \<open>The two orders\<close>

lemma result_le_refl [simp]: "result_le r r"
  by (simp add: result_le_def)

lemma result_le_trans: "result_le r s \<Longrightarrow> result_le s t \<Longrightarrow> result_le r t"
  by (simp add: result_le_def)

lemma run_le_refl [simp]: "run_le q q"
  by (simp add: run_le_def)

lemma run_le_eq:
  "run_le q q' \<longleftrightarrow> run_id q' = run_id q \<and> run_tenant q' = run_tenant q
     \<and> run_playbook q' = run_playbook q \<and> run_version q' = run_version q
     \<and> run_signal q' = run_signal q \<and> run_key q' = run_key q \<and> run_sha q' = run_sha q
     \<and> run_source q' = run_source q \<and> run_context q' = run_context q \<and> run_plan q' = run_plan q
     \<and> run_actor q' = run_actor q \<and> run_created q' = run_created q"
  by (cases q; cases q') (auto simp: run_le_def)

lemma run_le_trans: "run_le p q \<Longrightarrow> run_le q r \<Longrightarrow> run_le p r"
  by (simp add: run_le_eq)

interpretation pb: protocol "pb_inv env" "pb_rely env" for env
proof
  show "pb_rely env d d" for d
    unfolding pb_rely_def by (auto intro: result_le_refl run_le_refl)
next
  show "pb_rely env d d' \<Longrightarrow> pb_rely env d' d'' \<Longrightarrow> pb_rely env d d''" for d d' d''
    unfolding pb_rely_def by (meson order_trans result_le_trans run_le_trans)
next
  show "pb_rely env d d' \<Longrightarrow> pb_inv env d \<Longrightarrow> pb_inv env d'" for d d'
    by (simp add: pb_rely_def)
next
  show "\<not> pb_inv env d \<Longrightarrow> pb_rely env d d'" for d d'
    by (simp add: pb_rely_def)
qed

lemma pb_inv_cong:
  assumes "action_results d' = action_results d" and "playbook_runs d' = playbook_runs d"
  shows "pb_inv env d' = pb_inv env d"
proof -
  have "started d' = started d" and "succeeded d' = succeeded d"
    using assms by (auto simp: started_def succeeded_def intro!: ext)
  then have "run_baton env d' = run_baton env d"
    by (intro ext) (simp only: run_baton_def)
  with assms show ?thesis by (simp add: pb_inv_def)
qed

lemma rely_frame:
  assumes "action_results d' = action_results d" and "playbook_runs d' = playbook_runs d"
    and "now d' = now d"
  shows "pb_rely env d d'"
  using pb_inv_cong [OF assms(1,2)] assms unfolding pb_rely_def
  by (auto intro: result_le_refl run_le_refl)

interpretation pbc: core_protocol "pb_inv env" "pb_rely env" for env
  by unfold_locales (rule rely_frame; simp add: add_audit_def)

subsection \<open>The baton\<close>

lemma baton_unstarted: "list_all (\<lambda>k. \<not> strt k) ks \<Longrightarrow> baton strt succ ks"
  by (induction ks) auto

lemma baton_mono:
  assumes "baton strt succ ks" and "\<And>k. strt' k \<Longrightarrow> strt k" and "\<And>k. succ k \<Longrightarrow> succ' k"
  shows "baton strt' succ' ks"
  using assms(1)
proof (induction ks)
  case (Cons k ks)
  show ?case
  proof (cases "succ k")
    case True
    with Cons assms(3) [of k] show ?thesis by simp
  next
    case False
    with Cons.prems have "list_all (\<lambda>j. \<not> strt j) ks" by simp
    then have "list_all (\<lambda>j. \<not> strt' j) ks" using assms(2) by (auto simp: list_all_iff)
    then show ?thesis by (simp add: baton_unstarted)
  qed
qed simp

lemma baton_extend:
  assumes "baton strt succ (before @ k # after)" and "list_all succ before"
    and "\<not> succ k" and "k \<notin> set after" and "\<And>j. strt' j \<longleftrightarrow> strt j \<or> j = k"
    and "\<And>j. succ j \<Longrightarrow> succ' j"
  shows "baton strt' succ' (before @ k # after)"
  using assms(1,2)
proof (induction before)
  case Nil
  with assms(3) have "list_all (\<lambda>j. \<not> strt j) after" by simp
  with assms(4,5) have "list_all (\<lambda>j. \<not> strt' j) after" by (auto simp: list_all_iff)
  then show ?case by (simp add: baton_unstarted)
next
  case (Cons b before)
  with assms(6) [of b] show ?case by simp
qed

text \<open>What the baton says about two positions of a plan.\<close>

lemma baton_order:
  assumes "baton strt succ ks" and "i < j" and "j < length ks" and "strt (ks ! j)"
  shows "succ (ks ! i)"
  using assms
proof (induction ks arbitrary: i j)
  case (Cons k ks)
  show ?case
  proof (cases "succ k")
    case True
    with Cons show ?thesis
      by (cases i; cases j) auto
  next
    case False
    with Cons.prems have "list_all (\<lambda>j. \<not> strt j) ks" by simp
    with Cons.prems show ?thesis by (cases j) (auto simp: list_all_length)
  qed
qed simp

subsection \<open>Statements stay in the relation\<close>

lemma run_baton_mono:
  assumes "run_baton env d q" and "run_id q' = run_id q" and "run_plan q' = run_plan q"
    and "\<And>k. started d' (run_id q) k \<Longrightarrow> started d (run_id q) k"
    and "\<And>k. succeeded d (run_id q) k \<Longrightarrow> succeeded d' (run_id q) k"
  shows "run_baton env d' q'"
  using assms by (auto simp: run_baton_def split: sum.splits elim!: baton_mono)

lemma rely_update_results:
  assumes res: "action_results d' = upd_where hit f (action_results d)"
    and runs: "playbook_runs d' = playbook_runs d" and time: "now d' = now d"
    and step: "\<And>r. r \<in> set (action_results d) \<Longrightarrow> hit r \<Longrightarrow> pb_inv env d \<Longrightarrow> result_ok r \<Longrightarrow>
      result_le r (f r) \<and> result_ok (f r)"
    and inv: "pb_inv env d"
  shows "pb_rely env d d'"
proof -
  have ok: "result_le r (f r) \<and> result_ok (f r)" if "r \<in> set (action_results d)" "hit r" for r
    using step [OF that inv] inv that by (auto simp: pb_inv_def list_all_iff)
  have ids: "map res_id (action_results d') = map res_id (action_results d)"
    unfolding res by (rule map_upd_where) (use ok in \<open>auto simp: result_le_def\<close>)
  have keys: "map (\<lambda>r. (res_run r, res_key r)) (action_results d')
      = map (\<lambda>r. (res_run r, res_key r)) (action_results d)"
    unfolding res by (rule map_upd_where) (use ok in \<open>auto simp: result_le_def\<close>)
  have started: "started d' run k = started d run k" for run k
    unfolding started_def list_ex_iff res set_upd_where using ok
    by (auto simp: result_le_def)
  have succ: "succeeded d' run k" if "succeeded d run k" for run k
    using that unfolding succeeded_def res
    by (rule list_ex_upd_where) (use ok in \<open>auto simp: result_le_def\<close>)
  have "list_all result_ok (action_results d')"
    unfolding res by (rule list_all_upd_where) (use inv ok in \<open>auto simp: pb_inv_def\<close>)
  moreover have "list_all (\<lambda>r. list_ex (\<lambda>q. run_id q = res_run r) (playbook_runs d'))
      (action_results d')"
    unfolding res runs by (rule list_all_upd_where) (use inv ok in \<open>auto simp: pb_inv_def result_le_def\<close>)
  moreover have "list_all (run_baton env d') (playbook_runs d')"
    using inv unfolding runs pb_inv_def list_all_iff
    by (auto intro: run_baton_mono simp: started succ)
  ultimately have "pb_inv env d'" using inv by (simp add: pb_inv_def ids keys runs)
  moreover have "\<forall>r \<in> set (action_results d). \<exists>r' \<in> set (action_results d'). result_le r r'"
    unfolding res by (rule upd_where_le) (simp_all add: ok)
  ultimately show ?thesis
    unfolding pb_rely_def runs using time by (auto intro: run_le_refl)
qed

lemma rely_update_runs:
  assumes runs: "playbook_runs d' = upd_where hit f (playbook_runs d)"
    and res: "action_results d' = action_results d" and time: "now d' = now d"
    and step: "\<And>q. run_le q (f q)"
    and inv: "pb_inv env d"
  shows "pb_rely env d d'"
proof -
  have le: "run_id (f q) = run_id q" "run_tenant (f q) = run_tenant q" "run_key (f q) = run_key q"
    "run_plan (f q) = run_plan q" for q
    using step [of q] by (simp_all add: run_le_eq)
  have st: "started d' = started d" "succeeded d' = succeeded d"
    using res by (auto simp: started_def succeeded_def fun_eq_iff)
  have b: "run_baton env d' q = run_baton env d q" "run_baton env d' (f q) = run_baton env d q" for q
    unfolding run_baton_def st le by (rule refl)+
  have ids: "map run_id (playbook_runs d') = map run_id (playbook_runs d)"
    and "map (\<lambda>q. (run_tenant q, run_key q)) (playbook_runs d')
      = map (\<lambda>q. (run_tenant q, run_key q)) (playbook_runs d)"
    unfolding runs by (rule map_upd_where; simp add: le)+
  moreover have "list_all (run_baton env d') (playbook_runs d')"
    unfolding runs
    by (rule list_all_upd_where) (use inv b in \<open>auto simp: pb_inv_def list_all_iff\<close>)
  ultimately have "pb_inv env d'" using inv res by (simp add: pb_inv_def list_ex_key ids)
  moreover have "\<forall>q \<in> set (playbook_runs d). \<exists>q' \<in> set (playbook_runs d'). run_le q q'"
    unfolding runs by (rule upd_where_le) (simp_all add: step)
  ultimately show ?thesis unfolding pb_rely_def using time res by (auto intro: result_le_refl)
qed

lemma rely_insert_run:
  assumes "insert_run row d = Inr (r, d')" and inv: "pb_inv env d"
  shows "pb_rely env d d'"
proof (cases r)
  case None
  with assms(1) have "d' = d"
    by (auto simp: insert_run_def insert_unless_def Let_def split: if_splits)
  then show ?thesis by (simp add: pb.rely_refl)
next
  case (Some q)
  let ?new = "row\<lparr>run_created := now d, run_updated := now d\<rparr>"
  from assms(1) Some have d': "d' = d\<lparr>playbook_runs := playbook_runs d @ [?new]\<rparr>"
    and key: "(run_tenant row, run_key row) \<notin> set (map (\<lambda>q. (run_tenant q, run_key q)) (playbook_runs d))"
    and fresh: "run_id row \<notin> set (map run_id (playbook_runs d))"
    by (auto simp: insert_run_def insert_unless_def Let_def list_ex_iff split: if_splits)
  have st: "started d' = started d" "succeeded d' = succeeded d"
    unfolding d' by (auto simp: started_def succeeded_def intro!: ext)
  have "\<not> started d (run_id row) k" for k
  proof
    assume "started d (run_id row) k"
    then obtain r where "r \<in> set (action_results d)" "res_run r = run_id row"
      by (auto simp: started_def list_ex_iff)
    with inv have "run_id row \<in> set (map run_id (playbook_runs d))"
      unfolding pb_inv_def list_ex_key list_all_iff by metis
    with fresh show False by simp
  qed
  then have "run_baton env d' ?new"
    unfolding run_baton_def st
    by (auto split: sum.splits intro!: baton_unstarted simp: list_all_iff)
  moreover have "run_baton env d' q = run_baton env d q" for q
    unfolding run_baton_def st by (rule refl)
  ultimately have "pb_inv env d'"
    using inv key fresh by (auto simp: d' pb_inv_def list_ex_iff list_all_iff)
  then show ?thesis unfolding pb_rely_def d' by (auto intro: result_le_refl run_le_refl)
qed

lemma result_ok_initial:
  "(lease = None \<longleftrightarrow> \<not> is_webhook (pl_type a)) \<Longrightarrow> result_ok (initial_result rid run a lease d)"
  by (auto simp: result_ok_def initial_result_def Let_def webhook_max_attempts_def
      control_plane_actions_def)

text \<open>
  Starting an action: the row is added only when the plan has the baton at its key.
\<close>

definition at_position ::
  "py_env \<Rightarrow> uuid \<Rightarrow> plan_action list \<Rightarrow> plan_action list \<Rightarrow> pb_db \<Rightarrow> bool" where
  "at_position env run before after d \<longleftrightarrow>
     (\<exists>q \<in> set (playbook_runs d). run_id q = run
        \<and> normalize_action_plan env (run_plan q) = Inr (before @ after))
     \<and> list_all (\<lambda>a. succeeded d run (pl_key a)) before"

lemma rely_succeeded:
  "pb_rely env d d' \<Longrightarrow> pb_inv env d \<Longrightarrow> succeeded d run k \<Longrightarrow> succeeded d' run k"
  unfolding pb_rely_def succeeded_def list_ex_iff result_le_def by fastforce

lemma stable_at_position:
  "stable (pb_rely env) (\<lambda>d. pb_inv env d \<and> at_position env run before after d)"
  unfolding stable_def
proof (intro allI impI)
  fix d d'
  assume "pb_inv env d \<and> at_position env run before after d" and R: "pb_rely env d d'"
  then have p: "at_position env run before after d" and inv: "pb_inv env d" by auto
  from p obtain q where q: "q \<in> set (playbook_runs d)" "run_id q = run"
    "normalize_action_plan env (run_plan q) = Inr (before @ after)"
    by (auto simp: at_position_def)
  with R inv obtain q' where "q' \<in> set (playbook_runs d')" "run_le q q'"
    unfolding pb_rely_def by blast
  with q have "\<exists>q \<in> set (playbook_runs d'). run_id q = run
      \<and> normalize_action_plan env (run_plan q) = Inr (before @ after)"
    by (intro bexI [of _ q']) (auto simp: run_le_eq)
  moreover have "list_all (\<lambda>a. succeeded d' run (pl_key a)) before"
    using p rely_succeeded [OF R inv] by (auto simp: at_position_def list_all_iff)
  ultimately show "pb_inv env d' \<and> at_position env run before after d'"
    using pb.rely_inv [OF R inv] by (simp add: at_position_def)
qed

lemma rely_insert_result:
  assumes ins: "insert_result rid run a lease d = Inr (r, d')" and inv: "pb_inv env d"
    and pos: "at_position env run before (a # after) d"
    and lease: "lease = None \<longleftrightarrow> \<not> is_webhook (pl_type a)"
  shows "pb_rely env d d'"
proof (cases r)
  case None
  with ins have "d' = d"
    by (auto simp: insert_result_def insert_unless_def Let_def split: if_splits)
  then show ?thesis by (simp add: pb.rely_refl)
next
  case (Some q)
  let ?new = "initial_result rid run a lease d"
  from ins Some have d': "d' = d\<lparr>action_results := action_results d @ [?new]\<rparr>"
    and key: "\<not> started d run (pl_key a)"
    and fresh: "rid \<notin> set (map res_id (action_results d))"
    by (auto simp: insert_result_def insert_unless_def Let_def list_ex_iff started_def split: if_splits)
  have new: "res_id ?new = rid" "res_run ?new = run" "res_key ?new = pl_key a"
    by (simp_all add: initial_result_def Let_def)
  from pos obtain p where p: "p \<in> set (playbook_runs d)" "run_id p = run"
    "normalize_action_plan env (run_plan p) = Inr (before @ a # after)"
    by (auto simp: at_position_def)
  have st: "started d' run' k \<longleftrightarrow> started d run' k \<or> (run' = run \<and> k = pl_key a)" for run' k
    unfolding d' started_def by (auto simp: new)
  have sc: "succeeded d run' k \<Longrightarrow> succeeded d' run' k" for run' k
    unfolding d' succeeded_def by simp
  have baton: "run_baton env d' q" if q: "q \<in> set (playbook_runs d)" for q
  proof (cases "run_id q = run")
    case False
    have "run_baton env d q" using inv q by (simp add: pb_inv_def list_all_iff)
    then show ?thesis by (rule run_baton_mono) (use False in \<open>simp_all add: st sc\<close>)
  next
    case True
    with q p inv have "q = p" by (auto simp: pb_inv_def dest: distinct_map_eqD)
    let ?ks = "map pl_key before @ pl_key a # map pl_key after"
    have "baton (started d run) (succeeded d run) ?ks"
      using inv p by (auto simp: pb_inv_def run_baton_def list_all_iff)
    moreover have "list_all (succeeded d run) (map pl_key before)"
      using pos by (simp add: at_position_def list_all_iff)
    moreover have "\<not> succeeded d run (pl_key a)"
      using key by (auto simp: started_def succeeded_def list_ex_iff)
    moreover have "pl_key a \<notin> set (map pl_key after)"
      using p(3) by (auto elim!: normalize_action_plan_cases dest!: normalize_from_SomeD)
    ultimately have "baton (started d' run) (succeeded d' run) ?ks"
      by (rule baton_extend) (auto simp: st sc)
    with \<open>q = p\<close> p show ?thesis by (simp add: run_baton_def)
  qed
  have "pb_inv env d'"
    using inv key fresh p baton result_ok_initial [OF lease, of rid run d]
    by (auto simp: d' pb_inv_def new started_def list_ex_iff list_all_iff)
  then show ?thesis unfolding pb_rely_def d' by (auto intro: result_le_refl run_le_refl)
qed

lemma rely_set_run_status:
  "pb_inv env d \<Longrightarrow> pb_rely env d (set_run_status rid tenant st c d)"
  by (rule rely_update_runs) (auto simp: set_run_status_def run_le_def)

definition final_status :: "action_status \<Rightarrow> bool" where
  "final_status s \<longleftrightarrow> s \<in> {Succeeded, Failed, Retry_scheduled}"

lemma rely_persist_outcome:
  assumes "persist_outcome rid run tenant owner out actor act d = (x, d')" and "pb_inv env d"
    and "final_status (do_status out)"
  shows "pb_rely env d d'"
proof (cases x)
  case None
  with assms(1) have "d' = d" by (auto simp: persist_outcome_def Let_def split: option.splits)
  then show ?thesis by (simp add: pb.rely_refl)
next
  case (Some st)
  with assms(1) show ?thesis
    unfolding persist_outcome_def Let_def
    by (auto split: option.splits intro!: rely_update_results [OF _ _ _ _ assms(2)]
        simp: add_audit_def result_le_def result_ok_def assms(3) [unfolded final_status_def])
      (use assms(3) in \<open>auto simp: final_status_def\<close>)
qed

lemma result_ok_claim: "result_ok r \<Longrightarrow> claimable t r \<Longrightarrow> result_ok (claim_result t w r)"
  by (auto simp: result_ok_def claimable_def claim_result_def)

lemma result_le_claim: "claimable t r \<Longrightarrow> result_le r (claim_result t w r)"
  by (auto simp: result_le_def claimable_def claim_result_def)

lemma claim_due_cases:
  assumes "claim_due_webhook_retry w d = (x, d')"
  obtains (none) "x = None" "d' = d"
  | (some) r run where "x = Some (claim_result (now d) w r, run)" "r \<in> set (action_results d)"
      "claimable (now d) r" "run \<in> set (playbook_runs d)" "run_id run = res_run r"
      "d' = d\<lparr>action_results := upd_where (\<lambda>q. res_id q = res_id r) (claim_result (now d) w)
        (action_results d)\<rparr>"
proof (cases "sort_key claim_order (filter (\<lambda>r. claimable (now d) r
    \<and> list_ex (\<lambda>q. run_id q = res_run r) (playbook_runs d)) (action_results d))")
  case Nil
  with assms none show ?thesis by (auto simp: claim_due_webhook_retry_def)
next
  case (Cons r rest)
  then have "r \<in> set (sort_key claim_order (filter (\<lambda>r. claimable (now d) r
    \<and> list_ex (\<lambda>q. run_id q = res_run r) (playbook_runs d)) (action_results d)))"
    by simp
  then have r: "r \<in> set (action_results d)" "claimable (now d) r" by auto
  show ?thesis
  proof (cases "first_row (\<lambda>q. run_id q = res_run r) (playbook_runs d)")
    case None
    with assms Cons none show ?thesis by (auto simp: claim_due_webhook_retry_def)
  next
    case (Some run)
    with first_row_SomeD [OF Some] assms Cons r some [of r run] show ?thesis
      by (auto simp: claim_due_webhook_retry_def)
  qed
qed

lemma rely_claim:
  assumes "claim_due_webhook_retry w d = (x, d')" and inv: "pb_inv env d"
  shows "pb_rely env d d'"
  using assms(1)
proof (cases rule: claim_due_cases)
  case none
  then show ?thesis by (simp add: pb.rely_refl)
next
  case (some r run)
  have "q = r" if "q \<in> set (action_results d)" "res_id q = res_id r" for q
    using inv some(2) that by (auto simp: pb_inv_def dest: distinct_map_eqD)
  with some(3) show ?thesis
    by (intro rely_update_results [OF _ _ _ _ inv, where hit = "\<lambda>q. res_id q = res_id r"
          and f = "claim_result (now d) w"])
      (auto simp: some(6) intro: result_le_claim result_ok_claim)
qed

lemma rely_finalize: "finalize_stmt d = (x, d') \<Longrightarrow> pb_inv env d \<Longrightarrow> pb_rely env d d'"
  by (rule rely_update_results [where hit = "lease_exhausted (now d)"])
    (auto simp: finalize_stmt_def finalize_expired_retry_leases_def Let_def lease_exhausted_def
      result_le_def result_ok_def)

lemma rely_acknowledge:
  assumes "acknowledge_stmt rid run tenant st ext md actor d = (x, d')" and "pb_inv env d"
    and "st \<in> {Succeeded, Failed}"
  shows "pb_rely env d d'"
proof (cases x)
  case None
  with assms(1) have "d' = d"
    by (auto simp: acknowledge_stmt_def Let_def split: option.splits if_splits)
  then show ?thesis by (simp add: pb.rely_refl)
next
  case (Some p)
  with assms(1,3) show ?thesis
    unfolding acknowledge_stmt_def Let_def
    by (auto split: option.splits if_splits intro!: rely_update_results [OF _ _ _ _ assms(2)]
        simp: add_audit_def result_le_def result_ok_def)
qed

lemma rely_queue_retry:
  assumes "queue_retry rid run tenant d = (x, d')" and inv: "pb_inv env d"
  shows "pb_rely env d d'"
proof (cases "run_in_tenant run tenant d")
  case False
  with assms(1) have "d' = d" by (simp add: queue_retry_def Let_def)
  then show ?thesis by (simp add: pb.rely_refl)
next
  case True
  let ?hit = "\<lambda>r. res_id r = rid \<and> res_run r = run \<and> retryable_by_operator r"
  let ?upd = "\<lambda>r. r\<lparr>res_status := Retry_scheduled, res_next := Some (now d),
            res_owner := None, res_expires := None, res_completed := None,
            res_updated := now d\<rparr>"
  from True assms(1) have d': "d' = d\<lparr>action_results := upd_where ?hit ?upd (action_results d)\<rparr>"
    by (simp add: queue_retry_def Let_def)
  show ?thesis
    by (rule rely_update_results [OF _ _ _ _ inv, where hit = ?hit and f = ?upd])
      (auto simp: d' result_le_def result_ok_def retryable_by_operator_def)
qed

lemma insert_actions_frame:
  "insert_actions env pid n xs d = Inr (rows, d') \<Longrightarrow>
     action_results d' = action_results d \<and> playbook_runs d' = playbook_runs d \<and> now d' = now d"
proof (induction xs arbitrary: n d rows d')
  case (Cons x xs)
  then show ?case by (cases x) (auto simp: Let_def split: sum.splits)
qed simp

lemma rely_delete_actions: "pb_inv env d \<Longrightarrow> pb_rely env d (delete_actions_of pid d)"
  by (rule rely_update_results [where f = "\<lambda>r. r\<lparr>res_action := None\<rparr>"
        and hit = "\<lambda>r. case res_action r of None \<Rightarrow> False
          | Some aid \<Rightarrow> list_ex (\<lambda>a. pba_playbook a = pid \<and> pba_id a = aid) (playbook_actions d)"])
    (auto simp: delete_actions_of_def result_le_def result_ok_def)

lemma rely_update_playbook:
  assumes "update_playbook_txn env tenant pid u acts d = Inr (x, d')" and inv: "pb_inv env d"
  shows "pb_rely env d d'"
proof -
  obtain d1 where d1: "pb_rely env d d1"
    "d' = d1 \<or> (\<exists>rows new. insert_actions env pid 0 new (delete_actions_of pid d1) = Inr (rows, d'))"
  proof -
    let ?d1 = "d\<lparr>playbooks := upd_where (\<lambda>p. pbk_id p = pid \<and> pbk_tenant p = tenant)
      (apply_updates u (now d)) (playbooks d)\<rparr>"
    have "pb_rely env d ?d1" by (rule rely_frame) simp_all
    with assms(1) that [of ?d1] show thesis
      unfolding update_playbook_txn_def Let_def by (auto split: option.splits sum.splits)
  qed
  from d1(1) inv have inv1: "pb_inv env d1" by (rule pb.rely_inv)
  from d1(2) show ?thesis
  proof
    assume "d' = d1" with d1(1) show ?thesis by simp
  next
    assume "\<exists>rows new. insert_actions env pid 0 new (delete_actions_of pid d1) = Inr (rows, d')"
    then have "pb_rely env (delete_actions_of pid d1) d'"
      by (auto intro!: rely_frame dest!: insert_actions_frame)
    with d1(1) rely_delete_actions [OF inv1] show ?thesis by (blast intro: pb.rely_trans)
  qed
qed

end
