(* ===== verification/Playbook_Protocol.thy ===== *)
theory Playbook_Protocol
  imports Playbook_Safety
begin

section \<open>Playbooks: every operation keeps the protocol\<close>

text \<open>
  From the statements to the coroutines: the action loop carries the position it has
  reached in the frozen plan through the interference of the other workers, and each public
  operation and each worker tick keeps the invariant and stays in the relation.
\<close>

definition row_at :: "uuid \<Rightarrow> uuid \<Rightarrow> string \<Rightarrow> pb_db \<Rightarrow> bool" where
  "row_at rid run k d \<longleftrightarrow>
     list_ex (\<lambda>r. res_id r = rid \<and> res_run r = run \<and> res_key r = k) (action_results d)"

lemma stable_row_at: "stable (pb_rely env) (\<lambda>d. pb_inv env d \<and> row_at rid run k d)"
  unfolding stable_def
proof (intro allI impI)
  fix d d'
  assume a: "pb_inv env d \<and> row_at rid run k d" and R: "pb_rely env d d'"
  then obtain r where "r \<in> set (action_results d)" "res_id r = rid" "res_run r = run" "res_key r = k"
    by (auto simp: row_at_def list_ex_iff)
  moreover from this a R obtain r' where "r' \<in> set (action_results d')" "result_le r r'"
    unfolding pb_rely_def by blast
  ultimately show "pb_inv env d' \<and> row_at rid run k d'"
    using a R by (auto simp: row_at_def list_ex_iff result_le_def pb_rely_def)
qed

lemma at_position_step:
  "at_position env run before (a # after) d \<Longrightarrow> succeeded d run (pl_key a) \<Longrightarrow>
   at_position env run (before @ [a]) after d"
  by (simp add: at_position_def)

subsection \<open>Delivery\<close>

lemma keeps_run_webhook:
  "keeps (pb_inv env) (pb_rely env) (\<lambda>_. True) (run_webhook env c ctx run rid)
     (\<lambda>out _. wo_status out \<in> {Succeeded, Failed})"
  unfolding run_webhook_def Let_def
  by (intro keeps_intros keeps_bind [OF keeps_receive] keeps_bind [OF keeps_read_clock]
      keeps_bind [OF pb.safe_emit] TrueI)
    (auto simp: failure_def response_outcome_status intro!: rely_frame keeps_intros
      keeps_bind [OF pb.safe_emit] keeps_bind [OF keeps_read_clock]
      split: sum.splits outbound_error.splits http_answer.splits if_splits)

definition outcome_final :: "webhook_outcome \<Rightarrow> bool" where
  "outcome_final out \<longleftrightarrow> wo_status out \<in> {Succeeded, Failed}"

lemma durable_final:
  "outcome_final out \<Longrightarrow> final_status (do_status (durable_webhook_outcome out a m))"
  by (auto simp: outcome_final_def final_status_def durable_status_cases)

lemma persist_outcome_succeeded:
  assumes "persist_outcome rid run tenant owner out actor act d = (Some st, d')"
    and "do_status out = Succeeded" and "row_at rid run k d" and "pb_inv env d"
  shows "succeeded d' run k"
proof -
  let ?hit = "\<lambda>r. res_id r = rid \<and> res_run r = run \<and> res_owner r = Some owner \<and> res_status r = Running"
  from assms(1) obtain r where r: "r \<in> set (action_results d)" "?hit r"
    unfolding persist_outcome_def Let_def by (auto split: option.splits dest!: first_row_SomeD)
  from assms(3) obtain q where "q \<in> set (action_results d)" "res_id q = rid" "res_key q = k"
    by (auto simp: row_at_def list_ex_iff)
  with r assms(4) have k: "res_key r = k" by (auto simp: pb_inv_def dest: distinct_map_eqD)
  from assms(1,2) have rows: "action_results d' = upd_where ?hit (\<lambda>r. r\<lparr>res_status := Succeeded,
      res_code := do_code out, res_error := do_error out, res_meta := do_metadata out,
      res_next := None, res_owner := None, res_expires := None, res_updated := now d,
      res_completed := Some (now d)\<rparr>) (action_results d)"
    unfolding persist_outcome_def Let_def by (auto split: option.splits simp: add_audit_def)
  show ?thesis
    unfolding succeeded_def list_ex_iff rows
    by (rule bexI [OF _ in_upd_whereI [OF r(1)]]) (use r(2) k in auto)
qed

lemma keeps_persist:
  assumes "outcome_final out"
  shows "keeps (pb_inv env) (pb_rely env) (row_at rid run k)
     (persist_webhook_outcome tenant run rid owner n mx out actor act)
     (\<lambda>dp d. snd dp \<and> do_status (fst dp) = Succeeded \<longrightarrow> succeeded d run k)"
  unfolding persist_webhook_outcome_def Let_def
proof (rule keeps_bind)
  let ?out = "durable_webhook_outcome out n mx"
  show "keeps (pb_inv env) (pb_rely env) (row_at rid run k)
      (stmt (\<lambda>d. Inr (persist_outcome rid run tenant owner ?out actor act d)))
      (\<lambda>row d. row \<noteq> None \<and> do_status ?out = Succeeded \<longrightarrow> succeeded d run k)"
    by (rule pb.keeps_stmt [OF stable_row_at])
      (auto intro: rely_persist_outcome [OF _ _ durable_final [OF assms]]
        persist_outcome_succeeded)
qed (rule keeps_ret; simp)

lemma safe_persist:
  assumes "outcome_final out"
  shows "safe (pb_inv env) (pb_rely env)
     (persist_webhook_outcome tenant run rid owner n mx out actor act)"
  unfolding persist_webhook_outcome_def Let_def
  by (intro keeps_intros pb.safe_stmt TrueI)
    (auto intro: rely_persist_outcome [OF _ _ durable_final [OF assms]])

subsection \<open>The action loop\<close>

lemma insert_result_post:
  assumes "insert_result rid run a lease d = Inr (x, d')"
    and "lease = None \<longleftrightarrow> \<not> is_webhook (pl_type a)"
  shows "case x of None \<Rightarrow> True | Some r \<Rightarrow> row_at (res_id r) run (pl_key a) d'
    \<and> (\<not> is_webhook (pl_type a) \<longrightarrow> res_status r \<noteq> Succeeded)"
  using assms
  by (auto simp: insert_result_def insert_unless_def Let_def row_at_def initial_result_def
      split: if_splits option.splits)

lemma keeps_insert_result:
  assumes "lease = None \<longleftrightarrow> \<not> is_webhook (pl_type a)"
  shows "keeps (pb_inv env) (pb_rely env) (at_position env run before (a # after))
     (stmt (insert_result rid run a lease))
     (\<lambda>x d. at_position env run before (a # after) d \<and>
       (case x of None \<Rightarrow> True | Some r \<Rightarrow> row_at (res_id r) run (pl_key a) d
         \<and> (\<not> is_webhook (pl_type a) \<longrightarrow> res_status r \<noteq> Succeeded)))"
proof (rule pb.keeps_stmt [OF stable_at_position])
  fix d x d'
  assume inv: "pb_inv env d" and p: "at_position env run before (a # after) d"
    and ins: "insert_result rid run a lease d = Inr (x, d')"
  from rely_insert_result [OF ins inv p assms] have R: "pb_rely env d d'" .
  with inv p stable_at_position have "at_position env run before (a # after) d'"
    unfolding stable_def by blast
  with R insert_result_post [OF ins assms]
  show "pb_rely env d d' \<and> at_position env run before (a # after) d' \<and>
     (case x of None \<Rightarrow> True | Some r \<Rightarrow> row_at (res_id r) run (pl_key a) d'
       \<and> (\<not> is_webhook (pl_type a) \<longrightarrow> res_status r \<noteq> Succeeded))" by blast
qed

lemma select_status_succeeded:
  "select_result_status run k d = Some Succeeded \<Longrightarrow> succeeded d run k"
  by (auto simp: select_result_status_def succeeded_def list_ex_iff dest!: first_row_SomeD)

text \<open>The three branches, each continuing at the next position of the plan.\<close>

abbreviation at_action ::
  "py_env \<Rightarrow> uuid \<Rightarrow> plan_action list \<Rightarrow> plan_action \<Rightarrow> plan_action list \<Rightarrow> pb_db \<Rightarrow> bool" where
  "at_action env run before a after \<equiv> at_position env run before (a # after)"

abbreviation keeps_to_end ::
  "py_env \<Rightarrow> (pb_db \<Rightarrow> bool) \<Rightarrow> (unit, unit) pb_prog \<Rightarrow> bool" where
  "keeps_to_end env P m \<equiv> keeps (pb_inv env) (pb_rely env) P m (\<lambda>_ _. True)"

lemmas framed_at = pb.keeps_frame [OF _ stable_at_position]
lemmas framed_row = pb.keeps_frame [OF _ stable_row_at]

lemma keeps_onward:
  assumes "keeps_to_end env (at_position env run (before @ [a]) after) rest"
    and "\<And>d. P d \<Longrightarrow> at_action env run before a after d \<and> succeeded d run (pl_key a)"
  shows "keeps_to_end env P rest"
  by (rule keeps_conseq [OF assms(1)]) (auto intro: at_position_step dest: assms(2))

lemma keeps_present_action:
  assumes "keeps_to_end env (at_position env run (before @ [a]) after) rest"
  shows "keeps_to_end env (at_action env run before a after) (present_action run a rest)"
  unfolding present_action_def
proof (rule keeps_bind)
  let ?seen = "\<lambda>ex d. (ex = Some Succeeded \<longrightarrow> succeeded d run (pl_key a))
    \<and> at_action env run before a after d"
  show "keeps (pb_inv env) (pb_rely env) (at_action env run before a after)
      (query (select_result_status run (pl_key a))) ?seen"
    by (rule pb.keeps_query [OF stable_at_position]) (auto intro: select_status_succeeded)
  show "keeps_to_end env (?seen ex) (if ex \<noteq> Some Succeeded then ret () else rest)" for ex
    by (auto intro!: keeps_ret intro: keeps_onward [OF assms])
qed

lemma keeps_control_action:
  assumes "res_status r \<noteq> Succeeded"
  shows "keeps_to_end env P (control_action actor tenant run a r rest)"
  unfolding control_action_def using assms
  by (auto intro!: keeps_bind [OF keeps_safe [OF pbc.safe_record_required]] keeps_ret)

lemma keeps_webhook_action:
  assumes "keeps_to_end env (at_position env run (before @ [a]) after) rest"
  shows "keeps_to_end env
     (\<lambda>d. row_at (res_id r) run (pl_key a) d \<and> at_action env run before a after d)
     (webhook_action env actor tenant run ctx a lease r rest)"
proof -
  let ?P = "\<lambda>d. row_at (res_id r) run (pl_key a) d \<and> at_action env run before a after d"
  have audit: "keeps (pb_inv env) (pb_rely env) ?P
      (record_required act actor (Some tenant) rt rid det) (\<lambda>_. ?P)" for act rt rid det
    by (rule keeps_conseq [OF framed_at [OF framed_row [OF pbc.safe_record_required]]]) auto
  have send: "keeps (pb_inv env) (pb_rely env) ?P (run_webhook env c ctx run rid)
      (\<lambda>out d. outcome_final out \<and> ?P d)" for c rid
    by (rule keeps_conseq [OF framed_at [OF framed_row [OF keeps_run_webhook]]])
      (auto simp: outcome_final_def)
  show ?thesis
    unfolding webhook_action_def Let_def
    by (intro keeps_bind [OF audit] keeps_bind [OF send] keeps_pure
        keeps_bind [OF framed_at [OF keeps_persist]] keeps_if keeps_ret TrueI)
      (auto intro: keeps_onward [OF assms])
qed

lemma keeps_run_actions:
  "keeps_to_end env (at_position env run before actions)
     (run_actions env actor tenant run ctx actions)"
proof (induction actions arbitrary: before)
  case Nil
  then show ?case by (simp add: keeps_ret)
next
  case (Cons a after)
  let ?at = "at_action env run before a after"
  let ?next = "run_actions env actor tenant run ctx after"
  note rest = Cons.IH [of "before @ [a]"]
  let ?lease_ok = "\<lambda>lease :: string option. lease = None \<longleftrightarrow> \<not> is_webhook (pl_type a)"
  have lease: "keeps (pb_inv env) (pb_rely env) ?at
      (if is_webhook (pl_type a) then bindM uuid4 (\<lambda>u. ret (Some (''initial:'' @ u))) else ret None)
      (\<lambda>lease d. ?lease_ok lease \<and> ?at d)"
    by (auto intro!: keeps_bind [OF keeps_uuid4, where Q' = "\<lambda>_. ?at"] keeps_ret)
  have branch: "keeps_to_end env (\<lambda>d. ?at d \<and> (case x of None \<Rightarrow> True
        | Some r \<Rightarrow> row_at (res_id r) run (pl_key a) d
            \<and> (\<not> is_webhook (pl_type a) \<longrightarrow> res_status r \<noteq> Succeeded)))
      (case x of None \<Rightarrow> present_action run a ?next
        | Some r \<Rightarrow> if is_webhook (pl_type a) then webhook_action env actor tenant run ctx a l r ?next
            else control_action actor tenant run a r ?next)" for x l
  proof (cases x)
    case None
    then show ?thesis by (simp add: keeps_present_action [OF rest])
  next
    case (Some r)
    have control: "keeps_to_end env (\<lambda>d. res_status r \<noteq> Succeeded \<and> ?at d)
        (control_action actor tenant run a r ?next)"
      by (rule keeps_pure) (rule keeps_control_action)
    show ?thesis
    proof (cases "is_webhook (pl_type a)")
      case True
      with Some show ?thesis
        by simp (rule keeps_conseq [OF keeps_webhook_action [OF rest]]; simp)
    next
      case False
      with Some show ?thesis by simp (rule keeps_conseq [OF control]; simp)
    qed
  qed
  show ?case
    unfolding run_actions.simps
    by (rule keeps_bind [OF keeps_uuid4], assumption, rule keeps_bind [OF lease], rule keeps_pure,
        rule keeps_bind [OF keeps_insert_result branch])
qed

subsection \<open>The public operations and the ticks\<close>

lemma safe_refresh: "safe (pb_inv env) (pb_rely env) (refresh_run_status tenant rid)"
  unfolding refresh_run_status_def Let_def
  by (intro pbc.core_intros pb.safe_stmt TrueI) (auto intro: rely_set_run_status)

lemma safe_fetch: "safe (pb_inv env) (pb_rely env) (fetch_run tenant rid)"
  unfolding fetch_run_def by (intro pbc.core_intros TrueI)

lemma select_run_snapshot_position:
  assumes "select_run_snapshot run tenant pid d = Some r"
    and "normalize_action_plan env (run_plan r) = Inr actions"
  shows "at_position env run [] actions d"
  using assms by (auto simp: select_run_snapshot_def at_position_def dest!: first_row_SomeD)

lemma safe_execute_run_actions:
  "safe (pb_inv env) (pb_rely env) (execute_run_actions env user tenant run pid)"
proof -
  let ?snap = "\<lambda>snap d. case snap of None \<Rightarrow> True
    | Some r \<Rightarrow> (\<forall>actions. normalize_action_plan env (run_plan r) = Inr actions
        \<longrightarrow> at_position env run [] actions d)"
  have q: "keeps (pb_inv env) (pb_rely env) (\<lambda>_. True)
      (query (select_run_snapshot run tenant pid)) ?snap"
    by (rule pb.keeps_query [OF pb.stable_true])
      (auto split: option.splits intro: select_run_snapshot_position)
  have loop: "keeps_to_end env (?snap (Some r)) (bindM (lift (normalize_action_plan env (run_plan r)))
      (\<lambda>actions. bindM (run_actions env actor tenant run ctx actions)
        (\<lambda>_. bindM (refresh_run_status tenant run) (\<lambda>_. ret ()))))" for r actor ctx
    by (rule keeps_bind [where Q' = "\<lambda>actions. at_position env run [] actions"])
      (auto intro!: keeps_lift keeps_bind [OF keeps_run_actions] keeps_bind [OF safe_refresh] keeps_ret)
  show ?thesis
    unfolding execute_run_actions_def Let_def
  proof (rule keeps_bind [OF q])
    show "keeps_to_end env (?snap s) (case s of None \<Rightarrow> raise (HTTPException 404 ''playbook run not found'')
     | Some r \<Rightarrow>
         bindM (lift (normalize_action_plan env (run_plan r))) (\<lambda>actions.
         bindM (run_actions env (case user of None \<Rightarrow> run_actor r | Some u \<Rightarrow> Some (actor_id u))
           tenant run (run_context r) actions) (\<lambda>_.
         bindM (refresh_run_status tenant run) (\<lambda>_. ret ()))))" for s
      using loop by (cases s) (auto intro: keeps_raise)
  qed
qed

lemma safe_authorize: "safe (pb_inv env) (pb_rely env) (authorize user tenant scope roles)"
  unfolding authorize_def by (intro pbc.core_intros TrueI)

lemma safe_schema: "safe (pb_inv env) (pb_rely env) ensure_playbook_schema"
  unfolding ensure_playbook_schema_def by (rule pbc.safe_ensure_schema)

lemma safe_draw_ids: "safe (pb_inv env) (pb_rely env) (draw_ids n)"
  by (induction n) (auto intro!: keeps_intros)

lemmas playbook_intros = pbc.core_intros safe_authorize safe_schema safe_draw_ids safe_refresh
  safe_fetch safe_execute_run_actions pb.safe_stmt TrueI

lemma safe_create_playbook:
  "safe (pb_inv env) (pb_rely env) (create_playbook env user tenant nm desc conds actions)"
  unfolding create_playbook_def
  by (intro playbook_intros)
    (auto simp: insert_playbook_def Let_def split: sum.splits prod.splits
      intro!: rely_frame dest!: insert_actions_frame)

lemma safe_update_playbook:
  "safe (pb_inv env) (pb_rely env) (update_playbook env user tenant pid upd actions)"
  unfolding update_playbook_def Let_def
  by (intro playbook_intros) (auto intro: rely_update_playbook)

lemma safe_list_playbooks: "safe (pb_inv env) (pb_rely env) (list_playbooks user tenant)"
  unfolding list_playbooks_def by (intro playbook_intros)

lemma safe_resume_existing:
  "safe (pb_inv env) (pb_rely env) (resume_existing_run env user tenant pid ctx src sig e)"
  unfolding resume_existing_run_def by (intro playbook_intros)

lemma safe_start_run:
  "safe (pb_inv env) (pb_rely env) (start_run env user tenant pid key ctx src sig)"
  unfolding start_run_def
  by (intro playbook_intros safe_resume_existing) (auto intro: rely_insert_run)

lemma safe_execute_playbook:
  "safe (pb_inv env) (pb_rely env) (execute_playbook env user tenant pid key ctx src sig)"
  unfolding execute_playbook_def by (intro playbook_intros safe_resume_existing safe_start_run)

lemma safe_acknowledge_action:
  "safe (pb_inv env) (pb_rely env) (acknowledge_action env user tenant rid aid ok ext md)"
  unfolding acknowledge_action_def Let_def
  by (intro playbook_intros) (auto elim!: rely_acknowledge)

lemma safe_retry_action: "safe (pb_inv env) (pb_rely env) (retry_action user tenant rid aid)"
  unfolding retry_action_def by (intro playbook_intros) (auto intro: rely_queue_retry)

lemma safe_list_runs: "safe (pb_inv env) (pb_rely env) (list_runs user tenant pid sig limit)"
  unfolding list_runs_def by (intro playbook_intros)

lemma safe_audit_exhausted: "safe (pb_inv env) (pb_rely env) (audit_exhausted rows)"
  by (induction rows rule: audit_exhausted.induct) (auto intro!: playbook_intros)

lemma safe_retry_claimed: "safe (pb_inv env) (pb_rely env) (retry_claimed env owner r run c)"
proof -
  have send: "keeps (pb_inv env) (pb_rely env) (\<lambda>_. True) (run_webhook env cf ctx rn rid)
      (\<lambda>out d. outcome_final out \<and> True)" for cf ctx rn rid
    by (rule keeps_conseq [OF keeps_run_webhook]) (auto simp: outcome_final_def)
  show ?thesis
    unfolding retry_claimed_def Let_def
    by (intro safe_bind [OF pbc.safe_record_required] keeps_bind [OF send] keeps_pure
        safe_bind [OF safe_persist] playbook_intros)
qed

lemma safe_retry_loop: "safe (pb_inv env) (pb_rely env) (retry_loop env owner n c)"
proof (induction n arbitrary: c)
  case (Suc n)
  show ?case
    unfolding retry_loop.simps
    by (intro playbook_intros safe_retry_claimed Suc.IH) (auto intro: rely_claim)
qed (simp add: keeps_ret)

lemma safe_tick_retries: "safe (pb_inv env) (pb_rely env) (tick_playbook_retries env batch wid rdy)"
  unfolding tick_playbook_retries_def Let_def
  by (intro playbook_intros safe_audit_exhausted safe_retry_loop) (auto intro: rely_finalize)

lemma safe_resume_all: "safe (pb_inv env) (pb_rely env) (resume_all env runs counts)"
  by (induction env runs counts rule: resume_all.induct) (auto intro!: playbook_intros)

lemma safe_tick_continuations:
  "safe (pb_inv env) (pb_rely env) (tick_playbook_continuations env batch rdy)"
  unfolding tick_playbook_continuations_def by (intro playbook_intros safe_resume_all)

end
