(* ===== verification/Lease.thy ===== *)
theory Lease
  imports Prelude
begin

section \<open>Leased work: the contract three queues share\<close>

text \<open>
  Playbook webhook retries, export jobs and ingest batches are queues in a table: a worker
  claims a due row, which increments its attempt counter and gives it an owner and an expiry,
  and a row whose lease ran out may be claimed again.  The locale states what the claim of a
  queue promises; its lemmas say what follows for any number of competing workers.
\<close>

text \<open>
  What may happen to one row over time, with the instants at which it is claimed:
  \<open>lease_run claimable claim attempts maxi r cs r'\<close> leads from \<open>r\<close> to \<open>r'\<close>, claiming it at the
  times \<open>cs\<close>; between claims any change that does not lower the counter may happen.
\<close>

inductive lease_run ::
  "(time \<Rightarrow> 'r \<Rightarrow> bool) \<Rightarrow> (time \<Rightarrow> string \<Rightarrow> 'r \<Rightarrow> 'r) \<Rightarrow> ('r \<Rightarrow> int) \<Rightarrow> ('r \<Rightarrow> int) \<Rightarrow>
   'r \<Rightarrow> time list \<Rightarrow> 'r \<Rightarrow> bool"
  for claimable claim attempts maxi where
  rest: "lease_run claimable claim attempts maxi r [] r"
| other: "lease_run claimable claim attempts maxi r cs q \<Longrightarrow> attempts q \<le> attempts q' \<Longrightarrow>
    maxi q' = maxi q \<Longrightarrow> lease_run claimable claim attempts maxi r cs q'"
| claim: "lease_run claimable claim attempts maxi r cs q \<Longrightarrow> claimable t q \<Longrightarrow>
    lease_run claimable claim attempts maxi r (t # cs) (claim t w q)"

inductive_cases lease_run_ConsE: "lease_run claimable claim attempts maxi r (t # cs) q"

locale lease_queue =
  fixes attempts :: "'r \<Rightarrow> int" and maxi :: "'r \<Rightarrow> int"
    and owner :: "'r \<Rightarrow> string option" and expires :: "'r \<Rightarrow> time option"
    and claimable :: "time \<Rightarrow> 'r \<Rightarrow> bool" and claim :: "time \<Rightarrow> string \<Rightarrow> 'r \<Rightarrow> 'r"
    and lease :: time
  assumes lease_positive: "0 < lease"
    and claimable_attempts: "claimable t r \<Longrightarrow> attempts r < maxi r"
    and claimable_unleased: "claimable t r \<Longrightarrow> expires r = Some e \<Longrightarrow> e \<le> t"
    and claim_attempts: "attempts (claim t w r) = attempts r + 1"
    and claim_maxi: "maxi (claim t w r) = maxi r"
    and claim_owner: "owner (claim t w r) = Some w"
    and claim_expires: "expires (claim t w r) = Some (t + lease)"
begin

text \<open>While a lease runs no other worker can claim the row.\<close>

lemma claim_excludes: "t' < t + lease \<Longrightarrow> \<not> claimable t' (claim t w r)"
  using claimable_unleased [OF _ claim_expires] by fastforce

text \<open>However often workers crash and their leases expire, a row is claimed a bounded number of times.\<close>

lemma lease_run_bounded:
  assumes "lease_run claimable claim attempts maxi r cs r'" and "attempts r \<le> maxi r"
  shows "maxi r' = maxi r \<and> attempts r + int (length cs) \<le> attempts r'
    \<and> (cs \<noteq> [] \<longrightarrow> int (length cs) \<le> maxi r - attempts r)"
  using assms
proof induction
  case (claim r cs q t w)
  then have "maxi q = maxi r" "attempts r + int (length cs) \<le> attempts q" by auto
  with claimable_attempts [OF claim.hyps(2)] show ?case
    by (auto simp: claim_attempts claim_maxi)
qed auto

lemma claims_bounded:
  "lease_run claimable claim attempts maxi r cs r' \<Longrightarrow> attempts r \<le> maxi r \<Longrightarrow>
   int (length cs) \<le> maxi r - attempts r"
  using lease_run_bounded [of r cs r'] by (cases cs) auto

end

end
