(* ===== verification/Playbook_Lease.thy ===== *)
theory Playbook_Lease
  imports Playbook_Safety Lease
begin

section \<open>Playbooks: webhook retries as leased work\<close>

text \<open>The claim of \<open>_claim_due_webhook_retry\<close> meets the contract of the queue.\<close>

interpretation retry_queue: lease_queue res_attempt res_max res_owner res_expires
  claimable claim_result "secs webhook_lease_seconds"
proof
  show "0 < secs webhook_lease_seconds" by (simp add: webhook_lease_seconds_def secs_def)
  show "claimable t r \<Longrightarrow> res_attempt r < res_max r" for t r by (simp add: claimable_def)
  show "claimable t r \<Longrightarrow> res_expires r = Some e \<Longrightarrow> e \<le> t" for t r e
    by (auto simp: claimable_def)
qed (simp_all add: claim_result_def)

text \<open>The rows a claim chooses from, and what it returns.\<close>

abbreviation due_retry :: "'z pb_db_scheme \<Rightarrow> result_row \<Rightarrow> bool" where
  "due_retry d r \<equiv> claimable (now d) r \<and> list_ex (\<lambda>q. run_id q = res_run r) (playbook_runs d)"

lemma claim_due_least:
  assumes "claim_due_webhook_retry w d = (x, d')"
  obtains (none) "x = None" "d' = d" "\<forall>r \<in> set (action_results d). \<not> due_retry d r"
  | (some) r run where "x = Some (claim_result (now d) w r, run)" "r \<in> set (action_results d)"
      "due_retry d r" "run_id run = res_run r"
      "\<forall>q \<in> set (action_results d). due_retry d q \<longrightarrow> claim_order r \<le> claim_order q"
      "action_results d' = upd_where (\<lambda>q. res_id q = res_id r) (claim_result (now d) w)
        (action_results d)"
proof (cases "sort_key claim_order (filter (due_retry d) (action_results d))")
  case Nil
  then have "filter (due_retry d) (action_results d) = []" by (simp only: sort_key_Nil_iff)
  moreover have "x = None \<and> d' = d" using assms by (simp add: claim_due_webhook_retry_def Nil)
  ultimately show ?thesis using none by (simp add: filter_empty_conv)
next
  case (Cons r rs)
  from hd_sort_key [OF Cons] have r: "r \<in> set (action_results d)" "due_retry d r"
    and least: "\<forall>q \<in> set (action_results d). due_retry d q \<longrightarrow> claim_order r \<le> claim_order q" by auto
  show ?thesis
  proof (cases "first_row (\<lambda>q. run_id q = res_run r) (playbook_runs d)")
    case None
    with r(2) show ?thesis by (auto simp: first_row_None_iff list_ex_iff)
  next
    case (Some run)
    have "x = Some (claim_result (now d) w r, run)" "action_results d' =
        upd_where (\<lambda>q. res_id q = res_id r) (claim_result (now d) w) (action_results d)"
      using assms by (auto simp: claim_due_webhook_retry_def Cons Some)
    with some r least first_row_SomeD [OF Some] show ?thesis by blast
  qed
qed

lemma claimed_row:
  assumes "claim_due_webhook_retry w d = (Some (r, run), d')"
  shows "r \<in> set (action_results d') \<and> res_owner r = Some w \<and> res_status r = Running
    \<and> (\<forall>t < now d + secs webhook_lease_seconds. \<not> claimable t r)"
  using assms
proof (cases rule: claim_due_least)
  case (some r0 run0)
  from in_upd_whereI [OF some(2), of "\<lambda>q. res_id q = res_id r0" "claim_result (now d) w"] some(1,6)
  have "r \<in> set (action_results d')" "r = claim_result (now d) w r0" by auto
  with retry_queue.claim_excludes show ?thesis by (auto simp: claim_result_def)
qed simp

lemma persist_lost:
  assumes "\<And>q. q \<in> set (action_results d) \<Longrightarrow>
    \<not> (res_id q = rid \<and> res_run q = run \<and> res_owner q = Some owner \<and> res_status q = Running)"
  shows "persist_outcome rid run tenant owner out actor act d = (None, d)"
proof -
  have "first_row (\<lambda>r. res_id r = rid \<and> res_run r = run \<and> res_owner r = Some owner
      \<and> res_status r = Running) (action_results d) = None"
    unfolding first_row_None_iff using assms by blast
  then show ?thesis by (simp add: persist_outcome_def)
qed

end
