(* ===== verification/System.thy ===== *)
theory System
  imports Platform
begin

section \<open>Histories of a service\<close>

text \<open>
  A service as a whole is a family of calls (\<open>run\<close>).  Between two statements of one call time
  passes and other workers run whole calls, themselves interleaved in the same way
  (\<open>interferes\<close>); a history is a sequence of such calls from a fresh database (\<open>reachable\<close>).
  The locale \<open>service\<close> is the contract of a family of calls whose programs keep a protocol: then
  interference stays in the relation and every reachable database satisfies the invariant.
\<close>

definition elapse :: "time \<Rightarrow> 'z core_db_scheme \<Rightarrow> 'z core_db_scheme" where
  "elapse t d = d\<lparr>now := now d + t\<rparr>"

definition ignore :: "('d, 'x, 'a) prog \<Rightarrow> ('d, 'x, unit) prog" where
  "ignore m = bindM m (\<lambda>_. ret ())"

lemma safe_ignore: "safe I R m \<Longrightarrow> safe I R (ignore m)"
  unfolding ignore_def by (intro keeps_intros)

inductive interferes ::
  "('c \<Rightarrow> ('z core_db_scheme, 'x, unit) prog) \<Rightarrow> ('z core_db_scheme \<Rightarrow> 'z core_db_scheme) \<Rightarrow> bool"
  for run where
  idle: "0 \<le> t \<Longrightarrow> interferes run (elapse t)"
| call: "(\<And>n. interferes run (fst (wenv w n))) \<Longrightarrow>
    interferes run (\<lambda>d. wdb (snd (run c (w\<lparr>wdb := d\<rparr>))))"
| both: "interferes run f \<Longrightarrow> interferes run g \<Longrightarrow> interferes run (\<lambda>d. g (f d))"

definition interfered ::
  "('c \<Rightarrow> ('z core_db_scheme, 'x, unit) prog) \<Rightarrow> ('z core_db_scheme, 'x) world \<Rightarrow> bool" where
  "interfered run w \<longleftrightarrow> (\<forall>n. interferes run (fst (wenv w n)))"

lemma elapse_0: "elapse 0 = (\<lambda>d. d)"
  by (auto simp: elapse_def)

lemma interfered_quiet: "quiet w \<Longrightarrow> interfered run w"
proof -
  have "interferes run (\<lambda>d. d)" using interferes.idle [of 0 run] by (simp add: elapse_0)
  then show "quiet w \<Longrightarrow> ?thesis" by (simp add: interfered_def quiet_def)
qed

inductive reachable ::
  "('c \<Rightarrow> ('z core_db_scheme, 'x, unit) prog) \<Rightarrow> ('z core_db_scheme \<Rightarrow> bool) \<Rightarrow> 'z core_db_scheme \<Rightarrow> bool"
  for run fresh where
  fresh: "fresh d \<Longrightarrow> reachable run fresh d"
| step: "reachable run fresh (wdb w) \<Longrightarrow> interfered run w \<Longrightarrow>
    reachable run fresh (wdb (snd (run c w)))"

lemma interfered_quiet_world [simp]: "interfered run (quiet_world d answers ids)"
  by (rule interfered_quiet) (simp add: quiet_def quiet_world_def)

lemma reachable_quiet:
  "reachable run fresh d \<Longrightarrow> reachable run fresh (wdb (snd (run c (quiet_world d answers ids))))"
  by (rule reachable.step) simp_all

locale service = protocol inv R
  for inv :: "'z core_db_scheme \<Rightarrow> bool" and R :: "'z core_db_scheme \<Rightarrow> 'z core_db_scheme \<Rightarrow> bool" +
  fixes run :: "'c \<Rightarrow> ('z core_db_scheme, 'x, unit) prog" and fresh :: "'z core_db_scheme \<Rightarrow> bool"
  assumes safe_call: "safe inv R (run c)"
    and rely_elapse: "0 \<le> t \<Longrightarrow> inv d \<Longrightarrow> R d (elapse t d)"
    and fresh_inv: "fresh d \<Longrightarrow> inv d"
begin

lemma interferes_rely: "interferes run f \<Longrightarrow> R d (f d)"
proof (induction arbitrary: d rule: interferes.induct)
  case (idle t)
  then show ?case using rely_elapse rely_vacuous by (cases "inv d") auto
next
  case (call w c)
  then have "env_in R w" by (simp add: env_in_def)
  from program_interferes [OF safe_call this] show ?case .
next
  case (both f g)
  then show ?case by (blast intro: rely_trans)
qed

lemma interfered_env_in: "interfered run w \<Longrightarrow> env_in R w"
  by (simp add: interfered_def env_in_def interferes_rely)

lemma call_keeps:
  "interfered run w \<Longrightarrow> inv (wdb w) \<Longrightarrow>
   inv (wdb (snd (run c w))) \<and> R (wdb w) (wdb (snd (run c w)))"
  by (rule safe_run [OF safe_call interfered_env_in])

lemma reachable_inv: "reachable run fresh d \<Longrightarrow> inv d"
proof (induction rule: reachable.induct)
  case (fresh d)
  then show ?case by (rule fresh_inv)
next
  case (step w c)
  from call_keeps [OF step.hyps(2) step.IH] show ?case by blast
qed

lemma reachable_step:
  "reachable run fresh (wdb w) \<Longrightarrow> interfered run w \<Longrightarrow> R (wdb w) (wdb (snd (run c w)))"
  using call_keeps [of w c] reachable_inv by blast

end

end
