(* ===== verification/Playbook_System.thy ===== *)
theory Playbook_System
  imports Playbook_Protocol Playbook_Lease System
begin

section \<open>Playbooks: histories\<close>

text \<open>
  The service as a whole: its calls and the databases that any history of calls reaches.
\<close>

datatype pb_call =
    C_create auth_user uuid string string jdict "new_action list"
  | C_update auth_user uuid uuid playbook_updates "new_action list option"
  | C_list_playbooks auth_user uuid
  | C_execute auth_user uuid uuid string jdict string "uuid option"
  | C_acknowledge auth_user uuid uuid uuid bool "string option" jdict
  | C_retry auth_user uuid uuid uuid
  | C_list_runs auth_user uuid "uuid option" "uuid option" int
  | C_tick_retries int "string option" bool
  | C_tick_continuations int bool

fun pb_run :: "py_env \<Rightarrow> pb_call \<Rightarrow> ('z, unit) pb_prog" where
  "pb_run env (C_create u t nm desc conds acts) = ignore (create_playbook env u t nm desc conds acts)"
| "pb_run env (C_update u t p upd acts) = ignore (update_playbook env u t p upd acts)"
| "pb_run env (C_list_playbooks u t) = ignore (list_playbooks u t)"
| "pb_run env (C_execute u t p key ctx src sig) = ignore (execute_playbook env u t p key ctx src sig)"
| "pb_run env (C_acknowledge u t r a ok ext md) = ignore (acknowledge_action env u t r a ok ext md)"
| "pb_run env (C_retry u t r a) = ignore (retry_action u t r a)"
| "pb_run env (C_list_runs u t p sig n) = ignore (list_runs u t p sig n)"
| "pb_run env (C_tick_retries n w rdy) = ignore (tick_playbook_retries env n w rdy)"
| "pb_run env (C_tick_continuations n rdy) = ignore (tick_playbook_continuations env n rdy)"

lemma safe_pb_run: "safe (pb_inv env) (pb_rely env) (pb_run env c)"
  by (cases c)
    (simp_all add: safe_ignore safe_create_playbook safe_update_playbook safe_list_playbooks
      safe_execute_playbook safe_acknowledge_action safe_retry_action safe_list_runs
      safe_tick_retries safe_tick_continuations)

definition fresh_pb :: "pb_db \<Rightarrow> bool" where
  "fresh_pb d \<longleftrightarrow> playbooks d = [] \<and> playbook_actions d = [] \<and> playbook_runs d = []
     \<and> action_results d = [] \<and> deliveries d = []"

abbreviation pb_reachable :: "py_env \<Rightarrow> pb_db \<Rightarrow> bool" where
  "pb_reachable env \<equiv> reachable (pb_run env) fresh_pb"

lemma pb_inv_elapse: "pb_inv env (elapse t d) = pb_inv env d"
  unfolding elapse_def by (rule pb_inv_cong) simp_all

interpretation pbs: service "pb_inv env" "pb_rely env" "pb_run env" fresh_pb for env
proof
  show "safe (pb_inv env) (pb_rely env) (pb_run env c)" for c by (rule safe_pb_run)
  show "0 \<le> t \<Longrightarrow> pb_inv env d \<Longrightarrow> pb_rely env d (elapse t d)" for t d
    using pb_inv_elapse [of env t d] by (simp add: pb_rely_def elapse_def each_refl)
  show "fresh_pb d \<Longrightarrow> pb_inv env d" for d by (simp add: fresh_pb_def pb_inv_def)
qed

definition actions_in_order :: "py_env \<Rightarrow> pb_db \<Rightarrow> bool" where
  "actions_in_order env d \<longleftrightarrow> (\<forall>q \<in> set (playbook_runs d).
     case normalize_action_plan env (run_plan q) of
       Inl _ \<Rightarrow> True
     | Inr plan \<Rightarrow> (\<forall>j < length plan. \<forall>i < j.
         started d (run_id q) (pl_key (plan ! j)) \<longrightarrow> succeeded d (run_id q) (pl_key (plan ! i))))"

lemma inv_in_order:
  assumes "pb_inv env d"
  shows "actions_in_order env d"
  unfolding actions_in_order_def
proof
  fix q assume q: "q \<in> set (playbook_runs d)"
  show "case normalize_action_plan env (run_plan q) of Inl _ \<Rightarrow> True
     | Inr plan \<Rightarrow> (\<forall>j < length plan. \<forall>i < j.
         started d (run_id q) (pl_key (plan ! j)) \<longrightarrow> succeeded d (run_id q) (pl_key (plan ! i)))"
  proof (cases "normalize_action_plan env (run_plan q)")
    case (Inr plan)
    with assms q have b: "baton (started d (run_id q)) (succeeded d (run_id q)) (map pl_key plan)"
      by (auto simp: pb_inv_def run_baton_def list_all_iff)
    show ?thesis unfolding Inr sum.case
    proof (intro allI impI)
      fix j i assume "j < length plan" "i < j" "started d (run_id q) (pl_key (plan ! j))"
      with baton_order [OF b, of i j] show "succeeded d (run_id q) (pl_key (plan ! i))" by simp
    qed
  qed simp
qed

end
