(* ===== verification/Playbook_Outbox.thy ===== *)
theory Playbook_Outbox
  imports Playbook_System Outbound
begin

section \<open>Playbooks: what leaves the process\<close>

text \<open>
  A second protocol on the same programs, about the requests that were sent: the outbox only
  grows, and every request in it went to a destination the outbound guard accepted, under the
  idempotency key of its action result.
\<close>

definition delivery_ok :: "py_env \<Rightarrow> delivery \<Rightarrow> bool" where
  "delivery_ok env x \<longleftrightarrow>
     (\<exists>dns url. validate_outbound_url (pe_net env) dns url = Inr (dl_url x))
     \<and> (\<exists>run. map_of (dl_headers x) ''Idempotency-Key'' = Some (run @ '':'' @ dl_result x))"

definition outbox_inv :: "py_env \<Rightarrow> pb_db \<Rightarrow> bool" where
  "outbox_inv env d \<longleftrightarrow> list_all (delivery_ok env) (deliveries d)"

definition outbox_rely :: "py_env \<Rightarrow> pb_db \<Rightarrow> pb_db \<Rightarrow> bool" where
  "outbox_rely env d d' \<longleftrightarrow> (outbox_inv env d \<longrightarrow>
     (\<exists>sent. deliveries d' = deliveries d @ sent \<and> list_all (delivery_ok env) sent))"

interpretation ob: protocol "outbox_inv env" "outbox_rely env" for env
proof
  show "outbox_rely env d d" for d by (simp add: outbox_rely_def)
  show "outbox_rely env d d' \<Longrightarrow> outbox_rely env d' d'' \<Longrightarrow> outbox_rely env d d''" for d d' d''
    by (fastforce simp: outbox_rely_def outbox_inv_def)
  show "outbox_rely env d d' \<Longrightarrow> outbox_inv env d \<Longrightarrow> outbox_inv env d'" for d d'
    by (auto simp: outbox_rely_def outbox_inv_def)
  show "\<not> outbox_inv env d \<Longrightarrow> outbox_rely env d d'" for d d'
    by (simp add: outbox_rely_def)
qed

lemma outbox_frame: "deliveries d' = deliveries d \<Longrightarrow> outbox_rely env d d'"
  by (simp add: outbox_rely_def)

interpretation obc: core_protocol "outbox_inv env" "outbox_rely env" for env
  by unfold_locales (rule outbox_frame; simp add: add_audit_def)

subsection \<open>No statement touches the outbox\<close>

named_theorems outbox_simps "statements that leave the outbox alone"

lemma insert_actions_outbox: "insert_actions env pid n as d = Inr (rows, d') \<Longrightarrow> deliveries d' = deliveries d"
  by (induction env pid n as d arbitrary: rows d' rule: insert_actions.induct)
    (auto simp: Let_def split: sum.splits prod.splits)

lemma stmt_outbox [outbox_simps]:
  "deliveries (snd (persist_outcome rid run tenant owner out actor act d)) = deliveries d"
  "deliveries (snd (acknowledge_stmt rid run tenant st ext md who d)) = deliveries d"
  "deliveries (snd (queue_retry rid run tenant d)) = deliveries d"
  "deliveries (snd (claim_due_webhook_retry worker d)) = deliveries d"
  "deliveries (snd (finalize_stmt d)) = deliveries d"
  "deliveries (set_run_status rid tenant rst fin d) = deliveries d"
  by (auto simp: persist_outcome_def acknowledge_stmt_def queue_retry_def set_run_status_def
      claim_due_webhook_retry_def finalize_stmt_def finalize_expired_retry_leases_def Let_def
      add_audit_def split: option.splits list.splits)

lemma insert_run_outbox: "insert_run row d = Inr (r, d') \<Longrightarrow> deliveries d' = deliveries d"
  by (auto simp: insert_run_def Let_def split: prod.splits if_splits)

lemma insert_result_outbox: "insert_result rid run a lease d = Inr (r, d') \<Longrightarrow> deliveries d' = deliveries d"
  by (auto simp: insert_result_def Let_def split: prod.splits if_splits)

lemma update_playbook_outbox:
  "update_playbook_txn env tenant pid upd acts d = Inr (r, d') \<Longrightarrow> deliveries d' = deliveries d"
  by (auto simp: update_playbook_txn_def Let_def delete_actions_of_def dest!: insert_actions_outbox
      split: option.splits sum.splits prod.splits)

lemma ob_quiet_stmt:
  "(\<And>d a d'. f d = Inr (a, d') \<Longrightarrow> deliveries d' = deliveries d) \<Longrightarrow>
   safe (outbox_inv env) (outbox_rely env) (stmt f)"
  by (rule ob.safe_stmt) (blast intro: outbox_frame)

lemma ob_total_stmt:
  "(\<And>d. deliveries (snd (f d)) = deliveries d) \<Longrightarrow>
   safe (outbox_inv env) (outbox_rely env) (stmt (\<lambda>d. Inr (f d)))"
  by (rule ob_quiet_stmt) (metis old.sum.inject(2) snd_conv)

subsection \<open>Every operation keeps the outbox\<close>

lemma delivery_ok_made:
  assumes "validate_outbound_url (pe_net env) dns url = Inr safe_url"
  shows "delivery_ok env \<lparr>dl_result = rid, dl_url = safe_url,
    dl_headers = webhook_headers env key body run rid t, dl_body = body\<rparr>"
  using assms by (auto simp: delivery_ok_def webhook_headers_def)

lemma ob_emit:
  assumes "validate_outbound_url (pe_net env) dns url = Inr safe_url"
  shows "safe (outbox_inv env) (outbox_rely env) (emit (\<lambda>d. d\<lparr>deliveries := deliveries d @
     [\<lparr>dl_result = rid, dl_url = safe_url,
       dl_headers = webhook_headers env key body run rid (now d), dl_body = body\<rparr>]\<rparr>))"
  by (rule ob.safe_emit) (simp add: outbox_rely_def delivery_ok_made [OF assms])

lemma ob_run_webhook:
  "safe (outbox_inv env) (outbox_rely env) (run_webhook env c ctx run rid)"
  unfolding run_webhook_def Let_def
  by (intro keeps_intros TrueI)
    (auto intro!: keeps_intros ob_emit split: outbound_error.splits http_answer.splits)

lemma ob_persist: "safe (outbox_inv env) (outbox_rely env)
    (persist_webhook_outcome tenant run rid owner n mx out actor act)"
  unfolding persist_webhook_outcome_def Let_def
  by (intro keeps_intros ob_total_stmt TrueI) (simp add: outbox_simps)

lemma ob_refresh: "safe (outbox_inv env) (outbox_rely env) (refresh_run_status tenant rid)"
  unfolding refresh_run_status_def Let_def
  by (intro obc.core_intros ob_quiet_stmt TrueI) (auto simp: outbox_simps)

lemma ob_fetch: "safe (outbox_inv env) (outbox_rely env) (fetch_run tenant rid)"
  unfolding fetch_run_def by (intro obc.core_intros TrueI)

lemma ob_authorize: "safe (outbox_inv env) (outbox_rely env) (authorize user tenant scope roles)"
  unfolding authorize_def by (intro obc.core_intros TrueI)

lemma ob_schema: "safe (outbox_inv env) (outbox_rely env) ensure_playbook_schema"
  unfolding ensure_playbook_schema_def by (rule obc.safe_ensure_schema)

lemma ob_draw_ids: "safe (outbox_inv env) (outbox_rely env) (draw_ids n)"
  by (induction n) (auto intro!: keeps_intros)

lemmas ob_intros = obc.core_intros ob_authorize ob_schema ob_draw_ids ob_refresh ob_fetch
  ob_run_webhook ob_persist TrueI

lemma ob_run_actions:
  "safe (outbox_inv env) (outbox_rely env) (run_actions env actor tenant run ctx actions)"
proof (induction actions)
  case (Cons a actions)
  show ?case
    unfolding run_actions.simps present_action_def webhook_action_def control_action_def Let_def
    by (intro ob_intros Cons.IH ob_quiet_stmt) (rule insert_result_outbox)
qed (simp add: keeps_ret)

lemma ob_execute_run_actions:
  "safe (outbox_inv env) (outbox_rely env) (execute_run_actions env user tenant run pid)"
  unfolding execute_run_actions_def Let_def by (intro ob_intros ob_run_actions)

lemma ob_resume_existing:
  "safe (outbox_inv env) (outbox_rely env) (resume_existing_run env user tenant pid ctx src sig e)"
  unfolding resume_existing_run_def by (intro ob_intros ob_execute_run_actions)

lemma ob_start_run:
  "safe (outbox_inv env) (outbox_rely env) (start_run env user tenant pid key ctx src sig)"
  unfolding start_run_def
  by (intro ob_intros ob_resume_existing ob_execute_run_actions ob_quiet_stmt)
    (rule insert_run_outbox)

lemma ob_create_playbook:
  "safe (outbox_inv env) (outbox_rely env) (create_playbook env user tenant nm desc conds acts)"
  unfolding create_playbook_def
  by (intro ob_intros ob_quiet_stmt)
    (auto simp: insert_playbook_def Let_def split: sum.splits prod.splits dest!: insert_actions_outbox)

lemma ob_update_playbook:
  "safe (outbox_inv env) (outbox_rely env) (update_playbook env user tenant pid upd acts)"
  unfolding update_playbook_def Let_def
  by (intro ob_intros ob_quiet_stmt) (rule update_playbook_outbox)

lemma ob_retry_loop: "safe (outbox_inv env) (outbox_rely env) (retry_loop env owner n c)"
proof (induction n arbitrary: c)
  case (Suc n)
  show ?case
    unfolding retry_loop.simps retry_claimed_def Let_def
    by (intro ob_intros ob_execute_run_actions Suc.IH ob_total_stmt) (simp add: outbox_simps)
qed (simp add: keeps_ret)

lemma ob_audit_exhausted: "safe (outbox_inv env) (outbox_rely env) (audit_exhausted rows)"
  by (induction rows rule: audit_exhausted.induct) (auto intro!: ob_intros)

lemma ob_resume_all: "safe (outbox_inv env) (outbox_rely env) (resume_all env runs counts)"
  by (induction env runs counts rule: resume_all.induct)
    (auto intro!: ob_intros ob_execute_run_actions)

lemma ob_acknowledge:
  "safe (outbox_inv env) (outbox_rely env) (acknowledge_action env user tenant rid aid ok ext md)"
  unfolding acknowledge_action_def Let_def
  by (intro ob_intros ob_execute_run_actions ob_total_stmt) (simp_all add: outbox_simps)

lemma ob_retry_action:
  "safe (outbox_inv env) (outbox_rely env) (retry_action user tenant rid aid)"
  unfolding retry_action_def by (intro ob_intros ob_total_stmt) (simp_all add: outbox_simps)

lemma ob_pb_run: "safe (outbox_inv env) (outbox_rely env) (pb_run env c)"
proof (cases c)
  case (C_tick_retries n w rdy)
  then show ?thesis
    by (auto simp: tick_playbook_retries_def Let_def outbox_simps
        intro!: safe_ignore ob_intros ob_total_stmt ob_audit_exhausted ob_retry_loop)
next
  case (C_tick_continuations n rdy)
  then show ?thesis
    by (auto simp: tick_playbook_continuations_def intro!: safe_ignore ob_intros ob_resume_all)
qed (auto simp: list_playbooks_def list_runs_def execute_playbook_def
    intro!: safe_ignore ob_intros ob_create_playbook ob_update_playbook
      ob_resume_existing ob_start_run ob_acknowledge ob_retry_action)

interpretation obs: service "outbox_inv env" "outbox_rely env" "pb_run env" fresh_pb for env
proof
  show "safe (outbox_inv env) (outbox_rely env) (pb_run env c)" for c by (rule ob_pb_run)
  show "outbox_rely env d (elapse t d)" for t d by (rule outbox_frame) (simp add: elapse_def)
  show "fresh_pb d \<Longrightarrow> outbox_inv env d" for d by (simp add: fresh_pb_def outbox_inv_def)
qed

end
