(* ===== verification/Demo.thy ===== *)
theory Demo
  imports Playbook_System
begin

section \<open>A concrete instance\<close>

text \<open>
  An instance of the parameters and small databases, on which the witnesses evaluate the
  operations.
\<close>

definition demo_url_parts :: url_parts where
  "demo_url_parts = \<lparr>up_scheme = ''https'', up_username = [], up_password = [], up_fragment = [],
     up_hostname = ''hooks.example.com'', up_port_valid = True\<rparr>"

definition demo_net :: net_env where
  "demo_net = \<lparr>ne_production = True, ne_allowlist = ''*.example.com'',
     ne_urlsplit = (\<lambda>_. Some demo_url_parts), ne_idna = Some,
     ne_ip_global = (\<lambda>a. if a = ''203.0.113.7'' then Some True
        else if a = ''10.0.0.1'' then Some False else None)\<rparr>"

definition demo_env :: py_env where
  "demo_env = \<lparr>pe_loads = (\<lambda>_. None), pe_dumps = (\<lambda>_. ''{}''), pe_repr = (\<lambda>_. []),
     pe_uuid = (\<lambda>s. if s = ''None'' then None else Some s), pe_date = (\<lambda>_. None),
     pe_sha256 = (\<lambda>s. s), pe_hmac = (\<lambda>_ s. s), pe_secrets_json = [], pe_net = demo_net\<rparr>"

definition demo_user :: auth_user where
  "demo_user = \<lparr>au_user_id = ''svc1'', au_kind = SERVICE, au_tenant_id = Some ''T'',
     au_subprocessor = None, au_scopes = [''*''], au_token_prefix = None, au_token_hash = None\<rparr>"

definition demo_ids :: "nat \<Rightarrow> uuid" where
  "demo_ids n = ''u'' @ digits_of n"

definition demo_playbook :: playbook_row where
  "demo_playbook = \<lparr>pbk_id = ''P'', pbk_tenant = ''T'', pbk_name = ''respond'', pbk_description = [],
     pbk_active = True, pbk_conditions = [], pbk_version = 1, pbk_created = 0, pbk_updated = 0\<rparr>"

definition demo_action :: "string \<Rightarrow> string \<Rightarrow> int \<Rightarrow> action_row" where
  "demo_action aid t n = \<lparr>pba_id = aid, pba_playbook = ''P'', pba_type = t,
     pba_config = (if t = ''webhook'' then [(''url'', JStr ''https://hooks.example.com/a'')] else []),
     pba_sort = n\<rparr>"

definition demo_db :: pb_db where
  "demo_db = \<lparr>now = 1000000, schema_ready = True, tenant_members = [], audit_events = [],
     playbooks = [demo_playbook],
     playbook_actions = [demo_action ''A1'' ''webhook'' 0, demo_action ''A2'' ''webhook'' 1,
       demo_action ''A3'' ''block_ip'' 2],
     playbook_runs = [], action_results = [], deliveries = []\<rparr>"

definition demo_answer :: "int \<Rightarrow> net_answer" where
  "demo_answer code = \<lparr>na_dns = Resolved [''203.0.113.7''], na_http = Response code None\<rparr>"


end
