(* ===== verification/Playbook_Properties.thy ===== *)
theory Playbook_Properties
  imports Demo
begin

section \<open>Playbooks: properties\<close>

text \<open>
  The properties of the playbook service, each with a witness at a concrete instance.  The
  instance creates a playbook of two webhooks and a control-plane action, then executes it
  with a first delivery that succeeds and a second that fails with 503.
\<close>

definition demo_fresh :: pb_db where
  "demo_fresh = demo_db\<lparr>playbooks := [], playbook_actions := []\<rparr>"

definition demo_new_actions :: "new_action list" where
  "demo_new_actions =
     [\<lparr>nw_type = ''webhook'', nw_config = [(''url'', JStr ''https://hooks.example.com/a'')], nw_sort = Some 0\<rparr>,
      \<lparr>nw_type = ''webhook'', nw_config = [(''url'', JStr ''https://hooks.example.com/b'')], nw_sort = Some 1\<rparr>,
      \<lparr>nw_type = ''block_ip'', nw_config = [], nw_sort = Some 2\<rparr>]"

definition demo_create :: pb_call where
  "demo_create = C_create demo_user ''T'' ''respond'' [] [] demo_new_actions"

definition demo_execute :: "string \<Rightarrow> pb_call" where
  "demo_execute key = C_execute demo_user ''T'' ''c0'' key [] ''manual'' None"

definition demo_world :: "pb_db \<Rightarrow> (nat \<Rightarrow> int) \<Rightarrow> string \<Rightarrow> (pb_db, net_answer) world" where
  "demo_world d codes prefix =
     quiet_world d (\<lambda>n. demo_answer (codes n)) (\<lambda>n. prefix @ digits_of n)"

definition demo_created :: pb_db where
  "demo_created = wdb (snd (pb_run demo_env demo_create (demo_world demo_fresh (\<lambda>_. 200) ''c'')))"

definition demo_codes :: "nat \<Rightarrow> int" where
  "demo_codes n = (if n = 0 then 200 else 503)"

definition demo_after :: pb_db where
  "demo_after = wdb (snd (pb_run demo_env (demo_execute ''key-1'') (demo_world demo_created demo_codes ''r'')))"

lemma demo_world_interfered: "interfered run (demo_world d codes prefix)"
  by (rule interfered_quiet) (simp add: demo_world_def)

lemma wdb_demo_world: "wdb (demo_world d codes prefix) = d"
  by (simp add: demo_world_def)

lemma demo_fresh_reachable: "pb_reachable demo_env demo_fresh"
  by (rule reachable.fresh) (simp add: fresh_pb_def demo_fresh_def demo_db_def)

lemma demo_created_reachable: "pb_reachable demo_env demo_created"
  unfolding demo_created_def
  by (rule reachable.step) (simp_all add: wdb_demo_world demo_fresh_reachable demo_world_interfered)

lemma demo_after_reachable: "pb_reachable demo_env demo_after"
  unfolding demo_after_def
  by (rule reachable.step) (simp_all add: wdb_demo_world demo_created_reachable demo_world_interfered)

definition demo_replayed :: pb_db where
  "demo_replayed = wdb (snd (pb_run demo_env (demo_execute ''key-1'') (demo_world demo_after demo_codes ''s'')))"

lemma demo_replayed_reachable: "pb_reachable demo_env demo_replayed"
  unfolding demo_replayed_def
  by (rule reachable.step) (simp_all add: wdb_demo_world demo_after_reachable demo_world_interfered)

lemma demo_replayed_runs:
  "map (\<lambda>q. (run_tenant q, run_key q)) (playbook_runs demo_replayed) = [(''T'', ''key-1'')]"
  by code_simp

lemma demo_after_results:
  "map (\<lambda>r. (res_key r, res_type r, res_status r, res_attempt r, res_max r)) (action_results demo_after) =
     [(''c1'', ''webhook'', Succeeded, 1, 5), (''c2'', ''webhook'', Retry_scheduled, 1, 5)]"
  by code_simp

lemma demo_after_runs:
  "map (\<lambda>q. (run_id q, run_tenant q, run_key q, run_st q)) (playbook_runs demo_after) =
     [(''r0'', ''T'', ''key-1'', R_retrying)]"
  by code_simp

subsection \<open>Order, attempts, idempotency\<close>

text \<open>
  C9: In every database the service can reach, by any sequence of its calls with any number of
  other workers interleaved, an action of a run's frozen plan has been started only if every
  earlier action of that plan has succeeded.
\<close>

theorem actions_run_in_order:
  assumes "pb_reachable env d"
  shows "actions_in_order env d"
  using pbs.reachable_inv [OF assms] by (rule inv_in_order)

theorem actions_run_in_order_witness:
  "actions_in_order demo_env demo_after \<and> length (action_results demo_after) = 2"
  using actions_run_in_order [OF demo_after_reachable] arg_cong [OF demo_after_results, of length]
  by simp

text \<open>
  A call of the service, whatever other workers do between its statements and whichever of
  its statements fail at the connection, keeps every action result: its run, action, type and
  frozen configuration never change, its attempt counter does not decrease, and once succeeded it
  stays succeeded; and it keeps the identity, frozen plan, context and fingerprint of every run.
\<close>

theorem results_and_runs_persist:
  assumes "pb_reachable env (wdb w)" and "interfered (pb_run env) w"
    and "d' = wdb (snd (pb_run env c w))"
  shows "(\<forall>r \<in> set (action_results (wdb w)). \<exists>r' \<in> set (action_results d').
       res_id r' = res_id r \<and> res_run r' = res_run r \<and> res_key r' = res_key r
       \<and> res_type r' = res_type r \<and> res_config r' = res_config r
       \<and> res_attempt r \<le> res_attempt r' \<and> (res_status r = Succeeded \<longrightarrow> res_status r' = Succeeded))
    \<and> (\<forall>q \<in> set (playbook_runs (wdb w)). \<exists>q' \<in> set (playbook_runs d').
       run_id q' = run_id q \<and> run_tenant q' = run_tenant q \<and> run_playbook q' = run_playbook q
       \<and> run_key q' = run_key q \<and> run_sha q' = run_sha q \<and> run_context q' = run_context q
       \<and> run_plan q' = run_plan q)"
proof -
  have inv: "pb_inv env (wdb w)" using assms(1) by (rule pbs.reachable_inv)
  with pbs.call_keeps [OF assms(2) inv, of c]
  have le: "\<forall>r \<in> set (action_results (wdb w)). \<exists>r' \<in> set (action_results d'). result_le r r'"
    "\<forall>q \<in> set (playbook_runs (wdb w)). \<exists>q' \<in> set (playbook_runs d'). run_le q q'"
    unfolding assms(3) by (simp_all add: pb_rely_def)
  show ?thesis
    using le unfolding result_le_def run_le_eq by (intro conjI ballI) (blast, blast)
qed

theorem results_and_runs_persist_witness:
  "(\<exists>r' \<in> set (action_results (wdb (snd (pb_run demo_env (C_tick_retries 5 None True)
        (demo_world demo_after (\<lambda>_. 200) ''t''))))).
      res_key r' = ''c2'' \<and> 1 \<le> res_attempt r')"
proof -
  let ?w = "demo_world demo_after (\<lambda>_. 200) ''t''"
  let ?d = "wdb (snd (pb_run demo_env (C_tick_retries 5 None True) ?w))"
  have "(''c2'', ''webhook'', Retry_scheduled, 1, 5) \<in>
      set (map (\<lambda>r. (res_key r, res_type r, res_status r, res_attempt r, res_max r))
        (action_results demo_after))"
    unfolding demo_after_results by simp
  then obtain r where r: "r \<in> set (action_results (wdb ?w))" "res_key r = ''c2''" "res_attempt r = 1"
    by (auto simp: wdb_demo_world)
  have "pb_reachable demo_env (wdb ?w)" by (simp add: wdb_demo_world demo_after_reachable)
  from results_and_runs_persist [OF this demo_world_interfered refl, of "C_tick_retries 5 None True"] r
  show ?thesis by fastforce
qed

text \<open>
  In every reachable database an action result has between one and its maximal number of
  attempts, which is five for webhooks and one for every other action; it is leased only while it
  runs, and a lease has an owner exactly when it has an expiry.
\<close>

theorem attempts_bounded:
  assumes "pb_reachable env d" and "r \<in> set (action_results d)"
  shows "1 \<le> res_attempt r \<and> res_attempt r \<le> res_max r
    \<and> res_max r = (if is_webhook (res_type r) then webhook_max_attempts else 1)
    \<and> (res_owner r = None \<longleftrightarrow> res_expires r = None)
    \<and> (res_owner r \<noteq> None \<longrightarrow> res_status r = Running)"
  using pbs.reachable_inv [OF assms(1)] assms(2)
  by (auto simp: pb_inv_def list_all_iff result_ok_def)

theorem attempts_bounded_witness:
  "list_all (\<lambda>r. 1 \<le> res_attempt r \<and> res_attempt r \<le> res_max r) (action_results demo_after)
   \<and> length (action_results demo_after) = 2"
proof
  show "list_all (\<lambda>r. 1 \<le> res_attempt r \<and> res_attempt r \<le> res_max r) (action_results demo_after)"
    unfolding list_all_iff using attempts_bounded [OF demo_after_reachable] by blast
  show "length (action_results demo_after) = 2"
    using arg_cong [OF demo_after_results, of length] by simp
qed

text \<open>
  In every reachable database an idempotency key names at most one run of a tenant: replaying
  an execution never creates a second run.
\<close>

theorem one_run_per_key:
  assumes "pb_reachable env d" and "p \<in> set (playbook_runs d)" and "q \<in> set (playbook_runs d)"
    and "run_tenant p = run_tenant q" and "run_key p = run_key q"
  shows "p = q"
  using pbs.reachable_inv [OF assms(1)] assms(2-)
  by (auto simp: pb_inv_def intro: distinct_map_eqD [where g = "\<lambda>q. (run_tenant q, run_key q)"])

theorem one_run_per_key_witness:
  "hd (playbook_runs demo_replayed) = last (playbook_runs demo_replayed)
   \<and> run_key (hd (playbook_runs demo_replayed)) = ''key-1''"
proof -
  from demo_replayed_runs obtain q qs where q: "playbook_runs demo_replayed = q # qs"
      "run_tenant q = ''T''" "run_key q = ''key-1''"
    by (cases "playbook_runs demo_replayed") auto
  from demo_replayed_runs have l: "map (\<lambda>q. (run_tenant q, run_key q)) (playbook_runs demo_replayed)
      = [(''T'', ''key-1'')]" by simp
  have "last (playbook_runs demo_replayed) \<in> set (playbook_runs demo_replayed)" using q by simp
  moreover from this l have "(\<lambda>q. (run_tenant q, run_key q)) (last (playbook_runs demo_replayed))
      \<in> set [(''T'', ''key-1'')]"
    by (metis (mono_tags, lifting) image_eqI image_set)
  ultimately show ?thesis
    using one_run_per_key [OF demo_replayed_reachable, of q "last (playbook_runs demo_replayed)"] q
    by simp
qed

text \<open>
  What a whole call does to the database is admissible interference for every other call, and
  so is any composition of such calls with the passing of time: the invariant of the playbook
  tables survives every interleaving.
\<close>

theorem interference_keeps_invariant:
  assumes "interferes (pb_run env) f" and "pb_inv env d"
  shows "pb_inv env (f d) \<and> now d \<le> now (f d)"
  using pbs.interferes_rely [OF assms(1), of d] assms(2) by (simp add: pb_rely_def)

theorem interference_keeps_invariant_witness:
  "pb_inv demo_env (wdb (snd (pb_run demo_env (demo_execute ''key-1'')
     (demo_world demo_created demo_codes ''r''))))"
proof -
  let ?w = "demo_world demo_created demo_codes ''r''"
  have "interferes (pb_run demo_env) (\<lambda>d. wdb (snd (pb_run demo_env (demo_execute ''key-1'') (?w\<lparr>wdb := d\<rparr>))))"
    by (rule interferes.call)
      (use demo_world_interfered [of "pb_run demo_env" demo_created demo_codes "''r''"] in
        \<open>simp add: interfered_def\<close>)
  from interference_keeps_invariant [OF this pbs.reachable_inv [OF demo_created_reachable]]
  show ?thesis by (simp add: demo_world_def quiet_world_def)
qed

end
