(* ===== verification/Playbook_Policies.thy ===== *)
theory Playbook_Policies
  imports Playbook_Outbox Playbook_Properties Playbook_Lease
begin

section \<open>Playbooks: plans, retries and leases\<close>

text \<open>
  The properties of single operations of the playbook service: what leaves the process, how
  plans are frozen, when a delivery is retried, and who may record an outcome.
\<close>

subsection \<open>Deliveries\<close>




subsection \<open>Plans and outcomes\<close>

text \<open>
  C12: A plan that normalises has at most fifty actions with distinct keys of 1 to 128 characters,
  a type of at most 64 characters and only the configuration keys allowed for its type; and the
  plan that is stored for a run normalises to itself, so a resumed run executes the same plan.
\<close>

theorem plan_round_trip:
  assumes "normalize_action_plan env v = Inr p" and "uuid_canonical env"
  shows "plan_ok env p \<and> normalize_action_plan env (plan_json p) = Inr p"
  using normalize_plan_ok [OF assms] normalize_plan_json by blast

lemma demo_plan_normalises:
  "(case normalize_action_plan demo_env (action_plan_snapshot ''c0'' demo_created) of
      Inl _ \<Rightarrow> 0 | Inr p \<Rightarrow> length p) = 3"
  by code_simp

theorem plan_round_trip_witness:
  "\<exists>p. normalize_action_plan demo_env (plan_json p) = Inr p \<and> plan_ok demo_env p \<and> length p = 3"
proof -
  have c: "uuid_canonical demo_env" by (auto simp: uuid_canonical_def demo_env_def)
  from demo_plan_normalises obtain p
    where "normalize_action_plan demo_env (action_plan_snapshot ''c0'' demo_created) = Inr p"
      and "length p = 3" by (auto split: sum.splits)
  with plan_round_trip [OF this(1) c] show ?thesis by blast
qed

text \<open>
  What an HTTP response means for a webhook action on its n-th attempt: 2xx succeeds; 408, 425,
  429 and 5xx are retried while attempts are left, after a delay between the exponential backoff
  and five minutes that is never shorter than the (capped) Retry-After header; everything else
  fails for good.
\<close>

theorem response_policy:
  assumes "1 \<le> attempt"
  shows "let out = durable_webhook_outcome (response_outcome env code retry_after t) attempt
             webhook_max_attempts in
    (do_status out = Succeeded \<longleftrightarrow> 200 \<le> code \<and> code < 300)
    \<and> (do_status out = Retry_scheduled \<longleftrightarrow>
         (code \<in> {408, 425, 429} \<or> 500 \<le> code \<and> code < 600) \<and> attempt < 5)
    \<and> do_status out \<in> {Succeeded, Retry_scheduled, Failed}
    \<and> (case do_retry_after out of
         None \<Rightarrow> do_status out \<noteq> Retry_scheduled
       | Some s \<Rightarrow> do_status out = Retry_scheduled \<and> 5 * 2 ^ nat (attempt - 1) \<le> s \<and> s \<le> 300
           \<and> (case parse_retry_after env retry_after t of None \<Rightarrow> True | Some r \<Rightarrow> r \<le> s))"
proof (cases "200 \<le> code \<and> code < 300")
  case True
  then show ?thesis
    by (auto simp: durable_webhook_outcome_def response_outcome_def)
next
  case False
  let ?r = "parse_retry_after env retry_after t"
  have h: "case ?r of None \<Rightarrow> True | Some r \<Rightarrow> r \<le> retry_backoff_seconds attempt ?r"
    using backoff_honours_retry_after parse_retry_after_capped [of env retry_after t]
    by (auto split: option.splits)
  let ?out = "durable_webhook_outcome (response_outcome env code retry_after t) attempt
      webhook_max_attempts"
  let ?again = "(code \<in> {408, 425, 429} \<or> 500 \<le> code \<and> code < 600) \<and> attempt < 5"
  from False have st: "do_status ?out = (if ?again then Retry_scheduled else Failed)"
    and ra: "do_retry_after ?out = (if ?again then Some (retry_backoff_seconds attempt ?r) else None)"
    by (auto simp: durable_status_cases durable_retry_after response_outcome_def failure_def
        is_retryable_webhook_status_def webhook_max_attempts_def)
  show ?thesis
    unfolding Let_def st ra
    using False backoff_reaches [OF assms, of ?r] backoff_bounds [of attempt ?r] h by auto
qed

theorem response_policy_witness:
  "do_retry_after (durable_webhook_outcome (response_outcome demo_env 503 (Some ''120'') 0) 2
     webhook_max_attempts) = Some 120
   \<and> do_status (durable_webhook_outcome (response_outcome demo_env 503 (Some ''120'') 0) 2
     webhook_max_attempts) = Retry_scheduled"
proof -
  have "do_retry_after (durable_webhook_outcome (response_outcome demo_env 503 (Some ''120'') 0) 2
     webhook_max_attempts) = Some 120" by code_simp
  then show ?thesis
    using response_policy [of 2 demo_env 503 "Some ''120''" 0] by (simp add: Let_def)
qed

text \<open>
  A run is complete exactly when none of its actions is pending, and succeeded exactly when all
  of them have succeeded; the order of the actions does not matter.
\<close>

theorem run_status_summary:
  "(run_complete (summarize_action_statuses ss) \<longleftrightarrow> list_all (\<lambda>s. \<not> pending s) ss)
   \<and> (summarize_action_statuses ss = R_succeeded \<longleftrightarrow> list_all (\<lambda>s. s = Succeeded) ss)
   \<and> summarize_action_statuses (rev ss) = summarize_action_statuses ss"
  using run_complete_summary [of ss] summary_succeeded_iff [of ss] summary_set [of "rev ss" ss]
  by (simp add: list_all_iff)

subsection \<open>Claims and leases\<close>

definition demo_due :: pb_db where
  "demo_due = demo_after\<lparr>now := now demo_after + secs 400\<rparr>"

lemma demo_due_inv: "pb_inv demo_env demo_due"
proof -
  have "pb_inv demo_env demo_due = pb_inv demo_env demo_after"
    unfolding demo_due_def by (rule pb_inv_cong) simp_all
  with pbs.reachable_inv [OF demo_after_reachable] show ?thesis by simp
qed

lemma demo_due_claim:
  "map_option (\<lambda>(r, run). (res_id r, res_attempt r, run_id run))
     (fst (claim_due_webhook_retry ''w1'' demo_due)) = Some (''r3'', 2, ''r0'')"
  by code_simp

lemma demo_due_claimed:
  obtains r run d' where "claim_due_webhook_retry ''w1'' demo_due = (Some (r, run), d')"
    "res_id r = ''r3''" "res_attempt r = 2"
proof -
  obtain x d' where x: "claim_due_webhook_retry ''w1'' demo_due = (x, d')" by fastforce
  with demo_due_claim obtain r run where "x = Some (r, run)" "res_id r = ''r3''" "res_attempt r = 2"
    by (cases x) auto
  with x that show ?thesis by blast
qed

text \<open>
  The claim of a webhook retry takes the earliest due row in queue order, increments its
  attempt, and leases it for thirty seconds, during which no worker can claim it; and it comes
  back empty only when no row is due.
\<close>

theorem claim_takes_earliest:
  assumes "claim_due_webhook_retry worker d = (claimed, d')"
  shows "case claimed of
      None \<Rightarrow> d' = d \<and> (\<forall>r \<in> set (action_results d). \<not> due_retry d r)
    | Some (r, run) \<Rightarrow> (\<exists>r0 \<in> set (action_results d). due_retry d r0
        \<and> r = claim_result (now d) worker r0 \<and> run_id run = res_run r0
        \<and> (\<forall>q \<in> set (action_results d). due_retry d q \<longrightarrow> claim_order r0 \<le> claim_order q))
        \<and> r \<in> set (action_results d')
        \<and> (\<forall>t < now d + secs webhook_lease_seconds. \<not> claimable t r)"
  using assms
proof (cases rule: claim_due_least)
  case (some r0 run)
  with claimed_row [of worker d _ run d'] assms show ?thesis by auto
qed simp

theorem claim_takes_earliest_witness:
  "\<exists>r run d'. claim_due_webhook_retry ''w1'' demo_due = (Some (r, run), d') \<and> res_id r = ''r3''
     \<and> r \<in> set (action_results d') \<and> \<not> claimable (now demo_due + secs 29) r"
proof -
  from demo_due_claimed obtain r run d' where
    c: "claim_due_webhook_retry ''w1'' demo_due = (Some (r, run), d')" "res_id r = ''r3''" .
  have "now demo_due + secs 29 < now demo_due + secs webhook_lease_seconds"
    by (simp add: secs_def webhook_lease_seconds_def)
  with claim_takes_earliest [OF c(1)] c show ?thesis by auto
qed

text \<open>
  C11: A worker whose lease was taken over cannot record its outcome: after another worker has
  claimed the row, persisting under the old owner changes nothing and reports the loss.
\<close>

theorem stale_worker_cannot_record:
  assumes "pb_inv env d" and "claim_due_webhook_retry worker d = (Some (r, run), d')"
    and "owner \<noteq> worker"
  shows "persist_outcome (res_id r) rn tenant owner out actor act d' = (None, d')"
proof -
  from rely_claim [OF assms(2,1)] have "pb_inv env d'"
    using assms(1) by (simp add: pb_rely_def)
  then have ids: "distinct (map res_id (action_results d'))" by (simp add: pb_inv_def)
  from claimed_row [OF assms(2)] have r: "r \<in> set (action_results d')" "res_owner r = Some worker" by auto
  show ?thesis
  proof (rule persist_lost)
    fix q assume "q \<in> set (action_results d')"
    then have "res_id q = res_id r \<Longrightarrow> q = r" by (rule distinct_map_eqD [OF ids _ r(1)])
    with r(2) assms(3)
    show "\<not> (res_id q = res_id r \<and> res_run q = rn \<and> res_owner q = Some owner \<and> res_status q = Running)"
      by auto
  qed
qed

theorem stale_worker_cannot_record_witness:
  "\<exists>r run d'. claim_due_webhook_retry ''w1'' demo_due = (Some (r, run), d') \<and>
     persist_outcome (res_id r) ''r0'' ''T'' ''initial:r4''
       (durable_webhook_outcome (failure None ''network_error'' True None) 1 5) None ''late'' d' = (None, d')"
proof -
  from demo_due_claimed obtain r run d' where
    c: "claim_due_webhook_retry ''w1'' demo_due = (Some (r, run), d')" .
  with stale_worker_cannot_record [OF demo_due_inv c, of "''initial:r4''"] show ?thesis by blast
qed

text \<open>
  However often workers crash and their leases run out, a result is claimed at most as often
  as it has attempts left.
\<close>

theorem claims_of_a_result_bounded:
  assumes "lease_run claimable claim_result res_attempt res_max r cs r'" and "res_attempt r \<le> res_max r"
  shows "int (length cs) \<le> res_max r - res_attempt r"
  using assms by (rule retry_queue.claims_bounded)

definition demo_webhook_row :: result_row where
  "demo_webhook_row = initial_result ''x'' ''r0''
     \<lparr>pl_key = ''k'', pl_action_id = None, pl_type = ''webhook'', pl_config = [], pl_sort = 0\<rparr>
     (Some ''initial:u'') demo_db"

theorem claims_of_a_result_bounded_witness:
  "int (length [now demo_db + secs 40]) \<le> res_max demo_webhook_row - res_attempt demo_webhook_row"
proof (rule claims_of_a_result_bounded)
  let ?t = "now demo_db + secs 40"
  have "claimable ?t demo_webhook_row"
    by (simp add: claimable_def demo_webhook_row_def initial_result_def Let_def demo_db_def
        webhook_max_attempts_def secs_def webhook_lease_seconds_def)
  then show "lease_run claimable claim_result res_attempt res_max demo_webhook_row [?t]
      (claim_result ?t ''w1'' demo_webhook_row)"
    by (intro lease_run.claim lease_run.rest)
  show "res_attempt demo_webhook_row \<le> res_max demo_webhook_row"
    by (simp add: demo_webhook_row_def initial_result_def Let_def webhook_max_attempts_def)
qed

text \<open>
  An outcome is recorded once: whoever recorded it under its lease, the same lease records
  nothing more; and exactly the row under the lease has changed.
\<close>

theorem outcome_recorded_once:
  assumes "persist_outcome rid run tenant owner out actor act d = (Some st, d')"
  shows "persist_outcome rid run tenant owner out' actor' act' d' = (None, d')
    \<and> st = do_status out
    \<and> (\<exists>r \<in> set (action_results d). res_id r = rid \<and> res_run r = run \<and> res_owner r = Some owner
         \<and> res_status r = Running)
    \<and> filter (\<lambda>r. res_id r \<noteq> rid) (action_results d') = filter (\<lambda>r. res_id r \<noteq> rid) (action_results d)
    \<and> (\<forall>r \<in> set (action_results d'). res_id r = rid \<and> res_run r = run \<longrightarrow> res_owner r \<noteq> Some owner
         \<or> res_status r \<noteq> Running)"
proof -
  let ?hit = "\<lambda>r. res_id r = rid \<and> res_run r = run \<and> res_owner r = Some owner \<and> res_status r = Running"
  from assms obtain r f where r: "first_row ?hit (action_results d) = Some r" "st = do_status out"
    and d': "action_results d' = upd_where ?hit f (action_results d)"
    and f: "\<And>q. res_owner (f q) = None" "\<And>q. res_id (f q) = res_id q"
    by (auto simp: persist_outcome_def Let_def add_audit_def split: option.splits)
  have none: "\<not> ?hit q" if "q \<in> set (action_results d')" for q
    using that f unfolding d' by (auto elim!: in_upd_whereE split: if_splits)
  have "filter (\<lambda>r. res_id r \<noteq> rid) (upd_where ?hit f rs) = filter (\<lambda>r. res_id r \<noteq> rid) rs" for rs
    by (induction rs) (auto simp: table_simps f)
  moreover have "persist_outcome rid run tenant owner out' actor' act' d' = (None, d')"
    by (rule persist_lost) (rule none)
  ultimately show ?thesis
    using first_row_SomeD [OF r(1)] r(2) none unfolding d' by blast
qed

lemma demo_due_persist:
  "fst (persist_outcome ''r3'' ''r0'' ''T'' ''w1''
     (durable_webhook_outcome (response_outcome demo_env 200 None 0) 2 5) None ''playbook.action_retry''
     (snd (claim_due_webhook_retry ''w1'' demo_due))) = Some Succeeded"
  by code_simp

theorem outcome_recorded_once_witness:
  "\<exists>d' :: pb_db. persist_outcome ''r3'' ''r0'' ''T'' ''w1''
     (durable_webhook_outcome (response_outcome demo_env 503 None 0) 2 5) None ''again'' d' = (None, d')
   \<and> length (action_results d') = 2"
proof -
  let ?d = "snd (claim_due_webhook_retry ''w1'' demo_due)"
  let ?out = "durable_webhook_outcome (response_outcome demo_env 200 None 0) 2 5"
  obtain d' where d': "persist_outcome ''r3'' ''r0'' ''T'' ''w1'' ?out None ''playbook.action_retry'' ?d
      = (Some Succeeded, d')"
    using demo_due_persist by (metis prod.collapse)
  have "length (action_results (snd (persist_outcome ''r3'' ''r0'' ''T'' ''w1'' ?out None
      ''playbook.action_retry'' ?d))) = 2" by code_simp
  with d' outcome_recorded_once [OF d'] show ?thesis by auto
qed

subsection \<open>Acknowledgement, operator retries, replays\<close>

text \<open>
  A control-plane action is decided once: an acknowledgement is accepted only for an awaiting
  action of a run of the caller's tenant, and after it no acknowledgement of that action is
  accepted, whatever it says.
\<close>

theorem acknowledged_once:
  assumes "acknowledge_stmt rid run tenant st ext metadata who d = (Some pid, d')"
    and "st \<in> {Succeeded, Failed}"
  shows "acknowledge_stmt rid run tenant' st' ext' metadata' who' d' = (None, d')
    \<and> (\<exists>q \<in> set (playbook_runs d). run_id q = run \<and> run_tenant q = tenant \<and> run_playbook q = pid)
    \<and> (\<exists>r \<in> set (action_results d). res_id r = rid \<and> res_run r = run
        \<and> res_status r = Awaiting_ack \<and> res_type r \<in> set control_plane_actions)
    \<and> (\<exists>r \<in> set (action_results d'). res_id r = rid \<and> res_run r = run \<and> res_status r = st \<and> res_ext r = ext)"
proof -
  let ?hit = "\<lambda>r. res_id r = rid \<and> res_run r = run \<and> res_status r = Awaiting_ack
      \<and> res_type r \<in> set control_plane_actions"
  from assms(1) obtain q f where q: "first_row (\<lambda>q. run_id q = run \<and> run_tenant q = tenant)
        (playbook_runs d) = Some q" "run_playbook q = pid"
    and h: "list_ex ?hit (action_results d)"
    and d': "action_results d' = upd_where ?hit f (action_results d)"
    and f: "\<And>r. res_status (f r) = st" "\<And>r. res_ext (f r) = ext" "\<And>r. res_id (f r) = res_id r"
      "\<And>r. res_run (f r) = res_run r"
    by (auto simp: acknowledge_stmt_def Let_def add_audit_def split: option.splits if_splits)
  have "\<not> ?hit r" if "r \<in> set (action_results d')" for r
    using that f assms(2) unfolding d' by (auto elim!: in_upd_whereE split: if_splits)
  then have "\<not> list_ex ?hit (action_results d')" unfolding list_ex_iff by blast
  then have "acknowledge_stmt rid run tenant' st' ext' metadata' who' d' = (None, d')"
    by (simp add: acknowledge_stmt_def Let_def split: option.split)
  moreover from h obtain r where r: "r \<in> set (action_results d)" "?hit r" by (auto simp: list_ex_iff)
  moreover from in_upd_whereI [OF r(1), of ?hit f] r(2) have "f r \<in> set (action_results d')"
    unfolding d' by simp
  ultimately show ?thesis using first_row_SomeD [OF q(1)] q(2) r f by blast
qed

definition demo_waiting :: pb_db where
  "demo_waiting = wdb (snd (pb_run demo_env (demo_execute ''key-2'') (demo_world demo_created (\<lambda>_. 200) ''q'')))"

lemma demo_waiting_ack:
  "fst (acknowledge_stmt ''q5'' ''q0'' ''T'' Succeeded (Some ''ticket-7'') [] ''svc:svc1'' demo_waiting) = Some ''c0''"
  by code_simp

theorem acknowledged_once_witness:
  "\<exists>d' :: pb_db. acknowledge_stmt ''q5'' ''q0'' ''T'' Failed None [] ''svc:other'' d' = (None, d')
     \<and> (\<exists>r \<in> set (action_results d'). res_id r = ''q5'' \<and> res_ext r = Some ''ticket-7'')"
proof -
  obtain d' where "acknowledge_stmt ''q5'' ''q0'' ''T'' Succeeded (Some ''ticket-7'') [] ''svc:svc1''
      demo_waiting = (Some ''c0'', d')"
    using demo_waiting_ack by (metis prod.collapse)
  from acknowledged_once [OF this] show ?thesis by blast
qed

text \<open>
  An operator's retry is queued only for a webhook of the tenant's run that failed or waits and
  has attempts left; it leaves the attempt counter alone and makes the row claimable at once.
\<close>

theorem operator_retry_is_due:
  assumes "queue_retry rid run tenant d = (Some r, d')"
  shows "run_in_tenant run tenant d
    \<and> (\<exists>r0 \<in> set (action_results d). res_id r0 = rid \<and> res_run r0 = run \<and> retryable_by_operator r0
        \<and> res_attempt r = res_attempt r0)
    \<and> res_status r = Retry_scheduled \<and> claimable (now d') r
    \<and> (\<forall>t < now d. \<not> claimable t r)"
proof -
  let ?hit = "\<lambda>r. res_id r = rid \<and> res_run r = run \<and> retryable_by_operator r"
  from assms obtain r0 where "run_in_tenant run tenant d" "first_row ?hit (action_results d) = Some r0"
      "now d' = now d" "r = r0\<lparr>res_status := Retry_scheduled, res_next := Some (now d),
        res_owner := None, res_expires := None, res_completed := None, res_updated := now d\<rparr>"
    by (auto simp: queue_retry_def Let_def split: if_splits)
  with first_row_SomeD [of ?hit "action_results d" r0] show ?thesis
    by (auto simp: claimable_def retryable_by_operator_def)
qed

lemma demo_operator_retry:
  "map_option res_attempt (fst (queue_retry ''r3'' ''r0'' ''T'' demo_after)) = Some 1"
  by code_simp

theorem operator_retry_is_due_witness:
  "\<exists>r d'. queue_retry ''r3'' ''r0'' ''T'' demo_after = (Some r, d') \<and> res_attempt r = 1
     \<and> claimable (now d') r"
proof -
  obtain x d' where x: "queue_retry ''r3'' ''r0'' ''T'' demo_after = (x, d')" by fastforce
  with demo_operator_retry obtain r where r: "x = Some r" "res_attempt r = 1" by auto
  with operator_retry_is_due [of "''r3''" "''r0''" "''T''" demo_after r d'] x show ?thesis by blast
qed

lemma fetch_run_result:
  fixes w :: "('z pb_db_scheme, net_answer) world"
  assumes "fetch_run tenant rid w = (Inr v, w')"
  shows "run_id (rv_run v) = rid \<and> run_tenant (rv_run v) = tenant"
proof -
  from assms have "fst (fetch_run tenant rid w) = Inr v" by simp
  then obtain row w1 where
    "query (\<lambda>d. Option.bind (first_row (\<lambda>r. run_id r = rid \<and> run_tenant r = tenant) (playbook_runs d))
         (\<lambda>r. run_with_name r d)) w = (Inr row, w1)"
    and v: "fst ((case row of None \<Rightarrow> raise (HTTPException 404 ''playbook run not found'')
     | Some (run, name) \<Rightarrow>
         bindM (query (results_of rid)) (\<lambda>rows. ret (run_dict run name rows))) w1) = Inr v"
    unfolding fetch_run_def by (rule bind_InrE)
  from query_Inr [OF this(1)] obtain d :: "'z pb_db_scheme" where row: "row = Option.bind (first_row
      (\<lambda>r. run_id r = rid \<and> run_tenant r = tenant) (playbook_runs d)) (\<lambda>r. run_with_name r d)" by blast
  from v obtain run name where "row = Some (run, name)"
    by (cases row) (auto simp: raise_def)
  moreover from this v have "rv_run v = run\<lparr>run_sha := [], run_context := [], run_plan := JNull\<rparr>"
    by (auto simp: ret_def run_dict_def elim!: bind_InrE)
  ultimately show ?thesis using row
    by (auto simp: run_with_name_def bind_eq_Some_conv dest!: first_row_SomeD)
qed

definition same_request :: "run_row \<Rightarrow> uuid \<Rightarrow> jdict \<Rightarrow> string \<Rightarrow> uuid option \<Rightarrow> bool" where
  "same_request e pid context source signal \<longleftrightarrow> run_playbook e = pid \<and> dict_eq (run_context e) context
     \<and> run_source e = source \<and> run_signal e = signal"

text \<open>
  Replaying an idempotency key resumes the run the key names and returns that run, marked as a
  duplicate, whatever other workers do meanwhile; it is refused, with nothing done, when the
  playbook, the context, the source or the signal differ from the request that made the run.
\<close>

theorem replay_returns_same_run:
  "if same_request e pid context source signal
   then (case fst (resume_existing_run env user tenant pid context source signal e w) of
       Inl _ \<Rightarrow> True
     | Inr v \<Rightarrow> rv_duplicate v = Some True \<and> run_id (rv_run v) = run_id e \<and> run_tenant (rv_run v) = tenant)
   else (\<exists>msg. resume_existing_run env user tenant pid context source signal e w
       = (Inl (HTTPException 409 msg), w))"
proof (cases "fst (resume_existing_run env user tenant pid context source signal e w)")
  case (Inl x)
  then show ?thesis
    by (auto simp: resume_existing_run_def same_request_def raise_def split: if_splits)
next
  case (Inr v)
  then show ?thesis
    unfolding resume_existing_run_def same_request_def
    by (auto simp: raise_def ret_def split: if_splits elim!: bind_InrE dest!: fetch_run_result)
qed
end
