(* ===== verification/Exports_Store.thy ===== *)
theory Exports_Store
  imports Platform Lease
begin

section \<open>Exports: jobs, artifacts, sources\<close>

text \<open>
  The table \<open>export_jobs\<close> of \<open>services/exports.py\<close>, the object store, the tables an export
  reads, and every SQL statement of the module.  \<open>issued_ids\<close> is a ghost: the identifiers
  \<open>gen_random_uuid()\<close> has returned, which it does not return again.
\<close>

datatype job_status = J_queued | J_running | J_retry_scheduled | J_completed | J_failed | J_expired

fun job_status_text :: "job_status \<Rightarrow> string" where
  "job_status_text J_queued = ''queued''"
| "job_status_text J_running = ''running''"
| "job_status_text J_retry_scheduled = ''retry_scheduled''"
| "job_status_text J_completed = ''completed''"
| "job_status_text J_failed = ''failed''"
| "job_status_text J_expired = ''expired''"

record job_row =
  job_id :: uuid
  job_tenant :: uuid
  job_format :: string
  job_status :: job_status
  job_source :: string
  job_key :: string
  job_fingerprint :: string
  job_filters :: jdict
  job_object :: "string option"
  job_checksum :: "string option"
  job_size :: int
  job_content_type :: string
  job_error :: "string option"
  job_attempts :: int
  job_max :: int
  job_next :: time
  job_owner :: "string option"
  job_expires_lease :: "time option"
  job_actor :: string
  job_created :: time
  job_completed :: "time option"
  job_expires :: "time option"

datatype source_table = Stream_results | Analytics | Threat | Lighthouse | Vulnerabilities

text \<open>
  A row of a source table: \<open>sr_time\<close> is the column of the reporting window, \<open>sr_url\<close> the
  column the site filter compares, \<open>sr_fields\<close> the selected columns as exported values.
\<close>

record source_row =
  sr_id :: uuid
  sr_tenant :: uuid
  sr_platform :: bool
  sr_time :: time
  sr_url :: string
  sr_fields :: jdict

record ex_db = core_db +
  export_jobs :: "job_row list"
  issued_ids :: "uuid list"
  source_rows :: "source_table \<Rightarrow> source_row list"
  objects :: "(string \<times> string) list"

text \<open>Settings and the library functions the module calls.\<close>

record ex_env =
  ee_production :: bool
  ee_storage_configured :: bool
  ee_max_attempts :: int
  ee_ttl_seconds :: int
  ee_max_source_bytes :: int
  ee_max_artifact_bytes :: int
  ee_export_dir :: string
  ee_resolve :: "string \<Rightarrow> string"
  ee_loads :: "string \<Rightarrow> json option"
  ee_dumps :: "json \<Rightarrow> string"
  ee_repr :: "json \<Rightarrow> string"
  ee_sha256 :: "string \<Rightarrow> string"
  ee_frame :: "string \<Rightarrow> jdict list \<Rightarrow> exn + string"
  ee_pdf :: "jdict list \<Rightarrow> string \<Rightarrow> jdict \<Rightarrow> exn + string"
  ee_presign :: "string \<Rightarrow> int \<Rightarrow> string \<Rightarrow> string \<Rightarrow> string"
  ee_storage_error :: exn

type_synonym 'a ex_prog = "(ex_db, bool, 'a) prog"

definition export_lease_seconds :: int where "export_lease_seconds = 300"
definition source_page_rows :: int where "source_page_rows = 1000"
definition default_presign_seconds :: int where "default_presign_seconds = 900"

definition content_types :: "string \<Rightarrow> string option" where
  "content_types fmt = map_of
     [(''csv'', ''text/csv; charset=utf-8''), (''json'', ''application/json''),
      (''parquet'', ''application/vnd.apache.parquet''), (''pdf'', ''application/pdf'')] fmt"

subsection \<open>Statements on \<open>export_jobs\<close>\<close>

definition update_jobs :: "(job_row \<Rightarrow> bool) \<Rightarrow> (job_row \<Rightarrow> job_row) \<Rightarrow> ex_db \<Rightarrow> nat \<times> ex_db" where
  "update_jobs hit f d =
     (length (rows_where hit (export_jobs d)), d\<lparr>export_jobs := upd_where hit f (export_jobs d)\<rparr>)"

text \<open>The CHECK constraints a new row can violate, and those every update must respect.\<close>

definition lease_shape :: "job_row \<Rightarrow> bool" where
  "lease_shape j \<longleftrightarrow>
     (job_status j = J_running \<and> job_owner j \<noteq> None \<and> job_expires_lease j \<noteq> None)
     \<or> (job_status j \<noteq> J_running \<and> job_owner j = None \<and> job_expires_lease j = None)"

definition attempts_bounds :: "job_row \<Rightarrow> bool" where
  "attempts_bounds j \<longleftrightarrow> 0 \<le> job_attempts j \<and> 1 \<le> job_max j \<and> job_max j \<le> 20
     \<and> job_attempts j \<le> job_max j"

definition job_checks :: "job_row \<Rightarrow> bool" where
  "job_checks j \<longleftrightarrow> job_format j \<in> {''csv'', ''json'', ''parquet'', ''pdf''}
     \<and> job_source j \<in> {''stream_results'', ''analytics'', ''threat'', ''lighthouse'', ''vulnerabilities''}
     \<and> attempts_bounds j \<and> 0 \<le> job_size j \<and> lease_shape j"

definition insert_job :: "job_row \<Rightarrow> ex_db \<Rightarrow> exn + job_row option \<times> ex_db" where
  "insert_job row d =
     (if \<not> job_checks row then Inl (OtherError ''CheckViolationError'' [])
      else if list_ex (\<lambda>j. job_tenant j = job_tenant row \<and> job_key j = job_key row) (export_jobs d)
      then Inr (None, d)
      else if job_id row \<in> set (issued_ids d) then Inl DatabaseError
      else (let row = row\<lparr>job_next := now d, job_created := now d\<rparr> in
        Inr (Some row, d\<lparr>export_jobs := export_jobs d @ [row],
          issued_ids := job_id row # issued_ids d\<rparr>)))"

definition fetch_job_row ::
  "uuid \<Rightarrow> uuid option \<Rightarrow> string option \<Rightarrow> ex_db \<Rightarrow> job_row option" where
  "fetch_job_row tenant jid key d = first_row (\<lambda>j. job_tenant j = tenant
     \<and> (jid = None \<or> jid = Some (job_id j)) \<and> (key = None \<or> key = Some (job_key j)))
     (export_jobs d)"

definition select_jobs :: "uuid \<Rightarrow> nat \<Rightarrow> ex_db \<Rightarrow> job_row list" where
  "select_jobs tenant limit d = take limit (rev (sort_key (\<lambda>j. (job_created j, job_id j))
     (filter (\<lambda>j. job_tenant j = tenant) (export_jobs d))))"

definition delete_job_stmt :: "uuid \<Rightarrow> uuid \<Rightarrow> ex_db \<Rightarrow> nat \<times> ex_db" where
  "delete_job_stmt jid tenant d =
     (length (rows_where (\<lambda>j. job_id j = jid \<and> job_tenant j = tenant) (export_jobs d)),
      d\<lparr>export_jobs := filter (\<lambda>j. \<not> (job_id j = jid \<and> job_tenant j = tenant)) (export_jobs d)\<rparr>)"

definition lease_expired :: "time \<Rightarrow> job_row \<Rightarrow> bool" where
  "lease_expired t j \<longleftrightarrow> job_status j = J_running
     \<and> (case job_expires_lease j of None \<Rightarrow> True | Some e \<Rightarrow> e \<le> t)"

definition expire_lease :: "time \<Rightarrow> job_row \<Rightarrow> job_row" where
  "expire_lease t j = j\<lparr>
     job_status := (if job_max j \<le> job_attempts j then J_failed else J_retry_scheduled),
     job_next := t, job_owner := None, job_expires_lease := None,
     job_error := (case job_error j of Some e \<Rightarrow> Some e | None \<Rightarrow> Some ''WorkerLeaseExpired''),
     job_completed := (if job_max j \<le> job_attempts j then Some t else job_completed j)\<rparr>"

definition expire_leases :: "ex_db \<Rightarrow> nat \<times> ex_db" where
  "expire_leases d = update_jobs (lease_expired (now d)) (expire_lease (now d)) d"

definition job_claimable :: "time \<Rightarrow> job_row \<Rightarrow> bool" where
  "job_claimable t j \<longleftrightarrow> job_status j \<in> {J_queued, J_retry_scheduled}
     \<and> job_attempts j < job_max j \<and> job_next j \<le> t
     \<and> (case job_expires_lease j of None \<Rightarrow> True | Some e \<Rightarrow> e \<le> t)"

definition claim_job :: "time \<Rightarrow> string \<Rightarrow> job_row \<Rightarrow> job_row" where
  "claim_job t worker j = j\<lparr>job_status := J_running, job_owner := Some worker,
     job_expires_lease := Some (t + secs export_lease_seconds),
     job_attempts := job_attempts j + 1, job_error := None\<rparr>"

definition claim_next_job :: "string \<Rightarrow> ex_db \<Rightarrow> job_row option \<times> ex_db" where
  "claim_next_job worker d =
     (case sort_key (\<lambda>j. (job_created j, job_id j)) (filter (job_claimable (now d)) (export_jobs d)) of
        [] \<Rightarrow> (None, d)
      | j # _ \<Rightarrow> (Some (claim_job (now d) worker j),
          d\<lparr>export_jobs := upd_where (\<lambda>k. job_id k = job_id j) (claim_job (now d) worker)
            (export_jobs d)\<rparr>))"

definition clear_object :: "uuid \<Rightarrow> string \<Rightarrow> string \<Rightarrow> ex_db \<Rightarrow> nat \<times> ex_db" where
  "clear_object jid worker obj d = update_jobs
     (\<lambda>j. job_id j = jid \<and> job_owner j = Some worker \<and> job_object j = Some obj)
     (\<lambda>j. j\<lparr>job_object := None\<rparr>) d"

definition plan_object :: "uuid \<Rightarrow> string \<Rightarrow> string \<Rightarrow> ex_db \<Rightarrow> nat \<times> ex_db" where
  "plan_object jid worker obj d = update_jobs (\<lambda>j. job_id j = jid \<and> job_owner j = Some worker)
     (\<lambda>j. j\<lparr>job_object := Some obj\<rparr>) d"

definition renew_lease_stmt :: "uuid \<Rightarrow> string \<Rightarrow> ex_db \<Rightarrow> nat \<times> ex_db" where
  "renew_lease_stmt jid worker d = update_jobs
     (\<lambda>j. job_id j = jid \<and> job_status j = J_running \<and> job_owner j = Some worker)
     (\<lambda>j. j\<lparr>job_expires_lease := Some (now d + secs export_lease_seconds)\<rparr>) d"

definition complete_job ::
  "ex_env \<Rightarrow> uuid \<Rightarrow> string \<Rightarrow> string \<Rightarrow> string \<Rightarrow> int \<Rightarrow> ex_db \<Rightarrow> nat \<times> ex_db" where
  "complete_job env jid worker obj digest nbytes d =
     update_jobs (\<lambda>j. job_id j = jid \<and> job_owner j = Some worker)
       (\<lambda>j. j\<lparr>job_status := J_completed, job_object := Some obj, job_checksum := Some digest,
          job_size := nbytes, job_completed := Some (now d),
          job_expires := Some (now d + secs (ee_ttl_seconds env)),
          job_owner := None, job_expires_lease := None, job_next := now d, job_error := None\<rparr>) d"

definition export_backoff_seconds :: "int \<Rightarrow> int" where
  "export_backoff_seconds attempts = min 3600 (2 ^ nat (min attempts 11))"

definition failed_job :: "time \<Rightarrow> string \<Rightarrow> bool \<Rightarrow> string option \<Rightarrow> job_row \<Rightarrow> job_row" where
  "failed_job t err cleaned obj j = j\<lparr>
     job_status := (if job_max j \<le> job_attempts j then J_failed else J_retry_scheduled),
     job_error := Some err,
     job_next := t + secs (export_backoff_seconds (job_attempts j)),
     job_object := (if cleaned \<and> job_object j \<noteq> None \<and> job_object j = obj then None else job_object j),
     job_owner := None, job_expires_lease := None,
     job_completed := (if job_max j \<le> job_attempts j then Some t else None)\<rparr>"

definition fail_job_stmt ::
  "uuid \<Rightarrow> string \<Rightarrow> string \<Rightarrow> bool \<Rightarrow> string option \<Rightarrow> ex_db \<Rightarrow> nat \<times> ex_db" where
  "fail_job_stmt jid worker err cleaned obj d =
     update_jobs (\<lambda>j. job_id j = jid \<and> job_owner j = Some worker)
       (failed_job (now d) err cleaned obj) d"

definition artifacts_due :: "nat \<Rightarrow> ex_db \<Rightarrow> job_row list" where
  "artifacts_due limit d = take limit
     (sort_key (\<lambda>j. (case job_expires j of Some e \<Rightarrow> e | None \<Rightarrow> job_next j, job_id j))
       (filter (\<lambda>j. job_object j \<noteq> None \<and> job_next j \<le> now d
          \<and> ((job_status j = J_completed
               \<and> (case job_expires j of None \<Rightarrow> False | Some e \<Rightarrow> e \<le> now d))
             \<or> job_status j = J_failed)) (export_jobs d)))"

definition mark_expired :: "uuid \<Rightarrow> ex_db \<Rightarrow> nat \<times> ex_db" where
  "mark_expired jid d = update_jobs
     (\<lambda>j. job_id j = jid \<and> job_status j = J_completed
        \<and> (case job_expires j of None \<Rightarrow> False | Some e \<Rightarrow> e \<le> now d))
     (\<lambda>j. j\<lparr>job_status := J_expired, job_object := None\<rparr>) d"

definition clear_failed_object :: "uuid \<Rightarrow> string \<Rightarrow> ex_db \<Rightarrow> nat \<times> ex_db" where
  "clear_failed_object jid obj d = update_jobs
     (\<lambda>j. job_id j = jid \<and> job_status j = J_failed \<and> job_object j = Some obj)
     (\<lambda>j. j\<lparr>job_object := None\<rparr>) d"

definition postpone_cleanup :: "uuid \<Rightarrow> string \<Rightarrow> ex_db \<Rightarrow> nat \<times> ex_db" where
  "postpone_cleanup jid obj d = update_jobs (\<lambda>j. job_id j = jid \<and> job_object j = Some obj)
     (\<lambda>j. j\<lparr>job_next := now d + secs 300\<rparr>) d"

subsection \<open>Reading the source tables\<close>

fun source_table_of :: "string \<Rightarrow> source_table option" where
  "source_table_of k = map_of
     [(''stream_results'', Stream_results), (''analytics'', Analytics), (''threat'', Threat),
      (''lighthouse'', Lighthouse), (''vulnerabilities'', Vulnerabilities)] k"

definition source_visible ::
  "source_table \<Rightarrow> uuid \<Rightarrow> int \<Rightarrow> string \<Rightarrow> time \<Rightarrow> source_row \<Rightarrow> bool" where
  "source_visible tbl tenant days site_url t r \<longleftrightarrow> sr_tenant r = tenant
     \<and> (tbl = Threat \<longrightarrow> \<not> sr_platform r)
     \<and> (tbl = Lighthouse \<longrightarrow> site_url = [] \<or> sr_url r = site_url)
     \<and> t - secs (86400 * days) \<le> sr_time r"

definition source_order :: "source_row list \<Rightarrow> source_row list" where
  "source_order rs = rev (sort_key (\<lambda>r. (sr_time r, sr_id r)) rs)"

end
