(* ===== verification/Exports.thy ===== *)
theory Exports
  imports Exports_Store
begin

section \<open>Exports: operations and the worker\<close>

text \<open>
  The operations of \<open>services/exports.py\<close>.  The heartbeat of a claimed job runs beside it: its
  renewals are interference on the table, and whether it has seen the lease lost at the two
  points where the code looks is an input (\<open>receive\<close>).
\<close>

subsection \<open>Artifacts\<close>

definition storage_call :: "ex_env \<Rightarrow> (ex_db \<Rightarrow> ex_db) \<Rightarrow> unit ex_prog" where
  "storage_call env f = catch (stmt (\<lambda>d. Inr ((), f d))) (\<lambda>_. raise (ee_storage_error env))"

definition put_object :: "string \<Rightarrow> string \<Rightarrow> ex_db \<Rightarrow> ex_db" where
  "put_object k v d = d\<lparr>objects := (k, v) # filter (\<lambda>kv. fst kv \<noteq> k) (objects d)\<rparr>"

definition drop_object :: "string \<Rightarrow> ex_db \<Rightarrow> ex_db" where
  "drop_object k d = d\<lparr>objects := filter (\<lambda>kv. fst kv \<noteq> k) (objects d)\<rparr>"

definition storage_not_configured :: exn where
  "storage_not_configured = OtherError ''ObjectStorageNotConfiguredError'' []"

fun remove_dotdot :: "string \<Rightarrow> string" where
  "remove_dotdot (a # b # s) = (if a = CHR ''.'' \<and> b = CHR ''.'' then remove_dotdot s
     else a # remove_dotdot (b # s))"
| "remove_dotdot s = s"

definition export_object_key :: "uuid \<Rightarrow> uuid \<Rightarrow> string \<Rightarrow> string" where
  "export_object_key tenant jid filename =
     (let safe_name = dropWhile (\<lambda>c. c = CHR ''.'')
            (map (\<lambda>c. if c = CHR ''/'' then CHR ''_'' else c) (remove_dotdot filename))
      in ''tenants/'' @ tenant @ ''/exports/'' @ jid @ ''/'' @ safe_name)"

definition artifact_key :: "ex_env \<Rightarrow> uuid \<Rightarrow> uuid \<Rightarrow> string \<Rightarrow> string \<Rightarrow> exn + string" where
  "artifact_key env tenant jid fmt version =
     (let safe_version = take 96 (filter (\<lambda>c. is_alnum c \<or> c \<in> set ''-_'') version);
          filename = ''forjd-export-'' @ jid @ ''-'' @ safe_version @ ''.'' @ fmt in
      if safe_version = [] then Inl (ValueError ''export artifact version is required'')
      else if ee_storage_configured env then Inr (export_object_key tenant jid filename)
      else if ee_production env then Inl storage_not_configured
      else Inr (''local:'' @ ee_resolve env
        (ee_export_dir env @ ''/exports/'' @ tenant @ ''/'' @ filename)))"

definition is_local :: "string \<Rightarrow> bool" where
  "is_local k = py_startswith k ''local:''"

definition delete_artifact :: "ex_env \<Rightarrow> string \<Rightarrow> unit ex_prog" where
  "delete_artifact env k =
     (if is_local k then storage_call env (drop_object k)
      else if k \<noteq> [] then
        (if \<not> ee_storage_configured env then raise storage_not_configured
         else storage_call env (drop_object k))
      else ret ())"

definition store_artifact :: "ex_env \<Rightarrow> string \<Rightarrow> string \<Rightarrow> unit ex_prog" where
  "store_artifact env k artifact =
     (if is_local k then storage_call env (put_object k artifact)
      else if \<not> ee_storage_configured env then raise storage_not_configured
      else storage_call env (put_object k artifact))"

subsection \<open>Source rows\<close>

text \<open>\<open>int(filters.get(k) or d)\<close>\<close>

definition filter_int :: "jdict \<Rightarrow> string \<Rightarrow> int \<Rightarrow> exn + int" where
  "filter_int filters k d = py_int (py_or (jget filters k) (JInt d))"

definition load_source_rows ::
  "ex_env \<Rightarrow> uuid \<Rightarrow> string \<Rightarrow> jdict \<Rightarrow> int \<Rightarrow> int \<Rightarrow> ex_db \<Rightarrow> exn + jdict list" where
  "load_source_rows env tenant kind filters limit offset d =
     (let bounded_limit = clamp 1 100000 limit;
          bounded_offset = clamp 0 100000 offset;
          site_url = take 2048 (py_str (ee_repr env) (py_or (jget filters ''site_url'') (JStr []))) in
      case filter_int filters ''days'' 7 of
        Inl e \<Rightarrow> Inl e
      | Inr days_value \<Rightarrow>
          (case source_table_of kind of
             None \<Rightarrow> Inl (ValueError (''unsupported source_kind: '' @ kind))
           | Some tbl \<Rightarrow> Inr (map sr_fields (take (nat bounded_limit) (drop (nat bounded_offset)
               (source_order (filter (source_visible tbl tenant (clamp 1 90 days_value) site_url (now d))
                 (source_rows d tbl))))))))"

definition source_too_large :: exn where
  "source_too_large = OtherError ''ExportSourceTooLargeError'' []"

fun count_bytes :: "(json \<Rightarrow> string) \<Rightarrow> int \<Rightarrow> int \<Rightarrow> jdict list \<Rightarrow> int option" where
  "count_bytes dumps budget used [] = Some used"
| "count_bytes dumps budget used (x # xs) =
     (let used' = used + int (utf8_length (dumps (JObj x))) in
      if budget < used' then None else count_bytes dumps budget used' xs)"

text \<open>
  The page loop, on one repeatable-read snapshot; each round but the last collects a full
  page, so the fuel of one round per requested row is never exhausted.
\<close>

fun load_pages ::
  "(int \<Rightarrow> int \<Rightarrow> exn + jdict list) \<Rightarrow> (json \<Rightarrow> string) \<Rightarrow> int \<Rightarrow> int \<Rightarrow> nat \<Rightarrow> int \<Rightarrow> jdict list \<Rightarrow>
   (exn + jdict list) option" where
  "load_pages load dumps budget bounded_limit 0 used collected = None"
| "load_pages load dumps budget bounded_limit (Suc fuel) used collected =
     (if \<not> int (length collected) < bounded_limit then Some (Inr collected)
      else (let page_limit = min source_page_rows (bounded_limit - int (length collected)) in
        case load page_limit (int (length collected)) of
          Inl e \<Rightarrow> Some (Inl e)
        | Inr page \<Rightarrow>
            if page = [] then Some (Inr collected)
            else (case count_bytes dumps budget used page of
                None \<Rightarrow> Some (Inl source_too_large)
              | Some used' \<Rightarrow>
                  if int (length page) < page_limit then Some (Inr (collected @ page))
                  else load_pages load dumps budget bounded_limit fuel used' (collected @ page))))"

definition load_source_rows_bounded ::
  "ex_env \<Rightarrow> uuid \<Rightarrow> string \<Rightarrow> jdict \<Rightarrow> int \<Rightarrow> ex_db \<Rightarrow> (exn + jdict list) option" where
  "load_source_rows_bounded env tenant kind filters limit d =
     (let bounded_limit = clamp 1 100000 limit;
          byte_budget = min (ee_max_source_bytes env) (ee_max_artifact_bytes env) in
      load_pages (\<lambda>l off. load_source_rows env tenant kind filters l off d) (ee_dumps env)
        byte_budget bounded_limit (nat bounded_limit + 1) 0 [])"

subsection \<open>Rendering\<close>

definition pdf_report_title :: "string \<Rightarrow> string" where
  "pdf_report_title kind = (case map_of
     [(''stream_results'', ''Stream Results Report''), (''analytics'', ''Analytics Report''),
      (''threat'', ''Threat Intelligence Report''), (''lighthouse'', ''Lighthouse Scan Report''),
      (''vulnerabilities'', ''Vulnerability Report'')] kind of
     Some t \<Rightarrow> t | None \<Rightarrow> ''FORJD Operational Report'')"

definition upper_char :: "char \<Rightarrow> char" where
  "upper_char c = (let n = code_point c in
     if 97 \<le> n \<and> n \<le> 122 then char_of (n - 32) else c)"

text \<open>\<open>str.title\<close> on ASCII text: the first letter of every run of letters is capitalised.\<close>

fun title_from :: "bool \<Rightarrow> string \<Rightarrow> string" where
  "title_from inside [] = []"
| "title_from inside (c # s) =
     (let l = lower_char c; letter = (97 \<le> code_point l \<and> code_point l \<le> 122) in
      (if letter then (if inside then l else upper_char l) else c) # title_from letter s)"

definition pdf_report_metadata :: "ex_env \<Rightarrow> string \<Rightarrow> jdict \<Rightarrow> jdict" where
  "pdf_report_metadata env kind filters =
     (let days = (if jget filters ''days'' = JNull then 0
            else (case py_int (jget filters ''days'') of Inl _ \<Rightarrow> 0 | Inr n \<Rightarrow> n));
          site_url = py_strip (py_str (ee_repr env) (py_or (jget filters ''site_url'') (JStr [])));
          source = title_from False
            (py_strip (map (\<lambda>c. if c = CHR ''_'' then CHR '' '' else c) kind)) in
      [(''Reporting window'', JStr (if 0 < days then ''Last '' @ py_str_int days @ '' days''
          else ''Selected range'')),
       (''Scope'', JStr (if site_url = [] then ''All monitored sites'' else site_url)),
       (''Source'', JStr (if source = [] then ''Export'' else source))])"

definition render_export ::
  "ex_env \<Rightarrow> jdict list \<Rightarrow> string \<Rightarrow> string \<Rightarrow> jdict \<Rightarrow> exn + string" where
  "render_export env rows fmt kind filters =
     (if fmt \<in> {''csv'', ''json'', ''parquet''} then ee_frame env fmt rows
      else if fmt = ''pdf'' then
        (if 1000 < length rows then Inl (ValueError ''PDF exports support at most 1000 rows'')
         else ee_pdf env rows (pdf_report_title kind) (pdf_report_metadata env kind filters))
      else Inl (ValueError (''unsupported format: '' @ fmt)))"

subsection \<open>The tenant-facing operations\<close>

record job_view =
  jv_job :: job_row
  jv_ready :: bool

definition job_dict :: "job_row \<Rightarrow> job_view" where
  "job_dict j = \<lparr>jv_job = j\<lparr>job_fingerprint := [], job_owner := None, job_expires_lease := None\<rparr>,
     jv_ready = (job_status j = J_completed \<and> job_object j \<noteq> None \<and> job_object j \<noteq> Some [])\<rparr>"

definition ensure_export_schema :: "unit ex_prog" where
  "ensure_export_schema = ensure_schema ''secure export schema missing; apply backend/sql/023''"

definition export_access ::
  "auth_user \<Rightarrow> uuid \<Rightarrow> string list option \<Rightarrow> string \<Rightarrow> unit ex_prog" where
  "export_access user tenant min_roles scope =
     bindM (require_tenant_access user tenant min_roles (Some [scope])) (\<lambda>_. ensure_export_schema)"

definition request_fingerprint ::
  "ex_env \<Rightarrow> string \<Rightarrow> string \<Rightarrow> int \<Rightarrow> int \<Rightarrow> string \<Rightarrow> string" where
  "request_fingerprint env fmt kind limit days site_url = ee_sha256 env (ee_dumps env (JObj
     [(''format'', JStr fmt), (''source_kind'', JStr kind), (''limit'', JInt limit),
      (''days'', JInt days), (''site_url'', JStr site_url)]))"

definition new_job ::
  "ex_env \<Rightarrow> uuid \<Rightarrow> auth_user \<Rightarrow> uuid \<Rightarrow> string \<Rightarrow> string \<Rightarrow> string \<Rightarrow> int \<Rightarrow> int \<Rightarrow> string \<Rightarrow> string \<Rightarrow> job_row" where
  "new_job env jid user tenant key fmt kind limit days site_url content_type =
     \<lparr>job_id = jid, job_tenant = tenant, job_format = fmt, job_status = J_queued,
      job_source = kind, job_key = key,
      job_fingerprint = request_fingerprint env fmt kind limit days site_url,
      job_filters = [(''days'', JInt days), (''limit'', JInt limit), (''site_url'', JStr site_url)],
      job_object = None, job_checksum = None, job_size = 0, job_content_type = content_type,
      job_error = None, job_attempts = 0, job_max = ee_max_attempts env, job_next = 0,
      job_owner = None, job_expires_lease = None, job_actor = au_user_id user,
      job_created = 0, job_completed = None, job_expires = None\<rparr>"

text \<open>The \<open>INSERT .. ON CONFLICT DO NOTHING\<close> and, on a conflict, the comparison with the stored job.\<close>

definition enqueue_job :: "job_row \<Rightarrow> (bool \<times> job_view) ex_prog" where
  "enqueue_job job =
     bindM (stmt (insert_job job)) (\<lambda>row. case row of
       Some j \<Rightarrow> ret (False, job_dict j)
     | None \<Rightarrow>
         bindM (query (fetch_job_row (job_tenant job) None (Some (job_key job)))) (\<lambda>existing.
         case existing of
           None \<Rightarrow> raise (RuntimeError ''export idempotency conflict without an existing job'')
         | Some j \<Rightarrow>
             if job_fingerprint j \<noteq> job_fingerprint job
             then raise (HTTPException 409
               ''idempotency_key was already used with different export parameters'')
             else ret (True, job_dict j)))"

definition create_export_job ::
  "ex_env \<Rightarrow> auth_user \<Rightarrow> uuid \<Rightarrow> string \<Rightarrow> string \<Rightarrow> string \<Rightarrow> int \<Rightarrow> int \<Rightarrow> string option \<Rightarrow>
   (bool \<times> job_view) ex_prog" where
  "create_export_job env user tenant key fmt kind limit days site_url =
     bindM (export_access user tenant (Some [''owner'', ''admin'', ''member'']) ''exports:write'') (\<lambda>_.
     if ee_production env \<and> \<not> ee_storage_configured env
     then raise (HTTPException 503 ''durable export object storage is not configured'')
     else if fmt = ''pdf'' \<and> 1000 < clamp 1 100000 limit
     then raise (HTTPException 422 ''PDF exports support at most 1000 rows'')
     else (case content_types fmt of
       None \<Rightarrow> raise (LookupError fmt)
     | Some content_type \<Rightarrow>
         bindM uuid4 (\<lambda>jid.
         enqueue_job (new_job env jid user tenant key fmt kind (clamp 1 100000 limit) (clamp 1 90 days)
             (take 2048 (case site_url of None \<Rightarrow> [] | Some s \<Rightarrow> s)) content_type))))"

definition list_jobs :: "auth_user \<Rightarrow> uuid \<Rightarrow> int \<Rightarrow> job_view list ex_prog" where
  "list_jobs user tenant limit =
     bindM (export_access user tenant None ''exports:read'') (\<lambda>_.
     bindM (query (select_jobs tenant (nat (clamp 1 200 limit)))) (\<lambda>rows. ret (map job_dict rows)))"

definition get_job :: "auth_user \<Rightarrow> uuid \<Rightarrow> uuid \<Rightarrow> job_view option ex_prog" where
  "get_job user tenant jid =
     bindM (export_access user tenant None ''exports:read'') (\<lambda>_.
     bindM (query (fetch_job_row tenant (Some jid) None)) (\<lambda>row. ret (map_option job_dict row)))"

record download =
  dw_url :: string
  dw_filename :: string
  dw_expires_in :: int
  dw_checksum :: "string option"
  dw_size :: int

text \<open>\<open>int((expires_at - now).total_seconds())\<close>, which truncates towards zero.\<close>

definition seconds_until :: "time \<Rightarrow> time \<Rightarrow> int" where
  "seconds_until e t = (if t \<le> e then (e - t) div 1000000 else - ((t - e) div 1000000))"

definition create_download :: "ex_env \<Rightarrow> auth_user \<Rightarrow> uuid \<Rightarrow> uuid \<Rightarrow> download ex_prog" where
  "create_download env user tenant jid =
     bindM (get_job user tenant jid) (\<lambda>found. case found of
       None \<Rightarrow> raise (HTTPException 404 ''export job not found'')
     | Some v \<Rightarrow>
         let j = jv_job v in
         (case job_object j of
            None \<Rightarrow> raise (HTTPException 409 ''export artifact is not ready'')
          | Some obj \<Rightarrow>
              if job_status j \<noteq> J_completed \<or> obj = []
              then raise (HTTPException 409 ''export artifact is not ready'')
              else
              bindM read_clock (\<lambda>t.
              let remaining = (case job_expires j of
                    None \<Rightarrow> default_presign_seconds
                  | Some e \<Rightarrow> seconds_until e t) in
              if job_expires j \<noteq> None \<and> remaining \<le> 0
              then raise (HTTPException 410 ''export artifact has expired'')
              else if \<not> ee_storage_configured env
              then raise (HTTPException 503 ''signed export downloads require object storage'')
              else
                let expires_in = min remaining default_presign_seconds;
                    filename = ''forjd-export-'' @ take 8 jid @ ''.'' @ job_format j in
                ret \<lparr>dw_url = ee_presign env obj expires_in filename (job_content_type j),
                     dw_filename = filename, dw_expires_in = expires_in,
                     dw_checksum = job_checksum j, dw_size = job_size j\<rparr>)))"

definition delete_job :: "ex_env \<Rightarrow> auth_user \<Rightarrow> uuid \<Rightarrow> uuid \<Rightarrow> unit ex_prog" where
  "delete_job env user tenant jid =
     bindM (export_access user tenant None ''exports:write'') (\<lambda>_.
     bindM (query (fetch_job_row tenant (Some jid) None)) (\<lambda>row. case row of
       None \<Rightarrow> raise (HTTPException 404 ''export job not found'')
     | Some j \<Rightarrow>
         bindM (case job_object j of
             None \<Rightarrow> ret ()
           | Some obj \<Rightarrow> catch (delete_artifact env obj) (\<lambda>e.
               if e = storage_not_configured
               then raise (HTTPException 503
                 ''export artifact exists but object storage is unavailable'')
               else raise (HTTPException 503 ''failed to delete export artifact''))) (\<lambda>_.
         bindM (stmt (\<lambda>d. Inr (delete_job_stmt jid tenant d))) (\<lambda>n.
         if n \<noteq> 1 then raise (HTTPException 404 ''export job not found'') else ret ()))))"

subsection \<open>Processing a claimed job\<close>

definition renew_export_lease :: "uuid \<Rightarrow> string \<Rightarrow> bool ex_prog" where
  "renew_export_lease jid worker =
     bindM (stmt (\<lambda>d. Inr (renew_lease_stmt jid worker d))) (\<lambda>n. ret (n = 1))"

definition clear_stale_artifact :: "ex_env \<Rightarrow> string \<Rightarrow> job_row \<Rightarrow> bool ex_prog" where
  "clear_stale_artifact env worker j =
     (case job_object j of
        None \<Rightarrow> ret True
      | Some obj \<Rightarrow>
          if obj = [] then ret True
          else bindM (delete_artifact env obj) (\<lambda>_.
            bindM (stmt (\<lambda>d. Inr (clear_object (job_id j) worker obj d))) (\<lambda>n. ret (n = 1))))"

text \<open>Loading, rendering, the size limit, the checksum and the key of this attempt.\<close>

definition prepare_artifact ::
  "ex_env \<Rightarrow> string \<Rightarrow> job_row \<Rightarrow> (string \<times> string \<times> string) ex_prog" where
  "prepare_artifact env worker j =
     (let filters = json_object (ee_loads env) (JObj (job_filters j)) in
      bindM (lift (filter_int filters ''limit'' 10000)) (\<lambda>limit.
      bindM (stmt (\<lambda>d. case load_source_rows_bounded env (job_tenant j) (job_source j) filters limit d of
            Some (Inr rows) \<Rightarrow> Inr (rows, d)
          | Some (Inl e) \<Rightarrow> Inl e
          | None \<Rightarrow> Inl (RuntimeError ''load_pages''))) (\<lambda>source_rows.
      bindM (lift (render_export env source_rows (job_format j) (job_source j) filters)) (\<lambda>artifact.
      if ee_max_artifact_bytes env < int (length artifact)
      then raise (ValueError ''export artifact exceeds the configured byte limit'')
      else bindM (lift (artifact_key env (job_tenant j) (job_id j) (job_format j)
             (py_str_int (job_attempts j) @ ''-'' @ worker))) (\<lambda>k.
           ret (artifact, ee_sha256 env artifact, k))))))"

definition publish_artifact ::
  "ex_env \<Rightarrow> string \<Rightarrow> job_row \<Rightarrow> string \<Rightarrow> string \<Rightarrow> string \<Rightarrow> unit ex_prog" where
  "publish_artifact env worker j artifact digest k =
     bindM receive (\<lambda>lease_lost.
     if lease_lost then ret ()
     else
     bindM (stmt (\<lambda>d. Inr (plan_object (job_id j) worker k d))) (\<lambda>planned.
     if planned \<noteq> 1 then ret ()
     else
     bindM (renew_export_lease (job_id j) worker) (\<lambda>renewed.
     bindM receive (\<lambda>lease_lost.
     if \<not> renewed \<or> lease_lost then ret ()
     else
     bindM (store_artifact env k artifact) (\<lambda>_.
     bindM (stmt (\<lambda>d. Inr (complete_job env (job_id j) worker k digest (int (length artifact)) d)))
       (\<lambda>updated. if updated \<noteq> 1 then delete_artifact env k else ret ()))))))"

text \<open>The \<open>except\<close> branch, given the value \<open>durable_object_key\<close> has at the failure.\<close>

definition fail_export ::
  "ex_env \<Rightarrow> string \<Rightarrow> job_row \<Rightarrow> string option \<Rightarrow> exn \<Rightarrow> unit ex_prog" where
  "fail_export env worker j durable_key e =
     bindM (case durable_key of
         None \<Rightarrow> ret False
       | Some k \<Rightarrow> if k = [] then ret False
           else tryM (delete_artifact env k) (\<lambda>_. ret False) (\<lambda>_. ret True)) (\<lambda>cleaned.
     bindM (stmt (\<lambda>d. Inr (fail_job_stmt (job_id j) worker (take 128 (exn_name e)) cleaned
         durable_key d))) (\<lambda>_. ret ()))"

definition process_claimed_job :: "ex_env \<Rightarrow> string \<Rightarrow> job_row \<Rightarrow> unit ex_prog" where
  "process_claimed_job env worker j =
     tryM (clear_stale_artifact env worker j) (fail_export env worker j (job_object j)) (\<lambda>cleared.
     if \<not> cleared then ret ()
     else
     tryM (prepare_artifact env worker j) (fail_export env worker j None) (\<lambda>(artifact, digest, k).
     catch (publish_artifact env worker j artifact digest k) (fail_export env worker j (Some k))))"

subsection \<open>The worker tick\<close>

fun process_jobs :: "ex_env \<Rightarrow> string \<Rightarrow> nat \<Rightarrow> nat \<Rightarrow> nat ex_prog" where
  "process_jobs env worker 0 processed = ret processed"
| "process_jobs env worker (Suc n) processed =
     bindM (stmt (\<lambda>d. Inr (claim_next_job worker d))) (\<lambda>claimed. case claimed of
       None \<Rightarrow> ret processed
     | Some j \<Rightarrow> bindM (process_claimed_job env worker j) (\<lambda>_.
         process_jobs env worker n (Suc processed)))"

definition expire_artifact :: "ex_env \<Rightarrow> job_row \<Rightarrow> nat ex_prog" where
  "expire_artifact env j =
     (let obj = (case job_object j of None \<Rightarrow> [] | Some k \<Rightarrow> k) in
      catch
        (bindM (delete_artifact env obj) (\<lambda>_.
         bindM (if job_status j = J_completed
                then stmt (\<lambda>d. Inr (mark_expired (job_id j) d))
                else stmt (\<lambda>d. Inr (clear_failed_object (job_id j) obj d))) (\<lambda>n.
         ret (if n = 1 then 1 else 0))))
        (\<lambda>_. bindM (stmt (\<lambda>d. Inr (postpone_cleanup (job_id j) obj d))) (\<lambda>_. ret 0)))"

fun expire_all :: "ex_env \<Rightarrow> job_row list \<Rightarrow> nat \<Rightarrow> nat ex_prog" where
  "expire_all env [] n = ret n"
| "expire_all env (j # js) n = bindM (expire_artifact env j) (\<lambda>k. expire_all env js (n + k))"

definition expire_artifacts :: "ex_env \<Rightarrow> int \<Rightarrow> nat ex_prog" where
  "expire_artifacts env limit =
     bindM (query (artifacts_due (nat (clamp 1 200 limit)))) (\<lambda>rows. expire_all env rows 0)"

definition tick_export_jobs :: "ex_env \<Rightarrow> int \<Rightarrow> string option \<Rightarrow> nat ex_prog" where
  "tick_export_jobs env batch_size worker_id =
     bindM ensure_export_schema (\<lambda>_.
     bindM (case worker_id of Some w \<Rightarrow> ret w | None \<Rightarrow> uuid4) (\<lambda>worker.
     bindM (stmt (\<lambda>d. Inr (expire_leases d))) (\<lambda>_.
     bindM (process_jobs env worker (nat (clamp 1 25 batch_size)) 0) (\<lambda>processed.
     bindM (expire_artifacts env 50) (\<lambda>_. ret processed)))))"

end
