(* ===== verification/Exports_Safety.thy ===== *)
theory Exports_Safety
  imports Exports
begin

section \<open>Exports: the job protocol under interference\<close>

text \<open>
  The invariant of \<open>export_jobs\<close> (the CHECK constraints and unique indexes of the table, and
  what the states promise), the relation every statement stays in, and the proof that each
  operation and the worker tick keep them whatever other workers do.
\<close>

definition job_ok :: "job_row \<Rightarrow> bool" where
  "job_ok j \<longleftrightarrow> lease_shape j \<and> attempts_bounds j
     \<and> (job_status j = J_queued \<longrightarrow> job_attempts j = 0)
     \<and> (job_status j \<noteq> J_queued \<longrightarrow> 1 \<le> job_attempts j)
     \<and> (job_status j = J_completed \<longrightarrow> job_object j \<noteq> None \<and> job_checksum j \<noteq> None
          \<and> job_expires j \<noteq> None)
     \<and> (job_status j = J_failed \<longrightarrow> job_attempts j = job_max j)
     \<and> (job_status j = J_expired \<longrightarrow> job_object j = None)"

definition ex_inv :: "ex_db \<Rightarrow> bool" where
  "ex_inv d \<longleftrightarrow> list_all job_ok (export_jobs d)
     \<and> distinct (map job_id (export_jobs d))
     \<and> distinct (map (\<lambda>j. (job_tenant j, job_key j)) (export_jobs d))
     \<and> set (map job_id (export_jobs d)) \<subseteq> set (issued_ids d)"

definition job_same :: "job_row \<Rightarrow> job_row \<Rightarrow> bool" where
  "job_same j j' \<longleftrightarrow> job_id j' = job_id j \<and> job_tenant j' = job_tenant j
     \<and> job_format j' = job_format j \<and> job_source j' = job_source j \<and> job_key j' = job_key j
     \<and> job_fingerprint j' = job_fingerprint j \<and> job_filters j' = job_filters j
     \<and> job_max j' = job_max j \<and> job_actor j' = job_actor j"

definition artifact_same :: "job_row \<Rightarrow> job_row \<Rightarrow> bool" where
  "artifact_same j j' \<longleftrightarrow> job_object j' = job_object j \<and> job_checksum j' = job_checksum j
     \<and> job_size j' = job_size j \<and> job_expires j' = job_expires j"

fun terminal_le :: "job_status \<Rightarrow> job_status \<Rightarrow> bool" where
  "terminal_le J_completed s = (s = J_completed \<or> s = J_expired)"
| "terminal_le J_failed s = (s = J_failed)"
| "terminal_le J_expired s = (s = J_expired)"
| "terminal_le _ s = True"

definition job_le :: "job_row \<Rightarrow> job_row \<Rightarrow> bool" where
  "job_le j j' \<longleftrightarrow> job_same j j' \<and> job_attempts j \<le> job_attempts j'
     \<and> terminal_le (job_status j) (job_status j')
     \<and> (job_status j = J_completed \<and> job_status j' = J_completed \<longrightarrow> artifact_same j j')"

definition ex_rely :: "ex_db \<Rightarrow> ex_db \<Rightarrow> bool" where
  "ex_rely d d' \<longleftrightarrow> (ex_inv d \<longrightarrow> ex_inv d' \<and> now d \<le> now d'
     \<and> (\<forall>j \<in> set (export_jobs d). \<forall>j' \<in> set (export_jobs d'). job_id j' = job_id j \<longrightarrow> job_le j j')
     \<and> set (issued_ids d) \<subseteq> set (issued_ids d')
     \<and> (\<forall>i \<in> set (issued_ids d). i \<notin> set (map job_id (export_jobs d))
          \<longrightarrow> i \<notin> set (map job_id (export_jobs d'))))"

lemma terminal_le_refl [simp]: "terminal_le s s"
  by (cases s) simp_all

lemma terminal_le_trans: "terminal_le s t \<Longrightarrow> terminal_le t u \<Longrightarrow> terminal_le s u"
  by (cases s; cases t) auto

lemma job_le_refl [simp]: "job_le j j"
  by (simp add: job_le_def job_same_def artifact_same_def)

lemma job_le_trans:
  assumes "job_le i j" and "job_le j k"
  shows "job_le i k"
proof -
  have "job_same i k" using assms by (simp add: job_le_def job_same_def)
  moreover have "terminal_le (job_status i) (job_status k)"
    using assms terminal_le_trans unfolding job_le_def by blast
  moreover have "artifact_same i k" if "job_status i = J_completed" "job_status k = J_completed"
  proof -
    from that assms have "job_status j = J_completed" unfolding job_le_def by (cases "job_status j") auto
    with that assms have "artifact_same i j" "artifact_same j k" by (auto simp: job_le_def)
    then show ?thesis by (simp add: artifact_same_def)
  qed
  ultimately show ?thesis using assms by (auto simp: job_le_def)
qed

lemma ex_rely_refl: "ex_rely d d"
proof -
  have "job_le j j'" if "ex_inv d" "j \<in> set (export_jobs d)" "j' \<in> set (export_jobs d)"
    "job_id j' = job_id j" for j j'
  proof -
    from that have "j' = j" unfolding ex_inv_def by (metis distinct_map_eqD)
    then show ?thesis by simp
  qed
  then show ?thesis unfolding ex_rely_def by simp
qed

lemma ex_rely_trans:
  assumes "ex_rely d d'" and "ex_rely d' d''"
  shows "ex_rely d d''"
  unfolding ex_rely_def
proof (intro impI conjI ballI)
  assume inv: "ex_inv d"
  with assms(1) have 1: "ex_inv d'" "now d \<le> now d'" "set (issued_ids d) \<subseteq> set (issued_ids d')"
    "\<And>i. i \<in> set (issued_ids d) \<Longrightarrow> i \<notin> job_id ` set (export_jobs d)
      \<Longrightarrow> i \<notin> job_id ` set (export_jobs d')"
    "\<And>j j'. j \<in> set (export_jobs d) \<Longrightarrow> j' \<in> set (export_jobs d') \<Longrightarrow> job_id j' = job_id j
      \<Longrightarrow> job_le j j'"
    unfolding ex_rely_def by simp_all
  with assms(2) have 2: "ex_inv d''" "now d' \<le> now d''" "set (issued_ids d') \<subseteq> set (issued_ids d'')"
    "\<And>i. i \<in> set (issued_ids d') \<Longrightarrow> i \<notin> job_id ` set (export_jobs d')
      \<Longrightarrow> i \<notin> job_id ` set (export_jobs d'')"
    "\<And>j j'. j \<in> set (export_jobs d') \<Longrightarrow> j' \<in> set (export_jobs d'') \<Longrightarrow> job_id j' = job_id j
      \<Longrightarrow> job_le j j'"
    unfolding ex_rely_def by simp_all
  from 1 2 show "ex_inv d''" "now d \<le> now d''" "set (issued_ids d) \<subseteq> set (issued_ids d'')" by auto
  show "i \<notin> set (map job_id (export_jobs d''))"
    if "i \<in> set (issued_ids d)" "i \<notin> set (map job_id (export_jobs d))" for i
    using 1(4) [of i] 2(4) [of i] that 1(3) by (metis set_map subset_iff)
  show "job_le j j''" if j: "j \<in> set (export_jobs d)" and j'': "j'' \<in> set (export_jobs d'')"
    and id: "job_id j'' = job_id j" for j j''
  proof -
    from j inv 1(3) have "job_id j'' \<in> set (issued_ids d')" by (auto simp: ex_inv_def id)
    with 2(4) j'' have "job_id j'' \<in> job_id ` set (export_jobs d')" by blast
    then obtain j' where j': "j' \<in> set (export_jobs d')" "job_id j' = job_id j''" by auto
    with 1(5) [OF j j'(1)] 2(5) [OF j'(1) j''] id show ?thesis by (auto intro: job_le_trans)
  qed
qed

interpretation ex: protocol ex_inv ex_rely
  by unfold_locales (rule ex_rely_refl, erule (1) ex_rely_trans, simp_all add: ex_rely_def)

lemma ex_rely_frame:
  assumes "export_jobs d' = export_jobs d" and "issued_ids d' = issued_ids d" and "now d' = now d"
  shows "ex_rely d d'"
  using assms ex_rely_refl [of d] unfolding ex_rely_def by (simp add: ex_inv_def)

interpretation exc: core_protocol ex_inv ex_rely
  by unfold_locales (rule ex_rely_frame; simp add: add_audit_def)

subsection \<open>Statements stay in the relation\<close>

lemma ex_rely_update:
  assumes jobs: "export_jobs d' = upd_where hit f (export_jobs d)"
    and other: "issued_ids d' = issued_ids d" "now d' = now d"
    and step: "\<And>j. j \<in> set (export_jobs d) \<Longrightarrow> hit j \<Longrightarrow> job_ok j \<Longrightarrow> job_le j (f j) \<and> job_ok (f j)"
    and inv: "ex_inv d"
  shows "ex_rely d d'"
proof -
  have ok: "job_le j (f j) \<and> job_ok (f j)" if "j \<in> set (export_jobs d)" "hit j" for j
    using step [OF that] inv that by (auto simp: ex_inv_def list_all_iff)
  have ids: "map job_id (export_jobs d') = map job_id (export_jobs d)"
    unfolding jobs by (rule map_upd_where) (use ok in \<open>auto simp: job_le_def job_same_def\<close>)
  have keys: "map (\<lambda>j. (job_tenant j, job_key j)) (export_jobs d')
      = map (\<lambda>j. (job_tenant j, job_key j)) (export_jobs d)"
    unfolding jobs by (rule map_upd_where) (use ok in \<open>auto simp: job_le_def job_same_def\<close>)
  have "list_all job_ok (export_jobs d')"
    unfolding jobs by (rule list_all_upd_where) (use inv ok in \<open>auto simp: ex_inv_def\<close>)
  then have "ex_inv d'" using inv by (simp only: ex_inv_def ids keys other)
  moreover have "job_le j j'" if j: "j \<in> set (export_jobs d)" and j': "j' \<in> set (export_jobs d')"
    and id: "job_id j' = job_id j" for j j'
  proof -
    from j' obtain i where i: "i \<in> set (export_jobs d)" "j' = (if hit i then f i else i)"
      unfolding jobs by (rule in_upd_whereE)
    with ok [OF i(1)] have "job_le i j'" by auto
    moreover from this id have "i = j"
      using inv i(1) j by (auto simp: ex_inv_def job_le_def job_same_def dest: distinct_map_eqD)
    ultimately show ?thesis by simp
  qed
  ultimately show ?thesis
    unfolding ex_rely_def by (simp only: ids other) auto
qed

lemma ex_rely_update_jobs:
  assumes "update_jobs hit f d = (n, d')" and "ex_inv d"
    and "\<And>j. j \<in> set (export_jobs d) \<Longrightarrow> hit j \<Longrightarrow> job_ok j \<Longrightarrow> job_le j (f j) \<and> job_ok (f j)"
  shows "ex_rely d d'"
  by (rule ex_rely_update [where hit = hit and f = f])
    (use assms in \<open>auto simp: update_jobs_def\<close>)

named_theorems job_step "unfolding one update of a job"

lemmas job_step_defs [job_step] = job_le_def job_same_def artifact_same_def job_ok_def lease_shape_def attempts_bounds_def

lemma owned_running: "job_ok j \<Longrightarrow> job_owner j = Some w \<Longrightarrow> job_status j = J_running"
  by (auto simp: job_ok_def lease_shape_def)

lemma rely_expire_leases: "expire_leases d = (n, d') \<Longrightarrow> ex_inv d \<Longrightarrow> ex_rely d d'"
  unfolding expire_leases_def
  by (erule ex_rely_update_jobs) (auto simp: job_step lease_expired_def expire_lease_def)

lemma rely_clear_object: "clear_object i w k d = (n, d') \<Longrightarrow> ex_inv d \<Longrightarrow> ex_rely d d'"
  unfolding clear_object_def
  by (erule ex_rely_update_jobs) (auto simp: job_step dest: owned_running)

lemma rely_plan_object: "plan_object i w k d = (n, d') \<Longrightarrow> ex_inv d \<Longrightarrow> ex_rely d d'"
  unfolding plan_object_def
  by (erule ex_rely_update_jobs) (auto simp: job_step dest: owned_running)

lemma rely_renew_lease: "renew_lease_stmt i w d = (n, d') \<Longrightarrow> ex_inv d \<Longrightarrow> ex_rely d d'"
  unfolding renew_lease_stmt_def by (erule ex_rely_update_jobs) (auto simp: job_step)

lemma rely_complete_job:
  "complete_job env i w k c b d = (n, d') \<Longrightarrow> ex_inv d \<Longrightarrow> ex_rely d d'"
  unfolding complete_job_def
  by (erule ex_rely_update_jobs) (auto simp: job_step dest: owned_running)

lemma rely_fail_job: "fail_job_stmt i w e c k d = (n, d') \<Longrightarrow> ex_inv d \<Longrightarrow> ex_rely d d'"
  unfolding fail_job_stmt_def
  by (erule ex_rely_update_jobs) (auto simp: job_step failed_job_def dest: owned_running)

lemma rely_mark_expired: "mark_expired i d = (n, d') \<Longrightarrow> ex_inv d \<Longrightarrow> ex_rely d d'"
  unfolding mark_expired_def by (erule ex_rely_update_jobs) (auto simp: job_step)

lemma rely_clear_failed: "clear_failed_object i k d = (n, d') \<Longrightarrow> ex_inv d \<Longrightarrow> ex_rely d d'"
  unfolding clear_failed_object_def by (erule ex_rely_update_jobs) (auto simp: job_step)

lemma rely_postpone: "postpone_cleanup i k d = (n, d') \<Longrightarrow> ex_inv d \<Longrightarrow> ex_rely d d'"
  unfolding postpone_cleanup_def by (erule ex_rely_update_jobs) (auto simp: job_step)

lemma claim_next_job_cases:
  assumes "claim_next_job w d = (x, d')"
  obtains (none) "x = None" "d' = d" "\<forall>j \<in> set (export_jobs d). \<not> job_claimable (now d) j"
  | (some) j where "x = Some (claim_job (now d) w j)" "j \<in> set (export_jobs d)"
      "job_claimable (now d) j"
      "\<And>i. i \<in> set (export_jobs d) \<Longrightarrow> job_claimable (now d) i \<Longrightarrow>
         (job_created j, job_id j) \<le> (job_created i, job_id i)"
      "d' = d\<lparr>export_jobs := upd_where (\<lambda>k. job_id k = job_id j) (claim_job (now d) w)
         (export_jobs d)\<rparr>"
proof (cases "sort_key (\<lambda>j. (job_created j, job_id j)) (filter (job_claimable (now d)) (export_jobs d))")
  case Nil
  from arg_cong [OF Nil, of set] have "\<forall>j \<in> set (export_jobs d). \<not> job_claimable (now d) j" by auto
  with assms Nil none show ?thesis by (auto simp: claim_next_job_def)
next
  case (Cons j js)
  let ?key = "\<lambda>j. (job_created j, job_id j)"
  from arg_cong [OF Cons, of set] have mem: "j \<in> set (export_jobs d)" "job_claimable (now d) j" by auto
  have "sorted (map ?key (j # js))" unfolding Cons [symmetric] by simp
  moreover have "i \<in> set (j # js)" if "i \<in> set (export_jobs d)" "job_claimable (now d) i" for i
    unfolding Cons [symmetric] using that by simp
  ultimately have "?key j \<le> ?key i" if "i \<in> set (export_jobs d)" "job_claimable (now d) i" for i
    using that by fastforce
  with mem assms Cons some [of j] show ?thesis by (auto simp: claim_next_job_def)
qed

lemma job_step_claim: "job_ok j \<Longrightarrow> job_claimable t j \<Longrightarrow>
    job_le j (claim_job t w j) \<and> job_ok (claim_job t w j)"
  by (auto simp: job_step job_claimable_def claim_job_def)

lemma rely_claim_next_job:
  assumes "claim_next_job w d = (x, d')" and inv: "ex_inv d"
  shows "ex_rely d d'"
  using assms(1)
proof (cases rule: claim_next_job_cases)
  case none
  then show ?thesis by (simp add: ex_rely_refl)
next
  case (some j)
  have "i = j" if "i \<in> set (export_jobs d)" "job_id i = job_id j" for i
    using inv some(2) that by (auto simp: ex_inv_def dest: distinct_map_eqD)
  with some(3) show ?thesis
    by (intro ex_rely_update [where hit = "\<lambda>k. job_id k = job_id j" and f = "claim_job (now d) w",
          OF _ _ _ _ inv]) (simp_all add: some(5), metis job_step_claim)
qed

lemma job_ok_new:
  "job_checks j \<Longrightarrow> job_status j = J_queued \<Longrightarrow> job_attempts j = 0 \<Longrightarrow>
   job_ok (j\<lparr>job_next := t, job_created := t\<rparr>)"
  by (auto simp: job_step job_checks_def)

lemma rely_insert_job:
  assumes "insert_job row d = Inr (x, d')" and inv: "ex_inv d"
    and new: "job_status row = J_queued" "job_attempts row = 0"
  shows "ex_rely d d'"
proof (cases x)
  case None
  with assms(1) have "d' = d" by (auto simp: insert_job_def Let_def split: if_splits)
  then show ?thesis by (simp add: ex_rely_refl)
next
  case (Some j)
  let ?new = "row\<lparr>job_next := now d, job_created := now d\<rparr>"
  from assms(1) Some have d': "d' = d\<lparr>export_jobs := export_jobs d @ [?new],
      issued_ids := job_id row # issued_ids d\<rparr>"
    and checks: "job_checks row" and fresh: "job_id row \<notin> set (issued_ids d)"
    and key: "(job_tenant row, job_key row) \<notin> (\<lambda>j. (job_tenant j, job_key j)) ` set (export_jobs d)"
    by (auto simp: insert_job_def Let_def list_ex_iff split: if_splits)
  have unused: "job_id row \<notin> job_id ` set (export_jobs d)"
    using fresh inv by (auto simp: ex_inv_def)
  have "ex_inv d'"
    using inv job_ok_new [OF checks new] key unused by (auto simp: d' ex_inv_def)
  moreover have "job_le j j'" if "j \<in> set (export_jobs d)" "j' \<in> set (export_jobs d')"
    "job_id j' = job_id j" for j j'
  proof -
    from that unused have "j' \<in> set (export_jobs d)" by (auto simp: d')
    with that inv have "j' = j" unfolding ex_inv_def by (metis distinct_map_eqD)
    then show ?thesis by simp
  qed
  ultimately show ?thesis
    unfolding ex_rely_def using fresh by (auto simp: d')
qed

lemma rely_delete_job:
  assumes "delete_job_stmt i tenant d = (n, d')" and inv: "ex_inv d"
  shows "ex_rely d d'"
proof -
  let ?keep = "\<lambda>j. \<not> (job_id j = i \<and> job_tenant j = tenant)"
  from assms(1) have d': "d' = d\<lparr>export_jobs := filter ?keep (export_jobs d)\<rparr>"
    by (simp add: delete_job_stmt_def)
  have "ex_inv d'" using inv by (auto simp: d' ex_inv_def list_all_iff distinct_map_filter)
  moreover have "job_le j j'" if "j \<in> set (export_jobs d)" "j' \<in> set (export_jobs d')"
    "job_id j' = job_id j" for j j'
  proof -
    from that inv have "j' = j" unfolding ex_inv_def d' by (auto dest: distinct_map_eqD)
    then show ?thesis by simp
  qed
  ultimately show ?thesis unfolding ex_rely_def by (auto simp: d')
qed

subsection \<open>Every operation keeps the protocol\<close>

lemma safe_storage_call:
  assumes "\<And>d. export_jobs (f d) = export_jobs d" "\<And>d. issued_ids (f d) = issued_ids d"
    "\<And>d. now (f d) = now d"
  shows "safe ex_inv ex_rely (storage_call env f)"
  unfolding storage_call_def
  by (intro keeps_intros ex.safe_stmt) (auto intro!: ex_rely_frame simp: assms)

lemma safe_delete_artifact: "safe ex_inv ex_rely (delete_artifact env k)"
  unfolding delete_artifact_def
  by (intro keeps_intros safe_storage_call) (simp_all add: drop_object_def)

lemma safe_store_artifact: "safe ex_inv ex_rely (store_artifact env k v)"
  unfolding store_artifact_def
  by (intro keeps_intros safe_storage_call) (simp_all add: put_object_def)

lemma safe_export_schema: "safe ex_inv ex_rely ensure_export_schema"
  unfolding ensure_export_schema_def by (rule exc.safe_ensure_schema)

lemma safe_export_access: "safe ex_inv ex_rely (export_access user tenant roles scope)"
  unfolding export_access_def by (intro exc.core_intros safe_export_schema)

lemmas export_intros = exc.core_intros safe_delete_artifact safe_store_artifact
  safe_export_schema safe_export_access ex.safe_stmt TrueI

lemma safe_create_export_job:
  "safe ex_inv ex_rely (create_export_job env user tenant key fmt kind limit days url)"
  unfolding create_export_job_def enqueue_job_def Let_def
  by (intro export_intros) (auto intro: rely_insert_job simp: new_job_def)

lemma safe_list_jobs: "safe ex_inv ex_rely (list_jobs user tenant limit)"
  unfolding list_jobs_def by (intro export_intros)

lemma safe_get_job: "safe ex_inv ex_rely (get_job user tenant jid)"
  unfolding get_job_def by (intro export_intros)

lemma safe_create_download: "safe ex_inv ex_rely (create_download env user tenant jid)"
  unfolding create_download_def Let_def by (intro export_intros safe_get_job)

lemma safe_delete_job: "safe ex_inv ex_rely (delete_job env user tenant jid)"
  unfolding delete_job_def by (intro export_intros) (auto intro: rely_delete_job)

lemma safe_renew: "safe ex_inv ex_rely (renew_export_lease jid w)"
  unfolding renew_export_lease_def by (intro export_intros) (auto intro: rely_renew_lease)

lemma safe_clear_stale: "safe ex_inv ex_rely (clear_stale_artifact env w j)"
  unfolding clear_stale_artifact_def by (intro export_intros) (auto intro: rely_clear_object)

lemma safe_prepare: "safe ex_inv ex_rely (prepare_artifact env w j)"
  unfolding prepare_artifact_def Let_def
  by (intro export_intros) (auto intro: ex_rely_refl split: option.splits sum.splits)

lemma safe_publish: "safe ex_inv ex_rely (publish_artifact env w j a c k)"
  unfolding publish_artifact_def
  by (intro export_intros safe_renew) (auto intro: rely_plan_object rely_complete_job)

lemma safe_fail_export: "safe ex_inv ex_rely (fail_export env w j k e)"
  unfolding fail_export_def by (intro export_intros) (auto intro: rely_fail_job)

lemma safe_process_claimed_job: "safe ex_inv ex_rely (process_claimed_job env w j)"
  unfolding process_claimed_job_def
  by (intro export_intros safe_clear_stale safe_prepare safe_publish safe_fail_export)

lemma safe_process_jobs: "safe ex_inv ex_rely (process_jobs env w n m)"
proof (induction n arbitrary: m)
  case (Suc n)
  show ?case
    unfolding process_jobs.simps
    by (intro export_intros safe_process_claimed_job Suc.IH) (auto intro: rely_claim_next_job)
qed (simp add: keeps_ret)

lemma safe_expire_artifact: "safe ex_inv ex_rely (expire_artifact env j)"
  unfolding expire_artifact_def Let_def
  by (intro export_intros) (auto intro: rely_mark_expired rely_clear_failed rely_postpone)

lemma safe_expire_artifacts: "safe ex_inv ex_rely (expire_artifacts env limit)"
proof -
  have "safe ex_inv ex_rely (expire_all env js n)" for js n
    by (induction js arbitrary: n) (auto intro!: export_intros safe_expire_artifact)
  then show ?thesis unfolding expire_artifacts_def by (intro export_intros)
qed

lemma safe_tick_export_jobs: "safe ex_inv ex_rely (tick_export_jobs env batch w)"
  unfolding tick_export_jobs_def
  by (intro export_intros safe_process_jobs safe_expire_artifacts)
    (auto intro: rely_expire_leases)

subsection \<open>Jobs as leased work\<close>

interpretation job_queue: lease_queue job_attempts job_max job_owner job_expires_lease
  job_claimable claim_job "secs export_lease_seconds"
proof
  show "0 < secs export_lease_seconds" by (simp add: export_lease_seconds_def secs_def)
  show "job_claimable t j \<Longrightarrow> job_attempts j < job_max j" for t j by (simp add: job_claimable_def)
  show "job_claimable t j \<Longrightarrow> job_expires_lease j = Some e \<Longrightarrow> e \<le> t" for t j e
    by (auto simp: job_claimable_def)
qed (simp_all add: claim_job_def)

end
