(* ===== verification/Exports_System.thy ===== *)
theory Exports_System
  imports Exports_Safety System
begin

section \<open>Exports: histories\<close>

text \<open>
  The calls of the export service, the worker tick and the heartbeat's renewal among them, and
  the databases their histories reach.
\<close>

datatype ex_call =
    E_create auth_user uuid string string string int int "string option"
  | E_list auth_user uuid int
  | E_get auth_user uuid uuid
  | E_download auth_user uuid uuid
  | E_delete auth_user uuid uuid
  | E_renew uuid string
  | E_tick int "string option"

fun ex_run :: "ex_env \<Rightarrow> ex_call \<Rightarrow> unit ex_prog" where
  "ex_run env (E_create u t key fmt kind n days url) =
     ignore (create_export_job env u t key fmt kind n days url)"
| "ex_run env (E_list u t n) = ignore (list_jobs u t n)"
| "ex_run env (E_get u t j) = ignore (get_job u t j)"
| "ex_run env (E_download u t j) = ignore (create_download env u t j)"
| "ex_run env (E_delete u t j) = ignore (delete_job env u t j)"
| "ex_run env (E_renew j w) = ignore (renew_export_lease j w)"
| "ex_run env (E_tick n w) = ignore (tick_export_jobs env n w)"

definition fresh_ex :: "ex_db \<Rightarrow> bool" where
  "fresh_ex d \<longleftrightarrow> export_jobs d = [] \<and> objects d = []"

lemma ex_inv_elapse: "ex_inv (elapse t d) = ex_inv d"
  by (simp add: ex_inv_def elapse_def)

lemma ex_rely_elapse: "0 \<le> t \<Longrightarrow> ex_inv d \<Longrightarrow> ex_rely d (elapse t d)"
  using ex_rely_refl [of d] ex_inv_elapse [of t d] by (simp add: ex_rely_def elapse_def)

interpretation exs: service ex_inv ex_rely "ex_run env" fresh_ex for env
proof
  show "safe ex_inv ex_rely (ex_run env c)" for c
    by (cases c)
      (simp_all add: safe_ignore safe_create_export_job safe_list_jobs safe_get_job
        safe_create_download safe_delete_job safe_renew safe_tick_export_jobs)
  show "0 \<le> t \<Longrightarrow> ex_inv d \<Longrightarrow> ex_rely d (elapse t d)" for t d by (rule ex_rely_elapse)
  show "fresh_ex d \<Longrightarrow> ex_inv d" for d by (simp add: fresh_ex_def ex_inv_def)
qed

abbreviation ex_reachable :: "ex_env \<Rightarrow> ex_db \<Rightarrow> bool" where
  "ex_reachable env \<equiv> reachable (ex_run env) fresh_ex"

subsection \<open>The paged read is the plain query\<close>

text \<open>The source rows the filters select, in the order of the query.\<close>

definition selected_rows :: "ex_env \<Rightarrow> uuid \<Rightarrow> source_table \<Rightarrow> jdict \<Rightarrow> int \<Rightarrow> ex_db \<Rightarrow> jdict list" where
  "selected_rows env tenant tbl filters days d =
     map sr_fields (source_order (filter (source_visible tbl tenant (clamp 1 90 days)
       (take 2048 (py_str (ee_repr env) (py_or (jget filters ''site_url'') (JStr [])))) (now d))
       (source_rows d tbl)))"

lemma load_source_rows_selected:
  assumes "filter_int filters ''days'' 7 = Inr days" and "source_table_of kind = Some tbl"
    and "1 \<le> limit" and "limit \<le> 100000" and "0 \<le> offset" and "offset \<le> 100000"
  shows "load_source_rows env tenant kind filters limit offset d =
    Inr (take (nat limit) (drop (nat offset) (selected_rows env tenant tbl filters days d)))"
  using assms
  by (simp add: load_source_rows_def selected_rows_def Let_def clamp_id take_map drop_map)

fun all_bytes :: "(json \<Rightarrow> string) \<Rightarrow> jdict list \<Rightarrow> int" where
  "all_bytes dumps [] = 0"
| "all_bytes dumps (x # xs) = int (utf8_length (dumps (JObj x))) + all_bytes dumps xs"

lemma all_bytes_append [simp]: "all_bytes dumps (xs @ ys) = all_bytes dumps xs + all_bytes dumps ys"
  by (induction xs) auto

lemma all_bytes_nonneg: "0 \<le> all_bytes dumps xs"
  by (induction xs) auto

lemma count_bytes_all:
  assumes "used \<le> budget"
  shows "count_bytes dumps budget used xs =
    (if used + all_bytes dumps xs \<le> budget then Some (used + all_bytes dumps xs) else None)"
  using assms
proof (induction xs arbitrary: used)
  case (Cons x xs)
  then show ?case
    using all_bytes_nonneg [of dumps xs] by (auto simp: Let_def algebra_simps)
qed simp

lemma load_pages_round:
  assumes "length c = n" and "int n < limit" and "l = min source_page_rows (limit - int n)"
    and "load l (int n) = Inr page" and "page \<noteq> []"
  shows "load_pages load dumps budget limit (Suc fuel) used c =
    (case count_bytes dumps budget used page of
       None \<Rightarrow> Some (Inl source_too_large)
     | Some used' \<Rightarrow> if int (length page) < l then Some (Inr (c @ page))
         else load_pages load dumps budget limit fuel used' (c @ page))"
proof -
  from assms(1,2,4,5) show ?thesis unfolding assms(3) by (simp add: Let_def)
qed

text \<open>
  The loop, from any round: it has collected the first \<open>n\<close> rows within the budget, and returns
  the first rows up to the limit if they fit, else the size error.
\<close>

lemma load_pages_take:
  assumes "\<And>l off. 1 \<le> l \<Longrightarrow> l \<le> 1000 \<Longrightarrow> 0 \<le> off \<Longrightarrow> off < limit \<Longrightarrow>
      load l off = Inr (take (nat l) (drop (nat off) all))"
    and "n \<le> length all" and "int n \<le> limit" and "limit < int n + int fuel"
    and "used = all_bytes dumps (take n all)" and "used \<le> budget"
  shows "load_pages load dumps budget limit fuel used (take n all) =
    Some (if all_bytes dumps (take (nat limit) all) \<le> budget then Inr (take (nat limit) all)
      else Inl source_too_large)"
  using assms(2-)
proof (induction fuel arbitrary: n used)
  case (Suc fuel)
  have len: "length (take n all) = n" using Suc.prems(1) by simp
  show ?case
  proof (cases "int n < limit")
    case False
    with Suc.prems have "nat limit = n" by simp
    with Suc.prems False show ?thesis by (simp add: len)
  next
    case True
    let ?l = "min source_page_rows (limit - int n)"
    let ?page = "take (nat ?l) (drop n all)"
    have l: "1 \<le> ?l" "?l \<le> 1000" using True by (simp_all add: source_page_rows_def)
    have page: "load ?l (int n) = Inr ?page" using assms(1) [OF l, of "int n"] True by simp
    have grow: "take n all @ ?page = take (n + nat ?l) all" by (simp add: take_add)
    show ?thesis
    proof (cases "?page = []")
      case True
      then have "length all \<le> n" using l by simp
      with Suc.prems have "take (nat limit) all = take n all" by simp
      with Suc.prems True page \<open>int n < limit\<close> show ?thesis by (simp add: len Let_def)
    next
      case False
      have round: "load_pages load dumps budget limit (Suc fuel) used (take n all) =
          (case count_bytes dumps budget used ?page of
             None \<Rightarrow> Some (Inl source_too_large)
           | Some used' \<Rightarrow> if int (length ?page) < ?l then Some (Inr (take n all @ ?page))
               else load_pages load dumps budget limit fuel used' (take n all @ ?page))"
        by (rule load_pages_round) (rule len True refl page False)+
      let ?used = "used + all_bytes dumps ?page"
      have used: "?used = all_bytes dumps (take (n + nat ?l) all)"
        using Suc.prems(4) by (simp add: grow [symmetric])
      have count: "count_bytes dumps budget used ?page = (if ?used \<le> budget then Some ?used else None)"
        by (rule count_bytes_all) (rule Suc.prems(5))
      have below: "n + nat ?l \<le> nat limit" using True l by (simp add: nat_le_iff of_nat_diff)
      have split: "all_bytes dumps (take (nat limit) all) = ?used
          + all_bytes dumps (drop (n + nat ?l) (take (nat limit) all))"
        unfolding used using below
        by (metis all_bytes_append append_take_drop_id min.absorb1 take_take)
      show ?thesis
      proof (cases "?used \<le> budget")
        case over: False
        with split all_bytes_nonneg [of dumps "drop (n + nat ?l) (take (nat limit) all)"]
        have "\<not> all_bytes dumps (take (nat limit) all) \<le> budget" by linarith
        with over show ?thesis unfolding round count by simp
      next
        case fits: True
        show ?thesis
        proof (cases "int (length ?page) < ?l")
          case short: True
          have "length ?page = min (length all - n) (nat ?l)" by simp
          with short l(1) have "length all \<le> n + nat ?l" by linarith
          with below have e: "take (nat limit) all = take (n + nat ?l) all" by simp
          from fits short show ?thesis unfolding round count grow e used by simp
        next
          case full: False
          have "length ?page = min (length all - n) (nat ?l)" by simp
          with full \<open>?page \<noteq> []\<close> have n': "n + nat ?l \<le> length all" by (auto simp: min_def split: if_splits)
          have "load_pages load dumps budget limit fuel ?used (take (n + nat ?l) all) =
              Some (if all_bytes dumps (take (nat limit) all) \<le> budget then Inr (take (nat limit) all)
                else Inl source_too_large)"
          proof (rule Suc.IH [OF n'])
            have e: "int (n + nat ?l) = int n + ?l" using l(1) by simp
            show "int (n + nat ?l) \<le> limit" unfolding e by simp
            from l(1) Suc.prems(3) show "limit < int (n + nat ?l) + int fuel" unfolding e by linarith
          qed (use fits used in auto)
          then show ?thesis
            unfolding round count if_P [OF fits] option.case if_not_P [OF full] grow .
        qed
      qed
    qed
  qed
qed simp

subsection \<open>Artifact keys\<close>

text \<open>\<open>remove_dotdot\<close> leaves a text with a single dot alone.\<close>

lemma remove_dotdot_no_dot: "CHR ''.'' \<notin> set s \<Longrightarrow> remove_dotdot s = s"
  by (induction s rule: remove_dotdot.induct) auto

lemma remove_dotdot_one_dot:
  "CHR ''.'' \<notin> set a \<Longrightarrow> CHR ''.'' \<notin> set b \<Longrightarrow> remove_dotdot (a @ CHR ''.'' # b) = a @ CHR ''.'' # b"
proof (induction a)
  case Nil
  then show ?case by (cases b) (auto simp: remove_dotdot_no_dot)
next
  case (Cons c a)
  then show ?case by (cases a) auto
qed

definition plain :: "string \<Rightarrow> bool" where
  "plain s \<longleftrightarrow> list_all (\<lambda>c. is_alnum c \<or> c \<in> set ''-_'') s"

lemma plain_no_dot: "plain s \<Longrightarrow> CHR ''.'' \<notin> set s \<and> CHR ''/'' \<notin> set s"
  by (auto simp: plain_def list_all_iff is_alnum_def code_point_def Let_def)

lemma plain_append [simp]: "plain (s @ t) \<longleftrightarrow> plain s \<and> plain t"
  by (simp add: plain_def)

lemma plain_Cons: "plain (c # s) \<longleftrightarrow> (is_alnum c \<or> c \<in> set ''-_'') \<and> plain s"
  by (simp add: plain_def)

lemma artifact_key_plain:
  assumes "plain version" and "length version \<le> 96" and "version \<noteq> []" and "plain jid" and "plain fmt"
    and "ee_storage_configured env"
  shows "artifact_key env tenant jid fmt version = Inr (''tenants/'' @ tenant @ ''/exports/'' @ jid
    @ ''/forjd-export-'' @ jid @ ''-'' @ version @ ''.'' @ fmt)"
proof -
  have v: "filter (\<lambda>c. is_alnum c \<or> c \<in> set ''-_'') version = version"
    using assms(1) by (auto simp: plain_def list_all_iff intro: filter_True)
  let ?a = "''forjd-export-'' @ jid @ ''-'' @ version"
  have p: "plain ?a" using assms by (simp add: plain_def is_alnum_def code_point_def)
  then have "remove_dotdot (?a @ CHR ''.'' # fmt) = ?a @ CHR ''.'' # fmt"
    using assms(5) by (intro remove_dotdot_one_dot) (auto dest: plain_no_dot)
  moreover have "map (\<lambda>c. if c = CHR ''/'' then CHR ''_'' else c) (?a @ CHR ''.'' # fmt) = ?a @ CHR ''.'' # fmt"
    using p assms(5) by (intro map_idI) (auto dest!: plain_no_dot)
  ultimately show ?thesis
    using assms v by (simp add: artifact_key_def export_object_key_def Let_def)
qed

end
