(* ===== verification/Exports_Properties.thy ===== *)
theory Exports_Properties
  imports Exports_System Demo
begin

section \<open>Exports: properties\<close>

text \<open>
  The properties of the export jobs, with a tenant that requests a CSV of two rows, a worker
  that produces it and a download of it as the concrete instance.
\<close>

definition demo_ex_env :: ex_env where
  "demo_ex_env = \<lparr>ee_production = True, ee_storage_configured = True, ee_max_attempts = 3,
     ee_ttl_seconds = 600, ee_max_source_bytes = 4000, ee_max_artifact_bytes = 4000,
     ee_export_dir = ''/data'', ee_resolve = (\<lambda>p. p), ee_loads = (\<lambda>_. None),
     ee_dumps = (\<lambda>_. ''{}''), ee_repr = (\<lambda>_. []), ee_sha256 = (\<lambda>s. s),
     ee_frame = (\<lambda>fmt rows. Inr (fmt @ digits_of (length rows))), ee_pdf = (\<lambda>_ _ _. Inr ''pdf''),
     ee_presign = (\<lambda>k n f c. ''https://bucket/'' @ k), ee_storage_error = OtherError ''ClientError'' []\<rparr>"

definition demo_source :: "uuid \<Rightarrow> time \<Rightarrow> source_row" where
  "demo_source i t = \<lparr>sr_id = i, sr_tenant = ''T'', sr_platform = False, sr_time = t, sr_url = [],
     sr_fields = [(''id'', JStr i)]\<rparr>"

definition demo_ex_fresh :: ex_db where
  "demo_ex_fresh = \<lparr>now = secs 86400, schema_ready = True, tenant_members = [], audit_events = [],
     export_jobs = [], issued_ids = [],
     source_rows = (\<lambda>tbl. if tbl = Stream_results then [demo_source ''e1'' 5, demo_source ''e2'' 7] else []),
     objects = []\<rparr>"

definition demo_export_request :: ex_call where
  "demo_export_request = E_create demo_user ''T'' ''export-key'' ''csv'' ''stream_results'' 10 7 None"

definition demo_ex_world :: "ex_db \<Rightarrow> string \<Rightarrow> (ex_db, bool) world" where
  "demo_ex_world d prefix = quiet_world d (\<lambda>_. False) (\<lambda>n. prefix @ digits_of n)"

definition demo_ex_queued :: ex_db where
  "demo_ex_queued = wdb (snd (ex_run demo_ex_env demo_export_request (demo_ex_world demo_ex_fresh ''j'')))"

definition demo_ex_done :: ex_db where
  "demo_ex_done = wdb (snd (ex_run demo_ex_env (E_tick 5 (Some ''w1'')) (demo_ex_world demo_ex_queued ''w'')))"

lemma demo_ex_done_jobs:
  "map (\<lambda>j. (job_id j, job_status j, job_attempts j, job_object j)) (export_jobs demo_ex_done) =
     [(''j0'', J_completed, 1, Some ''tenants/T/exports/j0/forjd-export-j0-1-w1.csv'')]"
  by code_simp

lemma demo_ex_reachable:
  "ex_reachable demo_ex_env demo_ex_queued" "ex_reachable demo_ex_env demo_ex_done"
proof -
  have "ex_reachable demo_ex_env demo_ex_fresh"
    by (rule reachable.fresh) (simp add: fresh_ex_def demo_ex_fresh_def)
  then show q: "ex_reachable demo_ex_env demo_ex_queued"
    unfolding demo_ex_queued_def demo_ex_world_def by (rule reachable_quiet)
  show "ex_reachable demo_ex_env demo_ex_done"
    unfolding demo_ex_done_def demo_ex_world_def by (rule reachable_quiet [OF q])
qed

subsection \<open>The table\<close>



text \<open>
  No call, in any interleaving, changes what a job was asked for, lowers its attempts, or takes
  it out of a final state (completed may only become expired); the artifact key, checksum, size and
  expiry of a completed job never change.
\<close>

theorem export_job_history:
  assumes "ex_reachable env (wdb w)" and "interfered (ex_run env) w"
    and "d' = wdb (snd (ex_run env c w))"
    and "j \<in> set (export_jobs (wdb w))" and "j' \<in> set (export_jobs d')" and "job_id j' = job_id j"
  shows "job_tenant j' = job_tenant j \<and> job_key j' = job_key j \<and> job_fingerprint j' = job_fingerprint j
    \<and> job_filters j' = job_filters j \<and> job_format j' = job_format j
    \<and> job_attempts j \<le> job_attempts j'
    \<and> (job_status j = J_failed \<longrightarrow> job_status j' = J_failed)
    \<and> (job_status j = J_expired \<longrightarrow> job_status j' = J_expired)
    \<and> (job_status j = J_completed \<longrightarrow> job_status j' = J_expired
         \<or> job_status j' = J_completed \<and> job_object j' = job_object j \<and> job_checksum j' = job_checksum j
           \<and> job_size j' = job_size j \<and> job_expires j' = job_expires j)"
proof -
  from exs.reachable_step [OF assms(1,2), of c] exs.reachable_inv [OF assms(1)] assms(3-)
  have "job_le j j'" by (auto simp: ex_rely_def)
  then show ?thesis
    by (cases "job_status j") (auto simp: job_le_def job_same_def artifact_same_def)
qed

theorem export_job_history_witness:
  "\<exists>j. export_jobs demo_ex_done = [j] \<and> job_filters j = job_filters (hd (export_jobs demo_ex_queued))"
proof -
  have q: "map job_id (export_jobs demo_ex_queued) = [''j0'']" by code_simp
  from demo_ex_done_jobs obtain j where j: "export_jobs demo_ex_done = [j]" "job_id j = ''j0''"
    by (cases "export_jobs demo_ex_done") auto
  from q obtain i where i: "export_jobs demo_ex_queued = [i]" "job_id i = ''j0''" by auto
  let ?w = "demo_ex_world demo_ex_queued ''w''"
  have w: "wdb ?w = demo_ex_queued" "interfered (ex_run demo_ex_env) ?w" by (simp_all add: demo_ex_world_def)
  have d: "demo_ex_done = wdb (snd (ex_run demo_ex_env (E_tick 5 (Some ''w1'')) ?w))"
    by (simp only: demo_ex_done_def)
  from export_job_history [OF _ w(2) d, of i j] demo_ex_reachable(1) i j w(1) show ?thesis by simp
qed

text \<open>
  An idempotency key names at most one export job of a tenant.
\<close>

theorem export_key_names_one_job:
  assumes "ex_reachable env d" and "i \<in> set (export_jobs d)" and "j \<in> set (export_jobs d)"
    and "job_tenant i = job_tenant j" and "job_key i = job_key j"
  shows "i = j"
  using exs.reachable_inv [OF assms(1)] assms(2-)
  by (auto simp: ex_inv_def intro: distinct_map_eqD [where g = "\<lambda>j. (job_tenant j, job_key j)"])

theorem export_key_names_one_job_witness:
  "hd (export_jobs demo_ex_done) = last (export_jobs demo_ex_done)"
proof -
  from demo_ex_done_jobs obtain j where j: "export_jobs demo_ex_done = [j]"
    by (cases "export_jobs demo_ex_done") auto
  with export_key_names_one_job [OF demo_ex_reachable(2), of "hd [j]" "last [j]"] show ?thesis by simp
qed

subsection \<open>The worker\<close>

text \<open>
  The claim takes the oldest job that is due, counts the attempt and leases the job, and during
  the lease no worker can claim it; it comes back empty only when no job is due.  However often
  workers crash, a job is attempted at most as often as it may be.
\<close>

theorem export_claim:
  assumes "claim_next_job worker d = (claimed, d')"
  shows "case claimed of
      None \<Rightarrow> d' = d \<and> (\<forall>j \<in> set (export_jobs d). \<not> job_claimable (now d) j)
    | Some j \<Rightarrow> (\<exists>j0 \<in> set (export_jobs d). job_claimable (now d) j0 \<and> j = claim_job (now d) worker j0
        \<and> (\<forall>i \<in> set (export_jobs d). job_claimable (now d) i \<longrightarrow>
             (job_created j0, job_id j0) \<le> (job_created i, job_id i))
        \<and> (\<forall>cs r. lease_run job_claimable claim_job job_attempts job_max j0 cs r \<longrightarrow>
             int (length cs) \<le> job_max j0 - job_attempts j0))
        \<and> (\<forall>t < now d + secs export_lease_seconds. \<not> job_claimable t j)"
  using assms
proof (cases rule: claim_next_job_cases)
  case (some j0)
  have bounded: "int (length cs) \<le> job_max j0 - job_attempts j0"
    if "lease_run job_claimable claim_job job_attempts job_max j0 cs r" for cs r
    using job_queue.claims_bounded [OF that] job_queue.claimable_attempts [OF some(3)] by simp
  from some(1) job_queue.claim_excludes show ?thesis
    by (auto intro!: bexI [OF _ some(2)] simp: some(3) bounded dest: some(4))
qed simp

lemma demo_ex_claim: "fst (claim_next_job ''w9'' demo_ex_queued) \<noteq> None"
  by code_simp

theorem export_claim_witness:
  "\<exists>j d'. claim_next_job ''w9'' demo_ex_queued = (Some j, d')
     \<and> \<not> job_claimable (now demo_ex_queued + secs 299) j"
proof -
  obtain x d' where x: "claim_next_job ''w9'' demo_ex_queued = (x, d')" by fastforce
  with demo_ex_claim obtain j where "x = Some j" by auto
  moreover have "now demo_ex_queued + secs 299 < now demo_ex_queued + secs export_lease_seconds"
    by (simp add: secs_def export_lease_seconds_def)
  ultimately show ?thesis using export_claim [OF x] x by auto
qed

text \<open>
  C14: The paged read terminates and is the plain query: it returns the first rows up to the
  requested limit in the order of the query, exactly when their serialised size fits the byte
  budget, and the size error otherwise.
\<close>

theorem paged_read_is_query:
  assumes "source_table_of kind = Some tbl" and "filter_int filters ''days'' 7 = Inr days"
    and "0 \<le> min (ee_max_source_bytes env) (ee_max_artifact_bytes env)"
  shows "load_source_rows_bounded env tenant kind filters limit d =
    (let rows = take (nat (clamp 1 100000 limit)) (selected_rows env tenant tbl filters days d) in
     Some (if all_bytes (ee_dumps env) rows \<le> min (ee_max_source_bytes env) (ee_max_artifact_bytes env)
       then Inr rows else Inl source_too_large))"
proof -
  let ?limit = "clamp 1 100000 limit"
  let ?all = "selected_rows env tenant tbl filters days d"
  have b: "1 \<le> ?limit" "?limit \<le> 100000" using clamp_bounds [of 1 100000 limit] by auto
  have load: "load_source_rows env tenant kind filters l off d = Inr (take (nat l) (drop (nat off) ?all))"
    if "1 \<le> l" "l \<le> 1000" "0 \<le> off" "off < ?limit" for l off
    by (rule load_source_rows_selected [OF assms(2,1)]) (use that b in auto)
  have "load_pages (\<lambda>l off. load_source_rows env tenant kind filters l off d) (ee_dumps env)
      (min (ee_max_source_bytes env) (ee_max_artifact_bytes env)) ?limit (nat ?limit + 1) 0 (take 0 ?all)
    = Some (if all_bytes (ee_dumps env) (take (nat ?limit) ?all)
        \<le> min (ee_max_source_bytes env) (ee_max_artifact_bytes env)
      then Inr (take (nat ?limit) ?all) else Inl source_too_large)"
    by (rule load_pages_take [OF load]) (use assms(3) b in auto)
  then show ?thesis by (simp add: load_source_rows_bounded_def Let_def)
qed

theorem paged_read_is_query_witness:
  "load_source_rows_bounded demo_ex_env ''T'' ''stream_results'' [] 1 demo_ex_fresh =
     Some (Inr [[(''id'', JStr ''e2'')]])"
proof -
  have r: "take (nat (clamp 1 100000 1)) (selected_rows demo_ex_env ''T'' Stream_results [] 7 demo_ex_fresh)
      = [[(''id'', JStr ''e2'')]]" by code_simp
  have b: "all_bytes (ee_dumps demo_ex_env) [[(''id'', JStr ''e2'')]] \<le>
      min (ee_max_source_bytes demo_ex_env) (ee_max_artifact_bytes demo_ex_env)" by code_simp
  have "filter_int [] ''days'' 7 = Inr 7" by code_simp
  moreover have "0 \<le> min (ee_max_source_bytes demo_ex_env) (ee_max_artifact_bytes demo_ex_env)"
    by (simp add: demo_ex_env_def)
  ultimately show ?thesis
    using paged_read_is_query [of "''stream_results''" Stream_results "[]" 7 demo_ex_env "''T''" 1 demo_ex_fresh]
    unfolding r Let_def if_P [OF b] by simp
qed

text \<open>
  Two attempts at a job, or two workers at the same attempt, never write the same artifact key:
  cleaning up after a lost lease cannot delete the artifact of the worker that won.
\<close>

theorem artifact_keys_distinct:
  assumes "artifact_key env tenant jid fmt (py_str_int a @ ''-'' @ v) = Inr k"
    and "artifact_key env tenant jid fmt (py_str_int b @ ''-'' @ w) = Inr k'"
    and "ee_storage_configured env" and "plain jid" and "plain fmt"
    and "0 \<le> a \<and> plain v \<and> length (py_str_int a @ ''-'' @ v) \<le> 96"
    and "0 \<le> b \<and> plain w \<and> length (py_str_int b @ ''-'' @ w) \<le> 96"
    and "a \<noteq> b \<or> v \<noteq> w"
  shows "k \<noteq> k'"
proof
  assume k: "k = k'"
  have p: "plain (digits_of n)" for n
    using digits_of_digits [of _ n]
    by (auto simp: plain_def list_all_iff is_digit_def is_alnum_def Let_def)
  from assms(6,7) have s: "py_str_int a = digits_of (nat a)" "py_str_int b = digits_of (nat b)"
    by (simp_all add: py_str_int_def)
  note key = artifact_key_plain [OF _ _ _ assms(4,5,3), of _ tenant]
  from assms(1,2,6,7) k have "py_str_int a @ ''-'' @ v = py_str_int b @ ''-'' @ w"
    using key [of "py_str_int a @ ''-'' @ v"] key [of "py_str_int b @ ''-'' @ w"]
    by (auto simp: s p plain_Cons)
  then have "nat a = nat b \<and> v = w" using dashed_inj [of "nat a" v "nat b" w] by (simp add: s)
  with assms(6-8) show False by auto
qed

theorem artifact_keys_distinct_witness:
  "artifact_key demo_ex_env ''T'' ''j0'' ''csv'' ''1-w1'' \<noteq> artifact_key demo_ex_env ''T'' ''j0'' ''csv'' ''2-w1''"
proof -
  have e: "py_str_int 1 @ ''-'' @ ''w1'' = ''1-w1''" "py_str_int 2 @ ''-'' @ ''w1'' = ''2-w1''" by code_simp+
  obtain k where k: "artifact_key demo_ex_env ''T'' ''j0'' ''csv'' ''1-w1'' = Inr k"
    by (rule that [OF artifact_key_plain]) (simp_all add: plain_def is_alnum_def code_point_def demo_ex_env_def)
  obtain k' where k': "artifact_key demo_ex_env ''T'' ''j0'' ''csv'' ''2-w1'' = Inr k'"
    by (rule that [OF artifact_key_plain]) (simp_all add: plain_def is_alnum_def code_point_def demo_ex_env_def)
  have "k \<noteq> k'"
    by (rule artifact_keys_distinct [of demo_ex_env "''T''" "''j0''" "''csv''" 1 "''w1''" k 2 "''w1''"])
      (simp_all only: e k k', simp_all add: plain_def is_alnum_def code_point_def demo_ex_env_def e)
  with k k' show ?thesis by simp
qed

subsection \<open>The tenant's side\<close>

lemma export_access_quiet: "quiet w \<Longrightarrow> snd (export_access user tenant roles scope w) = w"
  unfolding export_access_def ensure_export_schema_def
  by (simp add: bind_read require_tenant_access_quiet ensure_schema_quiet split: sum.splits)

lemma get_job_quiet: "quiet w \<Longrightarrow> snd (get_job user tenant jid w) = w"
  unfolding get_job_def
  by (simp add: bind_read export_access_quiet query_quiet ret_def split: sum.splits)

lemma get_job_found:
  assumes "quiet w" and "fst (get_job user tenant jid w) = Inr (Some v)"
  obtains j where "j \<in> set (export_jobs (wdb w))" and "job_id j = jid" and "job_tenant j = tenant"
    and "v = job_dict j"
proof -
  from assms obtain j where "fetch_job_row tenant (Some jid) None (wdb w) = Some j" "v = job_dict j"
    unfolding get_job_def
    by (auto simp: bind_read export_access_quiet query_quiet ret_def split: sum.splits)
  with that [of j] show ?thesis by (auto simp: fetch_job_row_def dest: first_row_SomeD)
qed

lemma seconds_until_pos: "0 < seconds_until e t \<Longrightarrow> s \<le> seconds_until e t \<Longrightarrow> t + secs s \<le> e"
  by (auto simp: seconds_until_def secs_def split: if_splits)

text \<open>
  A download link is handed out only for a completed job of the caller's tenant whose artifact
  has not expired; it names that job's artifact, it lives between one second and fifteen minutes
  and never outlives the artifact, and asking for it changes nothing.
\<close>

theorem download_guard:
  assumes "quiet w" and "create_download env user tenant jid w = (Inr dw, w')"
  shows "w' = w \<and> (\<exists>j \<in> set (export_jobs (wdb w)). job_id j = jid \<and> job_tenant j = tenant
    \<and> job_status j = J_completed \<and> dw_checksum dw = job_checksum j
    \<and> (\<exists>obj. job_object j = Some obj \<and> obj \<noteq> []
        \<and> dw_url dw = ee_presign env obj (dw_expires_in dw) (dw_filename dw) (job_content_type j))
    \<and> 1 \<le> dw_expires_in dw \<and> dw_expires_in dw \<le> 900
    \<and> (case job_expires j of None \<Rightarrow> True
        | Some e \<Rightarrow> now (wdb w) + secs (dw_expires_in dw) \<le> e))"
proof -
  have g: "snd (get_job user tenant jid w) = w" by (rule get_job_quiet) (rule assms)
  from assms(2) obtain v where v: "fst (get_job user tenant jid w) = Inr (Some v)"
    unfolding create_download_def bind_read [where m = "get_job user tenant jid" and w = w, OF g]
    by (auto simp: raise_def split: sum.splits option.splits)
  then obtain j where j: "j \<in> set (export_jobs (wdb w))" "job_id j = jid" "job_tenant j = tenant"
    and vj: "v = job_dict j" by (rule get_job_found [OF assms(1)])
  from assms(2) have "w' = w \<and> job_status j = J_completed \<and> dw_checksum dw = job_checksum j
    \<and> (\<exists>obj. job_object j = Some obj \<and> obj \<noteq> []
        \<and> dw_url dw = ee_presign env obj (dw_expires_in dw) (dw_filename dw) (job_content_type j))
    \<and> (case job_expires j of None \<Rightarrow> dw_expires_in dw = 900
        | Some e \<Rightarrow> 0 < seconds_until e (now (wdb w))
           \<and> dw_expires_in dw = min (seconds_until e (now (wdb w))) 900)"
    unfolding create_download_def bind_read [where m = "get_job user tenant jid" and w = w, OF g] v vj
    by (auto simp: job_dict_def bindM_def read_clock_def raise_def ret_def Let_def
        default_presign_seconds_def split: option.splits if_splits)
  with j show ?thesis by (intro conjI bexI [of _ j]) (auto simp: seconds_until_pos split: option.splits)
qed

theorem download_guard_witness:
  "\<exists>dw w'. create_download demo_ex_env demo_user ''T'' ''j0'' (demo_ex_world demo_ex_done ''x'') = (Inr dw, w')
     \<and> dw_expires_in dw = 600 \<and> w' = demo_ex_world demo_ex_done ''x''"
proof -
  let ?w = "demo_ex_world demo_ex_done ''x''"
  have "(case fst (create_download demo_ex_env demo_user ''T'' ''j0'' ?w) of Inl _ \<Rightarrow> 0
     | Inr dw \<Rightarrow> dw_expires_in dw) = 600" by code_simp
  then obtain dw where dw: "fst (create_download demo_ex_env demo_user ''T'' ''j0'' ?w) = Inr dw"
    and e: "dw_expires_in dw = 600" by (auto split: sum.splits)
  obtain w' where r: "create_download demo_ex_env demo_user ''T'' ''j0'' ?w = (Inr dw, w')"
    using dw by (cases "create_download demo_ex_env demo_user ''T'' ''j0'' ?w") auto
  have "quiet ?w" by (simp add: demo_ex_world_def)
  from download_guard [OF this r] r e show ?thesis by blast
qed

lemma export_access_stable:
  assumes "quiet w" and "quiet w'" and "tenant_members (wdb w') = tenant_members (wdb w)"
    and "schema_ready (wdb w') = schema_ready (wdb w)"
  shows "fst (export_access user tenant roles scope w') = fst (export_access user tenant roles scope w)"
  using require_tenant_access_stable [OF assms(1-3)] ensure_schema_stable [OF assms(1,2,4)] assms(1,2)
  by (simp add: export_access_def ensure_export_schema_def bind_read require_tenant_access_quiet
      split: sum.splits)

text \<open>What the insert of a job leaves under its key.\<close>

lemma insert_job_keyed:
  assumes "insert_job row d = Inr (r, d')"
  shows "tenant_members d' = tenant_members d \<and> schema_ready d' = schema_ready d
    \<and> (case r of None \<Rightarrow> d' = d
      | Some j \<Rightarrow> fetch_job_row (job_tenant row) None (Some (job_key row)) d = None
          \<and> fetch_job_row (job_tenant row) None (Some (job_key row)) d' = Some j
          \<and> job_fingerprint j = job_fingerprint row)"
  using assms
  by (auto simp: insert_job_def fetch_job_row_def first_row_None_iff list_ex_iff Let_def
        intro!: first_row_snoc split: if_splits) blast+

lemma enqueue_returned:
  assumes "quiet w" and "enqueue_job job w = (Inr (rep, v), w1)"
  obtains j where "fetch_job_row (job_tenant job) None (Some (job_key job)) (wdb w1) = Some j"
    and "v = job_dict j" and "job_fingerprint j = job_fingerprint job" and "job_checks job"
    and "fetch_job_row (job_tenant job) None (Some (job_key job)) (wdb w) = None \<or> rep \<and> wdb w1 = wdb w"
    and "quiet w1" and "tenant_members (wdb w1) = tenant_members (wdb w)"
    and "schema_ready (wdb w1) = schema_ready (wdb w)"
proof -
  from assms have "job_checks job"
    by (auto simp: enqueue_job_def quiet_binds insert_job_def split: if_splits)
  with assms that show ?thesis
    by (auto simp: enqueue_job_def quiet_binds raise_def ret_def dest!: insert_job_keyed
      split: sum.splits option.splits if_splits)
qed

lemma enqueue_again:
  assumes "quiet w" and "fetch_job_row (job_tenant job) None (Some (job_key job)) (wdb w) = Some j"
    and "job_checks job" and "job_fingerprint j = job_fingerprint job"
  shows "enqueue_job job w = (Inr (True, job_dict j), w)"
proof -
  from assms(2,3) have "insert_job job (wdb w) = Inr (None, wdb w)"
    by (auto simp: insert_job_def fetch_job_row_def list_ex_iff dest!: first_row_SomeD)
  with assms show ?thesis by (simp add: enqueue_job_def quiet_binds ret_def)
qed

definition request_job :: "ex_env \<Rightarrow> auth_user \<Rightarrow> uuid \<Rightarrow> string \<Rightarrow> string \<Rightarrow> string \<Rightarrow> int \<Rightarrow> int \<Rightarrow>
    string option \<Rightarrow> uuid \<Rightarrow> string \<Rightarrow> job_row" where
  "request_job env user tenant key fmt kind limit days url jid content_type =
     new_job env jid user tenant key fmt kind (clamp 1 100000 limit) (clamp 1 90 days)
       (take 2048 (case url of None \<Rightarrow> [] | Some s \<Rightarrow> s)) content_type"

lemma request_job_simps [simp]:
  "job_tenant (request_job env user tenant key fmt kind limit days url jid ct) = tenant"
  "job_key (request_job env user tenant key fmt kind limit days url jid ct) = key"
  "job_fingerprint (request_job env user tenant key fmt kind limit days url jid ct) =
     request_fingerprint env fmt kind (clamp 1 100000 limit) (clamp 1 90 days)
       (take 2048 (case url of None \<Rightarrow> [] | Some s \<Rightarrow> s))"
  by (simp_all add: request_job_def new_job_def)

lemma request_job_checks:
  "job_checks (request_job env user tenant key fmt kind limit days url jid ct) =
     job_checks (request_job env user tenant key fmt kind limit days url jid' ct)"
  by (simp add: request_job_def new_job_def job_checks_def attempts_bounds_def lease_shape_def)

lemma create_quiet:
  assumes "quiet w"
  shows "create_export_job env user tenant key fmt kind limit days url w =
    (case fst (export_access user tenant (Some [''owner'', ''admin'', ''member'']) ''exports:write'' w) of
       Inl e \<Rightarrow> (Inl e, w)
     | Inr _ \<Rightarrow>
        if ee_production env \<and> \<not> ee_storage_configured env
        then (Inl (HTTPException 503 ''durable export object storage is not configured''), w)
        else if fmt = ''pdf'' \<and> 1000 < clamp 1 100000 limit
        then (Inl (HTTPException 422 ''PDF exports support at most 1000 rows''), w)
        else (case content_types fmt of None \<Rightarrow> (Inl (LookupError fmt), w)
          | Some ct \<Rightarrow> enqueue_job (request_job env user tenant key fmt kind limit days url (wrnd w 0) ct)
              (w\<lparr>wrnd := (\<lambda>n. wrnd w (Suc n))\<rparr>)))"
  using assms
  by (auto simp: create_export_job_def request_job_def bind_read export_access_quiet bind_uuid4 raise_def
      split: sum.splits option.splits)

text \<open>
  Requesting an export is idempotent: repeating a request that succeeded returns the same job,
  marked as replayed, and changes nothing; any other request under the same key that is accepted
  also returns that job, and had the same parameters.
\<close>

theorem export_request_idempotent:
  assumes "quiet w"
    and "create_export_job env user tenant key fmt kind limit days url w = (Inr (rep, v), w1)"
  shows "(\<exists>w2. create_export_job env user tenant key fmt kind limit days url w1 = (Inr (True, v), w2)
      \<and> wdb w2 = wdb w1)
    \<and> (\<forall>user' fmt' kind' limit' days' url' rep' v' w2.
        create_export_job env user' tenant key fmt' kind' limit' days' url' w1 = (Inr (rep', v'), w2) \<longrightarrow>
        rep' \<and> v' = v \<and> wdb w2 = wdb w1
        \<and> request_fingerprint env fmt' kind' (clamp 1 100000 limit') (clamp 1 90 days')
            (take 2048 (case url' of None \<Rightarrow> [] | Some s \<Rightarrow> s))
          = request_fingerprint env fmt kind (clamp 1 100000 limit) (clamp 1 90 days)
            (take 2048 (case url of None \<Rightarrow> [] | Some s \<Rightarrow> s)))"
proof -
  let ?roles = "Some [''owner'', ''admin'', ''member'']"
  from assms(2) obtain ct where access: "fst (export_access user tenant ?roles ''exports:write'' w) = Inr ()"
    and ct: "content_types fmt = Some ct" "\<not> (ee_production env \<and> \<not> ee_storage_configured env)"
      "\<not> (fmt = ''pdf'' \<and> 1000 < clamp 1 100000 limit)"
    and run: "enqueue_job (request_job env user tenant key fmt kind limit days url (wrnd w 0) ct)
       (w\<lparr>wrnd := (\<lambda>n. wrnd w (Suc n))\<rparr>) = (Inr (rep, v), w1)"
    unfolding create_quiet [OF assms(1)] by (auto split: sum.splits option.splits if_splits)
  have "quiet (w\<lparr>wrnd := (\<lambda>n. wrnd w (Suc n))\<rparr>)" using assms(1) by simp
  then obtain j where
    j: "fetch_job_row tenant None (Some key) (wdb w1) = Some j" "v = job_dict j"
      "job_fingerprint j = request_fingerprint env fmt kind (clamp 1 100000 limit) (clamp 1 90 days)
        (take 2048 (case url of None \<Rightarrow> [] | Some s \<Rightarrow> s))"
      "job_checks (request_job env user tenant key fmt kind limit days url (wrnd w 0) ct)"
    and w1: "quiet w1" "tenant_members (wdb w1) = tenant_members (wdb w)"
      "schema_ready (wdb w1) = schema_ready (wdb w)"
    using run by (rule enqueue_returned) (rule that, simp_all)
  let ?w1 = "w1\<lparr>wrnd := (\<lambda>n. wrnd w1 (Suc n))\<rparr>"
  have "fst (export_access user tenant ?roles ''exports:write'' w1) = Inr ()"
    using export_access_stable [OF assms(1) w1] access by simp
  moreover have "enqueue_job (request_job env user tenant key fmt kind limit days url (wrnd w1 0) ct) ?w1
      = (Inr (True, v), ?w1)"
    unfolding j(2) by (rule enqueue_again) (use j w1 request_job_checks in \<open>simp_all\<close>, metis request_job_checks)
  ultimately have "create_export_job env user tenant key fmt kind limit days url w1 = (Inr (True, v), ?w1)"
    using ct by (simp add: create_quiet [OF w1(1)])
  moreover have "rep' \<and> v' = v \<and> wdb w2 = wdb w1
      \<and> request_fingerprint env fmt' kind' (clamp 1 100000 limit') (clamp 1 90 days')
          (take 2048 (case url' of None \<Rightarrow> [] | Some s \<Rightarrow> s)) = job_fingerprint j"
    if r: "create_export_job env user' tenant key fmt' kind' limit' days' url' w1 = (Inr (rep', v'), w2)"
    for user' fmt' kind' limit' days' url' rep' v' w2
  proof -
    from r obtain ct' where run': "enqueue_job (request_job env user' tenant key fmt' kind' limit' days' url'
        (wrnd w1 0) ct') ?w1 = (Inr (rep', v'), w2)"
      unfolding create_quiet [OF w1(1)] by (auto split: sum.splits option.splits if_splits)
    have "quiet ?w1" using w1 by simp
    then show ?thesis using run' by (rule enqueue_returned) (use j(1) in \<open>simp add: j(2)\<close>)
  qed
  ultimately show ?thesis unfolding j(3) by blast
qed

lemma demo_create_returns:
  "\<exists>v w1. create_export_job demo_ex_env demo_user ''T'' ''export-key'' ''csv'' ''stream_results'' 10 7 None
     (demo_ex_world demo_ex_fresh ''j'') = (Inr (False, v), w1)"
proof -
  let ?r = "create_export_job demo_ex_env demo_user ''T'' ''export-key'' ''csv'' ''stream_results'' 10 7 None
     (demo_ex_world demo_ex_fresh ''j'')"
  have "(case fst ?r of Inl _ \<Rightarrow> None | Inr p \<Rightarrow> Some (fst p)) = Some False" by code_simp
  then show ?thesis by (cases ?r) (auto split: sum.splits)
qed

theorem export_request_idempotent_witness:
  "\<exists>v w1 w2. create_export_job demo_ex_env demo_user ''T'' ''export-key'' ''csv'' ''stream_results'' 10 7 None
       (demo_ex_world demo_ex_fresh ''j'') = (Inr (False, v), w1)
     \<and> create_export_job demo_ex_env demo_user ''T'' ''export-key'' ''csv'' ''stream_results'' 10 7 None w1
         = (Inr (True, v), w2) \<and> wdb w2 = wdb w1"
proof -
  have "quiet (demo_ex_world demo_ex_fresh ''j'')" by (simp add: demo_ex_world_def)
  note again = export_request_idempotent [OF this]
  from demo_create_returns obtain v w1
    where r: "create_export_job demo_ex_env demo_user ''T'' ''export-key'' ''csv'' ''stream_results'' 10 7 None
      (demo_ex_world demo_ex_fresh ''j'') = (Inr (False, v), w1)" by blast
  from again [OF r] r show ?thesis by blast
qed

subsection \<open>The answer of the completing statement is lost\<close>

text \<open>
  If the connection drops after the server has committed the UPDATE that completes a job, the
  worker takes its exception branch: it deletes the artifact it has just uploaded, while its UPDATE
  of the job does not match any more.  The job stays completed, with an artifact key under which
  nothing is stored.
\<close>

definition demo_lost_answer :: "(ex_db, bool) world" where
  "demo_lost_answer = (demo_ex_world demo_ex_queued ''w'')
     \<lparr>wenv := (\<lambda>n. ((\<lambda>d. d), if n = 7 then Lost_after else Completed))\<rparr>"

theorem lost_completion_deletes_artifact:
  "let d = wdb (snd (ex_run demo_ex_env (E_tick 5 (Some ''w1'')) demo_lost_answer)) in
   map (\<lambda>j. (job_status j, job_object j)) (export_jobs d) =
     [(J_completed, Some ''tenants/T/exports/j0/forjd-export-j0-1-w1.csv'')] \<and> objects d = []"
  by code_simp

end
