(* ===== verification/Sessions.thy ===== *)
theory Sessions
  imports Platform
begin

section \<open>The crypto session directory\<close>

text \<open>
  \<open>services/sessions.py\<close>: the table of public session keys an envelope's \<open>key_id\<close> must name, its
  registration and revocation, and the batch check of the ingest path.
\<close>

record session_row =
  cs_id :: uuid
  cs_tenant :: uuid
  cs_session :: string
  cs_user :: string
  cs_identity :: string
  cs_ephemeral :: "string option"
  cs_hint :: "string option"
  cs_created :: time
  cs_updated :: time
  cs_expires :: "time option"
  cs_revoked :: "time option"

record se_db = core_db +
  crypto_sessions :: "session_row list"

type_synonym ('z, 'x, 'a) se_prog = "('z se_db_scheme, 'x, 'a) prog"

definition member_roles :: "string list" where
  "member_roles = [''owner'', ''admin'', ''member'']"

definition session_active :: "time \<Rightarrow> session_row \<Rightarrow> bool" where
  "session_active t s \<longleftrightarrow> cs_revoked s = None
     \<and> (case cs_expires s of None \<Rightarrow> True | Some e \<Rightarrow> t < e)"

definition active_pair :: "'z se_db_scheme \<Rightarrow> uuid \<times> string \<Rightarrow> bool" where
  "active_pair d p \<longleftrightarrow> list_ex (\<lambda>s. cs_tenant s = fst p \<and> cs_session s = snd p
     \<and> session_active (now d) s) (crypto_sessions d)"

text \<open>\<open>required\<close> is the setting \<open>REQUIRE_CRYPTO_SESSION\<close>.\<close>

definition require_active_sessions :: "bool \<Rightarrow> (uuid \<times> string) list \<Rightarrow> ('z, 'x, unit) se_prog" where
  "require_active_sessions required pairs =
     (if \<not> required \<or> pairs = [] then ret ()
      else bindM (query (\<lambda>d. filter (active_pair d) pairs)) (\<lambda>found.
        if \<not> set pairs \<subseteq> set found
        then raise (ValueError ''envelope.key_id must match an active crypto_sessions.session_id'')
        else ret ()))"

record session_request =
  sq_tenant :: uuid
  sq_session :: string
  sq_identity :: string
  sq_ephemeral :: "string option"
  sq_hint :: "string option"
  sq_expires :: "time option"

definition same_session :: "uuid \<Rightarrow> string \<Rightarrow> session_row \<Rightarrow> bool" where
  "same_session tenant session s \<longleftrightarrow> cs_tenant s = tenant \<and> cs_session s = session"

definition new_session :: "uuid \<Rightarrow> string \<Rightarrow> session_request \<Rightarrow> time \<Rightarrow> session_row" where
  "new_session sid user q t =
     \<lparr>cs_id = sid, cs_tenant = sq_tenant q, cs_session = sq_session q, cs_user = user,
      cs_identity = sq_identity q, cs_ephemeral = sq_ephemeral q, cs_hint = sq_hint q,
      cs_created = t, cs_updated = t, cs_expires = sq_expires q, cs_revoked = None\<rparr>"

definition rotate_session :: "session_request \<Rightarrow> time \<Rightarrow> session_row \<Rightarrow> session_row" where
  "rotate_session q t s = s\<lparr>cs_identity := sq_identity q, cs_ephemeral := sq_ephemeral q,
     cs_hint := sq_hint q, cs_expires := sq_expires q, cs_updated := t\<rparr>"

text \<open>
  \<open>INSERT .. ON CONFLICT (tenant_id, session_id) DO UPDATE .. WHERE\<close>: \<open>may\<close> is the condition on the
  existing row, \<open>f\<close> what it becomes; no row is returned when the condition fails.
\<close>

definition upsert_session_stmt ::
  "(session_row \<Rightarrow> bool) \<Rightarrow> (session_row \<Rightarrow> session_row) \<Rightarrow> session_row \<Rightarrow> 'z se_db_scheme \<Rightarrow>
   exn + session_row option \<times> 'z se_db_scheme" where
  "upsert_session_stmt may f row d =
     (let same = same_session (cs_tenant row) (cs_session row) in
      if \<not> (40 \<le> length (cs_identity row) \<and> length (cs_identity row) \<le> 64)
      then Inl (OtherError ''CheckViolationError'' [])
      else (case first_row same (crypto_sessions d) of
          Some s \<Rightarrow> if may s then Inr (Some (f s),
              d\<lparr>crypto_sessions := upd_where (\<lambda>s. same s \<and> may s) f (crypto_sessions d)\<rparr>)
            else Inr (None, d)
        | None \<Rightarrow> if cs_id row \<in> cs_id ` set (crypto_sessions d) then Inl DatabaseError
            else Inr (Some row, d\<lparr>crypto_sessions := crypto_sessions d @ [row]\<rparr>)))"

definition session_revoked :: "uuid \<Rightarrow> string \<Rightarrow> 'z se_db_scheme \<Rightarrow> bool" where
  "session_revoked tenant session d \<longleftrightarrow>
     (case first_row (same_session tenant session) (crypto_sessions d) of
        None \<Rightarrow> False | Some s \<Rightarrow> cs_revoked s \<noteq> None)"

definition upsert_session :: "auth_user \<Rightarrow> session_request \<Rightarrow> ('z, 'x, session_row) se_prog" where
  "upsert_session user q =
     bindM ensure_secure_schema (\<lambda>_.
     bindM (require_tenant_access user (sq_tenant q) (Some member_roles) (Some [''sessions:write''])) (\<lambda>_.
     bindM uuid4 (\<lambda>sid.
     if au_kind user = SERVICE then
       bindM (stmt (\<lambda>d. upsert_session_stmt (\<lambda>s. cs_revoked s = None)
          (\<lambda>s. (rotate_session q (now d) s)\<lparr>cs_user := au_user_id user\<rparr>)
          (new_session sid (au_user_id user) q (now d)) d)) (\<lambda>row. case row of
         Some s \<Rightarrow> ret s
       | None \<Rightarrow>
           bindM (query (session_revoked (sq_tenant q) (sq_session q))) (\<lambda>revoked.
           if revoked then raise (ValueError ''session_id was revoked; register a new session_id'')
           else raise (OtherError ''PermissionError'' ''session_id owned by another user or revoked'')))
     else
       bindM (stmt (\<lambda>d. upsert_session_stmt (\<lambda>s. cs_user s = au_user_id user)
          (rotate_session q (now d)) (new_session sid (au_user_id user) q (now d)) d)) (\<lambda>row. case row of
         Some s \<Rightarrow> ret s
       | None \<Rightarrow> raise (OtherError ''PermissionError'' ''session_id owned by another user or revoked'')))))"

definition list_sessions :: "auth_user \<Rightarrow> uuid \<Rightarrow> nat \<Rightarrow> ('z, 'x, session_row list) se_prog" where
  "list_sessions user tenant limit =
     bindM (require_tenant_access user tenant None (Some [''sessions:read''])) (\<lambda>_.
     query (\<lambda>d. take limit (rev (sort_key cs_updated (filter
       (\<lambda>s. cs_tenant s = tenant \<and> session_active (now d) s) (crypto_sessions d))))))"

definition revoke_stmt :: "(session_row \<Rightarrow> bool) \<Rightarrow> 'z se_db_scheme \<Rightarrow> session_row option \<times> 'z se_db_scheme" where
  "revoke_stmt hit d =
     (let f = (\<lambda>s. s\<lparr>cs_revoked := Some (now d), cs_updated := now d\<rparr>) in
      (map_option f (first_row hit (crypto_sessions d)),
       d\<lparr>crypto_sessions := upd_where hit f (crypto_sessions d)\<rparr>))"

definition revoke_session :: "auth_user \<Rightarrow> uuid \<Rightarrow> string \<Rightarrow> ('z, 'x, session_row) se_prog" where
  "revoke_session user tenant session =
     bindM (require_tenant_access user tenant (Some member_roles) (Some [''sessions:write''])) (\<lambda>_.
     bindM (stmt (\<lambda>d. Inr (revoke_stmt (\<lambda>s. same_session tenant session s \<and> cs_revoked s = None
        \<and> (au_kind user = SERVICE \<or> cs_user s = au_user_id user)) d))) (\<lambda>row. case row of
       Some s \<Rightarrow> ret s
     | None \<Rightarrow> raise (ValueError ''session not found or already revoked'')))"

end
