(* ===== verification/Workflows.thy ===== *)
theory Workflows
  imports Py_Values
begin

section \<open>Workflows: definitions, alias index, resolution\<close>

text \<open>
  \<open>workflows/models.py\<close> (the validators that normalise a definition), \<open>workflows/registry.py\<close>
  (the alias index, canonical identifiers and the resolution of an event to a workflow) and
  \<open>workflows/validate.py\<close>, \<open>event_contract.py\<close>.  Dictionaries are association lists in
  insertion order.
\<close>

subsection \<open>Definitions\<close>

record projection_def =
  pd_name :: string
  pd_version :: int

record pipeline_config =
  pc_processor :: string
  pc_steps :: "string list"
  pc_projection :: "projection_def option"
  pc_projection_name :: string

record workflow_aliases =
  wa_workflow_ids :: "string list"
  wa_event_types :: "(string \<times> string list) list"
  wa_content_types :: "string list"

record workflow =
  wf_id :: string
  wf_version :: int
  wf_enabled :: bool
  wf_default :: bool
  wf_aliases :: workflow_aliases
  wf_content_types :: "string list"
  wf_event_types :: "string list"
  wf_modes :: "string list"
  wf_algos :: "string list"
  wf_pipeline :: pipeline_config

subsection \<open>Validators\<close>

definition key_char :: "char \<Rightarrow> bool" where
  "key_char c \<longleftrightarrow> is_alnum c \<or> c \<in> set ''._-''"

text \<open>Strip, lower, drop blanks and repetitions; an unacceptable key is an error.\<close>

fun collect_keys :: "(string \<Rightarrow> bool) \<Rightarrow> string \<Rightarrow> string list \<Rightarrow> string list \<Rightarrow> exn + string list" where
  "collect_keys valid msg seen [] = Inr []"
| "collect_keys valid msg seen (raw # rest) =
     (let key = py_lower (py_strip raw) in
      if key = [] \<or> key \<in> set seen then collect_keys valid msg seen rest
      else if \<not> valid key then Inl (ValueError msg)
      else (case collect_keys valid msg (key # seen) rest of
          Inl e \<Rightarrow> Inl e
        | Inr out \<Rightarrow> Inr (key # out)))"

definition normalize_steps :: "string list \<Rightarrow> exn + string list" where
  "normalize_steps value =
     (case collect_keys (list_all key_char) ''invalid pipeline step name'' [] value of
        Inl e \<Rightarrow> Inl e
      | Inr out \<Rightarrow> Inr (if out = [] then [''rollup''] else out))"

definition lower_workflow_ids :: "string list \<Rightarrow> exn + string list" where
  "lower_workflow_ids value = collect_keys (list_all key_char) ''invalid workflow alias'' [] value"

definition lower_content_types :: "string list \<Rightarrow> exn + string list" where
  "lower_content_types value =
     collect_keys (\<lambda>k. \<not> (128 < length k \<or> list_ex is_space k)) ''invalid content_type alias'' [] value"

fun lower_event_type_map ::
  "(string \<times> string list) list \<Rightarrow> (string \<times> string list) list \<Rightarrow>
   exn + (string \<times> string list) list" where
  "lower_event_type_map out [] = Inr out"
| "lower_event_type_map out ((raw_canon, aliases) # rest) =
     (let canon = py_lower (py_strip raw_canon) in
      if canon = [] then lower_event_type_map out rest
      else (case collect_keys (list_all key_char) ''invalid event_type alias'' [] aliases of
          Inl e \<Rightarrow> Inl e
        | Inr cleaned \<Rightarrow> lower_event_type_map
            (if cleaned = [] then out else dict_set canon cleaned out) rest))"

text \<open>
  \<open>ProjectionDefinition(name=..)\<close>: the pattern \<open>^[a-z0-9][a-z0-9_.-]*$\<close> and the length bounds.
\<close>

definition slug_char :: "char \<Rightarrow> bool" where
  "slug_char c \<longleftrightarrow> (let n = code_point c in
     (97 \<le> n \<and> n \<le> 122) \<or> (48 \<le> n \<and> n \<le> 57))"

definition slug_ok :: "string \<Rightarrow> bool" where
  "slug_ok s \<longleftrightarrow> 1 \<le> length s \<and> length s \<le> 128 \<and> slug_char (hd s)
     \<and> list_all (\<lambda>c. slug_char c \<or> c \<in> set ''_.-'') (tl s)"

definition projection_definition :: "string \<Rightarrow> int \<Rightarrow> exn + projection_def" where
  "projection_definition nm version =
     (if slug_ok nm \<and> 1 \<le> version
      then Inr \<lparr>pd_name = py_lower (py_strip nm), pd_version = version\<rparr>
      else Inl (ValueError ''ProjectionDefinition''))"

definition sync_projection :: "pipeline_config \<Rightarrow> exn + pipeline_config" where
  "sync_projection p =
     (case pc_projection p of
        Some pd \<Rightarrow> Inr (p\<lparr>pc_projection_name := pd_name pd\<rparr>)
      | None \<Rightarrow>
          if pc_projection_name p \<noteq> []
          then (case projection_definition (py_lower (py_strip (pc_projection_name p))) 1 of
              Inl e \<Rightarrow> Inl e
            | Inr pd \<Rightarrow> Inr (p\<lparr>pc_projection := Some pd\<rparr>))
          else Inr p)"

subsection \<open>The alias index\<close>

record alias_index =
  ai_ids :: "(string \<times> string) list"
  ai_events :: "(string \<times> string) list"
  ai_contents :: "(string \<times> string list) list"

text \<open>One alias: kept when new, a clash (an error in production) when another owner has it.\<close>

definition alias_clash :: "bool \<Rightarrow> exn + unit" where
  "alias_clash production =
     (if production then Inl (RuntimeError ''workflow alias collision'') else Inr ())"

fun add_aliases ::
  "bool \<Rightarrow> string \<Rightarrow> string list \<Rightarrow> (string \<times> string) list \<Rightarrow> exn + (string \<times> string) list" where
  "add_aliases production canon [] m = Inr m"
| "add_aliases production canon (alias # rest) m =
     (if alias = canon then add_aliases production canon rest m
      else (case map_of m alias of
          Some existing \<Rightarrow>
            if existing \<noteq> canon
            then (case alias_clash production of
                Inl e \<Rightarrow> Inl e
              | Inr _ \<Rightarrow> add_aliases production canon rest m)
            else add_aliases production canon rest (dict_set alias canon m)
        | None \<Rightarrow> add_aliases production canon rest (dict_set alias canon m)))"

fun add_event_aliases ::
  "bool \<Rightarrow> (string \<times> string list) list \<Rightarrow> (string \<times> string) list \<Rightarrow>
   exn + (string \<times> string) list" where
  "add_event_aliases production [] m = Inr m"
| "add_event_aliases production ((canon, aliases) # rest) m =
     (case add_aliases production canon aliases (dict_set canon canon m) of
        Inl e \<Rightarrow> Inl e
      | Inr m' \<Rightarrow> add_event_aliases production rest m')"

definition add_owner :: "string \<Rightarrow> string \<Rightarrow> (string \<times> string list) list \<Rightarrow> (string \<times> string list) list" where
  "add_owner owner ct m =
     (let owners = (case map_of m ct of None \<Rightarrow> [] | Some os \<Rightarrow> os) in
      dict_set ct (if owner \<in> set owners then owners else owners @ [owner]) m)"

fun rebuild_alias_index :: "bool \<Rightarrow> workflow list \<Rightarrow> alias_index \<Rightarrow> exn + alias_index" where
  "rebuild_alias_index production [] ix = Inr ix"
| "rebuild_alias_index production (wfl # rest) ix =
     (if \<not> wf_enabled wfl then rebuild_alias_index production rest ix
      else (case add_aliases production (wf_id wfl) (wa_workflow_ids (wf_aliases wfl))
                   (dict_set (wf_id wfl) (wf_id wfl) (ai_ids ix)) of
          Inl e \<Rightarrow> Inl e
        | Inr ids \<Rightarrow>
            (case add_event_aliases production (wa_event_types (wf_aliases wfl)) (ai_events ix) of
               Inl e \<Rightarrow> Inl e
             | Inr events \<Rightarrow> rebuild_alias_index production rest
                 \<lparr>ai_ids = ids, ai_events = events,
                  ai_contents = fold (add_owner (wf_id wfl)) (wa_content_types (wf_aliases wfl))
                    (ai_contents ix)\<rparr>)))"

definition empty_index :: alias_index where
  "empty_index = \<lparr>ai_ids = [], ai_events = [], ai_contents = []\<rparr>"

text \<open>The loaded registry: the workflows in load order and their index.\<close>

record registry =
  rg_workflows :: "workflow list"
  rg_index :: alias_index

definition load_registry :: "bool \<Rightarrow> workflow list \<Rightarrow> exn + registry" where
  "load_registry production wfs =
     (case rebuild_alias_index production wfs empty_index of
        Inl e \<Rightarrow> Inl e
      | Inr ix \<Rightarrow> Inr \<lparr>rg_workflows = wfs, rg_index = ix\<rparr>)"

definition canonical_key :: "(string \<times> string) list \<Rightarrow> string option \<Rightarrow> string option" where
  "canonical_key m v =
     (case v of
        None \<Rightarrow> None
      | Some s \<Rightarrow>
          (let key = py_lower (py_strip s) in
           if key = [] then None
           else Some (case map_of m key of Some c \<Rightarrow> c | None \<Rightarrow> key)))"

definition canonical_workflow_id :: "registry \<Rightarrow> string option \<Rightarrow> string option" where
  "canonical_workflow_id rg v = canonical_key (ai_ids (rg_index rg)) v"

definition canonical_event_type :: "registry \<Rightarrow> string option \<Rightarrow> string option" where
  "canonical_event_type rg v = canonical_key (ai_events (rg_index rg)) v"

subsection \<open>Resolution\<close>

definition filter_event_types :: "registry \<Rightarrow> workflow \<Rightarrow> string list" where
  "filter_event_types rg wfl =
     (let declared = map py_lower (wf_event_types wfl) in
      if declared = [] then []
      else
        (let accepted = fold (\<lambda>(canon, aliases) acc.
               if canon \<in> set acc \<or> list_ex (\<lambda>a. a \<in> set acc) aliases
               then acc @ (canon # aliases) else acc)
               (wa_event_types (wf_aliases wfl)) declared in
         accepted @ List.map_filter (\<lambda>et. map_of (ai_events (rg_index rg)) et) accepted))"

definition get_workflow :: "registry \<Rightarrow> string \<Rightarrow> workflow option" where
  "get_workflow rg v =
     (let wid = (case canonical_workflow_id rg (Some v) of
            Some c \<Rightarrow> c | None \<Rightarrow> py_lower (py_strip v)) in
      find (\<lambda>wfl. wf_id wfl = wid \<and> wf_enabled wfl) (rg_workflows rg))"

definition workflow_matches :: "registry \<Rightarrow> string \<Rightarrow> string option \<Rightarrow> workflow \<Rightarrow> bool" where
  "workflow_matches rg ct et wfl \<longleftrightarrow>
     (let ctypes = map py_lower (wf_content_types wfl);
          owners = (case map_of (ai_contents (rg_index rg)) ct of None \<Rightarrow> [] | Some os \<Rightarrow> os);
          accepted = filter_event_types rg wfl in
      \<not> (ctypes \<noteq> [] \<and> ct \<notin> set ctypes \<and> wf_id wfl \<notin> set owners)
      \<and> \<not> (accepted \<noteq> [] \<and> (case et of
            None \<Rightarrow> True
          | Some e \<Rightarrow> e \<notin> set accepted
              \<and> (case canonical_event_type rg (Some e) of
                   None \<Rightarrow> True | Some c \<Rightarrow> c \<notin> set accepted))))"

definition resolve_workflow ::
  "registry \<Rightarrow> string \<Rightarrow> string option \<Rightarrow> string option \<Rightarrow> exn + workflow" where
  "resolve_workflow rg content_type event_type workflow_id =
     (let workflows = filter wf_enabled (rg_workflows rg) in
      case workflow_id of
        Some (c # w) \<Rightarrow>
          (case get_workflow rg (c # w) of
             None \<Rightarrow> Inl (ValueError ''unknown or disabled workflow_id'')
           | Some wfl \<Rightarrow> Inr wfl)
      | _ \<Rightarrow>
          (let ct = py_lower (py_strip content_type);
               et = (let e = py_lower (py_strip (case event_type of None \<Rightarrow> [] | Some e \<Rightarrow> e))
                     in if e = [] then None else Some e);
               matches = filter (workflow_matches rg ct et) workflows in
           case matches of
             [m] \<Rightarrow> Inr m
           | m # n # ms \<Rightarrow>
               (let specific = filter (\<lambda>w. wf_event_types w \<noteq> []) matches;
                    pool = (if specific \<noteq> [] then specific else matches) in
                Inr (hd (sort_key wf_id pool)))
           | [] \<Rightarrow>
               (case find wf_default workflows of
                  Some wfl \<Rightarrow> Inr wfl
                | None \<Rightarrow> Inl (ValueError ''no workflow matched''))))"

subsection \<open>Validation of a definition\<close>

datatype issue_level = I_error | I_warning

definition validate_workflow_definition ::
  "string list \<Rightarrow> string list \<Rightarrow> workflow \<Rightarrow> bool \<Rightarrow> (issue_level \<times> string) list" where
  "validate_workflow_definition processors detectors wfl strict =
     (let level = (if strict then I_error else I_warning) in
      (if py_strip (wf_id wfl) = [] then [(I_error, ''workflow id is empty'')] else [])
      @ (if pc_processor (wf_pipeline wfl) \<notin> set processors
         then [(level, ''unknown processor'')] else [])
      @ map (\<lambda>step. (level, ''unknown step'')) (filter (\<lambda>step. step \<noteq> ''rollup'' \<and> step \<notin> set detectors)
          (pc_steps (wf_pipeline wfl)))
      @ (let modes = map py_lower (wf_modes wfl) in
         if modes \<noteq> [] \<and> set modes \<noteq> {''e2ee''}
         then [(I_error, ''encryption.modes must be E2EE-only'')] else [])
      @ (if wf_content_types wfl = []
         then [(I_error, ''match.content_types must list at least one type'')] else [])
      @ (if ''rollup'' \<notin> set (pc_steps (wf_pipeline wfl))
         then [(I_warning, ''pipeline.steps omits rollup'')] else []))"

definition issues_block_exit :: "(issue_level \<times> string) list \<Rightarrow> bool" where
  "issues_block_exit issues = list_ex (\<lambda>i. fst i = I_error) issues"

subsection \<open>Loading\<close>

text \<open>
  The settings, the registered processors and detectors, and what the files of the directory parse
  to.  A file whose identifier violates the pattern is skipped, an empty directory falls back to
  the built-in workflow, and a definition with an error-level issue stops the load.
\<close>

record workflow_config =
  wc_production :: bool
  wc_strict :: bool
  wc_processors :: "string list"
  wc_detectors :: "string list"
  wc_files :: "workflow list"

definition builtin_default :: workflow where
  "builtin_default = \<lparr>wf_id = ''default_sealed'', wf_version = 1, wf_enabled = True, wf_default = True,
     wf_aliases = \<lparr>wa_workflow_ids = [], wa_event_types = [], wa_content_types = []\<rparr>,
     wf_content_types = [''application/forjd-event+v1''], wf_event_types = [],
     wf_modes = [''e2ee''], wf_algos = [''aes-256-gcm''],
     wf_pipeline = \<lparr>pc_processor = ''sealed_metadata'', pc_steps = [''rollup'', ''size_anomaly''],
       pc_projection = Some \<lparr>pd_name = ''sealed.default'', pd_version = 1\<rparr>,
       pc_projection_name = ''sealed.default''\<rparr>\<rparr>"

definition load_workflows_dir :: "workflow list \<Rightarrow> workflow list" where
  "load_workflows_dir files = filter (\<lambda>w. slug_ok (wf_id w) \<and> 1 \<le> wf_version w) files"

definition all_workflows :: "workflow_config \<Rightarrow> exn + registry" where
  "all_workflows cfg =
     (let found = load_workflows_dir (wc_files cfg);
          loaded = (if found = [] then [builtin_default] else found) in
      if list_ex (\<lambda>w. issues_block_exit (validate_workflow_definition (wc_processors cfg)
           (wc_detectors cfg) w (wc_strict cfg))) loaded
      then Inl (RuntimeError ''workflow validation'')
      else load_registry (wc_production cfg) loaded)"

subsection \<open>Idempotency keys of projection events\<close>

definition key_start :: "char \<Rightarrow> bool" where
  "key_start c \<longleftrightarrow> (let n = code_point c in
     (48 \<le> n \<and> n \<le> 57) \<or> (65 \<le> n \<and> n \<le> 90) \<or> (97 \<le> n \<and> n \<le> 122))"

definition validate_idempotency_key :: "json \<Rightarrow> exn + string" where
  "validate_idempotency_key value =
     (case value of
        JStr s \<Rightarrow>
          if \<not> (16 \<le> length s \<and> length s \<le> 128)
          then Inl (ValueError ''idempotency_key must be 16-128 characters'')
          else if \<not> (key_start (hd s)
             \<and> list_all (\<lambda>c. key_start c \<or> c \<in> set ''._:-'') (tl s))
          then Inl (ValueError ''idempotency_key contains unsupported characters'')
          else Inr s
      | _ \<Rightarrow> Inl (ValueError ''idempotency_key must be a string''))"

end
