(* ===== verification/Projections.thy ===== *)
theory Projections
  imports Sessions Workflows Lease
begin

section \<open>Projections: results, dead letters, checkpoints\<close>

text \<open>
  \<open>services/projections.py\<close>: the durable projection rows an engine's output is upserted into,
  the dead-letter queue, the checkpoints, and the projector that advances them.  The engine
  (\<open>run_project_flow\<close>, \<open>run_ingest_flow\<close>) is outside: its answer is an input.
\<close>

record event_row =
  ev_id :: uuid
  ev_tenant :: uuid
  ev_key :: string
  ev_content_type :: "string option"
  ev_event_type :: "string option"
  ev_workflow :: "string option"
  ev_created :: time
  ev_bytes :: int
  ev_client :: string
  ev_submitted :: "string option"
  ev_occurred :: "time option"
  ev_algo :: string
  ev_ratchet :: "string option"
  ev_nonce :: string
  ev_ciphertext :: string
  ev_sha256 :: string
  ev_fingerprint :: "string option"
  ev_schema :: int
  ev_metadata :: jdict

text \<open>The metadata dictionary of a sealed event, as the services pass it on.\<close>

record meta =
  mt_event :: uuid
  mt_tenant :: uuid
  mt_key :: string
  mt_len :: int
  mt_content_type :: string
  mt_event_type :: string
  mt_workflow :: string
  mt_created :: "time option"
  mt_routing :: jdict

record stream_row =
  st_id :: uuid
  st_tenant :: uuid
  st_source :: "uuid option"
  st_kind :: string
  st_engine :: string
  st_score :: json
  st_anomaly :: bool
  st_features :: json
  st_metadata :: jdict
  st_workflow :: json
  st_projection :: string
  st_version :: int
  st_key :: string
  st_created :: time

record dlq_row =
  dq_id :: uuid
  dq_tenant :: uuid
  dq_source :: "uuid option"
  dq_workflow :: "string option"
  dq_projection :: string
  dq_version :: int
  dq_error :: string
  dq_class :: string
  dq_meta :: jdict
  dq_attempts :: int
  dq_max :: int
  dq_next :: time
  dq_last :: "time option"
  dq_locked_at :: "time option"
  dq_locked_by :: "string option"
  dq_lease :: "time option"
  dq_key :: string
  dq_created :: time
  dq_updated :: time
  dq_resolved :: "time option"

record ckpt_row =
  ck_tenant :: uuid
  ck_projection :: string
  ck_workflow :: string
  ck_event :: "uuid option"
  ck_created :: "time option"
  ck_updated :: time

record pj_db = se_db +
  telemetry :: "event_row list"
  stream_results :: "stream_row list"
  dead_letters :: "dlq_row list"
  checkpoints :: "ckpt_row list"
  advisory_locks :: "string list"

text \<open>
  The engine's answer: the \<open>pathway\<close> summary and the rows, or an exception; with it, whether a
  heartbeat running beside the engine has lost its lease.
\<close>

record flow_answer =
  fa_flow :: "exn + jdict \<times> jdict list"
  fa_lease_lost :: bool

record pj_env =
  pj_dumps :: "json \<Rightarrow> string"
  pj_repr :: "json \<Rightarrow> string"
  pj_sha256 :: "string \<Rightarrow> string"
  pj_show_time :: "time \<Rightarrow> string"
  pj_registry :: registry

type_synonym ('z, 'a) pj_prog = "('z pj_db_scheme, flow_answer, 'a) prog"

definition dlq_max_attempts :: int where "dlq_max_attempts = 10"

definition exn_message :: "exn \<Rightarrow> string" where
  "exn_message e = (case e of ValueError s \<Rightarrow> s | RuntimeError s \<Rightarrow> s | LookupError s \<Rightarrow> s
     | OtherError n s \<Rightarrow> s | HTTPException c s \<Rightarrow> s | _ \<Rightarrow> [])"

definition str_of :: "pj_env \<Rightarrow> json \<Rightarrow> string" where
  "str_of env v = py_str (pj_repr env) v"

definition opt_json :: "string option \<Rightarrow> json" where
  "opt_json v = (case v of None \<Rightarrow> JNull | Some s \<Rightarrow> JStr s)"

text \<open>\<open>dict(v or {})\<close>\<close>

definition as_dict :: "json \<Rightarrow> exn + jdict" where
  "as_dict v = (case v of JObj kvs \<Rightarrow> Inr kvs | _ \<Rightarrow> if truthy v then Inl TypeError else Inr [])"

definition setdefault :: "string \<Rightarrow> json \<Rightarrow> jdict \<Rightarrow> jdict" where
  "setdefault k v kvs = (if k \<in> fst ` set kvs then kvs else kvs @ [(k, v)])"

text \<open>\<open>sorted(set(..))\<close>\<close>

definition sorted_set :: "string list \<Rightarrow> string list" where
  "sorted_set xs = sort (remdups xs)"

subsection \<open>Names of the advisory locks\<close>

definition projection_lease_name :: "uuid \<Rightarrow> string \<Rightarrow> string \<Rightarrow> string" where
  "projection_lease_name tenant projection workflow_id =
     ''forjd:projection:'' @ tenant @ '':'' @ projection @ '':'' @ workflow_id"

definition projection_acceptance_fence_name :: "uuid \<Rightarrow> string \<Rightarrow> string \<Rightarrow> string" where
  "projection_acceptance_fence_name tenant projection workflow_id =
     projection_lease_name tenant projection workflow_id @ '':acceptance''"

subsection \<open>Keys\<close>

definition result_source :: "jdict \<Rightarrow> json" where
  "result_source row = py_or (jget row ''source_event_id'') (jget row ''telemetry_event_id'')"

definition projection_result_key ::
  "pj_env \<Rightarrow> jdict \<Rightarrow> string \<Rightarrow> int \<Rightarrow> string list \<Rightarrow> exn + string" where
  "projection_result_key env row projection version aggregate_ids =
     (case as_dict (jget row ''features'') of Inl e \<Rightarrow> Inl e | Inr features \<Rightarrow>
     (case as_dict (jget row ''metadata'') of Inl e \<Rightarrow> Inl e | Inr metadata \<Rightarrow>
     (let workflow_id = str_of env (py_or (py_or (jget row ''workflow_id'')
            (jget metadata ''workflow_id'')) (JStr []));
          source = result_source row;
          event_ids = sorted_set aggregate_ids;
          identity = (if truthy source
            then [(''type'', JStr ''source''), (''source_event_id'', JStr (str_of env source)),
                  (''detector'', JStr (str_of env (py_or (py_or (py_or (jget features ''detector'')
                     (jget metadata ''detector'')) (jget row ''kind'')) (JStr ''transform'')))),
                  (''rule_id'', JStr (str_of env (py_or (py_or (py_or (jget features ''rule_id'')
                     (jget metadata ''rule_id'')) (jget row ''rule_id'')) (JStr []))))]
            else [(''type'', JStr ''aggregate''), (''event_ids'', JArr (map JStr event_ids)),
                  (''kind'', JStr (str_of env (py_or (jget row ''kind'') (JStr ''rollup''))))]
                 @ (if event_ids = []
                    then [(''features'', JObj features), (''metadata'', JObj metadata)] else []))
      in Inr (pj_sha256 env (pj_dumps env (JObj
           [(''projection_name'', JStr projection), (''projection_version'', JInt version),
            (''workflow_id'', JStr workflow_id), (''identity'', JObj identity)]))))))"

definition dlq_dedupe_key ::
  "pj_env \<Rightarrow> uuid option \<Rightarrow> string option \<Rightarrow> string \<Rightarrow> int \<Rightarrow> string" where
  "dlq_dedupe_key env source workflow_id projection version =
     pj_sha256 env (pj_dumps env (JObj
       [(''source_event_id'', JStr (case source of None \<Rightarrow> [] | Some s \<Rightarrow> s)),
        (''workflow_id'', JStr (case workflow_id of None \<Rightarrow> [] | Some s \<Rightarrow> s)),
        (''projection_name'', JStr projection), (''projection_version'', JInt version)]))"

subsection \<open>Dead letters\<close>

definition safe_meta :: "pj_env \<Rightarrow> meta \<Rightarrow> jdict" where
  "safe_meta env m =
     [(''event_id'', JStr (mt_event m)), (''content_type'', JStr (mt_content_type m)),
      (''event_type'', JStr (mt_event_type m)), (''cipher_len'', JInt (mt_len m)),
      (''workflow_id'', JStr (mt_workflow m))]
     @ (case mt_created m of None \<Rightarrow> [] | Some t \<Rightarrow> [(''created_at'', JStr (pj_show_time env t))])"

definition enqueue_projection_dlq ::
  "pj_env \<Rightarrow> uuid \<Rightarrow> uuid \<Rightarrow> uuid option \<Rightarrow> string option \<Rightarrow> string \<Rightarrow> int \<Rightarrow> string \<Rightarrow> string \<Rightarrow> meta \<Rightarrow>
   'z pj_db_scheme \<Rightarrow> 'z pj_db_scheme" where
  "enqueue_projection_dlq env new_id tenant source workflow_id projection version err err_class m d =
     (let key = dlq_dedupe_key env source workflow_id projection version;
          open_same = (\<lambda>r. dq_tenant r = tenant \<and> dq_key r = key \<and> dq_resolved r = None)
      in if list_ex open_same (dead_letters d)
         then d\<lparr>dead_letters := upd_where open_same
             (\<lambda>r. r\<lparr>dq_error := take 4000 err, dq_class := take 128 err_class,
                dq_meta := safe_meta env m, dq_next := min (dq_next r) (now d), dq_updated := now d\<rparr>)
             (dead_letters d)\<rparr>
         else d\<lparr>dead_letters := dead_letters d @
             [\<lparr>dq_id = new_id, dq_tenant = tenant, dq_source = source, dq_workflow = workflow_id,
               dq_projection = projection, dq_version = version, dq_error = take 4000 err,
               dq_class = take 128 err_class, dq_meta = safe_meta env m, dq_attempts = 0,
               dq_max = dlq_max_attempts, dq_next = now d, dq_last = None, dq_locked_at = None,
               dq_locked_by = None, dq_lease = None, dq_key = key, dq_created = now d,
               dq_updated = now d, dq_resolved = None\<rparr>]\<rparr>)"

definition lease_free :: "time \<Rightarrow> dlq_row \<Rightarrow> bool" where
  "lease_free t r \<longleftrightarrow> dq_locked_by r = None
     \<or> (case dq_lease r of None \<Rightarrow> False | Some e \<Rightarrow> e \<le> t)"

definition resolve_projection_dlq_for_events ::
  "uuid \<Rightarrow> uuid list \<Rightarrow> string \<Rightarrow> string \<Rightarrow> int \<Rightarrow> 'z pj_db_scheme \<Rightarrow> 'z pj_db_scheme" where
  "resolve_projection_dlq_for_events tenant sources workflow_id projection version d =
     d\<lparr>dead_letters := upd_where
         (\<lambda>r. dq_tenant r = tenant
            \<and> (case dq_source r of None \<Rightarrow> False | Some s \<Rightarrow> s \<in> set sources)
            \<and> dq_workflow r = Some workflow_id \<and> dq_projection r = projection
            \<and> dq_version r = version \<and> dq_resolved r = None \<and> lease_free (now d) r)
         (\<lambda>r. r\<lparr>dq_resolved := Some (now d), dq_locked_at := None, dq_locked_by := None,
            dq_lease := None, dq_updated := now d\<rparr>) (dead_letters d)\<rparr>"

subsection \<open>Metadata after a checkpoint\<close>

definition meta_of_row :: "event_row \<Rightarrow> meta" where
  "meta_of_row r = \<lparr>mt_event = ev_id r, mt_tenant = ev_tenant r, mt_key = ev_key r,
     mt_len = ev_bytes r,
     mt_content_type = (case ev_content_type r of Some c \<Rightarrow>
        (if c = [] then ''application/forjd-event+v1'' else c) | None \<Rightarrow> ''application/forjd-event+v1''),
     mt_event_type = (case ev_event_type r of Some e \<Rightarrow> e | None \<Rightarrow> []),
     mt_workflow = (case ev_workflow r of Some w \<Rightarrow> w | None \<Rightarrow> []),
     mt_created = Some (ev_created r), mt_routing = []\<rparr>"

definition event_order :: "event_row \<Rightarrow> time \<times> uuid" where
  "event_order r = (ev_created r, ev_id r)"

definition find_event :: "uuid \<Rightarrow> uuid \<Rightarrow> 'z pj_db_scheme \<Rightarrow> event_row option" where
  "find_event tenant eid d =
     first_row (\<lambda>r. ev_tenant r = tenant \<and> ev_id r = eid) (telemetry d)"

definition after_cursor ::
  "uuid \<Rightarrow> time option \<Rightarrow> uuid option \<Rightarrow> 'z pj_db_scheme \<Rightarrow> event_row \<Rightarrow> bool" where
  "after_cursor tenant after_created after_event d r =
     (case (after_created, after_event) of
        (Some t, Some e) \<Rightarrow> (t, e) < event_order r
      | (Some t, None) \<Rightarrow> t < ev_created r
      | (None, Some e) \<Rightarrow> (case find_event tenant e d of
            None \<Rightarrow> False | Some q \<Rightarrow> event_order q < event_order r)
      | (None, None) \<Rightarrow> True)"

definition in_workflow :: "registry \<Rightarrow> string option \<Rightarrow> event_row \<Rightarrow> bool" where
  "in_workflow rg workflow_id r =
     (case canonical_workflow_id rg workflow_id of None \<Rightarrow> True | Some w \<Rightarrow> ev_workflow r = Some w)"

definition fetch_meta_after_checkpoint ::
  "registry \<Rightarrow> uuid \<Rightarrow> time option \<Rightarrow> uuid option \<Rightarrow> string option \<Rightarrow> nat \<Rightarrow> 'z pj_db_scheme \<Rightarrow> meta list" where
  "fetch_meta_after_checkpoint rg tenant after_created after_event workflow_id limit d =
     map meta_of_row (take limit (sort_key event_order (filter
       (\<lambda>r. ev_tenant r = tenant \<and> in_workflow rg workflow_id r
          \<and> after_cursor tenant after_created after_event d r) (telemetry d))))"

subsection \<open>Upserting results\<close>

text \<open>One row of the engine, checked against the accepted tenants and events.\<close>

definition prepare_result ::
  "pj_env \<Rightarrow> int \<Rightarrow> (uuid \<Rightarrow> uuid list) \<Rightarrow> uuid list \<Rightarrow> uuid list \<Rightarrow> time \<Rightarrow> uuid \<times> jdict \<Rightarrow>
   exn + stream_row option" where
  "prepare_result env version aggregate tenants events t idrow =
     (let row = snd idrow in
      if \<not> truthy (jget row ''tenant_id'') then Inr None
      else
     (let tid = str_of env (jget row ''tenant_id'');
          source_value = result_source row;
          source = (if source_value = JStr [] \<or> source_value = JNull then None
             else Some (str_of env source_value)) in
      if tenants \<noteq> [] \<and> tid \<notin> set tenants
      then Inl (ValueError ''projection output tenant_id was not in the accepted batch'')
      else if events \<noteq> [] \<and> (case source of None \<Rightarrow> False | Some s \<Rightarrow> s \<notin> set events)
      then Inl (ValueError ''projection output source_event_id was not in the accepted batch'')
      else
     (let proj = str_of env (py_or (jget row ''projection_name'') (JStr ''sealed.default'')) in
      case as_dict (jget row ''metadata'') of Inl e \<Rightarrow> Inl e | Inr metadata \<Rightarrow>
     (let meta0 = (if truthy (jget row ''workflow_id'')
            then setdefault ''workflow_id'' (jget row ''workflow_id'') metadata else metadata);
          meta = setdefault ''projection_name'' (JStr proj) meta0 in
      case projection_result_key env row proj version (aggregate tid) of Inl e \<Rightarrow> Inl e | Inr key \<Rightarrow>
        Inr (Some \<lparr>st_id = fst idrow, st_tenant = tid, st_source = source,
          st_kind = str_of env (py_or (jget row ''kind'')
            (JStr (if source = None \<or> source = Some [] then ''rollup'' else ''transform''))),
          st_engine = str_of env (py_or (jget row ''engine'') (JStr ''pathway'')),
          st_score = jget row ''score'', st_anomaly = truthy (jget row ''is_anomaly''),
          st_features = py_or (jget row ''features'') (JObj []), st_metadata = meta,
          st_workflow = jget row ''workflow_id'', st_projection = proj, st_version = version,
          st_key = key, st_created = t\<rparr>)))))"

fun prepare_results ::
  "(uuid \<times> jdict \<Rightarrow> exn + stream_row option) \<Rightarrow> (uuid \<times> jdict) list \<Rightarrow> exn + stream_row list" where
  "prepare_results prepare [] = Inr []"
| "prepare_results prepare (r # rs) =
     (case prepare r of
        Inl e \<Rightarrow> Inl e
      | Inr x \<Rightarrow> (case prepare_results prepare rs of
            Inl e \<Rightarrow> Inl e
          | Inr xs \<Rightarrow> Inr (case x of None \<Rightarrow> xs | Some y \<Rightarrow> y # xs)))"

definition same_result :: "stream_row \<Rightarrow> stream_row \<Rightarrow> bool" where
  "same_result a b \<longleftrightarrow> st_tenant a = st_tenant b \<and> st_projection a = st_projection b
     \<and> st_version a = st_version b \<and> st_key a = st_key b"

definition upsert_row :: "stream_row \<Rightarrow> stream_row list \<Rightarrow> stream_row list" where
  "upsert_row row rows =
     (if list_ex (same_result row) rows
      then upd_where (same_result row)
        (\<lambda>old. row\<lparr>st_id := st_id old, st_created := st_created old\<rparr>) rows
      else rows @ [row])"

definition upsert_stream_results ::
  "pj_env \<Rightarrow> uuid list \<Rightarrow> jdict list \<Rightarrow> int \<Rightarrow> (uuid \<Rightarrow> uuid list) \<Rightarrow> uuid list \<Rightarrow> uuid list \<Rightarrow>
   'z pj_db_scheme \<Rightarrow> exn + nat \<times> 'z pj_db_scheme" where
  "upsert_stream_results env ids rows version aggregate tenants events d =
     (case prepare_results (prepare_result env version aggregate tenants events (now d)) (zip ids rows) of
        Inl e \<Rightarrow> Inl e
      | Inr prepared \<Rightarrow> Inr (length prepared,
          d\<lparr>stream_results := fold upsert_row prepared (stream_results d)\<rparr>))"

subsection \<open>Checkpoints\<close>

definition get_checkpoint :: "uuid \<Rightarrow> string \<Rightarrow> string \<Rightarrow> 'z pj_db_scheme \<Rightarrow> ckpt_row option" where
  "get_checkpoint tenant projection workflow_id d = first_row
     (\<lambda>c. ck_tenant c = tenant \<and> ck_projection c = projection \<and> ck_workflow c = workflow_id)
     (checkpoints d)"

definition ahead :: "time \<Rightarrow> uuid \<Rightarrow> ckpt_row \<Rightarrow> bool" where
  "ahead t e c \<longleftrightarrow> (case (ck_created c, ck_event c) of
     (Some t', Some e') \<Rightarrow> (t', e') < (t, e) | _ \<Rightarrow> True)"

definition advance_checkpoint ::
  "uuid \<Rightarrow> string \<Rightarrow> string \<Rightarrow> uuid \<Rightarrow> time \<Rightarrow> 'z pj_db_scheme \<Rightarrow> 'z pj_db_scheme" where
  "advance_checkpoint tenant projection workflow_id e t d =
     (let same = (\<lambda>c. ck_tenant c = tenant \<and> ck_projection c = projection \<and> ck_workflow c = workflow_id)
      in if list_ex same (checkpoints d)
         then d\<lparr>checkpoints := upd_where (\<lambda>c. same c \<and> ahead t e c)
             (\<lambda>c. c\<lparr>ck_event := Some e, ck_created := Some t, ck_updated := now d\<rparr>) (checkpoints d)\<rparr>
         else d\<lparr>checkpoints := checkpoints d @
             [\<lparr>ck_tenant = tenant, ck_projection = projection, ck_workflow = workflow_id,
               ck_event = Some e, ck_created = Some t, ck_updated = now d\<rparr>]\<rparr>)"

text \<open>The latest (created_at, event_id) per tenant, in the order tenants first occur.\<close>

definition meta_created :: "'z pj_db_scheme \<Rightarrow> meta \<Rightarrow> time option" where
  "meta_created d m = (case mt_created m of Some t \<Rightarrow> Some t
     | None \<Rightarrow> map_option ev_created (find_event (mt_tenant m) (mt_event m) d))"

definition latest_step ::
  "'z pj_db_scheme \<Rightarrow> meta \<Rightarrow> (uuid \<times> (time \<times> uuid)) list \<Rightarrow> (uuid \<times> (time \<times> uuid)) list" where
  "latest_step d m latest =
     (if mt_tenant m = [] \<or> mt_event m = [] then latest
      else (case meta_created d m of
          None \<Rightarrow> latest
        | Some t \<Rightarrow> (case map_of latest (mt_tenant m) of
              None \<Rightarrow> dict_set (mt_tenant m) (t, mt_event m) latest
            | Some cur \<Rightarrow> if cur < (t, mt_event m)
                then dict_set (mt_tenant m) (t, mt_event m) latest else latest)))"

definition advance_checkpoint_from_meta ::
  "meta list \<Rightarrow> string \<Rightarrow> string \<Rightarrow> 'z pj_db_scheme \<Rightarrow> 'z pj_db_scheme" where
  "advance_checkpoint_from_meta metas workflow_id projection d =
     fold (\<lambda>(tid, (t, e)) d. advance_checkpoint tid projection workflow_id e t d)
       (fold (latest_step d) metas []) d"

end
