(* ===== verification/Projector.thy ===== *)
theory Projector
  imports Projections
begin

section \<open>The projector and replay\<close>

text \<open>
  \<open>run_projection_core\<close>, \<open>run_projection\<close> and \<open>list_projections\<close> of \<open>services/projections.py\<close>, and
  \<open>services/replay.py\<close>: range replay through the active workflows and the leased retry of one
  dead letter.
\<close>

fun draw_uuids :: "nat \<Rightarrow> ('z, uuid list) pj_prog" where
  "draw_uuids 0 = ret []"
| "draw_uuids (Suc n) = bindM uuid4 (\<lambda>u. bindM (draw_uuids n) (\<lambda>us. ret (u # us)))"

subsection \<open>The projector\<close>

record projection_report =
  pr_ok :: bool
  pr_matched :: nat
  pr_written :: nat
  pr_dlq :: nat
  pr_elsewhere :: bool
  pr_error :: "string option"

definition try_advisory_lock :: "string \<Rightarrow> ('z, bool) pj_prog" where
  "try_advisory_lock nm = stmt (\<lambda>d.
     if nm \<in> set (advisory_locks d) then Inr (False, d)
     else Inr (True, d\<lparr>advisory_locks := nm # advisory_locks d\<rparr>))"

definition advisory_unlock :: "string \<Rightarrow> ('z, unit) pj_prog" where
  "advisory_unlock nm = stmt (\<lambda>d. Inr ((), d\<lparr>advisory_locks := remove1 nm (advisory_locks d)\<rparr>))"

text \<open>The dead letters of a batch of events, one statement of a transaction each.\<close>

fun enqueue_all ::
  "pj_env \<Rightarrow> (uuid \<times> meta) list \<Rightarrow> uuid \<Rightarrow> string \<Rightarrow> string \<Rightarrow> int \<Rightarrow> string \<Rightarrow> string \<Rightarrow>
   'z pj_db_scheme \<Rightarrow> 'z pj_db_scheme" where
  "enqueue_all env [] tenant workflow_id projection version err err_class d = d"
| "enqueue_all env ((i, m) # ms) tenant workflow_id projection version err err_class d =
     enqueue_all env ms tenant workflow_id projection version err err_class
       (enqueue_projection_dlq env i tenant (Some (mt_event m)) (Some workflow_id) projection version
          err err_class m d)"

definition advance_to_last ::
  "meta list \<Rightarrow> uuid \<Rightarrow> string \<Rightarrow> string \<Rightarrow> 'z pj_db_scheme \<Rightarrow> 'z pj_db_scheme" where
  "advance_to_last metas tenant projection workflow_id d =
     (case mt_created (last metas) of
        Some t \<Rightarrow> advance_checkpoint tenant projection workflow_id (mt_event (last metas)) t d
      | None \<Rightarrow> d)"

definition hand_to_dlq ::
  "pj_env \<Rightarrow> uuid list \<Rightarrow> meta list \<Rightarrow> uuid \<Rightarrow> string \<Rightarrow> string \<Rightarrow> int \<Rightarrow> string \<Rightarrow>
   'z pj_db_scheme \<Rightarrow> 'z pj_db_scheme" where
  "hand_to_dlq env ids metas tenant workflow_id projection version err d =
     advance_to_last metas tenant projection workflow_id
       (enqueue_all env (zip ids metas) tenant workflow_id projection version err
          ''processing_error'' d)"

definition pathway_error :: "pj_env \<Rightarrow> jdict \<Rightarrow> string" where
  "pathway_error env pathway = str_of env
     (py_or (jget pathway ''error'') (JStr ''processor reported an unsuccessful result''))"

definition commit_projection ::
  "pj_env \<Rightarrow> uuid list \<Rightarrow> jdict list \<Rightarrow> meta list \<Rightarrow> uuid \<Rightarrow> string \<Rightarrow> string \<Rightarrow> int \<Rightarrow>
   'z pj_db_scheme \<Rightarrow> exn + nat \<times> 'z pj_db_scheme" where
  "commit_projection env ids rows metas tenant workflow_id projection version d =
     (let event_ids = sorted_set (map mt_event metas) in
      case upsert_stream_results env ids rows version (\<lambda>_. event_ids) [tenant] event_ids d of
        Inl e \<Rightarrow> Inl e
      | Inr (written, d1) \<Rightarrow> Inr (written, advance_to_last metas tenant projection workflow_id
          (resolve_projection_dlq_for_events tenant event_ids workflow_id projection version d1)))"

definition run_projection_core ::
  "pj_env \<Rightarrow> uuid \<Rightarrow> string option \<Rightarrow> int \<Rightarrow> ('z, projection_report) pj_prog" where
  "run_projection_core env tenant workflow_id limit =
     bindM ensure_secure_schema (\<lambda>_.
     bindM (lift (resolve_workflow (pj_registry env) ''application/forjd-event+v1'' None workflow_id)) (\<lambda>wfl.
     case pc_projection (wf_pipeline wfl) of
       None \<Rightarrow> raise (OtherError ''AttributeError'' [])
     | Some pd \<Rightarrow>
       let projection = pc_projection_name (wf_pipeline wfl);
           version = pd_version pd;
           wf_key = wf_id wfl;
           lease_name = projection_lease_name tenant projection wf_key in
       bindM (try_advisory_lock lease_name) (\<lambda>leased.
       if \<not> leased
       then ret \<lparr>pr_ok = True, pr_matched = 0, pr_written = 0, pr_dlq = 0, pr_elsewhere = True,
                 pr_error = None\<rparr>
       else finallyM
         (tryM (query (\<lambda>d.
             let ckpt = get_checkpoint tenant projection wf_key d in
             fetch_meta_after_checkpoint (pj_registry env) tenant
               (Option.bind ckpt ck_created) (Option.bind ckpt ck_event) (Some wf_key)
               (nat (clamp 1 1000 limit)) d))
           (\<lambda>e. ret \<lparr>pr_ok = False, pr_matched = 0, pr_written = 0, pr_dlq = 0,
              pr_elsewhere = False, pr_error = Some (exn_message e)\<rparr>)
           (\<lambda>metas.
         if metas = []
         then ret \<lparr>pr_ok = True, pr_matched = 0, pr_written = 0, pr_dlq = 0, pr_elsewhere = False,
                   pr_error = None\<rparr>
         else
         bindM receive (\<lambda>ans.
         bindM (draw_uuids (case fa_flow ans of Inr (_, rows) \<Rightarrow> length rows | Inl _ \<Rightarrow> 0)) (\<lambda>row_ids.
         bindM (draw_uuids (length metas)) (\<lambda>dlq_ids.
         catch
           (bindM (lift (fa_flow ans)) (\<lambda>(pathway, rows).
              if truthy (jget pathway ''ok'')
              then bindM (stmt (commit_projection env row_ids rows metas tenant wf_key projection version))
                (\<lambda>written. ret \<lparr>pr_ok = True, pr_matched = length metas, pr_written = written,
                   pr_dlq = 0, pr_elsewhere = False, pr_error = None\<rparr>)
              else
                let err = pathway_error env pathway in
                bindM (stmt (\<lambda>d. Inr ((), hand_to_dlq env dlq_ids metas tenant wf_key projection
                    version err d)))
                (\<lambda>_. ret \<lparr>pr_ok = False, pr_matched = length metas, pr_written = 0,
                   pr_dlq = length metas, pr_elsewhere = False, pr_error = Some err\<rparr>)))
           (\<lambda>e. bindM (stmt (\<lambda>d. Inr ((), hand_to_dlq env dlq_ids metas tenant wf_key projection
                version (exn_message e) d)))
              (\<lambda>_. ret \<lparr>pr_ok = False, pr_matched = length metas, pr_written = 0,
                 pr_dlq = length metas, pr_elsewhere = False,
                 pr_error = Some (exn_message e)\<rparr>)))))))
         (advisory_unlock lease_name))))"

definition run_projection ::
  "pj_env \<Rightarrow> auth_user \<Rightarrow> uuid \<Rightarrow> string option \<Rightarrow> int \<Rightarrow> ('z, projection_report) pj_prog" where
  "run_projection env user tenant workflow_id limit =
     bindM (require_tenant_access user tenant (Some [''owner'', ''admin'', ''member''])
        (Some [''projections:run''])) (\<lambda>_.
     run_projection_core env tenant workflow_id limit)"

definition stream_order :: "stream_row \<Rightarrow> time \<times> uuid" where
  "stream_order r = (st_created r, st_id r)"

definition list_projections ::
  "pj_env \<Rightarrow> auth_user \<Rightarrow> uuid \<Rightarrow> string option \<Rightarrow> string option \<Rightarrow> time option \<Rightarrow> uuid option \<Rightarrow> nat \<Rightarrow>
   ('z, stream_row list) pj_prog" where
  "list_projections env user tenant projection workflow_id since after_id limit =
     bindM (require_tenant_access user tenant None (Some [''projections:read''])) (\<lambda>_.
     query (\<lambda>d.
       let cursor = Option.bind after_id (\<lambda>i.
             first_row (\<lambda>r. st_id r = i \<and> st_tenant r = tenant) (stream_results d));
           keep = (\<lambda>r. st_tenant r = tenant
             \<and> (case projection of None \<Rightarrow> True | Some p \<Rightarrow> p = [] \<or> st_projection r = p)
             \<and> (case canonical_workflow_id (pj_registry env) workflow_id of
                  None \<Rightarrow> True | Some w \<Rightarrow> st_workflow r = JStr w)
             \<and> (case since of None \<Rightarrow> True | Some t \<Rightarrow> t < st_created r)
             \<and> (after_id = None \<or> (case cursor of None \<Rightarrow> False
                  | Some q \<Rightarrow> (st_created q, st_id q) < stream_order r)));
           rows = sort_key stream_order (filter keep (stream_results d)) in
       take limit (if since \<noteq> None \<or> after_id \<noteq> None then rows else rev rows)))"

subsection \<open>Replay\<close>

definition replay_backoff_seconds :: "int \<Rightarrow> int" where
  "replay_backoff_seconds attempts = min 3600 (30 * 2 ^ nat (max 0 (min (attempts - 1) 7)))"

definition fetch_meta_range ::
  "registry \<Rightarrow> uuid \<Rightarrow> time option \<Rightarrow> time option \<Rightarrow> uuid option \<Rightarrow> string option \<Rightarrow> nat \<Rightarrow>
   'z pj_db_scheme \<Rightarrow> meta list" where
  "fetch_meta_range rg tenant from_time to_time from_event workflow_id limit d =
     map meta_of_row (take limit (sort_key event_order (filter
       (\<lambda>r. ev_tenant r = tenant \<and> in_workflow rg workflow_id r
          \<and> (case from_time of None \<Rightarrow> True | Some t \<Rightarrow> t \<le> ev_created r)
          \<and> (case to_time of None \<Rightarrow> True | Some t \<Rightarrow> ev_created r \<le> t)
          \<and> (case from_event of None \<Rightarrow> True | Some e \<Rightarrow> (case find_event tenant e d of
               None \<Rightarrow> False | Some q \<Rightarrow> event_order q \<le> event_order r))) (telemetry d))))"

definition fetch_meta_event :: "uuid \<Rightarrow> uuid \<Rightarrow> 'z pj_db_scheme \<Rightarrow> meta option" where
  "fetch_meta_event tenant e d = map_option meta_of_row (find_event tenant e d)"

definition list_dlq :: "auth_user \<Rightarrow> uuid \<Rightarrow> nat \<Rightarrow> bool \<Rightarrow> ('z, dlq_row list) pj_prog" where
  "list_dlq user tenant limit open_only =
     bindM (require_tenant_access user tenant None (Some [''replay:read''])) (\<lambda>_.
     query (\<lambda>d. take limit (rev (sort_key dq_created (filter
       (\<lambda>r. dq_tenant r = tenant \<and> (open_only \<longrightarrow> dq_resolved r = None)) (dead_letters d))))))"

record replay_report =
  rp_ok :: bool
  rp_matched :: nat
  rp_written :: nat
  rp_dry :: bool
  rp_anomalies :: int
  rp_dlq :: nat
  rp_errors :: "(string \<times> string) list"
  rp_workflows :: "string list"

text \<open>Grouping by the workflow each event resolves to, in order of first occurrence.\<close>

definition add_to_group ::
  "workflow \<Rightarrow> meta \<Rightarrow> (string \<times> (workflow \<times> meta list)) list \<Rightarrow>
   (string \<times> (workflow \<times> meta list)) list" where
  "add_to_group wfl m groups =
     (case map_of groups (wf_id wfl) of
        None \<Rightarrow> groups @ [(wf_id wfl, (wfl, [m]))]
      | Some (w0, ms) \<Rightarrow> dict_set (wf_id wfl) (w0, ms @ [m]) groups)"

definition nonempty :: "string \<Rightarrow> string option" where
  "nonempty s = (if s = [] then None else Some s)"

definition first_set :: "string option \<Rightarrow> string \<Rightarrow> string option" where
  "first_set a b = (case a of Some s \<Rightarrow> if s = [] then nonempty b else Some s | None \<Rightarrow> nonempty b)"

fun group_events ::
  "registry \<Rightarrow> string option \<Rightarrow> meta list \<Rightarrow> (string \<times> (workflow \<times> meta list)) list \<Rightarrow>
   exn + (string \<times> (workflow \<times> meta list)) list" where
  "group_events rg workflow_id [] groups = Inr groups"
| "group_events rg workflow_id (m # ms) groups =
     (case resolve_workflow rg (mt_content_type m) (nonempty (mt_event_type m))
             (first_set workflow_id (mt_workflow m)) of
        Inl e \<Rightarrow> Inl e
      | Inr wfl \<Rightarrow> group_events rg workflow_id ms (add_to_group wfl m groups))"

definition workflow_version :: "workflow \<Rightarrow> exn + int" where
  "workflow_version wfl = (case pc_projection (wf_pipeline wfl) of
     None \<Rightarrow> Inl (OtherError ''AttributeError'' []) | Some pd \<Rightarrow> Inr (pd_version pd))"

fun enqueue_each ::
  "pj_env \<Rightarrow> uuid \<Rightarrow> workflow \<Rightarrow> string \<Rightarrow> meta list \<Rightarrow> nat \<Rightarrow> ('z, nat) pj_prog" where
  "enqueue_each env tenant wfl err [] n = ret n"
| "enqueue_each env tenant wfl err (m # ms) n =
     bindM uuid4 (\<lambda>i.
     bindM (lift (workflow_version wfl)) (\<lambda>version.
     bindM (stmt (\<lambda>d. Inr ((), enqueue_projection_dlq env i tenant (Some (mt_event m))
        (Some (wf_id wfl)) (pc_projection_name (wf_pipeline wfl)) version err ''processing_error'' m d)))
       (\<lambda>_. enqueue_each env tenant wfl err ms (Suc n))))"

definition run_flow_checked ::
  "pj_env \<Rightarrow> ('z, jdict \<times> jdict list) pj_prog" where
  "run_flow_checked env =
     bindM receive (\<lambda>ans.
     bindM (lift (fa_flow ans)) (\<lambda>(pathway, rows).
     if \<not> truthy (jget pathway ''ok'') then raise (RuntimeError (pathway_error env pathway))
     else ret (pathway, rows)))"

definition int_or_zero :: "json \<Rightarrow> exn + int" where
  "int_or_zero v = py_int (py_or v (JInt 0))"

fun replay_groups ::
  "pj_env \<Rightarrow> uuid \<Rightarrow> (string \<times> (workflow \<times> meta list)) list \<Rightarrow> replay_report \<Rightarrow>
   ('z, replay_report) pj_prog" where
  "replay_groups env tenant [] rep = ret rep"
| "replay_groups env tenant ((wid, (wfl, metas)) # groups) rep =
     bindM (tryM
       (bindM (run_flow_checked env) (\<lambda>(pathway, rows).
        bindM (lift (workflow_version wfl)) (\<lambda>version.
        bindM (draw_uuids (length rows)) (\<lambda>ids.
        let event_ids = sorted_set (map mt_event metas) in
        bindM (stmt (upsert_stream_results env ids rows version (\<lambda>_. event_ids) [tenant] event_ids))
          (\<lambda>written. ret (pathway, written))))))
       (\<lambda>e. bindM (enqueue_each env tenant wfl (exn_message e) metas 0) (\<lambda>n.
          ret (rep\<lparr>rp_ok := False, rp_dlq := rp_dlq rep + n,
            rp_errors := rp_errors rep @ [(wf_id wfl, exn_message e)]\<rparr>)))
       (\<lambda>(pathway, written).
          let rep1 = rep\<lparr>rp_written := rp_written rep + written\<rparr> in
          (case int_or_zero (jget pathway ''anomaly_count'') of
             Inr k \<Rightarrow> ret (rep1\<lparr>rp_anomalies := rp_anomalies rep1 + k\<rparr>)
           | Inl e \<Rightarrow> bindM (enqueue_each env tenant wfl (exn_message e) metas 0) (\<lambda>n.
               ret (rep1\<lparr>rp_ok := False, rp_dlq := rp_dlq rep1 + n,
                 rp_errors := rp_errors rep1 @ [(wf_id wfl, exn_message e)]\<rparr>)))))
     (\<lambda>rep'. replay_groups env tenant groups rep')"

definition replay_events ::
  "pj_env \<Rightarrow> auth_user \<Rightarrow> uuid \<Rightarrow> time option \<Rightarrow> time option \<Rightarrow> uuid option \<Rightarrow> string option \<Rightarrow> int \<Rightarrow>
   bool \<Rightarrow> ('z, replay_report) pj_prog" where
  "replay_events env user tenant from_time to_time from_event workflow_id limit dry_run =
     bindM ensure_secure_schema (\<lambda>_.
     bindM (require_tenant_access user tenant (Some [''owner'', ''admin'']) (Some [''replay:write'']))
       (\<lambda>_.
     bindM (query (fetch_meta_range (pj_registry env) tenant from_time to_time from_event workflow_id
        (nat (clamp 1 1000 limit)))) (\<lambda>metas.
     let empty = \<lparr>rp_ok = True, rp_matched = length metas, rp_written = 0, rp_dry = dry_run,
           rp_anomalies = 0, rp_dlq = 0, rp_errors = [], rp_workflows = []\<rparr> in
     if metas = [] then ret empty
     else bindM (lift (group_events (pj_registry env) workflow_id metas [])) (\<lambda>groups.
       if dry_run then ret (empty\<lparr>rp_workflows := map fst groups\<rparr>)
       else replay_groups env tenant groups (empty\<lparr>rp_workflows := sort (map fst groups)\<rparr>)))))"

subsection \<open>Retrying one dead letter\<close>

definition dlq_lease :: time where "dlq_lease = secs 300"

definition dlq_claimable :: "time \<Rightarrow> dlq_row \<Rightarrow> bool" where
  "dlq_claimable t r \<longleftrightarrow> dq_resolved r = None \<and> dq_attempts r < dq_max r \<and> dq_next r \<le> t
     \<and> (case dq_lease r of None \<Rightarrow> True | Some e \<Rightarrow> e \<le> t)"

definition claim_dlq :: "time \<Rightarrow> string \<Rightarrow> dlq_row \<Rightarrow> dlq_row" where
  "claim_dlq t owner r = r\<lparr>dq_attempts := dq_attempts r + 1, dq_last := Some t,
     dq_locked_at := Some t, dq_locked_by := Some owner, dq_lease := Some (t + dlq_lease),
     dq_updated := t\<rparr>"

definition claim_dlq_item ::
  "uuid \<Rightarrow> uuid \<Rightarrow> string \<Rightarrow> 'z pj_db_scheme \<Rightarrow> dlq_row option \<times> 'z pj_db_scheme" where
  "claim_dlq_item dlq_id tenant owner d =
     (let hit = (\<lambda>r. dq_id r = dlq_id \<and> dq_tenant r = tenant \<and> dlq_claimable (now d) r) in
      (map_option (claim_dlq (now d) owner) (first_row hit (dead_letters d)),
       d\<lparr>dead_letters := upd_where hit (claim_dlq (now d) owner) (dead_letters d)\<rparr>))"

definition dlq_held :: "uuid \<Rightarrow> uuid \<Rightarrow> string \<Rightarrow> dlq_row \<Rightarrow> bool" where
  "dlq_held dlq_id tenant owner r \<longleftrightarrow>
     dq_id r = dlq_id \<and> dq_tenant r = tenant \<and> dq_locked_by r = Some owner"

definition complete_dlq ::
  "uuid \<Rightarrow> uuid \<Rightarrow> string \<Rightarrow> 'z pj_db_scheme \<Rightarrow> nat \<times> 'z pj_db_scheme" where
  "complete_dlq dlq_id tenant owner d =
     (length (rows_where (dlq_held dlq_id tenant owner) (dead_letters d)),
      d\<lparr>dead_letters := upd_where (dlq_held dlq_id tenant owner)
          (\<lambda>r. r\<lparr>dq_resolved := Some (now d), dq_locked_at := None, dq_locked_by := None,
             dq_lease := None, dq_updated := now d\<rparr>) (dead_letters d)\<rparr>)"

definition release_dlq ::
  "uuid \<Rightarrow> uuid \<Rightarrow> string \<Rightarrow> string \<Rightarrow> int \<Rightarrow> 'z pj_db_scheme \<Rightarrow> 'z pj_db_scheme" where
  "release_dlq dlq_id tenant owner err delay d =
     d\<lparr>dead_letters := upd_where (dlq_held dlq_id tenant owner)
         (\<lambda>r. r\<lparr>dq_error := take 4000 err, dq_class := ''retry_error'',
            dq_next := now d + secs delay, dq_locked_at := None, dq_locked_by := None,
            dq_lease := None, dq_updated := now d\<rparr>) (dead_letters d)\<rparr>"

record dlq_report =
  dr_ok :: bool
  dr_written :: nat
  dr_attempts :: int
  dr_retry_after :: int
  dr_error :: "string option"

definition retry_claimed_dlq ::
  "pj_env \<Rightarrow> uuid \<Rightarrow> uuid \<Rightarrow> string \<Rightarrow> dlq_row \<Rightarrow> uuid \<Rightarrow> ('z, dlq_report) pj_prog" where
  "retry_claimed_dlq env tenant dlq_id owner row source =
     catch
       (bindM (query (fetch_meta_event tenant source)) (\<lambda>found. case found of
          None \<Rightarrow> raise (RuntimeError ''source event no longer exists in this tenant'')
        | Some m \<Rightarrow>
          bindM (lift (resolve_workflow (pj_registry env) (mt_content_type m)
             (nonempty (mt_event_type m)) (first_set (dq_workflow row) (mt_workflow m)))) (\<lambda>wfl.
          bindM (lift (workflow_version wfl)) (\<lambda>version.
          if pc_projection_name (wf_pipeline wfl) \<noteq> dq_projection row \<or> version \<noteq> dq_version row
          then raise (RuntimeError ''DLQ projection contract no longer matches the active workflow'')
          else
          bindM (run_flow_checked env) (\<lambda>(pathway, rows).
          bindM (draw_uuids (length rows)) (\<lambda>ids.
          bindM (stmt (upsert_stream_results env ids rows (dq_version row) (\<lambda>_. [source]) [tenant]
             [source])) (\<lambda>written.
          bindM (stmt (\<lambda>d. Inr (complete_dlq dlq_id tenant owner d))) (\<lambda>n.
          if n \<noteq> 1 then raise (RuntimeError ''DLQ retry lease was lost before completion'')
          else ret \<lparr>dr_ok = True, dr_written = written, dr_attempts = dq_attempts row,
                    dr_retry_after = 0, dr_error = None\<rparr>)))))))) 
       (\<lambda>e. let delay = replay_backoff_seconds (dq_attempts row) in
          bindM (stmt (\<lambda>d. Inr ((), release_dlq dlq_id tenant owner (exn_message e) delay d))) (\<lambda>_.
          ret \<lparr>dr_ok = False, dr_written = 0, dr_attempts = dq_attempts row,
               dr_retry_after = delay, dr_error = Some (exn_message e)\<rparr>))"

definition retry_dlq_item ::
  "pj_env \<Rightarrow> auth_user \<Rightarrow> uuid \<Rightarrow> uuid \<Rightarrow> ('z, dlq_report) pj_prog" where
  "retry_dlq_item env user tenant dlq_id =
     bindM (require_tenant_access user tenant (Some [''owner'', ''admin'']) (Some [''replay:write'']))
       (\<lambda>_.
     bindM uuid4 (\<lambda>u.
     let owner = actor_id user @ '':'' @ u in
     bindM (stmt (\<lambda>d. Inr (claim_dlq_item dlq_id tenant owner d))) (\<lambda>row. case row of
       None \<Rightarrow> raise (ValueError ''dlq item is missing, resolved, exhausted, leased, or not retry-ready'')
     | Some r \<Rightarrow> (case dq_source r of
           None \<Rightarrow> raise (ValueError ''dlq item has no source_event_id'')
         | Some source \<Rightarrow>
             if source = [] then raise (ValueError ''dlq item has no source_event_id'')
             else retry_claimed_dlq env tenant dlq_id owner r source))))"

end
