(* ===== verification/Ingest.thy ===== *)
theory Ingest
  imports Projector
begin

section \<open>Durable processing of accepted ingest batches\<close>

text \<open>
  \<open>services/ingest_processing.py\<close>: the processing receipt written in the acceptance
  transaction, waking and leasing, the fenced completion with its projection, and the
  failure path into the dead-letter queue.  The heartbeat of a claimed batch is interference;
  whether it lost the lease is part of the engine's answer.
\<close>

datatype batch_status = B_queued | B_running | B_retry_scheduled | B_completed | B_failed

record batch_row =
  ib_id :: uuid
  ib_acceptance :: uuid
  ib_ordinal :: int
  ib_key :: string
  ib_requested_by :: string
  ib_workflow :: string
  ib_version :: int
  ib_hash :: string
  ib_snapshot :: jdict
  ib_projection :: string
  ib_projection_version :: int
  ib_content_type :: string
  ib_event_type :: "string option"
  ib_events :: "meta list"
  ib_event_ids :: "uuid list"
  ib_tenants :: "uuid list"
  ib_status :: batch_status
  ib_attempts :: int
  ib_max :: int
  ib_next :: time
  ib_last :: "time option"
  ib_owner :: "string option"
  ib_lease :: "time option"
  ib_class :: "string option"
  ib_error :: "string option"
  ib_summary :: jdict
  ib_created :: time
  ib_updated :: time
  ib_completed :: "time option"

record embedding_row =
  em_id :: uuid
  em_tenant :: uuid
  em_event :: "uuid option"
  em_series :: string
  em_version :: string
  em_vector :: "string option"
  em_error :: "rat option"
  em_anomaly :: bool
  em_ciphertext :: "string option"
  em_nonce :: "string option"
  em_key :: "string option"
  em_metadata :: jdict
  em_created :: time

record ig_db = pj_db +
  ingest_batches :: "batch_row list"
  embeddings :: "embedding_row list"

type_synonym 'a ig_prog = "(ig_db, flow_answer, 'a) prog"

text \<open>
  The serialisation of a workflow (\<open>model_dump\<close>, \<open>model_validate\<close>) and \<open>UUID\<close> are library
  functions.
\<close>

record ig_env = pj_env +
  ig_uuid :: "string \<Rightarrow> uuid option"
  ig_dump :: "workflow \<Rightarrow> jdict"
  ig_validate :: "jdict \<Rightarrow> exn + workflow"

abbreviation pj_of :: "ig_env \<Rightarrow> pj_env" where
  "pj_of env \<equiv> \<lparr>pj_dumps = pj_dumps env, pj_repr = pj_repr env, pj_sha256 = pj_sha256 env,
     pj_show_time = pj_show_time env, pj_registry = pj_registry env\<rparr>"

definition processing_lease_seconds :: int where "processing_lease_seconds = 300"
definition processing_max_attempts :: int where "processing_max_attempts = 10"
definition max_ingest_batch_events :: nat where "max_ingest_batch_events = 25"

subsection \<open>Safe events and the receipt\<close>

definition routing_keys :: "string list" where
  "routing_keys = [''source'', ''channel'', ''region'', ''env'', ''environment'', ''product'',
     ''component'', ''namespace'', ''device_id'', ''series_id'', ''label'', ''labels'', ''tags'']"

text \<open>A raw event: its dictionary, and the \<open>created_at\<close> value it carries.\<close>

definition safe_event :: "ig_env \<Rightarrow> jdict \<times> time option \<Rightarrow> exn + meta" where
  "safe_event env ev =
     (let e = fst ev; text = (\<lambda>k dflt n. take n (py_str (pj_repr env) (py_or (jget e k) (JStr dflt)))) in
      if ''event_id'' \<notin> fst ` set e then Inl (LookupError ''event_id'')
      else (case ig_uuid env (py_str (pj_repr env) (jget e ''event_id'')) of
        None \<Rightarrow> Inl (ValueError ''badly formed hexadecimal UUID string'')
      | Some event_id \<Rightarrow>
          if ''tenant_id'' \<notin> fst ` set e then Inl (LookupError ''tenant_id'')
          else (case ig_uuid env (py_str (pj_repr env) (jget e ''tenant_id'')) of
            None \<Rightarrow> Inl (ValueError ''badly formed hexadecimal UUID string'')
          | Some tenant_id \<Rightarrow>
              (case py_int (py_or (jget e ''cipher_len'') (JInt 0)) of
                 Inl x \<Rightarrow> Inl x
               | Inr cipher_len \<Rightarrow>
                   if cipher_len < 0 then Inl (ValueError ''processing cipher_len must be nonnegative'')
                   else Inr \<lparr>mt_event = event_id, mt_tenant = tenant_id,
                     mt_key = text ''key_id'' [] 256, mt_len = cipher_len,
                     mt_content_type = text ''content_type'' ''application/forjd-event+v1'' 128,
                     mt_event_type = text ''event_type'' [] 128,
                     mt_workflow = text ''workflow_id'' [] 128,
                     mt_created = snd ev,
                     mt_routing = (case jget e ''metadata'' of
                         JObj kvs \<Rightarrow> restrict_keys routing_keys kvs | _ \<Rightarrow> [])\<rparr>))))"

fun map_err :: "('a \<Rightarrow> exn + 'b) \<Rightarrow> 'a list \<Rightarrow> exn + 'b list" where
  "map_err f [] = Inr []"
| "map_err f (x # xs) =
     (case f x of Inl e \<Rightarrow> Inl e
      | Inr y \<Rightarrow> (case map_err f xs of Inl e \<Rightarrow> Inl e | Inr ys \<Rightarrow> Inr (y # ys)))"

definition safe_events :: "ig_env \<Rightarrow> (jdict \<times> time option) list \<Rightarrow> exn + meta list" where
  "safe_events env events =
     (if \<not> (1 \<le> length events \<and> length events \<le> max_ingest_batch_events)
      then Inl (ValueError ''processing group is outside the canonical ingest batch limit'')
      else map_err (safe_event env) events)"

definition snapshot_hash :: "ig_env \<Rightarrow> jdict \<Rightarrow> string" where
  "snapshot_hash env snapshot = pj_sha256 env (pj_dumps env (JObj snapshot))"

definition processing_dedupe_key ::
  "ig_env \<Rightarrow> string \<Rightarrow> string \<Rightarrow> string \<Rightarrow> string option \<Rightarrow> uuid list \<Rightarrow> string" where
  "processing_dedupe_key env workflow_id workflow_hash content_type event_type event_ids =
     pj_sha256 env (pj_dumps env (JObj
       [(''workflow_id'', JStr workflow_id), (''workflow_hash'', JStr workflow_hash),
        (''content_type'', JStr content_type),
        (''event_type'', JStr (case event_type of None \<Rightarrow> [] | Some e \<Rightarrow> e)),
        (''event_ids'', JArr (map JStr event_ids))]))"

definition projection_version_of :: "workflow \<Rightarrow> int" where
  "projection_version_of wfl =
     (case pc_projection (wf_pipeline wfl) of None \<Rightarrow> 1 | Some pd \<Rightarrow> pd_version pd)"

definition receipt ::
  "ig_env \<Rightarrow> uuid \<Rightarrow> uuid \<Rightarrow> int \<Rightarrow> string \<Rightarrow> workflow \<Rightarrow> string \<Rightarrow> string option \<Rightarrow> meta list \<Rightarrow>
   uuid list \<Rightarrow> time \<Rightarrow> batch_row" where
  "receipt env bid acceptance ordinal requested_by wfl content_type event_type events tenants t =
     (let snapshot = ig_dump env wfl; hash = snapshot_hash env snapshot in
      \<lparr>ib_id = bid, ib_acceptance = acceptance, ib_ordinal = ordinal,
       ib_key = processing_dedupe_key env (wf_id wfl) hash content_type event_type (map mt_event events),
       ib_requested_by = take 256 requested_by, ib_workflow = wf_id wfl, ib_version = wf_version wfl,
       ib_hash = hash, ib_snapshot = snapshot,
       ib_projection = pc_projection_name (wf_pipeline wfl),
       ib_projection_version = projection_version_of wfl,
       ib_content_type = take 128 content_type,
       ib_event_type = (case event_type of None \<Rightarrow> None
          | Some e \<Rightarrow> if e = [] then None else Some (take 128 e)),
       ib_events = events, ib_event_ids = map mt_event events, ib_tenants = tenants,
       ib_status = B_queued, ib_attempts = 0, ib_max = processing_max_attempts, ib_next = t,
       ib_last = None, ib_owner = None, ib_lease = None, ib_class = None, ib_error = None,
       ib_summary = [], ib_created = t, ib_updated = t, ib_completed = None\<rparr>)"

text \<open>
  The statement of the acceptance transaction: \<open>ON CONFLICT (dedupe_key) DO UPDATE\<close> returns the
  receipt that is already there.
\<close>

definition register_processing_batch ::
  "ig_env \<Rightarrow> uuid \<Rightarrow> uuid \<Rightarrow> int \<Rightarrow> string \<Rightarrow> workflow \<Rightarrow> string \<Rightarrow> string option \<Rightarrow>
   (jdict \<times> time option) list \<Rightarrow> ig_db \<Rightarrow> exn + batch_row \<times> ig_db" where
  "register_processing_batch env bid acceptance ordinal requested_by wfl content_type event_type events d =
     (case safe_events env events of
        Inl e \<Rightarrow> Inl e
      | Inr evs \<Rightarrow>
     (let tenants = sorted_set (map mt_tenant evs) in
      if length tenants \<noteq> 1
      then Inl (ValueError ''each durable processing receipt must contain exactly one tenant'')
      else
     (let row = receipt env bid acceptance ordinal requested_by wfl content_type event_type evs
            tenants (now d);
          same = (\<lambda>b. ib_key b = ib_key row);
          touch = (\<lambda>b. b\<lparr>ib_updated := now d\<rparr>) in
      case first_row same (ingest_batches d) of
        Some b \<Rightarrow> Inr (touch b, d\<lparr>ingest_batches := upd_where same touch (ingest_batches d)\<rparr>)
      | None \<Rightarrow>
          if list_ex (\<lambda>b. ib_id b = bid \<or> (ib_acceptance b = acceptance \<and> ib_ordinal b = ordinal))
               (ingest_batches d)
          then Inl DatabaseError
          else Inr (row, d\<lparr>ingest_batches := ingest_batches d @ [row]\<rparr>))))"

definition batch_order :: "batch_row \<Rightarrow> time \<times> uuid \<times> int \<times> uuid" where
  "batch_order b = (ib_created b, ib_acceptance b, ib_ordinal b, ib_id b)"

definition find_batches_covered_by_retry :: "string \<Rightarrow> uuid list \<Rightarrow> ig_db \<Rightarrow> batch_row list" where
  "find_batches_covered_by_retry workflow_id event_ids d =
     (if event_ids = [] then []
      else sort_key batch_order (filter
        (\<lambda>b. ib_workflow b = workflow_id \<and> set (ib_event_ids b) \<subseteq> set event_ids) (ingest_batches d)))"

subsection \<open>Leases\<close>

definition wake_batch :: "time \<Rightarrow> bool \<Rightarrow> batch_row \<Rightarrow> batch_row" where
  "wake_batch t revive b =
     (let revived = (ib_status b = B_failed \<and> revive) in b\<lparr>
        ib_status := (if revived then B_queued else ib_status b),
        ib_attempts := (if revived then 0 else ib_attempts b),
        ib_next := (if ib_status b \<in> {B_queued, B_retry_scheduled} \<or> revived then t else ib_next b),
        ib_class := (if revived then None else ib_class b),
        ib_error := (if revived then None else ib_error b),
        ib_updated := t\<rparr>)"

definition wake_processing_batches :: "uuid list \<Rightarrow> bool \<Rightarrow> ig_db \<Rightarrow> ig_db" where
  "wake_processing_batches ids revive d =
     (if ids = [] then d
      else d\<lparr>ingest_batches := upd_where
        (\<lambda>b. ib_id b \<in> set ids \<and> ib_status b \<in> {B_queued, B_retry_scheduled, B_failed})
        (wake_batch (now d) revive) (ingest_batches d)\<rparr>)"

definition batch_lease_expired :: "time \<Rightarrow> batch_row \<Rightarrow> bool" where
  "batch_lease_expired t b \<longleftrightarrow> ib_status b = B_running
     \<and> (case ib_lease b of None \<Rightarrow> False | Some e \<Rightarrow> e \<le> t)"

definition recover_batch :: "time \<Rightarrow> batch_row \<Rightarrow> batch_row" where
  "recover_batch t b = b\<lparr>
     ib_status := (if ib_max b \<le> ib_attempts b then B_failed else B_retry_scheduled),
     ib_next := t, ib_owner := None, ib_lease := None,
     ib_class := (case ib_class b of Some c \<Rightarrow> Some c | None \<Rightarrow> Some ''WorkerLeaseExpired''),
     ib_error := (case ib_error b of Some c \<Rightarrow> Some c | None \<Rightarrow> Some ''processing worker lease expired''),
     ib_updated := t\<rparr>"

definition recover_expired_processing_leases :: "ig_db \<Rightarrow> ig_db" where
  "recover_expired_processing_leases d = d\<lparr>ingest_batches :=
     upd_where (batch_lease_expired (now d)) (recover_batch (now d)) (ingest_batches d)\<rparr>"

definition batch_claimable :: "time \<Rightarrow> batch_row \<Rightarrow> bool" where
  "batch_claimable t b \<longleftrightarrow> ib_status b \<in> {B_queued, B_retry_scheduled}
     \<and> ib_attempts b < ib_max b \<and> ib_next b \<le> t
     \<and> (case ib_lease b of None \<Rightarrow> True | Some e \<Rightarrow> e \<le> t)"

definition claim_batch :: "time \<Rightarrow> string \<Rightarrow> batch_row \<Rightarrow> batch_row" where
  "claim_batch t worker b = b\<lparr>ib_status := B_running, ib_attempts := ib_attempts b + 1,
     ib_last := Some t, ib_owner := Some worker,
     ib_lease := Some (t + secs processing_lease_seconds),
     ib_class := None, ib_error := None, ib_updated := t\<rparr>"

definition claim_processing_batches ::
  "string \<Rightarrow> int \<Rightarrow> uuid list option \<Rightarrow> ig_db \<Rightarrow> batch_row list \<times> ig_db" where
  "claim_processing_batches worker batch_size only d =
     (let candidates = take (nat (clamp 1 100 batch_size)) (sort_key batch_order (filter
            (\<lambda>b. batch_claimable (now d) b
               \<and> (case only of None \<Rightarrow> True | Some ids \<Rightarrow> ib_id b \<in> set ids)) (ingest_batches d)))
      in (map (claim_batch (now d) worker) candidates,
          d\<lparr>ingest_batches := upd_where (\<lambda>b. ib_id b \<in> ib_id ` set candidates)
              (claim_batch (now d) worker) (ingest_batches d)\<rparr>))"

definition batch_held :: "batch_row \<Rightarrow> string \<Rightarrow> batch_row \<Rightarrow> bool" where
  "batch_held row worker b \<longleftrightarrow> ib_id b = ib_id row \<and> ib_status b = B_running
     \<and> ib_owner b = Some worker \<and> ib_attempts b = ib_attempts row"

definition heartbeat_stmt :: "batch_row \<Rightarrow> string \<Rightarrow> ig_db \<Rightarrow> nat \<times> ig_db" where
  "heartbeat_stmt row worker d =
     (length (rows_where (batch_held row worker) (ingest_batches d)),
      d\<lparr>ingest_batches := upd_where (batch_held row worker)
          (\<lambda>b. b\<lparr>ib_lease := Some (now d + secs processing_lease_seconds), ib_updated := now d\<rparr>)
          (ingest_batches d)\<rparr>)"

subsection \<open>Processing a claim\<close>

definition validated_claim :: "ig_env \<Rightarrow> batch_row \<Rightarrow> exn + workflow \<times> meta list" where
  "validated_claim env row =
     (if ib_hash row \<noteq> snapshot_hash env (ib_snapshot row)
      then Inl (RuntimeError ''stored workflow snapshot hash mismatch'')
      else (case ig_validate env (ib_snapshot row) of
        Inl e \<Rightarrow> Inl e
      | Inr wfl \<Rightarrow>
          if wf_id wfl \<noteq> ib_workflow row \<or> wf_version wfl \<noteq> ib_version row
             \<or> pc_projection_name (wf_pipeline wfl) \<noteq> ib_projection row
             \<or> projection_version_of wfl \<noteq> ib_projection_version row
          then Inl (RuntimeError ''stored workflow snapshot contract mismatch'')
          else if length (remdups (ib_tenants row)) \<noteq> 1
          then Inl (RuntimeError ''stored processing receipt must contain exactly one tenant'')
          else if map mt_event (ib_events row) \<noteq> ib_event_ids row
          then Inl (RuntimeError ''stored processing event order mismatch'')
          else if set (map mt_tenant (ib_events row)) \<noteq> set (ib_tenants row)
          then Inl (RuntimeError ''stored processing tenant set mismatch'')
          else Inr (wfl, ib_events row)))"

definition failure_delay_seconds :: "int \<Rightarrow> int" where
  "failure_delay_seconds attempts = min 3600 (30 * 2 ^ nat (max 0 (min (attempts - 1) 7)))"

record batch_report =
  br_id :: uuid
  br_ok :: bool
  br_status :: batch_status
  br_written :: nat
  br_dlq :: nat
  br_error :: "string option"

fun dlq_events ::
  "ig_env \<Rightarrow> batch_row \<Rightarrow> exn \<Rightarrow> (uuid \<times> meta) list \<Rightarrow> ig_db \<Rightarrow> ig_db" where
  "dlq_events env row e [] d = d"
| "dlq_events env row e ((i, m) # ms) d =
     dlq_events env row e ms (enqueue_projection_dlq (pj_of env) i (mt_tenant m) (Some (mt_event m))
       (Some (ib_workflow row)) (ib_projection row) (ib_projection_version row)
       (exn_message e) (exn_name e) m d)"

definition failed_batch :: "time \<Rightarrow> batch_row \<Rightarrow> exn \<Rightarrow> batch_row \<Rightarrow> batch_row" where
  "failed_batch t row e b = b\<lparr>
     ib_status := (if ib_max b \<le> ib_attempts b then B_failed else B_retry_scheduled),
     ib_next := t + secs (failure_delay_seconds (ib_attempts row)),
     ib_owner := None, ib_lease := None,
     ib_class := Some (take 128 (exn_name e)), ib_error := Some (take 2000 (exn_message e)),
     ib_updated := t\<rparr>"

definition persist_failure_txn ::
  "ig_env \<Rightarrow> batch_row \<Rightarrow> string \<Rightarrow> (uuid \<times> meta) list \<Rightarrow> exn \<Rightarrow> ig_db \<Rightarrow> exn + unit \<times> ig_db" where
  "persist_failure_txn env row worker events e d =
     (let d1 = dlq_events env row e events d;
          held = batch_held row worker in
      if length (rows_where held (ingest_batches d1)) \<noteq> 1
      then Inl (RuntimeError ''ingest processing lease was lost while recording failure'')
      else Inr ((), d1\<lparr>ingest_batches := upd_where held (failed_batch (now d1) row e)
        (ingest_batches d1)\<rparr>))"

definition persist_processing_failure ::
  "ig_env \<Rightarrow> batch_row \<Rightarrow> string \<Rightarrow> meta list \<Rightarrow> exn \<Rightarrow> batch_report ig_prog" where
  "persist_processing_failure env row worker events e =
     bindM (draw_uuids (length events)) (\<lambda>ids.
     bindM (stmt (persist_failure_txn env row worker (zip ids events) e)) (\<lambda>_.
     ret \<lparr>br_id = ib_id row, br_ok = False,
          br_status = (if ib_max row \<le> ib_attempts row then B_failed else B_retry_scheduled),
          br_written = 0, br_dlq = length events, br_error = Some (exn_message e)\<rparr>))"

definition batch_summary :: "ig_env \<Rightarrow> jdict \<Rightarrow> exn + jdict" where
  "batch_summary env pathway =
     (case int_or_zero (jget pathway ''count'') of Inl e \<Rightarrow> Inl e | Inr n \<Rightarrow>
     (case int_or_zero (jget pathway ''anomaly_count'') of Inl e \<Rightarrow> Inl e | Inr k \<Rightarrow>
      Inr [(''count'', JInt n), (''anomaly_count'', JInt k),
           (''engine'', JStr (py_str (pj_repr env) (py_or (jget pathway ''engine'') (JStr []))))]))"

fun resolve_tenants ::
  "batch_row \<Rightarrow> meta list \<Rightarrow> uuid list \<Rightarrow> ig_db \<Rightarrow> ig_db" where
  "resolve_tenants row events [] d = d"
| "resolve_tenants row events (tid # tids) d = resolve_tenants row events tids
     (resolve_projection_dlq_for_events tid
        (map mt_event (filter (\<lambda>m. mt_tenant m = tid) events))
        (ib_workflow row) (ib_projection row) (ib_projection_version row) d)"

text \<open>The completing transaction: results, dead letters, checkpoint and the fenced receipt.\<close>

definition complete_batch_txn ::
  "ig_env \<Rightarrow> batch_row \<Rightarrow> string \<Rightarrow> meta list \<Rightarrow> jdict \<Rightarrow> uuid list \<Rightarrow> jdict list \<Rightarrow> ig_db \<Rightarrow>
   exn + nat \<times> ig_db" where
  "complete_batch_txn env row worker events summary ids rows d =
     (let tenants = sorted_set (map mt_tenant events) in
      case upsert_stream_results (pj_of env) ids rows (ib_projection_version row)
             (\<lambda>tid. map mt_event (filter (\<lambda>m. mt_tenant m = tid) events)) tenants
             (map mt_event events) d of
        Inl e \<Rightarrow> Inl e
      | Inr (written, d1) \<Rightarrow>
     (let d2 = resolve_tenants row events tenants d1;
          d3 = advance_checkpoint_from_meta events (ib_workflow row) (ib_projection row) d2;
          held = batch_held row worker in
      if length (rows_where held (ingest_batches d3)) \<noteq> 1
      then Inl (RuntimeError ''ingest processing lease was lost before completion'')
      else Inr (written, d3\<lparr>ingest_batches := upd_where held
        (\<lambda>b. b\<lparr>ib_status := B_completed, ib_summary := summary @ [(''written'', JInt (int written))],
           ib_completed := Some (now d3), ib_owner := None, ib_lease := None,
           ib_class := None, ib_error := None, ib_updated := now d3\<rparr>) (ingest_batches d3)\<rparr>)))"

text \<open>The \<open>try\<close> block of \<open>_process_claimed_batch\<close>, then its handler.\<close>

definition run_claimed_batch ::
  "ig_env \<Rightarrow> batch_row \<Rightarrow> string \<Rightarrow> batch_report ig_prog" where
  "run_claimed_batch env row worker =
     bindM (lift (validated_claim env row)) (\<lambda>(wfl, events).
     bindM receive (\<lambda>ans.
     bindM (lift (fa_flow ans)) (\<lambda>(pathway, rows).
     if fa_lease_lost ans
     then raise (RuntimeError ''ingest processing lease was lost during workflow execution'')
     else if \<not> truthy (jget pathway ''ok'')
     then raise (RuntimeError (pathway_error (pj_of env) pathway))
     else
     bindM (lift (batch_summary env pathway)) (\<lambda>summary.
     bindM (draw_uuids (length rows)) (\<lambda>ids.
     bindM (stmt (complete_batch_txn env row worker events summary ids rows)) (\<lambda>written.
     ret \<lparr>br_id = ib_id row, br_ok = True, br_status = B_completed, br_written = written,
          br_dlq = 0, br_error = None\<rparr>))))))"

definition process_claimed_batch ::
  "ig_env \<Rightarrow> batch_row \<Rightarrow> string \<Rightarrow> batch_report ig_prog" where
  "process_claimed_batch env row worker =
     catch (run_claimed_batch env row worker)
       (\<lambda>e. persist_processing_failure env row worker (ib_events row) e)"

subsection \<open>The tick and the status\<close>

definition unpersisted :: "batch_row \<Rightarrow> batch_report" where
  "unpersisted row = \<lparr>br_id = ib_id row, br_ok = False, br_status = B_running, br_written = 0,
     br_dlq = 0, br_error = Some ''processing persistence failed; lease recovery will retry''\<rparr>"

fun process_batches ::
  "ig_env \<Rightarrow> string \<Rightarrow> nat \<Rightarrow> uuid list option \<Rightarrow> batch_report list \<Rightarrow> batch_report list ig_prog" where
  "process_batches env worker 0 remaining out = ret out"
| "process_batches env worker (Suc n) remaining out =
     (if remaining = Some [] then ret out
      else bindM (stmt (\<lambda>d. Inr (claim_processing_batches worker 1 remaining d))) (\<lambda>claimed.
        case claimed of
          [] \<Rightarrow> ret out
        | row # _ \<Rightarrow>
            bindM (catch (process_claimed_batch env row worker) (\<lambda>_. ret (unpersisted row))) (\<lambda>rep.
            process_batches env worker n
              (map_option (filter (\<lambda>i. i \<noteq> ib_id row)) remaining) (out @ [rep]))))"

definition tick_ingest_processing ::
  "ig_env \<Rightarrow> int \<Rightarrow> string option \<Rightarrow> uuid list option \<Rightarrow> bool \<Rightarrow> batch_report list ig_prog" where
  "tick_ingest_processing env batch_size worker_id batch_ids is_ready =
     bindM (if is_ready then ret ()
            else ensure_schema ''durable ingest processing schema missing; apply backend/sql/024'') (\<lambda>_.
     if batch_ids = Some [] then ret []
     else
     bindM (case worker_id of Some w \<Rightarrow> ret w | None \<Rightarrow> uuid4) (\<lambda>worker.
     bindM (stmt (\<lambda>d. Inr ((), recover_expired_processing_leases d))) (\<lambda>_.
     process_batches env worker (nat (clamp 1 100 batch_size)) (map_option remdups batch_ids) [])))"

definition fetch_processing_batch_states :: "uuid list \<Rightarrow> ig_db \<Rightarrow> batch_row list" where
  "fetch_processing_batch_states ids d =
     sort_key batch_order (filter (\<lambda>b. ib_id b \<in> set ids) (ingest_batches d))"

fun require_all :: "auth_user \<Rightarrow> uuid list \<Rightarrow> unit ig_prog" where
  "require_all user [] = ret ()"
| "require_all user (t # ts) =
     bindM (require_tenant_access user t (Some [''owner'', ''admin'', ''member''])
        (Some [''ingest:read''])) (\<lambda>_. require_all user ts)"

definition get_processing_batch_status :: "auth_user \<Rightarrow> uuid \<Rightarrow> batch_row ig_prog" where
  "get_processing_batch_status user bid =
     bindM (query (\<lambda>d. first_row (\<lambda>b. ib_id b = bid) (ingest_batches d))) (\<lambda>found. case found of
       None \<Rightarrow> raise (LookupError ''ingest processing batch not found'')
     | Some row \<Rightarrow> bindM (require_all user (ib_tenants row)) (\<lambda>_. ret row))"

end
