(* ===== verification/Crypto.thy ===== *)
theory Crypto
  imports Py_Values
begin

section \<open>Envelopes: base64, sizes, sealing\<close>

text \<open>
  \<open>core/crypto.py\<close>: the encoding helpers, the checks a sealed envelope passes before it is stored,
  and the client side that seals and opens it.  A byte string is a list of \<open>char\<close>.  The
  ciphers, the key agreement and the hash are the \<open>cryptography\<close> package: they are parameters.
\<close>

subsection \<open>base64, as \<open>b64encode\<close> and \<open>b64decode(.., validate=True)\<close> do it\<close>

definition b64_char :: "nat \<Rightarrow> char" where
  "b64_char n = char_of (if n < 26 then n + 65 else if n < 52 then n + 71 else if n < 62 then n - 4
     else if n = 62 then 43 else 47)"

definition b64_value :: "char \<Rightarrow> nat option" where
  "b64_value c = (let n = code_point c in
     if 65 \<le> n \<and> n \<le> 90 then Some (n - 65)
     else if 97 \<le> n \<and> n \<le> 122 then Some (n - 71)
     else if 48 \<le> n \<and> n \<le> 57 then Some (n + 4)
     else if n = 43 then Some 62
     else if n = 47 then Some 63
     else None)"

fun b64encode :: "string \<Rightarrow> string" where
  "b64encode [] = []"
| "b64encode [a] = (let x = code_point a in
     [b64_char (x div 4), b64_char (x mod 4 * 16), CHR ''='', CHR ''=''])"
| "b64encode [a, b] = (let x = code_point a; y = code_point b in
     [b64_char (x div 4), b64_char (x mod 4 * 16 + y div 16), b64_char (y mod 16 * 4), CHR ''=''])"
| "b64encode (a # b # c # s) = (let x = code_point a; y = code_point b; z = code_point c in
     b64_char (x div 4) # b64_char (x mod 4 * 16 + y div 16)
       # b64_char (y mod 16 * 4 + z div 64) # b64_char (z mod 64) # b64encode s)"

text \<open>
  The loop of \<open>binascii.a2b_base64\<close> in strict mode: the position in the quad, the bits left over,
  the padding seen in this quad, and whether padding has started.  Padding after a complete quad
  is skipped.
\<close>

fun a2b :: "nat \<Rightarrow> nat \<Rightarrow> nat \<Rightarrow> bool \<Rightarrow> string \<Rightarrow> string option" where
  "a2b quad left pads started [] = (if quad = 0 then Some [] else None)"
| "a2b quad left pads started (c # cs) =
     (if c = CHR ''='' then
        (if quad < 2 then a2b quad left pads True cs
         else if 4 \<le> quad + Suc pads then (if cs = [] then Some [] else None)
         else a2b quad left (Suc pads) True cs)
      else (case b64_value c of
          None \<Rightarrow> None
        | Some v \<Rightarrow>
            if started then None
            else if quad = 0 then a2b 1 v 0 False cs
            else if quad = 1 then
              map_option ((#) (char_of (left * 4 + v div 16))) (a2b 2 (v mod 16) 0 False cs)
            else if quad = 2 then
              map_option ((#) (char_of (left * 16 + v div 4))) (a2b 3 (v mod 4) 0 False cs)
            else map_option ((#) (char_of (left * 64 + v))) (a2b 0 0 0 False cs)))"

definition b64decode :: "string \<Rightarrow> exn + string" where
  "b64decode s = (case (if s \<noteq> [] \<and> hd s = CHR ''='' then None else a2b 0 0 0 False s) of
     None \<Rightarrow> Inl (ValueError ''invalid base64'') | Some bs \<Rightarrow> Inr bs)"

text \<open>Encoding and decoding of one sextet.\<close>

lemma b64_value_char: "n < 64 \<Longrightarrow> b64_value (b64_char n) = Some n"
  by (auto simp: b64_char_def b64_value_def code_point_char_of Let_def)

lemma b64_char_pad: "n < 64 \<Longrightarrow> b64_char n \<noteq> CHR ''=''"
proof
  assume "n < 64" and "b64_char n = CHR ''=''"
  with b64_value_char [of n] show False by (simp add: b64_value_def code_point_def)
qed

lemma code_point_less: "code_point c < 256"
  by (simp add: code_point_def)

lemma char_of_code_point [simp]: "char_of (code_point c) = c"
  by (simp add: code_point_def)

lemma sextets:
  fixes x y z :: nat
  assumes "x < 256" and "y < 256" and "z < 256"
  shows "x div 4 < 64" and "x mod 4 * 16 + y div 16 < 64" and "y mod 16 * 4 + z div 64 < 64" and "z mod 64 < 64"
    and "x div 4 * 4 + (x mod 4 * 16 + y div 16) div 16 = x"
    and "(x mod 4 * 16 + y div 16) mod 16 * 16 + (y mod 16 * 4 + z div 64) div 4 = y"
    and "(y mod 16 * 4 + z div 64) mod 4 * 64 + z mod 64 = z"
proof -
  have glue: "(a * m + b) div m = a" "(a * m + b) mod m = b" if "b < m" for a b m :: nat
    using that by simp_all
  show "x div 4 < 64" "z mod 64 < 64" using assms(1) by simp_all
  have b: "y div 16 < 16" "z div 64 < 4" using assms by simp_all
  then show "x mod 4 * 16 + y div 16 < 64" "y mod 16 * 4 + z div 64 < 64"
    using pos_mod_bound [of 4 x] pos_mod_bound [of 16 y] by auto
  from b show "x div 4 * 4 + (x mod 4 * 16 + y div 16) div 16 = x"
    "(x mod 4 * 16 + y div 16) mod 16 * 16 + (y mod 16 * 4 + z div 64) div 4 = y"
    "(y mod 16 * 4 + z div 64) mod 4 * 64 + z mod 64 = z"
    by (simp_all only: glue div_mult_mod_eq)
qed

lemma a2b_encode: "a2b 0 0 0 False (b64encode s) = Some s"
proof (induction s rule: b64encode.induct)
  case (2 a)
  with sextets [OF code_point_less [of a], of 0 0] show ?case
    by (simp add: Let_def b64_value_char b64_char_pad)
next
  case (3 a b)
  with sextets [OF code_point_less [of a] code_point_less [of b], of 0] show ?case
    by (simp add: Let_def b64_value_char b64_char_pad)
next
  case (4 a b c s)
  with sextets [OF code_point_less [of a] code_point_less [of b] code_point_less [of c]] show ?case
    by (simp add: Let_def b64_value_char b64_char_pad)
qed simp

lemma hd_encode: "s \<noteq> [] \<Longrightarrow> hd (b64encode s) \<noteq> CHR ''=''"
  using sextets [OF code_point_less code_point_less code_point_less]
  by (cases s rule: b64encode.cases) (auto simp: Let_def b64_char_pad)

lemma b64_round_trip: "b64decode (b64encode s) = Inr s"
  using hd_encode [of s] by (cases s) (auto simp: b64decode_def a2b_encode)

lemma b64encode_length: "length (b64encode s) = 4 * ((length s + 2) div 3)"
proof (induction s rule: b64encode.induct)
  case (4 a b c s)
  have "(length s + 5) div 3 = (length s + 2) div 3 + 1" by presburger
  with 4 show ?case by (simp add: Let_def add.commute)
qed (auto simp: Let_def)

text \<open>Without padding, decoding is injective: a byte string has one such text.\<close>

lemma b64_value_inj: "b64_value c = Some v \<Longrightarrow> b64_value c' = Some v \<Longrightarrow> c = c'"
proof -
  assume "b64_value c = Some v" "b64_value c' = Some v"
  then have "code_point c = code_point c'" by (auto simp: b64_value_def Let_def split: if_splits)
  then show "c = c'" by (metis char_of_code_point)
qed

lemma b64_value_less: "b64_value c = Some v \<Longrightarrow> v < 64"
  by (auto simp: b64_value_def Let_def split: if_splits)

lemma char_of_glue:
  assumes "char_of (l * m + a) = (char_of (l' * m + a') :: char)" and "a < m" and "a' < m"
    and "l * m + a < 256" and "l' * m + a' < 256"
  shows "l = l' \<and> a = (a' :: nat)"
proof -
  have "l * m + a = l' * m + a'" using assms(1,4,5) by (metis code_point_char_of)
  then have "(l * m + a) div m = (l' * m + a') div m" "(l * m + a) mod m = (l' * m + a') mod m" by simp_all
  with assms(2,3) show ?thesis by simp
qed

lemma div_mod_eq: "v div m = v' div m \<Longrightarrow> v mod m = v' mod m \<Longrightarrow> v = (v' :: nat)"
  by (metis div_mult_mod_eq)

definition quad_ok :: "nat \<Rightarrow> nat \<Rightarrow> bool" where
  "quad_ok q l \<longleftrightarrow> (q, l) = (0, 0) \<or> q = 1 \<and> l < 64 \<or> q = 2 \<and> l < 16 \<or> q = 3 \<and> l < 4"

lemma a2b_data:
  assumes "c \<noteq> CHR ''=''" and "b64_value c = Some v"
  shows "a2b 0 l p False (c # cs) = a2b 1 v 0 False cs"
    and "a2b 1 l p False (c # cs) = map_option ((#) (char_of (l * 4 + v div 16))) (a2b 2 (v mod 16) 0 False cs)"
    and "a2b 2 l p False (c # cs) = map_option ((#) (char_of (l * 16 + v div 4))) (a2b 3 (v mod 4) 0 False cs)"
    and "a2b 3 l p False (c # cs) = map_option ((#) (char_of (l * 64 + v))) (a2b 0 0 0 False cs)"
  using assms by simp_all

lemma a2b_valued:
  "a2b q l p False (c # cs) = Some bs \<Longrightarrow> c \<noteq> CHR ''='' \<Longrightarrow> \<exists>v. b64_value c = Some v \<and> v < 64"
  by (cases "b64_value c") (auto dest: b64_value_less)

lemma a2b_nonempty:
  assumes "CHR ''='' \<notin> set (c # cs)" and "quad_ok q l"
  shows "a2b q l p False (c # cs) \<noteq> Some []"
proof
  assume n: "a2b q l p False (c # cs) = Some []"
  with a2b_valued [OF this] assms(1) obtain v where v: "b64_value c = Some v" "c \<noteq> CHR ''=''" by auto
  note step = a2b_data [OF v(2,1)]
  from n assms(2) step have "a2b 1 v 0 False cs = Some []" unfolding quad_ok_def by auto
  then show False
  proof (cases cs)
    case (Cons d ds)
    with \<open>a2b 1 v 0 False cs = Some []\<close> a2b_valued [of 1 v 0 d ds "[]"] assms(1)
    obtain u where "b64_value d = Some u" "d \<noteq> CHR ''=''" by auto
    with \<open>a2b 1 v 0 False cs = Some []\<close> Cons a2b_data(2) [of d u v 0 ds] show ?thesis by simp
  qed simp
qed

declare a2b.simps [simp del]

lemma a2b_unpadded_inj:
  assumes "a2b q l p False s = Some bs" and "a2b q l' p' False t = Some bs"
    and "CHR ''='' \<notin> set s" and "CHR ''='' \<notin> set t" and "quad_ok q l" and "quad_ok q l'"
  shows "l = l' \<and> s = t"
  using assms
proof (induction s arbitrary: q l p l' p' t bs)
  case Nil
  then have z: "q = 0" "bs = []" by (auto simp: a2b.simps(1) split: if_splits)
  with Nil a2b_nonempty [of _ _ q l' p'] have "t = []" by (cases t) auto
  with z Nil show ?case by (simp add: quad_ok_def)
next
  case (Cons c cs)
  then have "bs \<noteq> []" using a2b_nonempty [of c cs q l p] by auto
  with Cons.prems(2) obtain c' cs' where t: "t = c' # cs'"
    by (cases t) (auto simp: a2b.simps(1) split: if_splits)
  from Cons.prems(3,4) t have pads: "c \<noteq> CHR ''=''" "c' \<noteq> CHR ''=''" "CHR ''='' \<notin> set cs" "CHR ''='' \<notin> set cs'"
    by auto
  from Cons.prems(1) pads(1) obtain v where v: "b64_value c = Some v" "v < 64" using a2b_valued by blast
  from Cons.prems(2) pads(2) t obtain v' where v': "b64_value c' = Some v'" "v' < 64" using a2b_valued by blast
  note step = a2b_data [OF pads(1) v(1)] a2b_data [OF pads(2) v'(1)]
  note s = Cons.prems(1) Cons.prems(2) [unfolded t]
  consider "q = 0" "l = 0" "l' = 0" | "q = 1" "l < 64" "l' < 64" | "q = 2" "l < 16" "l' < 16" | "q = 3" "l < 4" "l' < 4"
    using Cons.prems(5,6) by (auto simp: quad_ok_def)
  then have "l = l' \<and> v = v' \<and> cs = cs'"
  proof cases
    case 1
    with s step have "a2b 1 v 0 False cs = Some bs" "a2b 1 v' 0 False cs' = Some bs" by simp_all
    with Cons.IH [OF this pads(3,4)] v v' 1 show ?thesis by (simp add: quad_ok_def)
  next
    case 2
    with s step obtain as where
      b: "a2b 2 (v mod 16) 0 False cs = Some as" "a2b 2 (v' mod 16) 0 False cs' = Some as"
        "char_of (l * 4 + v div 16) = (char_of (l' * 4 + v' div 16) :: char)" by auto
    from Cons.IH [OF b(1,2) pads(3,4)] have "v mod 16 = v' mod 16 \<and> cs = cs'" by (simp add: quad_ok_def)
    moreover from 2 v v' have "l = l' \<and> v div 16 = v' div 16" by (intro char_of_glue [OF b(3)]) auto
    ultimately show ?thesis using div_mod_eq by blast
  next
    case 3
    with s step obtain as where
      b: "a2b 3 (v mod 4) 0 False cs = Some as" "a2b 3 (v' mod 4) 0 False cs' = Some as"
        "char_of (l * 16 + v div 4) = (char_of (l' * 16 + v' div 4) :: char)" by auto
    from Cons.IH [OF b(1,2) pads(3,4)] have "v mod 4 = v' mod 4 \<and> cs = cs'" by (simp add: quad_ok_def)
    moreover from 3 v v' have "l = l' \<and> v div 4 = v' div 4" by (intro char_of_glue [OF b(3)]) auto
    ultimately show ?thesis using div_mod_eq by blast
  next
    case 4
    with s step obtain as where
      b: "a2b 0 0 0 False cs = Some as" "a2b 0 0 0 False cs' = Some as"
        "char_of (l * 64 + v) = (char_of (l' * 64 + v') :: char)" by auto
    from Cons.IH [OF b(1,2) pads(3,4)] have "cs = cs'" by (simp add: quad_ok_def)
    moreover from 4 v v' have "l = l' \<and> v = v'" by (intro char_of_glue [OF b(3)]) auto
    ultimately show ?thesis by blast
  qed
  with t v v' b64_value_inj show ?case by blast
qed

lemma b64decode_inj:
  assumes "b64decode s = Inr bs" and "b64decode t = Inr bs" and "CHR ''='' \<notin> set s" and "CHR ''='' \<notin> set t"
  shows "s = t"
  using assms a2b_unpadded_inj [of 0 0 0 s bs 0 0 t]
  by (auto simp: b64decode_def quad_ok_def split: option.splits if_splits)

subsection \<open>Envelopes\<close>

text \<open>
  The package: SHA-256 in hex, AES-256-GCM, X25519 (public key of a private key, exchange, and
  which 32 bytes are a public key) and HKDF.
\<close>

record crypto_env =
  cr_sha256 :: "string \<Rightarrow> string"
  cr_encrypt :: "string \<Rightarrow> string \<Rightarrow> string \<Rightarrow> string \<Rightarrow> string"
  cr_decrypt :: "string \<Rightarrow> string \<Rightarrow> string \<Rightarrow> string \<Rightarrow> string option"
  cr_public :: "string \<Rightarrow> string"
  cr_public_ok :: "string \<Rightarrow> bool"
  cr_exchange :: "string \<Rightarrow> string \<Rightarrow> string option"
  cr_hkdf :: "string \<Rightarrow> string \<Rightarrow> string"

record sealed_envelope =
  sl_algo :: string
  sl_key :: string
  sl_nonce :: string
  sl_ciphertext :: string
  sl_ratchet :: "string option"
  sl_sha256 :: string

definition algo_aes_256_gcm :: string where "algo_aes_256_gcm = ''aes-256-gcm''"
definition gcm_nonce_bytes :: nat where "gcm_nonce_bytes = 12"
definition aes_key_bytes :: nat where "aes_key_bytes = 32"
definition x25519_key_bytes :: nat where "x25519_key_bytes = 32"

definition crypto_error :: "string \<Rightarrow> exn" where "crypto_error s = ValueError s"

definition validate_sizes :: "crypto_env \<Rightarrow> sealed_envelope \<Rightarrow> exn + unit" where
  "validate_sizes env e =
     (if sl_algo e \<noteq> algo_aes_256_gcm then Inl (crypto_error (''unsupported algo: '' @ sl_algo e))
      else (case b64decode (sl_nonce e) of
        Inl x \<Rightarrow> Inl x
      | Inr nonce \<Rightarrow>
          if length nonce \<noteq> gcm_nonce_bytes then Inl (crypto_error ''nonce must be 12 bytes (AES-GCM)'')
          else (case b64decode (sl_ciphertext e) of
            Inl x \<Rightarrow> Inl x
          | Inr ct \<Rightarrow>
              if length ct < 17 then Inl (crypto_error ''ciphertext too short'')
              else if cr_sha256 env ct \<noteq> py_lower (sl_sha256 e)
              then Inl (crypto_error ''ciphertext_sha256 mismatch'')
              else Inr ())))"

text \<open>\<open>str.encode()\<close>: UTF-8, on the code points a \<open>char\<close> has.\<close>

definition utf8 :: "string \<Rightarrow> string" where
  "utf8 s = concat (map (\<lambda>c. let n = code_point c in
     if n < 128 then [c] else [char_of (192 + n div 64), char_of (128 + n mod 64)]) s)"

definition associated_data :: "string \<Rightarrow> string \<Rightarrow> string" where
  "associated_data tenant client = utf8 (tenant @ ''|'' @ client)"

definition hkdf_info_session :: string where "hkdf_info_session = ''forjd-session-v1''"

definition derive_session_key :: "crypto_env \<Rightarrow> string \<Rightarrow> string \<Rightarrow> string \<Rightarrow> exn + string" where
  "derive_session_key env private peer session =
     (if length private \<noteq> x25519_key_bytes \<or> length peer \<noteq> x25519_key_bytes
      then Inl (crypto_error ''X25519 keys must be 32 bytes'')
      else if session = [] then Inl (crypto_error ''session_id required'')
      else (case cr_exchange env private peer of
          None \<Rightarrow> Inl (crypto_error ''X25519 ECDH failed'')
        | Some shared \<Rightarrow> Inr (cr_hkdf env (hkdf_info_session @ ''|'' @ utf8 session) shared)))"

definition validate_x25519_public_b64 :: "crypto_env \<Rightarrow> string \<Rightarrow> exn + string" where
  "validate_x25519_public_b64 env v =
     (case b64decode v of
        Inl x \<Rightarrow> Inl x
      | Inr raw \<Rightarrow>
          if length raw \<noteq> x25519_key_bytes then Inl (crypto_error ''X25519 public key must be 32 bytes'')
          else if \<not> cr_public_ok env raw then Inl (crypto_error ''invalid X25519 public key'')
          else Inr v)"

text \<open>\<open>seal\<close>, given the nonce \<open>os.urandom\<close> returned.\<close>

definition seal ::
  "crypto_env \<Rightarrow> string \<Rightarrow> string \<Rightarrow> string \<Rightarrow> string \<Rightarrow> string \<Rightarrow> string \<Rightarrow> string option \<Rightarrow>
   exn + sealed_envelope" where
  "seal env nonce plaintext k key_id tenant client ratchet =
     (if length k \<noteq> aes_key_bytes then Inl (crypto_error ''AES-256 key must be 32 bytes'')
      else let ct = cr_encrypt env k nonce plaintext (associated_data tenant client) in
        Inr \<lparr>sl_algo = algo_aes_256_gcm, sl_key = key_id, sl_nonce = b64encode nonce,
             sl_ciphertext = b64encode ct, sl_ratchet = ratchet, sl_sha256 = cr_sha256 env ct\<rparr>)"

definition open_envelope ::
  "crypto_env \<Rightarrow> sealed_envelope \<Rightarrow> string \<Rightarrow> string \<Rightarrow> string \<Rightarrow> exn + string" where
  "open_envelope env e k tenant client =
     (case validate_sizes env e of
        Inl x \<Rightarrow> Inl x
      | Inr _ \<Rightarrow>
          if length k \<noteq> aes_key_bytes then Inl (crypto_error ''AES-256 key must be 32 bytes'')
          else (case b64decode (sl_nonce e) of Inl x \<Rightarrow> Inl x | Inr nonce \<Rightarrow>
               (case b64decode (sl_ciphertext e) of Inl x \<Rightarrow> Inl x | Inr ct \<Rightarrow>
               (case cr_decrypt env k nonce ct (associated_data tenant client) of
                  None \<Rightarrow> Inl (crypto_error ''decryption failed'')
                | Some p \<Rightarrow> Inr p))))"

definition seal_with_x25519 ::
  "crypto_env \<Rightarrow> string \<Rightarrow> string \<Rightarrow> string \<Rightarrow> string \<Rightarrow> string \<Rightarrow> string \<Rightarrow> string \<Rightarrow> string option \<Rightarrow>
   exn + sealed_envelope" where
  "seal_with_x25519 env nonce plaintext private peer session tenant client ratchet =
     (case derive_session_key env private peer session of
        Inl x \<Rightarrow> Inl x
      | Inr k \<Rightarrow> seal env nonce plaintext k session tenant client ratchet)"

subsection \<open>Sealing and opening\<close>

text \<open>
  What the package documents: GCM opens what it sealed under the same key, nonce and associated
  data and adds a 16-byte tag; \<open>hexdigest\<close> is lower case; both ends of an X25519 exchange agree;
  HKDF returns the 32 bytes asked for.
\<close>

definition crypto_laws :: "crypto_env \<Rightarrow> bool" where
  "crypto_laws env \<longleftrightarrow>
     (\<forall>k n p a. cr_decrypt env k n (cr_encrypt env k n p a) a = Some p
        \<and> length (cr_encrypt env k n p a) = length p + 16)
     \<and> (\<forall>x. py_lower (cr_sha256 env x) = cr_sha256 env x)
     \<and> (\<forall>a b. cr_exchange env a (cr_public env b) = cr_exchange env b (cr_public env a))
     \<and> (\<forall>i s. length (cr_hkdf env i s) = 32)"

lemma seal_opens:
  assumes "crypto_laws env" and "length nonce = 12" and "plaintext \<noteq> []"
    and "seal env nonce plaintext k key_id tenant client ratchet = Inr e"
  shows "validate_sizes env e = Inr () \<and> open_envelope env e k tenant client = Inr plaintext"
  using assms
  by (cases plaintext)
    (auto simp: seal_def open_envelope_def validate_sizes_def crypto_laws_def b64_round_trip
      gcm_nonce_bytes_def Let_def split: if_splits)

text \<open>
  C15: What one peer seals for the other's public key passes the server's checks, and the other peer
  opens it to the same plaintext with its own private key, for any non-empty plaintext.
\<close>

theorem envelope_round_trip:
  assumes "crypto_laws env" and "length nonce = 12" and "plaintext \<noteq> []"
    and "length b = 32" and "length (cr_public env a) = 32"
    and "seal_with_x25519 env nonce plaintext a (cr_public env b) session tenant client ratchet = Inr e"
  shows "validate_sizes env e = Inr () \<and> sl_key e = session
    \<and> (\<exists>k. derive_session_key env b (cr_public env a) session = Inr k
        \<and> open_envelope env e k tenant client = Inr plaintext)"
proof -
  from assms(6) obtain k where k: "derive_session_key env a (cr_public env b) session = Inr k"
    and e: "seal env nonce plaintext k session tenant client ratchet = Inr e"
    by (auto simp: seal_with_x25519_def split: sum.splits)
  from assms(1) have "cr_exchange env a (cr_public env b) = cr_exchange env b (cr_public env a)"
    by (simp add: crypto_laws_def)
  with k assms(4,5) have "derive_session_key env b (cr_public env a) session = Inr k"
    by (auto simp: derive_session_key_def x25519_key_bytes_def split: if_splits option.splits)
  moreover from e have "sl_key e = session" by (auto simp: seal_def Let_def split: if_splits)
  ultimately show ?thesis using seal_opens [OF assms(1-3) e] by blast
qed

definition demo_crypto :: crypto_env where
  "demo_crypto = \<lparr>cr_sha256 = (\<lambda>_. ''00''), cr_encrypt = (\<lambda>k n p a. p @ replicate 16 (CHR ''t'')),
     cr_decrypt = (\<lambda>k n c a. Some (take (length c - 16) c)), cr_public = (\<lambda>s. s),
     cr_public_ok = (\<lambda>_. True), cr_exchange = (\<lambda>a b. Some (if a \<le> b then a @ b else b @ a)),
     cr_hkdf = (\<lambda>i s. replicate 32 (CHR ''k''))\<rparr>"

lemma demo_crypto_laws: "crypto_laws demo_crypto"
  by (auto simp: crypto_laws_def demo_crypto_def py_lower_def lower_char_def code_point_def)

theorem envelope_round_trip_witness:
  "\<exists>e k. seal_with_x25519 demo_crypto (replicate 12 (CHR ''n'')) ''hello'' (replicate 32 (CHR ''a''))
       (cr_public demo_crypto (replicate 32 (CHR ''b''))) ''s1'' ''T'' ''e1'' None = Inr e
     \<and> open_envelope demo_crypto e k ''T'' ''e1'' = Inr ''hello''"
proof -
  obtain e where e: "seal_with_x25519 demo_crypto (replicate 12 (CHR ''n'')) ''hello'' (replicate 32 (CHR ''a''))
       (cr_public demo_crypto (replicate 32 (CHR ''b''))) ''s1'' ''T'' ''e1'' None = Inr e"
    by (simp add: seal_with_x25519_def derive_session_key_def seal_def demo_crypto_def
        x25519_key_bytes_def aes_key_bytes_def Let_def)
  have "length (replicate 12 (CHR ''n'')) = 12" "length (replicate 32 (CHR ''b'')) = 32"
    "length (cr_public demo_crypto (replicate 32 (CHR ''a''))) = 32"
    by (simp_all only: length_replicate, simp add: demo_crypto_def)
  from envelope_round_trip [OF demo_crypto_laws this(1) _ this(2,3) e] e show ?thesis by blast
qed





subsection \<open>Nonces\<close>

lemma validate_sizes_ok:
  assumes "validate_sizes env e = Inr ()"
  obtains nonce ct where "b64decode (sl_nonce e) = Inr nonce" and "length nonce = 12"
    and "b64decode (sl_ciphertext e) = Inr ct" and "17 \<le> length ct"
    and "cr_sha256 env ct = py_lower (sl_sha256 e)"
  using assms by (auto simp: validate_sizes_def gcm_nonce_bytes_def split: if_splits sum.splits)

text \<open>
  Two validated envelopes whose nonces are written without padding carry the same twelve bytes
  exactly when the texts are equal, which is what the unique index on the text compares.
\<close>

theorem nonce_text_is_nonce:
  assumes "validate_sizes env e = Inr ()" and "validate_sizes env e' = Inr ()"
    and "CHR ''='' \<notin> set (sl_nonce e)" and "CHR ''='' \<notin> set (sl_nonce e')"
  shows "(\<exists>n. b64decode (sl_nonce e) = Inr n \<and> length n = 12)
    \<and> (b64decode (sl_nonce e) = b64decode (sl_nonce e') \<longleftrightarrow> sl_nonce e = sl_nonce e')"
proof -
  from assms(1) obtain n where n: "b64decode (sl_nonce e) = Inr n" "length n = 12" by (rule validate_sizes_ok)
  moreover from assms(2) obtain n' where "b64decode (sl_nonce e') = Inr n'" by (rule validate_sizes_ok)
  ultimately show ?thesis using assms(3,4) b64decode_inj by force
qed

definition demo_envelope :: "string \<Rightarrow> sealed_envelope" where
  "demo_envelope nonce = \<lparr>sl_algo = ''aes-256-gcm'', sl_key = ''s1'', sl_nonce = nonce,
     sl_ciphertext = b64encode (replicate 17 (CHR ''c'')), sl_ratchet = None, sl_sha256 = ''00''\<rparr>"

lemma demo_envelope_ok:
  "validate_sizes demo_crypto (demo_envelope ''AAAAAAAAAAAAAAAA'') = Inr ()"
  "validate_sizes demo_crypto (demo_envelope ''AAAAAAAAAAAAAAAB'') = Inr ()"
  by code_simp+

theorem nonce_text_is_nonce_witness:
  "b64decode ''AAAAAAAAAAAAAAAA'' \<noteq> b64decode ''AAAAAAAAAAAAAAAB''"
  using nonce_text_is_nonce [OF demo_envelope_ok] by (simp add: demo_envelope_def)

text \<open>
  Padding after a complete quad is skipped, so the same nonce has several accepted texts, which the
  unique index does not identify.
\<close>

lemma a2b_excess_pad:
  "a2b q l p False s = Some bs \<Longrightarrow> CHR ''='' \<notin> set s \<Longrightarrow> a2b q l p False (s @ ''='') = Some bs"
proof (induction s arbitrary: q l p bs)
  case Nil
  then show ?case by (auto simp: a2b.simps split: if_splits)
next
  case (Cons c cs)
  then show ?case by (auto simp: a2b.simps(2) split: if_splits option.splits)
qed

theorem padded_nonce_same_bytes:
  assumes "validate_sizes env e = Inr ()" and "CHR ''='' \<notin> set (sl_nonce e)"
  shows "validate_sizes env (e\<lparr>sl_nonce := sl_nonce e @ ''=''\<rparr>) = Inr ()
    \<and> b64decode (sl_nonce e @ ''='') = b64decode (sl_nonce e)"
proof -
  from assms(1) obtain n where n: "b64decode (sl_nonce e) = Inr n" by (rule validate_sizes_ok)
  then have "b64decode (sl_nonce e @ ''='') = Inr n \<and> sl_nonce e \<noteq> []"
    using a2b_excess_pad [OF _ assms(2), of 0 0 0 n] assms
    by (cases "sl_nonce e")
      (auto simp: b64decode_def validate_sizes_def a2b.simps(1) gcm_nonce_bytes_def split: option.splits if_splits)
  with assms(1) n show ?thesis by (auto simp: validate_sizes_def split: if_splits sum.splits)
qed

end
