(* ===== verification/Ingest_Requests.thy ===== *)
theory Ingest_Requests
  imports Crypto
begin

section \<open>Ingest requests\<close>

text \<open>
  \<open>models/ingest.py\<close>: what a sealed event, its envelope and an embedding look like on the wire, and
  the validators that keep plaintext out of the routing metadata.
\<close>

definition max_ciphertext_base64_characters :: nat where "max_ciphertext_base64_characters = 1048576"

record event_request =
  er_tenant :: uuid
  er_client :: string
  er_occurred :: "time option"
  er_content_type :: string
  er_event_type :: "string option"
  er_schema :: int
  er_workflow :: "string option"
  er_mode :: string
  er_enc_algo :: string
  er_envelope :: sealed_envelope
  er_metadata :: jdict

text \<open>\<open>_strip_optional\<close>\<close>

definition strip_optional :: "string option \<Rightarrow> string option" where
  "strip_optional v = (case v of None \<Rightarrow> None
     | Some s \<Rightarrow> (let cleaned = py_strip s in if cleaned = [] then None else Some cleaned))"

subsection \<open>Routing metadata\<close>

definition allowed_metadata_keys :: "string list" where
  "allowed_metadata_keys = [''source'', ''channel'', ''region'', ''env'', ''environment'', ''product'',
     ''component'', ''namespace'', ''device_id'', ''series_id'', ''label'', ''labels'', ''tags'']"

definition list_metadata_keys :: "string list" where
  "list_metadata_keys = [''labels'', ''tags'']"

definition forbidden_metadata_substr :: "string list" where
  "forbidden_metadata_substr = [''password'', ''secret'', ''token'', ''plaintext'', ''private'',
     ''cipher'', ''payload'', ''ssn'', ''credit'', ''answer'', ''lesson'', ''email'']"

definition looks_sensitive :: "string \<Rightarrow> bool" where
  "looks_sensitive s \<longleftrightarrow> list_ex (\<lambda>bad. py_contains bad s) forbidden_metadata_substr"

definition ascii_alnum :: "char \<Rightarrow> bool" where
  "ascii_alnum c \<longleftrightarrow> (let n = code_point c in
     (48 \<le> n \<and> n \<le> 57) \<or> (65 \<le> n \<and> n \<le> 90) \<or> (97 \<le> n \<and> n \<le> 122))"

text \<open>The pattern \<open>\A[A-Za-z0-9][A-Za-z0-9._:/-]{0,127}\Z\<close>.\<close>

definition routing_tag :: "string \<Rightarrow> bool" where
  "routing_tag s \<longleftrightarrow> (case s of [] \<Rightarrow> False
     | c # cs \<Rightarrow> ascii_alnum c \<and> length cs \<le> 127
         \<and> list_all (\<lambda>c. ascii_alnum c \<or> c \<in> set ''._:/-'') cs)"

fun check_tags :: "string \<Rightarrow> json list \<Rightarrow> exn + unit" where
  "check_tags k [] = Inr ()"
| "check_tags k (item # items) =
     (case item of
        JStr s \<Rightarrow>
          if \<not> routing_tag s
          then Inl (ValueError (''metadata.'' @ k @ '' contains a non-routing value; ''
             @ ''plaintext and identifiers are forbidden''))
          else if looks_sensitive (py_lower s)
          then Inl (ValueError (''metadata.'' @ k @ '' value looks sensitive''))
          else check_tags k items
      | _ \<Rightarrow> Inl (ValueError (''metadata.'' @ k @ '' values must be strings'')))"

definition check_entry :: "string \<Rightarrow> json \<Rightarrow> exn + unit" where
  "check_entry k raw =
     (if k = [] then Inl (ValueError ''metadata keys must be non-empty strings'')
      else
      (let lowered = py_lower k in
       if lowered \<notin> set allowed_metadata_keys then Inl (ValueError (''metadata key not allowed: '' @ k))
       else if looks_sensitive lowered then Inl (ValueError (''metadata key looks sensitive: '' @ k))
       else if lowered \<in> set list_metadata_keys then
         (case raw of
            JArr xs \<Rightarrow> if xs = [] \<or> 32 < length xs
              then Inl (ValueError (''metadata.'' @ k @ '' must be a non-empty list of routing tags''))
              else check_tags k xs
          | _ \<Rightarrow> Inl (ValueError (''metadata.'' @ k @ '' must be a non-empty list of routing tags'')))
       else check_tags k [raw]))"

fun check_entries :: "jdict \<Rightarrow> exn + unit" where
  "check_entries [] = Inr ()"
| "check_entries ((k, raw) # kvs) =
     (case check_entry k raw of Inl e \<Rightarrow> Inl e | Inr _ \<Rightarrow> check_entries kvs)"

text \<open>\<open>repr\<close> is Python's \<open>str\<close> of the dictionary.\<close>

definition validate_routing_metadata :: "(json \<Rightarrow> string) \<Rightarrow> json \<Rightarrow> exn + jdict" where
  "validate_routing_metadata repr value =
     (case value of
        JObj kvs \<Rightarrow>
          if 4096 < length (repr value) then Inl (ValueError ''metadata too large'')
          else if 32 < length kvs then Inl (ValueError ''metadata has too many keys'')
          else (case check_entries kvs of Inl e \<Rightarrow> Inl e | Inr _ \<Rightarrow> Inr kvs)
      | _ \<Rightarrow> Inl (ValueError ''metadata must be an object''))"

subsection \<open>Embeddings\<close>

record embedding_request =
  eb_tenant :: uuid
  eb_event :: "uuid option"
  eb_series :: string
  eb_version :: string
  eb_vector :: "rat list option"
  eb_error :: "rat option"
  eb_anomaly :: bool
  eb_ciphertext :: "string option"
  eb_nonce :: "string option"
  eb_key :: "string option"
  eb_metadata :: jdict

definition given :: "string option \<Rightarrow> bool" where
  "given v \<longleftrightarrow> v \<noteq> None \<and> v \<noteq> Some []"

text \<open>
  The sealed context of an embedding: all three fields or none (the numbers of the model are
  finite).
\<close>

definition validate_context :: "embedding_request \<Rightarrow> exn + unit" where
  "validate_context b =
     (let context = [eb_ciphertext b, eb_nonce b, eb_key b] in
      if list_ex (\<lambda>v. v \<noteq> None) context \<and> \<not> list_all given context
      then Inl (ValueError
        ''context_ciphertext, context_nonce, and context_key_id must be supplied together'')
      else if list_all given context then
        (case (b64decode (the (eb_nonce b)), b64decode (the (eb_ciphertext b))) of
           (Inr nonce, Inr ct) \<Rightarrow>
             if length nonce \<noteq> 12
             then Inl (ValueError ''context_nonce must decode to exactly 12 bytes'')
             else if length ct < 16
             then Inl (ValueError ''context_ciphertext must include an authentication tag'')
             else Inr ()
         | _ \<Rightarrow> Inl (ValueError ''sealed context fields must be valid base64''))
      else Inr ())"

subsection \<open>What an accepted dictionary of metadata can hold\<close>

fun tags_of :: "json \<Rightarrow> json list" where
  "tags_of (JArr xs) = xs"
| "tags_of v = [v]"

lemma check_tags_ok:
  "check_tags k items = Inr () \<longleftrightarrow> 
     list_all (\<lambda>v. \<exists>s. v = JStr s \<and> routing_tag s \<and> \<not> looks_sensitive (py_lower s)) items"
  by (induction items) (auto split: json.splits)

text \<open>
  C17: Metadata that passes the validator has at most 32 entries; every key is a routing key in some
  capitalisation, and every value is a routing tag or a list of 1 to 32 of them: 1 to 128
  characters without white space or at signs, none of which contains a forbidden word.
\<close>

theorem accepted_metadata_is_routing:
  assumes "validate_routing_metadata repr (JObj kvs) = Inr out"
  shows "out = kvs \<and> length kvs \<le> 32
    \<and> list_all (\<lambda>(k, v). py_lower k \<in> set allowed_metadata_keys
        \<and> 1 \<le> length (tags_of v) \<and> length (tags_of v) \<le> 32
        \<and> list_all (\<lambda>x. \<exists>s. x = JStr s \<and> 1 \<le> length s \<and> length s \<le> 128
            \<and> list_all (\<lambda>c. \<not> is_space c \<and> c \<noteq> CHR ''@'') s \<and> \<not> looks_sensitive (py_lower s))
          (tags_of v)) kvs"
proof -
  have tag: "1 \<le> length s \<and> length s \<le> 128 \<and> list_all (\<lambda>c. \<not> is_space c \<and> c \<noteq> CHR ''@'') s"
    if "routing_tag s" for s
    using that
    by (cases s) (auto simp: routing_tag_def list_all_iff ascii_alnum_def is_space_def code_point_def Let_def)
  have entry: "py_lower k \<in> set allowed_metadata_keys \<and> 1 \<le> length (tags_of v) \<and> length (tags_of v) \<le> 32
      \<and> list_all (\<lambda>x. \<exists>s. x = JStr s \<and> 1 \<le> length s \<and> length s \<le> 128
          \<and> list_all (\<lambda>c. \<not> is_space c \<and> c \<noteq> CHR ''@'') s \<and> \<not> looks_sensitive (py_lower s)) (tags_of v)"
    if "check_entry k v = Inr ()" for k v
  proof -
    from that have "py_lower k \<in> set allowed_metadata_keys" "check_tags k (tags_of v) = Inr ()"
      "1 \<le> length (tags_of v)" "length (tags_of v) \<le> 32"
      by (auto simp: check_entry_def Let_def neq_Nil_conv split: if_splits json.splits) 
    then show ?thesis using tag unfolding check_tags_ok by (fastforce simp: list_all_iff)
  qed
  have "list_all (\<lambda>(k, v). check_entry k v = Inr ()) kvs" if "check_entries kvs = Inr ()" for kvs
    using that by (induction kvs) (auto split: sum.splits)
  with assms have "out = kvs" "length kvs \<le> 32" "list_all (\<lambda>(k, v). check_entry k v = Inr ()) kvs"
    by (auto simp: validate_routing_metadata_def split: if_splits sum.splits)
  then show ?thesis using entry by (fastforce simp: list_all_iff)
qed

theorem accepted_metadata_is_routing_witness:
  "\<exists>kvs. validate_routing_metadata (\<lambda>_. []) (JObj kvs) = Inr kvs \<and> length kvs = 2
     \<and> fst (hd kvs) = ''source'' \<and> py_lower (fst (hd kvs)) \<in> set allowed_metadata_keys"
proof -
  let ?kvs = "[(''source'', JStr ''sensor-1''), (''tags'', JArr [JStr ''a/b''])]"
  have v: "validate_routing_metadata (\<lambda>_. []) (JObj ?kvs) = Inr ?kvs" by code_simp
  from accepted_metadata_is_routing [OF v] v show ?thesis by (intro exI [of _ ?kvs]) simp
qed

end
