(* ===== verification/Acceptance.thy ===== *)
theory Acceptance
  imports Ingest Ingest_Requests
begin

section \<open>Accepting sealed events\<close>

text \<open>
  \<open>services/ingest.py\<close>: a batch of sealed events is checked, inserted in one transaction together
  with its processing receipts and its audit rows, and then processed.  Nothing is ever decrypted.
  The transaction is one statement of the model; its advisory locks are implied by that.
\<close>

record ac_env = ig_env +
  ac_crypto :: crypto_env
  ac_require_session :: bool
  ac_canonical :: "json \<Rightarrow> string"
  ac_number :: "rat \<Rightarrow> string"

abbreviation ig_of :: "ac_env \<Rightarrow> ig_env" where
  "ig_of env \<equiv> \<lparr>pj_dumps = pj_dumps env, pj_repr = pj_repr env, pj_sha256 = pj_sha256 env,
     pj_show_time = pj_show_time env, pj_registry = pj_registry env, ig_uuid = ig_uuid env,
     ig_dump = ig_dump env, ig_validate = ig_validate env\<rparr>"

subsection \<open>Preparing an event\<close>

definition validate_encryption :: "ac_env \<Rightarrow> event_request \<Rightarrow> workflow \<Rightarrow> exn + unit" where
  "validate_encryption env e wfl =
     (if er_mode e \<notin> set (wf_modes wfl)
      then Inl (ValueError (''encryption.mode='' @ pj_repr env (JStr (er_mode e))
        @ '' not allowed for workflow '' @ pj_repr env (JStr (wf_id wfl))))
      else if er_enc_algo e \<notin> set (wf_algos wfl)
      then Inl (ValueError (''encryption.algo='' @ pj_repr env (JStr (er_enc_algo e))
        @ '' not allowed for workflow '' @ pj_repr env (JStr (wf_id wfl))))
      else if sl_algo (er_envelope e) \<noteq> er_enc_algo e
      then Inl (ValueError ''envelope.algo must match encryption.algo'')
      else Inr ())"

definition fingerprint_values ::
  "ac_env \<Rightarrow> time option \<Rightarrow> string \<Rightarrow> string \<Rightarrow> string \<Rightarrow> string option \<Rightarrow> string \<Rightarrow> string \<Rightarrow> int \<Rightarrow>
   string \<Rightarrow> string option \<Rightarrow> int \<Rightarrow> string \<Rightarrow> jdict \<Rightarrow> string" where
  "fingerprint_values env occurred mode algo key_id ratchet nonce sha len ctype etype schema wid metadata =
     pj_sha256 env (ac_canonical env (JObj
       [(''occurred_at'', case occurred of None \<Rightarrow> JNull | Some t \<Rightarrow> JStr (pj_show_time env t)),
        (''encryption_mode'', JStr mode), (''algo'', JStr algo), (''key_id'', JStr key_id),
        (''ratchet_header'', opt_json ratchet), (''nonce'', JStr nonce),
        (''ciphertext_sha256'', JStr sha), (''ciphertext_bytes'', JInt len),
        (''content_type'', JStr ctype), (''event_type'', opt_json etype),
        (''schema_version'', JInt schema), (''workflow_id'', JStr wid),
        (''metadata'', JObj metadata)]))"

definition event_fingerprint ::
  "ac_env \<Rightarrow> event_request \<Rightarrow> string \<Rightarrow> string option \<Rightarrow> int \<Rightarrow> string" where
  "event_fingerprint env e wid etype len =
     (let sealed = er_envelope e in
      fingerprint_values env (er_occurred e) (er_mode e) (sl_algo sealed) (sl_key sealed)
        (sl_ratchet sealed) (sl_nonce sealed) (sl_sha256 sealed) len (er_content_type e) etype
        (er_schema e) wid (er_metadata e))"

record prepared =
  pr_event :: event_request
  pr_workflow :: workflow
  pr_type :: "string option"
  pr_len :: int
  pr_print :: string

definition stored_event_type :: "registry \<Rightarrow> string option \<Rightarrow> string option" where
  "stored_event_type rg etype =
     (case canonical_event_type rg etype of
        Some c \<Rightarrow> if c = [] then etype else Some c | None \<Rightarrow> etype)"

definition prepare_event :: "ac_env \<Rightarrow> event_request \<Rightarrow> exn + prepared" where
  "prepare_event env e =
     (case resolve_workflow (pj_registry env) (er_content_type e) (er_event_type e) (er_workflow e) of
        Inl x \<Rightarrow> Inl x
      | Inr wfl \<Rightarrow>
     (let etype = stored_event_type (pj_registry env) (er_event_type e) in
      case validate_encryption env e wfl of
        Inl x \<Rightarrow> Inl x
      | Inr _ \<Rightarrow>
     (case validate_sizes (ac_crypto env) (er_envelope e) of
        Inl x \<Rightarrow> Inl x
      | Inr _ \<Rightarrow>
     (case b64decode (sl_ciphertext (er_envelope e)) of
        Inl x \<Rightarrow> Inl x
      | Inr ct \<Rightarrow>
         Inr \<lparr>pr_event = e, pr_workflow = wfl, pr_type = etype, pr_len = int (length ct),
              pr_print = event_fingerprint env e (wf_id wfl) etype (int (length ct))\<rparr>))))"

subsection \<open>Inserting an event\<close>

record event_result =
  rs_id :: uuid
  rs_tenant :: uuid
  rs_client :: string
  rs_created :: time
  rs_duplicate :: bool
  rs_workflow :: string

definition ingest_conflict :: exn where
  "ingest_conflict = OtherError ''IngestConflictError''
     ''client_event_id already used with different routing or encryption metadata''"

text \<open>\<open>GREATEST(clock_timestamp(), MAX(created_at) + 1 microsecond)\<close> per tenant and workflow.\<close>

definition next_created :: "time \<Rightarrow> uuid \<Rightarrow> string \<Rightarrow> event_row list \<Rightarrow> time" where
  "next_created t tenant wid rows =
     (let times = map ev_created (filter (\<lambda>r. ev_tenant r = tenant \<and> ev_workflow r = Some wid) rows)
      in if times = [] then t else max t (Max (set times) + 1))"

definition stored_event ::
  "uuid \<Rightarrow> auth_user \<Rightarrow> prepared \<Rightarrow> time \<Rightarrow> event_row" where
  "stored_event eid user p t =
     (let e = pr_event p; sealed = er_envelope e in
      \<lparr>ev_id = eid, ev_tenant = er_tenant e, ev_key = sl_key sealed,
       ev_content_type = Some (er_content_type e), ev_event_type = pr_type p,
       ev_workflow = Some (wf_id (pr_workflow p)), ev_created = t, ev_bytes = pr_len p,
       ev_client = er_client e,
       ev_submitted = (if au_kind user = USER then Some (au_user_id user) else None),
       ev_occurred = er_occurred e, ev_algo = sl_algo sealed, ev_ratchet = sl_ratchet sealed,
       ev_nonce = sl_nonce sealed, ev_ciphertext = sl_ciphertext sealed,
       ev_sha256 = sl_sha256 sealed, ev_fingerprint = Some (pr_print p),
       ev_schema = er_schema e, ev_metadata = er_metadata e\<rparr>)"

definition same_client :: "uuid \<Rightarrow> string \<Rightarrow> event_row \<Rightarrow> bool" where
  "same_client tenant client r \<longleftrightarrow> ev_tenant r = tenant \<and> ev_client r = client"

definition same_nonce :: "event_row \<Rightarrow> event_row \<Rightarrow> bool" where
  "same_nonce q r \<longleftrightarrow> ev_tenant r = ev_tenant q \<and> ev_key r = ev_key q \<and> ev_nonce r = ev_nonce q"

definition row_fingerprint :: "ac_env \<Rightarrow> string \<Rightarrow> event_row \<Rightarrow> string" where
  "row_fingerprint env wid r =
     (case ev_fingerprint r of
        Some (c # cs) \<Rightarrow> c # cs
      | _ \<Rightarrow> fingerprint_values env (ev_occurred r) ''e2ee'' (ev_algo r) (ev_key r) (ev_ratchet r)
          (ev_nonce r) (ev_sha256 r) (ev_bytes r)
          (case ev_content_type r of None \<Rightarrow> [] | Some c \<Rightarrow> c) (ev_event_type r) (ev_schema r)
          (case ev_workflow r of None \<Rightarrow> wid | Some w \<Rightarrow> if w = [] then wid else w) (ev_metadata r))"

text \<open>
  \<open>_insert_event\<close>: insert on no conflict, else compare with the stored event.  The identifier comes
  from \<open>gen_random_uuid()\<close>: the column takes only the text of a UUID that is not in use.
\<close>

definition insert_event ::
  "ac_env \<Rightarrow> auth_user \<Rightarrow> uuid \<Rightarrow> prepared \<Rightarrow> 'z pj_db_scheme \<Rightarrow>
   exn + event_result \<times> 'z pj_db_scheme" where
  "insert_event env user eid p d =
     (let e = pr_event p; wid = wf_id (pr_workflow p);
          row = stored_event eid user p (next_created (now d) (er_tenant e) wid (telemetry d));
          same = same_client (er_tenant e) (er_client e) in
      case first_row same (telemetry d) of
        None \<Rightarrow>
          if list_ex (same_nonce row) (telemetry d)
          then Inl (ValueError ''nonce reuse rejected for this key_id'')
          else if ig_uuid env eid \<noteq> Some eid \<or> list_ex (\<lambda>r. ev_id r = eid) (telemetry d)
          then Inl DatabaseError
          else Inr (\<lparr>rs_id = eid, rs_tenant = er_tenant e, rs_client = er_client e,
                     rs_created = ev_created row, rs_duplicate = False, rs_workflow = wid\<rparr>,
                   d\<lparr>telemetry := telemetry d @ [row]\<rparr>)
      | Some r \<Rightarrow>
          if row_fingerprint env wid r \<noteq> pr_print p then Inl ingest_conflict
          else Inr (\<lparr>rs_id = ev_id r, rs_tenant = ev_tenant r, rs_client = ev_client r,
                     rs_created = ev_created r, rs_duplicate = True,
                     rs_workflow = (case ev_workflow r of None \<Rightarrow> wid
                       | Some w \<Rightarrow> if w = [] then wid else w)\<rparr>,
                   if ev_fingerprint r = None \<or> ev_fingerprint r = Some []
                   then d\<lparr>telemetry := upd_where (\<lambda>q. ev_id q = ev_id r \<and> ev_fingerprint q = None)
                     (\<lambda>q. q\<lparr>ev_fingerprint := Some (pr_print p), ev_bytes := pr_len p\<rparr>) (telemetry d)\<rparr>
                   else d))"

subsection \<open>Groups\<close>

text \<open>Receipts are per workflow, tenant and wire shape; a group keeps its events in order.\<close>

type_synonym group_key = "string \<times> uuid \<times> string \<times> string"

record event_group =
  gr_workflow :: workflow
  gr_events :: "meta list"
  gr_content_type :: string
  gr_event_type :: "string option"

definition text_or_empty :: "string option \<Rightarrow> string" where
  "text_or_empty v = (case v of None \<Rightarrow> [] | Some s \<Rightarrow> s)"

definition accepted_meta :: "prepared \<Rightarrow> event_result \<Rightarrow> meta" where
  "accepted_meta p r =
     (let e = pr_event p in
      \<lparr>mt_event = rs_id r, mt_tenant = er_tenant e, mt_key = sl_key (er_envelope e),
       mt_len = pr_len p, mt_content_type = er_content_type e,
       mt_event_type = text_or_empty (pr_type p), mt_workflow = wf_id (pr_workflow p),
       mt_created = Some (rs_created r), mt_routing = restrict_keys routing_keys (er_metadata e)\<rparr>)"

text \<open>The dictionary of a metadata record, as it is passed to the receipt.\<close>

definition raw_meta :: "meta \<Rightarrow> jdict \<times> time option" where
  "raw_meta m =
     ([(''event_id'', JStr (mt_event m)), (''tenant_id'', JStr (mt_tenant m)),
       (''key_id'', JStr (mt_key m)), (''cipher_len'', JInt (mt_len m)),
       (''content_type'', JStr (mt_content_type m)), (''event_type'', JStr (mt_event_type m)),
       (''workflow_id'', JStr (mt_workflow m)), (''metadata'', JObj (mt_routing m))],
      mt_created m)"

definition group_key_of :: "prepared \<Rightarrow> group_key" where
  "group_key_of p = (wf_id (pr_workflow p), er_tenant (pr_event p), er_content_type (pr_event p),
     text_or_empty (pr_type p))"

fun add_to_groups ::
  "prepared \<Rightarrow> meta \<Rightarrow> (group_key \<times> event_group) list \<Rightarrow> (group_key \<times> event_group) list" where
  "add_to_groups p m [] =
     [(group_key_of p, \<lparr>gr_workflow = pr_workflow p, gr_events = [m],
        gr_content_type = er_content_type (pr_event p), gr_event_type = pr_type p\<rparr>)]"
| "add_to_groups p m ((k, g) # gs) =
     (if k = group_key_of p
      then (k, g\<lparr>gr_events := gr_events g @ [m],
        gr_content_type := er_content_type (pr_event p), gr_event_type := pr_type p\<rparr>) # gs
      else (k, g) # add_to_groups p m gs)"

type_synonym groups = "(group_key \<times> event_group) list"

text \<open>The loop over the prepared events: results, all groups, groups of the new events.\<close>

fun accept_events ::
  "ac_env \<Rightarrow> auth_user \<Rightarrow> (uuid \<times> prepared) list \<Rightarrow> event_result list \<times> groups \<times> groups \<Rightarrow>
   'z pj_db_scheme \<Rightarrow> exn + (event_result list \<times> groups \<times> groups) \<times> 'z pj_db_scheme" where
  "accept_events env user [] acc d = Inr (acc, d)"
| "accept_events env user ((eid, p) # rest) (results, all, fresh) d =
     (case insert_event env user eid p d of
        Inl e \<Rightarrow> Inl e
      | Inr (r, d') \<Rightarrow>
          (let m = accepted_meta p r in
           accept_events env user rest
             (results @ [r], add_to_groups p m all,
              if rs_duplicate r then fresh else add_to_groups p m fresh) d'))"

fun register_groups ::
  "ac_env \<Rightarrow> uuid \<Rightarrow> string \<Rightarrow> nat \<Rightarrow> (uuid \<times> event_group) list \<Rightarrow> batch_row list \<Rightarrow> ig_db \<Rightarrow>
   exn + batch_row list \<times> ig_db" where
  "register_groups env acceptance requested_by n [] out d = Inr (out, d)"
| "register_groups env acceptance requested_by n ((bid, g) # rest) out d =
     (case register_processing_batch (ig_of env) bid acceptance (int n) requested_by (gr_workflow g)
             (gr_content_type g) (gr_event_type g) (map raw_meta (gr_events g)) d of
        Inl e \<Rightarrow> Inl e
      | Inr (b, d') \<Rightarrow> register_groups env acceptance requested_by (Suc n) rest (out @ [b]) d')"

subsection \<open>The audit rows of an acceptance\<close>

text \<open>\<open>list(dict.fromkeys(xs))\<close>\<close>

definition keep_first :: "'a list \<Rightarrow> 'a list" where
  "keep_first xs = rev (remdups (rev xs))"

definition json_count :: "'a list \<Rightarrow> json" where
  "json_count xs = JInt (int (length xs))"

definition acceptance_details ::
  "auth_user \<Rightarrow> uuid \<Rightarrow> (prepared \<times> event_result) list \<Rightarrow> (batch_row \<times> event_group) list \<Rightarrow> uuid \<Rightarrow>
   jdict" where
  "acceptance_details user acceptance pairs receipts tid =
     (let mine = filter (\<lambda>(p, r). er_tenant (pr_event p) = tid) pairs;
          batch_ids = map (\<lambda>(b, g). ib_id b)
            (filter (\<lambda>(b, g). tid \<in> set (map mt_tenant (gr_events g))) receipts) in
      [(''acceptance_id'', JStr acceptance), (''accepted'', json_count mine),
       (''new_events'', json_count (filter (\<lambda>(p, r). \<not> rs_duplicate r) mine)),
       (''duplicates'', json_count (filter (\<lambda>(p, r). rs_duplicate r) mine)),
       (''workflows'', JArr (map JStr (keep_first (map (\<lambda>(p, r). wf_id (pr_workflow p)) mine)))),
       (''processing_batch_ids'', JArr (map JStr batch_ids)),
       (''processing_receipts'', json_count batch_ids),
       (''principal_kind'', JStr (kind_value (au_kind user))),
       (''subprocessor'', JStr (text_or_empty (au_subprocessor user)))])"

fun audit_tenants :: "(uuid \<Rightarrow> audit_row) \<Rightarrow> uuid list \<Rightarrow> 'z core_db_scheme \<Rightarrow> 'z core_db_scheme" where
  "audit_tenants row [] d = d"
| "audit_tenants row (t # ts) d = audit_tenants row ts (add_audit (row t) d)"

text \<open>The acceptance transaction.\<close>

definition acceptance_txn ::
  "ac_env \<Rightarrow> auth_user \<Rightarrow> prepared list \<Rightarrow> uuid \<Rightarrow> uuid list \<Rightarrow> uuid list \<Rightarrow> ig_db \<Rightarrow>
   exn + (event_result list \<times> groups \<times> batch_row list) \<times> ig_db" where
  "acceptance_txn env user items acceptance event_ids batch_ids d =
     (case accept_events env user (zip event_ids items) ([], [], []) d of
        Inl e \<Rightarrow> Inl e
      | Inr ((results, all, fresh), d1) \<Rightarrow>
     (case register_groups env acceptance (actor_id user) 0 (zip batch_ids (map snd fresh)) [] d1 of
        Inl e \<Rightarrow> Inl e
      | Inr (receipts, d2) \<Rightarrow>
          Inr ((results, all, receipts),
            audit_tenants (\<lambda>tid. audit_record ''ingest.batch'' (Some (actor_id user)) (Some tid)
                ''ingest_acceptance'' acceptance
                (acceptance_details user acceptance (zip items results)
                  (zip receipts (map snd fresh)) tid))
              (sorted_set (map (\<lambda>p. er_tenant (pr_event p)) items)) d2)))"

subsection \<open>\<open>ingest_events\<close>\<close>

record ingest_report =
  ir_ok :: bool
  ir_accepted :: nat
  ir_new :: nat
  ir_results :: "event_result list"
  ir_written :: nat
  ir_dlq :: nat
  ir_state :: string
  ir_recovery :: string
  ir_batches :: "batch_row list"

fun require_writers :: "auth_user \<Rightarrow> uuid list \<Rightarrow> unit ig_prog" where
  "require_writers user [] = ret ()"
| "require_writers user (t # ts) =
     bindM (require_tenant_access user t (Some member_roles) (Some [''ingest:write''])) (\<lambda>_.
     require_writers user ts)"

definition recovery_state :: "batch_status list \<Rightarrow> string" where
  "recovery_state statuses =
     (if B_failed \<in> set statuses then ''failed''
      else if B_retry_scheduled \<in> set statuses then ''retry_scheduled''
      else if B_running \<in> set statuses then ''running''
      else if B_queued \<in> set statuses then ''queued''
      else ''retry_scheduled'')"

definition ingest_summary ::
  "event_result list \<Rightarrow> uuid list \<Rightarrow> batch_report list \<Rightarrow> batch_row list \<Rightarrow> ingest_report" where
  "ingest_summary results ids outcomes states =
     (let statuses = map ib_status states;
          ok = (ids = [] \<or> set statuses = {B_completed}) in
      \<lparr>ir_ok = ok, ir_accepted = length results,
       ir_new = length (filter (\<lambda>r. \<not> rs_duplicate r) results), ir_results = results,
       ir_written = sum_list (map br_written outcomes), ir_dlq = sum_list (map br_dlq outcomes),
       ir_state = (if ids = [] then ''not_required'' else if ok then ''completed'' else ''failed''),
       ir_recovery = (if ids = [] then ''not_required'' else if ok then ''completed''
         else recovery_state statuses),
       ir_batches = states\<rparr>)"

text \<open>The receipts of a batch that was accepted before, in the order the groups name them.\<close>

fun prior_receipts :: "groups \<Rightarrow> ig_db \<Rightarrow> uuid list" where
  "prior_receipts [] d = []"
| "prior_receipts (((wid, tid, ct, et), g) # gs) d =
     map ib_id (find_batches_covered_by_retry wid (map mt_event (gr_events g)) d) @ prior_receipts gs d"

definition process_accepted :: "ac_env \<Rightarrow> event_result list \<Rightarrow> uuid list \<Rightarrow> ingest_report ig_prog" where
  "process_accepted env results ids =
     bindM (if ids = [] then ret []
            else tick_ingest_processing (ig_of env) (max 1 (int (length ids))) None (Some ids) True)
       (\<lambda>outcomes.
     bindM (query (fetch_processing_batch_states ids)) (\<lambda>states.
     ret (ingest_summary results ids outcomes states)))"

definition ingest_events :: "ac_env \<Rightarrow> auth_user \<Rightarrow> event_request list \<Rightarrow> ingest_report ig_prog" where
  "ingest_events env user events =
     bindM ensure_secure_schema (\<lambda>_.
     bindM (require_writers user (remdups (map er_tenant events))) (\<lambda>_.
     bindM (require_active_sessions (ac_require_session env)
        (remdups (map (\<lambda>e. (er_tenant e, sl_key (er_envelope e))) events))) (\<lambda>_.
     bindM (lift (map_err (prepare_event env) events)) (\<lambda>items.
     bindM uuid4 (\<lambda>acceptance.
     bindM (draw_uuids (length items)) (\<lambda>event_ids.
     bindM (draw_uuids (length items)) (\<lambda>batch_ids.
     bindM (stmt (acceptance_txn env user items acceptance event_ids batch_ids))
       (\<lambda>(results, all, receipts).
     if list_ex (\<lambda>r. \<not> rs_duplicate r) results
     then process_accepted env results (map ib_id receipts)
     else
     bindM (query (\<lambda>d. keep_first (map ib_id receipts @ prior_receipts all d))) (\<lambda>ids.
     bindM (stmt (\<lambda>d. Inr ((), wake_processing_batches ids True d))) (\<lambda>_.
     process_accepted env results ids))))))))))"

subsection \<open>Embeddings\<close>

text \<open>\<open>ac_number\<close> is the format \<open>.8g\<close> of a number.\<close>

fun join_comma :: "string list \<Rightarrow> string" where
  "join_comma [] = []"
| "join_comma [x] = x"
| "join_comma (x # y # xs) = x @ '','' @ join_comma (y # xs)"

definition vector_literal :: "ac_env \<Rightarrow> rat list \<Rightarrow> string" where
  "vector_literal env xs = ''['' @ join_comma (map (ac_number env) xs) @ '']''"

definition insert_embedding :: "ac_env \<Rightarrow> uuid \<Rightarrow> embedding_request \<Rightarrow> ig_db \<Rightarrow> exn + embedding_row \<times> ig_db" where
  "insert_embedding env i b d =
     (let row = \<lparr>em_id = i, em_tenant = eb_tenant b, em_event = eb_event b, em_series = eb_series b,
            em_version = eb_version b, em_vector = map_option (vector_literal env) (eb_vector b),
            em_error = eb_error b, em_anomaly = eb_anomaly b, em_ciphertext = eb_ciphertext b,
            em_nonce = eb_nonce b, em_key = eb_key b, em_metadata = eb_metadata b, em_created = now d\<rparr> in
      if list_ex (\<lambda>r. em_id r = i) (embeddings d) then Inl DatabaseError
      else Inr (row, d\<lparr>embeddings := embeddings d @ [row]\<rparr>))"

definition ingest_embedding :: "ac_env \<Rightarrow> auth_user \<Rightarrow> embedding_request \<Rightarrow> embedding_row ig_prog" where
  "ingest_embedding env user b =
     bindM ensure_secure_schema (\<lambda>_.
     bindM (require_tenant_access user (eb_tenant b) (Some member_roles) (Some [''ingest:write''])) (\<lambda>_.
     bindM (case eb_event b of None \<Rightarrow> ret True
            | Some e \<Rightarrow> query (\<lambda>d. list_ex (\<lambda>r. ev_id r = e \<and> ev_tenant r = eb_tenant b) (telemetry d)))
       (\<lambda>event_exists.
     if \<not> event_exists then raise (ValueError ''telemetry_event_id does not belong to this tenant'')
     else bindM uuid4 (\<lambda>i. stmt (insert_embedding env i b)))))"

subsection \<open>Reading back\<close>

text \<open>The metadata of the latest events; ciphertext, nonce and ratchet header stay out.\<close>

record event_listing =
  el_id :: uuid
  el_tenant :: uuid
  el_client :: string
  el_created :: time
  el_occurred :: "time option"
  el_algo :: string
  el_key :: string
  el_content_type :: "string option"
  el_event_type :: "string option"
  el_schema :: int
  el_workflow :: "string option"
  el_sha256 :: string
  el_bytes :: int
  el_fingerprint :: "string option"
  el_metadata :: jdict

definition listing_of :: "event_row \<Rightarrow> event_listing" where
  "listing_of r = \<lparr>el_id = ev_id r, el_tenant = ev_tenant r, el_client = ev_client r,
     el_created = ev_created r, el_occurred = ev_occurred r, el_algo = ev_algo r, el_key = ev_key r,
     el_content_type = ev_content_type r, el_event_type = ev_event_type r, el_schema = ev_schema r,
     el_workflow = ev_workflow r, el_sha256 = ev_sha256 r, el_bytes = ev_bytes r,
     el_fingerprint = ev_fingerprint r, el_metadata = ev_metadata r\<rparr>"

definition list_recent_events :: "auth_user \<Rightarrow> uuid \<Rightarrow> nat \<Rightarrow> event_listing list ig_prog" where
  "list_recent_events user tenant limit =
     bindM (require_tenant_access user tenant None (Some [''ingest:read'', ''ingest:write''])) (\<lambda>_.
     query (\<lambda>d. map listing_of (take limit (rev (sort_key ev_created
       (filter (\<lambda>r. ev_tenant r = tenant) (telemetry d)))))))"

definition list_stream_results ::
  "ac_env \<Rightarrow> auth_user \<Rightarrow> uuid \<Rightarrow> nat \<Rightarrow> bool \<Rightarrow> string option \<Rightarrow> time option \<Rightarrow> uuid option \<Rightarrow>
   stream_row list ig_prog" where
  "list_stream_results env user tenant limit anomalies_only workflow_id since after_id =
     bindM (require_tenant_access user tenant None (Some [''ingest:read'', ''projections:read''])) (\<lambda>_.
     query (\<lambda>d.
       let cursor = Option.bind after_id (\<lambda>i.
             first_row (\<lambda>r. st_id r = i \<and> st_tenant r = tenant) (stream_results d));
           keep = (\<lambda>r. st_tenant r = tenant \<and> (anomalies_only \<longrightarrow> st_anomaly r)
             \<and> (case canonical_workflow_id (pj_registry env) workflow_id of
                  None \<Rightarrow> True | Some w \<Rightarrow> w = [] \<or> st_workflow r = JStr w)
             \<and> (case since of None \<Rightarrow> True | Some t \<Rightarrow> t < st_created r)
             \<and> (after_id = None \<or> (case cursor of None \<Rightarrow> False
                  | Some q \<Rightarrow> (st_created q, st_id q) < stream_order r)));
           rows = sort_key stream_order (filter keep (stream_results d)) in
       take limit (if since \<noteq> None \<or> after_id \<noteq> None then rows else rev rows)))"

end
