(* ===== verification/Workflow_Facts.thy ===== *)
theory Workflow_Facts
  imports Workflows
begin

section \<open>Workflows: lemmas\<close>

text \<open>
  Normalised keys, the alias index (every enabled workflow resolves to itself, aliases lead to
  enabled workflows) and resolution.
\<close>

subsection \<open>Normalised keys\<close>

lemma lower_char_space: "is_space (lower_char c) = is_space c"
  by (auto simp: is_space_def lower_char_def Let_def code_point_def)

lemma lower_char_idem: "lower_char (lower_char c) = lower_char c"
  by (auto simp: lower_char_def Let_def code_point_def)

lemma py_lower_idem [simp]: "py_lower (py_lower s) = py_lower s"
  by (simp add: py_lower_def lower_char_idem)

lemma dropWhile_space_lower: "dropWhile is_space (py_lower s) = py_lower (dropWhile is_space s)"
  unfolding py_lower_def by (simp add: dropWhile_map comp_def lower_char_space)

lemma py_strip_lower: "py_strip (py_lower s) = py_lower (py_strip s)"
proof -
  have "rev (py_lower s) = py_lower (rev s)" for s by (simp add: py_lower_def rev_map)
  then show ?thesis by (simp add: py_strip_def dropWhile_space_lower)
qed

lemma dropWhile_rev_dropWhile:
  "dropWhile p (rev (dropWhile p (rev (dropWhile p s)))) = rev (dropWhile p (rev (dropWhile p s)))"
proof -
  let ?t = "dropWhile p s"
  have "rev (dropWhile p (rev ?t)) = take (length (dropWhile p (rev ?t))) ?t"
    by (metis dropWhile_eq_drop length_rev rev_rev_ident rev_drop length_dropWhile_le diff_diff_cancel length_drop)
  moreover have "dropWhile p (take n ?t) = take n ?t" for n
  proof (cases ?t)
    case (Cons a list)
    then have "\<not> p a" using hd_dropWhile [of p s] by simp
    with Cons show ?thesis by (cases n) simp_all
  next
    case Nil
    then show ?thesis by (simp only: take_Nil dropWhile.simps)
  qed
  ultimately show ?thesis by metis
qed

lemma py_strip_idem [simp]: "py_strip (py_strip s) = py_strip s"
  by (simp add: py_strip_def dropWhile_rev_dropWhile)

definition normal_key :: "string \<Rightarrow> bool" where
  "normal_key k \<longleftrightarrow> k \<noteq> [] \<and> py_lower (py_strip k) = k"

lemma normal_key_norm: "py_lower (py_strip s) \<noteq> [] \<Longrightarrow> normal_key (py_lower (py_strip s))"
  by (simp add: normal_key_def py_strip_lower)

lemma collect_keys_sound:
  "collect_keys valid msg seen vs = Inr out \<Longrightarrow>
     distinct out \<and> set out \<inter> set seen = {} \<and> (\<forall>k \<in> set out. normal_key k \<and> valid k)"
proof (induction vs arbitrary: seen out)
  case (Cons raw rest)
  let ?key = "py_lower (py_strip raw)"
  show ?case
  proof (cases "?key = [] \<or> ?key \<in> set seen")
    case True
    with Cons show ?thesis by auto
  next
    case False
    with Cons.prems obtain out' where o: "collect_keys valid msg (?key # seen) rest = Inr out'"
      "valid ?key" "out = ?key # out'"
      by (auto simp: Let_def split: if_splits sum.splits)
    from Cons.IH [OF o(1)] o False normal_key_norm [of raw] show ?thesis by auto
  qed
qed simp

lemma collect_keys_fixed:
  "distinct out \<Longrightarrow> set out \<inter> set seen = {} \<Longrightarrow> \<forall>k \<in> set out. normal_key k \<and> valid k \<Longrightarrow>
     collect_keys valid msg seen out = Inr out"
  by (induction out arbitrary: seen) (auto simp: normal_key_def Let_def)

lemma collect_keys_idem:
  "collect_keys valid msg [] vs = Inr out \<Longrightarrow> collect_keys valid msg [] out = Inr out"
  by (drule collect_keys_sound) (simp add: collect_keys_fixed)

lemma collect_keys_complete:
  "collect_keys valid msg seen vs = Inr out \<Longrightarrow> v \<in> set vs \<Longrightarrow> py_lower (py_strip v) \<noteq> [] \<Longrightarrow>
     py_lower (py_strip v) \<in> set out \<union> set seen"
proof (induction vs arbitrary: seen out)
  case (Cons raw rest)
  then show ?case
    by (fastforce simp: Let_def split: if_splits sum.splits)
qed simp

lemma normal_key_rollup: "normal_key ''rollup'' \<and> list_all key_char ''rollup''"
  by (simp add: normal_key_def py_strip_def py_lower_def lower_char_def code_point_def
      is_space_def Let_def key_char_def is_alnum_def)

subsection \<open>The alias index\<close>

lemma map_of_dict_set: "map_of (dict_set k v m) = (map_of m)(k \<mapsto> v)"
proof -
  have "map_of (map (\<lambda>(k', v'). if k' = k then (k', v) else (k', v')) m) = (map_of m)(k \<mapsto> v)"
    if "k \<in> fst ` set m" for m
    using that
  proof (induction m)
    case (Cons kv m)
    show ?case
    proof (cases "k \<in> fst ` set m")
      case True
      with Cons.IH show ?thesis by (cases kv) auto
    next
      case False
      then have "map (\<lambda>(k', v'). if k' = k then (k', v) else (k', v')) m = m"
        by (intro map_idI) force
      moreover from False Cons.prems have "fst kv = k" by auto
      ultimately show ?thesis by (cases kv) (auto simp: fun_eq_iff)
    qed
  qed simp
  moreover have "map_of (m @ [(k, v)]) = (map_of m)(k \<mapsto> v)" if "k \<notin> fst ` set m"
  proof -
    from that have n: "map_of m k = None" by (simp only: map_of_eq_None_iff not_False_eq_True)
    show ?thesis
    proof
      fix x
      show "map_of (m @ [(k, v)]) x = ((map_of m)(k \<mapsto> v)) x"
        using n by (cases "x = k") (simp_all add: map_add_def del: map_of_eq_None_iff split: option.split)
    qed
  qed
  ultimately show ?thesis unfolding dict_set_def by (simp only: split: if_split) blast
qed

lemma add_aliases_values:
  "add_aliases pr canon als m = Inr m' \<Longrightarrow>
     ran (map_of m') \<subseteq> ran (map_of m) \<union> {canon} \<and>
     (\<forall>k v. map_of m k = Some v \<longrightarrow> map_of m' k = Some v)"
proof (induction als arbitrary: m)
  case (Cons a als)
  have step: "ran (map_of m') \<subseteq> ran (map_of m) \<union> {canon}
      \<and> (\<forall>k v. map_of m k = Some v \<longrightarrow> map_of m' k = Some v)"
    if "add_aliases pr canon als (dict_set a canon m) = Inr m'"
      and old: "map_of m a = None \<or> map_of m a = Some canon"
  proof -
    from Cons.IH [OF that(1)]
    have "ran (map_of m') \<subseteq> ran ((map_of m)(a \<mapsto> canon)) \<union> {canon}"
      "\<And>k v. ((map_of m)(a \<mapsto> canon)) k = Some v \<Longrightarrow> map_of m' k = Some v"
      by (simp_all only: map_of_dict_set)
    moreover have "ran ((map_of m)(a \<mapsto> canon)) \<subseteq> ran (map_of m) \<union> {canon}"
      by (auto simp: ran_def)
    ultimately show ?thesis using old by (metis (no_types, lifting) fun_upd_apply option.distinct(1)
        subset_trans sup.boundedI sup_ge2 Un_assoc Un_absorb Un_mono subset_refl)
  qed
  show ?case
  proof (cases "a = canon")
    case True
    with Cons show ?thesis by simp
  next
    case False
    with Cons.prems Cons.IH [of m] step show ?thesis
      by (cases "map_of m a") (auto simp: alias_clash_def split: if_splits)
  qed
qed auto

lemma add_aliases_production:
  "add_aliases True canon als m = Inr m' \<Longrightarrow> a \<in> set als \<Longrightarrow> map_of m canon = Some canon \<Longrightarrow>
     map_of m' a = Some canon"
proof (induction als arbitrary: m)
  case (Cons b als)
  show ?case
  proof (cases "b = canon")
    case True
    with Cons show ?thesis
      using add_aliases_values by (cases "a \<in> set als") fastforce+
  next
    case False
    with Cons.prems have m': "add_aliases True canon als (dict_set b canon m) = Inr m'"
      by (auto simp: alias_clash_def split: option.splits if_splits)
    have b: "map_of (dict_set b canon m) b = Some canon"
      and c: "map_of (dict_set b canon m) canon = Some canon"
      using Cons.prems(3) by (simp_all add: map_of_dict_set)
    show ?thesis
    proof (cases "a \<in> set als")
      case True
      from Cons.IH [OF m' True c] show ?thesis .
    next
      case False
      with Cons.prems have "a = b" by simp
      with add_aliases_values [OF m'] b show ?thesis by blast
    qed
  qed
qed simp

definition enabled_ids :: "workflow list \<Rightarrow> string set" where
  "enabled_ids wfs = wf_id ` set (filter wf_enabled wfs)"

text \<open>Every identifier of the index is that of an enabled workflow, which maps to itself.\<close>

lemma rebuild_ids:
  assumes "rebuild_alias_index pr wfs ix = Inr ix'" and "ran (map_of (ai_ids ix)) \<subseteq> done"
    and "\<forall>i \<in> done. map_of (ai_ids ix) i = Some i"
  shows "ran (map_of (ai_ids ix')) \<subseteq> done \<union> enabled_ids wfs
    \<and> (\<forall>i \<in> done \<union> enabled_ids wfs. map_of (ai_ids ix') i = Some i)"
  using assms
proof (induction wfs arbitrary: ix "done")
  case (Cons w wfs)
  show ?case
  proof (cases "wf_enabled w")
    case False
    with Cons show ?thesis by (simp add: enabled_ids_def)
  next
    case True
    let ?m = "dict_set (wf_id w) (wf_id w) (ai_ids ix)"
    from True Cons.prems(1) obtain ids ev where
      ids: "add_aliases pr (wf_id w) (wa_workflow_ids (wf_aliases w)) ?m = Inr ids"
      and rec: "rebuild_alias_index pr wfs \<lparr>ai_ids = ids, ai_events = ev, ai_contents =
         fold (add_owner (wf_id w)) (wa_content_types (wf_aliases w)) (ai_contents ix)\<rparr> = Inr ix'"
      by (auto split: sum.splits)
    let ?done = "insert (wf_id w) done"
    have "ran (map_of ?m) \<subseteq> ?done" using Cons.prems(2) by (auto simp: map_of_dict_set ran_def)
    with add_aliases_values [OF ids] have r: "ran (map_of ids) \<subseteq> ?done" by blast
    have "\<forall>i \<in> ?done. map_of ?m i = Some i"
      using Cons.prems(3) by (simp add: map_of_dict_set)
    with add_aliases_values [OF ids] have f: "\<forall>i \<in> ?done. map_of ids i = Some i" by blast
    from Cons.IH [OF rec, of ?done] r f True show ?thesis
      by (simp add: enabled_ids_def)
  qed
qed (simp add: enabled_ids_def)

lemma load_registry_ids:
  assumes "load_registry pr wfs = Inr rg"
  shows "rg_workflows rg = wfs" and "ran (map_of (ai_ids (rg_index rg))) \<subseteq> enabled_ids wfs"
    and "i \<in> enabled_ids wfs \<Longrightarrow> map_of (ai_ids (rg_index rg)) i = Some i"
proof -
  from assms obtain ix where ix: "rebuild_alias_index pr wfs empty_index = Inr ix"
    "rg = \<lparr>rg_workflows = wfs, rg_index = ix\<rparr>"
    by (auto simp: load_registry_def split: sum.splits)
  from rebuild_ids [OF ix(1), of "{}"] ix(2)
  show "rg_workflows rg = wfs" "ran (map_of (ai_ids (rg_index rg))) \<subseteq> enabled_ids wfs"
    "i \<in> enabled_ids wfs \<Longrightarrow> map_of (ai_ids (rg_index rg)) i = Some i"
    by (auto simp: empty_index_def)
qed

text \<open>An alias survives what is loaded after it, unless it is the identifier of a later workflow.\<close>

lemma rebuild_keeps_alias:
  assumes "rebuild_alias_index pr wfs ix = Inr ix'" and "map_of (ai_ids ix) a = Some c"
    and "a \<notin> enabled_ids wfs"
  shows "map_of (ai_ids ix') a = Some c"
  using assms
proof (induction wfs arbitrary: ix)
  case (Cons w wfs)
  show ?case
  proof (cases "wf_enabled w")
    case False
    with Cons show ?thesis by (simp add: enabled_ids_def)
  next
    case True
    let ?m = "dict_set (wf_id w) (wf_id w) (ai_ids ix)"
    from True Cons.prems(1) obtain ids ev where
      ids: "add_aliases pr (wf_id w) (wa_workflow_ids (wf_aliases w)) ?m = Inr ids"
      and rec: "rebuild_alias_index pr wfs \<lparr>ai_ids = ids, ai_events = ev, ai_contents =
         fold (add_owner (wf_id w)) (wa_content_types (wf_aliases w)) (ai_contents ix)\<rparr> = Inr ix'"
      by (auto split: sum.splits)
    from True Cons.prems(3) have "a \<noteq> wf_id w" and a: "a \<notin> enabled_ids wfs"
      by (auto simp: enabled_ids_def)
    with Cons.prems(2) have "map_of ?m a = Some c" by (simp add: map_of_dict_set)
    with add_aliases_values [OF ids] have "map_of ids a = Some c" by blast
    with Cons.IH [OF rec _ a] show ?thesis by simp
  qed
qed simp

lemma production_alias:
  assumes "load_registry True wfs = Inr rg" and "w \<in> set wfs" and "wf_enabled w"
    and "a \<in> set (wa_workflow_ids (wf_aliases w))" and "a \<notin> enabled_ids wfs"
  shows "map_of (ai_ids (rg_index rg)) a = Some (wf_id w)"
proof -
  have "map_of (ai_ids ix') a = Some (wf_id w)"
    if "rebuild_alias_index True wfs ix = Inr ix'" "w \<in> set wfs" "a \<notin> enabled_ids wfs" for ix ix'
    using that
  proof (induction wfs arbitrary: ix)
    case (Cons v wfs)
    then have a: "a \<notin> enabled_ids wfs" by (auto simp: enabled_ids_def split: if_splits)
    show ?case
    proof (cases "wf_enabled v")
      case False
      with Cons.prems Cons.IH [OF _ _ a, of ix] assms(3) show ?thesis by auto
    next
      case True
      with Cons.prems(1) obtain ids ev where
        ids: "add_aliases True (wf_id v) (wa_workflow_ids (wf_aliases v))
           (dict_set (wf_id v) (wf_id v) (ai_ids ix)) = Inr ids"
        and rec: "rebuild_alias_index True wfs \<lparr>ai_ids = ids, ai_events = ev, ai_contents =
           fold (add_owner (wf_id v)) (wa_content_types (wf_aliases v)) (ai_contents ix)\<rparr> = Inr ix'"
        by (auto split: sum.splits)
      show ?thesis
      proof (cases "w = v")
        case True
        with add_aliases_production [OF ids] assms(4) have "map_of ids a = Some (wf_id w)"
          by (simp add: map_of_dict_set)
        with rebuild_keeps_alias [OF rec _ a] show ?thesis by simp
      next
        case False
        with Cons.prems(2) Cons.IH [OF rec _ a] show ?thesis by simp
      qed
    qed
  qed simp
  with assms(1,2,5) show ?thesis by (auto simp: load_registry_def split: sum.splits)
qed

subsection \<open>Resolution\<close>

lemma find_in_set: "find p xs = Some x \<Longrightarrow> x \<in> set xs"
  by (auto simp: find_Some_iff)

lemma get_workflow_SomeD:
  "get_workflow rg v = Some w \<Longrightarrow> w \<in> set (rg_workflows rg) \<and> wf_enabled w"
  by (auto simp: get_workflow_def Let_def find_Some_iff)

lemma resolve_enabled:
  assumes "resolve_workflow rg ct et wid = Inr w"
  shows "w \<in> set (rg_workflows rg) \<and> wf_enabled w"
proof -
  let ?enabled = "filter wf_enabled (rg_workflows rg)"
  have hd_in: "hd (sort_key wf_id ms) \<in> set ms" if "ms \<noteq> []" for ms :: "workflow list"
    using hd_in_set [of "sort_key wf_id ms"] that by (metis length_0_conv length_sort set_sort)
  have match: "hd (sort_key wf_id (if filter p ms \<noteq> [] then filter p ms else ms)) \<in> set ms"
    if "ms \<noteq> []" for p and ms :: "workflow list"
    using hd_in [of "filter p ms"] hd_in [OF that] by auto
  show ?thesis
  proof (cases "wid = None \<or> wid = Some []")
    case False
    with assms show ?thesis
      by (auto simp: resolve_workflow_def Let_def get_workflow_SomeD
          split: option.splits list.splits)
  next
    case True
    define ms where "ms = filter (workflow_matches rg (py_lower (py_strip ct))
      (let e = py_lower (py_strip (case et of None \<Rightarrow> [] | Some e \<Rightarrow> e)) in
         if e = [] then None else Some e)) ?enabled"
    have res: "resolve_workflow rg ct et wid = (case ms of [m] \<Rightarrow> Inr m
      | m # n # ms' \<Rightarrow> Inr (hd (sort_key wf_id (if filter (\<lambda>w. wf_event_types w \<noteq> []) ms \<noteq> []
          then filter (\<lambda>w. wf_event_types w \<noteq> []) ms else ms)))
      | [] \<Rightarrow> (case find wf_default ?enabled of Some w \<Rightarrow> Inr w
          | None \<Rightarrow> Inl (ValueError ''no workflow matched'')))"
      using True unfolding resolve_workflow_def Let_def ms_def by (elim disjE) simp_all
    have "set ms \<subseteq> set ?enabled" by (auto simp: ms_def)
    moreover have "w \<in> set ms \<or> w \<in> set ?enabled"
      using assms match [of ms "\<lambda>w. wf_event_types w \<noteq> []"] unfolding res
      by (auto split: list.splits option.splits dest: find_in_set)
    ultimately show ?thesis by auto
  qed
qed

subsection \<open>The loaded registry\<close>

lemma slug_lower:
  assumes "slug_ok s"
  shows "py_lower (py_strip s) = s"
proof -
  have c: "\<not> is_space c \<and> lower_char c = c" if "slug_char c \<or> c \<in> set ''_.-''" for c
    using that by (auto simp: slug_char_def is_space_def lower_char_def code_point_def Let_def)
  from assms obtain x xs where s: "s = x # xs" by (cases s) (auto simp: slug_ok_def)
  with assms c have all: "\<forall>c \<in> set s. \<not> is_space c \<and> lower_char c = c"
    by (auto simp: slug_ok_def list_all_iff)
  then have "dropWhile is_space s = s" "dropWhile is_space (rev s) = rev s"
    by (auto simp: dropWhile_eq_self_iff hd_rev)
  then have "py_strip s = s" by (simp add: py_strip_def)
  moreover have "py_lower s = s" using all by (simp add: py_lower_def map_idI)
  ultimately show ?thesis by simp
qed

text \<open>Whatever was loaded, a workflow that is enabled answers to its own identifier.\<close>

definition registry_ok :: "registry \<Rightarrow> bool" where
  "registry_ok rg \<longleftrightarrow> (\<forall>w \<in> set (rg_workflows rg). wf_enabled w \<longrightarrow>
     canonical_workflow_id rg (Some (wf_id w)) = Some (wf_id w))"

lemma all_workflows_ok:
  assumes "all_workflows cfg = Inr rg"
  shows "registry_ok rg" and "rg_workflows rg \<noteq> []"
proof -
  define loaded where "loaded = (if load_workflows_dir (wc_files cfg) = [] then [builtin_default]
    else load_workflows_dir (wc_files cfg))"
  from assms have l: "load_registry (wc_production cfg) loaded = Inr rg"
    by (simp add: all_workflows_def Let_def loaded_def split: if_splits)
  note ids = load_registry_ids [OF l]
  show "rg_workflows rg \<noteq> []" unfolding ids(1) by (simp add: loaded_def)
  have "slug_ok (wf_id builtin_default)"
    by (simp add: builtin_default_def slug_ok_def slug_char_def code_point_def)
  then have slug: "slug_ok (wf_id w)" if "w \<in> set loaded" for w
    using that by (auto simp: loaded_def load_workflows_dir_def split: if_splits)
  show "registry_ok rg"
    unfolding registry_ok_def
  proof (intro ballI impI)
    fix w assume w: "w \<in> set (rg_workflows rg)" "wf_enabled w"
    with ids(1) have s: "slug_ok (wf_id w)" and "wf_id w \<in> enabled_ids loaded"
      using slug by (auto simp: enabled_ids_def)
    with ids(3) have m: "map_of (ai_ids (rg_index rg)) (wf_id w) = Some (wf_id w)" by blast
    from s have "wf_id w \<noteq> []" by (auto simp: slug_ok_def)
    with m slug_lower [OF s] show "canonical_workflow_id rg (Some (wf_id w)) = Some (wf_id w)"
      by (simp add: canonical_workflow_id_def canonical_key_def)
  qed
qed

lemma resolve_canonical:
  assumes "registry_ok rg" and "resolve_workflow rg ct et wid = Inr w"
  shows "canonical_workflow_id rg (Some (wf_id w)) = Some (wf_id w)"
  using assms(1) resolve_enabled [OF assms(2)] by (simp add: registry_ok_def)

end
