(* ===== verification/Ingest_Safety.thy ===== *)
theory Ingest_Safety
  imports Ingest Workflow_Facts
begin

section \<open>Ingest and projections: the protocol under interference\<close>

text \<open>
  The invariant of the receipts, the checkpoints and the dead letters, the relation every
  statement of every worker stays in, and the proof that the operations keep them.
\<close>

subsection \<open>Receipts\<close>

definition batch_ok :: "batch_row \<Rightarrow> bool" where
  "batch_ok b \<longleftrightarrow>
     0 \<le> ib_attempts b \<and> 1 \<le> ib_max b \<and> ib_attempts b \<le> ib_max b
     \<and> (ib_status b = B_running \<longleftrightarrow> ib_owner b \<noteq> None)
     \<and> (ib_owner b = None \<longleftrightarrow> ib_lease b = None)
     \<and> (ib_status b = B_completed \<longleftrightarrow> ib_completed b \<noteq> None)
     \<and> (ib_status b \<in> {B_running, B_completed, B_retry_scheduled} \<longrightarrow> 1 \<le> ib_attempts b)
     \<and> 1 \<le> length (ib_events b) \<and> length (ib_events b) \<le> max_ingest_batch_events
     \<and> ib_event_ids b = map mt_event (ib_events b)
     \<and> (\<exists>t. ib_tenants b = [t] \<and> (\<forall>m \<in> set (ib_events b). mt_tenant m = t))"

text \<open>What no operation changes of a receipt: its identity and the work it stands for.\<close>

definition batch_same :: "batch_row \<Rightarrow> batch_row \<Rightarrow> bool" where
  "batch_same b b' \<longleftrightarrow> ib_id b' = ib_id b \<and> ib_acceptance b' = ib_acceptance b
     \<and> ib_ordinal b' = ib_ordinal b \<and> ib_key b' = ib_key b \<and> ib_requested_by b' = ib_requested_by b
     \<and> ib_workflow b' = ib_workflow b \<and> ib_version b' = ib_version b \<and> ib_hash b' = ib_hash b
     \<and> ib_snapshot b' = ib_snapshot b \<and> ib_projection b' = ib_projection b
     \<and> ib_projection_version b' = ib_projection_version b
     \<and> ib_content_type b' = ib_content_type b \<and> ib_event_type b' = ib_event_type b
     \<and> ib_events b' = ib_events b \<and> ib_event_ids b' = ib_event_ids b
     \<and> ib_tenants b' = ib_tenants b \<and> ib_max b' = ib_max b"

definition batch_le :: "batch_row \<Rightarrow> batch_row \<Rightarrow> bool" where
  "batch_le b b' \<longleftrightarrow> batch_same b b'
     \<and> (ib_status b = B_completed \<longrightarrow> ib_status b' = B_completed
          \<and> ib_summary b' = ib_summary b \<and> ib_completed b' = ib_completed b)"

subsection \<open>Checkpoints and results\<close>

definition ckpt_key :: "ckpt_row \<Rightarrow> uuid \<times> string \<times> string" where
  "ckpt_key c = (ck_tenant c, ck_projection c, ck_workflow c)"

definition cursor_of :: "ckpt_row \<Rightarrow> (time \<times> uuid) option" where
  "cursor_of c = (case (ck_created c, ck_event c) of (Some t, Some e) \<Rightarrow> Some (t, e) | _ \<Rightarrow> None)"

definition ckpt_le :: "ckpt_row \<Rightarrow> ckpt_row \<Rightarrow> bool" where
  "ckpt_le c c' \<longleftrightarrow> ckpt_key c' = ckpt_key c
     \<and> (case cursor_of c of None \<Rightarrow> True
        | Some p \<Rightarrow> (case cursor_of c' of None \<Rightarrow> False | Some p' \<Rightarrow> p \<le> p'))"

definition result_key :: "stream_row \<Rightarrow> uuid \<times> string \<times> int \<times> string" where
  "result_key r = (st_tenant r, st_projection r, st_version r, st_key r)"

definition open_key :: "dlq_row \<Rightarrow> uuid \<times> string" where
  "open_key r = (dq_tenant r, dq_key r)"

definition dlq_ok :: "dlq_row \<Rightarrow> bool" where
  "dlq_ok r \<longleftrightarrow> 0 \<le> dq_attempts r \<and> dq_attempts r \<le> dq_max r
     \<and> (dq_locked_by r = None \<longleftrightarrow> dq_lease r = None)
     \<and> (dq_resolved r \<noteq> None \<longrightarrow> dq_locked_by r = None)"

text \<open>A dead letter keeps its identity, is never reopened, and its attempts only grow.\<close>

definition dlq_le :: "dlq_row \<Rightarrow> dlq_row \<Rightarrow> bool" where
  "dlq_le r r' \<longleftrightarrow> dq_id r' = dq_id r \<and> dq_tenant r' = dq_tenant r \<and> dq_source r' = dq_source r
     \<and> dq_workflow r' = dq_workflow r \<and> dq_projection r' = dq_projection r
     \<and> dq_version r' = dq_version r \<and> dq_key r' = dq_key r \<and> dq_max r' = dq_max r
     \<and> dq_attempts r \<le> dq_attempts r'
     \<and> (dq_resolved r \<noteq> None \<longrightarrow> dq_resolved r' = dq_resolved r)"

definition ig_inv :: "ig_db \<Rightarrow> bool" where
  "ig_inv d \<longleftrightarrow> list_all batch_ok (ingest_batches d)
     \<and> distinct (map ib_id (ingest_batches d)) \<and> distinct (map ib_key (ingest_batches d))
     \<and> distinct (map ckpt_key (checkpoints d))
     \<and> distinct (map result_key (stream_results d))
     \<and> list_all dlq_ok (dead_letters d)
     \<and> distinct (map open_key (filter (\<lambda>r. dq_resolved r = None) (dead_letters d)))"

definition ig_rely :: "ig_db \<Rightarrow> ig_db \<Rightarrow> bool" where
  "ig_rely d d' \<longleftrightarrow> (ig_inv d \<longrightarrow> ig_inv d' \<and> now d \<le> now d'
     \<and> (\<forall>b \<in> set (ingest_batches d). \<exists>b' \<in> set (ingest_batches d'). batch_le b b')
     \<and> (\<forall>c \<in> set (checkpoints d). \<exists>c' \<in> set (checkpoints d'). ckpt_le c c')
     \<and> (\<forall>r \<in> set (dead_letters d). \<exists>r' \<in> set (dead_letters d'). dlq_le r r')
     \<and> set (map result_key (stream_results d)) \<subseteq> set (map result_key (stream_results d')))"

lemma batch_le_refl [simp]: "batch_le b b"
  by (simp add: batch_le_def batch_same_def)

lemma batch_le_trans: "batch_le a b \<Longrightarrow> batch_le b c \<Longrightarrow> batch_le a c"
  by (simp add: batch_le_def batch_same_def)

lemma ckpt_le_refl [simp]: "ckpt_le c c"
  by (simp add: ckpt_le_def split: option.split)

lemma ckpt_le_trans: "ckpt_le a b \<Longrightarrow> ckpt_le b c \<Longrightarrow> ckpt_le a c"
  by (auto simp: ckpt_le_def split: option.splits dest: order_trans)

lemma dlq_le_refl [simp]: "dlq_le r r"
  by (simp add: dlq_le_def)

lemma dlq_le_trans: "dlq_le a b \<Longrightarrow> dlq_le b c \<Longrightarrow> dlq_le a c"
  by (cases "dq_resolved a") (simp_all add: dlq_le_def)

lemma ig_rely_refl: "ig_rely d d"
  unfolding ig_rely_def by (simp add: each_refl)

lemma ig_rely_trans:
  assumes "ig_rely d d'" and "ig_rely d' d''"
  shows "ig_rely d d''"
proof (cases "ig_inv d")
  case True
  with assms(1) have a: "ig_inv d'" "now d \<le> now d'"
    "\<forall>b \<in> set (ingest_batches d). \<exists>b' \<in> set (ingest_batches d'). batch_le b b'"
    "\<forall>c \<in> set (checkpoints d). \<exists>c' \<in> set (checkpoints d'). ckpt_le c c'"
    "\<forall>r \<in> set (dead_letters d). \<exists>r' \<in> set (dead_letters d'). dlq_le r r'"
    "set (map result_key (stream_results d)) \<subseteq> set (map result_key (stream_results d'))"
    by (simp_all add: ig_rely_def)
  with assms(2) have b: "ig_inv d''" "now d' \<le> now d''"
    "\<forall>b \<in> set (ingest_batches d'). \<exists>b' \<in> set (ingest_batches d''). batch_le b b'"
    "\<forall>c \<in> set (checkpoints d'). \<exists>c' \<in> set (checkpoints d''). ckpt_le c c'"
    "\<forall>r \<in> set (dead_letters d'). \<exists>r' \<in> set (dead_letters d''). dlq_le r r'"
    "set (map result_key (stream_results d')) \<subseteq> set (map result_key (stream_results d''))"
    by (simp_all add: ig_rely_def)
  have "\<forall>b \<in> set (ingest_batches d). \<exists>b' \<in> set (ingest_batches d''). batch_le b b'"
    using a(3) b(3) batch_le_trans by blast
  moreover have "\<forall>c \<in> set (checkpoints d). \<exists>c' \<in> set (checkpoints d''). ckpt_le c c'"
    using a(4) b(4) ckpt_le_trans by blast
  moreover have "\<forall>r \<in> set (dead_letters d). \<exists>r' \<in> set (dead_letters d''). dlq_le r r'"
    using a(5) b(5) dlq_le_trans by blast
  ultimately show ?thesis
    using a(2,6) b(1,2,6) unfolding ig_rely_def by (meson order_trans subset_trans)
qed (simp add: ig_rely_def)

interpretation ig: protocol ig_inv ig_rely
  by unfold_locales (rule ig_rely_refl, erule (1) ig_rely_trans, simp_all add: ig_rely_def)

lemma ig_inv_cong:
  "ingest_batches d' = ingest_batches d \<Longrightarrow> checkpoints d' = checkpoints d \<Longrightarrow>
   dead_letters d' = dead_letters d \<Longrightarrow> stream_results d' = stream_results d \<Longrightarrow> ig_inv d' = ig_inv d"
  by (simp add: ig_inv_def)

lemma ig_rely_frame:
  assumes "ingest_batches d' = ingest_batches d" and "checkpoints d' = checkpoints d"
    and "dead_letters d' = dead_letters d" and "stream_results d' = stream_results d"
    and "now d' = now d"
  shows "ig_rely d d'"
  using assms ig_rely_refl [of d] unfolding ig_rely_def by (simp add: ig_inv_def)

subsection \<open>One table at a time\<close>

lemma rely_batches:
  assumes "ingest_batches d' = upd_where hit f (ingest_batches d)"
    and "checkpoints d' = checkpoints d" "dead_letters d' = dead_letters d"
    "stream_results d' = stream_results d" "now d' = now d"
    and step: "\<And>b. b \<in> set (ingest_batches d) \<Longrightarrow> hit b \<Longrightarrow> batch_ok b \<Longrightarrow>
      batch_le b (f b) \<and> batch_ok (f b)"
    and inv: "ig_inv d"
  shows "ig_rely d d'"
proof -
  have ok: "batch_le b (f b) \<and> batch_ok (f b)" if "b \<in> set (ingest_batches d)" "hit b" for b
    using step [OF that] inv that by (auto simp: ig_inv_def list_all_iff)
  have ids: "map ib_id (ingest_batches d') = map ib_id (ingest_batches d)"
    "map ib_key (ingest_batches d') = map ib_key (ingest_batches d)"
    unfolding assms(1)
    by (rule map_upd_where; use ok in \<open>auto simp: batch_le_def batch_same_def\<close>)+
  have "list_all batch_ok (ingest_batches d')"
    unfolding assms(1) by (rule list_all_upd_where) (use inv ok in \<open>auto simp: ig_inv_def\<close>)
  then have "ig_inv d'" using inv by (simp only: ig_inv_def ids assms(2-4))
  moreover have "\<forall>b \<in> set (ingest_batches d). \<exists>b' \<in> set (ingest_batches d'). batch_le b b'"
    unfolding assms(1) by (rule upd_where_le) (simp_all add: ok)
  ultimately show ?thesis unfolding ig_rely_def assms(2-5) by (simp add: each_refl)
qed

lemma rely_insert_batch:
  assumes "ig_inv d" and "batch_ok b" and "ib_id b \<notin> ib_id ` set (ingest_batches d)"
    and "ib_key b \<notin> ib_key ` set (ingest_batches d)"
  shows "ig_rely d (d\<lparr>ingest_batches := ingest_batches d @ [b]\<rparr>)"
proof -
  have "ig_inv (d\<lparr>ingest_batches := ingest_batches d @ [b]\<rparr>)"
    using assms by (auto simp: ig_inv_def)
  then show ?thesis unfolding ig_rely_def by (auto intro: batch_le_refl simp: each_refl)
qed

lemma rely_dead_letters:
  assumes "d' = d\<lparr>dead_letters := rs\<rparr>" and "list_all dlq_ok rs"
    and "distinct (map open_key (filter (\<lambda>r. dq_resolved r = None) rs))"
    and "\<forall>r \<in> set (dead_letters d). \<exists>r' \<in> set rs. dlq_le r r'" and "ig_inv d"
  shows "ig_rely d d'"
proof -
  have "ig_inv d'" using assms by (simp add: ig_inv_def)
  then show ?thesis unfolding ig_rely_def using assms(1,4) by (simp add: each_refl)
qed

lemma distinct_open_upd_where:
  assumes "distinct (map open_key (filter (\<lambda>r. dq_resolved r = None) rs))"
    and "\<And>r. r \<in> set rs \<Longrightarrow> hit r \<Longrightarrow>
      open_key (f r) = open_key r \<and> (dq_resolved (f r) = None \<longrightarrow> dq_resolved r = None)"
  shows "distinct (map open_key (filter (\<lambda>r. dq_resolved r = None) (upd_where hit f rs)))
    \<and> open_key ` {r \<in> set (upd_where hit f rs). dq_resolved r = None}
       \<subseteq> open_key ` {r \<in> set rs. dq_resolved r = None}"
  using assms
proof (induction rs)
  case (Cons r rs)
  let ?g = "if hit r then f r else r"
  have g: "open_key ?g = open_key r" "dq_resolved ?g = None \<Longrightarrow> dq_resolved r = None"
    using Cons.prems(2) [of r] by (auto split: if_splits)
  from Cons.prems have "distinct (map open_key (filter (\<lambda>r. dq_resolved r = None) rs))"
    by (simp split: if_splits)
  from Cons.IH [OF this] Cons.prems(2) have IH:
    "distinct (map open_key (filter (\<lambda>r. dq_resolved r = None) (upd_where hit f rs)))"
    "open_key ` {r \<in> set (upd_where hit f rs). dq_resolved r = None}
       \<subseteq> open_key ` {r \<in> set rs. dq_resolved r = None}" by auto
  have new: "open_key r \<notin> open_key ` {r \<in> set (upd_where hit f rs). dq_resolved r = None}"
    if "dq_resolved r = None"
  proof -
    from Cons.prems(1) that have "open_key r \<notin> open_key ` {r \<in> set rs. dq_resolved r = None}"
      by auto
    with IH(2) show ?thesis by blast
  qed
  show ?case
  proof (cases "dq_resolved ?g = None")
    case True
    with g have r: "dq_resolved r = None" by blast
    from IH new [OF r] True r g(1) show ?thesis by (auto simp: upd_where_Cons)
  next
    case False
    with IH show ?thesis by (auto simp: upd_where_Cons)
  qed
qed (simp add: upd_where_Nil)

lemma rely_update_dead_letters:
  assumes "d' = d\<lparr>dead_letters := upd_where hit f (dead_letters d)\<rparr>"
    and "\<And>r. r \<in> set (dead_letters d) \<Longrightarrow> hit r \<Longrightarrow> dlq_ok r \<Longrightarrow> dlq_le r (f r) \<and> dlq_ok (f r)
      \<and> (dq_resolved (f r) = None \<longrightarrow> dq_resolved r = None)"
    and inv: "ig_inv d"
  shows "ig_rely d d'"
proof (rule rely_dead_letters [OF assms(1) _ _ _ inv])
  have ok: "dlq_le r (f r) \<and> dlq_ok (f r) \<and> (dq_resolved (f r) = None \<longrightarrow> dq_resolved r = None)"
    if "r \<in> set (dead_letters d)" "hit r" for r
    using assms(2) [OF that] inv that by (auto simp: ig_inv_def list_all_iff)
  show "list_all dlq_ok (upd_where hit f (dead_letters d))"
    by (rule list_all_upd_where) (use inv ok in \<open>auto simp: ig_inv_def\<close>)
  show "\<forall>r \<in> set (dead_letters d). \<exists>r' \<in> set (upd_where hit f (dead_letters d)). dlq_le r r'"
    by (rule upd_where_le) (simp_all add: ok)
  have "distinct (map open_key (filter (\<lambda>r. dq_resolved r = None) (dead_letters d)))"
    using inv by (simp add: ig_inv_def)
  from distinct_open_upd_where [OF this] ok
  show "distinct (map open_key (filter (\<lambda>r. dq_resolved r = None) (upd_where hit f (dead_letters d))))"
    by (fastforce simp: dlq_le_def open_key_def)
qed

lemma rely_checkpoints:
  assumes "d' = d\<lparr>checkpoints := cs\<rparr>" and "distinct (map ckpt_key cs)"
    and "\<forall>c \<in> set (checkpoints d). \<exists>c' \<in> set cs. ckpt_le c c'" and "ig_inv d"
  shows "ig_rely d d'"
proof -
  have "ig_inv d'" using assms by (simp add: ig_inv_def)
  then show ?thesis unfolding ig_rely_def using assms(1,3) by (simp add: each_refl)
qed

lemma rely_results:
  assumes "d' = d\<lparr>stream_results := rs\<rparr>" and "distinct (map result_key rs)"
    and "set (map result_key (stream_results d)) \<subseteq> set (map result_key rs)" and "ig_inv d"
  shows "ig_rely d d'"
proof -
  have "ig_inv d'" using assms by (simp add: ig_inv_def)
  then show ?thesis unfolding ig_rely_def using assms(1,3) by (simp add: each_refl)
qed

subsection \<open>Statements of the projections\<close>

lemma rely_enqueue:
  assumes inv: "ig_inv d"
  shows "ig_rely d (enqueue_projection_dlq env i tenant src wid proj v err cls m d)"
proof -
  let ?key = "dlq_dedupe_key env src wid proj v"
  let ?open = "\<lambda>r. dq_tenant r = tenant \<and> dq_key r = ?key \<and> dq_resolved r = None"
  show ?thesis
  proof (cases "list_ex ?open (dead_letters d)")
    case True
    let ?f = "\<lambda>r. r\<lparr>dq_error := take 4000 err, dq_class := take 128 cls, dq_meta := safe_meta env m,
      dq_next := min (dq_next r) (now d), dq_updated := now d\<rparr>"
    show ?thesis
      by (rule rely_update_dead_letters [where hit = ?open and f = ?f, OF _ _ inv])
        (use True in \<open>auto simp: enqueue_projection_dlq_def Let_def dlq_le_def dlq_ok_def\<close>)
  next
    case False
    then obtain r where r: "enqueue_projection_dlq env i tenant src wid proj v err cls m d
        = d\<lparr>dead_letters := dead_letters d @ [r]\<rparr>" "dlq_ok r" "open_key r = (tenant, ?key)"
      by (simp add: enqueue_projection_dlq_def Let_def dlq_ok_def dlq_max_attempts_def open_key_def)
    have "(tenant, ?key) \<notin> open_key ` {r \<in> set (dead_letters d). dq_resolved r = None}"
      using False by (auto simp: list_ex_iff open_key_def)
    with r inv show ?thesis
      by (intro rely_dead_letters [OF r(1) _ _ _ inv])
        (auto simp: ig_inv_def intro: dlq_le_refl)
  qed
qed

lemma rely_enqueue_all:
  "ig_inv d \<Longrightarrow> ig_rely d (enqueue_all env ms tenant wid proj v err cls d)"
proof (induction ms arbitrary: d)
  case (Cons m ms)
  obtain i x where m: "m = (i, x)" by (cases m)
  from rely_enqueue [OF Cons.prems] ig.rely_inv Cons.prems Cons.IH show ?case
    by (simp add: m) (blast intro: ig.rely_trans)
qed (simp add: ig.rely_refl)

lemma rely_resolve:
  "ig_inv d \<Longrightarrow> ig_rely d (resolve_projection_dlq_for_events tenant srcs wid proj v d)"
  unfolding resolve_projection_dlq_for_events_def
  by (rule rely_update_dead_letters [OF refl]) (auto simp: dlq_le_def dlq_ok_def)

lemma upsert_row_keys:
  assumes "distinct (map result_key rows)"
  shows "distinct (map result_key (upsert_row r rows))"
    and "set (map result_key (upsert_row r rows)) = insert (result_key r) (set (map result_key rows))"
proof -
  have same: "same_result r q \<longleftrightarrow> result_key q = result_key r" for q
    by (auto simp: same_result_def result_key_def)
  have m: "map result_key (upd_where (same_result r)
      (\<lambda>old. r\<lparr>st_id := st_id old, st_created := st_created old\<rparr>) rows) = map result_key rows"
    by (rule map_upd_where) (auto simp: same_result_def result_key_def)
  show "distinct (map result_key (upsert_row r rows))"
    unfolding upsert_row_def using assms
    by (cases "list_ex (same_result r) rows") (auto simp: m list_ex_iff same simp del: map_map)
  show "set (map result_key (upsert_row r rows)) = insert (result_key r) (set (map result_key rows))"
    unfolding upsert_row_def
  proof (cases "list_ex (same_result r) rows")
    case True
    then have "result_key r \<in> set (map result_key rows)"
      unfolding list_ex_iff same by (metis image_eqI set_map)
    with True show "set (map result_key (if list_ex (same_result r) rows then upd_where (same_result r)
        (\<lambda>old. r\<lparr>st_id := st_id old, st_created := st_created old\<rparr>) rows else rows @ [r]))
      = insert (result_key r) (set (map result_key rows))"
      by (simp only: if_True m insert_absorb)
  qed simp
qed

lemma fold_upsert_keys:
  "distinct (map result_key rows) \<Longrightarrow>
     distinct (map result_key (fold upsert_row rs rows))
     \<and> set (map result_key (fold upsert_row rs rows))
        = set (map result_key rs) \<union> set (map result_key rows)"
proof (induction rs arbitrary: rows)
  case (Cons r rs)
  from Cons.IH [OF upsert_row_keys(1) [OF Cons.prems]] upsert_row_keys(2) [OF Cons.prems] show ?case
    by auto
qed simp

lemma rely_upsert:
  assumes "upsert_stream_results env ids rows v agg tns evs d = Inr (n, d')" and inv: "ig_inv d"
  shows "ig_rely d d'"
proof -
  from assms(1) obtain rs where d': "d' = d\<lparr>stream_results := fold upsert_row rs (stream_results d)\<rparr>"
    by (auto simp: upsert_stream_results_def split: sum.splits)
  from inv have "distinct (map result_key (stream_results d))" by (simp add: ig_inv_def)
  from fold_upsert_keys [OF this, of rs] show ?thesis
    by (intro rely_results [OF d' _ _ inv]) auto
qed

lemma rely_advance:
  assumes inv: "ig_inv d"
  shows "ig_rely d (advance_checkpoint tenant proj wid e t d)"
proof -
  let ?same = "\<lambda>c. ck_tenant c = tenant \<and> ck_projection c = proj \<and> ck_workflow c = wid"
  let ?f = "\<lambda>c. c\<lparr>ck_event := Some e, ck_created := Some t, ck_updated := now d\<rparr>"
  show ?thesis
  proof (cases "list_ex ?same (checkpoints d)")
    case True
    show ?thesis
    proof (rule rely_checkpoints [OF _ _ _ inv])
      show "advance_checkpoint tenant proj wid e t d = d\<lparr>checkpoints :=
          upd_where (\<lambda>c. ?same c \<and> ahead t e c) ?f (checkpoints d)\<rparr>"
        using True by (simp add: advance_checkpoint_def Let_def)
      have "map ckpt_key (upd_where (\<lambda>c. ?same c \<and> ahead t e c) ?f (checkpoints d))
          = map ckpt_key (checkpoints d)"
        by (rule map_upd_where) (simp add: ckpt_key_def)
      with inv show "distinct (map ckpt_key (upd_where (\<lambda>c. ?same c \<and> ahead t e c) ?f (checkpoints d)))"
        by (simp add: ig_inv_def)
      show "\<forall>c \<in> set (checkpoints d).
          \<exists>c' \<in> set (upd_where (\<lambda>c. ?same c \<and> ahead t e c) ?f (checkpoints d)). ckpt_le c c'"
        by (rule upd_where_le)
          (auto simp: ckpt_le_def ckpt_key_def cursor_of_def ahead_def split: option.splits)
    qed
  next
    case False
    let ?new = "\<lparr>ck_tenant = tenant, ck_projection = proj, ck_workflow = wid, ck_event = Some e,
       ck_created = Some t, ck_updated = now d\<rparr>"
    show ?thesis
      by (rule rely_checkpoints [where cs = "checkpoints d @ [?new]", OF _ _ _ inv])
        (use False inv in \<open>auto simp: advance_checkpoint_def Let_def ig_inv_def list_ex_iff ckpt_key_def
           intro: ckpt_le_refl\<close>)
  qed
qed

lemma ig_compose:
  "ig_inv d \<Longrightarrow> ig_rely d e \<Longrightarrow> (ig_inv e \<Longrightarrow> ig_rely e e') \<Longrightarrow> ig_rely d e'"
  by (blast intro: ig.rely_trans ig.rely_inv)

lemma rely_advance_to_last: "ig_inv d \<Longrightarrow> ig_rely d (advance_to_last ms tenant proj wid d)"
  by (auto simp: advance_to_last_def intro: rely_advance ig.rely_refl split: option.splits)

lemma rely_hand_to_dlq:
  "ig_inv d \<Longrightarrow> ig_rely d (hand_to_dlq env ids ms tenant wid proj v err d)"
  unfolding hand_to_dlq_def
  by (rule ig_compose [OF _ rely_enqueue_all rely_advance_to_last])

lemma rely_commit_projection:
  assumes "commit_projection env ids rows ms tenant wid proj v d = Inr (n, d')" and inv: "ig_inv d"
  shows "ig_rely d d'"
proof -
  let ?evs = "sorted_set (map mt_event ms)"
  from assms(1) obtain d1 where
    up: "upsert_stream_results env ids rows v (\<lambda>_. ?evs) [tenant] ?evs d = Inr (n, d1)"
    and d': "d' = advance_to_last ms tenant proj wid
      (resolve_projection_dlq_for_events tenant ?evs wid proj v d1)"
    by (auto simp: commit_projection_def Let_def split: sum.splits)
  from rely_upsert [OF up inv] have R: "ig_rely d d1" .
  with inv have inv1: "ig_inv d1" by (rule ig.rely_inv [rotated])
  have "ig_rely d1 d'"
    unfolding d'
    by (rule ig_compose [OF inv1 rely_resolve [OF inv1] rely_advance_to_last])
  with R show ?thesis by (rule ig.rely_trans)
qed

subsection \<open>Statements on dead letters and receipts\<close>

lemma rely_claim_dlq:
  assumes "claim_dlq_item i tenant w d = (x, d')" and "ig_inv d"
  shows "ig_rely d d'"
  using assms(1) unfolding claim_dlq_item_def Let_def
  by (intro rely_update_dead_letters [OF _ _ assms(2), where f = "claim_dlq (now d) w"
        and hit = "\<lambda>r. dq_id r = i \<and> dq_tenant r = tenant \<and> dlq_claimable (now d) r"])
    (auto simp: dlq_le_def dlq_ok_def claim_dlq_def dlq_claimable_def)

lemma rely_complete_dlq:
  assumes "complete_dlq i tenant w d = (n, d')" and "ig_inv d"
  shows "ig_rely d d'"
  using assms(1) unfolding complete_dlq_def
  by (intro rely_update_dead_letters [OF _ _ assms(2), where hit = "dlq_held i tenant w"
        and f = "\<lambda>r. r\<lparr>dq_resolved := Some (now d), dq_locked_at := None, dq_locked_by := None,
             dq_lease := None, dq_updated := now d\<rparr>"])
    (auto simp: dlq_le_def dlq_ok_def dlq_held_def)

lemma rely_release_dlq: "ig_inv d \<Longrightarrow> ig_rely d (release_dlq i tenant w err delay d)"
  unfolding release_dlq_def
  by (rule rely_update_dead_letters [OF refl]) (auto simp: dlq_le_def dlq_ok_def dlq_held_def)

named_theorems batch_step "unfolding one update of a receipt"

lemmas batch_step_defs [batch_step] = batch_le_def batch_same_def batch_ok_def

lemma rely_wake: "ig_inv d \<Longrightarrow> ig_rely d (wake_processing_batches ids revive d)"
proof (cases "ids = []")
  case False
  assume inv: "ig_inv d"
  show ?thesis
    by (rule rely_batches [where f = "wake_batch (now d) revive" and hit = "\<lambda>b. ib_id b \<in> set ids
          \<and> ib_status b \<in> {B_queued, B_retry_scheduled, B_failed}", OF _ _ _ _ _ _ inv])
      (use False in \<open>auto simp: wake_processing_batches_def batch_step wake_batch_def Let_def\<close>)
qed (simp add: wake_processing_batches_def ig.rely_refl)

lemma rely_recover: "ig_inv d \<Longrightarrow> ig_rely d (recover_expired_processing_leases d)"
  by (rule rely_batches [where f = "recover_batch (now d)" and hit = "batch_lease_expired (now d)"])
    (auto simp: recover_expired_processing_leases_def batch_step recover_batch_def
      batch_lease_expired_def)

lemma claim_batch_step: "batch_ok b \<Longrightarrow> batch_claimable t b \<Longrightarrow>
    batch_le b (claim_batch t w b) \<and> batch_ok (claim_batch t w b)"
  by (auto simp: batch_step batch_claimable_def claim_batch_def)

lemma rely_claim_batches:
  assumes "claim_processing_batches w n only d = (rows, d')" and inv: "ig_inv d"
  shows "ig_rely d d'"
proof -
  let ?ok = "\<lambda>b. batch_claimable (now d) b \<and> (case only of None \<Rightarrow> True | Some ids \<Rightarrow> ib_id b \<in> set ids)"
  let ?cand = "take (nat (clamp 1 100 n)) (sort_key batch_order (filter ?ok (ingest_batches d)))"
  have d': "ingest_batches d' = upd_where (\<lambda>b. ib_id b \<in> ib_id ` set ?cand) (claim_batch (now d) w)
      (ingest_batches d)" and other: "checkpoints d' = checkpoints d"
    "dead_letters d' = dead_letters d" "stream_results d' = stream_results d" "now d' = now d"
    using assms(1) by (auto simp: claim_processing_batches_def Let_def)
  have "batch_claimable (now d) b" if b: "b \<in> set (ingest_batches d)" "ib_id b \<in> ib_id ` set ?cand" for b
  proof -
    from b(2) obtain c where c: "c \<in> set ?cand" "ib_id c = ib_id b" by auto
    from c(1) have "c \<in> set (sort_key batch_order (filter ?ok (ingest_batches d)))"
      by (rule in_set_takeD)
    then have "c \<in> set (ingest_batches d)" "batch_claimable (now d) c" by auto
    moreover from this b c inv have "c = b" by (auto simp: ig_inv_def dest: distinct_map_eqD)
    ultimately show ?thesis by simp
  qed
  then show ?thesis
    by (intro rely_batches [OF d' other _ inv]) (rule claim_batch_step)
qed

lemma rely_heartbeat:
  assumes "heartbeat_stmt row w d = (n, d')" and "ig_inv d"
  shows "ig_rely d d'"
  using assms(1) unfolding heartbeat_stmt_def
  by (intro rely_batches [OF _ _ _ _ _ _ assms(2), where hit = "batch_held row w"
        and f = "\<lambda>b. b\<lparr>ib_lease := Some (now d + secs processing_lease_seconds), ib_updated := now d\<rparr>"])
    (auto simp: batch_step batch_held_def)

lemma map_err_length: "map_err f xs = Inr ys \<Longrightarrow> length ys = length xs"
  by (induction xs arbitrary: ys) (auto split: sum.splits)

lemma sorted_set_single:
  assumes "length (sorted_set xs) = 1"
  shows "\<exists>t. sorted_set xs = [t] \<and> set xs = {t}"
proof -
  from assms obtain t where t: "sorted_set xs = [t]" by (cases "sorted_set xs") auto
  have "set (sorted_set xs) = set xs" by (simp add: sorted_set_def)
  with t show ?thesis by auto
qed

lemma rely_register:
  assumes "register_processing_batch env bid acc ord req wfl ct et evs d = Inr (b, d')"
    and inv: "ig_inv d"
  shows "ig_rely d d'"
proof -
  from assms(1) obtain ms where ms: "safe_events env evs = Inr ms"
    and one: "length (sorted_set (map mt_tenant ms)) = 1"
    by (auto simp: register_processing_batch_def Let_def split: sum.splits if_splits)
  let ?row = "receipt env bid acc ord req wfl ct et ms (sorted_set (map mt_tenant ms)) (now d)"
  let ?same = "\<lambda>b. ib_key b = ib_key ?row"
  show ?thesis
  proof (cases "first_row ?same (ingest_batches d)")
    case (Some q)
    with assms(1) ms one have "d' = d\<lparr>ingest_batches :=
        upd_where ?same (\<lambda>b. b\<lparr>ib_updated := now d\<rparr>) (ingest_batches d)\<rparr>"
      by (simp add: register_processing_batch_def Let_def)
    then show ?thesis
      by (intro rely_batches [OF _ _ _ _ _ _ inv, where hit = ?same
            and f = "\<lambda>b. b\<lparr>ib_updated := now d\<rparr>"]) (auto simp: batch_step)
  next
    case None
    with assms(1) ms one have d': "d' = d\<lparr>ingest_batches := ingest_batches d @ [?row]\<rparr>"
      and fresh: "ib_id ?row \<notin> ib_id ` set (ingest_batches d)"
      by (auto simp: register_processing_batch_def Let_def list_ex_iff receipt_def split: if_splits)
    from None have key: "ib_key ?row \<notin> ib_key ` set (ingest_batches d)"
      by (auto simp: first_row_None_iff)
    from ms have "1 \<le> length ms" "length ms \<le> max_ingest_batch_events"
      by (auto simp: safe_events_def dest!: map_err_length split: if_splits)
    moreover from sorted_set_single [OF one] obtain t where
      "sorted_set (map mt_tenant ms) = [t]" "mt_tenant ` set ms = {t}" by auto
    ultimately have "batch_ok ?row"
      by (auto simp: batch_ok_def receipt_def Let_def processing_max_attempts_def)
    from rely_insert_batch [OF inv this fresh key] show ?thesis by (simp add: d')
  qed
qed

lemma rely_dlq_events: "ig_inv d \<Longrightarrow> ig_rely d (dlq_events env row e ms d)"
proof (induction ms arbitrary: d)
  case (Cons m ms)
  obtain i x where m: "m = (i, x)" by (cases m)
  from rely_enqueue [OF Cons.prems] ig.rely_inv Cons.prems Cons.IH show ?case
    by (simp add: m) (blast intro: ig.rely_trans)
qed (simp add: ig.rely_refl)

lemma rely_persist_failure:
  assumes "persist_failure_txn env row w ms e d = Inr (x, d')" and inv: "ig_inv d"
  shows "ig_rely d d'"
proof -
  let ?d1 = "dlq_events env row e ms d"
  from assms(1) have d': "d' = ?d1\<lparr>ingest_batches := upd_where (batch_held row w)
      (failed_batch (now ?d1) row e) (ingest_batches ?d1)\<rparr>"
    by (auto simp: persist_failure_txn_def Let_def split: if_splits)
  from rely_dlq_events [OF inv] have R: "ig_rely d ?d1" .
  with inv have inv1: "ig_inv ?d1" by (rule ig.rely_inv [rotated])
  have "ig_rely ?d1 d'"
    by (rule rely_batches [where hit = "batch_held row w" and f = "failed_batch (now ?d1) row e",
          OF _ _ _ _ _ _ inv1])
      (auto simp: d' batch_step batch_held_def failed_batch_def)
  with R show ?thesis by (rule ig.rely_trans)
qed

lemma rely_resolve_tenants: "ig_inv d \<Longrightarrow> ig_rely d (resolve_tenants row evs tids d)"
proof (induction tids arbitrary: d)
  case (Cons t ts)
  from rely_resolve [OF Cons.prems] ig.rely_inv Cons.prems Cons.IH show ?case
    by simp (blast intro: ig.rely_trans)
qed (simp add: ig.rely_refl)

lemma rely_advance_from_meta: "ig_inv d \<Longrightarrow> ig_rely d (advance_checkpoint_from_meta ms wid proj d)"
proof -
  have "ig_inv d \<Longrightarrow>
      ig_rely d (fold (\<lambda>(tid, (t, e)) d. advance_checkpoint tid proj wid e t d) xs d)" for xs d
  proof (induction xs arbitrary: d)
    case (Cons x xs)
    obtain tid t e where x: "x = (tid, (t, e))" by (metis prod.exhaust)
    from rely_advance [OF Cons.prems] ig.rely_inv Cons.prems Cons.IH show ?case
      by (simp add: x) (blast intro: ig.rely_trans)
  qed (simp add: ig.rely_refl)
  then show "ig_inv d \<Longrightarrow> ?thesis" by (simp add: advance_checkpoint_from_meta_def)
qed

lemma rely_complete_batch:
  assumes "complete_batch_txn env row w evs summary ids rows d = Inr (n, d')" and inv: "ig_inv d"
  shows "ig_rely d d'"
proof -
  let ?tns = "sorted_set (map mt_tenant evs)"
  from assms(1) obtain d1 where
    up: "upsert_stream_results (pj_of env) ids rows (ib_projection_version row)
      (\<lambda>tid. map mt_event (filter (\<lambda>m. mt_tenant m = tid) evs)) ?tns (map mt_event evs) d = Inr (n, d1)"
    by (auto simp: complete_batch_txn_def Let_def split: sum.splits if_splits)
  let ?d3 = "advance_checkpoint_from_meta evs (ib_workflow row) (ib_projection row)
    (resolve_tenants row evs ?tns d1)"
  let ?f = "\<lambda>b. b\<lparr>ib_status := B_completed, ib_summary := summary @ [(''written'', JInt (int n))],
    ib_completed := Some (now ?d3), ib_owner := None, ib_lease := None,
    ib_class := None, ib_error := None, ib_updated := now ?d3\<rparr>"
  from assms(1) up have d': "d' = ?d3\<lparr>ingest_batches := upd_where (batch_held row w) ?f (ingest_batches ?d3)\<rparr>"
    by (auto simp: complete_batch_txn_def Let_def split: if_splits)
  from rely_upsert [OF up inv] have R1: "ig_rely d d1" .
  with inv have inv1: "ig_inv d1" by (rule ig.rely_inv [rotated])
  have R3: "ig_rely d1 ?d3"
    by (rule ig_compose [OF inv1 rely_resolve_tenants [OF inv1] rely_advance_from_meta])
  with inv1 have inv3: "ig_inv ?d3" by (rule ig.rely_inv [rotated])
  have "ig_rely ?d3 d'"
    by (rule rely_batches [where hit = "batch_held row w" and f = ?f, OF _ _ _ _ _ _ inv3])
      (auto simp: d' batch_step batch_held_def)
  with R1 R3 show ?thesis by (blast intro: ig.rely_trans)
qed

subsection \<open>Receipts and dead letters as leased work\<close>

interpretation batch_queue: lease_queue ib_attempts ib_max ib_owner ib_lease
  batch_claimable claim_batch "secs processing_lease_seconds"
proof
  show "0 < secs processing_lease_seconds" by (simp add: processing_lease_seconds_def secs_def)
  show "batch_claimable t b \<Longrightarrow> ib_attempts b < ib_max b" for t b by (simp add: batch_claimable_def)
  show "batch_claimable t b \<Longrightarrow> ib_lease b = Some e \<Longrightarrow> e \<le> t" for t b e
    by (auto simp: batch_claimable_def)
qed (simp_all add: claim_batch_def)

interpretation dlq_queue: lease_queue dq_attempts dq_max dq_locked_by dq_lease
  dlq_claimable claim_dlq dlq_lease
proof
  show "0 < dlq_lease" by (simp add: dlq_lease_def secs_def)
  show "dlq_claimable t r \<Longrightarrow> dq_attempts r < dq_max r" for t r by (simp add: dlq_claimable_def)
  show "dlq_claimable t r \<Longrightarrow> dq_lease r = Some e \<Longrightarrow> e \<le> t" for t r e
    by (auto simp: dlq_claimable_def)
qed (simp_all add: claim_dlq_def)

end
