(* ===== verification/Acceptance_Safety.thy ===== *)
theory Acceptance_Safety
  imports Acceptance Ingest_Safety
begin

section \<open>Acceptance, processing and projection under interference\<close>

text \<open>
  The protocol of \<open>Ingest_Safety\<close> extended by the accepted events and the crypto sessions: events
  are only ever appended, behind every event of their workflow; receipts and checkpoints refer to
  accepted events; a revoked session stays revoked.  Every operation of the services keeps it.
\<close>

subsection \<open>The invariant and the relation\<close>

definition event_key :: "event_row \<Rightarrow> uuid \<times> string" where
  "event_key r = (ev_tenant r, ev_client r)"

definition nonce_key :: "event_row \<Rightarrow> uuid \<times> string \<times> string" where
  "nonce_key r = (ev_tenant r, ev_key r, ev_nonce r)"

definition stream_key :: "event_row \<Rightarrow> uuid \<times> string option \<times> time" where
  "stream_key r = (ev_tenant r, ev_workflow r, ev_created r)"

definition events_ok :: "event_row list \<Rightarrow> bool" where
  "events_ok rows \<longleftrightarrow> distinct (map ev_id rows) \<and> distinct (map event_key rows)
     \<and> distinct (map nonce_key rows) \<and> distinct (map stream_key rows)
     \<and> list_all (\<lambda>r. ev_workflow r \<noteq> None) rows"

text \<open>What never changes of an accepted event (a legacy row may get its fingerprint).\<close>

definition event_core :: "event_row \<Rightarrow> event_row" where
  "event_core r = r\<lparr>ev_fingerprint := None, ev_bytes := 0\<rparr>"

definition event_same :: "event_row \<Rightarrow> event_row \<Rightarrow> bool" where
  "event_same r r' \<longleftrightarrow> event_core r' = event_core r"

definition events_le :: "event_row list \<Rightarrow> event_row list \<Rightarrow> bool" where
  "events_le rows rows' \<longleftrightarrow> (\<forall>r \<in> set rows. \<exists>r' \<in> set rows'. event_same r r')
     \<and> (\<forall>r' \<in> set rows'. (\<exists>r \<in> set rows. event_same r r')
          \<or> (\<forall>r \<in> set rows. ev_tenant r = ev_tenant r' \<and> ev_workflow r = ev_workflow r' \<longrightarrow>
               ev_created r < ev_created r'))"

text \<open>The metadata \<open>m\<close> is that of an accepted event of the workflow.\<close>

definition backed :: "string \<Rightarrow> event_row list \<Rightarrow> meta \<Rightarrow> bool" where
  "backed wid rows m \<longleftrightarrow> (\<exists>r \<in> set rows. ev_id r = mt_event m \<and> ev_tenant r = mt_tenant m
     \<and> ev_workflow r = Some wid \<and> mt_created m = Some (ev_created r))"

text \<open>The cursor of a checkpoint is an accepted event of its tenant and workflow.\<close>

definition ckpt_backed :: "event_row list \<Rightarrow> ckpt_row \<Rightarrow> bool" where
  "ckpt_backed rows c \<longleftrightarrow> (\<exists>r \<in> set rows. ck_created c = Some (ev_created r)
     \<and> ck_event c = Some (ev_id r) \<and> ev_tenant r = ck_tenant c \<and> ev_workflow r = Some (ck_workflow c))"

definition session_key :: "session_row \<Rightarrow> uuid \<times> string" where
  "session_key s = (cs_tenant s, cs_session s)"

definition session_le :: "session_row \<Rightarrow> session_row \<Rightarrow> bool" where
  "session_le s s' \<longleftrightarrow> cs_id s' = cs_id s \<and> session_key s' = session_key s
     \<and> cs_created s' = cs_created s
     \<and> (cs_revoked s \<noteq> None \<longrightarrow> cs_revoked s' = cs_revoked s)"

definition sessions_le :: "session_row list \<Rightarrow> session_row list \<Rightarrow> bool" where
  "sessions_le rows rows' \<longleftrightarrow> (\<forall>s \<in> set rows. \<exists>s' \<in> set rows'. session_le s s')"

definition sessions_ok :: "session_row list \<Rightarrow> bool" where
  "sessions_ok rows \<longleftrightarrow> distinct (map cs_id rows) \<and> distinct (map session_key rows)"

definition ac_inv :: "ig_db \<Rightarrow> bool" where
  "ac_inv d \<longleftrightarrow> ig_inv d \<and> events_ok (telemetry d) \<and> sessions_ok (crypto_sessions d)
     \<and> list_all (\<lambda>b. list_all (backed (ib_workflow b) (telemetry d)) (ib_events b)) (ingest_batches d)
     \<and> list_all (ckpt_backed (telemetry d)) (checkpoints d)"

definition ac_rely :: "ig_db \<Rightarrow> ig_db \<Rightarrow> bool" where
  "ac_rely d d' \<longleftrightarrow> (ac_inv d \<longrightarrow> ac_inv d' \<and> ig_rely d d'
     \<and> events_le (telemetry d) (telemetry d') \<and> sessions_le (crypto_sessions d) (crypto_sessions d'))"

lemma event_same_refl [simp]: "event_same r r"
  by (simp add: event_same_def)

lemma event_same_trans: "event_same a b \<Longrightarrow> event_same b c \<Longrightarrow> event_same a c"
  by (simp add: event_same_def)

lemma event_core_simps [simp]:
  "ev_id (event_core r) = ev_id r" "ev_tenant (event_core r) = ev_tenant r"
  "ev_workflow (event_core r) = ev_workflow r" "ev_created (event_core r) = ev_created r"
  "ev_key (event_core r) = ev_key r" "ev_nonce (event_core r) = ev_nonce r"
  "ev_client (event_core r) = ev_client r"
  by (simp_all add: event_core_def)

lemma event_same_simps:
  assumes "event_same r r'"
  shows "ev_id r' = ev_id r" "ev_tenant r' = ev_tenant r" "ev_workflow r' = ev_workflow r"
    "ev_created r' = ev_created r" "ev_key r' = ev_key r" "ev_nonce r' = ev_nonce r" "ev_client r' = ev_client r"
  using assms unfolding event_same_def by (metis event_core_simps)+

lemma events_le_refl [simp]: "events_le rows rows"
  unfolding events_le_def using event_same_refl by blast

lemma events_le_trans:
  assumes "events_le a b" and "events_le b c"
  shows "events_le a c"
  unfolding events_le_def
proof (intro conjI ballI)
  fix r assume "r \<in> set a"
  with assms obtain r1 r2 where "r1 \<in> set b" "event_same r r1" "r2 \<in> set c" "event_same r1 r2"
    unfolding events_le_def by meson
  then show "\<exists>r' \<in> set c. event_same r r'" using event_same_trans by blast
next
  fix r2 assume r2: "r2 \<in> set c"
  let ?after = "\<lambda>rows r2. \<forall>r \<in> set rows. ev_tenant r = ev_tenant r2 \<and> ev_workflow r = ev_workflow r2 \<longrightarrow>
      ev_created r < ev_created r2"
  from assms(2) r2 consider r1 where "r1 \<in> set b" "event_same r1 r2" | "?after b r2"
    unfolding events_le_def by blast
  then show "(\<exists>r \<in> set a. event_same r r2) \<or> ?after a r2"
  proof cases
    case (1 r1)
    with assms(1) have "(\<exists>r \<in> set a. event_same r r1) \<or> ?after a r1" unfolding events_le_def by blast
    with 1 event_same_trans event_same_simps(2,3,4) [OF 1(2)] show ?thesis by metis
  next
    case 2
    have "ev_created r < ev_created r2"
      if r: "r \<in> set a" "ev_tenant r = ev_tenant r2 \<and> ev_workflow r = ev_workflow r2" for r
    proof -
      from assms(1) r obtain r1 where "r1 \<in> set b" "event_same r r1" unfolding events_le_def by blast
      with 2 r event_same_simps(2,3,4) [OF \<open>event_same r r1\<close>] show ?thesis by metis
    qed
    then show ?thesis by blast
  qed
qed

lemma session_le_refl [simp]: "session_le s s"
  by (simp add: session_le_def)

lemma session_le_trans: "session_le a b \<Longrightarrow> session_le b c \<Longrightarrow> session_le a c"
  by (auto simp: session_le_def)

lemma sessions_le_refl [simp]: "sessions_le rows rows"
  unfolding sessions_le_def using session_le_refl by blast

lemma sessions_le_trans: "sessions_le a b \<Longrightarrow> sessions_le b c \<Longrightarrow> sessions_le a c"
  unfolding sessions_le_def using session_le_trans by meson

lemma ac_rely_refl: "ac_rely d d"
  by (simp add: ac_rely_def ig_rely_refl)

lemma ac_rely_trans:
  assumes "ac_rely d d'" and "ac_rely d' d''"
  shows "ac_rely d d''"
  using assms ig_rely_trans events_le_trans sessions_le_trans unfolding ac_rely_def by blast

interpretation ac: protocol ac_inv ac_rely
  by unfold_locales (rule ac_rely_refl, erule (1) ac_rely_trans, simp_all add: ac_rely_def)

lemma ac_relyI:
  assumes "ac_inv d \<Longrightarrow> ac_inv d' \<and> ig_rely d d' \<and> events_le (telemetry d) (telemetry d')
      \<and> sessions_le (crypto_sessions d) (crypto_sessions d')"
  shows "ac_rely d d'"
  using assms by (simp add: ac_rely_def)

subsection \<open>Facts about accepted events persist\<close>

lemma events_leD:
  assumes "events_le rows rows'" and "r \<in> set rows"
  obtains r' where "r' \<in> set rows'" and "ev_id r' = ev_id r" and "ev_tenant r' = ev_tenant r"
    and "ev_workflow r' = ev_workflow r" and "ev_created r' = ev_created r"
proof -
  from assms obtain r' where "r' \<in> set rows'" "event_same r r'" unfolding events_le_def by blast
  with that event_same_simps show ?thesis by blast
qed

lemma backed_mono: "events_le rows rows' \<Longrightarrow> backed wid rows m \<Longrightarrow> backed wid rows' m"
  unfolding backed_def by (elim bexE, erule (1) events_leD) auto

lemma ckpt_backed_mono: "events_le rows rows' \<Longrightarrow> ckpt_backed rows c \<Longrightarrow> ckpt_backed rows' c"
  unfolding ckpt_backed_def by (elim bexE, erule (1) events_leD) (metis (full_types))

subsection \<open>Statements that leave events, receipts' work and checkpoints alone\<close>

definition work_of :: "batch_row \<Rightarrow> string \<times> meta list" where
  "work_of b = (ib_workflow b, ib_events b)"

lemma backed_work:
  assumes "set (map work_of bs') \<subseteq> set (map work_of bs)"
    and "list_all (\<lambda>b. list_all (backed (ib_workflow b) rows) (ib_events b)) bs"
  shows "list_all (\<lambda>b. list_all (backed (ib_workflow b) rows) (ib_events b)) bs'"
proof -
  have "list_all (backed (ib_workflow b') rows) (ib_events b')" if "b' \<in> set bs'" for b'
  proof -
    from that assms(1) obtain b where "b \<in> set bs" "work_of b' = work_of b" by auto
    with assms(2) show ?thesis by (auto simp: list_all_iff work_of_def)
  qed
  then show ?thesis by (simp add: list_all_iff)
qed

lemma ac_of_ig:
  assumes "ac_inv d \<Longrightarrow> ig_rely d d'" and "telemetry d' = telemetry d" and "crypto_sessions d' = crypto_sessions d"
    and "set (map work_of (ingest_batches d')) \<subseteq> set (map work_of (ingest_batches d))"
    and "ac_inv d \<Longrightarrow> list_all (ckpt_backed (telemetry d)) (checkpoints d')"
  shows "ac_rely d d'"
proof (rule ac_relyI)
  assume inv: "ac_inv d"
  with assms(1) have r: "ig_rely d d'" by blast
  with inv have "ig_inv d'" by (simp add: ig_rely_def ac_inv_def)
  with r inv assms(2-5) backed_work [OF assms(4), of "telemetry d"]
  show "ac_inv d' \<and> ig_rely d d' \<and> events_le (telemetry d) (telemetry d')
      \<and> sessions_le (crypto_sessions d) (crypto_sessions d')"
    by (simp add: ac_inv_def)
qed

lemma ac_of_ig_plain:
  assumes "ac_inv d \<Longrightarrow> ig_rely d d'" and "telemetry d' = telemetry d" and "crypto_sessions d' = crypto_sessions d"
    and "ingest_batches d' = ingest_batches d" and "checkpoints d' = checkpoints d"
  shows "ac_rely d d'"
  using assms by (intro ac_of_ig) (simp_all add: ac_inv_def)

lemma work_upd_where:
  "(\<And>b. work_of (f b) = work_of b) \<Longrightarrow> set (map work_of (upd_where hit f bs)) \<subseteq> set (map work_of bs)"
  by (auto simp: set_upd_where)

interpretation acc: core_protocol ac_inv ac_rely
proof
  show "ac_inv d \<Longrightarrow> ac_rely d (add_audit row d)" for d row
    by (rule ac_of_ig_plain) (simp_all add: add_audit_def ig_rely_frame)
qed

subsection \<open>What the statements leave alone\<close>

named_theorems frame_simps "tables a statement does not write"

lemma frame_enqueue [frame_simps]:
  "telemetry (enqueue_projection_dlq env i tn src w p v e c m d) = telemetry d"
  "crypto_sessions (enqueue_projection_dlq env i tn src w p v e c m d) = crypto_sessions d"
  "checkpoints (enqueue_projection_dlq env i tn src w p v e c m d) = checkpoints d"
  "ingest_batches (enqueue_projection_dlq env i tn src w p v e c m (d :: ig_db)) = ingest_batches d"
  by (simp_all add: enqueue_projection_dlq_def Let_def)

lemma frame_enqueue_all [frame_simps]:
  "telemetry (enqueue_all env ms tn w p v e c d) = telemetry d"
  "crypto_sessions (enqueue_all env ms tn w p v e c d) = crypto_sessions d"
  "checkpoints (enqueue_all env ms tn w p v e c d) = checkpoints d"
  "ingest_batches (enqueue_all env ms tn w p v e c (d :: ig_db)) = ingest_batches d"
  by (induction ms arbitrary: d) (auto simp: frame_simps)

lemma frame_dlq_events [frame_simps]:
  "telemetry (dlq_events env row e ms d) = telemetry d"
  "crypto_sessions (dlq_events env row e ms d) = crypto_sessions d"
  "checkpoints (dlq_events env row e ms d) = checkpoints d"
  "ingest_batches (dlq_events env row e ms d) = ingest_batches d"
  by (induction ms arbitrary: d) (auto simp: frame_simps)

lemma frame_resolve [frame_simps]:
  "telemetry (resolve_projection_dlq_for_events tn srcs w p v d) = telemetry d"
  "crypto_sessions (resolve_projection_dlq_for_events tn srcs w p v d) = crypto_sessions d"
  "checkpoints (resolve_projection_dlq_for_events tn srcs w p v d) = checkpoints d"
  "ingest_batches (resolve_projection_dlq_for_events tn srcs w p v (d :: ig_db)) = ingest_batches d"
  by (simp_all add: resolve_projection_dlq_for_events_def)

lemma frame_resolve_tenants [frame_simps]:
  "telemetry (resolve_tenants row evs tids d) = telemetry d"
  "crypto_sessions (resolve_tenants row evs tids d) = crypto_sessions d"
  "checkpoints (resolve_tenants row evs tids d) = checkpoints d"
  "ingest_batches (resolve_tenants row evs tids d) = ingest_batches d"
  by (induction tids arbitrary: d) (auto simp: frame_simps)

lemma frame_upsert:
  assumes "upsert_stream_results env ids rows v agg tns evs d = Inr (n, d')"
  shows "telemetry d' = telemetry d" "crypto_sessions d' = crypto_sessions d" "checkpoints d' = checkpoints d"
    "pj_db.more d' = pj_db.more d"
  using assms by (auto simp: upsert_stream_results_def split: sum.splits)

lemma frame_upsert_batches:
  "upsert_stream_results env ids rows v agg tns evs (d :: ig_db) = Inr (n, d') \<Longrightarrow>
   ingest_batches d' = ingest_batches d"
  by (auto simp: upsert_stream_results_def split: sum.splits)

lemma frame_advance [frame_simps]:
  "telemetry (advance_checkpoint tn p w e t d) = telemetry d"
  "crypto_sessions (advance_checkpoint tn p w e t d) = crypto_sessions d"
  "ingest_batches (advance_checkpoint tn p w e t (d :: ig_db)) = ingest_batches d"
  by (simp_all add: advance_checkpoint_def Let_def)

lemma frame_advance_to_last [frame_simps]:
  "telemetry (advance_to_last ms tn p w d) = telemetry d"
  "crypto_sessions (advance_to_last ms tn p w d) = crypto_sessions d"
  "ingest_batches (advance_to_last ms tn p w (d :: ig_db)) = ingest_batches d"
  by (simp_all add: advance_to_last_def frame_simps split: option.split)

lemma frame_fold_advance:
  "telemetry (fold (\<lambda>(tid, (t, e)) d. advance_checkpoint tid p w e t d) xs d) = telemetry d"
  "crypto_sessions (fold (\<lambda>(tid, (t, e)) d. advance_checkpoint tid p w e t d) xs d) = crypto_sessions d"
  "ingest_batches (fold (\<lambda>(tid, (t, e)) d. advance_checkpoint tid p w e t d) xs (d :: ig_db)) = ingest_batches d"
  by (induction xs arbitrary: d) (auto simp: frame_simps)

lemma frame_advance_from_meta [frame_simps]:
  "telemetry (advance_checkpoint_from_meta ms w p d) = telemetry d"
  "crypto_sessions (advance_checkpoint_from_meta ms w p d) = crypto_sessions d"
  "ingest_batches (advance_checkpoint_from_meta ms w p (d :: ig_db)) = ingest_batches d"
  by (simp_all add: advance_checkpoint_from_meta_def frame_fold_advance)

subsection \<open>Checkpoints only name accepted events\<close>

definition event_at :: "event_row list \<Rightarrow> uuid \<Rightarrow> string \<Rightarrow> uuid \<Rightarrow> time \<Rightarrow> bool" where
  "event_at rows tenant wid e t \<longleftrightarrow>
     (\<exists>r \<in> set rows. ev_created r = t \<and> ev_id r = e \<and> ev_tenant r = tenant \<and> ev_workflow r = Some wid)"

lemma backed_event_at:
  "backed wid rows m \<Longrightarrow> mt_created m = Some t \<Longrightarrow> event_at rows (mt_tenant m) wid (mt_event m) t"
  by (auto simp: backed_def event_at_def)

lemma ckpt_backed_advance:
  assumes "list_all (ckpt_backed rows) (checkpoints d)" and "event_at rows tenant wid e t"
  shows "list_all (ckpt_backed rows) (checkpoints (advance_checkpoint tenant p wid e t d))"
  using assms
  by (auto simp: advance_checkpoint_def Let_def ckpt_backed_def event_at_def set_upd_where list_all_iff)

lemma ckpt_backed_fold:
  assumes "list_all (ckpt_backed rows) (checkpoints d)"
    and "\<forall>(tid, (t, e)) \<in> set xs. event_at rows tid wid e t"
  shows "list_all (ckpt_backed rows)
    (checkpoints (fold (\<lambda>(tid, (t, e)) d. advance_checkpoint tid p wid e t d) xs d))"
  using assms
proof (induction xs arbitrary: d)
  case (Cons x xs)
  obtain tid t e where x: "x = (tid, t, e)" by (cases x)
  from Cons.prems(2) have "event_at rows tid wid e t" by (simp add: x)
  with Cons.IH [OF ckpt_backed_advance [OF Cons.prems(1)]] Cons.prems(2) show ?case by (simp add: x)
qed simp

lemma latest_backed:
  assumes "\<forall>m \<in> set ms. backed wid rows m" and "\<forall>(tid, (t, e)) \<in> set latest. event_at rows tid wid e t"
  shows "\<forall>(tid, (t, e)) \<in> set (fold (latest_step d) ms latest). event_at rows tid wid e t"
  using assms
proof (induction ms arbitrary: latest)
  case (Cons m ms)
  from Cons.prems(1) obtain t where t: "mt_created m = Some t" and m: "backed wid rows m"
    by (auto simp: backed_def)
  have set: "set (dict_set k v kvs) \<subseteq> insert (k, v) (set kvs)" for k v and kvs :: "(string \<times> time \<times> uuid) list"
    by (auto simp: dict_set_def split: if_splits)
  have "\<forall>(tid, (t, e)) \<in> set (latest_step d m latest). event_at rows tid wid e t"
    using Cons.prems(2) backed_event_at [OF m t] set [of "mt_tenant m" "(t, mt_event m)" latest]
    by (auto simp: latest_step_def meta_created_def t split: option.splits if_splits)
  with Cons show ?case by simp
qed simp

lemma ckpt_backed_from_meta:
  assumes "list_all (ckpt_backed rows) (checkpoints d)" and "\<forall>m \<in> set ms. backed wid rows m"
  shows "list_all (ckpt_backed rows) (checkpoints (advance_checkpoint_from_meta ms wid p d))"
  unfolding advance_checkpoint_from_meta_def
  by (rule ckpt_backed_fold [OF assms(1) latest_backed [OF assms(2)]]) simp

lemma ckpt_backed_to_last:
  assumes "list_all (ckpt_backed rows) (checkpoints d)" and "ms \<noteq> []"
    and "\<forall>m \<in> set ms. mt_tenant m = tenant \<and> backed wid rows m"
  shows "list_all (ckpt_backed rows) (checkpoints (advance_to_last ms tenant p wid d))"
proof -
  from assms(2,3) have m: "mt_tenant (last ms) = tenant" "backed wid rows (last ms)" by auto
  then obtain t where "mt_created (last ms) = Some t" by (auto simp: backed_def)
  with m backed_event_at [OF m(2) this] ckpt_backed_advance [OF assms(1)] show ?thesis
    by (simp add: advance_to_last_def)
qed

subsection \<open>The statements on results, dead letters, receipts and checkpoints\<close>

lemma ac_inv_ig: "ac_inv d \<Longrightarrow> ig_inv d"
  by (simp add: ac_inv_def)

lemma stable_backed: "stable ac_rely (\<lambda>d. ac_inv d \<and> list_all (backed wid (telemetry d)) ms)"
  unfolding stable_def ac_rely_def by (auto simp: list_all_iff intro: backed_mono)

lemma ac_letters:
  assumes "ig_inv d \<Longrightarrow> ig_rely d d'" and "d' = d\<lparr>dead_letters := ls\<rparr>"
  shows "ac_rely d d'"
  by (rule ac_of_ig_plain [OF assms(1) [OF ac_inv_ig]]) (simp_all add: assms(2))

lemma ac_batches:
  assumes "ig_inv d \<Longrightarrow> ig_rely d d'" and "d' = d\<lparr>ingest_batches := upd_where hit f (ingest_batches d)\<rparr>"
    and "\<And>b. work_of (f b) = work_of b"
  shows "ac_rely d d'"
  by (rule ac_of_ig [OF assms(1) [OF ac_inv_ig]])
    (simp_all add: assms(2) ac_inv_def work_upd_where [OF assms(3)] del: set_map)

lemma ac_upsert:
  assumes "upsert_stream_results env ids rows v agg tns evs d = Inr (n, d')"
  shows "ac_rely d d'"
  by (rule ac_of_ig_plain)
    (use assms frame_upsert [OF assms] frame_upsert_batches [OF assms] rely_upsert [OF assms] ac_inv_ig in auto)

lemma ac_enqueue: "ac_rely d (enqueue_projection_dlq env i tn src w p v e c m d)"
  by (rule ac_of_ig_plain) (simp_all add: frame_simps rely_enqueue ac_inv_ig)

lemma ac_claim_dlq: "claim_dlq_item i tn w d = (x, d') \<Longrightarrow> ac_rely d d'"
  by (rule ac_letters, erule (1) rely_claim_dlq) (auto simp: claim_dlq_item_def Let_def)

lemma ac_complete_dlq: "complete_dlq i tn w d = (n, d') \<Longrightarrow> ac_rely d d'"
  by (rule ac_letters, erule (1) rely_complete_dlq) (auto simp: complete_dlq_def)

lemma ac_release_dlq: "ac_rely d (release_dlq i tn w e delay d)"
  by (rule ac_letters [OF rely_release_dlq]) (simp_all add: release_dlq_def)

lemma ac_hand_to_dlq:
  assumes "ms \<noteq> []" and "\<forall>m \<in> set ms. mt_tenant m = tenant \<and> backed wid (telemetry d) m"
  shows "ac_rely d (hand_to_dlq env ids ms tenant wid p v err d)"
proof (rule ac_of_ig)
  assume inv: "ac_inv d"
  show "ig_rely d (hand_to_dlq env ids ms tenant wid p v err d)"
    by (rule rely_hand_to_dlq) (rule ac_inv_ig [OF inv])
  show "list_all (ckpt_backed (telemetry d)) (checkpoints (hand_to_dlq env ids ms tenant wid p v err d))"
    unfolding hand_to_dlq_def
    by (rule ckpt_backed_to_last [OF _ assms]) (use inv in \<open>simp add: frame_simps ac_inv_def\<close>)
qed (simp_all add: hand_to_dlq_def frame_simps)

lemma ac_commit_projection:
  assumes "commit_projection env ids rows ms tenant wid p v d = Inr (n, d')"
    and "ms \<noteq> []" and "\<forall>m \<in> set ms. mt_tenant m = tenant \<and> backed wid (telemetry d) m"
  shows "ac_rely d d'"
proof -
  let ?evs = "sorted_set (map mt_event ms)"
  from assms(1) obtain d1 where
    up: "upsert_stream_results env ids rows v (\<lambda>_. ?evs) [tenant] ?evs d = Inr (n, d1)"
    and d': "d' = advance_to_last ms tenant p wid (resolve_projection_dlq_for_events tenant ?evs wid p v d1)"
    by (auto simp: commit_projection_def Let_def split: sum.splits)
  show ?thesis
  proof (rule ac_of_ig)
    show "ac_inv d \<Longrightarrow> ig_rely d d'" by (rule rely_commit_projection [OF assms(1) ac_inv_ig])
    show "ac_inv d \<Longrightarrow> list_all (ckpt_backed (telemetry d)) (checkpoints d')"
      unfolding d'
      by (rule ckpt_backed_to_last [OF _ assms(2,3)]) (simp add: frame_simps frame_upsert [OF up] ac_inv_def)
  qed (simp_all add: d' frame_simps frame_upsert [OF up] frame_upsert_batches [OF up])
qed

text \<open>Receipts.\<close>

lemma ac_wake: "ac_rely d (wake_processing_batches ids revive d)"
proof (cases "ids = []")
  case False
  then show ?thesis
    by (intro ac_batches [where f = "wake_batch (now d) revive" and hit = "\<lambda>b. ib_id b \<in> set ids
          \<and> ib_status b \<in> {B_queued, B_retry_scheduled, B_failed}", OF rely_wake])
      (simp_all add: wake_processing_batches_def wake_batch_def work_of_def Let_def)
qed (simp add: wake_processing_batches_def ac_rely_refl)

lemma ac_recover: "ac_rely d (recover_expired_processing_leases d)"
  by (rule ac_batches [where f = "recover_batch (now d)" and hit = "batch_lease_expired (now d)", OF rely_recover])
    (simp_all add: recover_expired_processing_leases_def recover_batch_def work_of_def)

lemma ac_heartbeat: "heartbeat_stmt row w d = (n, d') \<Longrightarrow> ac_rely d d'"
  by (rule ac_batches [where hit = "batch_held row w"
        and f = "\<lambda>b. b\<lparr>ib_lease := Some (now d + secs processing_lease_seconds), ib_updated := now d\<rparr>"],
      erule (1) rely_heartbeat)
    (auto simp: heartbeat_stmt_def work_of_def)

lemma ac_claim:
  assumes "claim_processing_batches w n only d = (rows, d')" and "ac_inv d"
  shows "ac_rely d d' \<and> (\<forall>row \<in> set rows. list_all (backed (ib_workflow row) (telemetry d')) (ib_events row))"
proof
  have work: "work_of (claim_batch t w b) = work_of b" for t b by (simp add: work_of_def claim_batch_def)
  show "ac_rely d d'"
  proof (rule ac_of_ig)
    show "ac_inv d \<Longrightarrow> ig_rely d d'" by (rule rely_claim_batches [OF assms(1) ac_inv_ig])
    show "set (map work_of (ingest_batches d')) \<subseteq> set (map work_of (ingest_batches d))"
      using assms(1) by (auto simp: claim_processing_batches_def Let_def set_upd_where work)
  qed (use assms(1) in \<open>auto simp: claim_processing_batches_def Let_def ac_inv_def\<close>)
  show "\<forall>row \<in> set rows. list_all (backed (ib_workflow row) (telemetry d')) (ib_events row)"
  proof
    fix row assume "row \<in> set rows"
    with assms(1) obtain b where "b \<in> set (ingest_batches d)" "row = claim_batch (now d) w b"
      by (fastforce simp: claim_processing_batches_def Let_def dest: in_set_takeD)
    moreover have "telemetry d' = telemetry d" using assms(1) by (auto simp: claim_processing_batches_def Let_def)
    ultimately show "list_all (backed (ib_workflow row) (telemetry d')) (ib_events row)"
      using assms(2) by (auto simp: ac_inv_def list_all_iff claim_batch_def)
  qed
qed

lemma ac_persist_failure:
  assumes "persist_failure_txn env row w evs e d = Inr (u, d')"
  shows "ac_rely d d'"
proof (rule ac_of_ig)
  show "ac_inv d \<Longrightarrow> ig_rely d d'" using assms by (cases u) (auto intro: rely_persist_failure ac_inv_ig)
qed (use assms in \<open>auto simp: persist_failure_txn_def Let_def frame_simps ac_inv_def work_of_def failed_batch_def
    set_upd_where split: if_splits\<close>)

lemma ac_complete_batch:
  assumes "complete_batch_txn env row w evs summary ids rows d = Inr (n, d')"
    and "list_all (backed (ib_workflow row) (telemetry d)) evs"
  shows "ac_rely d d'"
proof -
  let ?tns = "sorted_set (map mt_tenant evs)"
  from assms(1) obtain d1 where
    up: "upsert_stream_results (pj_of env) ids rows (ib_projection_version row)
      (\<lambda>tid. map mt_event (filter (\<lambda>m. mt_tenant m = tid) evs)) ?tns (map mt_event evs) d = Inr (n, d1)"
    by (auto simp: complete_batch_txn_def Let_def split: sum.splits if_splits)
  let ?d3 = "advance_checkpoint_from_meta evs (ib_workflow row) (ib_projection row)
    (resolve_tenants row evs ?tns d1)"
  from assms(1) up obtain f where d': "d' = ?d3\<lparr>ingest_batches := upd_where (batch_held row w) f (ingest_batches ?d3)\<rparr>"
    and f: "\<And>b. work_of (f b) = work_of b"
    by (auto simp: complete_batch_txn_def Let_def work_of_def split: if_splits)
  show ?thesis
  proof (rule ac_of_ig)
    show "ac_inv d \<Longrightarrow> ig_rely d d'" by (rule rely_complete_batch [OF assms(1) ac_inv_ig])
    show "set (map work_of (ingest_batches d')) \<subseteq> set (map work_of (ingest_batches d))"
      using f by (auto simp: d' frame_simps frame_upsert_batches [OF up] set_upd_where)
    show "ac_inv d \<Longrightarrow> list_all (ckpt_backed (telemetry d)) (checkpoints d')"
      using assms(2)
      by (auto simp: d' list_all_iff [of "backed w r" for w r] intro!: ckpt_backed_from_meta)
        (simp_all add: frame_simps frame_upsert [OF up] ac_inv_def)
  qed (simp_all add: d' frame_simps frame_upsert [OF up])
qed

lemma ac_register:
  assumes "register_processing_batch env bid acc ord req wfl ct et evs d = Inr (b, d')"
    and "\<And>ms. safe_events env evs = Inr ms \<Longrightarrow> list_all (backed (wf_id wfl) (telemetry d)) ms"
  shows "ac_rely d d'"
proof (rule ac_relyI)
  assume inv: "ac_inv d"
  from assms(1) obtain ms where ms: "safe_events env evs = Inr ms"
    by (auto simp: register_processing_batch_def split: sum.splits)
  let ?row = "receipt env bid acc ord req wfl ct et ms (sorted_set (map mt_tenant ms)) (now d)"
  have row: "work_of ?row = (wf_id wfl, ms)" by (simp add: work_of_def receipt_def Let_def)
  from assms(1) ms have "telemetry d' = telemetry d" "crypto_sessions d' = crypto_sessions d"
    "checkpoints d' = checkpoints d"
    and w: "set (map work_of (ingest_batches d')) \<subseteq> insert (work_of ?row) (set (map work_of (ingest_batches d)))"
    by (auto simp: register_processing_batch_def Let_def work_of_def set_upd_where split: option.splits if_splits)
  moreover have R: "ig_rely d d'" by (rule rely_register [OF assms(1) ac_inv_ig [OF inv]])
  moreover have "list_all (\<lambda>b. list_all (backed (ib_workflow b) (telemetry d)) (ib_events b)) (ingest_batches d')"
  proof (rule backed_work [where bs = "?row # ingest_batches d"])
    show "list_all (\<lambda>b. list_all (backed (ib_workflow b) (telemetry d)) (ib_events b)) (?row # ingest_batches d)"
      using inv row assms(2) [OF ms] by (simp add: ac_inv_def work_of_def)
  qed (use w in simp)
  ultimately show "ac_inv d' \<and> ig_rely d d' \<and> events_le (telemetry d) (telemetry d')
      \<and> sessions_le (crypto_sessions d) (crypto_sessions d')"
    using inv by (simp add: ac_inv_def ig_rely_def)
qed

subsection \<open>The acceptance transaction\<close>

lemma next_created_after:
  assumes "r \<in> set rows" and "ev_tenant r = tenant" and "ev_workflow r = Some wid"
  shows "ev_created r < next_created t tenant wid rows"
proof -
  let ?times = "map ev_created (filter (\<lambda>r. ev_tenant r = tenant \<and> ev_workflow r = Some wid) rows)"
  from assms have "ev_created r \<in> set ?times" by simp
  then have "?times \<noteq> []" "ev_created r \<le> Max (set ?times)" by (auto intro!: Max_ge simp del: set_map)
  then show ?thesis unfolding next_created_def Let_def by (simp only: if_False)
qed

lemma ac_telemetry:
  assumes "d' = d\<lparr>telemetry := rows\<rparr>" and "ac_inv d \<Longrightarrow> events_ok rows" and "events_le (telemetry d) rows"
  shows "ac_rely d d'"
proof (rule ac_relyI)
  assume inv: "ac_inv d"
  have R: "ig_rely d d'" by (rule ig_rely_frame) (simp_all add: assms(1))
  with inv have "ig_inv d'" by (simp add: ig_rely_def ac_inv_def)
  with inv R assms show "ac_inv d' \<and> ig_rely d d' \<and> events_le (telemetry d) (telemetry d')
      \<and> sessions_le (crypto_sessions d) (crypto_sessions d')"
    by (auto simp: ac_inv_def list_all_iff intro: backed_mono ckpt_backed_mono)
qed

lemma events_le_append:
  assumes "\<And>r. r \<in> set rows \<Longrightarrow> ev_tenant r = ev_tenant row \<Longrightarrow> ev_workflow r = ev_workflow row \<Longrightarrow>
      ev_created r < ev_created row"
  shows "events_le rows (rows @ [row])"
  unfolding events_le_def
proof (intro conjI ballI)
  fix r' assume "r' \<in> set (rows @ [row])"
  then consider "r' \<in> set rows" | "r' = row" by auto
  then show "(\<exists>r \<in> set rows. event_same r r') \<or> (\<forall>r \<in> set rows.
      ev_tenant r = ev_tenant r' \<and> ev_workflow r = ev_workflow r' \<longrightarrow> ev_created r < ev_created r')"
    using assms event_same_refl by cases blast+
next
  fix r assume "r \<in> set rows"
  then have "r \<in> set (rows @ [row])" by simp
  then show "\<exists>r' \<in> set (rows @ [row]). event_same r r'" using event_same_refl by blast
qed

lemma events_le_upd_where:
  assumes "\<And>r. event_same r (f r)"
  shows "events_le rows (upd_where h f rows)"
proof -
  have "\<forall>r \<in> set rows. \<exists>r' \<in> set (upd_where h f rows). event_same r r'"
    by (rule upd_where_le) (simp_all add: assms)
  moreover have "\<exists>r \<in> set rows. event_same r r'" if "r' \<in> set (upd_where h f rows)" for r'
  proof -
    from that obtain r where "r \<in> set rows" "r' = (if h r then f r else r)" by (auto simp: upd_where_def)
    with assms event_same_refl show ?thesis by (metis (full_types))
  qed
  ultimately show ?thesis unfolding events_le_def by blast
qed

lemma events_ok_append:
  assumes "events_ok rows" and "ev_id row \<notin> ev_id ` set rows" and "event_key row \<notin> event_key ` set rows"
    and "nonce_key row \<notin> nonce_key ` set rows" and "ev_workflow row \<noteq> None"
    and "\<And>r. r \<in> set rows \<Longrightarrow> ev_tenant r = ev_tenant row \<Longrightarrow> ev_workflow r = ev_workflow row \<Longrightarrow>
      ev_created r < ev_created row"
  shows "events_ok (rows @ [row])"
proof -
  have "stream_key row \<notin> stream_key ` set rows" using assms(6) by (fastforce simp: stream_key_def)
  with assms(1-5) show ?thesis by (simp add: events_ok_def)
qed

lemma stored_event_simps [simp]:
  "ev_id (stored_event i u p t) = i" "ev_tenant (stored_event i u p t) = er_tenant (pr_event p)"
  "ev_client (stored_event i u p t) = er_client (pr_event p)" "ev_created (stored_event i u p t) = t"
  "ev_workflow (stored_event i u p t) = Some (wf_id (pr_workflow p))"
  "ev_key (stored_event i u p t) = sl_key (er_envelope (pr_event p))"
  "ev_nonce (stored_event i u p t) = sl_nonce (er_envelope (pr_event p))"
  "ev_fingerprint (stored_event i u p t) = Some (pr_print p)"
  by (simp_all add: stored_event_def Let_def)

lemma insert_event_new:
  assumes "insert_event env user eid p d = Inr (r, d')" and "\<not> rs_duplicate r"
  shows "rs_id r = eid \<and> ig_uuid env eid = Some eid
    \<and> first_row (same_client (er_tenant (pr_event p)) (er_client (pr_event p))) (telemetry d) = None
    \<and> (let row = stored_event eid user p (rs_created r) in
        rs_created r = next_created (now d) (er_tenant (pr_event p)) (wf_id (pr_workflow p)) (telemetry d)
        \<and> \<not> list_ex (same_nonce row) (telemetry d) \<and> \<not> list_ex (\<lambda>r. ev_id r = eid) (telemetry d)
        \<and> d' = d\<lparr>telemetry := telemetry d @ [row]\<rparr>)"
  using assms by (auto simp: insert_event_def Let_def split: option.splits if_splits)

lemma insert_event_old:
  assumes "insert_event env user eid p d = Inr (r, d')" and "rs_duplicate r"
  shows "\<exists>q. first_row (same_client (er_tenant (pr_event p)) (er_client (pr_event p))) (telemetry d) = Some q
    \<and> row_fingerprint env (wf_id (pr_workflow p)) q = pr_print p \<and> rs_id r = ev_id q
    \<and> rs_created r = ev_created q
    \<and> d' = (if ev_fingerprint q = None \<or> ev_fingerprint q = Some []
        then d\<lparr>telemetry := upd_where (\<lambda>x. ev_id x = ev_id q \<and> ev_fingerprint x = None)
          (\<lambda>x. x\<lparr>ev_fingerprint := Some (pr_print p), ev_bytes := pr_len p\<rparr>) (telemetry d)\<rparr>
        else d)"
  using assms by (auto simp: insert_event_def Let_def split: option.splits if_splits)

lemma ac_insert_event:
  assumes ins: "insert_event env user eid p d = Inr (r, d')"
  shows "ac_rely d d'"
proof (cases "rs_duplicate r")
  case True
  from insert_event_old [OF ins this] obtain q :: event_row where d': "d' = (if ev_fingerprint q = None \<or> ev_fingerprint q = Some []
        then d\<lparr>telemetry := upd_where (\<lambda>x. ev_id x = ev_id q \<and> ev_fingerprint x = None)
          (\<lambda>x. x\<lparr>ev_fingerprint := Some (pr_print p), ev_bytes := pr_len p\<rparr>) (telemetry d)\<rparr>
        else d)" by blast
  let ?f = "\<lambda>x. x\<lparr>ev_fingerprint := Some (pr_print p), ev_bytes := pr_len p\<rparr>"
  have same: "event_same x (?f x)" for x by (simp add: event_same_def event_core_def)
  have map: "map g (upd_where h ?f rows) = map g rows" if "\<And>x. g (?f x) = g x" for g :: "event_row \<Rightarrow> 'x" and h rows
    by (rule map_upd_where) (rule that)
  have ok: "events_ok (upd_where h ?f rows) = events_ok rows" for h rows
  proof -
    have "list_all (\<lambda>r. ev_workflow r \<noteq> None) (upd_where h ?f rows) = list_all (\<lambda>r. ev_workflow r \<noteq> None) rows"
      by (simp add: list_all_iff ball_upd_where)
    moreover have "map ev_id (upd_where h ?f rows) = map ev_id rows"
      "map event_key (upd_where h ?f rows) = map event_key rows"
      "map nonce_key (upd_where h ?f rows) = map nonce_key rows"
      "map stream_key (upd_where h ?f rows) = map stream_key rows"
      by (rule map; simp add: event_key_def nonce_key_def stream_key_def)+
    ultimately show ?thesis by (simp only: events_ok_def)
  qed
  have le: "events_le rows (upd_where h ?f rows)" for h rows
    by (rule events_le_upd_where) (rule same)
  show ?thesis
  proof (cases "ev_fingerprint q = None \<or> ev_fingerprint q = Some []")
    case True
    show ?thesis
      by (rule ac_telemetry) (use True d' le in \<open>auto simp: ok ac_inv_def\<close>)
  qed (use d' ac_rely_refl in auto)
next
  case False
  let ?row = "stored_event eid user p (rs_created r)"
  note new = insert_event_new [OF ins False, unfolded Let_def]
  have after: "ev_created x < ev_created ?row"
    if "x \<in> set (telemetry d)" "ev_tenant x = ev_tenant ?row" "ev_workflow x = ev_workflow ?row" for x
    using next_created_after [OF that(1)] that(2,3) new by simp
  show ?thesis
  proof (rule ac_telemetry)
    show "d' = d\<lparr>telemetry := telemetry d @ [?row]\<rparr>" using new by simp
    show "events_le (telemetry d) (telemetry d @ [?row])" by (rule events_le_append) (rule after)
    assume "ac_inv d"
    then have "events_ok (telemetry d)" by (simp add: ac_inv_def)
    then show "events_ok (telemetry d @ [?row])"
    proof (rule events_ok_append)
      show "ev_id ?row \<notin> ev_id ` set (telemetry d)" using new by (auto simp: list_ex_iff)
      show "event_key ?row \<notin> event_key ` set (telemetry d)"
        using new by (auto simp: first_row_None_iff same_client_def event_key_def)
      show "nonce_key ?row \<notin> nonce_key ` set (telemetry d)"
        using new by (fastforce simp: list_ex_iff same_nonce_def nonce_key_def)
    qed (use after in simp_all)
  qed
qed

text \<open>The groups of new events only hold metadata of events that are in the table.\<close>

definition uuid_text :: "ac_env \<Rightarrow> string \<Rightarrow> bool" where
  "uuid_text env u \<longleftrightarrow> ig_uuid env u = Some u"

definition group_ok :: "ac_env \<Rightarrow> event_row list \<Rightarrow> group_key \<times> event_group \<Rightarrow> bool" where
  "group_ok env rows kg \<longleftrightarrow> wf_id (gr_workflow (snd kg)) = fst (fst kg)
     \<and> list_all (\<lambda>m. backed (fst (fst kg)) rows m \<and> uuid_text env (mt_event m)
          \<and> uuid_text env (mt_tenant m)) (gr_events (snd kg))"

lemma group_ok_mono: "events_le rows rows' \<Longrightarrow> group_ok env rows kg \<Longrightarrow> group_ok env rows' kg"
  by (auto simp: group_ok_def list_all_iff intro: backed_mono)

lemma add_to_groups_ok:
  assumes "list_all (group_ok env rows) gs" and "backed (wf_id (pr_workflow p)) rows m"
    and "uuid_text env (mt_event m)" and "uuid_text env (mt_tenant m)"
  shows "list_all (group_ok env rows) (add_to_groups p m gs)"
  using assms
  by (induction p m gs rule: add_to_groups.induct) (auto simp: group_ok_def group_key_of_def)

lemma ac_relyD:
  assumes "ac_rely d d'" and "ac_inv d"
  shows "ac_inv d'" and "events_le (telemetry d) (telemetry d')"
  using assms by (simp_all add: ac_rely_def)

lemma ac_accept_events:
  assumes "accept_events env user items (rs, al, fr) d = Inr ((rs', al', fr'), d')" and "ac_inv d"
    and "list_all (\<lambda>(i, p). uuid_text env (er_tenant (pr_event p))) items"
    and "list_all (group_ok env (telemetry d)) fr"
  shows "ac_rely d d' \<and> list_all (group_ok env (telemetry d')) fr'"
  using assms
proof (induction items arbitrary: rs al fr d)
  case Nil
  then show ?case by (simp add: ac_rely_refl)
next
  case (Cons x items)
  obtain i p where x: "x = (i, p)" by (cases x)
  from Cons.prems(1) obtain r d1 where ins: "insert_event env user i p d = Inr (r, d1)"
    and rest: "accept_events env user items (rs @ [r], add_to_groups p (accepted_meta p r) al,
        if rs_duplicate r then fr else add_to_groups p (accepted_meta p r) fr) d1 = Inr ((rs', al', fr'), d')"
    by (auto simp: x Let_def split: sum.splits)
  have R: "ac_rely d d1" by (rule ac_insert_event [OF ins])
  note d1 = ac_relyD [OF R Cons.prems(2)]
  have old: "list_all (group_ok env (telemetry d1)) fr"
    using Cons.prems(4) group_ok_mono [OF d1(2)] by (auto simp: list_all_iff)
  have "list_all (group_ok env (telemetry d1)) (if rs_duplicate r then fr else add_to_groups p (accepted_meta p r) fr)"
  proof (cases "rs_duplicate r")
    case False
    note new = insert_event_new [OF ins False, unfolded Let_def]
    then have "stored_event i user p (rs_created r) \<in> set (telemetry d1)" by simp
    with new have "backed (wf_id (pr_workflow p)) (telemetry d1) (accepted_meta p r)"
      unfolding backed_def by (auto simp: accepted_meta_def Let_def intro!: bexI [of _ "stored_event i user p (rs_created r)"])
    moreover have "uuid_text env (mt_event (accepted_meta p r))" "uuid_text env (mt_tenant (accepted_meta p r))"
      using new Cons.prems(3) by (simp_all add: accepted_meta_def Let_def uuid_text_def x)
    ultimately show ?thesis using add_to_groups_ok [OF old] False by simp
  qed (use old in simp)
  from Cons.IH [OF rest d1(1) _ this] Cons.prems(3) R show ?case by (auto intro: ac.rely_trans)
qed

lemma map_err_elem: "map_err f xs = Inr ys \<Longrightarrow> y \<in> set ys \<Longrightarrow> \<exists>x \<in> set xs. f x = Inr y"
  by (induction xs arbitrary: ys) (auto split: sum.splits)

lemma safe_event_raw:
  assumes "safe_event (ig_of env) (raw_meta m) = Inr m'" and "uuid_text env (mt_event m)" and "uuid_text env (mt_tenant m)"
  shows "mt_event m' = mt_event m \<and> mt_tenant m' = mt_tenant m \<and> mt_created m' = mt_created m"
  using assms
  by (auto simp: safe_event_def raw_meta_def uuid_text_def jget_def Let_def split: sum.splits if_splits)

lemma safe_events_backed:
  assumes "safe_events (ig_of env) (map raw_meta ms) = Inr ms'"
    and "list_all (\<lambda>m. backed wid rows m \<and> uuid_text env (mt_event m) \<and> uuid_text env (mt_tenant m)) ms"
  shows "list_all (backed wid rows) ms'"
proof -
  from assms(1) have m: "map_err (safe_event (ig_of env)) (map raw_meta ms) = Inr ms'"
    by (auto simp: safe_events_def split: if_splits)
  have "backed wid rows m'" if "m' \<in> set ms'" for m'
  proof -
    from map_err_elem [OF m that] obtain m where "m \<in> set ms" "safe_event (ig_of env) (raw_meta m) = Inr m'" by auto
    with safe_event_raw [OF this(2)] assms(2) show ?thesis by (auto simp: list_all_iff backed_def)
  qed
  then show ?thesis by (simp add: list_all_iff)
qed

lemma ac_register_groups:
  assumes "register_groups env acceptance who n gs out d = Inr (rs, d')" and "ac_inv d"
    and "list_all (\<lambda>(bid, g). list_all (\<lambda>m. backed (wf_id (gr_workflow g)) (telemetry d) m
        \<and> uuid_text env (mt_event m) \<and> uuid_text env (mt_tenant m)) (gr_events g)) gs"
  shows "ac_rely d d'"
  using assms
proof (induction gs arbitrary: n out d)
  case Nil
  then show ?case by (simp add: ac_rely_refl)
next
  case (Cons x gs)
  obtain bid g where x: "x = (bid, g)" by (cases x)
  from Cons.prems(1) obtain b d1 where
    reg: "register_processing_batch (ig_of env) bid acceptance (int n) who (gr_workflow g)
      (gr_content_type g) (gr_event_type g) (map raw_meta (gr_events g)) d = Inr (b, d1)"
    and rest: "register_groups env acceptance who (Suc n) gs (out @ [b]) d1 = Inr (rs, d')"
    by (auto simp: x split: sum.splits)
  from Cons.prems(3) have g: "list_all (\<lambda>m. backed (wf_id (gr_workflow g)) (telemetry d) m
        \<and> uuid_text env (mt_event m) \<and> uuid_text env (mt_tenant m)) (gr_events g)" by (simp add: x)
  have R: "ac_rely d d1" by (rule ac_register [OF reg safe_events_backed [OF _ g]])
  note d1 = ac_relyD [OF R Cons.prems(2)]
  have "list_all (\<lambda>(bid, g). list_all (\<lambda>m. backed (wf_id (gr_workflow g)) (telemetry d1) m
        \<and> uuid_text env (mt_event m) \<and> uuid_text env (mt_tenant m)) (gr_events g)) gs"
    using Cons.prems(3) backed_mono [OF d1(2)] by (auto simp: x list_all_iff)
  from Cons.IH [OF rest d1(1) this] R show ?case by (rule ac.rely_trans [rotated])
qed

lemma ac_audit_tenants: "ac_rely d (audit_tenants row ts d)"
proof (induction ts arbitrary: d)
  case (Cons t ts)
  have "ac_rely d (add_audit (row t) d)" by (cases "ac_inv d") (auto intro: acc.rely_audit ac.rely_vacuous)
  with Cons show ?case by (auto intro: ac.rely_trans)
qed (simp add: ac_rely_refl)

lemma ac_acceptance:
  assumes "acceptance_txn env user items acc eids bids d = Inr (x, d')" and "ac_inv d"
    and "list_all (\<lambda>p. uuid_text env (er_tenant (pr_event p))) items"
  shows "ac_rely d d'"
proof -
  from assms(1) obtain rs al fr d1 receipts d2 row ts where
    a: "accept_events env user (zip eids items) ([], [], []) d = Inr ((rs, al, fr), d1)"
    and r: "register_groups env acc (actor_id user) 0 (zip bids (map snd fr)) [] d1 = Inr (receipts, d2)"
    and d': "d' = audit_tenants row ts d2"
    by (auto simp: acceptance_txn_def split: sum.splits)
  have "list_all (\<lambda>(i, p). uuid_text env (er_tenant (pr_event p))) (zip eids items)"
    using assms(3) by (auto simp: list_all_iff dest: set_zip_rightD)
  with ac_accept_events [OF a assms(2)] have R: "ac_rely d d1" and g: "list_all (group_ok env (telemetry d1)) fr"
    by auto
  have "list_all (\<lambda>(bid, g). list_all (\<lambda>m. backed (wf_id (gr_workflow g)) (telemetry d1) m
        \<and> uuid_text env (mt_event m) \<and> uuid_text env (mt_tenant m)) (gr_events g)) (zip bids (map snd fr))"
    using g by (fastforce simp: list_all_iff group_ok_def dest: set_zip_rightD)
  with ac_register_groups [OF r ac_relyD(1) [OF R assms(2)]] have "ac_rely d1 d2" .
  with R d' ac_audit_tenants show ?thesis by (blast intro: ac.rely_trans)
qed

subsection \<open>Sessions\<close>

lemma ac_sessions:
  assumes "d' = d\<lparr>crypto_sessions := rows\<rparr>" and "ac_inv d \<Longrightarrow> sessions_ok rows"
    and "sessions_le (crypto_sessions d) rows"
  shows "ac_rely d d'"
proof (rule ac_relyI)
  assume inv: "ac_inv d"
  have R: "ig_rely d d'" by (rule ig_rely_frame) (simp_all add: assms(1))
  with inv have "ig_inv d'" by (simp add: ig_rely_def ac_inv_def)
  with inv R assms show "ac_inv d' \<and> ig_rely d d' \<and> events_le (telemetry d) (telemetry d')
      \<and> sessions_le (crypto_sessions d) (crypto_sessions d')"
    by (simp add: ac_inv_def)
qed

lemma sessions_upd_where:
  assumes "\<And>s. hit s \<Longrightarrow> session_le s (f s)"
  shows "sessions_le rows (upd_where hit f rows)" and "sessions_ok (upd_where hit f rows) = sessions_ok rows"
proof -
  show "sessions_le rows (upd_where hit f rows)"
    unfolding sessions_le_def by (rule upd_where_le) (simp_all add: assms)
  have "map cs_id (upd_where hit f rows) = map cs_id rows" "map session_key (upd_where hit f rows) = map session_key rows"
    by (rule map_upd_where, use assms in \<open>simp add: session_le_def\<close>)+
  then show "sessions_ok (upd_where hit f rows) = sessions_ok rows" by (simp only: sessions_ok_def)
qed

lemma ac_revoke: "revoke_stmt (\<lambda>s. p s \<and> cs_revoked s = None) d = (x, d') \<Longrightarrow> ac_rely d d'"
  by (rule ac_sessions [where rows = "upd_where (\<lambda>s. p s \<and> cs_revoked s = None)
        (\<lambda>s. s\<lparr>cs_revoked := Some (now d), cs_updated := now d\<rparr>) (crypto_sessions d)"])
    (auto simp: revoke_stmt_def Let_def ac_inv_def session_le_def session_key_def
      intro!: sessions_upd_where(1) sessions_upd_where(2) [THEN iffD2])

lemma ac_upsert_session:
  assumes "upsert_session_stmt may f row d = Inr (x, d')" and "\<And>s. session_le s (f s)"
  shows "ac_rely d d'"
proof -
  let ?same = "same_session (cs_tenant row) (cs_session row)"
  from assms(1) consider "d' = d"
    | "d' = d\<lparr>crypto_sessions := upd_where (\<lambda>s. ?same s \<and> may s) f (crypto_sessions d)\<rparr>"
    | "d' = d\<lparr>crypto_sessions := crypto_sessions d @ [row]\<rparr>" "first_row ?same (crypto_sessions d) = None"
      "cs_id row \<notin> cs_id ` set (crypto_sessions d)"
    by (auto simp: upsert_session_stmt_def Let_def split: option.splits if_splits)
  then show ?thesis
  proof cases
    case 2
    show ?thesis
      by (rule ac_sessions [OF 2]) (use assms(2) in \<open>simp_all add: sessions_upd_where ac_inv_def\<close>)
  next
    case 3
    have "session_key row \<notin> session_key ` set (crypto_sessions d)"
      using 3(2) by (auto simp: first_row_None_iff same_session_def session_key_def)
    with 3(3) show ?thesis
      by (intro ac_sessions [OF 3(1)])
        (auto simp: ac_inv_def sessions_ok_def sessions_le_def intro: session_le_refl)
  qed (simp add: ac_rely_refl)
qed

subsection \<open>Every operation keeps the protocol\<close>

lemma safe_secure_schema: "safe ac_inv ac_rely ensure_secure_schema"
  unfolding ensure_secure_schema_def by (rule acc.safe_ensure_schema)

lemma safe_draw_uuids: "safe ac_inv ac_rely (draw_uuids n)"
  by (induction n) (auto intro!: keeps_intros)

lemmas ingest_intros = acc.core_intros safe_secure_schema safe_draw_uuids ac.safe_stmt TrueI

lemma safe_try_lock: "safe ac_inv ac_rely (try_advisory_lock nm)"
  unfolding try_advisory_lock_def
  by (intro ingest_intros) (auto split: if_splits intro: ac_rely_refl intro!: ac_of_ig_plain ig_rely_frame)

lemma safe_unlock: "safe ac_inv ac_rely (advisory_unlock nm)"
  unfolding advisory_unlock_def by (intro ingest_intros) (auto intro!: ac_of_ig_plain ig_rely_frame)

text \<open>The metadata read after a checkpoint is that of accepted events of the workflow.\<close>

lemma fetch_meta_backed:
  assumes "canonical_workflow_id rg (Some wid) = Some wid"
    and "m \<in> set (fetch_meta_after_checkpoint rg tenant c e (Some wid) n d)"
  shows "mt_tenant m = tenant \<and> backed wid (telemetry d) m"
  using assms
  by (auto simp: fetch_meta_after_checkpoint_def in_workflow_def meta_of_row_def backed_def dest!: in_set_takeD)

abbreviation metas_ok :: "uuid \<Rightarrow> string \<Rightarrow> meta list \<Rightarrow> ig_db \<Rightarrow> bool" where
  "metas_ok tenant wid ms d \<equiv> list_all (\<lambda>m. mt_tenant m = tenant \<and> backed wid (telemetry d) m) ms"

lemma stable_metas: "stable ac_rely (\<lambda>d. ac_inv d \<and> metas_ok tenant wid ms d)"
  unfolding stable_def ac_rely_def by (auto simp: list_all_iff intro: backed_mono)

lemma metas_trans: "keeps ac_inv ac_rely (\<lambda>_. True) m (\<lambda>_ _. True) \<Longrightarrow>
    keeps ac_inv ac_rely (metas_ok tenant wid ms) m (\<lambda>_. metas_ok tenant wid ms)"
  by (rule keeps_conseq [OF ac.keeps_frame [OF _ stable_metas]]) auto

lemma keeps_hand_to_dlq:
  assumes "ms \<noteq> []"
  shows "keeps ac_inv ac_rely (metas_ok tenant wid ms)
    (bindM (stmt (\<lambda>d. Inr ((), hand_to_dlq env ids ms tenant wid p v err d))) (\<lambda>_. ret rep)) (\<lambda>_ _. True)"
proof (rule keeps_bind [where Q' = "\<lambda>_ _. True"])
  show "keeps ac_inv ac_rely (metas_ok tenant wid ms)
      (stmt (\<lambda>d. Inr ((), hand_to_dlq env ids ms tenant wid p v err d))) (\<lambda>_ _. True)"
    by (rule ac.keeps_stmt [OF stable_metas])
      (auto simp: list_all_iff intro!: ac_hand_to_dlq [OF assms])
qed (simp add: keeps_ret)

lemma keeps_commit_projection:
  assumes "ms \<noteq> []"
  shows "keeps ac_inv ac_rely (metas_ok tenant wid ms)
    (bindM (stmt (commit_projection env ids rows ms tenant wid p v)) (\<lambda>n. ret (f n))) (\<lambda>_ _. True)"
proof (rule keeps_bind [where Q' = "\<lambda>_ _. True"])
  show "keeps ac_inv ac_rely (metas_ok tenant wid ms)
      (stmt (commit_projection env ids rows ms tenant wid p v)) (\<lambda>_ _. True)"
    by (rule ac.keeps_stmt [OF stable_metas])
      (auto simp: list_all_iff intro!: ac_commit_projection [OF _ assms])
qed (simp add: keeps_ret)

lemma safe_run_projection_core:
  assumes "registry_ok (pj_registry env)"
  shows "safe ac_inv ac_rely (run_projection_core env tenant wid limit)"
proof -
  have meta: "metas_ok tenant w (fetch_meta_after_checkpoint (pj_registry env) tenant c e (Some w) n d) d"
    if "canonical_workflow_id (pj_registry env) (Some w) = Some w" for w c e n and d :: ig_db
    unfolding list_all_iff by (intro ballI) (rule fetch_meta_backed [OF that])
  have fetch: "keeps ac_inv ac_rely (\<lambda>_. True)
      (query (\<lambda>d. let ckpt = get_checkpoint tenant p w d in
         fetch_meta_after_checkpoint (pj_registry env) tenant (Option.bind ckpt ck_created)
           (Option.bind ckpt ck_event) (Some w) n d)) (\<lambda>ms. metas_ok tenant w ms)"
    if "canonical_workflow_id (pj_registry env) (Some w) = Some w" for w p n
    by (rule ac.keeps_query [OF ac.stable_true]) (simp only: Let_def meta [OF that])
  have work: "keeps ac_inv ac_rely (metas_ok tenant w ms)
     (if ms = [] then ret r0
      else bindM receive (\<lambda>ans.
        bindM (draw_uuids (n ans)) (\<lambda>row_ids.
        bindM (draw_uuids (length ms)) (\<lambda>dlq_ids.
        catch
          (bindM (lift (fa_flow ans)) (\<lambda>(pathway, rows).
             if truthy (jget pathway ''ok'')
             then bindM (stmt (commit_projection env row_ids rows ms tenant w p v)) (\<lambda>n. ret (f n))
             else let err = pathway_error env pathway in
               bindM (stmt (\<lambda>d. Inr ((), hand_to_dlq env dlq_ids ms tenant w p v err d))) (\<lambda>_. ret (g err))))
          (\<lambda>e. bindM (stmt (\<lambda>d. Inr ((), hand_to_dlq env dlq_ids ms tenant w p v (exn_message e) d)))
             (\<lambda>_. ret (h e))))))) (\<lambda>_ _. True)" for w ms r0 n p v f g h
  proof (cases "ms = []")
    case False
    have "keeps ac_inv ac_rely (metas_ok tenant w ms)
       (bindM (lift (fa_flow ans)) (\<lambda>(pathway, rows).
          if truthy (jget pathway ''ok'')
          then bindM (stmt (commit_projection env row_ids rows ms tenant w p v)) (\<lambda>n. ret (f n))
          else let err = pathway_error env pathway in
            bindM (stmt (\<lambda>d. Inr ((), hand_to_dlq env dlq_ids ms tenant w p v err d))) (\<lambda>_. ret (g err))))
       (\<lambda>_ _. True)" for ans row_ids dlq_ids
      by (rule keeps_bind [OF metas_trans])
        (auto simp: Let_def intro!: keeps_lift keeps_commit_projection [OF False] keeps_hand_to_dlq [OF False]
          split: prod.split)
    note body = ac.keeps_catch [OF stable_metas this keeps_hand_to_dlq [OF False]]
    have receive: "safe ac_inv ac_rely receive" by (simp add: keeps_receive)
    show ?thesis
      unfolding if_not_P [OF False]
      by (intro keeps_bind [OF metas_trans [OF receive]] keeps_bind [OF metas_trans [OF safe_draw_uuids]] body)
  qed (simp add: keeps_ret)
  have rest: "safe ac_inv ac_rely (if \<not> leased then ret r1 else finallyM
      (tryM (query (\<lambda>d. let ckpt = get_checkpoint tenant p (wf_id wfl) d in
         fetch_meta_after_checkpoint (pj_registry env) tenant (Option.bind ckpt ck_created)
           (Option.bind ckpt ck_event) (Some (wf_id wfl)) n d)) (\<lambda>e. ret (r2 e)) cont) (advisory_unlock nm))"
    if "canonical_workflow_id (pj_registry env) (Some (wf_id wfl)) = Some (wf_id wfl)"
      and "\<And>ms. keeps ac_inv ac_rely (metas_ok tenant (wf_id wfl) ms) (cont ms) (\<lambda>_ _. True)"
    for wfl leased r1 r2 p n cont nm
    by (intro ingest_intros safe_unlock ac.keeps_tryM [OF ac.stable_true fetch [OF that(1)]] that(2))
  show ?thesis
    unfolding run_projection_core_def Let_def
    apply (rule safe_bind [OF safe_secure_schema])
    apply (rule keeps_bind [where Q' = "\<lambda>wfl _. canonical_workflow_id (pj_registry env) (Some (wf_id wfl))
       = Some (wf_id wfl) \<and> True"])
     apply (rule keeps_lift, simp add: resolve_canonical [OF assms])
    apply (rule keeps_pure)
    subgoal for u wfl
      apply (cases "pc_projection (wf_pipeline wfl)")
       apply (simp add: keeps_raise)
      apply (simp only: option.case)
      apply (rule safe_bind [OF safe_try_lock], rule rest [unfolded Let_def, OF _ work [unfolded Let_def]], assumption)
      done
    done
qed

lemma safe_run_projection:
  "registry_ok (pj_registry env) \<Longrightarrow> safe ac_inv ac_rely (run_projection env user tenant wid limit)"
  unfolding run_projection_def by (intro ingest_intros safe_run_projection_core)

lemma safe_enqueue_each: "safe ac_inv ac_rely (enqueue_each env tenant wfl err ms n)"
proof (induction ms arbitrary: n)
  case (Cons m ms)
  show ?case
    unfolding enqueue_each.simps by (intro ingest_intros Cons.IH) (auto intro: ac_enqueue)
qed (simp add: keeps_ret)

lemma safe_run_flow_checked: "safe ac_inv ac_rely (run_flow_checked env)"
  unfolding run_flow_checked_def by (intro ingest_intros)

lemma safe_replay_groups: "safe ac_inv ac_rely (replay_groups env tenant groups rep)"
proof (induction env tenant groups rep rule: replay_groups.induct)
  case (2 env tenant wid wfl ms groups rep)
  show ?case
    unfolding replay_groups.simps Let_def
    by (intro ingest_intros 2 safe_run_flow_checked safe_enqueue_each) (auto intro: ac_upsert)
qed (simp add: keeps_ret)

lemma safe_replay_events:
  "safe ac_inv ac_rely (replay_events env user tenant t1 t2 e wid limit dry)"
  unfolding replay_events_def Let_def by (intro ingest_intros safe_replay_groups)

lemma safe_retry_claimed_dlq: "safe ac_inv ac_rely (retry_claimed_dlq env tenant i w row src)"
  unfolding retry_claimed_dlq_def Let_def
  by (intro ingest_intros safe_run_flow_checked)
    (auto intro: ac_upsert ac_complete_dlq ac_release_dlq)

lemma safe_retry_dlq_item: "safe ac_inv ac_rely (retry_dlq_item env user tenant i)"
  unfolding retry_dlq_item_def Let_def
  by (intro ingest_intros safe_retry_claimed_dlq) (auto intro: ac_claim_dlq)

subsection \<open>Claimed batches\<close>

abbreviation claim_ok :: "batch_row \<Rightarrow> ig_db \<Rightarrow> bool" where
  "claim_ok row d \<equiv> list_all (backed (ib_workflow row) (telemetry d)) (ib_events row)"

lemma claim_trans: "safe ac_inv ac_rely m \<Longrightarrow>
    keeps ac_inv ac_rely (claim_ok row) m (\<lambda>_. claim_ok row)"
  by (rule keeps_conseq [OF ac.keeps_frame [OF _ stable_backed]]) auto

lemma safe_persist_failure: "safe ac_inv ac_rely (persist_processing_failure env row w evs e)"
  unfolding persist_processing_failure_def
  by (intro ingest_intros) (auto intro: ac_persist_failure)

lemma keeps_process_claimed_batch:
  "keeps ac_inv ac_rely (claim_ok row) (process_claimed_batch env row w) (\<lambda>_ _. True)"
  unfolding process_claimed_batch_def
proof (rule ac.keeps_catch [OF stable_backed])
  have complete: "keeps ac_inv ac_rely (claim_ok row)
      (stmt (complete_batch_txn env row w (ib_events row) s ids rows)) (\<lambda>_ _. True)" for s ids rows
    by (rule ac.keeps_stmt [OF stable_backed]) (auto intro!: ac_complete_batch)
  have receive: "safe ac_inv ac_rely receive" by (simp add: keeps_receive)
  have lift: "safe ac_inv ac_rely (lift r)" for r :: "exn + 'b" by (simp add: keeps_lift)
  show "keeps ac_inv ac_rely (claim_ok row) (run_claimed_batch env row w) (\<lambda>_ _. True)"
    unfolding run_claimed_batch_def
    apply (rule keeps_bind [where Q' = "\<lambda>(wfl, events) d. events = ib_events row \<and> claim_ok row d"])
     apply (rule keeps_lift, auto simp: validated_claim_def split: if_splits sum.splits)[1]
    apply (simp only: split_paired_all prod.case)
    apply (rule keeps_pure, simp only:)
    apply (rule keeps_bind [OF claim_trans [OF receive]])
    apply (rule keeps_bind [OF claim_trans [OF lift]])
    apply (simp only: split_paired_all prod.case)
    apply (intro keeps_if keeps_raise keeps_bind [OF claim_trans [OF lift]] keeps_bind [OF claim_trans [OF safe_draw_uuids]]
       keeps_bind [OF complete] keeps_ret TrueI)
    done
  show "keeps ac_inv ac_rely (claim_ok row) (persist_processing_failure env row w (ib_events row) e) (\<lambda>_ _. True)" for e
    by (rule keeps_safe [OF safe_persist_failure])
qed

lemma safe_process_batches: "safe ac_inv ac_rely (process_batches env w n ids out)"
proof (induction n arbitrary: ids out)
  case (Suc n)
  have claim: "keeps ac_inv ac_rely (\<lambda>_. True) (stmt (\<lambda>d. Inr (claim_processing_batches w 1 ids d)))
      (\<lambda>rows d. list_all (\<lambda>row. claim_ok row d) rows)"
    by (rule ac.keeps_stmt [OF ac.stable_true]) (use ac_claim in \<open>fastforce simp: list_all_iff\<close>)
  have run: "keeps ac_inv ac_rely (claim_ok row)
     (bindM (catch (process_claimed_batch env row w) (\<lambda>_. ret (unpersisted row))) (\<lambda>rep.
        process_batches env w n (map_option (filter (\<lambda>i. i \<noteq> ib_id row)) ids) (out @ [rep]))) (\<lambda>_ _. True)" for row
    by (rule keeps_bind [OF ac.keeps_catch [OF stable_backed keeps_process_claimed_batch] Suc.IH])
      (simp add: keeps_ret)
  show ?case
    unfolding process_batches.simps
    apply (intro keeps_if keeps_ret TrueI keeps_bind [OF claim])
    subgoal for rows
    proof (cases rows)
      case (Cons row rest)
      then show ?thesis by (auto intro!: keeps_conseq [OF run])
    qed (simp add: keeps_ret)
    done
qed (simp add: keeps_ret)

lemma safe_tick_ingest: "safe ac_inv ac_rely (tick_ingest_processing env n w ids rdy)"
  unfolding tick_ingest_processing_def
  by (intro ingest_intros safe_process_batches) (auto intro: ac_recover)

lemma safe_batch_status: "safe ac_inv ac_rely (get_processing_batch_status user bid)"
proof -
  have "safe ac_inv ac_rely (require_all user ts)" for ts
    by (induction ts) (simp_all only: require_all.simps, intro ingest_intros, intro ingest_intros, assumption)
  then show ?thesis unfolding get_processing_batch_status_def by (intro ingest_intros)
qed

subsection \<open>Sessions and acceptance\<close>

lemma safe_upsert_session: "safe ac_inv ac_rely (upsert_session user q)"
  unfolding upsert_session_def
  by (intro ingest_intros)
    (auto intro!: ac_upsert_session simp: session_le_def session_key_def rotate_session_def)

lemma revoked_where:
  "revoke_stmt (\<lambda>s. a s \<and> cs_revoked s = None \<and> b s) d = (x, d') \<Longrightarrow> ac_rely d d'"
  using ac_revoke [of "\<lambda>s. a s \<and> b s" d x d'] by (simp add: conj_commute conj_left_commute)

lemma safe_revoke_session: "safe ac_inv ac_rely (revoke_session user tenant session)"
  unfolding revoke_session_def
  by (intro ingest_intros) (auto elim: revoked_where)

lemma safe_active_sessions: "safe ac_inv ac_rely (require_active_sessions b ps)"
  unfolding require_active_sessions_def by (intro ingest_intros)

lemma safe_require_writers: "safe ac_inv ac_rely (require_writers user ts)"
  by (induction ts) (simp_all only: require_writers.simps, intro ingest_intros, intro ingest_intros, assumption)

lemma safe_process_accepted: "safe ac_inv ac_rely (process_accepted env rs ids)"
  unfolding process_accepted_def by (intro ingest_intros safe_tick_ingest)

lemma map_err_prepare: "map_err (prepare_event env) es = Inr items \<Longrightarrow> map pr_event items = es"
  by (induction es arbitrary: items)
    (auto simp: prepare_event_def Let_def split: sum.splits)

lemma safe_ingest_events:
  assumes "list_all (\<lambda>e. uuid_text env (er_tenant e)) events"
  shows "safe ac_inv ac_rely (ingest_events env user events)"
proof -
  have rest: "safe ac_inv ac_rely (bindM uuid4 (\<lambda>acceptance.
     bindM (draw_uuids (length items)) (\<lambda>event_ids.
     bindM (draw_uuids (length items)) (\<lambda>batch_ids.
     bindM (stmt (acceptance_txn env user items acceptance event_ids batch_ids))
       (\<lambda>(results, all, receipts).
     if list_ex (\<lambda>r. \<not> rs_duplicate r) results
     then process_accepted env results (map ib_id receipts)
     else
     bindM (query (\<lambda>d. keep_first (map ib_id receipts @ prior_receipts all d))) (\<lambda>ids.
     bindM (stmt (\<lambda>d. Inr ((), wake_processing_batches ids True d))) (\<lambda>_.
     process_accepted env results ids)))))))"
    if "map pr_event items = events" for items
  proof -
    from assms that have "list_all (\<lambda>p. uuid_text env (er_tenant (pr_event p))) items"
      by (auto simp: list_all_iff)
    note accept = ac_acceptance [OF _ _ this]
    show ?thesis
      by (intro ingest_intros safe_process_accepted) (auto intro: accept ac_wake)
  qed
  show ?thesis
    unfolding ingest_events_def
    apply (rule safe_bind [OF safe_secure_schema], rule safe_bind [OF safe_require_writers],
        rule safe_bind [OF safe_active_sessions])
    apply (rule keeps_bind [where Q' = "\<lambda>items _. map pr_event items = events \<and> True"])
     apply (rule keeps_lift, simp add: map_err_prepare)
    apply (rule keeps_pure, erule rest)
    done
qed

lemma safe_ingest_embedding: "safe ac_inv ac_rely (ingest_embedding env user b)"
  unfolding ingest_embedding_def
  by (intro ingest_intros)
    (auto simp: insert_embedding_def Let_def split: if_splits intro!: ac_of_ig_plain ig_rely_frame)

end
