(* ===== verification/Ingest_System.thy ===== *)
theory Ingest_System
  imports Acceptance_Safety System
begin

section \<open>Ingest, projections, replay and sessions: histories\<close>

text \<open>
  The calls of the ingest side of the service, the tick and the heartbeat of the processing worker
  among them.  The registry is the one the process loads at start-up (\<open>all_workflows\<close>); the bodies
  of requests are those the routers parse: 1 to 25 events with UUIDs as tenants.
\<close>

datatype ig_call =
    I_ingest auth_user "event_request list"
  | I_embedding auth_user embedding_request
  | I_status auth_user uuid
  | I_tick int "string option" "uuid list option" bool
  | I_heartbeat batch_row string
  | I_project auth_user uuid "string option" int
  | I_replay auth_user uuid "time option" "time option" "uuid option" "string option" int bool
  | I_retry auth_user uuid uuid
  | I_upsert_session auth_user session_request
  | I_revoke_session auth_user uuid string
  | I_sessions auth_user uuid nat
  | I_events auth_user uuid nat
  | I_dead_letters auth_user uuid nat bool

definition accepted_body :: "ac_env \<Rightarrow> event_request list \<Rightarrow> bool" where
  "accepted_body env events \<longleftrightarrow> events \<noteq> [] \<and> length events \<le> max_ingest_batch_events
     \<and> list_all (\<lambda>e. uuid_text env (er_tenant e)) events"

fun ig_step :: "ac_env \<Rightarrow> ig_call \<Rightarrow> unit ig_prog" where
  "ig_step env (I_ingest u es) =
     (if accepted_body env es then ignore (ingest_events env u es)
      else raise (ValueError ''request body''))"
| "ig_step env (I_embedding u b) =
     (case validate_context b of Inl e \<Rightarrow> raise e | Inr _ \<Rightarrow> ignore (ingest_embedding env u b))"
| "ig_step env (I_status u b) = ignore (get_processing_batch_status u b)"
| "ig_step env (I_tick n w ids rdy) = ignore (tick_ingest_processing (ig_of env) n w ids rdy)"
| "ig_step env (I_heartbeat row w) = ignore (stmt (\<lambda>d. Inr (heartbeat_stmt row w d)))"
| "ig_step env (I_project u t wid n) = ignore (run_projection (pj_of (ig_of env)) u t wid n)"
| "ig_step env (I_replay u t t1 t2 e wid n dry) =
     ignore (replay_events (pj_of (ig_of env)) u t t1 t2 e wid n dry)"
| "ig_step env (I_retry u t i) = ignore (retry_dlq_item (pj_of (ig_of env)) u t i)"
| "ig_step env (I_upsert_session u q) = ignore (upsert_session u q)"
| "ig_step env (I_revoke_session u t s) = ignore (revoke_session u t s)"
| "ig_step env (I_sessions u t n) = ignore (list_sessions u t n)"
| "ig_step env (I_events u t n) = ignore (list_recent_events u t n)"
| "ig_step env (I_dead_letters u t n b) = ignore (list_dlq u t n b)"

definition ig_run :: "workflow_config \<Rightarrow> ac_env \<Rightarrow> ig_call \<Rightarrow> unit ig_prog" where
  "ig_run cfg env c = (case all_workflows cfg of
     Inl e \<Rightarrow> raise e | Inr rg \<Rightarrow> ig_step (env\<lparr>pj_registry := rg\<rparr>) c)"

definition fresh_ig :: "ig_db \<Rightarrow> bool" where
  "fresh_ig d \<longleftrightarrow> telemetry d = [] \<and> ingest_batches d = [] \<and> checkpoints d = []
     \<and> stream_results d = [] \<and> dead_letters d = [] \<and> crypto_sessions d = []"

lemma ac_elapse: "0 \<le> t \<Longrightarrow> ac_inv d \<Longrightarrow> ac_rely d (elapse t d)"
proof -
  assume t: "0 \<le> t" and d: "ac_inv d"
  have "ig_inv (elapse t d) = ig_inv d" by (simp add: ig_inv_def elapse_def)
  with t ig_rely_refl [of d] have "ig_rely d (elapse t d)" by (simp add: ig_rely_def elapse_def)
  then show ?thesis by (rule ac_of_ig_plain) (simp_all add: elapse_def)
qed

lemma safe_ig_step:
  assumes "registry_ok (pj_registry env)"
  shows "safe ac_inv ac_rely (ig_step env c)"
proof (cases c)
  case (I_ingest u es)
  then show ?thesis
    by (auto simp: accepted_body_def keeps_raise intro!: safe_ignore safe_ingest_events)
next
  case (I_embedding u b)
  then show ?thesis by (simp add: keeps_raise safe_ignore safe_ingest_embedding split: sum.split)
next
  case (I_heartbeat row w)
  have "safe ac_inv ac_rely (stmt (\<lambda>d. Inr (heartbeat_stmt row w d)) :: nat ig_prog)"
    by (rule ac.safe_stmt) (auto intro: ac_heartbeat)
  with I_heartbeat show ?thesis by (simp add: safe_ignore)
next
  case (I_sessions u t n)
  have "safe ac_inv ac_rely (list_sessions u t n :: session_row list ig_prog)" unfolding list_sessions_def by (intro ingest_intros)
  with I_sessions show ?thesis by (simp add: safe_ignore)
next
  case (I_events u t n)
  have "safe ac_inv ac_rely (list_recent_events u t n :: event_listing list ig_prog)"
    unfolding list_recent_events_def by (intro ingest_intros)
  with I_events show ?thesis by (simp add: safe_ignore)
next
  case (I_dead_letters u t n b)
  have "safe ac_inv ac_rely (list_dlq u t n b :: dlq_row list ig_prog)" unfolding list_dlq_def by (intro ingest_intros)
  with I_dead_letters show ?thesis by (simp add: safe_ignore)
qed (use assms in \<open>simp_all add: safe_ignore safe_batch_status safe_tick_ingest safe_run_projection
    safe_replay_events safe_retry_dlq_item safe_upsert_session safe_revoke_session\<close>)

interpretation igs: service ac_inv ac_rely "ig_run cfg env" fresh_ig for cfg env
proof
  show "safe ac_inv ac_rely (ig_run cfg env c)" for c
    by (cases "all_workflows cfg")
      (simp_all add: ig_run_def keeps_raise safe_ig_step all_workflows_ok(1))
  show "0 \<le> t \<Longrightarrow> ac_inv d \<Longrightarrow> ac_rely d (elapse t d)" for t d by (rule ac_elapse)
  show "fresh_ig d \<Longrightarrow> ac_inv d" for d
    by (simp add: fresh_ig_def ac_inv_def ig_inv_def events_ok_def sessions_ok_def)
qed

abbreviation ig_reachable :: "workflow_config \<Rightarrow> ac_env \<Rightarrow> ig_db \<Rightarrow> bool" where
  "ig_reachable cfg env \<equiv> reachable (ig_run cfg env) fresh_ig"

end
