(* ===== verification/Ingest_Outcomes.thy ===== *)
theory Ingest_Outcomes
  imports Ingest_System
begin

section \<open>Outcomes of processing and acceptance\<close>

text \<open>
  How a processing attempt can end when the lease is kept, what the events and receipts of an
  acknowledged batch are worth under interference, and what accepting a batch again does.
\<close>

subsection \<open>Every claim is settled\<close>

lemma draw_uuids_run:
  "\<exists>ids w'. draw_uuids n w = (Inr ids, w') \<and> wdb w' = wdb w \<and> quiet w' = quiet w \<and> length ids = n"
proof (induction n arbitrary: w)
  case (Suc n)
  from Suc [of "w\<lparr>wrnd := (\<lambda>k. wrnd w (Suc k))\<rparr>"] show ?case
    by (auto simp: bind_uuid4) (auto simp: bindM_def ret_def)
qed (simp add: ret_def)

lemma bind_draw_uuids:
  obtains ids w' where "bindM (draw_uuids n) f w = f ids w'" and "wdb w' = wdb w" and "quiet w' = quiet w"
    and "length ids = n"
  using draw_uuids_run [of n w] by (auto simp: bindM_def)

text \<open>What one held row of a table with distinct keys becomes.\<close>

lemma held_once:
  assumes "distinct (map ib_id bs)" and "b \<in> set bs" and "batch_held row w b"
  shows "length (rows_where (batch_held row w) bs) = 1"
    and "f b \<in> set (upd_where (batch_held row w) f bs)"
proof -
  have "q = b" if "q \<in> set bs" "batch_held row w q" for q
    using that assms by (auto simp: batch_held_def dest: distinct_map_eqD)
  then have "rows_where (batch_held row w) bs = filter (\<lambda>q. q = b) bs"
    using assms(3) by (auto simp: rows_where_def intro: filter_cong)
  moreover have "length (filter (\<lambda>q. q = b) bs) = 1"
    using assms(1,2) by (induction bs) (auto simp: filter_empty_conv)
  ultimately show "length (rows_where (batch_held row w) bs) = 1" by simp
  show "f b \<in> set (upd_where (batch_held row w) f bs)" using assms(2,3) by (auto simp: set_upd_where)
qed

text \<open>How a processing attempt can end: nothing written and an exception, or the completion.\<close>

lemma claimed_batch_body:
  assumes "quiet w"
  obtains e w' where "run_claimed_batch env row worker w = (Inl e, w')" "wdb w' = wdb w" "quiet w'"
  | summary ids rows n w' where "run_claimed_batch env row worker w = (Inr \<lparr>br_id = ib_id row, br_ok = True, br_status = B_completed,
        br_written = n, br_dlq = 0, br_error = None\<rparr>, w')"
      "complete_batch_txn env row worker (ib_events row) summary ids rows (wdb w) = Inr (n, wdb w')"
proof (cases "validated_claim env row")
  case (Inl e)
  then show thesis using that(1) assms by (simp add: run_claimed_batch_def bind_lift)
next
  case (Inr v)
  then have v: "snd v = ib_events row" by (auto simp: validated_claim_def split: if_splits sum.splits)
  define w1 where "w1 = w\<lparr>wext := (\<lambda>n. wext w (Suc n))\<rparr>"
  have w1: "wdb w1 = wdb w" "quiet w1" using assms(1) by (simp_all add: w1_def)
  show thesis
  proof (cases "fa_flow (wext w 0)")
    case (Inl e)
    with Inr show thesis using that(1) [of e w1] w1 by (simp add: run_claimed_batch_def bind_lift bind_receive w1_def split_beta)
  next
    fix p assume flow: "fa_flow (wext w 0) = Inr p"
    let ?fin = "\<lambda>summary. bindM (draw_uuids (length (snd p))) (\<lambda>ids.
          bindM (stmt (complete_batch_txn env row worker (snd v) summary ids (snd p))) (\<lambda>written.
          ret \<lparr>br_id = ib_id row, br_ok = True, br_status = B_completed, br_written = written,
             br_dlq = 0, br_error = None\<rparr>))"
    from Inr flow have run: "run_claimed_batch env row worker w =
        (if fa_lease_lost (wext w 0)
         then raise (RuntimeError ''ingest processing lease was lost during workflow execution'')
         else if \<not> truthy (jget (fst p) ''ok'') then raise (RuntimeError (pathway_error (pj_of env) (fst p)))
         else bindM (lift (batch_summary env (fst p))) ?fin) w1"
      by (simp add: run_claimed_batch_def bind_lift bind_receive w1_def split_beta)
    consider e where "run_claimed_batch env row worker w = (Inl e, w1)"
      | summary where "run_claimed_batch env row worker w = ?fin summary w1"
      using run by (cases "batch_summary env (fst p)") (simp_all add: bind_lift raise_def split: if_splits)
    then show thesis
    proof cases
      case 1
      with that(1) w1 show thesis by blast
    next
      case 2
      obtain ids w2 where w2: "run_claimed_batch env row worker w = bindM (stmt (complete_batch_txn env row worker (snd v) summary ids (snd p)))
          (\<lambda>written. ret \<lparr>br_id = ib_id row, br_ok = True, br_status = B_completed, br_written = written,
             br_dlq = 0, br_error = None\<rparr>) w2" "wdb w2 = wdb w" "quiet w2"
        by (rule bind_draw_uuids [of "length (snd p)" _ w1]) (use 2 w1 in auto)
      show thesis
      proof (cases "complete_batch_txn env row worker (ib_events row) summary ids (snd p) (wdb w)")
        case (Inl e)
        with w2 v that(1) [of e w2] show thesis by (simp add: bind_stmt_quiet)
      next
        case (Inr r)
        with w2 v that(2) [of "fst r" "w2\<lparr>wdb := snd r\<rparr>" summary ids "snd p"] show thesis
          by (cases r) (simp add: bind_stmt_quiet ret_def)
      qed
    qed
  qed
qed

lemma complete_batch_settles:
  assumes "complete_batch_txn env row worker evs summary ids rows d = Inr (n, d')"
    and "b \<in> set (ingest_batches d)" and "batch_held row worker b"
  shows "\<exists>b' \<in> set (ingest_batches d'). ib_id b' = ib_id row \<and> ib_status b' = B_completed
    \<and> ib_owner b' = None \<and> ib_lease b' = None"
proof -
  from assms(1) obtain d1 d3 f where
    up: "upsert_stream_results (pj_of env) ids rows (ib_projection_version row)
      (\<lambda>tid. map mt_event (filter (\<lambda>m. mt_tenant m = tid) evs)) (sorted_set (map mt_tenant evs))
      (map mt_event evs) d = Inr (n, d1)"
    and d3: "d3 = advance_checkpoint_from_meta evs (ib_workflow row) (ib_projection row)
      (resolve_tenants row evs (sorted_set (map mt_tenant evs)) d1)"
    and d': "ingest_batches d' = upd_where (batch_held row worker) f (ingest_batches d3)"
    and f: "\<And>q. ib_id (f q) = ib_id q \<and> ib_status (f q) = B_completed \<and> ib_owner (f q) = None \<and> ib_lease (f q) = None"
    by (auto simp: complete_batch_txn_def Let_def split: sum.splits if_splits)
  have "ingest_batches d3 = ingest_batches d" by (simp add: d3 frame_simps frame_upsert_batches [OF up])
  with assms(2,3) d' have "f b \<in> set (ingest_batches d')" by (auto simp: set_upd_where)
  with f assms(3) show ?thesis by (intro bexI [of _ "f b"]) (auto simp: batch_held_def)
qed

text \<open>There is an open dead letter for the event in the contract of the receipt.\<close>

definition open_letter :: "ig_env \<Rightarrow> batch_row \<Rightarrow> meta \<Rightarrow> ig_db \<Rightarrow> bool" where
  "open_letter env row m d \<longleftrightarrow> list_ex (\<lambda>r. dq_tenant r = mt_tenant m \<and> dq_resolved r = None
     \<and> dq_key r = dlq_dedupe_key (pj_of env) (Some (mt_event m)) (Some (ib_workflow row))
         (ib_projection row) (ib_projection_version row)) (dead_letters d)"

lemma dlq_events_open:
  "open_letter env row m d \<or> m \<in> snd ` set ms \<Longrightarrow> open_letter env row m (dlq_events env row e ms d)"
proof (induction ms arbitrary: d)
  case (Cons im ms)
  obtain i k where im: "im = (i, k)" by (cases im)
  let ?d = "enqueue_projection_dlq (pj_of env) i (mt_tenant k) (Some (mt_event k)) (Some (ib_workflow row))
    (ib_projection row) (ib_projection_version row) (exn_message e) (exn_name e) k d"
  have keep: "open_letter env row q d \<Longrightarrow> open_letter env row q ?d" for q
    unfolding open_letter_def enqueue_projection_dlq_def Let_def by (auto intro!: list_ex_upd_where)
  moreover have "open_letter env row k ?d"
  proof (cases "open_letter env row k d")
    case False
    then show ?thesis
      by (auto simp: open_letter_def enqueue_projection_dlq_def Let_def list_ex_iff)
  qed (rule keep)
  ultimately have "open_letter env row m ?d \<or> m \<in> snd ` set ms" using Cons.prems by (auto simp: im)
  from Cons.IH [OF this] show ?case by (simp add: im)
qed simp

lemma dlq_events_now [simp]: "now (dlq_events env row e ms d) = now d"
  by (induction ms arbitrary: d) (auto simp: enqueue_projection_dlq_def Let_def)

subsection \<open>What an acknowledged batch means\<close>

definition stored :: "event_result list \<Rightarrow> ig_db \<Rightarrow> bool" where
  "stored rs d \<longleftrightarrow> list_all (\<lambda>r. \<exists>q \<in> set (telemetry d). ev_id q = rs_id r \<and> ev_tenant q = rs_tenant r
     \<and> ev_client q = rs_client r) rs"

lemma stable_stored: "stable ac_rely (\<lambda>d. ac_inv d \<and> stored rs d)"
proof -
  have "stored rs d'" if "stored rs d" "events_le (telemetry d) (telemetry d')" for d d'
    unfolding stored_def list_all_iff
  proof
    fix r assume "r \<in> set rs"
    with that(1) obtain q where q: "q \<in> set (telemetry d)" "ev_id q = rs_id r" "ev_tenant q = rs_tenant r"
      "ev_client q = rs_client r"
      by (auto simp: stored_def list_all_iff)
    with that(2) obtain q' where "q' \<in> set (telemetry d')" "event_same q q'" by (auto simp: events_le_def)
    with q show "\<exists>q \<in> set (telemetry d'). ev_id q = rs_id r \<and> ev_tenant q = rs_tenant r \<and> ev_client q = rs_client r"
      by (intro bexI [of _ q']) (simp_all add: event_same_simps)
  qed
  then show ?thesis unfolding stable_def ac_rely_def by blast
qed

definition result_of :: "event_request \<Rightarrow> event_result \<Rightarrow> bool" where
  "result_of e r \<longleftrightarrow> rs_tenant r = er_tenant e \<and> rs_client r = er_client e"

lemma insert_event_stored:
  assumes "insert_event env user eid p d = Inr (r, d')" and "stored rs d"
  shows "result_of (pr_event p) r \<and> stored (rs @ [r]) d'"
proof -
  have keep: "stored rs d'" if "\<And>q. q \<in> set (telemetry d) \<Longrightarrow> \<exists>q' \<in> set (telemetry d').
      ev_id q' = ev_id q \<and> ev_tenant q' = ev_tenant q \<and> ev_client q' = ev_client q"
    using assms(2) that by (fastforce simp: stored_def list_all_iff)
  let ?same = "same_client (er_tenant (pr_event p)) (er_client (pr_event p))"
  show ?thesis
  proof (cases "first_row ?same (telemetry d)")
    case None
    with assms(1) obtain t where r: "rs_id r = eid" "rs_tenant r = er_tenant (pr_event p)"
      "rs_client r = er_client (pr_event p)" and d': "telemetry d' = telemetry d @ [stored_event eid user p t]"
      by (auto simp: insert_event_def Let_def split: if_splits)
    have "result_of (pr_event p) r" by (simp add: result_of_def r)
    moreover have "stored [r] d'" by (simp add: stored_def d' r stored_event_def Let_def)
    moreover have "stored rs d'" by (rule keep) (use d' in auto)
    ultimately show ?thesis by (simp add: stored_def)
  next
    case (Some q)
    from first_row_SomeD [OF this] have q: "q \<in> set (telemetry d)" "?same q" by auto
    let ?f = "\<lambda>q. q\<lparr>ev_fingerprint := Some (pr_print p), ev_bytes := pr_len p\<rparr>"
    from assms(1) Some have r: "rs_id r = ev_id q" "rs_tenant r = ev_tenant q" "rs_client r = ev_client q"
      and d': "telemetry d' = telemetry d \<or> telemetry d' =
        upd_where (\<lambda>x. ev_id x = ev_id q \<and> ev_fingerprint x = None) ?f (telemetry d)"
      by (auto simp: insert_event_def Let_def split: if_splits)
    have "\<forall>x \<in> set (telemetry d). \<exists>q' \<in> set (telemetry d').
        ev_id q' = ev_id x \<and> ev_tenant q' = ev_tenant x \<and> ev_client q' = ev_client x"
    proof (cases "telemetry d' = telemetry d")
      case False
      with d' have "telemetry d' = upd_where (\<lambda>x. ev_id x = ev_id q \<and> ev_fingerprint x = None) ?f (telemetry d)"
        by blast
      then show ?thesis by (simp only:) (rule upd_where_le, simp_all)
    qed auto
    note k = bspec [OF this]
    from k [OF q(1)] r have "stored [r] d'" by (auto simp: stored_def)
    with keep [OF k] q(2) r show ?thesis by (simp add: stored_def result_of_def same_client_def)
  qed
qed

lemma accept_events_stored:
  assumes "accept_events env user ps (rs, al, fr) d = Inr ((rs', al', fr'), d')" and "stored rs d"
  shows "stored rs' d' \<and> (\<exists>new. rs' = rs @ new \<and> list_all2 result_of (map (pr_event \<circ> snd) ps) new)"
  using assms
proof (induction ps arbitrary: rs al fr d)
  case (Cons ep ps)
  obtain eid p where ep: "ep = (eid, p)" by (cases ep)
  from Cons.prems(1) obtain r d1 al1 fr1 where i: "insert_event env user eid p d = Inr (r, d1)"
    and rest: "accept_events env user ps (rs @ [r], al1, fr1) d1 = Inr ((rs', al', fr'), d')"
    by (auto simp: ep Let_def split: sum.splits)
  from insert_event_stored [OF i Cons.prems(2)] Cons.IH [OF rest] show ?case by (auto simp: ep)
qed simp

lemma telemetry_register:
  assumes "register_processing_batch env bid acc k by wfl ct et evs d = Inr (b, d')"
  shows "telemetry d' = telemetry d"
  using assms by (auto simp: register_processing_batch_def Let_def split: sum.splits if_splits option.splits)

lemma telemetry_register_groups:
  "register_groups env acc by n gs out d = Inr (bs, d') \<Longrightarrow> telemetry d' = telemetry d"
proof (induction gs arbitrary: n out d)
  case (Cons g gs)
  then obtain b d1 bid gr where "g = (bid, gr)"
    "register_processing_batch (ig_of env) bid acc (int n) by (gr_workflow gr) (gr_content_type gr)
       (gr_event_type gr) (map raw_meta (gr_events gr)) d = Inr (b, d1)"
    "register_groups env acc by (Suc n) gs (out @ [b]) d1 = Inr (bs, d')"
    by (cases g) (auto split: sum.splits)
  with Cons.IH telemetry_register show ?case by metis
qed simp

lemma telemetry_audit_tenants [simp]: "telemetry (audit_tenants row ts d) = telemetry d"
  by (induction ts arbitrary: d) (simp_all add: add_audit_def)

lemma acceptance_stored:
  assumes "acceptance_txn env user items acc eids bids d = Inr ((rs, al, bs), d')"
    and "length eids = length items"
  shows "stored rs d' \<and> list_all2 result_of (map pr_event items) rs"
proof -
  from assms(1) obtain fr d1 d2 row ts where
    a: "accept_events env user (zip eids items) ([], [], []) d = Inr ((rs, al, fr), d1)"
    and r: "register_groups env acc (actor_id user) 0 (zip bids (map snd fr)) [] d1 = Inr (bs, d2)"
    and d': "d' = audit_tenants row ts d2"
    by (auto simp: acceptance_txn_def split: sum.splits)
  have "map (pr_event \<circ> snd) (zip eids items) = map pr_event items"
    using assms(2) by (simp add: map_snd_zip flip: map_map)
  with accept_events_stored [OF a] telemetry_register_groups [OF r] show ?thesis
    by (simp add: stored_def d')
qed

text \<open>Every receipt of an \<open>ok\<close> report is completed.\<close>

definition report_backed :: "ingest_report \<Rightarrow> ig_db \<Rightarrow> bool" where
  "report_backed rep d \<longleftrightarrow> stored (ir_results rep) d \<and> (ir_ok rep \<longrightarrow> list_all (\<lambda>b.
     list_ex (\<lambda>b'. ib_id b' = ib_id b \<and> ib_status b' = B_completed) (ingest_batches d)) (ir_batches rep))"

lemma keeps_process_accepted:
  "keeps ac_inv ac_rely (stored rs) (process_accepted env rs ids)
     (\<lambda>rep d. report_backed rep d \<and> ir_results rep = rs)"
proof -
  have trans: "keeps ac_inv ac_rely (stored rs) m (\<lambda>_. stored rs)" if "safe ac_inv ac_rely m" for m :: "'b ig_prog"
    by (rule keeps_conseq [OF ac.keeps_frame [OF that stable_stored]]) auto
  have read: "keeps ac_inv ac_rely (stored rs) (query (fetch_processing_batch_states ids))
      (\<lambda>states d. stored rs d \<and> states = fetch_processing_batch_states ids d)"
    by (rule ac.keeps_query [OF stable_stored]) simp
  have "report_backed (ingest_summary rs ids outs (fetch_processing_batch_states ids d)) d"
    if "stored rs d" for outs d
    using that
    by (auto simp: report_backed_def ingest_summary_def Let_def fetch_processing_batch_states_def list_all_iff
        list_ex_iff)
  note backed = this
  have "keeps ac_inv ac_rely (stored rs)
      (bindM (query (fetch_processing_batch_states ids)) (\<lambda>states. ret (ingest_summary rs ids outs states)))
      (\<lambda>rep d. report_backed rep d \<and> ir_results rep = rs)" for outs
    by (rule keeps_bind [OF read]) (auto intro!: keeps_ret backed, simp add: ingest_summary_def Let_def)
  note finish = this
  show ?thesis
    unfolding process_accepted_def
    by (rule keeps_bind [OF trans finish]) (auto intro!: keeps_if keeps_ret safe_tick_ingest)
qed

lemma keeps_draw_uuids: "keeps ac_inv ac_rely P (draw_uuids n) (\<lambda>ids d. length ids = n \<and> P d)"
proof (induction n)
  case (Suc n)
  show ?case
    unfolding draw_uuids.simps
    by (rule keeps_bind [where Q' = "\<lambda>_. P"], rule keeps_uuid4, assumption,
        rule keeps_bind [OF Suc.IH]) (auto intro!: keeps_ret)
qed (simp add: keeps_ret)

lemma keeps_ingest_events:
  assumes "list_all (\<lambda>e. uuid_text env (er_tenant e)) events"
  shows "keeps ac_inv ac_rely (\<lambda>_. True) (ingest_events env user events)
    (\<lambda>rep d. report_backed rep d \<and> list_all2 result_of events (ir_results rep))"
proof -
  let ?Q = "\<lambda>rep d. report_backed rep d \<and> list_all2 result_of events (ir_results rep)"
  have process: "keeps ac_inv ac_rely (\<lambda>d. list_all2 result_of events rs \<and> stored rs d)
      (process_accepted env rs ids) ?Q" for rs ids
    by (rule keeps_pure, rule keeps_conseq [OF keeps_process_accepted]) auto
  have trans: "keeps ac_inv ac_rely (\<lambda>d. list_all2 result_of events rs \<and> stored rs d) m
      (\<lambda>_ d. list_all2 result_of events rs \<and> stored rs d)" if "safe ac_inv ac_rely m" for m :: "'b ig_prog" and rs
    by (rule keeps_pure, rule keeps_conseq [OF ac.keeps_frame [OF that stable_stored]]) auto
  have accept: "keeps ac_inv ac_rely (\<lambda>_. True)
      (stmt (acceptance_txn env user items acc eids bids))
      (\<lambda>(rs, al, bs) d. list_all2 result_of events rs \<and> stored rs d)"
    if items: "map pr_event items = events" and len: "length eids = length items" for items acc eids bids
  proof (rule ac.keeps_stmt [OF ac.stable_true])
    from assms items have "list_all (\<lambda>p. uuid_text env (er_tenant (pr_event p))) items"
      by (auto simp: list_all_iff)
    note accepted = ac_acceptance [OF _ _ this]
    show "ac_rely d d' \<and> (case x of (rs, al, bs) \<Rightarrow> \<lambda>d. list_all2 result_of events rs \<and> stored rs d) d'"
      if "ac_inv d" "acceptance_txn env user items acc eids bids d = Inr (x, d')" for d x d'
      using accepted [OF that(2,1)] acceptance_stored [OF _ len] that(2) items by (cases x) auto
  qed
  have rest: "keeps ac_inv ac_rely (\<lambda>_. True) (bindM uuid4 (\<lambda>acceptance.
     bindM (draw_uuids (length items)) (\<lambda>event_ids.
     bindM (draw_uuids (length items)) (\<lambda>batch_ids.
     bindM (stmt (acceptance_txn env user items acceptance event_ids batch_ids))
       (\<lambda>(results, all, receipts).
     if list_ex (\<lambda>r. \<not> rs_duplicate r) results
     then process_accepted env results (map ib_id receipts)
     else
     bindM (query (\<lambda>d. keep_first (map ib_id receipts @ prior_receipts all d))) (\<lambda>ids.
     bindM (stmt (\<lambda>d. Inr ((), wake_processing_batches ids True d))) (\<lambda>_.
     process_accepted env results ids))))))) ?Q"
    if items: "map pr_event items = events" for items
  proof -
    have wake: "safe ac_inv ac_rely (stmt (\<lambda>d. Inr ((), wake_processing_batches ids True d)))" for ids
      by (rule ac.safe_stmt) (auto intro: ac_wake)
    have read: "safe ac_inv ac_rely (query q)" for q :: "ig_db \<Rightarrow> uuid list" by (rule ac.safe_query)
    show ?thesis
      apply (rule keeps_bind [where Q' = "\<lambda>_ _. True"], rule keeps_uuid4, simp)
      apply (rule keeps_bind [OF keeps_draw_uuids], rule keeps_pure)
      apply (rule keeps_bind [where Q' = "\<lambda>_ _. True"], rule safe_draw_uuids)
      apply (rule keeps_bind [OF accept [OF items]], assumption)
      apply (simp only: split_paired_all prod.case)
      apply (intro keeps_if process keeps_bind [OF trans [OF read]] keeps_bind [OF trans [OF wake]])
      done
  qed
  show ?thesis
    unfolding ingest_events_def
    apply (rule keeps_bind [OF safe_secure_schema], rule keeps_bind [OF safe_require_writers],
        rule keeps_bind [OF safe_active_sessions])
    apply (rule keeps_bind [where Q' = "\<lambda>items _. map pr_event items = events \<and> True"])
     apply (rule keeps_lift, simp add: map_err_prepare)
    apply (rule keeps_pure, erule rest)
    done
qed

subsection \<open>Accepting a batch again\<close>

definition printed :: "event_row list \<Rightarrow> bool" where
  "printed rows \<longleftrightarrow> list_all (\<lambda>r. ev_fingerprint r \<noteq> None) rows"

text \<open>The event of a request is the stored row \<open>q\<close>, and the result \<open>r\<close> describes it.\<close>

definition settled :: "ac_env \<Rightarrow> prepared \<Rightarrow> event_result \<Rightarrow> event_row list \<Rightarrow> bool" where
  "settled env p r rows \<longleftrightarrow>
     (\<exists>q. first_row (same_client (er_tenant (pr_event p)) (er_client (pr_event p))) rows = Some q
        \<and> row_fingerprint env (wf_id (pr_workflow p)) q = pr_print p
        \<and> r\<lparr>rs_duplicate := True\<rparr> = \<lparr>rs_id = ev_id q, rs_tenant = ev_tenant q, rs_client = ev_client q,
             rs_created = ev_created q, rs_duplicate = True,
             rs_workflow = (case ev_workflow q of None \<Rightarrow> wf_id (pr_workflow p)
               | Some w \<Rightarrow> if w = [] then wf_id (pr_workflow p) else w)\<rparr>)"

lemma printed_no_update:
  "printed rows \<Longrightarrow> upd_where (\<lambda>q. ev_id q = i \<and> ev_fingerprint q = None) f rows = rows"
  by (induction rows) (auto simp: printed_def upd_where_def)

lemma settled_append: "settled env p r rows \<Longrightarrow> settled env p r (rows @ add)"
  unfolding settled_def by (auto simp: first_row_append)

lemma insert_settled:
  assumes "insert_event env user eid p d = Inr (r, d')" and "printed (telemetry d)" and "pr_print p \<noteq> []"
  shows "settled env p r (telemetry d') \<and> printed (telemetry d') \<and> (\<exists>add. telemetry d' = telemetry d @ add)"
proof (cases "first_row (same_client (er_tenant (pr_event p)) (er_client (pr_event p))) (telemetry d)")
  case None
  with assms(1) obtain t where d': "telemetry d' = telemetry d @ [stored_event eid user p t]"
    and r: "r = \<lparr>rs_id = eid, rs_tenant = er_tenant (pr_event p), rs_client = er_client (pr_event p),
      rs_created = t, rs_duplicate = False, rs_workflow = wf_id (pr_workflow p)\<rparr>"
    by (auto simp: insert_event_def Let_def stored_event_def split: if_splits)
  have "settled env p r (telemetry d')"
    unfolding settled_def d'
    by (rule exI [of _ "stored_event eid user p t"], subst first_row_snoc [OF None])
      (use assms(3) in \<open>auto simp: same_client_def stored_event_def Let_def row_fingerprint_def r
        split: list.split\<close>)
  with assms(2) d' show ?thesis by (auto simp: printed_def stored_event_def Let_def)
next
  case (Some q)
  with assms(1) printed_no_update [OF assms(2)] have "telemetry d' = telemetry d"
    and "row_fingerprint env (wf_id (pr_workflow p)) q = pr_print p"
    and "r\<lparr>rs_duplicate := True\<rparr> = \<lparr>rs_id = ev_id q, rs_tenant = ev_tenant q, rs_client = ev_client q,
             rs_created = ev_created q, rs_duplicate = True,
             rs_workflow = (case ev_workflow q of None \<Rightarrow> wf_id (pr_workflow p)
               | Some w \<Rightarrow> if w = [] then wf_id (pr_workflow p) else w)\<rparr>"
    by (auto simp: insert_event_def Let_def split: if_splits)
  with Some assms(2) show ?thesis by (auto simp: settled_def)
qed

lemma insert_again:
  assumes "settled env p r (telemetry d)" and "printed (telemetry d)"
  shows "insert_event env user eid p d = Inr (r\<lparr>rs_duplicate := True\<rparr>, d)"
  using assms printed_no_update [OF assms(2)]
  by (auto simp: settled_def insert_event_def Let_def)

lemma accept_settled:
  assumes "accept_events env user ps (rs, al, fr) d = Inr ((rs', al', fr'), d')" and "printed (telemetry d)"
    and "list_all (\<lambda>ep. pr_print (snd ep) \<noteq> []) ps"
  shows "printed (telemetry d') \<and> (\<exists>add. telemetry d' = telemetry d @ add)
    \<and> (\<exists>new. rs' = rs @ new \<and> list_all2 (\<lambda>ep r. settled env (snd ep) r (telemetry d')) ps new)"
  using assms
proof (induction ps arbitrary: rs al fr d)
  case (Cons ep ps)
  obtain eid p where ep: "ep = (eid, p)" by (cases ep)
  from Cons.prems(1) obtain r d1 al1 fr1 where i: "insert_event env user eid p d = Inr (r, d1)"
    and rest: "accept_events env user ps (rs @ [r], al1, fr1) d1 = Inr ((rs', al', fr'), d')"
    by (auto simp: ep Let_def split: sum.splits)
  from Cons.prems(3) ep have p: "pr_print p \<noteq> []" "list_all (\<lambda>ep. pr_print (snd ep) \<noteq> []) ps" by simp_all
  from insert_settled [OF i Cons.prems(2) p(1)] obtain m1 where s: "settled env p r (telemetry d1)"
    "printed (telemetry d1)" "telemetry d1 = telemetry d @ m1" by blast
  from Cons.IH [OF rest s(2) p(2)] obtain m2 new where n: "printed (telemetry d')"
    "telemetry d' = telemetry d1 @ m2" "rs' = (rs @ [r]) @ new"
    "list_all2 (\<lambda>ep r. settled env (snd ep) r (telemetry d')) ps new" by blast
  from s(1) have "settled env p r (telemetry d')" unfolding n(2) by (rule settled_append)
  with n s(3) show ?case by (auto simp: ep)
qed simp

lemma accept_again:
  assumes "list_all2 (\<lambda>p r. settled env p r (telemetry d)) items rs" and "printed (telemetry d)"
    and "length eids = length items"
  shows "\<exists>al'. accept_events env user (zip eids items) (rs0, al, fr) d =
    Inr ((rs0 @ map (\<lambda>r. r\<lparr>rs_duplicate := True\<rparr>) rs, al', fr), d)"
  using assms
proof (induction items arbitrary: rs eids rs0 al)
  case (Cons p items)
  then obtain r rs' e eids' where "rs = r # rs'" "eids = e # eids'" "settled env p r (telemetry d)"
    "list_all2 (\<lambda>p r. settled env p r (telemetry d)) items rs'" "length eids' = length items"
    by (cases eids) (auto simp: list_all2_Cons1)
  with insert_again [of env p r d user e] Cons.prems(2) Cons.IH [of rs' eids' "rs0 @ [r\<lparr>rs_duplicate := True\<rparr>]"]
  show ?case by (simp add: Let_def)
qed simp

lemma batches_audit_tenants [simp]: "ingest_batches (audit_tenants row ts d) = ingest_batches d"
  by (induction ts arbitrary: d) (simp_all add: add_audit_def)

end
