(* ===== verification/Ingest_Properties.thy ===== *)
theory Ingest_Properties
  imports Ingest_Outcomes Demo
begin

section \<open>Ingest, projections and sessions: properties\<close>

text \<open>
  The properties of accepted events, processing receipts, checkpoints, dead letters and crypto
  sessions.  The concrete instance is a tenant that registers a session, has one sealed event
  accepted and processed, and revokes the session.
\<close>

subsection \<open>The instance\<close>

definition demo_ac_crypto :: crypto_env where
  "demo_ac_crypto = \<lparr>cr_sha256 = (\<lambda>_. ''digest''), cr_encrypt = (\<lambda>_ _ _ m. m), cr_decrypt = (\<lambda>_ _ _ c. Some c),
     cr_public = (\<lambda>k. k), cr_public_ok = (\<lambda>_. True), cr_exchange = (\<lambda>_ _. None), cr_hkdf = (\<lambda>a _. a)\<rparr>"

definition demo_ac_env :: ac_env where
  "demo_ac_env = \<lparr>pj_dumps = (\<lambda>_. ''{}''), pj_repr = (\<lambda>_. []), pj_sha256 = (\<lambda>_. ''digest''),
     pj_show_time = (\<lambda>_. []), pj_registry = \<lparr>rg_workflows = [], rg_index = empty_index\<rparr>,
     ig_uuid = Some, ig_dump = (\<lambda>_. []), ig_validate = (\<lambda>_. Inr builtin_default),
     ac_crypto = demo_ac_crypto, ac_require_session = True, ac_canonical = (\<lambda>_. ''{}''),
     ac_number = (\<lambda>_. ''0'')\<rparr>"

definition demo_cfg :: workflow_config where
  "demo_cfg = \<lparr>wc_production = True, wc_strict = True, wc_processors = [''sealed_metadata''],
     wc_detectors = [''size_anomaly''], wc_files = []\<rparr>"

definition demo_event :: event_request where
  "demo_event = \<lparr>er_tenant = ''T'', er_client = ''client-1'', er_occurred = None,
     er_content_type = ''application/forjd-event+v1'', er_event_type = None, er_schema = 1,
     er_workflow = None, er_mode = ''e2ee'', er_enc_algo = ''aes-256-gcm'',
     er_envelope = \<lparr>sl_algo = ''aes-256-gcm'', sl_key = ''s1'', sl_nonce = ''AAAAAAAAAAAAAAAA'',
       sl_ciphertext = ''AAAAAAAAAAAAAAAAAAAAAAAA'', sl_ratchet = None, sl_sha256 = ''digest''\<rparr>,
     er_metadata = []\<rparr>"

definition demo_session_request :: session_request where
  "demo_session_request = \<lparr>sq_tenant = ''T'', sq_session = ''s1'',
     sq_identity = ''AAAAAAAAAAAAAAAAAAAAAAAAAAAAAAAAAAAAAAAAAAA='', sq_ephemeral = None,
     sq_hint = None, sq_expires = None\<rparr>"

definition demo_flow :: flow_answer where
  "demo_flow = \<lparr>fa_flow = Inr ([(''ok'', JBool True), (''count'', JInt 1)], []), fa_lease_lost = False\<rparr>"

definition demo_ig_world :: "ig_db \<Rightarrow> string \<Rightarrow> (ig_db, flow_answer) world" where
  "demo_ig_world d prefix = quiet_world d (\<lambda>_. demo_flow) (\<lambda>n. prefix @ digits_of n)"

abbreviation demo_call :: "ig_call \<Rightarrow> (ig_db, flow_answer) world \<Rightarrow> ig_db" where
  "demo_call c w \<equiv> wdb (snd (ig_run demo_cfg demo_ac_env c w))"

definition demo_ig_fresh :: ig_db where
  "demo_ig_fresh = \<lparr>now = secs 1000, schema_ready = True, tenant_members = [], audit_events = [],
     crypto_sessions = [], telemetry = [], stream_results = [], dead_letters = [], checkpoints = [],
     advisory_locks = [], ingest_batches = [], embeddings = []\<rparr>"

definition demo_ig_session :: ig_db where
  "demo_ig_session = demo_call (I_upsert_session demo_user demo_session_request)
     (demo_ig_world demo_ig_fresh ''s'')"

definition demo_ingest :: ig_call where "demo_ingest = I_ingest demo_user [demo_event]"

definition demo_ig_done :: ig_db where
  "demo_ig_done = demo_call demo_ingest (demo_ig_world demo_ig_session ''e'')"

definition demo_ig_failed :: ig_db where
  "demo_ig_failed = demo_call demo_ingest (quiet_world demo_ig_session
     (\<lambda>_. \<lparr>fa_flow = Inl (RuntimeError ''engine''), fa_lease_lost = False\<rparr>) (\<lambda>n. ''f'' @ digits_of n))"

definition demo_ig_revoked :: ig_db where
  "demo_ig_revoked = demo_call (I_revoke_session demo_user ''T'' ''s1'') (demo_ig_world demo_ig_done ''r'')"

lemma demo_ig_reachable:
  "ig_reachable demo_cfg demo_ac_env demo_ig_session" "ig_reachable demo_cfg demo_ac_env demo_ig_done"
  "ig_reachable demo_cfg demo_ac_env demo_ig_revoked" "ig_reachable demo_cfg demo_ac_env demo_ig_failed"
proof -
  have "ig_reachable demo_cfg demo_ac_env demo_ig_fresh"
    by (rule reachable.fresh) (simp add: fresh_ig_def demo_ig_fresh_def)
  then show s: "ig_reachable demo_cfg demo_ac_env demo_ig_session"
    unfolding demo_ig_session_def demo_ig_world_def by (rule reachable_quiet)
  show e: "ig_reachable demo_cfg demo_ac_env demo_ig_done"
    unfolding demo_ig_done_def demo_ig_world_def by (rule reachable_quiet [OF s])
  show "ig_reachable demo_cfg demo_ac_env demo_ig_failed"
    unfolding demo_ig_failed_def by (rule reachable_quiet [OF s])
  show "ig_reachable demo_cfg demo_ac_env demo_ig_revoked"
    unfolding demo_ig_revoked_def demo_ig_world_def by (rule reachable_quiet [OF e])
qed

lemma demo_ig_done_events:
  "map (\<lambda>r. (ev_id r, ev_created r)) (telemetry demo_ig_done) = [(''e1'', 1000000000)]"
  by code_simp

lemma demo_ig_done_batches:
  "map (\<lambda>b. (ib_id b, ib_status b, ib_event_ids b)) (ingest_batches demo_ig_done) = [(''e2'', B_completed, [''e1''])]"
  by code_simp

lemma demo_ig_done_checkpoints:
  "map (\<lambda>c. (ck_tenant c, ck_workflow c, ck_event c)) (checkpoints demo_ig_done)
     = [(''T'', ''default_sealed'', Some ''e1'')]"
  by code_simp

lemma demo_ig_worlds:
  "interfered (ig_run demo_cfg demo_ac_env) (demo_ig_world d p)" "wdb (demo_ig_world d p) = d"
  by (simp_all add: demo_ig_world_def)

subsection \<open>Accepted events\<close>

text \<open>
  C5: In every reachable database an accepted event is determined by its identifier, by its tenant
  and client identifier, by its tenant, session key and nonce text, and by its tenant, workflow and
  acceptance time; each was routed to a workflow.
\<close>

theorem accepted_events_unique:
  assumes "ig_reachable cfg env d" and "r \<in> set (telemetry d)" and "q \<in> set (telemetry d)"
    and "ev_id r = ev_id q \<or> (ev_tenant r = ev_tenant q \<and> ev_client r = ev_client q)
      \<or> (ev_tenant r = ev_tenant q \<and> ev_key r = ev_key q \<and> ev_nonce r = ev_nonce q)
      \<or> (ev_tenant r = ev_tenant q \<and> ev_workflow r = ev_workflow q \<and> ev_created r = ev_created q)"
  shows "r = q \<and> ev_workflow r \<noteq> None"
proof -
  from igs.reachable_inv [OF assms(1)] have ok: "events_ok (telemetry d)" by (simp add: ac_inv_def)
  from assms(4) have "ev_id r = ev_id q \<or> event_key r = event_key q \<or> nonce_key r = nonce_key q
      \<or> stream_key r = stream_key q"
    by (auto simp: event_key_def nonce_key_def stream_key_def)
  with ok assms(2,3) have "r = q" by (auto simp: events_ok_def dest: distinct_map_eqD)
  with ok assms(2) show ?thesis by (auto simp: events_ok_def list_all_iff)
qed

theorem accepted_events_unique_witness:
  "\<exists>r. telemetry demo_ig_done = [r] \<and> ev_workflow r \<noteq> None"
proof -
  from demo_ig_done_events obtain r where r: "telemetry demo_ig_done = [r]"
    by (cases "telemetry demo_ig_done") auto
  with accepted_events_unique [OF demo_ig_reachable(2), of r r] show ?thesis by simp
qed



subsection \<open>Receipts\<close>



text \<open>
  No call, in any interleaving, drops a receipt or changes the work it stands for; a completed
  receipt stays completed with its summary.
\<close>

theorem receipt_history:
  assumes "ig_reachable cfg env (wdb w)" and "interfered (ig_run cfg env) w"
    and "d' = wdb (snd (ig_run cfg env c w))" and "b \<in> set (ingest_batches (wdb w))"
  shows "\<exists>b' \<in> set (ingest_batches d'). ib_id b' = ib_id b \<and> ib_key b' = ib_key b
    \<and> ib_events b' = ib_events b \<and> ib_workflow b' = ib_workflow b \<and> ib_snapshot b' = ib_snapshot b
    \<and> ib_max b' = ib_max b
    \<and> (ib_status b = B_completed \<longrightarrow> ib_status b' = B_completed \<and> ib_summary b' = ib_summary b
         \<and> ib_completed b' = ib_completed b)"
proof -
  from igs.reachable_step [OF assms(1,2), of c] igs.reachable_inv [OF assms(1)] assms(3,4)
  obtain b' where "b' \<in> set (ingest_batches d')" "batch_le b b'"
    by (auto simp: ac_rely_def ig_rely_def ac_inv_ig)
  then show ?thesis by (intro bexI [of _ b']) (auto simp: batch_le_def batch_same_def)
qed

theorem receipt_history_witness:
  "\<exists>b \<in> set (ingest_batches demo_ig_revoked). ib_id b = ''e2'' \<and> ib_status b = B_completed"
proof -
  from demo_ig_done_batches obtain b where
    b: "ingest_batches demo_ig_done = [b]" "ib_status b = B_completed" "ib_id b = ''e2''"
    by (cases "ingest_batches demo_ig_done") auto
  from receipt_history [OF _ demo_ig_worlds(1) demo_ig_revoked_def, of b] b demo_ig_reachable(2)
  show ?thesis by (auto simp: demo_ig_worlds)
qed

subsection \<open>Checkpoints and dead letters\<close>

text \<open>
  A checkpoint names an accepted event of its tenant and workflow, is unique for its tenant,
  projection and workflow, and no call, in any interleaving, moves it backwards.
\<close>

theorem checkpoints_advance:
  assumes "ig_reachable cfg env (wdb w)" and "interfered (ig_run cfg env) w"
    and "d' = wdb (snd (ig_run cfg env c w))" and "k \<in> set (checkpoints (wdb w))"
  shows "(\<exists>r \<in> set (telemetry (wdb w)). ev_tenant r = ck_tenant k \<and> ev_workflow r = Some (ck_workflow k)
        \<and> cursor_of k = Some (event_order r))
    \<and> (\<exists>k' \<in> set (checkpoints d'). ckpt_key k' = ckpt_key k
        \<and> (\<exists>p p'. cursor_of k = Some p \<and> cursor_of k' = Some p' \<and> p \<le> p')
        \<and> (\<forall>k'' \<in> set (checkpoints d'). ckpt_key k'' = ckpt_key k \<longrightarrow> k'' = k'))"
proof -
  note inv = igs.reachable_inv [OF assms(1)]
  from inv assms(4) have "ckpt_backed (telemetry (wdb w)) k" by (auto simp: ac_inv_def list_all_iff)
  then obtain r where r: "r \<in> set (telemetry (wdb w))" "ev_tenant r = ck_tenant k"
    "ev_workflow r = Some (ck_workflow k)" "cursor_of k = Some (event_order r)"
    by (auto simp: ckpt_backed_def cursor_of_def event_order_def)
  from igs.reachable_step [OF assms(1,2), of c] inv assms(3,4)
  obtain k' where k': "k' \<in> set (checkpoints d')" "ckpt_le k k'" and inv': "ac_inv d'"
    by (auto simp: ac_rely_def ig_rely_def ac_inv_ig)
  from inv' k'(1) have "k'' = k'" if "k'' \<in> set (checkpoints d')" "ckpt_key k'' = ckpt_key k'" for k''
    using that by (auto simp: ac_inv_def ig_inv_def dest: distinct_map_eqD)
  note uniq = this
  from k'(2) r(4) obtain p' where p': "ckpt_key k' = ckpt_key k" "cursor_of k' = Some p'" "event_order r \<le> p'"
    by (auto simp: ckpt_le_def split: option.splits)
  have "\<exists>k' \<in> set (checkpoints d'). ckpt_key k' = ckpt_key k
        \<and> (\<exists>p p'. cursor_of k = Some p \<and> cursor_of k' = Some p' \<and> p \<le> p')
        \<and> (\<forall>k'' \<in> set (checkpoints d'). ckpt_key k'' = ckpt_key k \<longrightarrow> k'' = k')"
    using p' r(4) uniq by (intro bexI [OF _ k'(1)]) simp
  with r show ?thesis by blast
qed

theorem checkpoints_advance_witness:
  "\<exists>k \<in> set (checkpoints demo_ig_revoked). ckpt_key k = (''T'', ''sealed.default'', ''default_sealed'')
     \<and> cursor_of k \<noteq> None"
proof -
  have k: "map ckpt_key (checkpoints demo_ig_done) = [(''T'', ''sealed.default'', ''default_sealed'')]"
    by code_simp
  then obtain c where c: "checkpoints demo_ig_done = [c]" "ckpt_key c = (''T'', ''sealed.default'', ''default_sealed'')"
    by (cases "checkpoints demo_ig_done") auto
  from checkpoints_advance [OF _ demo_ig_worlds(1) demo_ig_revoked_def, of c] c demo_ig_reachable(2)
  show ?thesis by (auto simp: demo_ig_worlds)
qed



subsection \<open>Sessions\<close>



subsection \<open>Outcomes\<close>

text \<open>
  C4: Whatever the engine answers, a worker that holds a receipt and keeps its lease settles it: the
  receipt is released as completed, or as due again later (failed after the last attempt) with an
  open dead letter for every one of its events; the report says which.
\<close>

theorem claimed_receipt_settles:
  assumes "quiet w" and "distinct (map ib_id (ingest_batches (wdb w)))"
    and "b \<in> set (ingest_batches (wdb w))" and "batch_held row worker b" and "ib_max b = ib_max row"
  shows "\<exists>rep w' b'. process_claimed_batch env row worker w = (Inr rep, w')
    \<and> b' \<in> set (ingest_batches (wdb w')) \<and> ib_id b' = ib_id row \<and> ib_owner b' = None \<and> ib_lease b' = None
    \<and> ib_status b' = br_status rep
    \<and> (if br_ok rep then br_status rep = B_completed
       else br_status rep = (if ib_max row \<le> ib_attempts row then B_failed else B_retry_scheduled)
         \<and> now (wdb w) < ib_next b'
         \<and> list_all (\<lambda>m. open_letter env row m (wdb w')) (ib_events row))"
  using assms(1)
proof (rule claimed_batch_body [of w env row worker])
  fix summary ids rows n w'
  assume run: "run_claimed_batch env row worker w = (Inr \<lparr>br_id = ib_id row, br_ok = True,
      br_status = B_completed, br_written = n, br_dlq = 0, br_error = None\<rparr>, w')"
    and "complete_batch_txn env row worker (ib_events row) summary ids rows (wdb w) = Inr (n, wdb w')"
  from complete_batch_settles [OF this(2) assms(3,4)] run show ?thesis
    by (fastforce simp: process_claimed_batch_def catch_def)
next
  fix e w1
  assume run: "run_claimed_batch env row worker w = (Inl e, w1)" and w1: "wdb w1 = wdb w" "quiet w1"
  obtain ids w2 where w2: "wdb w2 = wdb w" "quiet w2"
    and p: "persist_processing_failure env row worker (ib_events row) e w1
      = bindM (stmt (persist_failure_txn env row worker (zip ids (ib_events row)) e)) (\<lambda>_.
         ret \<lparr>br_id = ib_id row, br_ok = False,
          br_status = (if ib_max row \<le> ib_attempts row then B_failed else B_retry_scheduled),
          br_written = 0, br_dlq = length (ib_events row), br_error = Some (exn_message e)\<rparr>) w2"
    and len: "length ids = length (ib_events row)"
    unfolding persist_processing_failure_def
    by (rule bind_draw_uuids [of "length (ib_events row)" _ w1]) (use w1 in auto)
  let ?d1 = "dlq_events env row e (zip ids (ib_events row)) (wdb w)"
  let ?b = "failed_batch (now (wdb w)) row e b"
  let ?d = "?d1\<lparr>ingest_batches := upd_where (batch_held row worker) (failed_batch (now (wdb w)) row e)
      (ingest_batches (wdb w))\<rparr>"
  have once: "length (rows_where (batch_held row worker) (ingest_batches (wdb w))) = 1"
    and mem: "?b \<in> set (ingest_batches ?d)"
    using held_once [OF assms(2-4)] by simp_all
  from once have txn: "persist_failure_txn env row worker (zip ids (ib_events row)) e (wdb w2) = Inr ((), ?d)"
    by (simp add: persist_failure_txn_def Let_def w2 frame_simps)
  have "snd ` set (zip ids (ib_events row)) = set (ib_events row)"
    using len by (metis list.set_map map_snd_zip)
  then have "list_all (\<lambda>m. open_letter env row m ?d) (ib_events row)"
    using dlq_events_open [of env row _ "wdb w" "zip ids (ib_events row)" e]
    by (auto simp: list_all_iff open_letter_def)
  moreover have "now (wdb w) < ib_next ?b"
    by (simp add: failed_batch_def failure_delay_seconds_def secs_def)
  moreover have "process_claimed_batch env row worker w = (Inr \<lparr>br_id = ib_id row, br_ok = False,
      br_status = (if ib_max row \<le> ib_attempts row then B_failed else B_retry_scheduled),
      br_written = 0, br_dlq = length (ib_events row), br_error = Some (exn_message e)\<rparr>, w2\<lparr>wdb := ?d\<rparr>)"
    using run p txn w2(2) by (simp add: process_claimed_batch_def catch_def bind_stmt_quiet ret_def)
  moreover have "ib_id ?b = ib_id row" "ib_owner ?b = None" "ib_lease ?b = None"
    "ib_status ?b = (if ib_max row \<le> ib_attempts row then B_failed else B_retry_scheduled)"
    using assms(4,5) by (auto simp: failed_batch_def batch_held_def)
  ultimately show ?thesis using mem by (intro exI conjI) (assumption | simp)+
qed

definition demo_claimed :: batch_row where
  "demo_claimed = (hd (ingest_batches demo_ig_failed))\<lparr>ib_status := B_running, ib_owner := Some ''w1'',
     ib_lease := Some (secs 1300)\<rparr>"

definition demo_ig_claimed :: ig_db where
  "demo_ig_claimed = demo_ig_failed\<lparr>ingest_batches := [demo_claimed]\<rparr>"

theorem claimed_receipt_settles_witness:
  "\<exists>rep w'. process_claimed_batch (ig_of demo_ac_env) demo_claimed ''w1'' (demo_ig_world demo_ig_claimed ''x'') = (Inr rep, w')"
proof -
  have q: "quiet (demo_ig_world demo_ig_claimed ''x'')" by (simp add: demo_ig_world_def)
  have b: "ingest_batches (wdb (demo_ig_world demo_ig_claimed ''x'')) = [demo_claimed]"
    by (simp add: demo_ig_worlds demo_ig_claimed_def)
  have h: "batch_held demo_claimed ''w1'' demo_claimed"
    by (simp add: batch_held_def demo_claimed_def)
  from claimed_receipt_settles [OF q _ _ h refl, of "ig_of demo_ac_env"] b show ?thesis by auto
qed

text \<open>
  C1: Whatever other workers do meanwhile, when a batch is acknowledged each of its events, in order,
  is stored under the identifier reported for it, and when the report says \<open>ok\<close> every receipt it
  lists is completed.
\<close>

theorem acknowledged_batch:
  assumes "ig_reachable cfg env (wdb w)" and "interfered (ig_run cfg env) w"
    and "accepted_body env es"
    and "ingest_events (env\<lparr>pj_registry := rg\<rparr>) user es w = (Inr rep, w')"
  shows "list_all2 (\<lambda>e r. rs_tenant r = er_tenant e \<and> rs_client r = er_client e
        \<and> (\<exists>q \<in> set (telemetry (wdb w')). ev_id q = rs_id r \<and> ev_tenant q = er_tenant e
             \<and> ev_client q = er_client e)) es (ir_results rep)
    \<and> (if ir_ok rep then list_all (\<lambda>b. \<exists>b' \<in> set (ingest_batches (wdb w')).
         ib_id b' = ib_id b \<and> ib_status b' = B_completed) (ir_batches rep) else True)"
proof -
  from assms(3) have "list_all (\<lambda>e. uuid_text (env\<lparr>pj_registry := rg\<rparr>) (er_tenant e)) es"
    by (simp add: accepted_body_def uuid_text_def)
  note keeps = keeps_ingest_events [OF this, of user]
  have "report_backed rep (wdb w') \<and> list_all2 result_of es (ir_results rep)"
    using ac.keeps_run_full [OF keeps ac.stable_true igs.interfered_env_in [OF assms(2)] _ assms(4), of "wdb w"]
      igs.reachable_inv [OF assms(1)] ac_rely_refl by blast
  then show ?thesis
    by (auto simp: report_backed_def stored_def result_of_def list_all2_conv_all_nth list_all_length list_ex_iff)
qed

definition demo_reg_env :: ac_env where
  "demo_reg_env = demo_ac_env\<lparr>pj_registry := (case all_workflows demo_cfg of Inr rg \<Rightarrow> rg
     | Inl _ \<Rightarrow> pj_registry demo_ac_env)\<rparr>"

theorem acknowledged_batch_witness:
  "\<exists>rep w' q. ingest_events demo_reg_env demo_user [demo_event] (demo_ig_world demo_ig_session ''e'') = (Inr rep, w')
     \<and> q \<in> set (telemetry (wdb w')) \<and> ev_client q = ''client-1''"
proof -
  let ?w = "demo_ig_world demo_ig_session ''e''"
  have "case fst (ingest_events demo_reg_env demo_user [demo_event] ?w) of Inr rep \<Rightarrow> ir_ok rep | Inl _ \<Rightarrow> False"
    by code_simp
  then obtain rep w' where run: "ingest_events demo_reg_env demo_user [demo_event] ?w = (Inr rep, w')"
    by (cases "ingest_events demo_reg_env demo_user [demo_event] ?w") (auto split: sum.splits)
  have body: "accepted_body demo_ac_env [demo_event]"
    by (simp add: accepted_body_def max_ingest_batch_events_def uuid_text_def demo_ac_env_def)
  have "ig_reachable demo_cfg demo_ac_env (wdb ?w)" by (simp add: demo_ig_worlds demo_ig_reachable)
  from acknowledged_batch [OF this demo_ig_worlds(1) body run [unfolded demo_reg_env_def]] run
  show ?thesis by (auto simp: list_all2_Cons1 demo_event_def)
qed

subsection \<open>Accepting again\<close>

text \<open>
  C3: Accepting a batch is idempotent: repeating a batch that was accepted, with whatever fresh
  identifiers and by whoever may write, reports every one of its events as the duplicate it is, under
  the identifier and acceptance time of the first time, stores no event and makes no receipt.
\<close>

theorem repeated_batch_is_duplicate:
  assumes "acceptance_txn env user items acc eids bids d = Inr ((rs, al, bs), d1)"
    and "length eids = length items" and "length eids2 = length items"
    and "list_all (\<lambda>r. ev_fingerprint r \<noteq> None) (telemetry d)" and "list_all (\<lambda>p. pr_print p \<noteq> []) items"
  shows "\<exists>al2 d2. acceptance_txn env user2 items acc2 eids2 bids2 d1
      = Inr ((map (\<lambda>r. r\<lparr>rs_duplicate := True\<rparr>) rs, al2, []), d2)
    \<and> telemetry d2 = telemetry d1 \<and> ingest_batches d2 = ingest_batches d1"
proof -
  from assms(1) obtain fr d0 d3 row ts where
    a: "accept_events env user (zip eids items) ([], [], []) d = Inr ((rs, al, fr), d0)"
    and r: "register_groups env acc (actor_id user) 0 (zip bids (map snd fr)) [] d0 = Inr (bs, d3)"
    and d1: "d1 = audit_tenants row ts d3"
    by (auto simp: acceptance_txn_def split: sum.splits)
  have t: "telemetry d1 = telemetry d0" by (simp add: d1 telemetry_register_groups [OF r])
  have "list_all (\<lambda>ep. pr_print (snd ep) \<noteq> []) (zip eids items)"
    using assms(5) by (auto simp: list_all_iff dest: set_zip_rightD)
  from accept_settled [OF a _ this] assms(4) have p: "printed (telemetry d1)"
    and "list_all2 (\<lambda>ep r. settled env (snd ep) r (telemetry d1)) (zip eids items) rs"
    by (auto simp: printed_def t)
  then have "list_all2 (\<lambda>p r. settled env p r (telemetry d1)) (map snd (zip eids items)) rs"
    by (simp add: list_all2_map1)
  with assms(2) have s: "list_all2 (\<lambda>p r. settled env p r (telemetry d1)) items rs" by simp
  from accept_again [OF s p assms(3), of user2 "[]" "[]" "[]"] obtain al2 where
    "accept_events env user2 (zip eids2 items) ([], [], []) d1
      = Inr ((map (\<lambda>r. r\<lparr>rs_duplicate := True\<rparr>) rs, al2, []), d1)" by auto
  then show ?thesis by (simp add: acceptance_txn_def)
qed

definition demo_items :: "prepared list" where
  "demo_items = (case map_err (prepare_event demo_reg_env) [demo_event] of Inr ps \<Rightarrow> ps | Inl _ \<Rightarrow> [])"

theorem repeated_batch_is_duplicate_witness:
  "\<exists>rs al bs d1 al2 d2. acceptance_txn demo_reg_env demo_user demo_items ''a'' [''e1''] [''b1''] demo_ig_session
       = Inr ((rs, al, bs), d1)
     \<and> acceptance_txn demo_reg_env demo_user demo_items ''c'' [''x1''] [''y1''] d1
       = Inr ((map (\<lambda>r. r\<lparr>rs_duplicate := True\<rparr>) rs, al2, []), d2)
     \<and> map rs_id rs = [''e1''] \<and> telemetry d2 = telemetry d1"
proof -
  have "case acceptance_txn demo_reg_env demo_user demo_items ''a'' [''e1''] [''b1''] demo_ig_session of
      Inr ((rs, al, bs), d1) \<Rightarrow> map rs_id rs = [''e1''] | Inl _ \<Rightarrow> False"
    by code_simp
  then obtain rs al bs d1 where run: "acceptance_txn demo_reg_env demo_user demo_items ''a'' [''e1''] [''b1'']
      demo_ig_session = Inr ((rs, al, bs), d1)" and ids: "map rs_id rs = [''e1'']"
    by (auto split: sum.splits)
  have "map pr_print demo_items = [''digest'']" and t: "map ev_fingerprint (telemetry demo_ig_session) = []"
    by code_simp+
  then obtain p where p: "demo_items = [p]" "pr_print p = ''digest''" by (cases demo_items) auto
  from t have "length [''e1''] = length demo_items" "length [''x1''] = length demo_items"
    "list_all (\<lambda>r. ev_fingerprint r \<noteq> None) (telemetry demo_ig_session)"
    "list_all (\<lambda>p. pr_print p \<noteq> []) demo_items"
    by (simp_all add: p)
  from repeated_batch_is_duplicate [OF run this, of demo_user "''c''" "[''y1'']"] obtain al2 d2 where
    "acceptance_txn demo_reg_env demo_user demo_items ''c'' [''x1''] [''y1''] d1
       = Inr ((map (\<lambda>r. r\<lparr>rs_duplicate := True\<rparr>) rs, al2, []), d2)" "telemetry d2 = telemetry d1"
    by auto
  with run ids show ?thesis by (intro exI conjI)
qed

end
