(* ===== verification/Routing_Properties.thy ===== *)
theory Routing_Properties
  imports Workflow_Facts
begin

section \<open>Routing: properties of the loaded workflows\<close>

text \<open>
  What holds of the registry a process starts with, and of every workflow the router picks from it:
  canonical identifiers, aliases in production, E2EE only, and normalised keys.
\<close>

definition demo_files :: "workflow list" where
  "demo_files = [builtin_default\<lparr>wf_id := ''alpha'', wf_default := False,
       wf_aliases := \<lparr>wa_workflow_ids = [''al''], wa_event_types = [], wa_content_types = []\<rparr>\<rparr>, builtin_default]"

definition demo_routing :: workflow_config where
  "demo_routing = \<lparr>wc_production = True, wc_strict = True, wc_processors = [''sealed_metadata''],
     wc_detectors = [''size_anomaly''], wc_files = demo_files\<rparr>"

lemma demo_routing_loads:
  "\<exists>rg. all_workflows demo_routing = Inr rg \<and> map wf_id (rg_workflows rg) = [''alpha'', ''default_sealed'']"
proof -
  have "case all_workflows demo_routing of Inr rg \<Rightarrow> map wf_id (rg_workflows rg) = [''alpha'', ''default_sealed'']
      | Inl _ \<Rightarrow> False"
    by code_simp
  then show ?thesis by (auto split: sum.splits)
qed

lemma all_workflows_valid:
  assumes "all_workflows cfg = Inr rg" and "w \<in> set (rg_workflows rg)"
  shows "slug_ok (wf_id w) \<and> 1 \<le> wf_version w
    \<and> \<not> issues_block_exit (validate_workflow_definition (wc_processors cfg) (wc_detectors cfg) w (wc_strict cfg))"
proof -
  define loaded where "loaded = (if load_workflows_dir (wc_files cfg) = [] then [builtin_default]
    else load_workflows_dir (wc_files cfg))"
  from assms(1) have l: "load_registry (wc_production cfg) loaded = Inr rg"
    and v: "\<not> list_ex (\<lambda>w. issues_block_exit (validate_workflow_definition (wc_processors cfg)
      (wc_detectors cfg) w (wc_strict cfg))) loaded"
    by (auto simp: all_workflows_def Let_def loaded_def split: if_splits)
  from load_registry_ids(1) [OF l] assms(2) have w: "w \<in> set loaded" by simp
  have "slug_ok (wf_id builtin_default) \<and> 1 \<le> wf_version builtin_default"
    by (simp add: builtin_default_def slug_ok_def slug_char_def code_point_def)
  with w have "slug_ok (wf_id w) \<and> 1 \<le> wf_version w"
    by (auto simp: loaded_def load_workflows_dir_def split: if_splits)
  with v w show ?thesis by (auto simp: list_ex_iff)
qed

lemma get_workflow_own:
  assumes "registry_ok rg" and "w \<in> set (rg_workflows rg)" and "wf_enabled w"
  shows "\<exists>v. get_workflow rg (wf_id w) = Some v \<and> wf_id v = wf_id w"
proof -
  have "find (\<lambda>v. wf_id v = wf_id w \<and> wf_enabled v) (rg_workflows rg) \<noteq> None"
    using assms(2,3) by (auto simp: find_None_iff)
  then obtain v where v: "find (\<lambda>v. wf_id v = wf_id w \<and> wf_enabled v) (rg_workflows rg) = Some v" by blast
  moreover from v have "wf_id v = wf_id w" by (auto simp: find_Some_iff)
  ultimately show ?thesis using assms by (simp add: registry_ok_def get_workflow_def)
qed

text \<open>
  C20: Whatever the router picks for an event is an enabled, loaded workflow that accepts nothing but
  end-to-end encrypted events, and the choice is stable: the identifier stored with the event is
  canonical and routes to the same identifier, whatever else a later request says.
\<close>

theorem routing_is_stable:
  assumes "all_workflows cfg = Inr rg" and "resolve_workflow rg ct et wid = Inr w"
  shows "w \<in> set (rg_workflows rg) \<and> wf_enabled w \<and> list_all (\<lambda>m. py_lower m = ''e2ee'') (wf_modes w)
    \<and> canonical_workflow_id rg (Some (wf_id w)) = Some (wf_id w)
    \<and> (\<exists>v. resolve_workflow rg ct' et' (Some (wf_id w)) = Inr v \<and> wf_id v = wf_id w)"
proof -
  note ok = all_workflows_ok(1) [OF assms(1)]
  from resolve_enabled [OF assms(2)] have w: "w \<in> set (rg_workflows rg)" "wf_enabled w" by simp_all
  note valid = all_workflows_valid [OF assms(1) w(1)]
  have "wf_modes w = [] \<or> set (map py_lower (wf_modes w)) = {''e2ee''}"
  proof (rule ccontr)
    assume "\<not> ?thesis"
    then have "(I_error, ''encryption.modes must be E2EE-only'')
        \<in> set (validate_workflow_definition (wc_processors cfg) (wc_detectors cfg) w (wc_strict cfg))"
      by (simp add: validate_workflow_definition_def Let_def)
    with valid show False by (auto simp: issues_block_exit_def list_ex_iff)
  qed
  then have "list_all (\<lambda>m. py_lower m = ''e2ee'') (wf_modes w)" by (auto simp: list_all_iff)
  moreover from valid obtain c cs where "wf_id w = c # cs" by (cases "wf_id w") (auto simp: slug_ok_def)
  then have "resolve_workflow rg ct' et' (Some (wf_id w)) =
      (case get_workflow rg (wf_id w) of None \<Rightarrow> Inl (ValueError ''unknown or disabled workflow_id'')
       | Some v \<Rightarrow> Inr v)"
    by (simp add: resolve_workflow_def)
  with get_workflow_own [OF ok w] have "\<exists>v. resolve_workflow rg ct' et' (Some (wf_id w)) = Inr v \<and> wf_id v = wf_id w"
    by auto
  ultimately show ?thesis using w resolve_canonical [OF ok assms(2)] by blast
qed

theorem routing_is_stable_witness:
  "\<exists>rg w v. all_workflows demo_routing = Inr rg \<and> resolve_workflow rg ''text/plain'' None (Some ''al'') = Inr w
     \<and> resolve_workflow rg [] None (Some (wf_id w)) = Inr v \<and> wf_id v = wf_id w"
proof -
  obtain rg where rg: "all_workflows demo_routing = Inr rg" using demo_routing_loads by blast
  have "case all_workflows demo_routing of Inl _ \<Rightarrow> False | Inr rg \<Rightarrow>
      (case resolve_workflow rg ''text/plain'' None (Some ''al'') of Inl _ \<Rightarrow> False | Inr w \<Rightarrow> wf_id w = ''alpha'')"
    by code_simp
  with rg obtain w where w: "resolve_workflow rg ''text/plain'' None (Some ''al'') = Inr w"
    by (auto split: sum.splits)
  from routing_is_stable [OF rg w, of "[]" None] rg w show ?thesis by blast
qed

text \<open>
  In production a registry that loads has no ambiguous alias: every alias an enabled workflow
  declares, unless it is the identifier of an enabled workflow, names that workflow.
\<close>

theorem production_aliases_unambiguous:
  assumes "all_workflows cfg = Inr rg" and "wc_production cfg"
    and "w \<in> set (rg_workflows rg)" and "wf_enabled w" and "a \<in> set (wa_workflow_ids (wf_aliases w))"
    and "a \<noteq> []" and "py_lower (py_strip a) = a"
    and "list_all (\<lambda>v. wf_enabled v \<and> wf_id v = a \<longrightarrow> False) (rg_workflows rg)"
  shows "canonical_workflow_id rg (Some a) = Some (wf_id w)
    \<and> (\<exists>v. resolve_workflow rg ct et (Some a) = Inr v \<and> wf_id v = wf_id w)"
proof -
  define loaded where "loaded = (if load_workflows_dir (wc_files cfg) = [] then [builtin_default]
    else load_workflows_dir (wc_files cfg))"
  from assms(1,2) have l: "load_registry True loaded = Inr rg"
    by (auto simp: all_workflows_def Let_def loaded_def split: if_splits)
  from load_registry_ids(1) [OF l] assms(3,8) have "w \<in> set loaded" "a \<notin> enabled_ids loaded"
    by (auto simp: enabled_ids_def list_all_iff)
  from production_alias [OF l this(1) assms(4,5) this(2)] assms(6,7)
  have c: "canonical_workflow_id rg (Some a) = Some (wf_id w)"
    by (simp add: canonical_workflow_id_def canonical_key_def)
  note ok = all_workflows_ok(1) [OF assms(1)]
  from get_workflow_own [OF ok assms(3,4)] ok assms(3,4) c
  have "\<exists>v. get_workflow rg a = Some v \<and> wf_id v = wf_id w"
    by (simp add: get_workflow_def registry_ok_def)
  with c assms(6) show ?thesis by (cases a) (auto simp: resolve_workflow_def)
qed

theorem production_aliases_unambiguous_witness:
  "\<exists>rg. all_workflows demo_routing = Inr rg \<and> canonical_workflow_id rg (Some ''al'') = Some ''alpha''"
proof -
  obtain rg where rg: "all_workflows demo_routing = Inr rg" using demo_routing_loads by blast
  have "case all_workflows demo_routing of Inl _ \<Rightarrow> False | Inr rg \<Rightarrow>
      map (\<lambda>w. (wf_id w, wf_enabled w, wa_workflow_ids (wf_aliases w))) (rg_workflows rg)
        = [(''alpha'', True, [''al'']), (''default_sealed'', True, [])]"
    by code_simp
  with rg obtain w v where ws: "rg_workflows rg = [w, v]" "wf_id w = ''alpha''" "wf_enabled w"
    "wa_workflow_ids (wf_aliases w) = [''al'']" "wf_id v = ''default_sealed''"
    by (cases "rg_workflows rg"; cases "tl (rg_workflows rg)") auto
  have "wc_production demo_routing" by (simp add: demo_routing_def)
  moreover have "py_lower (py_strip ''al'') = ''al''" by code_simp
  ultimately show ?thesis
    using production_aliases_unambiguous [OF rg, of w "''al''"] rg ws by simp
qed

text \<open>
  The normaliser of aliases is a projection onto well-formed lists: its result has no duplicates,
  every key of it is stripped, in lower case, not empty and of the allowed characters, every key of
  the input that is not blank is in it, and normalising it again changes nothing.
\<close>

theorem aliases_normal_form:
  assumes "lower_workflow_ids vs = Inr out"
  shows "distinct out \<and> list_all (\<lambda>k. k \<noteq> [] \<and> py_lower (py_strip k) = k \<and> list_all key_char k) out
    \<and> list_all (\<lambda>v. py_lower (py_strip v) = [] \<or> py_lower (py_strip v) \<in> set out) vs
    \<and> lower_workflow_ids out = Inr out"
  using collect_keys_sound [of _ _ "[]" vs out] collect_keys_complete [of _ _ "[]" vs out]
    collect_keys_idem [of _ _ vs out] assms
  unfolding lower_workflow_ids_def by (fastforce simp: list_all_iff normal_key_def)

theorem aliases_normal_form_witness:
  "lower_workflow_ids [''alpha'', ''beta''] = Inr [''alpha'', ''beta'']"
proof -
  have "lower_workflow_ids ['' Alpha'', ''beta '', ''ALPHA''] = Inr [''alpha'', ''beta'']" by code_simp
  from aliases_normal_form [OF this] show ?thesis by simp
qed

text \<open>
  The exclusion in the statement above is needed: an enabled workflow whose identifier is an alias of an earlier one
  takes the alias over, in production too, without the collision error.
\<close>

theorem later_id_takes_alias_over:
  "case all_workflows (demo_routing\<lparr>wc_files := [builtin_default\<lparr>wf_id := ''alpha'', wf_aliases :=
        \<lparr>wa_workflow_ids = [''beta''], wa_event_types = [], wa_content_types = []\<rparr>\<rparr>,
        builtin_default\<lparr>wf_id := ''beta''\<rparr>]\<rparr>) of
     Inr rg \<Rightarrow> canonical_workflow_id rg (Some ''beta'') = Some ''beta''
   | Inl _ \<Rightarrow> False"
  by code_simp

end
