(* ===== verification/Access_Properties.thy ===== *)
theory Access_Properties
  imports Platform Outbound
begin

section \<open>Access, audit and outbound destinations: properties\<close>

text \<open>
  Who passes the tenant gate, what can be written to the audit trail, and where the process may
  send requests to.
\<close>

text \<open>
  C21: The gate binds a service principal to its tenant and to the scopes the operation names, lets a
  user pass only with a membership of that tenant in an allowed role, and never lets the credential
  of an erased tenant pass.
\<close>

theorem tenant_gate:
  assumes "quiet w" and "tenant \<noteq> []" and "scopes \<noteq> []"
  shows "fst (require_tenant_access u tenant (Some roles) (Some scopes) w) = Inr role \<longleftrightarrow>
    (case au_kind u of
       ERASE_TOMBSTONE \<Rightarrow> False
     | SERVICE \<Rightarrow> role = ''service'' \<and> au_tenant_id u = Some tenant
         \<and> (''*'' \<in> set (au_scopes u) \<or> set (au_scopes u) \<inter> set scopes \<noteq> {})
     | USER \<Rightarrow> role \<in> set roles
         \<and> map_option tm_role (first_row (\<lambda>m. tm_tenant m = tenant \<and> tm_user m = au_user_id u)
             (tenant_members (wdb w))) = Some role)"
proof (cases "au_kind u")
  case SERVICE
  with tenant_access_service_iff [OF SERVICE assms(2), of "Some roles" scopes w role] assms(3) show ?thesis by simp
next
  case USER
  then show ?thesis
    by (auto simp: require_tenant_access_def require_member_def user_role_in_tenant_def bind_query_quiet
        assms(1) raise_def ret_def split: option.splits)
qed (simp add: require_tenant_access_def raise_def)

definition demo_members :: core_db where
  "demo_members = \<lparr>now = 0, schema_ready = True,
     tenant_members = [\<lparr>tm_tenant = ''T'', tm_user = ''ann'', tm_role = ''admin''\<rparr>], audit_events = []\<rparr>"

definition demo_ann :: auth_user where
  "demo_ann = \<lparr>au_user_id = ''ann'', au_kind = USER, au_tenant_id = None, au_subprocessor = None, au_scopes = [], au_token_prefix = None, au_token_hash = None\<rparr>"

theorem tenant_gate_witness:
  "fst (require_tenant_access demo_ann ''T'' (Some [''owner'', ''admin'']) (Some [''replay:write''])
     (quiet_world demo_members (\<lambda>_. ()) digits_of)) = Inr ''admin''"
proof -
  have q: "quiet (quiet_world demo_members (\<lambda>_. ()) digits_of)" by simp
  show ?thesis
    by (subst tenant_gate [OF q])
      (simp_all add: demo_ann_def demo_members_def first_row_def)
qed

text \<open>
  Whatever a service passes as details, no audit row holds, at any depth, an entry whose key looks
  like key material, a secret or ciphertext; lists are cut to 50 plain values, and no entry is made up.
\<close>

theorem audit_rows_clean:
  "audit_clean (JObj (ae_details (audit_record action actor tenant rtype rid details)))
    \<and> fst ` set (ae_details (audit_record action actor tenant rtype rid details)) \<subseteq> fst ` set details
    \<and> length (ae_action (audit_record action actor tenant rtype rid details)) \<le> 128
    \<and> length (ae_resource_id (audit_record action actor tenant rtype rid details)) \<le> 256"
  using sanitize_details_clean [of details] sanitize_details_keys [of details]
  by (simp add: audit_record_def)

text \<open>
  A host that passes the allowlist equals one of its rules, or is a proper subdomain, at a label
  boundary, of the suffix of one of its wildcard rules.
\<close>

theorem allowlist_at_label_boundary:
  assumes "host_matches_outbound_allowlist host allowlist"
  shows "\<exists>raw \<in> set (split_on (CHR '','') allowlist).
    (let rule = py_lower (rstrip_dots (py_strip raw)); name = py_lower (rstrip_dots host) in
     name = rule \<or> (\<exists>label suffix. rule = ''*.'' @ suffix \<and> suffix \<noteq> [] \<and> name = label @ ''.'' @ suffix))"
proof -
  from assms obtain raw where "raw \<in> set (split_on (CHR '','') allowlist)"
    "rule_matches raw (py_lower (rstrip_dots host))"
    by (auto simp: host_matches_outbound_allowlist_def list_ex_iff)
  with rule_matches_boundary show ?thesis unfolding Let_def by (intro bexI [of _ raw]) blast+
qed

theorem allowlist_at_label_boundary_witness:
  "\<exists>raw \<in> set (split_on (CHR '','') ''a.org, *.example.com''). \<exists>label suffix.
     py_lower (rstrip_dots (py_strip raw)) = ''*.'' @ suffix \<and> ''hooks.example.com'' = label @ ''.'' @ suffix"
proof -
  have "host_matches_outbound_allowlist ''Hooks.Example.com.'' ''a.org, *.example.com''" by code_simp
  note m = allowlist_at_label_boundary [OF this]
  have n: "py_lower (rstrip_dots ''Hooks.Example.com.'') = ''hooks.example.com''" by code_simp
  have "list_all (\<lambda>raw. ''hooks.example.com'' \<noteq> py_lower (rstrip_dots (py_strip raw)))
      (split_on (CHR '','') ''a.org, *.example.com'')"
    by code_simp
  then have "\<forall>raw \<in> set (split_on (CHR '','') ''a.org, *.example.com'').
      ''hooks.example.com'' \<noteq> py_lower (rstrip_dots (py_strip raw))"
    by (simp only: list_all_iff)
  with m show ?thesis unfolding Let_def n by metis
qed

end
