(* ===== verification/Rate_Limit.thy ===== *)
theory Rate_Limit
  imports Platform
begin

section \<open>The rate limiter\<close>

text \<open>
  \<open>core/rate_limit.py\<close>: the sliding window the Lua script keeps in a sorted set, the
  enforcement that fails closed in production, the choice of bucket and limit, the public
  routes, and the client address.  A sorted set is the list of its (score, member) pairs; the
  key's own expiry after one window removes only entries the next call would remove.
\<close>

type_synonym zset = "(int \<times> string) list"

definition window_ms :: int where "window_ms = 60000"

definition oldest_retry :: "int \<Rightarrow> int \<Rightarrow> zset \<Rightarrow> int" where
  "oldest_retry t window z =
     (case sort z of [] \<Rightarrow> window | (s, _) # _ \<Rightarrow> max 1 (window - (t - s)))"

definition zadd :: "int \<Rightarrow> string \<Rightarrow> zset \<Rightarrow> zset" where
  "zadd s m z = (s, m) # filter (\<lambda>e. snd e \<noteq> m) z"

definition live_entries :: "int \<Rightarrow> int \<Rightarrow> zset \<Rightarrow> zset" where
  "live_entries t window z = filter (\<lambda>e. \<not> (0 \<le> fst e \<and> fst e \<le> t - window)) z"

definition sliding_window ::
  "int \<Rightarrow> int \<Rightarrow> int \<Rightarrow> string \<Rightarrow> zset \<Rightarrow> (bool \<times> int \<times> int) \<times> zset" where
  "sliding_window t limit window member z =
     (let z1 = live_entries t window z; count = int (length z1) in
      if limit \<le> count then ((False, count, oldest_retry t window z1), z1)
      else (let z2 = zadd t member z1 in ((True, count + 1, oldest_retry t window z2), z2)))"

subsection \<open>Enforcement\<close>

record rl_db = core_db +
  zsets :: "string \<Rightarrow> zset"

record rl_settings =
  rl_enabled :: bool
  rl_production :: bool
  rl_redis :: bool
  rl_read :: int
  rl_write :: int
  rl_ingest :: int
  rl_public :: int
  rl_prefix :: string
  rl_sha256 :: "string \<Rightarrow> string"

record rate_state =
  rs_limit :: int
  rs_remaining :: int
  rs_reset :: int

type_synonym 'a rl_prog = "(rl_db, unit, 'a) prog"

definition ceil_div :: "int \<Rightarrow> int \<Rightarrow> int" where
  "ceil_div a b = - ((- a) div b)"

definition limiter_unavailable :: exn where
  "limiter_unavailable = HTTPException 503 ''rate limiter unavailable''"

definition enforce_sliding_window ::
  "rl_settings \<Rightarrow> string \<Rightarrow> int \<Rightarrow> rate_state option rl_prog" where
  "enforce_sliding_window cfg key limit =
     (if \<not> rl_redis cfg
      then if rl_production cfg then raise limiter_unavailable else ret None
      else
      bindM read_clock (\<lambda>t.
      bindM uuid4 (\<lambda>u.
      let now_ms = t div 1000; member = py_str_int now_ms @ '':'' @ u in
      tryM (stmt (\<lambda>d. let (out, z) = sliding_window now_ms limit window_ms member (zsets d key) in
          Inr (out, d\<lparr>zsets := (zsets d)(key := z)\<rparr>)))
        (\<lambda>_. if rl_production cfg then raise limiter_unavailable else ret None)
        (\<lambda>(allowed, count, retry_ms).
          if \<not> allowed then raise (HTTPException 429 ''rate limit exceeded'')
          else ret (Some \<lparr>rs_limit = limit, rs_remaining = max 0 (limit - count),
                         rs_reset = max 0 (ceil_div retry_ms 1000)\<rparr>)))))"

record request =
  rq_method :: string
  rq_path :: string
  rq_headers :: "(string \<times> string) list"
  rq_client :: string

definition request_limit :: "rl_settings \<Rightarrow> request \<Rightarrow> string \<times> int" where
  "request_limit cfg rq =
     (if rq_method rq = ''POST''
         \<and> (py_startswith (rq_path rq) ''/api/v1/ingest''
            \<or> py_startswith (rq_path rq) ''/api/v1/siem/signals'')
      then (''ingest'', max 1 (rl_ingest cfg))
      else if rq_method rq \<in> {''POST'', ''PUT'', ''PATCH'', ''DELETE''}
      then (''write'', max 1 (rl_write cfg))
      else (''read'', max 1 (rl_read cfg)))"

definition enforce_principal_rate_limit ::
  "rl_settings \<Rightarrow> request \<Rightarrow> auth_user \<Rightarrow> rate_state option rl_prog" where
  "enforce_principal_rate_limit cfg rq user =
     (if \<not> rl_enabled cfg then ret None
      else (let (bucket, limit) = request_limit cfg rq;
                digest = take 32 (rl_sha256 cfg (kind_value (au_kind user) @ '':'' @ au_user_id user)) in
        enforce_sliding_window cfg (''forjd:rate-limit:'' @ digest @ '':'' @ bucket) limit))"

definition header_of :: "request \<Rightarrow> string \<Rightarrow> string" where
  "header_of rq h = py_strip (case map_of (rq_headers rq) h of None \<Rightarrow> [] | Some v \<Rightarrow> v)"

definition client_ip :: "request \<Rightarrow> string" where
  "client_ip rq =
     (if header_of rq ''fly-client-ip'' \<noteq> [] then header_of rq ''fly-client-ip''
      else if header_of rq ''x-real-ip'' \<noteq> [] then header_of rq ''x-real-ip''
      else if header_of rq ''x-forwarded-for'' \<noteq> []
      then (let f = py_strip (hd (split_on (CHR '','') (header_of rq ''x-forwarded-for''))) in
        if f = [] then ''unknown'' else f)
      else if rq_client rq \<noteq> [] then rq_client rq else ''unknown'')"

definition enforce_ip_rate_limit ::
  "rl_settings \<Rightarrow> request \<Rightarrow> string \<Rightarrow> int \<Rightarrow> rate_state option rl_prog" where
  "enforce_ip_rate_limit cfg rq bucket limit =
     (if \<not> rl_enabled cfg then ret None
      else (let digest = take 32 (rl_sha256 cfg (client_ip rq)) in
        enforce_sliding_window cfg (''forjd:rate-limit:ip:'' @ digest @ '':'' @ bucket) (max 1 limit)))"

subsection \<open>Public routes\<close>

definition public_routes :: "(string \<times> string) list" where
  "public_routes = [(''GET'', ''/status/pages/slug/''), (''GET'', ''/status/pages/published''),
     (''GET'', ''/capabilities''), (''GET'', ''/addons''), (''GET'', ''/addons/''),
     (''POST'', ''/honeypots/hit''), (''POST'', ''/partner/provision'')]"

definition rstrip_slash :: "string \<Rightarrow> string" where
  "rstrip_slash s = rev (dropWhile (\<lambda>c. c = CHR ''/'') (rev s))"

definition route_matches :: "string \<Rightarrow> string \<Rightarrow> string \<Rightarrow> string \<times> string \<Rightarrow> bool" where
  "route_matches prefix meth path route \<longleftrightarrow>
     (let suffix = snd route; target = rstrip_slash (prefix @ suffix) in
      meth = fst route
      \<and> (if py_endswith suffix ''/''
         then py_startswith path (prefix @ suffix) \<or> py_startswith path (target @ ''/'')
         else path = target))"

definition matches_public_rate_limit :: "rl_settings \<Rightarrow> request \<Rightarrow> bool" where
  "matches_public_rate_limit cfg rq =
     (let path = (if rstrip_slash (rq_path rq) = [] then ''/'' else rstrip_slash (rq_path rq));
          prefix = rstrip_slash (rl_prefix cfg) in
      list_ex (route_matches prefix (rq_method rq) path) public_routes)"

definition public_dispatch :: "rl_settings \<Rightarrow> request \<Rightarrow> rate_state option rl_prog" where
  "public_dispatch cfg rq =
     (if \<not> rl_enabled cfg \<or> \<not> matches_public_rate_limit cfg rq then ret None
      else enforce_ip_rate_limit cfg rq ''public'' (rl_public cfg))"

subsection \<open>A run of requests against one key\<close>

fun admitted :: "int \<Rightarrow> int \<Rightarrow> zset \<Rightarrow> (int \<times> string) list \<Rightarrow> int list" where
  "admitted limit window z [] = []"
| "admitted limit window z ((t, m) # rs) =
     (if fst (fst (sliding_window t limit window m z)) then [t] else [])
     @ admitted limit window (snd (sliding_window t limit window m z)) rs"

definition in_window :: "int \<Rightarrow> int \<Rightarrow> int list \<Rightarrow> nat" where
  "in_window a window ts = length (filter (\<lambda>s. a < s \<and> s \<le> a + window) ts)"

lemma in_window_append [simp]: "in_window a w (xs @ ys) = in_window a w xs + in_window a w ys"
  by (simp add: in_window_def)

lemma in_window_Cons:
  "in_window a w (t # ts) = (if a < t \<and> t \<le> a + w then 1 else 0) + in_window a w ts"
  by (simp add: in_window_def)

lemma in_window_le: "in_window a w xs \<le> length xs"
  by (simp add: in_window_def)

lemma in_window_empty: "(\<And>t. t \<in> set ts \<Longrightarrow> a + w < t) \<Longrightarrow> in_window a w ts = 0"
  by (fastforce simp: in_window_def filter_empty_conv)

lemma admitted_times: "set (admitted limit w z rs) \<subseteq> fst ` set rs"
  by (induction limit w z rs rule: admitted.induct) auto

lemma in_window_live:
  assumes "\<And>e. e \<in> set z \<Longrightarrow> 0 \<le> fst e" and "t - w \<le> a"
  shows "in_window a w (map fst (live_entries t w z)) = in_window a w (map fst z)"
  using assms by (induction z) (auto simp: in_window_def live_entries_def)

lemma in_window_live_le: "in_window a w (map fst (live_entries t w z)) \<le> in_window a w (map fst z)"
  by (induction z) (auto simp: in_window_def live_entries_def)

lemma admitted_bound:
  assumes "sorted (map fst rs)" and "\<And>r. r \<in> set rs \<Longrightarrow> 0 \<le> fst r"
    and "\<And>e. e \<in> set z \<Longrightarrow> 0 \<le> fst e"
    and "distinct (map snd rs)" and "snd ` set rs \<inter> snd ` set z = {}"
    and "\<And>a. int (in_window a w (map fst z)) \<le> limit"
  shows "int (in_window a w (map fst z) + in_window a w (admitted limit w z rs)) \<le> limit"
  using assms
proof (induction rs arbitrary: z)
  case Nil
  from Nil.prems(6) [of a] show ?case by (simp add: in_window_def)
next
  case (Cons r rs)
  obtain t m where r: "r = (t, m)" by (cases r)
  let ?z1 = "live_entries t w z"
  have later: "t \<le> s" if "s \<in> set (admitted l w z' ((t, m) # rs))" for s l z'
  proof -
    from that admitted_times [of l w z' "(t, m) # rs"] have "s \<in> fst ` set ((t, m) # rs)" by blast
    with Cons.prems(1) show ?thesis by (auto simp: r)
  qed
  show ?case
  proof (cases "t - w \<le> a")
    case False
    have "in_window a w (admitted limit w z (r # rs)) = 0"
      unfolding r by (rule in_window_empty) (use later False in fastforce)
    with Cons.prems(6) [of a] show ?thesis by simp
  next
    case True
    have pos: "0 \<le> fst e" if "e \<in> set ?z1" for e
      using that Cons.prems(3) by (auto simp: live_entries_def)
    have same: "in_window a w (map fst ?z1) = in_window a w (map fst z)"
      by (rule in_window_live) (use Cons.prems(3) True in auto)
    have rest: "sorted (map fst rs)" "\<And>q. q \<in> set rs \<Longrightarrow> 0 \<le> fst q" "distinct (map snd rs)"
      using Cons.prems(1,2,4) by auto
    have fresh: "snd ` set rs \<inter> snd ` set ?z1 = {}" "m \<notin> snd ` set ?z1" "m \<notin> snd ` set rs"
      using Cons.prems(4,5) by (auto simp: r live_entries_def)
    show ?thesis
    proof (cases "limit \<le> int (length ?z1)")
      case True
      then have step: "admitted limit w z (r # rs) = admitted limit w ?z1 rs"
        by (simp add: r sliding_window_def Let_def)
      have "int (in_window b w (map fst ?z1)) \<le> limit" for b
        using in_window_live_le [of b w t z] Cons.prems(6) [of b] by linarith
      from Cons.IH [OF rest(1,2) pos rest(3) fresh(1) this] show ?thesis
        by (simp add: step same)
    next
      case False
      let ?z2 = "(t, m) # ?z1"
      have z2: "zadd t m ?z1 = ?z2"
        using fresh(2) by (auto simp: zadd_def intro!: filter_True)
      with False have step: "admitted limit w z (r # rs) = t # admitted limit w ?z2 rs"
        by (simp add: r sliding_window_def Let_def)
      have "int (in_window b w (map fst ?z2)) \<le> limit" for b
        using in_window_le [of b w "map fst ?z2"] False by simp
      moreover have "0 \<le> fst e" if "e \<in> set ?z2" for e
        using that pos [of e] Cons.prems(2) [of r] r by (cases "e = (t, m)") simp_all
      moreover have "snd ` set rs \<inter> snd ` set ?z2 = {}" using fresh by auto
      ultimately have "int (in_window a w (map fst ?z2) + in_window a w (admitted limit w ?z2 rs)) \<le> limit"
        using Cons.IH [OF rest(1,2) _ rest(3), of ?z2] by blast
      then show ?thesis
        by (simp add: step same [symmetric] in_window_Cons)
    qed
  qed
qed

text \<open>The hint of a refusal is exact: after that long with no other request, the key admits one.\<close>

lemma oldest_retry_admits:
  assumes "0 < w" and "1 \<le> limit" and full: "length z = nat limit"
    and "\<And>e. e \<in> set z \<Longrightarrow> t - w < fst e \<and> fst e \<le> t \<and> 0 \<le> fst e"
  shows "int (length (live_entries (t + oldest_retry t w z) w z)) < limit"
proof -
  from full assms(2) obtain s m rest where so: "sort z = (s, m) # rest"
    by (cases "sort z") (auto dest: arg_cong [of _ _ length])
  have mem: "(s, m) \<in> set z" using so by (metis list.set_intros(1) set_sort)
  with assms(4) [of "(s, m)"] have s: "t - w < s" "s \<le> t" "0 \<le> s" by auto
  then have r: "oldest_retry t w z = w - (t - s)" by (simp add: oldest_retry_def so)
  have "(s, m) \<notin> set (live_entries (t + oldest_retry t w z) w z)"
    using s by (simp add: live_entries_def r)
  with mem have "length (live_entries (t + oldest_retry t w z) w z) < length z"
    unfolding live_entries_def by (metis filter_is_subset length_filter_less mem_Collect_eq set_filter)
  with full assms(2) show ?thesis by simp
qed

subsection \<open>Properties\<close>

text \<open>The specification: the admitted instants so far, and a request passes while fewer than the limit
  of them lie in the last window.\<close>

fun window_spec :: "int \<Rightarrow> int \<Rightarrow> int list \<Rightarrow> (int \<times> string) list \<Rightarrow> int list" where
  "window_spec limit window hist [] = []"
| "window_spec limit window hist ((t, m) # rs) =
     (if int (length (filter (\<lambda>s. t - window < s) hist)) < limit
      then t # window_spec limit window (t # hist) rs else window_spec limit window hist rs)"

lemma live_live:
  "t \<le> t' \<Longrightarrow> live_entries t' w (live_entries t w z) = live_entries t' w z"
  by (auto simp: live_entries_def intro!: filter_cong)

lemma admitted_spec:
  assumes "sorted (map fst rs)" and "\<And>r. r \<in> set rs \<Longrightarrow> t0 \<le> fst r \<and> 0 \<le> fst r"
    and "distinct (map snd rs)" and "snd ` set rs \<inter> snd ` set z = {}"
    and "\<And>t. t0 \<le> t \<Longrightarrow> length (live_entries t w z) = length (filter (\<lambda>s. t - w < s) hist)"
  shows "admitted limit w z rs = window_spec limit w hist rs"
  using assms
proof (induction rs arbitrary: z hist t0)
  case (Cons r rs)
  obtain t m where r: "r = (t, m)" by (cases r)
  let ?z1 = "live_entries t w z"
  have t: "t0 \<le> t" "0 \<le> t" using Cons.prems(2) [of r] by (auto simp: r)
  have rest: "sorted (map fst rs)" "\<And>q. q \<in> set rs \<Longrightarrow> t \<le> fst q \<and> 0 \<le> fst q" "distinct (map snd rs)"
    using Cons.prems(1-3) by (auto simp: r)
  have fresh: "snd ` set rs \<inter> snd ` set ?z1 = {}" "m \<notin> snd ` set ?z1" "m \<notin> snd ` set rs"
    using Cons.prems(3,4) by (auto simp: r live_entries_def)
  have len: "length (live_entries t' w ?z1) = length (filter (\<lambda>s. t' - w < s) hist)" if "t \<le> t'" for t'
    using Cons.prems(5) [of t'] t(1) that by (simp add: live_live)
  from len [of t] have count: "length ?z1 = length (filter (\<lambda>s. t - w < s) hist)" by (simp add: live_live)
  show ?case
  proof (cases "limit \<le> int (length ?z1)")
    case True
    with Cons.IH [OF rest fresh(1) len] count show ?thesis
      by (simp add: r sliding_window_def Let_def)
  next
    case False
    let ?z2 = "(t, m) # ?z1"
    have z2: "zadd t m ?z1 = ?z2" using fresh(2) by (auto simp: zadd_def intro!: filter_True)
    have "length (live_entries t' w ?z2) = length (filter (\<lambda>s. t' - w < s) (t # hist))" if "t \<le> t'" for t'
      using len [OF that] t(2) by (auto simp: live_entries_def)
    from Cons.IH [OF rest _ this] fresh(1,3) False count z2 show ?thesis
      by (simp add: r sliding_window_def Let_def)
  qed
qed simp

text \<open>
  C18: Against requests that arrive in order, the sorted set with its expiry implements the plain
  specification of a sliding window: it admits exactly the requests before which fewer than the limit
  were admitted within the last window.
\<close>

theorem sliding_window_refines:
  assumes "sorted (map fst rs)" and "list_all (\<lambda>r. 0 \<le> fst r) rs" and "distinct (map snd rs)"
  shows "admitted limit w [] rs = window_spec limit w [] rs"
  by (rule admitted_spec [where ?t0.0 = 0])
    (use assms in \<open>auto simp: list_all_iff live_entries_def\<close>)

theorem sliding_window_refines_witness:
  "admitted 2 10 [] [(5, ''a''), (7, ''b''), (9, ''c''), (16, ''d'')] = [5, 7, 16]"
proof -
  have "window_spec 2 10 [] [(5, ''a''), (7, ''b''), (9, ''c''), (16, ''d'')] = [5, 7, 16]" by code_simp
  with sliding_window_refines [of "[(5, ''a''), (7, ''b''), (9, ''c''), (16, ''d'')]" 2 10] show ?thesis
    by simp
qed

text \<open>
  C19: No interval as long as the window, wherever it starts, ever has more admitted requests of a key
  than the limit.
\<close>

theorem admitted_in_any_window:
  assumes "sorted (map fst rs)" and "list_all (\<lambda>r. 0 \<le> fst r) rs" and "distinct (map snd rs)"
    and "0 \<le> limit"
  shows "int (in_window a w (admitted limit w [] rs)) \<le> limit"
  using admitted_bound [of rs "[]" w limit a] assms by (simp add: list_all_iff in_window_def)

theorem admitted_in_any_window_witness:
  "int (in_window 6 10 (admitted 2 10 [] [(5, ''a''), (7, ''b''), (9, ''c''), (16, ''d'')])) \<le> 2"
  using admitted_in_any_window [of "[(5, ''a''), (7, ''b''), (9, ''c''), (16, ''d'')]" 2 6 10] by simp

text \<open>
  In production the limiter fails closed, whatever the store does: a call ends in 429, in 503, or
  passes, and then it has been counted in the key's sorted set, which stays within the limit.
\<close>

theorem limiter_fails_closed:
  assumes "rl_production cfg"
  shows "case enforce_sliding_window cfg key limit w of
      (Inl e, w') \<Rightarrow> e = HTTPException 429 ''rate limit exceeded'' \<or> e = limiter_unavailable
    | (Inr st, w') \<Rightarrow> (\<exists>t m. (t, m) \<in> set (zsets (wdb w') key)
        \<and> int (length (zsets (wdb w') key)) \<le> limit
        \<and> (\<exists>s. st = Some s \<and> rs_limit s = limit \<and> 0 \<le> rs_remaining s \<and> rs_remaining s < limit))"
proof -
  have passed: "(t, m) \<in> set z \<and> int (length z) \<le> limit \<and> 1 \<le> count \<and> count \<le> limit"
    if "sliding_window t limit window m z0 = ((True, count, retry), z)" for t m window z0 count retry z
  proof -
    let ?L = "live_entries t window z0"
    from that have z: "z = (t, m) # filter (\<lambda>e. snd e \<noteq> m) ?L" "count = int (length ?L) + 1"
      "int (length ?L) < limit"
      by (auto simp: sliding_window_def Let_def zadd_def split: if_splits)
    have "length z \<le> Suc (length ?L)" by (simp add: z)
    with z(3) have "int (length z) \<le> limit" by linarith
    with z show ?thesis by simp
  qed
  show ?thesis
    using assms
    by (auto simp: enforce_sliding_window_def read_clock_def stmt_def Let_def prog_simps
        split: prod.splits sum.splits if_splits dest!: passed)
qed

definition demo_limits :: rl_settings where
  "demo_limits = \<lparr>rl_enabled = True, rl_production = True, rl_redis = True, rl_read = 1, rl_write = 1,
     rl_ingest = 1, rl_public = 1, rl_prefix = [], rl_sha256 = (\<lambda>s. s)\<rparr>"

definition demo_limit_world :: "(rl_db, unit) world" where
  "demo_limit_world = quiet_world \<lparr>now = 5000, schema_ready = True, tenant_members = [], audit_events = [],
     zsets = (\<lambda>_. [])\<rparr> (\<lambda>_. ()) digits_of"

theorem limiter_fails_closed_witness:
  "\<exists>s w'. enforce_sliding_window demo_limits ''k'' 2 demo_limit_world = (Inr (Some s), w')
     \<and> zsets (wdb w') ''k'' \<noteq> [] \<and> rs_remaining s < 2"
proof -
  have p: "rl_production demo_limits" by (simp add: demo_limits_def)
  have "case fst (enforce_sliding_window demo_limits ''k'' 2 demo_limit_world) of Inr _ \<Rightarrow> True | Inl _ \<Rightarrow> False"
    by code_simp
  then obtain st w' where "enforce_sliding_window demo_limits ''k'' 2 demo_limit_world = (Inr st, w')"
    by (cases "enforce_sliding_window demo_limits ''k'' 2 demo_limit_world") (auto split: sum.splits)
  with limiter_fails_closed [OF p, of "''k''" 2 demo_limit_world] show ?thesis by auto
qed

end
