(* ===== verification/Accounts.thy ===== *)
theory Accounts
  imports Platform Crypto
begin

section \<open>Tenants and service accounts\<close>

text \<open>
  \<open>services/tenants.py\<close> (creating and listing tenants), \<open>services/service_accounts.py\<close>: the tables
  \<open>tenants\<close>, \<open>service_accounts\<close>, \<open>partner_provisions\<close> and \<open>tenant_erase_receipts\<close>, the scopes,
  the opaque tokens and the operations on accounts.  What \<open>secrets\<close> draws is an input of the program
  (\<open>tn_answer\<close>), SHA-256 is the field \<open>sv_hash\<close>.  The statements that only create a missing table
  are round trips without effect (\<open>no_op\<close>).
\<close>

subsection \<open>Tables\<close>

record tenant_row =
  tn_id :: uuid
  tn_slug :: string
  tn_name :: string
  tn_directory :: "string option"
  tn_created :: time

record account_row =
  sa_id :: uuid
  sa_tenant :: uuid
  sa_name :: string
  sa_subprocessor :: string
  sa_prefix :: "string option"
  sa_hash :: "string option"
  sa_auth_user :: "uuid option"
  sa_scopes :: "string list"
  sa_active :: bool
  sa_revoked :: "time option"
  sa_created_by :: "string option"
  sa_created :: time
  sa_updated :: time
  sa_used :: "time option"

record provision_row =
  pp_id :: uuid
  pp_partner :: string
  pp_ref :: string
  pp_tenant :: uuid
  pp_account :: uuid

datatype erase_status = Erase_pending | Erase_completed

type_synonym counts = "(string \<times> nat) list"

record receipt_row =
  er_tenant :: uuid
  er_requested_by :: string
  er_status :: erase_status
  er_counts :: counts
  er_prefix :: "string option"
  er_hash :: "string option"
  er_completed :: "time option"

text \<open>
  The tables the tenant erase reaches by name only: their rows with the tenant and, where the table
  has one, the key of a stored artifact.  \<open>data_tables\<close> lists the tables that are present.
\<close>

record data_row =
  dr_tenant :: "uuid option"
  dr_object :: "string option"

record outbox_row =
  ox_key :: string
  ox_payload :: jdict
  ox_headers :: jdict

record tn_db = core_db +
  tenants :: "tenant_row list"
  service_accounts :: "account_row list"
  partner_provisions :: "provision_row list"
  erase_receipts :: "receipt_row list"
  data_tables :: "(string \<times> data_row list) list"
  processing_tenants :: "uuid list list option"
  outbox_events :: "outbox_row list option"
  artifact_files :: "string list list"
  artifact_objects :: "string list"

text \<open>
  What a call draws or meets outside: the bytes of \<open>secrets\<close>, the failure of removing a file, the
  errors (key and code) of each batch of object deletions, a connection lost before the commit.
\<close>

record tn_answer =
  an_prefix :: string
  an_secret :: string
  an_unlink :: "string list \<Rightarrow> exn option"
  an_objects :: "nat \<Rightarrow> (string \<times> string) list"
  an_lost :: bool

type_synonym 'a tn_prog = "(tn_db, tn_answer, 'a) prog"

record sv_env =
  sv_hash :: "string \<Rightarrow> string"
  sv_repr :: "json \<Rightarrow> string"

definition no_op :: "unit tn_prog" where
  "no_op = stmt (\<lambda>d. Inr ((), d))"

definition unique_violation :: exn where
  "unique_violation = OtherError ''UniqueViolationError'' []"

definition foreign_key_violation :: exn where
  "foreign_key_violation = OtherError ''ForeignKeyViolationError'' []"

definition tenant_exists :: "uuid \<Rightarrow> tn_db \<Rightarrow> bool" where
  "tenant_exists t d \<longleftrightarrow> t \<in> tn_id ` set (tenants d)"

subsection \<open>Tenants\<close>

definition insert_tenant :: "tenant_row \<Rightarrow> tn_db \<Rightarrow> exn + tn_db" where
  "insert_tenant row d =
     (if tn_id row \<in> tn_id ` set (tenants d) \<or> tn_slug row \<in> tn_slug ` set (tenants d)
      then Inl unique_violation else Inr (d\<lparr>tenants := tenants d @ [row]\<rparr>))"

definition create_tenant ::
  "string \<Rightarrow> string \<Rightarrow> string \<Rightarrow> string option \<Rightarrow> tenant_row tn_prog" where
  "create_tenant slug name owner directory =
     bindM uuid4 (\<lambda>tid.
     stmt (\<lambda>d. let row = \<lparr>tn_id = tid, tn_slug = slug, tn_name = name, tn_directory = directory,
          tn_created = now d\<rparr> in
       case insert_tenant row d of Inl e \<Rightarrow> Inl e
       | Inr d1 \<Rightarrow> Inr (row, d1\<lparr>tenant_members := tenant_members d1
           @ [\<lparr>tm_tenant = tid, tm_user = owner, tm_role = ''owner''\<rparr>]\<rparr>)))"

definition list_tenants_for_user :: "string \<Rightarrow> (tenant_row \<times> string) list tn_prog" where
  "list_tenants_for_user user = query (\<lambda>d. rev (sort_key (\<lambda>p. tn_created (fst p))
     (concat (map (\<lambda>t. map (\<lambda>m. (t, tm_role m))
        (filter (\<lambda>m. tm_tenant m = tn_id t \<and> tm_user m = user) (tenant_members d))) (tenants d)))))"

subsection \<open>Scopes\<close>

definition default_scopes :: "string list" where
  "default_scopes = [''ingest:write'', ''ingest:read'', ''projections:read'', ''projections:run'',
     ''sessions:write'', ''sessions:read'', ''replay:read'', ''replay:write'', ''status:read'',
     ''status:write'', ''analytics:read'', ''ml:read'', ''exports:read'', ''exports:write'',
     ''vulnerabilities:read'', ''vulnerabilities:write'', ''integrations:write'', ''siem:read'',
     ''siem:write'', ''cases:read'', ''cases:write'', ''playbooks:read'', ''playbooks:write'',
     ''playbooks:execute'', ''threat-intel:read'', ''reports:read'', ''reports:write'']"

definition allowed_scopes :: "string list" where
  "allowed_scopes = default_scopes @ [''analytics:write'', ''threat-intel:write'', ''ml:read'',
     ''ml:write'', ''tenants:erase'', ''status:tenant-resolve'', ''*'']"

fun clean_scopes :: "string list \<Rightarrow> string list \<Rightarrow> exn + string list" where
  "clean_scopes out [] = Inr out"
| "clean_scopes out (s # ss) = (let key = py_strip s in
     if key \<notin> set allowed_scopes then Inl (ValueError (''unknown scope: '' @ [CHR 0x27] @ key @ [CHR 0x27]))
     else clean_scopes (if key \<in> set out then out else out @ [key]) ss)"

definition normalize_scopes :: "string list option \<Rightarrow> bool \<Rightarrow> exn + string list" where
  "normalize_scopes scopes include_erase =
     (case (case scopes of None \<Rightarrow> Inr default_scopes | Some [] \<Rightarrow> Inr default_scopes
        | Some ss \<Rightarrow> clean_scopes [] ss) of
        Inl e \<Rightarrow> Inl e
      | Inr out \<Rightarrow> Inr (if include_erase \<and> ''tenants:erase'' \<notin> set out
          then out @ [''tenants:erase''] else out))"

subsection \<open>Opaque tokens\<close>

text \<open>\<open>str.upper\<close> on ASCII text (request methods and partner names).\<close>

definition ascii_upper :: "string \<Rightarrow> string" where
  "ascii_upper s = map (\<lambda>c. if 97 \<le> code_point c \<and> code_point c \<le> 122
     then char_of (code_point c - 32) else c) s"

definition hex_digit :: "nat \<Rightarrow> char" where
  "hex_digit n = (if n < 10 then char_of (48 + n) else char_of (87 + n))"

definition token_hex :: "string \<Rightarrow> string" where
  "token_hex bs = concat (map (\<lambda>c. [hex_digit (code_point c div 16), hex_digit (code_point c mod 16)]) bs)"

definition token_urlsafe :: "string \<Rightarrow> string" where
  "token_urlsafe bs = map (\<lambda>c. if c = CHR ''+'' then CHR ''-'' else if c = CHR ''/'' then CHR ''_'' else c)
     (rev (dropWhile (\<lambda>c. c = CHR ''='') (rev (b64encode bs))))"

definition service_token_marker :: string where "service_token_marker = ''fjsvc_''"
definition service_prefix_len :: nat where "service_prefix_len = 8"

definition mint_opaque_token :: "sv_env \<Rightarrow> tn_answer \<Rightarrow> string \<times> string \<times> string" where
  "mint_opaque_token env a =
     (let prefix = token_hex (an_prefix a);
          token = service_token_marker @ prefix @ ''_'' @ token_urlsafe (an_secret a) in
      (token, prefix, sv_hash env token))"

fun split_once :: "char \<Rightarrow> string \<Rightarrow> (string \<times> string) option" where
  "split_once c [] = None"
| "split_once c (x # xs) = (if x = c then Some ([], xs)
     else map_option (\<lambda>(a, b). (x # a, b)) (split_once c xs))"

definition looks_like_service_token :: "string \<Rightarrow> bool" where
  "looks_like_service_token token \<longleftrightarrow> py_startswith token service_token_marker
     \<and> (case split_once (CHR ''_'') (drop (length service_token_marker) token) of
          None \<Rightarrow> False | Some (a, b) \<Rightarrow> length a = service_prefix_len \<and> b \<noteq> [])"

definition service_token_prefix :: "string \<Rightarrow> string option" where
  "service_token_prefix token = (if \<not> looks_like_service_token token then None
     else map_option fst (split_once (CHR ''_'') (drop (length service_token_marker) token)))"

subsection \<open>Lookups of the authentication\<close>

definition account_live :: "account_row \<Rightarrow> bool" where
  "account_live r \<longleftrightarrow> sa_active r \<and> sa_revoked r = None"

definition touch_last_used :: "uuid \<Rightarrow> unit tn_prog" where
  "touch_last_used aid = stmt (\<lambda>d. Inr ((), d\<lparr>service_accounts := upd_where
     (\<lambda>r. sa_id r = aid \<and> (case sa_used r of None \<Rightarrow> True | Some t \<Rightarrow> t < now d - secs 300))
     (\<lambda>r. r\<lparr>sa_used := Some (now d)\<rparr>) (service_accounts d)\<rparr>))"

definition authenticate_opaque :: "sv_env \<Rightarrow> string \<Rightarrow> string \<Rightarrow> account_row option tn_prog" where
  "authenticate_opaque env prefix token =
     bindM (query (\<lambda>d. first_row (\<lambda>r. sa_prefix r = Some prefix) (service_accounts d))) (\<lambda>row.
     case row of None \<Rightarrow> ret None
     | Some r \<Rightarrow>
         if \<not> account_live r then ret None
         else (case sa_hash r of None \<Rightarrow> ret None
           | Some expected \<Rightarrow>
               if expected = [] \<or> sv_hash env token \<noteq> expected then ret None
               else bindM (touch_last_used (sa_id r)) (\<lambda>_. ret (Some r))))"

definition authenticate_erased_opaque ::
  "sv_env \<Rightarrow> uuid \<Rightarrow> string \<Rightarrow> string \<Rightarrow> receipt_row option tn_prog" where
  "authenticate_erased_opaque env tenant prefix token =
     bindM (query (\<lambda>d. first_row (\<lambda>r. er_tenant r = tenant \<and> er_status r = Erase_completed
        \<and> er_completed r \<noteq> None \<and> er_prefix r = Some prefix) (erase_receipts d))) (\<lambda>row.
     case row of None \<Rightarrow> ret None
     | Some r \<Rightarrow> (case er_hash r of None \<Rightarrow> ret None
         | Some expected \<Rightarrow>
             if length expected \<noteq> 64 \<or> sv_hash env token \<noteq> expected then ret None
             else ret (Some r)))"

definition authenticate_auth_user :: "uuid \<Rightarrow> account_row option tn_prog" where
  "authenticate_auth_user auth_user =
     bindM (query (\<lambda>d. first_row (\<lambda>r. sa_auth_user r = Some auth_user) (service_accounts d))) (\<lambda>row.
     case row of None \<Rightarrow> ret None
     | Some r \<Rightarrow> if \<not> account_live r then ret None
         else bindM (touch_last_used (sa_id r)) (\<lambda>_. ret (Some r)))"

subsection \<open>Management\<close>

record account_view =
  av_id :: uuid
  av_tenant :: uuid
  av_name :: string
  av_subprocessor :: string
  av_prefix :: "string option"
  av_auth_user :: "uuid option"
  av_scopes :: "string list"
  av_active :: bool
  av_revoked :: "time option"
  av_created_by :: "string option"
  av_created :: time
  av_updated :: time
  av_used :: "time option"
  av_token :: "string option"

definition public_row :: "account_row \<Rightarrow> account_view" where
  "public_row r = \<lparr>av_id = sa_id r, av_tenant = sa_tenant r, av_name = sa_name r,
     av_subprocessor = sa_subprocessor r, av_prefix = sa_prefix r, av_auth_user = sa_auth_user r,
     av_scopes = sa_scopes r, av_active = (sa_active r \<and> sa_revoked r = None),
     av_revoked = sa_revoked r, av_created_by = sa_created_by r, av_created = sa_created r,
     av_updated = sa_updated r, av_used = sa_used r, av_token = None\<rparr>"

definition insert_account :: "account_row \<Rightarrow> tn_db \<Rightarrow> exn + tn_db" where
  "insert_account row d =
     (if sa_id row \<in> sa_id ` set (service_accounts d)
         \<or> (sa_prefix row \<noteq> None \<and> sa_prefix row \<in> sa_prefix ` set (service_accounts d))
         \<or> (sa_auth_user row \<noteq> None \<and> sa_auth_user row \<in> sa_auth_user ` set (service_accounts d))
      then Inl unique_violation
      else if \<not> tenant_exists (sa_tenant row) d then Inl foreign_key_violation
      else Inr (d\<lparr>service_accounts := service_accounts d @ [row]\<rparr>))"

definition new_account ::
  "uuid \<Rightarrow> uuid \<Rightarrow> string \<Rightarrow> string \<Rightarrow> (string \<times> string) option \<Rightarrow> uuid option \<Rightarrow> string list \<Rightarrow>
   string option \<Rightarrow> time \<Rightarrow> account_row" where
  "new_account aid tenant name sub key auth_user scopes creator t =
     \<lparr>sa_id = aid, sa_tenant = tenant, sa_name = name, sa_subprocessor = sub,
      sa_prefix = map_option fst key, sa_hash = map_option snd key, sa_auth_user = auth_user,
      sa_scopes = scopes, sa_active = True, sa_revoked = None, sa_created_by = creator,
      sa_created = t, sa_updated = t, sa_used = None\<rparr>"

definition require_account_admin :: "auth_user \<Rightarrow> uuid \<Rightarrow> string list \<Rightarrow> unit tn_prog" where
  "require_account_admin user tenant roles =
     bindM (lift (require_user_principal user)) (\<lambda>_.
     bindM (require_member tenant (au_user_id user) (Some roles)) (\<lambda>_. no_op))"

record account_request =
  aq_tenant :: uuid
  aq_name :: string
  aq_subprocessor :: string
  aq_scopes :: "string list option"
  aq_erase :: bool
  aq_auth_user :: "uuid option"
  aq_mint :: bool

text \<open>The row is written with the time of its insertion.\<close>

definition store_account :: "(time \<Rightarrow> account_row) \<Rightarrow> account_row tn_prog" where
  "store_account mk =
     catch (stmt (\<lambda>d. case insert_account (mk (now d)) d of Inl e \<Rightarrow> Inl e | Inr d' \<Rightarrow> Inr (mk (now d), d')))
       (\<lambda>e. if e = unique_violation
         then raise (HTTPException 409 ''service account conflict (prefix or auth_user_id)'')
         else raise e)"

definition create_service_account ::
  "sv_env \<Rightarrow> auth_user \<Rightarrow> account_request \<Rightarrow> account_view tn_prog" where
  "create_service_account env user q =
     bindM (require_account_admin user (aq_tenant q) [''owner'', ''admin'']) (\<lambda>_.
     bindM (lift (normalize_scopes (aq_scopes q) (aq_erase q))) (\<lambda>scopes.
     if \<not> aq_mint q \<and> aq_auth_user q = None
     then raise (ValueError ''auth_user_id required when mint_opaque_token is false'')
     else bindM receive (\<lambda>a.
     let minted = (if aq_mint q then Some (mint_opaque_token env a) else None) in
     bindM uuid4 (\<lambda>aid.
     bindM (store_account (new_account aid (aq_tenant q) (take 128 (py_strip (aq_name q)))
         (take 64 (py_strip (aq_subprocessor q))) (map_option snd minted) (aq_auth_user q) scopes
         (Some (au_user_id user)))) (\<lambda>row.
     bindM (record_required ''service_account.create'' (Some (actor_id user)) (Some (aq_tenant q))
       ''service_account'' (sa_id row)
       [(''subprocessor'', JStr (sa_subprocessor row)), (''scopes'', JArr (map JStr scopes)),
        (''has_opaque'', JBool (minted \<noteq> None)), (''has_auth_user'', JBool (aq_auth_user q \<noteq> None))])
       (\<lambda>_. ret ((public_row row)\<lparr>av_token := map_option fst minted\<rparr>)))))))"

definition list_service_accounts :: "auth_user \<Rightarrow> uuid \<Rightarrow> account_view list tn_prog" where
  "list_service_accounts user tenant =
     bindM (require_account_admin user tenant [''owner'', ''admin'', ''member'']) (\<lambda>_.
     query (\<lambda>d. map public_row (rev (sort_key sa_created
       (filter (\<lambda>r. sa_tenant r = tenant) (service_accounts d))))))"

definition revoke_account_stmt :: "uuid \<Rightarrow> uuid \<Rightarrow> tn_db \<Rightarrow> account_row option \<times> tn_db" where
  "revoke_account_stmt aid tenant d =
     (let hit = (\<lambda>r. sa_id r = aid \<and> sa_tenant r = tenant);
          f = (\<lambda>r. r\<lparr>sa_active := False,
            sa_revoked := (case sa_revoked r of None \<Rightarrow> Some (now d) | Some t \<Rightarrow> Some t),
            sa_updated := now d, sa_hash := None\<rparr>) in
      (map_option f (first_row hit (service_accounts d)),
       d\<lparr>service_accounts := upd_where hit f (service_accounts d)\<rparr>))"

definition revoke_service_account :: "auth_user \<Rightarrow> uuid \<Rightarrow> uuid \<Rightarrow> account_view tn_prog" where
  "revoke_service_account user tenant aid =
     bindM (require_account_admin user tenant [''owner'', ''admin'']) (\<lambda>_.
     bindM (stmt (\<lambda>d. Inr (revoke_account_stmt aid tenant d))) (\<lambda>row.
     case row of None \<Rightarrow> raise (HTTPException 404 ''service account not found'')
     | Some r \<Rightarrow>
         bindM (record_required ''service_account.revoke'' (Some (actor_id user)) (Some tenant)
           ''service_account'' aid [(''subprocessor'', JStr (sa_subprocessor r))])
         (\<lambda>_. ret (public_row r))))"

end
