(* ===== verification/Partner.thy ===== *)
theory Partner
  imports Accounts
begin

section \<open>Partner provisioning\<close>

text \<open>
  \<open>services/partner_provision.py\<close>: a partner's account reference becomes a tenant with one runtime
  service account.  The whole provision is one transaction under an advisory lock, so it is one
  statement here, the audit row included.
\<close>

definition lower_alnum :: "char \<Rightarrow> bool" where
  "lower_alnum c \<longleftrightarrow> (97 \<le> code_point c \<and> code_point c \<le> 122) \<or> is_digit c"

text \<open>\<open>re.fullmatch\<close> of \<open>[a-z0-9][extra]{lo,hi}\<close>.\<close>

definition label_match :: "string \<Rightarrow> nat \<Rightarrow> nat \<Rightarrow> string \<Rightarrow> bool" where
  "label_match extra lo hi s = (case s of [] \<Rightarrow> False
     | c # cs \<Rightarrow> lower_alnum c \<and> lo \<le> length cs \<and> length cs \<le> hi
         \<and> list_all (\<lambda>x. lower_alnum x \<or> x \<in> set extra) cs)"

definition external_ref_ok :: "string \<Rightarrow> bool" where
  "external_ref_ok s = label_match '':_-'' 3 127 s"

definition partner_ok :: "string \<Rightarrow> bool" where
  "partner_ok s = label_match ''_-'' 0 63 s"

definition slug_ok :: "string \<Rightarrow> bool" where
  "slug_ok s = label_match ''-'' 1 62 s"

definition deml_provision_scopes :: "string list" where
  "deml_provision_scopes = [''ingest:write'', ''ingest:read'', ''sessions:write'', ''sessions:read'',
     ''status:read'', ''status:write'']"

definition platform_tenant_slug :: string where "platform_tenant_slug = ''platform-status''"

definition normalize_partner :: "string \<Rightarrow> exn + string" where
  "normalize_partner partner = (let key = py_lower (py_strip partner) in
     if partner_ok key then Inr key else Inl (ValueError ''invalid partner''))"

definition slug_for_external_ref :: "sv_env \<Rightarrow> string \<Rightarrow> string \<Rightarrow> string option \<Rightarrow> exn + string" where
  "slug_for_external_ref env ref partner explicit =
     (case explicit of
        Some (c # cs) \<Rightarrow> (let slug = py_lower (py_strip (c # cs)) in
          if slug_ok slug then Inr slug else Inl (ValueError ''invalid slug''))
      | _ \<Rightarrow> (case normalize_partner partner of Inl e \<Rightarrow> Inl e
          | Inr key \<Rightarrow>
              Inr (take 49 (map (\<lambda>c. if c = CHR ''_'' then CHR ''-'' else c) key) @ ''-''
                @ take 12 (sv_hash env (key @ '':'' @ ref)))))"

definition name_for_external_ref :: "string \<Rightarrow> string \<Rightarrow> string option \<Rightarrow> string" where
  "name_for_external_ref ref partner explicit =
     (case explicit of
        Some s \<Rightarrow> if py_strip s \<noteq> [] then take 128 (py_strip s)
          else take 128 (ascii_upper partner @ '' '' @ ref)
      | None \<Rightarrow> take 128 (ascii_upper partner @ '' '' @ ref))"

definition scopes_for_partner :: "string \<Rightarrow> bool \<Rightarrow> exn + string list" where
  "scopes_for_partner partner include_erase =
     (case normalize_partner partner of Inl e \<Rightarrow> Inl e
      | Inr key \<Rightarrow> normalize_scopes
          (Some (if key = ''deml'' then deml_provision_scopes else default_scopes)) include_erase)"

record provision_view =
  pv_created :: bool
  pv_reminted :: bool
  pv_tenant :: tenant_row
  pv_account :: account_view

record provision_request =
  pr_ref :: string
  pr_partner :: string
  pr_slug :: "string option"
  pr_name :: "string option"
  pr_erase :: bool
  pr_remint :: bool

definition existing_response :: "provision_row \<Rightarrow> tn_db \<Rightarrow> exn + provision_view" where
  "existing_response p d =
     (case (first_row (\<lambda>t. tn_id t = pp_tenant p) (tenants d),
            first_row (\<lambda>a. sa_id a = pp_account p \<and> sa_tenant a = pp_tenant p) (service_accounts d)) of
        (Some t, Some a) \<Rightarrow> Inr \<lparr>pv_created = False, pv_reminted = False, pv_tenant = t,
          pv_account = public_row a\<rparr>
      | _ \<Rightarrow> Inl (RuntimeError ''partner provision tenant integrity violation''))"

definition revoke_provisioned :: "provision_row \<Rightarrow> tn_db \<Rightarrow> tn_db" where
  "revoke_provisioned p d = d\<lparr>service_accounts := upd_where
     (\<lambda>r. sa_id r = pp_account p \<and> sa_tenant r = pp_tenant p \<and> sa_revoked r = None)
     (\<lambda>r. r\<lparr>sa_active := False, sa_revoked := Some (now d), sa_updated := now d\<rparr>) (service_accounts d)\<rparr>"

definition insert_provision :: "provision_row \<Rightarrow> tn_db \<Rightarrow> exn + tn_db" where
  "insert_provision p d =
     (if list_ex (\<lambda>q. pp_id q = pp_id p \<or> (pp_partner q = pp_partner p \<and> pp_ref q = pp_ref p)
          \<or> pp_tenant q = pp_tenant p \<or> pp_account q = pp_account p) (partner_provisions d)
      then Inl unique_violation
      else if \<not> tenant_exists (pp_tenant p) d \<or> \<not> list_ex (\<lambda>a. sa_id a = pp_account p \<and> sa_tenant a = pp_tenant p)
          (service_accounts d)
      then Inl foreign_key_violation
      else Inr (d\<lparr>partner_provisions := partner_provisions d @ [p]\<rparr>))"

definition move_provision :: "string \<Rightarrow> string \<Rightarrow> uuid \<Rightarrow> tn_db \<Rightarrow> exn + tn_db" where
  "move_provision partner ref aid d =
     (if list_ex (\<lambda>q. pp_account q = aid \<and> \<not> (pp_partner q = partner \<and> pp_ref q = ref)) (partner_provisions d)
      then Inl unique_violation
      else Inr (d\<lparr>partner_provisions := upd_where (\<lambda>q. pp_partner q = partner \<and> pp_ref q = ref)
        (\<lambda>q. q\<lparr>pp_account := aid\<rparr>) (partner_provisions d)\<rparr>))"

definition is_unique_violation :: "exn \<Rightarrow> exn \<Rightarrow> exn" where
  "is_unique_violation e' e = (if e = unique_violation then e' else e)"

definition mint_runtime ::
  "uuid \<Rightarrow> string \<Rightarrow> string \<times> string \<times> string \<Rightarrow> string list \<Rightarrow> uuid \<Rightarrow> tn_db \<Rightarrow> exn + account_row \<times> tn_db" where
  "mint_runtime tenant key minted scopes aid d =
     (let row = new_account aid tenant (take 128 (key @ ''-runtime'')) key (Some (snd minted)) None scopes
            None (now d) in
      case insert_account row d of
        Inl e \<Rightarrow> Inl (is_unique_violation (ValueError ''service account conflict'') e)
      | Inr d' \<Rightarrow> Inr (row, d'))"

definition provision_audit :: "string \<Rightarrow> string \<Rightarrow> uuid \<Rightarrow> bool \<Rightarrow> bool \<Rightarrow> uuid \<Rightarrow> audit_row" where
  "provision_audit key ref tenant created reminted aid =
     audit_record ''partner.provision'' None (Some tenant) ''partner_provision'' (key @ '':'' @ ref)
       [(''partner'', JStr key), (''created'', JBool created), (''reminted'', JBool reminted),
        (''service_account_id'', JStr aid)]"

definition minted_view ::
  "bool \<Rightarrow> uuid \<Rightarrow> string \<times> string \<times> string \<Rightarrow> account_row \<Rightarrow> tn_db \<Rightarrow> exn + provision_view \<times> tn_db" where
  "minted_view created tenant minted row d =
     (case first_row (\<lambda>t. tn_id t = tenant) (tenants d) of
        None \<Rightarrow> Inl TypeError
      | Some t \<Rightarrow> Inr (\<lparr>pv_created = created, pv_reminted = \<not> created, pv_tenant = t,
          pv_account = (public_row row)\<lparr>av_token := Some (fst minted)\<rparr>\<rparr>, d))"

definition remint_provision ::
  "string \<Rightarrow> string \<Rightarrow> string list \<Rightarrow> string \<times> string \<times> string \<Rightarrow> uuid \<Rightarrow> provision_row \<Rightarrow> tn_db \<Rightarrow>
   exn + provision_view \<times> tn_db" where
  "remint_provision key ref scopes minted aid p d =
     (case mint_runtime (pp_tenant p) key minted scopes aid (revoke_provisioned p d) of Inl e \<Rightarrow> Inl e
      | Inr (row, d1) \<Rightarrow> (case move_provision key ref aid d1 of Inl e \<Rightarrow> Inl e
          | Inr d2 \<Rightarrow> minted_view False (pp_tenant p) minted row
              (add_audit (provision_audit key ref (pp_tenant p) False True aid) d2)))"

definition create_provision ::
  "string \<Rightarrow> string \<Rightarrow> string \<Rightarrow> string \<Rightarrow> string list \<Rightarrow> string \<times> string \<times> string \<Rightarrow>
   uuid \<times> uuid \<times> uuid \<Rightarrow> tn_db \<Rightarrow> exn + provision_view \<times> tn_db" where
  "create_provision key ref slug name scopes minted ids d =
     (case ids of (tid, aid, pid) \<Rightarrow>
        (case insert_tenant \<lparr>tn_id = tid, tn_slug = slug, tn_name = name, tn_directory = None,
            tn_created = now d\<rparr> d of
           Inl e \<Rightarrow> Inl (is_unique_violation (ValueError ''slug already taken'') e)
         | Inr d1 \<Rightarrow> (case mint_runtime tid key minted scopes aid d1 of Inl e \<Rightarrow> Inl e
             | Inr (row, d2) \<Rightarrow>
                 (case insert_provision \<lparr>pp_id = pid, pp_partner = key, pp_ref = ref, pp_tenant = tid,
                     pp_account = aid\<rparr> d2 of Inl e \<Rightarrow> Inl e
                  | Inr d3 \<Rightarrow> minted_view True tid minted row
                      (add_audit (provision_audit key ref tid True False aid) d3)))))"

definition provision_stmt ::
  "provision_request \<Rightarrow> string \<Rightarrow> string \<Rightarrow> string \<Rightarrow> string \<Rightarrow> string list \<Rightarrow> string \<times> string \<times> string \<Rightarrow>
   uuid \<times> uuid \<times> uuid \<Rightarrow> tn_db \<Rightarrow> exn + provision_view \<times> tn_db" where
  "provision_stmt q key ref slug name scopes minted ids d =
     (case first_row (\<lambda>p. pp_partner p = key \<and> pp_ref p = ref) (partner_provisions d) of
        Some p \<Rightarrow> if \<not> pr_remint q
          then (case existing_response p d of Inl e \<Rightarrow> Inl e | Inr v \<Rightarrow> Inr (v, d))
          else remint_provision key ref scopes minted (fst (snd ids)) p d
      | None \<Rightarrow> create_provision key ref slug name scopes minted ids d)"

definition provision_identity :: "provision_request \<Rightarrow> exn + string \<times> string" where
  "provision_identity q =
     (let ref = py_lower (py_strip (pr_ref q)) in
      if \<not> external_ref_ok ref then Inl (ValueError ''invalid external_ref'')
      else (case normalize_partner (pr_partner q) of Inl e \<Rightarrow> Inl e | Inr key \<Rightarrow> Inr (key, ref)))"

definition provision_plan ::
  "sv_env \<Rightarrow> provision_request \<Rightarrow> string \<Rightarrow> string \<Rightarrow> exn + string \<times> string \<times> string list" where
  "provision_plan env q key ref =
     (case slug_for_external_ref env ref key (pr_slug q) of Inl e \<Rightarrow> Inl e | Inr slug \<Rightarrow>
        if slug = platform_tenant_slug
        then Inl (ValueError ''slug is reserved for the platform tenant'')
        else (case scopes_for_partner key (pr_erase q) of Inl e \<Rightarrow> Inl e | Inr scopes \<Rightarrow>
          if ''status:tenant-resolve'' \<in> set scopes \<or> ''*'' \<in> set scopes
          then Inl (ValueError ''partner provisions cannot mint tenant-resolve or wildcard scopes'')
          else Inr (slug, name_for_external_ref ref key (pr_name q), scopes)))"

definition provision_partner_tenant :: "sv_env \<Rightarrow> provision_request \<Rightarrow> provision_view tn_prog" where
  "provision_partner_tenant env q =
     bindM (lift (provision_identity q)) (\<lambda>(key, ref).
     bindM ensure_secure_schema (\<lambda>_.
     bindM (lift (provision_plan env q key ref)) (\<lambda>(slug, name, scopes).
     bindM receive (\<lambda>a.
     bindM uuid4 (\<lambda>tid. bindM uuid4 (\<lambda>aid. bindM uuid4 (\<lambda>pid.
     stmt (provision_stmt q key ref slug name scopes (mint_opaque_token env a) (tid, aid, pid)))))))))"

end
