(* ===== verification/Authentication.thy ===== *)
theory Authentication
  imports Accounts
begin

section \<open>Who is calling\<close>

text \<open>
  \<open>core/auth.py\<close>: the principal behind a bearer credential.  PyJWT and the JWKS endpoint are
  parameters (what they answer for a token), as are the two calls of the rate limiter, which
  the theory \<open>Rate_Limit\<close> models.  A principal keeps the fields that authorisation reads.
\<close>

record auth_env = sv_env +
  at_api_prefix :: string
  at_supabase_url :: string
  at_jwt_secret :: string
  at_required :: bool
  at_debug :: bool
  at_jwks :: "string \<Rightarrow> exn + jdict"
  at_hs256 :: "string \<Rightarrow> string \<Rightarrow> exn + jdict"
  at_uuid :: "string \<Rightarrow> uuid option"
  at_exn_text :: "exn \<Rightarrow> string"
  at_ip_limit :: "exn + unit"
  at_principal_limit :: "auth_user \<Rightarrow> exn + unit"

record auth_request =
  hr_method :: string
  hr_route :: "string option"
  hr_params :: "(string \<times> string) list"
  hr_pool :: bool

definition auth_configured :: "auth_env \<Rightarrow> bool" where
  "auth_configured env \<longleftrightarrow> py_strip (at_supabase_url env) \<noteq> [] \<or> py_strip (at_jwt_secret env) \<noteq> []"

definition rstrip_slashes :: "string \<Rightarrow> string" where
  "rstrip_slashes s = rev (dropWhile (\<lambda>c. c = CHR ''/'') (rev s))"

definition jwks_url :: "auth_env \<Rightarrow> string option" where
  "jwks_url env = (let base = rstrip_slashes (at_supabase_url env) in
     if base = [] then None else Some (base @ ''/auth/v1/.well-known/jwks.json''))"

subsection \<open>Claims\<close>

definition forjd_metadata :: "jdict \<Rightarrow> jdict option" where
  "forjd_metadata claims = (case jget claims ''app_metadata'' of
     JObj meta \<Rightarrow> (case jget meta ''forjd'' of
         JObj block \<Rightarrow> if jget block ''principal_type'' = JStr ''service'' then Some block else None
       | _ \<Rightarrow> None)
   | _ \<Rightarrow> None)"

definition unauthorized :: "string \<Rightarrow> exn" where
  "unauthorized detail = HTTPException 401 detail"

definition plain_principal :: "string \<Rightarrow> principal_kind \<Rightarrow> auth_user" where
  "plain_principal uid k = \<lparr>au_user_id = uid, au_kind = k, au_tenant_id = None, au_subprocessor = None,
     au_scopes = [], au_token_prefix = None, au_token_hash = None\<rparr>"

definition principal_from_claims :: "auth_env \<Rightarrow> jdict \<Rightarrow> exn + auth_user" where
  "principal_from_claims env claims =
     (let str = py_str (sv_repr env); sub = jget claims ''sub'' in
      if \<not> truthy sub then Inl (unauthorized ''token missing sub'')
      else if str (py_or (jget claims ''role'') (JStr ''authenticated'')) = ''service_role''
      then Inl (unauthorized ''service_role JWT is not accepted; use a tenant-scoped service account'')
      else (case forjd_metadata claims of
          Some forjd \<Rightarrow>
            (let tenant = jget forjd ''tenant_id'';
                 sub_name = str (py_or (jget forjd ''subprocessor'') (JStr [])) in
             Inr ((plain_principal (str sub) SERVICE)\<lparr>
               au_tenant_id := (if truthy tenant then Some (str tenant) else None),
               au_subprocessor := (if sub_name = [] then None else Some sub_name),
               au_scopes := (case jget forjd ''scopes'' of JArr xs \<Rightarrow> map str xs | _ \<Rightarrow> [])\<rparr>))
        | None \<Rightarrow> Inr (plain_principal (str sub) USER)))"

text \<open>The algorithm is fixed by the key source, never read from the token.\<close>

definition verify_supabase_jwt :: "auth_env \<Rightarrow> string \<Rightarrow> exn + auth_user" where
  "verify_supabase_jwt env token =
     (let jwks = (case jwks_url env of None \<Rightarrow> None | Some _ \<Rightarrow> Some (at_jwks env token));
          secret = py_strip (at_jwt_secret env);
          hs = (if secret = [] then None else Some (at_hs256 env secret token));
          fail = (\<lambda>e. Inl (unauthorized (case e of
            Some x \<Rightarrow> if at_debug env then ''invalid or expired token ('' @ at_exn_text env x @ '')''
              else ''invalid or expired token''
          | None \<Rightarrow> ''invalid or expired token''))) in
      case jwks of
        Some (Inr claims) \<Rightarrow> principal_from_claims env claims
      | _ \<Rightarrow> (case hs of
            Some (Inr claims) \<Rightarrow> principal_from_claims env claims
          | Some (Inl e) \<Rightarrow> fail (Some e)
          | None \<Rightarrow> fail (case jwks of Some (Inl e) \<Rightarrow> Some e | _ \<Rightarrow> None)))"

subsection \<open>Opaque tokens\<close>

definition erase_retry_tenant_id :: "auth_env \<Rightarrow> auth_request \<Rightarrow> uuid option" where
  "erase_retry_tenant_id env rq =
     (if ascii_upper (hr_method rq) \<noteq> ''POST''
         \<or> hr_route rq \<noteq> Some (rstrip_slashes (at_api_prefix env) @ ''/tenants/{tenant_id}/erase'')
      then None
      else at_uuid env (case map_of (hr_params rq) ''tenant_id'' of None \<Rightarrow> ''None'' | Some s \<Rightarrow> s))"

definition auth_user_from_service_row :: "account_row \<Rightarrow> string option \<Rightarrow> string option \<Rightarrow> auth_user" where
  "auth_user_from_service_row r prefix hash =
     \<lparr>au_user_id = sa_id r, au_kind = SERVICE, au_tenant_id = Some (sa_tenant r),
      au_subprocessor = (if sa_subprocessor r = [] then None else Some (sa_subprocessor r)),
      au_scopes = sa_scopes r, au_token_prefix = prefix, au_token_hash = hash\<rparr>"

definition auth_user_from_erase_tombstone :: "receipt_row \<Rightarrow> auth_user" where
  "auth_user_from_erase_tombstone r =
     (plain_principal (''erased:'' @ (case er_prefix r of None \<Rightarrow> ''None'' | Some p \<Rightarrow> p)) ERASE_TOMBSTONE)
       \<lparr>au_tenant_id := Some (er_tenant r)\<rparr>"

definition authenticate_opaque_service ::
  "auth_env \<Rightarrow> auth_request \<Rightarrow> string \<Rightarrow> auth_user tn_prog" where
  "authenticate_opaque_service env rq token =
     (case service_token_prefix token of
        None \<Rightarrow> raise (unauthorized ''invalid service token'')
      | Some prefix \<Rightarrow>
          (let retry = erase_retry_tenant_id env rq in
           bindM (authenticate_opaque (sv_env.truncate env) prefix token) (\<lambda>row. case row of
             Some r \<Rightarrow> ret (auth_user_from_service_row r
               (if retry \<noteq> None then Some prefix else None)
               (if retry \<noteq> None then Some (sv_hash env token) else None))
           | None \<Rightarrow> (case retry of
               None \<Rightarrow> raise (unauthorized ''invalid service token'')
             | Some tenant \<Rightarrow>
                 bindM (authenticate_erased_opaque (sv_env.truncate env) tenant prefix token) (\<lambda>tomb.
                 case tomb of None \<Rightarrow> raise (unauthorized ''invalid service token'')
                 | Some r \<Rightarrow> ret (auth_user_from_erase_tombstone r))))))"

definition bind_jwt_service_principal :: "auth_user \<Rightarrow> auth_user tn_prog" where
  "bind_jwt_service_principal provisional =
     bindM (authenticate_auth_user (au_user_id provisional)) (\<lambda>row. case row of
       None \<Rightarrow> raise (unauthorized ''service account not registered or revoked'')
     | Some r \<Rightarrow>
         (let bound = auth_user_from_service_row r None None in
          case au_tenant_id provisional of
            Some t \<Rightarrow> if t \<noteq> [] \<and> Some t \<noteq> au_tenant_id bound
              then raise (HTTPException 403 ''service token tenant mismatch'') else ret bound
          | None \<Rightarrow> ret bound))"

subsection \<open>The dependencies of the routes\<close>

definition database_unavailable :: exn where
  "database_unavailable = HTTPException 503 ''database unavailable''"

definition finalize_principal :: "auth_env \<Rightarrow> auth_user \<Rightarrow> auth_user tn_prog" where
  "finalize_principal env u = bindM (lift (at_principal_limit env u)) (\<lambda>_. ret u)"

definition authenticate_bearer :: "auth_env \<Rightarrow> auth_request \<Rightarrow> string \<Rightarrow> auth_user tn_prog" where
  "authenticate_bearer env rq token =
     (if looks_like_service_token token
      then if \<not> hr_pool rq then raise database_unavailable
        else bindM (authenticate_opaque_service env rq token) (finalize_principal env)
      else if \<not> auth_configured env
      then raise (HTTPException 503
        ''Supabase Auth is not configured (set SUPABASE_URL or SUPABASE_JWT_SECRET)'')
      else bindM (lift (verify_supabase_jwt env token)) (\<lambda>p.
        if au_kind p = SERVICE
        then if \<not> hr_pool rq then raise database_unavailable
          else bindM (bind_jwt_service_principal p) (finalize_principal env)
        else finalize_principal env p))"

definition get_current_user ::
  "auth_env \<Rightarrow> auth_request \<Rightarrow> (string \<times> string) option \<Rightarrow> auth_user tn_prog" where
  "get_current_user env rq creds =
     (case creds of
        Some (scheme, token) \<Rightarrow>
          if py_lower scheme = ''bearer''
          then catch (authenticate_bearer env rq token) (\<lambda>e. case e of
              HTTPException c detail \<Rightarrow>
                if c = 401 then bindM (lift (at_ip_limit env)) (\<lambda>_. raise e) else raise e
            | _ \<Rightarrow> raise e)
          else bindM (lift (at_ip_limit env)) (\<lambda>_.
            if at_required env \<or> auth_configured env
            then raise (unauthorized ''missing bearer token'')
            else raise (unauthorized ''auth not configured''))
      | None \<Rightarrow> bindM (lift (at_ip_limit env)) (\<lambda>_.
          if at_required env \<or> auth_configured env
          then raise (unauthorized ''missing bearer token'')
          else raise (unauthorized ''auth not configured'')))"

definition get_optional_user ::
  "auth_env \<Rightarrow> auth_request \<Rightarrow> (string \<times> string) option \<Rightarrow> auth_user option tn_prog" where
  "get_optional_user env rq creds =
     (case creds of
        Some (scheme, token) \<Rightarrow>
          if py_lower scheme \<noteq> ''bearer'' then ret None
          else catch (bindM (get_current_user env rq creds) (\<lambda>u. ret (Some u))) (\<lambda>e. case e of
            HTTPException c detail \<Rightarrow> ret None | _ \<Rightarrow> raise e)
      | None \<Rightarrow> ret None)"

end
