(* ===== verification/Erase.thy ===== *)
theory Erase
  imports Authentication
begin

section \<open>Erasing a tenant\<close>

text \<open>
  \<open>services/tenant_erase.py\<close> and \<open>core/object_storage.delete_objects\<close>.  The erase is one transaction
  that also removes files and stored objects; these do not come back when the transaction fails, so
  \<open>erase_tx\<close> returns the outcome as a value beside the database it leaves: on a failure only the
  artifacts have changed.  \<open>Path.resolve\<close> is the parameter \<open>es_resolve\<close>, a path its components.
\<close>

record erase_env =
  es_resolve :: "string \<Rightarrow> string list"
  es_roots :: "string list list"
  es_storage :: bool

definition erase_tables :: "string list" where
  "erase_tables = [''playbook_runs'', ''security_signals'', ''correlation_receipts'', ''ml_scores'',
     ''embedding_vectors'', ''training_runs'', ''threat_reports'', ''export_jobs'', ''vulnerabilities'',
     ''assets'', ''threat_intelligence'', ''incident_cases'', ''playbooks'', ''status_incidents'',
     ''status_services'', ''status_pages'', ''projection_dlq'', ''projection_checkpoints'',
     ''stream_results'', ''telemetry_events'', ''crypto_sessions'', ''aggregated_analytics'',
     ''telemetry_ingest_receipts'', ''endpoint_observations'', ''health_probe_observations'',
     ''daemon_api_keys'', ''discovered_endpoints'', ''validated_sites'', ''lighthouse_scans'',
     ''web_technology_observations'', ''honeypot_endpoints'', ''honeypot_interactions'',
     ''report_archives'', ''report_documents'', ''service_accounts'']"

text \<open>The tables that must carry row-level security, which is every table of the schema.\<close>

definition rls_tables :: "string list" where
  "rls_tables = [''aggregated_analytics'', ''assets'', ''audit_events'', ''crypto_sessions'',
     ''correlation_receipts'', ''daemon_api_keys'', ''discovered_endpoints'', ''embedding_vectors'',
     ''endpoint_observations'', ''export_jobs'', ''health_probe_observations'', ''honeypot_endpoints'',
     ''honeypot_interactions'', ''incident_cases'', ''ingest_processing_batches'', ''lighthouse_scans'',
     ''ml_scores'', ''outbox_events'', ''partner_provisions'', ''playbook_action_results'',
     ''playbook_actions'', ''playbook_runs'', ''playbooks'', ''projection_checkpoints'',
     ''projection_dlq'', ''report_archives'', ''report_documents'', ''scheduled_task_runs'',
     ''security_signals'', ''service_accounts'', ''status_incidents'', ''status_pages'',
     ''status_services'', ''stream_results'', ''telemetry_events'', ''telemetry_ingest_receipts'',
     ''tenant_erase_receipts'', ''tenant_members'', ''tenants'', ''threat_intelligence'',
     ''threat_reports'', ''training_runs'', ''use_cases'', ''validated_sites'', ''vulnerabilities'',
     ''web_technology_observations'']"

subsection \<open>Stored artifacts\<close>

definition unique_keys :: "'a list \<Rightarrow> 'a list" where
  "unique_keys xs = rev (remdups (rev xs))"

fun join_comma :: "string list \<Rightarrow> string" where
  "join_comma [] = []"
| "join_comma [s] = s"
| "join_comma (s # ss) = s @ '', '' @ join_comma ss"

definition deletion_failed :: "(string \<times> string) list \<Rightarrow> exn" where
  "deletion_failed errs = RuntimeError (''object deletion failed: '' @
     join_comma (sorted_list_of_set (set (map (\<lambda>e. if snd e = [] then ''Unknown'' else snd e) errs))))"

fun delete_batches ::
  "tn_answer \<Rightarrow> nat \<Rightarrow> string list \<Rightarrow> string list \<Rightarrow> (exn + unit) \<times> string list" where
  "delete_batches a k keys objs =
     (if keys = [] then (Inr (), objs)
      else (let batch = take 1000 keys; errs = an_objects a k;
                left = filter (\<lambda>x. x \<notin> set batch \<or> x \<in> fst ` set errs) objs in
        if errs \<noteq> [] then (Inl (deletion_failed errs), left)
        else delete_batches a (Suc k) (drop 1000 keys) left))"

declare delete_batches.simps [simp del]

definition delete_objects :: "tn_answer \<Rightarrow> string list \<Rightarrow> string list \<Rightarrow> (exn + unit) \<times> string list" where
  "delete_objects a keys objs = delete_batches a 0 (filter (\<lambda>k. k \<noteq> []) (unique_keys keys)) objs"

definition inside_roots :: "string list list \<Rightarrow> string list \<Rightarrow> bool" where
  "inside_roots roots path \<longleftrightarrow> list_ex (\<lambda>root. take (length root) path = root) roots"

definition local_path :: "erase_env \<Rightarrow> string \<Rightarrow> string list" where
  "local_path env key = es_resolve env
     (if py_startswith key ''local:'' then drop 6 key else key)"

definition local_artifact :: "erase_env \<Rightarrow> string \<Rightarrow> bool" where
  "local_artifact env key \<longleftrightarrow> py_startswith key ''local:'' \<or> py_startswith key ''/''
     \<or> inside_roots (es_roots env) (local_path env key)"

text \<open>The loop over the keys: files go at once, the other keys are collected.\<close>

fun unlink_files ::
  "erase_env \<Rightarrow> tn_answer \<Rightarrow> string list \<Rightarrow> nat \<Rightarrow> string list \<Rightarrow> string list list \<Rightarrow>
   (exn + nat \<times> string list) \<times> string list list" where
  "unlink_files env a [] n acc files = (Inr (n, acc), files)"
| "unlink_files env a (key # keys) n acc files =
     (if key = [] then unlink_files env a keys n acc files
      else if \<not> local_artifact env key then unlink_files env a keys n (acc @ [key]) files
      else (let path = local_path env key in
        if \<not> inside_roots (es_roots env) path
        then (Inl (RuntimeError ''refusing to erase an artifact outside FORJD storage roots''), files)
        else (case an_unlink a path of
            Some e \<Rightarrow> (Inl e, files)
          | None \<Rightarrow> unlink_files env a keys (if path \<in> set files then n + 1 else n) acc
              (filter (\<lambda>p. p \<noteq> path) files))))"

definition delete_artifacts ::
  "erase_env \<Rightarrow> tn_answer \<Rightarrow> string list \<Rightarrow> tn_db \<Rightarrow> (exn + nat) \<times> tn_db" where
  "delete_artifacts env a keys d =
     (case unlink_files env a (unique_keys keys) 0 [] (artifact_files d) of
        (Inl e, files) \<Rightarrow> (Inl e, d\<lparr>artifact_files := files\<rparr>)
      | (Inr (n, storage), files) \<Rightarrow>
          (let d1 = d\<lparr>artifact_files := files\<rparr> in
           if storage = [] then (Inr n, d1)
           else if \<not> es_storage env
           then (Inl (RuntimeError ''tenant artifacts exist but object storage is unavailable''), d1)
           else (case delete_objects a storage (artifact_objects d1) of
               (Inl e, objs) \<Rightarrow> (Inl e, d1\<lparr>artifact_objects := objs\<rparr>)
             | (Inr _, objs) \<Rightarrow> (Inr (n + length storage), d1\<lparr>artifact_objects := objs\<rparr>))))"

subsection \<open>Receipts\<close>

record erase_result =
  rr_tenant :: uuid
  rr_deleted :: counts
  rr_replay :: bool
  rr_completed :: "time option"

definition receipt_result :: "receipt_row \<Rightarrow> erase_result" where
  "receipt_result r = \<lparr>rr_tenant = er_tenant r, rr_deleted = er_counts r, rr_replay = True,
     rr_completed = er_completed r\<rparr>"

definition completed_receipt :: "uuid \<Rightarrow> tn_db \<Rightarrow> receipt_row option" where
  "completed_receipt tenant d =
     first_row (\<lambda>r. er_tenant r = tenant \<and> er_status r = Erase_completed) (erase_receipts d)"

definition can_read_receipt :: "auth_user \<Rightarrow> receipt_row \<Rightarrow> uuid \<Rightarrow> bool" where
  "can_read_receipt u r tenant \<longleftrightarrow>
     (if er_requested_by r = actor_id u then True
      else if au_kind u = ERASE_TOMBSTONE then au_tenant_id u = Some tenant
      else au_kind u = SERVICE \<and> au_tenant_id u = Some tenant
        \<and> (''tenants:erase'' \<in> set (au_scopes u) \<or> ''*'' \<in> set (au_scopes u)))"

definition lower_hex :: "char \<Rightarrow> bool" where
  "lower_hex c \<longleftrightarrow> c \<in> set ''0123456789abcdef''"

definition credential_tombstone :: "auth_user \<Rightarrow> exn + string option \<times> string option" where
  "credential_tombstone u =
     (case (au_token_prefix u, au_token_hash u) of
        (None, None) \<Rightarrow> Inr (None, None)
      | (Some p, Some h) \<Rightarrow>
          if au_kind u \<noteq> SERVICE \<or> length p \<noteq> 8 \<or> length h \<noteq> 64 \<or> \<not> list_all lower_hex h
          then Inl (RuntimeError ''invalid authenticated opaque credential metadata'')
          else Inr (Some p, Some h)
      | _ \<Rightarrow> Inl (RuntimeError ''invalid authenticated opaque credential metadata''))"

definition or_else :: "'a option \<Rightarrow> 'a option \<Rightarrow> 'a option" where
  "or_else x y = (case x of None \<Rightarrow> y | Some a \<Rightarrow> Some a)"

definition open_receipt ::
  "uuid \<Rightarrow> string \<Rightarrow> string option \<times> string option \<Rightarrow> tn_db \<Rightarrow> exn + tn_db" where
  "open_receipt tenant actor cred d =
     (if snd cred \<noteq> None \<and> list_ex (\<lambda>r. er_hash r = snd cred \<and> er_tenant r \<noteq> tenant) (erase_receipts d)
      then Inl unique_violation
      else if list_ex (\<lambda>r. er_tenant r = tenant) (erase_receipts d)
      then Inr (d\<lparr>erase_receipts := upd_where (\<lambda>r. er_tenant r = tenant \<and> er_status r \<noteq> Erase_completed)
        (\<lambda>r. r\<lparr>er_requested_by := actor, er_prefix := or_else (fst cred) (er_prefix r),
           er_hash := or_else (snd cred) (er_hash r)\<rparr>) (erase_receipts d)\<rparr>)
      else Inr (d\<lparr>erase_receipts := erase_receipts d @ [\<lparr>er_tenant = tenant, er_requested_by = actor,
        er_status = Erase_pending, er_counts = [], er_prefix = fst cred, er_hash = snd cred,
        er_completed = None\<rparr>]\<rparr>))"

subsection \<open>The rows\<close>

definition counted :: "string \<Rightarrow> nat \<Rightarrow> counts \<Rightarrow> counts" where
  "counted name n cs = (if n = 0 then cs else cs @ [(name, n)])"

definition erase_batches :: "uuid \<Rightarrow> counts \<times> tn_db \<Rightarrow> counts \<times> tn_db" where
  "erase_batches tenant cd = (case cd of (cs, d) \<Rightarrow>
     (case processing_tenants d of None \<Rightarrow> (cs, d)
      | Some bs \<Rightarrow> (counted ''ingest_processing_batches'' (length (filter (\<lambda>ts. tenant \<in> set ts) bs)) cs,
          d\<lparr>processing_tenants := Some (filter (\<lambda>ts. tenant \<notin> set ts) bs)\<rparr>)))"

definition artifact_keys :: "uuid \<Rightarrow> tn_db \<Rightarrow> string list" where
  "artifact_keys tenant d = concat (map (\<lambda>name. case map_of (data_tables d) name of None \<Rightarrow> []
     | Some rs \<Rightarrow> map (\<lambda>r. the (dr_object r))
         (filter (\<lambda>r. dr_tenant r = Some tenant \<and> dr_object r \<noteq> None) rs))
     [''export_jobs'', ''report_archives''])"

definition own_data :: "uuid \<Rightarrow> data_row list \<Rightarrow> data_row list" where
  "own_data tenant rs = filter (\<lambda>r. dr_tenant r = Some tenant) rs"

definition other_data :: "uuid \<Rightarrow> data_row list \<Rightarrow> data_row list" where
  "other_data tenant rs = filter (\<lambda>r. dr_tenant r \<noteq> Some tenant) rs"

definition drop_accounts :: "uuid \<Rightarrow> tn_db \<Rightarrow> tn_db" where
  "drop_accounts tenant d =
     d\<lparr>service_accounts := filter (\<lambda>r. sa_tenant r \<noteq> tenant) (service_accounts d),
       partner_provisions := filter (\<lambda>p. pp_tenant p \<noteq> tenant) (partner_provisions d)\<rparr>"

definition erase_table :: "uuid \<Rightarrow> string \<Rightarrow> counts \<times> tn_db \<Rightarrow> counts \<times> tn_db" where
  "erase_table tenant name cd = (case cd of (cs, d) \<Rightarrow>
     if name = ''service_accounts''
     then (counted name (length (filter (\<lambda>r. sa_tenant r = tenant) (service_accounts d))) cs,
           drop_accounts tenant d)
     else (case map_of (data_tables d) name of None \<Rightarrow> (cs, d)
       | Some rs \<Rightarrow> (counted name (length (own_data tenant rs)) cs,
           d\<lparr>data_tables := map (\<lambda>(n, rs). (n, if n = name then other_data tenant rs else rs))
             (data_tables d)\<rparr>)))"

definition outbox_of :: "uuid \<Rightarrow> outbox_row \<Rightarrow> bool" where
  "outbox_of tenant r \<longleftrightarrow> jget (ox_payload r) ''tenant_id'' = JStr tenant
     \<or> jget (ox_payload r) ''account_id'' = JStr tenant
     \<or> jget (ox_headers r) ''tenant_id'' = JStr tenant \<or> ox_key r = tenant"

definition erase_outbox :: "uuid \<Rightarrow> counts \<times> tn_db \<Rightarrow> counts \<times> tn_db" where
  "erase_outbox tenant cd = (case cd of (cs, d) \<Rightarrow>
     (case outbox_events d of None \<Rightarrow> (cs, d)
      | Some rs \<Rightarrow> (counted ''outbox_events'' (length (filter (outbox_of tenant) rs)) cs,
          d\<lparr>outbox_events := Some (filter (\<lambda>r. \<not> outbox_of tenant r) rs)\<rparr>)))"

text \<open>
  The row of \<open>tenants\<close> goes last; what refers to it has gone before, or goes with it
  (\<open>ON DELETE CASCADE\<close>).
\<close>

definition erase_tenant_row :: "uuid \<Rightarrow> counts \<times> tn_db \<Rightarrow> counts \<times> tn_db" where
  "erase_tenant_row tenant cd = (case cd of (cs, d) \<Rightarrow>
     (counted ''tenant_members'' (length (filter (\<lambda>m. tm_tenant m = tenant) (tenant_members d))) cs
        @ [(''tenants'', length (filter (\<lambda>t. tn_id t = tenant) (tenants d)))],
      d\<lparr>tenant_members := filter (\<lambda>m. tm_tenant m \<noteq> tenant) (tenant_members d),
        tenants := filter (\<lambda>t. tn_id t \<noteq> tenant) (tenants d)\<rparr>))"

definition complete_receipt :: "uuid \<Rightarrow> counts \<times> tn_db \<Rightarrow> tn_db" where
  "complete_receipt tenant cd = (case cd of (cs, d) \<Rightarrow>
     d\<lparr>erase_receipts := upd_where (\<lambda>r. er_tenant r = tenant)
       (\<lambda>r. r\<lparr>er_status := Erase_completed, er_counts := cs, er_completed := Some (now d)\<rparr>)
       (erase_receipts d)\<rparr>)"

subsection \<open>The transaction\<close>

definition erase_rows :: "uuid \<Rightarrow> nat \<Rightarrow> counts \<times> tn_db \<Rightarrow> tn_db" where
  "erase_rows tenant n cd = (case cd of (cs, d) \<Rightarrow>
     complete_receipt tenant (erase_tenant_row tenant (erase_outbox tenant
       (foldl (\<lambda>cd name. erase_table tenant name cd) (counted ''stored_artifacts'' n cs, d) erase_tables))))"

definition rolled_back :: "tn_db \<Rightarrow> tn_db \<Rightarrow> tn_db" where
  "rolled_back d d' = d\<lparr>artifact_files := artifact_files d', artifact_objects := artifact_objects d'\<rparr>"

definition erase_tx ::
  "erase_env \<Rightarrow> tn_answer \<Rightarrow> string \<Rightarrow> string option \<times> string option \<Rightarrow> uuid \<Rightarrow> tn_db \<Rightarrow>
   (exn + erase_result) \<times> tn_db" where
  "erase_tx env a actor cred tenant d =
     (case completed_receipt tenant d of
        Some r \<Rightarrow> (Inr (receipt_result r), d)
      | None \<Rightarrow> (case open_receipt tenant actor cred d of
          Inl e \<Rightarrow> (Inl e, d)
        | Inr d1 \<Rightarrow> (case erase_batches tenant ([], d1) of (cs, d2) \<Rightarrow>
            (case delete_artifacts env a (artifact_keys tenant d2) d2 of
               (Inl e, d3) \<Rightarrow> (Inl e, rolled_back d d3)
             | (Inr n, d3) \<Rightarrow>
                 (let d4 = erase_rows tenant n (cs, d3) in
                  if an_lost a then (Inl DatabaseError, rolled_back d d3)
                  else (case completed_receipt tenant d4 of
                      None \<Rightarrow> (Inl TypeError, d4)
                    | Some r \<Rightarrow> (Inr ((receipt_result r)\<lparr>rr_replay := False\<rparr>), d4)))))))"

definition erase_committed :: "erase_env \<Rightarrow> auth_user \<Rightarrow> uuid \<Rightarrow> erase_result tn_prog" where
  "erase_committed env user tenant =
     bindM (lift (credential_tombstone user)) (\<lambda>cred.
     bindM receive (\<lambda>a.
     bindM (stmt (\<lambda>d. Inr (erase_tx env a (actor_id user) cred tenant d))) lift))"

definition erase_tenant :: "erase_env \<Rightarrow> auth_user \<Rightarrow> uuid \<Rightarrow> erase_result tn_prog" where
  "erase_tenant env user tenant =
     bindM (query (completed_receipt tenant)) (\<lambda>prior.
     case prior of
       Some r \<Rightarrow> if can_read_receipt user r tenant then ret (receipt_result r)
         else bindM (require_tenant_access user tenant (Some [''owner'', ''admin'']) (Some [''tenants:erase'']))
           (\<lambda>_. erase_committed env user tenant)
     | None \<Rightarrow> bindM (require_tenant_access user tenant (Some [''owner'', ''admin'']) (Some [''tenants:erase'']))
           (\<lambda>_. erase_committed env user tenant))"

end
