(* ===== verification/Accounts_Safety.thy ===== *)
theory Accounts_Safety
  imports Partner Erase System
begin

section \<open>Accounts: the protocol under interference\<close>

text \<open>
  The invariant of the tenants, the service accounts, the provisions and the erase receipts (their
  unique indexes, foreign keys and CHECK constraints, and what a provision promises), the relation
  every statement stays in, and the proof that each operation keeps both.
\<close>

subsection \<open>The invariant\<close>

definition account_ok :: "account_row \<Rightarrow> bool" where
  "account_ok r \<longleftrightarrow> (sa_revoked r \<noteq> None \<longrightarrow> \<not> sa_active r) \<and> (sa_hash r \<noteq> None \<longrightarrow> sa_prefix r \<noteq> None)"

definition given_values :: "('r \<Rightarrow> 'a option) \<Rightarrow> 'r list \<Rightarrow> 'a list" where
  "given_values g rs = concat (map (\<lambda>r. case g r of None \<Rightarrow> [] | Some a \<Rightarrow> [a]) rs)"

definition tenants_ok :: "tn_db \<Rightarrow> bool" where
  "tenants_ok d \<longleftrightarrow> distinct (map tn_id (tenants d)) \<and> distinct (map tn_slug (tenants d))
     \<and> (\<forall>m \<in> set (tenant_members d). tenant_exists (tm_tenant m) d)
     \<and> (\<forall>r \<in> set (service_accounts d). tenant_exists (sa_tenant r) d)"

definition accounts_ok :: "tn_db \<Rightarrow> bool" where
  "accounts_ok d \<longleftrightarrow> distinct (map sa_id (service_accounts d))
     \<and> distinct (given_values sa_prefix (service_accounts d))
     \<and> distinct (given_values sa_auth_user (service_accounts d))
     \<and> (\<forall>r \<in> set (service_accounts d). account_ok r)"

text \<open>What a partner's runtime account may never do: enumerate tenants, or everything.\<close>

definition restricted :: "string list \<Rightarrow> bool" where
  "restricted scopes \<longleftrightarrow> ''*'' \<notin> set scopes \<and> ''status:tenant-resolve'' \<notin> set scopes"

definition runtime_of :: "provision_row \<Rightarrow> account_row \<Rightarrow> bool" where
  "runtime_of p a \<longleftrightarrow> sa_id a = pp_account p \<and> sa_tenant a = pp_tenant p \<and> restricted (sa_scopes a)"

definition provisions_ok :: "tn_db \<Rightarrow> bool" where
  "provisions_ok d \<longleftrightarrow> distinct (map (\<lambda>p. (pp_partner p, pp_ref p)) (partner_provisions d))
     \<and> distinct (map pp_tenant (partner_provisions d))
     \<and> distinct (map pp_account (partner_provisions d))
     \<and> (\<forall>p \<in> set (partner_provisions d). \<exists>a \<in> set (service_accounts d). runtime_of p a)"

definition receipt_ok :: "receipt_row \<Rightarrow> bool" where
  "receipt_ok r \<longleftrightarrow> (er_status r = Erase_completed \<longleftrightarrow> er_completed r \<noteq> None)
     \<and> (er_prefix r = None \<longleftrightarrow> er_hash r = None)
     \<and> (\<forall>h. er_hash r = Some h \<longrightarrow> length h = 64)"

definition receipts_ok :: "tn_db \<Rightarrow> bool" where
  "receipts_ok d \<longleftrightarrow> distinct (map er_tenant (erase_receipts d))
     \<and> distinct (given_values er_hash (erase_receipts d))
     \<and> (\<forall>r \<in> set (erase_receipts d). receipt_ok r)"

definition tn_inv :: "tn_db \<Rightarrow> bool" where
  "tn_inv d \<longleftrightarrow> tenants_ok d \<and> accounts_ok d \<and> provisions_ok d \<and> receipts_ok d"

subsection \<open>The relation\<close>

definition account_le :: "account_row \<Rightarrow> account_row \<Rightarrow> bool" where
  "account_le r r' \<longleftrightarrow> sa_id r' = sa_id r \<and> sa_tenant r' = sa_tenant r \<and> sa_name r' = sa_name r
     \<and> sa_subprocessor r' = sa_subprocessor r \<and> sa_prefix r' = sa_prefix r
     \<and> sa_auth_user r' = sa_auth_user r \<and> sa_scopes r' = sa_scopes r
     \<and> (sa_hash r' = sa_hash r \<or> sa_hash r' = None)
     \<and> (\<not> sa_active r \<longrightarrow> \<not> sa_active r')
     \<and> (sa_revoked r \<noteq> None \<longrightarrow> sa_revoked r' = sa_revoked r)"

definition provision_le :: "provision_row \<Rightarrow> provision_row \<Rightarrow> bool" where
  "provision_le p p' \<longleftrightarrow> pp_id p' = pp_id p \<and> pp_partner p' = pp_partner p \<and> pp_ref p' = pp_ref p
     \<and> pp_tenant p' = pp_tenant p"

definition erased :: "uuid \<Rightarrow> tn_db \<Rightarrow> bool" where
  "erased tenant d \<longleftrightarrow> (\<exists>r \<in> set (erase_receipts d). er_tenant r = tenant \<and> er_status r = Erase_completed)"

definition tn_rely :: "tn_db \<Rightarrow> tn_db \<Rightarrow> bool" where
  "tn_rely d d' \<longleftrightarrow> (tn_inv d \<longrightarrow> tn_inv d' \<and> now d \<le> now d'
     \<and> (\<exists>es. audit_events d' = audit_events d @ es)
     \<and> (\<forall>r \<in> set (erase_receipts d). er_status r = Erase_completed \<longrightarrow> r \<in> set (erase_receipts d'))
     \<and> (\<forall>t \<in> set (tenants d). erased (tn_id t) d' \<or> t \<in> set (tenants d'))
     \<and> (\<forall>r \<in> set (service_accounts d). erased (sa_tenant r) d'
          \<or> (\<exists>r' \<in> set (service_accounts d'). account_le r r'))
     \<and> (\<forall>p \<in> set (partner_provisions d). erased (pp_tenant p) d'
          \<or> (\<exists>p' \<in> set (partner_provisions d'). provision_le p p')))"

lemma account_le_refl [simp]: "account_le r r"
  by (simp add: account_le_def)

lemma account_le_trans: "account_le a b \<Longrightarrow> account_le b c \<Longrightarrow> account_le a c"
  by (auto simp: account_le_def)

lemma provision_le_refl [simp]: "provision_le p p"
  by (simp add: provision_le_def)

lemma provision_le_trans: "provision_le a b \<Longrightarrow> provision_le b c \<Longrightarrow> provision_le a c"
  by (simp add: provision_le_def)

lemma erased_mono: "tn_inv d \<Longrightarrow> tn_rely d d' \<Longrightarrow> erased t d \<Longrightarrow> erased t d'"
  unfolding tn_rely_def erased_def by blast

lemma tn_rely_refl: "tn_rely d d"
  unfolding tn_rely_def by (auto intro: account_le_refl provision_le_refl)

lemma tn_relyD:
  assumes "tn_rely d d'" and "tn_inv d"
  shows "tn_inv d'" "now d \<le> now d'" "\<exists>es. audit_events d' = audit_events d @ es"
    "\<And>r. r \<in> set (erase_receipts d) \<Longrightarrow> er_status r = Erase_completed \<Longrightarrow> r \<in> set (erase_receipts d')"
    "\<And>t. t \<in> set (tenants d) \<Longrightarrow> erased (tn_id t) d' \<or> t \<in> set (tenants d')"
    "\<And>r. r \<in> set (service_accounts d) \<Longrightarrow> erased (sa_tenant r) d'
       \<or> (\<exists>r' \<in> set (service_accounts d'). account_le r r')"
    "\<And>p. p \<in> set (partner_provisions d) \<Longrightarrow> erased (pp_tenant p) d'
       \<or> (\<exists>p' \<in> set (partner_provisions d'). provision_le p p')"
  using assms unfolding tn_rely_def by blast+

lemma tn_rely_trans:
  assumes 1: "tn_rely d d'" and 2: "tn_rely d' d''"
  shows "tn_rely d d''"
  unfolding tn_rely_def
proof (intro impI conjI ballI)
  assume inv: "tn_inv d"
  note A = tn_relyD [OF 1 inv]
  note B = tn_relyD [OF 2 A(1)]
  have mono: "erased t d' \<Longrightarrow> erased t d''" for t by (rule erased_mono [OF A(1) 2])
  show "tn_inv d''" by (rule B(1))
  show "now d \<le> now d''" using A(2) B(2) by linarith
  show "\<exists>es. audit_events d'' = audit_events d @ es" using A(3) B(3) by auto
  show "er_status r = Erase_completed \<Longrightarrow> r \<in> set (erase_receipts d'')"
    if "r \<in> set (erase_receipts d)" for r
    using A(4) [OF that] B(4) by blast
  show "erased (tn_id t) d'' \<or> t \<in> set (tenants d'')" if "t \<in> set (tenants d)" for t
    using A(5) [OF that] B(5) mono by blast
  show "erased (sa_tenant r) d'' \<or> (\<exists>r' \<in> set (service_accounts d''). account_le r r')"
    if "r \<in> set (service_accounts d)" for r
  proof (cases "erased (sa_tenant r) d'")
    case False
    with A(6) [OF that] obtain r' where r': "r' \<in> set (service_accounts d')" "account_le r r'" by blast
    then have "sa_tenant r' = sa_tenant r" by (simp add: account_le_def)
    with B(6) [OF r'(1)] account_le_trans [OF r'(2)] show ?thesis by metis
  qed (use mono in blast)
  show "erased (pp_tenant p) d'' \<or> (\<exists>p' \<in> set (partner_provisions d''). provision_le p p')"
    if "p \<in> set (partner_provisions d)" for p
  proof (cases "erased (pp_tenant p) d'")
    case False
    with A(7) [OF that] obtain p' where p': "p' \<in> set (partner_provisions d')" "provision_le p p'" by blast
    then have "pp_tenant p' = pp_tenant p" by (simp add: provision_le_def)
    with B(7) [OF p'(1)] provision_le_trans [OF p'(2)] show ?thesis by metis
  qed (use mono in blast)
qed

interpretation tn: protocol tn_inv tn_rely
  by unfold_locales (rule tn_rely_refl, erule (1) tn_rely_trans, simp_all add: tn_rely_def)

text \<open>A step that keeps these tables and appends to the audit trail.\<close>

lemma tn_inv_frame:
  assumes "tenants d' = tenants d" and "tenant_members d' = tenant_members d"
    and "service_accounts d' = service_accounts d" and "partner_provisions d' = partner_provisions d"
    and "erase_receipts d' = erase_receipts d"
  shows "tn_inv d' = tn_inv d"
  using assms
  by (simp add: tn_inv_def tenants_ok_def accounts_ok_def provisions_ok_def receipts_ok_def tenant_exists_def)

lemma tn_rely_frame:
  assumes "tenants d' = tenants d" and "tenant_members d' = tenant_members d"
    and "service_accounts d' = service_accounts d" and "partner_provisions d' = partner_provisions d"
    and "erase_receipts d' = erase_receipts d" and "now d \<le> now d'"
    and "audit_events d' = audit_events d @ es"
  shows "tn_rely d d'"
  unfolding tn_rely_def
  using assms tn_inv_frame [OF assms(1-5)] by (auto intro: account_le_refl provision_le_refl)

interpretation tnc: core_protocol tn_inv tn_rely
  by unfold_locales (rule tn_rely_frame; simp add: add_audit_def)

subsection \<open>Steps on one table\<close>

lemma account_kept: "r \<in> set rs \<Longrightarrow> \<exists>r' \<in> set rs. account_le r r'"
  using account_le_refl by blast

lemma provision_kept: "p \<in> set ps \<Longrightarrow> \<exists>p' \<in> set ps. provision_le p p'"
  using provision_le_refl by blast

text \<open>A step that removes nothing.\<close>

lemma tn_relyI:
  assumes "tn_inv d \<Longrightarrow> tn_inv d'" and "now d' = now d" and "audit_events d' = audit_events d"
    and "erase_receipts d' = erase_receipts d" and "set (tenants d) \<subseteq> set (tenants d')"
    and "\<forall>r \<in> set (service_accounts d). \<exists>r' \<in> set (service_accounts d'). account_le r r'"
    and "\<forall>p \<in> set (partner_provisions d). \<exists>p' \<in> set (partner_provisions d'). provision_le p p'"
  shows "tn_rely d d'"
  unfolding tn_rely_def using assms by auto

lemma given_values_upd:
  assumes "\<And>r. r \<in> set rs \<Longrightarrow> p r \<Longrightarrow> g (f r) = g r"
  shows "given_values g (upd_where p f rs) = given_values g rs"
  using assms by (induction rs) (auto simp: given_values_def table_simps)

lemma given_values_snoc [simp]:
  "given_values g (rs @ [r]) = given_values g rs @ (case g r of None \<Rightarrow> [] | Some a \<Rightarrow> [a])"
  by (simp add: given_values_def split: option.split)

lemma set_given_values: "a \<in> set (given_values g rs) \<longleftrightarrow> Some a \<in> g ` set rs"
  by (force simp: given_values_def image_iff split: option.splits)

lemma given_values_inj:
  "distinct (given_values g rs) \<Longrightarrow> x \<in> set rs \<Longrightarrow> y \<in> set rs \<Longrightarrow> g x = Some a \<Longrightarrow> g y = Some a \<Longrightarrow> x = y"
proof (induction rs)
  case (Cons r rs)
  have "given_values g (r # rs) = (case g r of None \<Rightarrow> [] | Some b \<Rightarrow> [b]) @ given_values g rs"
    by (simp add: given_values_def)
  moreover have "a \<in> set (given_values g rs)" if "z \<in> set rs" "g z = Some a" for z
    using that by (force simp: set_given_values)
  ultimately show ?case using Cons by (auto split: option.splits)
qed simp

lemma given_values_filter: "distinct (given_values g rs) \<Longrightarrow> distinct (given_values g (filter p rs))"
proof (induction rs)
  case (Cons r rs)
  have "set (given_values g (filter p rs)) \<subseteq> set (given_values g rs)"
    by (auto simp: set_given_values)
  with Cons show ?case by (cases "g r") (auto simp: given_values_def)
qed (simp add: given_values_def)

lemma account_le_simps:
  "account_le r r' \<Longrightarrow> sa_id r' = sa_id r" "account_le r r' \<Longrightarrow> sa_tenant r' = sa_tenant r"
  "account_le r r' \<Longrightarrow> sa_prefix r' = sa_prefix r" "account_le r r' \<Longrightarrow> sa_auth_user r' = sa_auth_user r"
  "account_le r r' \<Longrightarrow> sa_scopes r' = sa_scopes r"
  by (simp_all add: account_le_def)

lemma tn_rely_update_accounts:
  assumes le: "\<And>r. p r \<Longrightarrow> account_le r (f r)" and ok: "\<And>r. p r \<Longrightarrow> account_ok r \<Longrightarrow> account_ok (f r)"
  shows "tn_rely d (d\<lparr>service_accounts := upd_where p f (service_accounts d)\<rparr>)"
    (is "tn_rely d ?d")
proof (rule tn_relyI)
  note same = account_le_simps [OF le]
  show "\<forall>r \<in> set (service_accounts d). \<exists>r' \<in> set (service_accounts ?d). account_le r r'"
    using upd_where_le [of "service_accounts d" p account_le f] le by simp
  assume inv: "tn_inv d"
  have "map sa_id (service_accounts ?d) = map sa_id (service_accounts d)"
    by (simp add: map_upd_where same)
  moreover have "given_values sa_prefix (service_accounts ?d) = given_values sa_prefix (service_accounts d)"
    "given_values sa_auth_user (service_accounts ?d) = given_values sa_auth_user (service_accounts d)"
    by (simp_all add: given_values_upd same)
  ultimately have "accounts_ok ?d" using inv by (auto simp: accounts_ok_def tn_inv_def ball_upd_where ok)
  moreover have "tenants_ok ?d"
    using inv same by (auto simp: tn_inv_def tenants_ok_def tenant_exists_def ball_upd_where)
  moreover have "\<exists>a \<in> set (service_accounts ?d). runtime_of q a" if "q \<in> set (partner_provisions d)" for q
  proof -
    from inv that obtain a where a: "a \<in> set (service_accounts d)" "runtime_of q a"
      by (auto simp: tn_inv_def provisions_ok_def)
    with same have "runtime_of q (if p a then f a else a)" by (auto simp: runtime_of_def)
    with in_upd_whereI [OF a(1)] show ?thesis by auto
  qed
  ultimately show "tn_inv ?d" using inv by (simp add: tn_inv_def provisions_ok_def receipts_ok_def)
qed (simp_all add: provision_kept)

lemma tn_rely_insert_account:
  assumes ins: "insert_account row d = Inr d'" and ok: "account_ok row"
  shows "tn_rely d d'"
proof (rule tn_relyI)
  from ins have d': "d' = d\<lparr>service_accounts := service_accounts d @ [row]\<rparr>"
    and fresh: "sa_id row \<notin> sa_id ` set (service_accounts d)" "tenant_exists (sa_tenant row) d"
    "\<And>p. sa_prefix row = Some p \<Longrightarrow> Some p \<notin> sa_prefix ` set (service_accounts d)"
    "\<And>u. sa_auth_user row = Some u \<Longrightarrow> Some u \<notin> sa_auth_user ` set (service_accounts d)"
    unfolding insert_account_def by (auto split: if_splits)
  assume inv: "tn_inv d"
  then have "accounts_ok d'" using fresh ok
    by (auto simp: accounts_ok_def tn_inv_def d' set_given_values split: option.split)
  moreover have "tenants_ok d'" using inv fresh(2) by (auto simp: tn_inv_def tenants_ok_def tenant_exists_def d')
  moreover have "provisions_ok d'" using inv by (auto simp: tn_inv_def provisions_ok_def d')
  ultimately show "tn_inv d'" using inv by (simp add: tn_inv_def receipts_ok_def d')
qed (use ins in \<open>auto simp: insert_account_def account_kept provision_kept split: if_splits\<close>)

lemma tn_rely_insert_tenant:
  assumes "insert_tenant row d = Inr d'"
  shows "tn_rely d d'"
proof (rule tn_relyI)
  from assms have d': "d' = d\<lparr>tenants := tenants d @ [row]\<rparr>"
    and "tn_id row \<notin> tn_id ` set (tenants d)" "tn_slug row \<notin> tn_slug ` set (tenants d)"
    by (auto simp: insert_tenant_def split: if_splits)
  then show "tn_inv d \<Longrightarrow> tn_inv d'"
    by (auto simp: tn_inv_def tenants_ok_def tenant_exists_def accounts_ok_def provisions_ok_def receipts_ok_def)
qed (use assms in \<open>auto simp: insert_tenant_def account_kept provision_kept split: if_splits\<close>)

lemma tn_rely_add_member:
  assumes "tenant_exists (tm_tenant m) d"
  shows "tn_rely d (d\<lparr>tenant_members := tenant_members d @ [m]\<rparr>)"
  using assms
  by (intro tn_relyI) (auto simp: tn_inv_def tenants_ok_def tenant_exists_def accounts_ok_def
      provisions_ok_def receipts_ok_def account_kept provision_kept)

lemma tn_rely_insert_provision:
  assumes ins: "insert_provision p d = Inr d'"
    and may: "\<And>a. a \<in> set (service_accounts d) \<Longrightarrow> sa_id a = pp_account p \<Longrightarrow> restricted (sa_scopes a)"
  shows "tn_rely d d'"
proof (rule tn_relyI)
  from ins have d': "d' = d\<lparr>partner_provisions := partner_provisions d @ [p]\<rparr>"
    and fresh: "\<And>q. q \<in> set (partner_provisions d) \<Longrightarrow> (pp_partner q, pp_ref q) \<noteq> (pp_partner p, pp_ref p)
      \<and> pp_tenant q \<noteq> pp_tenant p \<and> pp_account q \<noteq> pp_account p"
    and "list_ex (\<lambda>a. sa_id a = pp_account p \<and> sa_tenant a = pp_tenant p) (service_accounts d)"
    unfolding insert_provision_def by (auto simp: list_ex_iff split: if_splits)
  then obtain a where a: "a \<in> set (service_accounts d)" "runtime_of p a"
    using may by (auto simp: list_ex_iff runtime_of_def)
  assume inv: "tn_inv d"
  then have "provisions_ok d'" using fresh a by (fastforce simp: tn_inv_def provisions_ok_def d')
  with inv show "tn_inv d'"
    by (simp add: tn_inv_def tenants_ok_def tenant_exists_def accounts_ok_def receipts_ok_def d')
qed (use ins in \<open>auto simp: insert_provision_def account_kept provision_kept split: if_splits\<close>)

lemma distinct_moved:
  assumes "distinct (map (\<lambda>p. (pp_partner p, pp_ref p)) qs)" and "distinct (map pp_account qs)"
    and "\<And>q. q \<in> set qs \<Longrightarrow> pp_account q = aid \<Longrightarrow> pp_partner q = partner \<and> pp_ref q = ref"
  shows "distinct (map pp_account (upd_where (\<lambda>q. pp_partner q = partner \<and> pp_ref q = ref)
    (\<lambda>q. q\<lparr>pp_account := aid\<rparr>) qs))"
  using assms
proof (induction qs)
  case (Cons q qs)
  have IH: "distinct (map pp_account (upd_where (\<lambda>q. pp_partner q = partner \<and> pp_ref q = ref)
    (\<lambda>q. q\<lparr>pp_account := aid\<rparr>) qs))"
    by (rule Cons.IH) (use Cons.prems in auto)
  show ?case
  proof (cases "pp_partner q = partner \<and> pp_ref q = ref")
    case True
    have "\<not> (pp_partner r = partner \<and> pp_ref r = ref)" if "r \<in> set qs" for r
      using Cons.prems(1) True that by (metis (mono_tags, lifting) distinct.simps(2) image_eqI list.simps(9) set_map)
    note other = this
    then have "upd_where (\<lambda>q. pp_partner q = partner \<and> pp_ref q = ref) (\<lambda>q. q\<lparr>pp_account := aid\<rparr>) qs = qs"
      by (intro upd_where_none) (simp add: list_ex_iff)
    moreover have "aid \<notin> pp_account ` set qs"
    proof
      assume "aid \<in> pp_account ` set qs"
      then obtain r where "r \<in> set qs" "pp_account r = aid" by auto
      with Cons.prems(3) [of r] other [of r] show False by simp
    qed
    ultimately show ?thesis using Cons.prems(2) True by (simp add: table_simps)
  next
    case False
    with Cons.prems(3) [of q] have "pp_account q \<noteq> aid" by auto
    with Cons.prems(2) have "pp_account q \<notin> pp_account ` set (upd_where (\<lambda>q. pp_partner q = partner \<and> pp_ref q = ref)
      (\<lambda>q. q\<lparr>pp_account := aid\<rparr>) qs)"
      by (auto simp: set_upd_where)
    with IH False show ?thesis by (auto simp: table_simps)
  qed
qed (simp add: table_simps)

lemma tn_rely_move_provision:
  assumes mv: "move_provision partner ref aid d = Inr d'"
    and runtime: "\<And>q. q \<in> set (partner_provisions d) \<Longrightarrow> pp_partner q = partner \<Longrightarrow> pp_ref q = ref \<Longrightarrow>
      \<exists>a \<in> set (service_accounts d). runtime_of (q\<lparr>pp_account := aid\<rparr>) a"
  shows "tn_rely d d'"
proof (rule tn_relyI)
  let ?hit = "\<lambda>q. pp_partner q = partner \<and> pp_ref q = ref"
  let ?f = "\<lambda>q. q\<lparr>pp_account := aid\<rparr>"
  from mv have d': "d' = d\<lparr>partner_provisions := upd_where ?hit ?f (partner_provisions d)\<rparr>"
    and clash: "\<And>q. q \<in> set (partner_provisions d) \<Longrightarrow> pp_account q = aid \<Longrightarrow> ?hit q"
    unfolding move_provision_def by (auto simp: list_ex_iff split: if_splits)
  show "\<forall>p \<in> set (partner_provisions d). \<exists>p' \<in> set (partner_provisions d'). provision_le p p'"
    using upd_where_le [of "partner_provisions d" ?hit provision_le ?f]
    by (simp add: d' provision_le_def)
  assume inv: "tn_inv d"
  then have ok: "provisions_ok d" by (simp add: tn_inv_def)
  have "distinct (map pp_account (partner_provisions d'))"
    unfolding d' using ok clash by (simp add: provisions_ok_def distinct_moved)
  moreover have "map pp_tenant (partner_provisions d') = map pp_tenant (partner_provisions d)"
    "map (\<lambda>p. (pp_partner p, pp_ref p)) (partner_provisions d') = map (\<lambda>p. (pp_partner p, pp_ref p)) (partner_provisions d)"
    by (simp_all add: d' map_upd_where)
  moreover have "\<forall>p \<in> set (partner_provisions d'). \<exists>a \<in> set (service_accounts d). runtime_of p a"
    using ok runtime by (auto simp: d' ball_upd_where provisions_ok_def)
  ultimately have "provisions_ok d'" using ok by (simp add: provisions_ok_def d')
  with inv show "tn_inv d'"
    by (simp add: tn_inv_def tenants_ok_def tenant_exists_def accounts_ok_def receipts_ok_def d')
qed (use mv in \<open>auto simp: move_provision_def account_kept split: if_splits\<close>)

subsection \<open>Accounts, tenants and authentication\<close>

lemma safe_no_op: "safe tn_inv tn_rely no_op"
  unfolding no_op_def by (rule tn.safe_stmt) (auto intro: tn_rely_refl)

lemma safe_require_account_admin: "safe tn_inv tn_rely (require_account_admin user tenant roles)"
  unfolding require_account_admin_def
  by (intro keeps_intros tnc.safe_require_member safe_no_op TrueI)

lemma safe_create_tenant: "safe tn_inv tn_rely (create_tenant slug name owner directory)"
proof -
  have "tn_rely d (d1\<lparr>tenant_members := tenant_members d1 @ [m]\<rparr>)"
    if ins: "insert_tenant row d = Inr d1" and m: "tm_tenant m = tn_id row" for row d d1 m
  proof -
    from ins have "tn_id row \<in> tn_id ` set (tenants d1)" by (auto simp: insert_tenant_def split: if_splits)
    with m have "tenant_exists (tm_tenant m) d1" by (simp add: tenant_exists_def)
    from tn_rely_trans [OF tn_rely_insert_tenant [OF ins] tn_rely_add_member [OF this]] show ?thesis .
  qed
  then show ?thesis unfolding create_tenant_def
    by (intro keeps_intros tn.safe_stmt TrueI) (fastforce simp: Let_def split: sum.splits)
qed

lemma safe_touch_last_used: "safe tn_inv tn_rely (touch_last_used aid)"
  unfolding touch_last_used_def
  by (rule tn.safe_stmt) (auto intro!: tn_rely_update_accounts simp: account_le_def account_ok_def)

lemma safe_authenticate_opaque: "safe tn_inv tn_rely (authenticate_opaque env prefix token)"
  unfolding authenticate_opaque_def
  by (intro keeps_intros tn.safe_query safe_touch_last_used TrueI)

lemma safe_authenticate_erased_opaque: "safe tn_inv tn_rely (authenticate_erased_opaque env tenant prefix token)"
  unfolding authenticate_erased_opaque_def by (intro keeps_intros tn.safe_query TrueI)

lemma safe_authenticate_auth_user: "safe tn_inv tn_rely (authenticate_auth_user u)"
  unfolding authenticate_auth_user_def by (intro keeps_intros tn.safe_query safe_touch_last_used TrueI)

lemma account_ok_new: "account_ok (new_account aid tenant name sub key au scopes creator t)"
  by (simp add: account_ok_def new_account_def)

lemma safe_store_account:
  "(\<And>t. account_ok (mk t)) \<Longrightarrow> safe tn_inv tn_rely (store_account mk)"
  unfolding store_account_def
  by (intro keeps_intros tn.safe_stmt TrueI) (auto split: sum.splits intro!: tn_rely_insert_account)

lemma safe_create_service_account: "safe tn_inv tn_rely (create_service_account env user q)"
  unfolding create_service_account_def Let_def
  by (intro keeps_intros safe_require_account_admin safe_store_account account_ok_new
      tnc.safe_record_required TrueI)

lemma safe_list_service_accounts: "safe tn_inv tn_rely (list_service_accounts user tenant)"
  unfolding list_service_accounts_def by (intro keeps_intros safe_require_account_admin tn.safe_query TrueI)

lemma safe_revoke_service_account: "safe tn_inv tn_rely (revoke_service_account user tenant aid)"
  unfolding revoke_service_account_def
  by (intro keeps_intros safe_require_account_admin tn.safe_stmt tnc.safe_record_required TrueI)
    (auto simp: revoke_account_stmt_def Let_def account_le_def account_ok_def
      intro!: tn_rely_update_accounts split: option.splits)

lemma safe_get_current_user: "safe tn_inv tn_rely (get_current_user env rq creds)"
proof -
  have "safe tn_inv tn_rely (authenticate_opaque_service env rq token)" for token
    unfolding authenticate_opaque_service_def Let_def
    by (intro keeps_intros safe_authenticate_opaque safe_authenticate_erased_opaque TrueI)
  moreover have "safe tn_inv tn_rely (bind_jwt_service_principal p)" for p
    unfolding bind_jwt_service_principal_def Let_def
    by (intro keeps_intros safe_authenticate_auth_user TrueI)
  moreover have "safe tn_inv tn_rely (finalize_principal env u)" for u
    unfolding finalize_principal_def by (intro keeps_intros TrueI)
  ultimately have "safe tn_inv tn_rely (authenticate_bearer env rq token)" for token
    unfolding authenticate_bearer_def by (intro keeps_intros TrueI)
  then show ?thesis unfolding get_current_user_def
    by (auto intro!: keeps_intros split: option.split prod.split exn.split)
qed

subsection \<open>Provisioning\<close>

lemma insert_account_fields:
  assumes "insert_account row d = Inr d'"
  shows "service_accounts d' = service_accounts d @ [row]" "tenants d' = tenants d"
    "partner_provisions d' = partner_provisions d" "now d' = now d"
    "sa_id row \<notin> sa_id ` set (service_accounts d)" "tenant_exists (sa_tenant row) d"
  using assms by (auto simp: insert_account_def split: if_splits)

lemma mint_runtime_row:
  assumes "mint_runtime tenant key minted scopes aid d = Inr (row, d')"
  shows "tn_rely d d'" "service_accounts d' = service_accounts d @ [row]" "sa_id row = aid"
    "sa_tenant row = tenant" "sa_scopes row = scopes" "partner_provisions d' = partner_provisions d"
    "aid \<notin> sa_id ` set (service_accounts d)" "sa_hash row = Some (snd (snd minted))"
    "sa_prefix row = Some (fst (snd minted))" "account_live row" "tenants d' = tenants d"
proof -
  from assms have ins: "insert_account row d = Inr d'"
    and row: "row = new_account aid tenant (take 128 (key @ ''-runtime'')) key (Some (snd minted)) None scopes
      None (now d)"
    by (auto simp: mint_runtime_def Let_def split: sum.splits)
  show "tn_rely d d'" by (rule tn_rely_insert_account [OF ins]) (simp add: row account_ok_new)
  show "service_accounts d' = service_accounts d @ [row]" "partner_provisions d' = partner_provisions d"
    "tenants d' = tenants d" by (rule insert_account_fields [OF ins])+
  show "sa_id row = aid" "sa_tenant row = tenant" "sa_scopes row = scopes"
    "sa_hash row = Some (snd (snd minted))" "sa_prefix row = Some (fst (snd minted))" "account_live row"
    by (simp_all add: row new_account_def account_live_def)
  with insert_account_fields(5) [OF ins] show "aid \<notin> sa_id ` set (service_accounts d)" by simp
qed

lemma minted_view_db:
  "minted_view created tenant minted row d = Inr (v, d') \<Longrightarrow> d' = d \<and> pv_account v = (public_row row)\<lparr>av_token := Some (fst minted)\<rparr>
     \<and> pv_created v = created \<and> pv_reminted v = (\<not> created)"
  by (auto simp: minted_view_def split: option.splits)

lemma tn_rely_audit: "tn_rely d (add_audit r d)"
  by (rule tn_rely_frame) (auto simp: add_audit_def)

lemma tn_rely_revoke_provisioned: "tn_rely d (revoke_provisioned p d)"
  unfolding revoke_provisioned_def
  by (rule tn_rely_update_accounts) (auto simp: account_le_def account_ok_def)

lemma tn_rely_remint:
  assumes run: "remint_provision key ref scopes minted aid p d = Inr (v, d')"
    and p: "first_row (\<lambda>p. pp_partner p = key \<and> pp_ref p = ref) (partner_provisions d) = Some p"
    and scopes: "restricted scopes" and inv: "tn_inv d"
  shows "tn_rely d d'"
proof -
  from run obtain row d1 d2 where
    mint: "mint_runtime (pp_tenant p) key minted scopes aid (revoke_provisioned p d) = Inr (row, d1)"
    and mv: "move_provision key ref aid d1 = Inr d2"
    and d': "d' = add_audit (provision_audit key ref (pp_tenant p) False True aid) d2"
    by (auto simp: remint_provision_def split: sum.splits prod.splits dest!: minted_view_db)
  note m = mint_runtime_row [OF mint]
  have "\<exists>a \<in> set (service_accounts d1). runtime_of (q\<lparr>pp_account := aid\<rparr>) a"
    if q: "q \<in> set (partner_provisions d1)" "pp_partner q = key" "pp_ref q = ref" for q
  proof -
    from p have "p \<in> set (partner_provisions d)" "pp_partner p = key" "pp_ref p = ref"
      by (auto dest: first_row_SomeD)
    moreover have "q \<in> set (partner_provisions d)" using q m(6) by (simp add: revoke_provisioned_def)
    moreover have "distinct (map (\<lambda>p. (pp_partner p, pp_ref p)) (partner_provisions d))"
      using inv by (simp add: tn_inv_def provisions_ok_def)
    ultimately have "q = p" using q by (auto dest: distinct_map_eqD [of _ _ q p])
    then have "runtime_of (q\<lparr>pp_account := aid\<rparr>) row" using m(3-5) scopes by (simp add: runtime_of_def)
    with m(2) show ?thesis by auto
  qed
  from tn_rely_move_provision [OF mv this]
  show ?thesis unfolding d'
    by (blast intro: tn_rely_trans tn_rely_revoke_provisioned m(1) tn_rely_audit)
qed

lemma tn_rely_create_provision:
  assumes run: "create_provision key ref slug name scopes minted ids d = Inr (v, d')"
    and scopes: "restricted scopes"
  shows "tn_rely d d'"
proof -
  obtain tid aid pid where ids: "ids = (tid, aid, pid)" by (cases ids)
  from run obtain row d1 d2 d3 where
    ins: "insert_tenant \<lparr>tn_id = tid, tn_slug = slug, tn_name = name, tn_directory = None,
      tn_created = now d\<rparr> d = Inr d1" and mint: "mint_runtime tid key minted scopes aid d1 = Inr (row, d2)"
    and prov: "insert_provision \<lparr>pp_id = pid, pp_partner = key, pp_ref = ref, pp_tenant = tid, pp_account = aid\<rparr> d2 = Inr d3"
    and d': "d' = add_audit (provision_audit key ref tid True False aid) d3"
    by (auto simp: create_provision_def ids split: sum.splits prod.splits dest!: minted_view_db)
  note m = mint_runtime_row [OF mint]
  have "tn_rely d2 d3"
    by (rule tn_rely_insert_provision [OF prov]) (use m(2-5,7) scopes in auto)
  with m(1) tn_rely_insert_tenant [OF ins] show ?thesis unfolding d'
    by (blast intro: tn_rely_trans tn_rely_audit)
qed

lemma provision_plan_restricted:
  "provision_plan env q key ref = Inr (slug, name, scopes) \<Longrightarrow> restricted scopes"
  by (auto simp: provision_plan_def restricted_def split: sum.splits if_splits)

lemma tn_rely_provision:
  assumes "provision_stmt q key ref slug name scopes minted ids d = Inr (v, d')"
    and "restricted scopes" and "tn_inv d"
  shows "tn_rely d d'"
  using assms
  by (auto simp: provision_stmt_def tn_rely_refl split: option.splits if_splits sum.splits
      intro: tn_rely_remint tn_rely_create_provision)

text \<open>After a check that passed, its result may be used.\<close>

lemma safe_bind_lift:
  assumes "\<And>a. r = Inr a \<Longrightarrow> safe I R (f a)"
  shows "safe I R (bindM (lift r) f)"
proof (cases r)
  case (Inl e)
  then have "bindM (lift r) f = raise e" by (auto simp: bindM_def lift_def raise_def)
  then show ?thesis by (simp only: keeps_raise)
next
  case (Inr a)
  then have "bindM (lift r) f = f a" by (auto simp: bindM_def lift_def)
  with assms [OF Inr] show ?thesis by simp
qed

lemma safe_provision: "safe tn_inv tn_rely (provision_partner_tenant env q)"
proof -
  have "safe tn_inv tn_rely (stmt (provision_stmt q key ref slug name scopes minted ids) :: provision_view tn_prog)"
    if "provision_plan env q key ref = Inr (slug, name, scopes)" for key ref slug name scopes minted ids
    by (rule tn.safe_stmt) (use provision_plan_restricted [OF that] in \<open>blast intro: tn_rely_provision\<close>)
  then show ?thesis unfolding provision_partner_tenant_def ensure_secure_schema_def
    by (intro safe_bind_lift keeps_case_prod safe_bind [OF tnc.safe_ensure_schema])
      (intro safe_bind keeps_receive keeps_uuid4 TrueI, simp)
qed

end
