(* ===== verification/Erase_Safety.thy ===== *)
theory Erase_Safety
  imports Accounts_Safety
begin

section \<open>What an erase leaves\<close>

text \<open>
  The loop over the tables of \<open>Erase\<close> in closed form (\<open>without_tenant\<close>, \<open>rows_of\<close>), the effect of the
  whole transaction, and the proof that it keeps the protocol of \<open>Accounts_Safety\<close>.
\<close>

definition keep_data :: "uuid \<Rightarrow> string set \<Rightarrow> (string \<times> data_row list) list \<Rightarrow> (string \<times> data_row list) list" where
  "keep_data tenant names ts =
     map (\<lambda>(n, rs). (n, if n \<in> names \<and> n \<noteq> ''service_accounts'' then other_data tenant rs else rs)) ts"

text \<open>The database without the tenant's rows in the named tables.\<close>

definition without_tenant :: "uuid \<Rightarrow> string set \<Rightarrow> tn_db \<Rightarrow> tn_db" where
  "without_tenant tenant names d =
     (if ''service_accounts'' \<in> names then drop_accounts tenant d else d)
       \<lparr>data_tables := keep_data tenant names (data_tables d)\<rparr>"

definition rows_of :: "uuid \<Rightarrow> tn_db \<Rightarrow> string \<Rightarrow> nat" where
  "rows_of tenant d name =
     (if name = ''service_accounts'' then length (filter (\<lambda>r. sa_tenant r = tenant) (service_accounts d))
      else case map_of (data_tables d) name of None \<Rightarrow> 0 | Some rs \<Rightarrow> length (own_data tenant rs))"

definition counted_rows :: "uuid \<Rightarrow> tn_db \<Rightarrow> string list \<Rightarrow> counts" where
  "counted_rows tenant d names = filter (\<lambda>p. snd p \<noteq> 0) (map (\<lambda>n. (n, rows_of tenant d n)) names)"

lemma other_data_idem: "other_data t (other_data t rs) = other_data t rs"
  by (simp add: other_data_def)

lemma map_of_keep_data:
  "map_of (keep_data t N ts) n = map_option (\<lambda>rs. if n \<in> N \<and> n \<noteq> ''service_accounts'' then other_data t rs else rs)
     (map_of ts n)"
  by (induction ts) (auto simp: keep_data_def)

lemma keep_data_insert:
  "n \<noteq> ''service_accounts'' \<Longrightarrow>
   map (\<lambda>(m, rs). (m, if m = n then other_data t rs else rs)) (keep_data t N ts) = keep_data t (insert n N) ts"
  by (auto simp: keep_data_def other_data_idem)

lemma keep_data_absent:
  "map_of ts n = None \<Longrightarrow> keep_data t (insert n N) ts = keep_data t N ts"
  by (auto simp: keep_data_def map_of_eq_None_iff image_iff intro!: map_cong)

lemma erase_table_without:
  "snd (erase_table t n (cs, without_tenant t N d)) = without_tenant t (insert n N) d"
proof (cases "n = ''service_accounts''")
  case True
  have "keep_data t (insert n N) ts = keep_data t N ts" for ts
    by (auto simp: keep_data_def True)
  with True show ?thesis
    by (auto simp: erase_table_def without_tenant_def drop_accounts_def)
next
  case False
  show ?thesis
  proof (cases "map_of (data_tables d) n")
    case None
    then have "keep_data t (insert n N) (data_tables d) = keep_data t N (data_tables d)"
      by (rule keep_data_absent)
    with None False show ?thesis by (auto simp: erase_table_def without_tenant_def map_of_keep_data)
  next
    case (Some rs)
    then show ?thesis
      using keep_data_insert [OF False, of t N "data_tables d"] False
      by (auto simp: erase_table_def without_tenant_def map_of_keep_data drop_accounts_def)
  qed
qed

lemma erase_table_counts:
  assumes "n \<notin> N"
  shows "fst (erase_table t n (cs, without_tenant t N d)) = cs @ counted_rows t d [n]"
proof (cases "n = ''service_accounts''")
  case True
  with assms show ?thesis
    by (auto simp: erase_table_def without_tenant_def counted_rows_def rows_of_def counted_def)
next
  case False
  with assms show ?thesis
    by (auto simp: erase_table_def without_tenant_def counted_rows_def rows_of_def counted_def
        map_of_keep_data split: option.splits)
qed

lemma erase_loop:
  assumes "distinct names" and "set names \<inter> N = {}"
  shows "foldl (\<lambda>cd n. erase_table t n cd) (cs, without_tenant t N d) names
    = (cs @ counted_rows t d names, without_tenant t (set names \<union> N) d)"
  using assms
proof (induction names arbitrary: cs N)
  case (Cons n names)
  have "erase_table t n (cs, without_tenant t N d) = (cs @ counted_rows t d [n], without_tenant t (insert n N) d)"
    using erase_table_without [of t n cs N d] erase_table_counts [of n N t cs d] Cons.prems(2)
    by (metis Int_iff empty_iff list.set_intros(1) prod.collapse)
  with Cons.IH [of "insert n N" "cs @ counted_rows t d [n]"] Cons.prems show ?case
    by (simp add: counted_rows_def Un_commute insert_commute)
qed (simp add: counted_rows_def)

lemma without_tenant_empty: "without_tenant t {} d = d"
  by (simp add: without_tenant_def keep_data_def split_def)

lemma distinct_erase_tables: "distinct erase_tables"
  by code_simp

lemma accounts_erased: "''service_accounts'' \<in> set erase_tables"
  by code_simp

lemma erase_tables_loop:
  "foldl (\<lambda>cd n. erase_table t n cd) (cs, d) erase_tables
   = (cs @ counted_rows t d erase_tables, without_tenant t (set erase_tables) d)"
  using erase_loop [OF distinct_erase_tables, of "{}" t cs d] by (simp add: without_tenant_empty)

subsection \<open>The transaction\<close>

text \<open>The rows after a completed erase, the receipt apart.\<close>

definition outbox_left :: "uuid \<Rightarrow> outbox_row list option \<Rightarrow> outbox_row list option" where
  "outbox_left t = map_option (filter (\<lambda>r. \<not> outbox_of t r))"

definition batches_left :: "uuid \<Rightarrow> uuid list list option \<Rightarrow> uuid list list option" where
  "batches_left t = map_option (filter (\<lambda>ts. t \<notin> set ts))"

lemma erase_batches_db:
  "snd (erase_batches t (cs, d)) = d\<lparr>processing_tenants := batches_left t (processing_tenants d)\<rparr>"
  by (auto simp: erase_batches_def batches_left_def split: option.splits)

lemma erase_outbox_db:
  "snd (erase_outbox t (cs, d)) = d\<lparr>outbox_events := outbox_left t (outbox_events d)\<rparr>"
  by (auto simp: erase_outbox_def outbox_left_def split: option.splits)

lemma without_tenant_outbox [simp]: "outbox_events (without_tenant t N d) = outbox_events d"
  by (simp add: without_tenant_def drop_accounts_def)

lemma erase_rows_fields:
  fixes t n cs d
  defines "e \<equiv> erase_rows t n (cs, d)"
  shows "now e = now d" "schema_ready e = schema_ready d" "audit_events e = audit_events d"
    "tenants e = filter (\<lambda>x. tn_id x \<noteq> t) (tenants d)"
    "tenant_members e = filter (\<lambda>m. tm_tenant m \<noteq> t) (tenant_members d)"
    "service_accounts e = filter (\<lambda>r. sa_tenant r \<noteq> t) (service_accounts d)"
    "partner_provisions e = filter (\<lambda>p. pp_tenant p \<noteq> t) (partner_provisions d)"
    "data_tables e = keep_data t (set erase_tables) (data_tables d)"
    "outbox_events e = outbox_left t (outbox_events d)"
    "processing_tenants e = processing_tenants d"
    "artifact_files e = artifact_files d" "artifact_objects e = artifact_objects d"
    "\<exists>cs'. erase_receipts e = upd_where (\<lambda>r. er_tenant r = t)
       (\<lambda>r. r\<lparr>er_status := Erase_completed, er_counts := cs', er_completed := Some (now d)\<rparr>) (erase_receipts d)"
proof -
  obtain cs1 where loop: "foldl (\<lambda>cd n. erase_table t n cd) (counted ''stored_artifacts'' n cs, d) erase_tables
      = (cs1, without_tenant t (set erase_tables) d)"
    by (simp add: erase_tables_loop)
  obtain cs2 where out: "erase_outbox t (cs1, without_tenant t (set erase_tables) d)
      = (cs2, (without_tenant t (set erase_tables) d)\<lparr>outbox_events := outbox_left t (outbox_events d)\<rparr>)"
    using erase_outbox_db [of t cs1 "without_tenant t (set erase_tables) d"]
    by (metis prod.collapse without_tenant_outbox)
  have e: "\<exists>cs'. e = (without_tenant t (set erase_tables) d)
      \<lparr>outbox_events := outbox_left t (outbox_events d),
       tenant_members := filter (\<lambda>m. tm_tenant m \<noteq> t) (tenant_members d),
       tenants := filter (\<lambda>x. tn_id x \<noteq> t) (tenants d),
       erase_receipts := upd_where (\<lambda>r. er_tenant r = t)
         (\<lambda>r. r\<lparr>er_status := Erase_completed, er_counts := cs', er_completed := Some (now d)\<rparr>) (erase_receipts d)\<rparr>"
    unfolding e_def erase_rows_def loop prod.case out erase_tenant_row_def complete_receipt_def
    by (rule exI [where x = "counted ''tenant_members'' (length (filter (\<lambda>m. tm_tenant m = t) (tenant_members d))) cs2
        @ [(''tenants'', length (filter (\<lambda>x. tn_id x = t) (tenants d)))]"])
      (simp add: without_tenant_def drop_accounts_def)
  show "now e = now d" "schema_ready e = schema_ready d" "audit_events e = audit_events d"
    "tenants e = filter (\<lambda>x. tn_id x \<noteq> t) (tenants d)"
    "tenant_members e = filter (\<lambda>m. tm_tenant m \<noteq> t) (tenant_members d)"
    "service_accounts e = filter (\<lambda>r. sa_tenant r \<noteq> t) (service_accounts d)"
    "partner_provisions e = filter (\<lambda>p. pp_tenant p \<noteq> t) (partner_provisions d)"
    "data_tables e = keep_data t (set erase_tables) (data_tables d)"
    "outbox_events e = outbox_left t (outbox_events d)"
    "processing_tenants e = processing_tenants d"
    "artifact_files e = artifact_files d" "artifact_objects e = artifact_objects d"
    "\<exists>cs'. erase_receipts e = upd_where (\<lambda>r. er_tenant r = t)
       (\<lambda>r. r\<lparr>er_status := Erase_completed, er_counts := cs', er_completed := Some (now d)\<rparr>) (erase_receipts d)"
    using e by (auto simp: without_tenant_def accounts_erased drop_accounts_def)
qed

lemma unlink_files_subset:
  "unlink_files env a keys n acc files = (x, files') \<Longrightarrow> set files' \<subseteq> set files"
proof (induction env a keys n acc files rule: unlink_files.induct)
  case (2 env a key keys n acc files)
  then show ?case by (auto simp: Let_def split: if_splits option.splits)
qed simp

lemma delete_batches_subset: "delete_batches a k keys objs = (x, objs') \<Longrightarrow> set objs' \<subseteq> set objs"
proof (induction a k keys objs rule: delete_batches.induct)
  case (1 a k keys objs)
  show ?case
  proof (cases "keys = [] \<or> an_objects a k \<noteq> []")
    case True
    with 1(2) show ?thesis
      by (auto simp: delete_batches.simps [of a k keys objs] Let_def split: if_splits)
  next
    case False
    let ?left = "filter (\<lambda>x. x \<notin> set (take 1000 keys) \<or> x \<in> fst ` set (an_objects a k)) objs"
    from False 1(2) have "delete_batches a (Suc k) (drop 1000 keys) ?left = (x, objs')"
      by (simp add: delete_batches.simps [of a k keys objs] Let_def)
    with 1(1) [OF _ refl refl refl] False have "set objs' \<subseteq> set ?left" by blast
    then show ?thesis by auto
  qed
qed

lemma delete_artifacts_subset:
  assumes "delete_artifacts env a keys d = (r, d')"
  shows "set (artifact_files d') \<subseteq> set (artifact_files d) \<and> set (artifact_objects d') \<subseteq> set (artifact_objects d)"
proof -
  have objs: "delete_objects a acc objs = (y, objs') \<Longrightarrow> set objs' \<subseteq> set objs" for acc y objs objs'
    unfolding delete_objects_def by (rule delete_batches_subset)
  obtain x files where u: "unlink_files env a (unique_keys keys) 0 [] (artifact_files d) = (x, files)" by force
  with assms unlink_files_subset [OF u] objs show ?thesis
    unfolding delete_artifacts_def Let_def by (cases x) (fastforce split: sum.splits prod.splits if_splits)+
qed

lemma delete_artifacts_frame:
  "delete_artifacts env a keys d = (r, d') \<Longrightarrow>
   \<exists>files objs. d' = d\<lparr>artifact_files := files, artifact_objects := objs\<rparr>"
proof -
  assume run: "delete_artifacts env a keys d = (r, d')"
  then have "d' = d\<lparr>artifact_files := artifact_files d', artifact_objects := artifact_objects d'\<rparr>"
    by (auto simp: delete_artifacts_def Let_def split: prod.splits sum.splits if_splits)
  then show ?thesis by blast
qed

definition cred_ok :: "string option \<times> string option \<Rightarrow> bool" where
  "cred_ok cred \<longleftrightarrow> (fst cred = None \<longleftrightarrow> snd cred = None) \<and> (\<forall>h. snd cred = Some h \<longrightarrow> length h = 64)"

lemma credential_tombstone_ok: "credential_tombstone u = Inr cred \<Longrightarrow> cred_ok cred"
  by (auto simp: credential_tombstone_def cred_ok_def split: option.splits if_splits)

lemma open_receipt_db:
  assumes "open_receipt t actor cred d = Inr d1"
  shows "d1 = d\<lparr>erase_receipts := erase_receipts d1\<rparr>"
    and "\<exists>r \<in> set (erase_receipts d1). er_tenant r = t"
    and "\<And>r. r \<in> set (erase_receipts d) \<Longrightarrow> er_tenant r \<noteq> t \<Longrightarrow> r \<in> set (erase_receipts d1)"
    and "\<And>r. r \<in> set (erase_receipts d1) \<Longrightarrow> er_tenant r \<noteq> t \<Longrightarrow> r \<in> set (erase_receipts d)"
proof -
  let ?hit = "\<lambda>r. er_tenant r = t \<and> er_status r \<noteq> Erase_completed"
  let ?f = "\<lambda>r. r\<lparr>er_requested_by := actor, er_prefix := or_else (fst cred) (er_prefix r),
    er_hash := or_else (snd cred) (er_hash r)\<rparr>"
  let ?q = "\<lparr>er_tenant = t, er_requested_by = actor, er_status = Erase_pending, er_counts = [],
    er_prefix = fst cred, er_hash = snd cred, er_completed = None\<rparr>"
  have alts: "(list_ex (\<lambda>r. er_tenant r = t) (erase_receipts d)
        \<and> d1 = d\<lparr>erase_receipts := upd_where ?hit ?f (erase_receipts d)\<rparr>)
      \<or> d1 = d\<lparr>erase_receipts := erase_receipts d @ [?q]\<rparr>"
    using assms by (auto simp: open_receipt_def split: if_splits)
  then show "d1 = d\<lparr>erase_receipts := erase_receipts d1\<rparr>" by auto
  have "map er_tenant (upd_where ?hit ?f (erase_receipts d)) = map er_tenant (erase_receipts d)"
    by (rule map_upd_where) simp
  from arg_cong [OF this, of set] alts have "t \<in> er_tenant ` set (erase_receipts d1)"
    by (elim disjE conjE) (auto simp: list_ex_iff)
  then show "\<exists>r \<in> set (erase_receipts d1). er_tenant r = t" by auto
  show "r \<in> set (erase_receipts d1)" if "r \<in> set (erase_receipts d)" "er_tenant r \<noteq> t" for r
    using alts that by (auto simp: set_upd_where image_iff)
  show "r \<in> set (erase_receipts d)" if "r \<in> set (erase_receipts d1)" "er_tenant r \<noteq> t" for r
    using alts that by (auto simp: set_upd_where)
qed

text \<open>One tenant's row changes, and its new credential hash is nobody else's.\<close>

lemma distinct_given_upd:
  assumes "distinct (given_values g rs)" and "distinct (map k rs)"
    and "\<And>r. r \<in> set rs \<Longrightarrow> p r \<Longrightarrow> k r = t \<and> (g (f r) = g r \<or> (\<exists>h. g (f r) = Some h \<and> (\<forall>x \<in> set rs. k x \<noteq> t \<longrightarrow> g x \<noteq> Some h)))"
  shows "distinct (given_values g (upd_where p f rs))"
  using assms
proof (induction rs)
  case (Cons r rs)
  have split: "given_values g (x # xs) = (case g x of None \<Rightarrow> [] | Some a \<Rightarrow> [a]) @ given_values g xs" for x xs
    by (simp add: given_values_def)
  have IH: "distinct (given_values g (upd_where p f rs))"
    using Cons.prems Cons.IH by (auto simp: split)
  let ?r = "if p r then f r else r"
  have "a \<notin> set (given_values g (upd_where p f rs))" if a: "g ?r = Some a" for a
  proof
    assume "a \<in> set (given_values g (upd_where p f rs))"
    then obtain x where x: "x \<in> set rs" "g (if p x then f x else x) = Some a"
      by (force simp: set_given_values set_upd_where image_iff split: if_splits)
    have "k x \<noteq> k r" using imageI [OF x(1), of k] Cons.prems(2) by auto
    moreover have "g x \<noteq> Some a \<or> g r \<noteq> Some a"
      using x(1) Cons.prems(1) by (force simp: split set_given_values)
    ultimately show False
      using a x Cons.prems(3) [of r] Cons.prems(3) [of x] by (auto split: if_splits)
  qed
  with IH show ?case by (auto simp: table_simps split split: option.splits)
qed (simp add: given_values_def table_simps)

lemma receipts_ok_open:
  assumes op: "open_receipt t actor cred d = Inr d1" and cred: "cred_ok cred" and ok: "receipts_ok d"
  shows "receipts_ok d1"
proof -
  let ?hit = "\<lambda>r. er_tenant r = t \<and> er_status r \<noteq> Erase_completed"
  let ?f = "\<lambda>r. r\<lparr>er_requested_by := actor, er_prefix := or_else (fst cred) (er_prefix r),
    er_hash := or_else (snd cred) (er_hash r)\<rparr>"
  from ok have d: "distinct (map er_tenant (erase_receipts d))" "distinct (given_values er_hash (erase_receipts d))"
    by (simp_all add: receipts_ok_def)
  from op have fresh: "\<And>x h. x \<in> set (erase_receipts d) \<Longrightarrow> snd cred = Some h \<Longrightarrow> er_tenant x \<noteq> t \<Longrightarrow> er_hash x \<noteq> Some h"
    by (auto simp: open_receipt_def list_ex_iff split: if_splits)
  have tenants: "distinct (map er_tenant (erase_receipts d1))"
    using op d(1)
    by (auto simp: open_receipt_def distinct_map_upd_where list_ex_iff split: if_splits)
  have "distinct (given_values er_hash (upd_where ?hit ?f (erase_receipts d)))"
    by (rule distinct_given_upd [OF d(2,1), where t = t])
      (use fresh in \<open>auto simp: or_else_def split: option.split\<close>)
  moreover have "snd cred = Some h \<Longrightarrow> \<not> list_ex (\<lambda>r. er_tenant r = t) (erase_receipts d) \<Longrightarrow>
      Some h \<notin> er_hash ` set (erase_receipts d)" for h
  proof
    assume h: "snd cred = Some h" "\<not> list_ex (\<lambda>r. er_tenant r = t) (erase_receipts d)"
      and "Some h \<in> er_hash ` set (erase_receipts d)"
    then obtain x where x: "x \<in> set (erase_receipts d)" "er_hash x = Some h" by (metis imageE)
    with h(2) have "er_tenant x \<noteq> t" by (auto simp: list_ex_iff)
    from fresh [OF x(1) h(1) this] x(2) show False by simp
  qed
  ultimately have hashes: "distinct (given_values er_hash (erase_receipts d1))"
    using op d(2)
    by (auto simp: open_receipt_def set_given_values split: if_splits option.splits)
  have "receipt_ok r" if "r \<in> set (erase_receipts d1)" for r
    using op cred ok that
    by (auto simp: open_receipt_def receipts_ok_def receipt_ok_def cred_ok_def or_else_def set_upd_where
        split: if_splits option.splits)
  with tenants hashes show ?thesis by (simp add: receipts_ok_def)
qed

lemma completed_receipt_None: "completed_receipt t d = None \<longleftrightarrow> \<not> erased t d"
  by (auto simp: completed_receipt_def first_row_None_iff erased_def)

text \<open>The three ways a transaction ends.\<close>

lemma erase_tx_cases:
  assumes run: "erase_tx env a actor cred t d = (r, d')"
  obtains (replay) q where "completed_receipt t d = Some q" "r = Inr (receipt_result q)" "d' = d"
  | (failed) e files objs where "r = Inl e" "d' = d\<lparr>artifact_files := files, artifact_objects := objs\<rparr>"
      "\<not> erased t d" "set files \<subseteq> set (artifact_files d)" "set objs \<subseteq> set (artifact_objects d)"
  | (committed) d1 d3 n cs q where "\<not> erased t d" "open_receipt t actor cred d = Inr d1"
      "delete_artifacts env a (artifact_keys t d) (snd (erase_batches t ([], d1))) = (Inr n, d3)"
      "cs = fst (erase_batches t ([], d1))" "d' = erase_rows t n (cs, d3)"
      "completed_receipt t d' = Some q" "r = Inr ((receipt_result q)\<lparr>rr_replay := False\<rparr>)"
proof (cases "completed_receipt t d")
  case (Some q)
  with run show thesis by (intro replay [of q]) (auto simp: erase_tx_def)
next
  case None
  then have fresh: "\<not> erased t d" by (simp add: completed_receipt_None)
  show thesis
  proof (cases "open_receipt t actor cred d")
    case (Inl e)
    with None run fresh show thesis by (intro failed [where e = e and files = "artifact_files d" and objs = "artifact_objects d"]) (auto simp: erase_tx_def)
  next
    case (Inr d1)
    note d1 = open_receipt_db [OF this]
    obtain cs d2 where b: "erase_batches t ([], d1) = (cs, d2)" by force
    with erase_batches_db [of t "[]" d1] have d2: "d2 = d1\<lparr>processing_tenants := batches_left t (processing_tenants d1)\<rparr>"
      by simp
    have keys: "artifact_keys t d2 = artifact_keys t d"
      unfolding artifact_keys_def d2 by (subst d1(1)) simp
    obtain x d3 where del: "delete_artifacts env a (artifact_keys t d) d2 = (x, d3)" by force
    have "artifact_files d2 = artifact_files d" "artifact_objects d2 = artifact_objects d"
      unfolding d2 by (subst d1(1); simp)+
    with delete_artifacts_subset [OF del]
    have less: "set (artifact_files d3) \<subseteq> set (artifact_files d)" "set (artifact_objects d3) \<subseteq> set (artifact_objects d)"
      by simp_all
    show thesis
    proof (cases x)
      case (Inl e)
      with run None Inr b del keys fresh less show thesis
        by (intro failed [where e = e and files = "artifact_files d3" and objs = "artifact_objects d3"]) (auto simp: erase_tx_def rolled_back_def)
    next
      case x: (Inr n)
      let ?d4 = "erase_rows t n (cs, d3)"
      from delete_artifacts_frame [OF del] d2 have "erase_receipts d3 = erase_receipts d1" by auto
      moreover obtain cs' where "erase_receipts ?d4 = upd_where (\<lambda>r. er_tenant r = t)
          (\<lambda>r. r\<lparr>er_status := Erase_completed, er_counts := cs', er_completed := Some (now d3)\<rparr>) (erase_receipts d3)"
        using erase_rows_fields(13) by blast
      moreover from d1(2) obtain q where q: "q \<in> set (erase_receipts d1)" "er_tenant q = t" by blast
      ultimately have "erased t ?d4"
        using in_upd_whereI [OF q(1), of "\<lambda>r. er_tenant r = t"
            "\<lambda>r. r\<lparr>er_status := Erase_completed, er_counts := cs', er_completed := Some (now d3)\<rparr>"]
        unfolding erased_def
        by (intro bexI [of _ "q\<lparr>er_status := Erase_completed, er_counts := cs', er_completed := Some (now d3)\<rparr>"]) simp_all
      then obtain q where q: "completed_receipt t ?d4 = Some q" using completed_receipt_None by blast
      show thesis
      proof (cases "an_lost a")
        case True
        with run None Inr b del keys x fresh less show thesis
          by (intro failed [where e = DatabaseError and files = "artifact_files d3" and objs = "artifact_objects d3"])
            (auto simp: erase_tx_def rolled_back_def Let_def)
      next
        case False
        with run None Inr b del keys x q
        have "d' = ?d4" "r = Inr ((receipt_result q)\<lparr>rr_replay := False\<rparr>)"
          by (auto simp: erase_tx_def Let_def)
        with Inr b del x q fresh show thesis by (intro committed [where n = n and ?d3.0 = d3 and cs = cs and q = q and ?d1.0 = d1]) auto
      qed
    qed
  qed
qed

subsection \<open>The erase keeps the protocol\<close>

lemma receipts_ok_complete:
  assumes "receipts_ok d"
    and "erase_receipts e = upd_where (\<lambda>r. er_tenant r = t)
      (\<lambda>r. r\<lparr>er_status := Erase_completed, er_counts := cs, er_completed := Some u\<rparr>) (erase_receipts d)"
  shows "receipts_ok e"
  using assms by (auto simp: receipts_ok_def receipt_ok_def distinct_map_upd_where ball_upd_where given_values_upd)

lemma erase_rows_inv:
  assumes inv: "tn_inv d" and ok: "receipts_ok d3"
    and same: "tenants d3 = tenants d" "tenant_members d3 = tenant_members d"
      "service_accounts d3 = service_accounts d" "partner_provisions d3 = partner_provisions d"
  shows "tn_inv (erase_rows t n (cs, d3))"
proof -
  let ?e = "erase_rows t n (cs, d3)"
  note f = erase_rows_fields(4-7) [of t n cs d3, unfolded same]
  from inv have I: "tenants_ok d" "accounts_ok d" "provisions_ok d" by (simp_all add: tn_inv_def)
  have "receipts_ok ?e" using erase_rows_fields(13) [of t n cs d3] receipts_ok_complete [OF ok] by blast
  moreover have "tenants_ok ?e"
    using I(1) by (auto simp: tenants_ok_def tenant_exists_def f distinct_map_filter)
  moreover have "accounts_ok ?e"
    using I(2) by (auto simp: accounts_ok_def f distinct_map_filter given_values_filter)
  moreover have "\<exists>a \<in> set (service_accounts ?e). runtime_of p a" if "p \<in> set (partner_provisions ?e)" for p
  proof -
    from that have p: "p \<in> set (partner_provisions d)" "pp_tenant p \<noteq> t" by (auto simp: f)
    with I(3) obtain a where "a \<in> set (service_accounts d)" "runtime_of p a" by (auto simp: provisions_ok_def)
    with p(2) show ?thesis by (auto simp: f runtime_of_def)
  qed
  ultimately show ?thesis
    using I(3) by (simp add: tn_inv_def provisions_ok_def f distinct_map_filter)
qed

lemma tn_rely_erase:
  assumes inv: "tn_inv d" and cred: "cred_ok cred"
    and run: "erase_tx env a actor cred t d = (r, d')"
  shows "tn_rely d d'"
  using run
proof (cases rule: erase_tx_cases)
  case (failed e files objs)
  show ?thesis unfolding failed(2) by (rule tn_rely_frame [where es = "[]"]) simp_all
next
  case (committed d1 d3 n cs q)
  note d1 = open_receipt_db [OF committed(2)]
  obtain files objs where d3: "d3 = d1\<lparr>processing_tenants := batches_left t (processing_tenants d1),
      artifact_files := files, artifact_objects := objs\<rparr>"
    using delete_artifacts_frame [OF committed(3)] erase_batches_db [of t "[]" d1] by auto
  have same: "tenants d3 = tenants d" "tenant_members d3 = tenant_members d"
    "service_accounts d3 = service_accounts d" "partner_provisions d3 = partner_provisions d"
    "now d3 = now d" "audit_events d3 = audit_events d" "erase_receipts d3 = erase_receipts d1"
    unfolding d3 by (subst d1(1); simp)+
  have ok: "receipts_ok d3"
    using receipts_ok_open [OF committed(2) cred] inv same(7) by (simp add: tn_inv_def receipts_ok_def)
  note f = erase_rows_fields [of t n cs d3, folded committed(5), unfolded same]
  have gone: "erased t d'" using committed(6) completed_receipt_None by (metis option.distinct(1))
  show ?thesis unfolding tn_rely_def
  proof (intro impI conjI ballI)
    show "tn_inv d'" unfolding committed(5) by (rule erase_rows_inv [OF inv ok same(1-4)])
    show "now d \<le> now d'" by (simp add: f(1))
    show "\<exists>es. audit_events d' = audit_events d @ es" by (simp add: f(3))
    show "x \<in> set (erase_receipts d')" if x: "x \<in> set (erase_receipts d)" "er_status x = Erase_completed" for x
    proof -
      from committed(1) x have "er_tenant x \<noteq> t" by (auto simp: erased_def)
      with d1(3) [OF x(1)] f(13) show ?thesis by (auto simp: set_upd_where image_iff)
    qed
    show "erased (tn_id x) d' \<or> x \<in> set (tenants d')" if "x \<in> set (tenants d)" for x
      using that gone by (cases "tn_id x = t") (auto simp: f(4))
    show "erased (sa_tenant x) d' \<or> (\<exists>y \<in> set (service_accounts d'). account_le x y)"
      if "x \<in> set (service_accounts d)" for x
      using that gone account_le_refl by (cases "sa_tenant x = t") (auto simp: f(6))
    show "erased (pp_tenant p) d' \<or> (\<exists>p' \<in> set (partner_provisions d'). provision_le p p')"
      if "p \<in> set (partner_provisions d)" for p
      using that gone provision_le_refl by (cases "pp_tenant p = t") (auto simp: f(7))
  qed
qed (auto intro: tn_rely_refl)

lemma safe_erase_tenant: "safe tn_inv tn_rely (erase_tenant env user t)"
proof -
  have "safe tn_inv tn_rely (bindM (stmt (\<lambda>d. Inr (erase_tx env a (actor_id user) cred t d))) lift :: erase_result tn_prog)"
    if "cred_ok cred" for a cred
  proof (intro safe_bind tn.safe_stmt keeps_lift TrueI)
    fix d r d'
    assume "tn_inv d" and "(Inr (erase_tx env a (actor_id user) cred t d) :: exn + _) = Inr (r, d')"
    then show "tn_rely d d'" using that by (intro tn_rely_erase [where d = d and cred = cred]) simp_all
  qed
  then have "safe tn_inv tn_rely (erase_committed env user t)"
    unfolding erase_committed_def
    by (intro safe_bind_lift safe_bind [OF keeps_receive [OF TrueI]]) (auto dest: credential_tombstone_ok)
  then show ?thesis unfolding erase_tenant_def
    by (intro keeps_intros tn.safe_query tnc.safe_require_tenant_access TrueI)
qed

end
