(* ===== verification/Accounts_System.thy ===== *)
theory Accounts_System
  imports Erase_Safety
begin

section \<open>Accounts: histories\<close>

text \<open>
  The calls on tenants, accounts and their credentials, and the databases their histories reach.
\<close>

datatype tn_call =
    N_create_tenant string string string "string option"
  | N_tenants string
  | N_create_account auth_user account_request
  | N_accounts auth_user uuid
  | N_revoke auth_user uuid uuid
  | N_authenticate auth_request "(string \<times> string) option"
  | N_provision provision_request
  | N_erase auth_user uuid

fun tn_run :: "auth_env \<Rightarrow> erase_env \<Rightarrow> tn_call \<Rightarrow> unit tn_prog" where
  "tn_run env er (N_create_tenant slug name owner dir) = ignore (create_tenant slug name owner dir)"
| "tn_run env er (N_tenants user) = ignore (list_tenants_for_user user)"
| "tn_run env er (N_create_account u q) = ignore (create_service_account (sv_env.truncate env) u q)"
| "tn_run env er (N_accounts u t) = ignore (list_service_accounts u t)"
| "tn_run env er (N_revoke u t a) = ignore (revoke_service_account u t a)"
| "tn_run env er (N_authenticate rq creds) = ignore (get_current_user env rq creds)"
| "tn_run env er (N_provision q) = ignore (provision_partner_tenant (sv_env.truncate env) q)"
| "tn_run env er (N_erase u t) = ignore (erase_tenant er u t)"

definition fresh_tn :: "tn_db \<Rightarrow> bool" where
  "fresh_tn d \<longleftrightarrow> tenants d = [] \<and> tenant_members d = [] \<and> service_accounts d = []
     \<and> partner_provisions d = [] \<and> erase_receipts d = []"

lemma safe_list_tenants: "safe tn_inv tn_rely (list_tenants_for_user user)"
  unfolding list_tenants_for_user_def by (rule tn.safe_query)

interpretation tns: service tn_inv tn_rely "tn_run env er" fresh_tn for env er
proof
  show "safe tn_inv tn_rely (tn_run env er c)" for c
    by (cases c)
      (simp_all add: safe_ignore safe_create_tenant safe_list_tenants safe_create_service_account
        safe_list_service_accounts safe_revoke_service_account safe_get_current_user safe_provision
        safe_erase_tenant)
  show "0 \<le> t \<Longrightarrow> tn_inv d \<Longrightarrow> tn_rely d (elapse t d)" for t d
    by (rule tn_rely_frame [where es = "[]"]) (simp_all add: elapse_def)
  show "fresh_tn d \<Longrightarrow> tn_inv d" for d
    by (simp add: fresh_tn_def tn_inv_def tenants_ok_def accounts_ok_def provisions_ok_def receipts_ok_def
        given_values_def)
qed

abbreviation tn_reachable :: "auth_env \<Rightarrow> erase_env \<Rightarrow> tn_db \<Rightarrow> bool" where
  "tn_reachable env er \<equiv> reachable (tn_run env er) fresh_tn"

end
