(* ===== verification/Accounts_Demo.thy ===== *)
theory Accounts_Demo
  imports Accounts_System
begin

section \<open>Accounts: a concrete history\<close>

text \<open>
  A tenant with an owner and one account, its revocation, a partner's tenant and an erase, on which
  the witnesses evaluate.
\<close>

definition demo_hash :: "string \<Rightarrow> string" where
  "demo_hash s = replicate 63 (CHR ''a'') @ [hex_digit (length s mod 16)]"

definition demo_at :: auth_env where
  "demo_at = \<lparr>sv_hash = demo_hash, sv_repr = (\<lambda>_. []), at_api_prefix = ''/api/v1'', at_supabase_url = [],
     at_jwt_secret = ''s'', at_required = True, at_debug = False, at_jwks = (\<lambda>_. Inl DatabaseError),
     at_hs256 = (\<lambda>_ _. Inr [(''sub'', JStr ''u''), (''role'', JStr ''authenticated'')]),
     at_uuid = Some, at_exn_text = exn_name, at_ip_limit = Inr (), at_principal_limit = (\<lambda>_. Inr ())\<rparr>"

definition demo_er :: erase_env where
  "demo_er = \<lparr>es_resolve = (\<lambda>s. [s]), es_roots = [], es_storage = True\<rparr>"

definition demo_tn_answer :: tn_answer where
  "demo_tn_answer = \<lparr>an_prefix = ''abcd'', an_secret = ''xyz'', an_unlink = (\<lambda>_. None),
     an_objects = (\<lambda>_. []), an_lost = False\<rparr>"

definition demo_owner :: auth_user where
  "demo_owner = plain_principal ''u'' USER"

definition demo_tn_world :: "tn_db \<Rightarrow> string \<Rightarrow> (tn_db, tn_answer) world" where
  "demo_tn_world d p = quiet_world d (\<lambda>_. demo_tn_answer) (\<lambda>n. p @ digits_of n)"

abbreviation demo_tn_call :: "tn_call \<Rightarrow> tn_db \<Rightarrow> string \<Rightarrow> tn_db" where
  "demo_tn_call c d p \<equiv> wdb (snd (tn_run demo_at demo_er c (demo_tn_world d p)))"

definition demo_tn_fresh :: tn_db where
  "demo_tn_fresh = \<lparr>now = secs 1000, schema_ready = True, tenant_members = [], audit_events = [],
     tenants = [], service_accounts = [], partner_provisions = [], erase_receipts = [],
     data_tables = [(''assets'', [\<lparr>dr_tenant = Some ''t0'', dr_object = None\<rparr>,
        \<lparr>dr_tenant = Some ''x'', dr_object = None\<rparr>])],
     processing_tenants = Some [], outbox_events = Some [], artifact_files = [], artifact_objects = []\<rparr>"

definition demo_account_request :: account_request where
  "demo_account_request = \<lparr>aq_tenant = ''t0'', aq_name = ''partner'', aq_subprocessor = [],
     aq_scopes = Some [''ingest:write''], aq_erase = True, aq_auth_user = None, aq_mint = True\<rparr>"

definition demo_token :: string where "demo_token = ''fjsvc_61626364_eHl6''"

definition demo_account :: account_row where
  "demo_account = \<lparr>sa_id = ''a0'', sa_tenant = ''t0'', sa_name = ''partner'', sa_subprocessor = [],
     sa_prefix = Some ''61626364'', sa_hash = Some ''aaaaaaaaaaaaaaaaaaaaaaaaaaaaaaaaaaaaaaaaaaaaaaaaaaaaaaaaaaaaaaa3'',
     sa_auth_user = None, sa_scopes = [''ingest:write'', ''tenants:erase''], sa_active = True,
     sa_revoked = None, sa_created_by = Some ''u'', sa_created = 1000000000, sa_updated = 1000000000,
     sa_used = None\<rparr>"

definition demo_tn_tenant :: tn_db where
  "demo_tn_tenant = demo_tn_fresh\<lparr>
     tenant_members := [\<lparr>tm_tenant = ''t0'', tm_user = ''u'', tm_role = ''owner''\<rparr>],
     tenants := [\<lparr>tn_id = ''t0'', tn_slug = ''acme'', tn_name = ''Acme'', tn_directory = None,
       tn_created = 1000000000\<rparr>]\<rparr>"

definition demo_tn_account :: tn_db where
  "demo_tn_account = demo_tn_tenant\<lparr>service_accounts := [demo_account],
     audit_events := [\<lparr>ae_actor = Some ''u'', ae_tenant = Some ''t0'', ae_action = ''service_account.create'',
       ae_resource_type = ''service_account'', ae_resource_id = ''a0'',
       ae_details = [(''subprocessor'', JStr []), (''scopes'', JArr [JStr ''ingest:write'', JStr ''tenants:erase'']),
         (''has_opaque'', JBool True), (''has_auth_user'', JBool False)]\<rparr>]\<rparr>"

definition demo_tn_revoked :: tn_db where
  "demo_tn_revoked = demo_tn_account\<lparr>service_accounts := [demo_account\<lparr>sa_active := False,
       sa_revoked := Some 1000000000, sa_hash := None\<rparr>],
     audit_events := audit_events demo_tn_account @ [\<lparr>ae_actor = Some ''u'', ae_tenant = Some ''t0'',
       ae_action = ''service_account.revoke'', ae_resource_type = ''service_account'', ae_resource_id = ''a0'',
       ae_details = [(''subprocessor'', JStr [])]\<rparr>]\<rparr>"

lemma demo_tn_steps:
  "demo_tn_call (N_create_tenant ''acme'' ''Acme'' ''u'' None) demo_tn_fresh ''t'' = demo_tn_tenant"
  "demo_tn_call (N_create_account demo_owner demo_account_request) demo_tn_tenant ''a'' = demo_tn_account"
  "demo_tn_call (N_revoke demo_owner ''t0'' ''a0'') demo_tn_account ''r'' = demo_tn_revoked"
  by code_simp+

definition demo_provision :: provision_request where
  "demo_provision = \<lparr>pr_ref = ''acct:1'', pr_partner = ''deml'', pr_slug = None, pr_name = None,
     pr_erase = True, pr_remint = False\<rparr>"

definition demo_retry_route :: auth_request where
  "demo_retry_route = \<lparr>hr_method = ''POST'', hr_route = Some ''/api/v1/tenants/{tenant_id}/erase'',
     hr_params = [(''tenant_id'', ''t0'')], hr_pool = True\<rparr>"

definition demo_other_route :: auth_request where
  "demo_other_route = \<lparr>hr_method = ''POST'', hr_route = Some ''/api/v1/ingest'', hr_params = [], hr_pool = True\<rparr>"

lemma demo_tn_reachable:
  "tn_reachable demo_at demo_er demo_tn_tenant" "tn_reachable demo_at demo_er demo_tn_account"
  "tn_reachable demo_at demo_er demo_tn_revoked"
proof -
  have "tn_reachable demo_at demo_er demo_tn_fresh"
    by (rule reachable.fresh) (simp add: fresh_tn_def demo_tn_fresh_def)
  then show t: "tn_reachable demo_at demo_er demo_tn_tenant"
    unfolding demo_tn_steps(1) [symmetric] demo_tn_world_def by (rule reachable_quiet)
  show a: "tn_reachable demo_at demo_er demo_tn_account"
    unfolding demo_tn_steps(2) [symmetric] demo_tn_world_def by (rule reachable_quiet [OF t])
  show "tn_reachable demo_at demo_er demo_tn_revoked"
    unfolding demo_tn_steps(3) [symmetric] demo_tn_world_def by (rule reachable_quiet [OF a])
qed

lemmas demo_tn_inv = demo_tn_reachable [THEN tns.reachable_inv]

lemma demo_tn_worlds [simp]:
  "quiet (demo_tn_world d p)" "wdb (demo_tn_world d p) = d" "interfered (tn_run env er) (demo_tn_world d p)"
  by (simp_all add: demo_tn_world_def)

lemma demo_tn_ext [simp]: "wext (demo_tn_world d p) n = demo_tn_answer"
  by (simp add: demo_tn_world_def quiet_world_def)

lemma demo_tn_free [simp]: "at_principal_limit demo_at u = Inr ()" "sv_hash demo_at s \<noteq> []" "hr_pool demo_retry_route" "hr_pool demo_other_route"
  by (simp_all add: demo_at_def demo_hash_def demo_retry_route_def demo_other_route_def)

lemma demo_routes [simp]: "erase_retry_tenant_id demo_at demo_retry_route = Some ''t0''"
  "erase_retry_tenant_id demo_at demo_other_route = None"
  by code_simp+

lemma demo_token_shape: "looks_like_service_token demo_token" "service_token_prefix demo_token = Some ''61626364''"
  by code_simp+

lemma demo_tn_rows:
  "service_accounts demo_tn_account = [demo_account]" "service_accounts demo_tn_revoked = [demo_account\<lparr>sa_active := False,
     sa_revoked := Some 1000000000, sa_hash := None\<rparr>]"
  by (simp_all add: demo_tn_account_def demo_tn_revoked_def)

end
