(* ===== verification/Accounts_Properties.thy ===== *)
theory Accounts_Properties
  imports Accounts_Demo
begin

section \<open>Tenants, credentials and the erase: properties\<close>

subsection \<open>Artifacts\<close>

lemma set_unique_keys [simp]: "set (unique_keys xs) = set xs"
  by (simp add: unique_keys_def)




subsection \<open>The erase\<close>

lemma erase_tenant_runs:
  assumes "quiet w" and "erase_tenant er u t w = (Inr res, w')"
  shows "(\<exists>q. completed_receipt t (wdb w) = Some q \<and> res = receipt_result q \<and> wdb w' = wdb w)
    \<or> (\<exists>a cred role. credential_tombstone u = Inr cred \<and> quiet w'
         \<and> erase_tx er a (actor_id u) cred t (wdb w) = (Inr res, wdb w')
         \<and> fst (require_tenant_access u t (Some [''owner'', ''admin'']) (Some [''tenants:erase'']) w) = Inr role)"
proof -
  have committed: "\<exists>a cred. credential_tombstone u = Inr cred \<and> quiet w'
      \<and> erase_tx er a (actor_id u) cred t (wdb w) = (Inr res, wdb w')"
    if run: "erase_committed er u t w = (Inr res, w')"
  proof -
    from run obtain cred where cred: "credential_tombstone u = Inr cred"
      by (auto simp: erase_committed_def bind_lift split: sum.splits)
    let ?w = "w\<lparr>wext := (\<lambda>n. wext w (Suc n))\<rparr>"
    obtain x d' where tx: "erase_tx er (wext w 0) (actor_id u) cred t (wdb w) = (x, d')" by force
    from assms(1) have "quiet ?w" by simp
    with run cred tx assms(1) have "lift x (?w\<lparr>wdb := d'\<rparr>) = (Inr res, w')"
      by (simp add: erase_committed_def quiet_binds)
    with cred tx assms(1) show ?thesis by (auto simp: lift_def)
  qed
  have gate: "bindM (require_tenant_access u t roles scopes) (\<lambda>_. m) w
      = (case fst (require_tenant_access u t roles scopes w) of Inl e \<Rightarrow> (Inl e, w) | Inr _ \<Rightarrow> m w)"
    for roles scopes and m :: "erase_result tn_prog"
    by (rule bind_read) (rule require_tenant_access_quiet [OF assms(1)])
  show ?thesis
    using assms(2) committed
    by (auto simp: erase_tenant_def bind_query_quiet [OF assms(1)] gate ret_def
        split: option.splits if_splits sum.splits)
qed


text \<open>
  Every table that must carry row-level security is erased by name, by a statement of its own, by a
  cascade from one of these, or belongs to no tenant (the evidence and the global tables).
\<close>

lemma erase_covers_rls_tables:
  "list_all (\<lambda>t. t \<in> set erase_tables
     \<or> t \<in> {''ingest_processing_batches'', ''outbox_events'', ''tenant_members'', ''tenants''}
     \<or> t \<in> {''partner_provisions'', ''playbook_actions'', ''playbook_action_results''}
     \<or> t \<in> {''audit_events'', ''tenant_erase_receipts'', ''scheduled_task_runs'', ''use_cases''}) rls_tables"
  by (simp add: rls_tables_def erase_tables_def)




subsection \<open>Authentication\<close>

text \<open>Programs that leave a quiet world quiet.\<close>

definition calm :: "'a tn_prog \<Rightarrow> bool" where
  "calm m \<longleftrightarrow> (\<forall>w. quiet w \<longrightarrow> quiet (snd (m w)))"

lemma calm_stmt: "calm (stmt f)"
  by (auto simp: calm_def stmt_quiet split: sum.splits)

lemma calm_bind: "calm m \<Longrightarrow> (\<And>a. calm (f a)) \<Longrightarrow> calm (bindM m f)"
  by (force simp: calm_def bindM_def split: prod.splits sum.splits)

lemma calm_catch: "calm m \<Longrightarrow> (\<And>e. calm (h e)) \<Longrightarrow> calm (catch m h)"
  by (force simp: calm_def catch_def split: prod.splits sum.splits)

lemma calm_pure: "calm (ret a)" "calm (raise e)" "calm (lift r)"
  by (simp_all add: calm_def ret_def raise_def lift_def)

lemma calm_query: "calm (query q)"
  unfolding query_def by (rule calm_stmt)

lemma calm_current_user: "calm (get_current_user env rq creds)"
proof -
  note calms = calm_bind calm_pure calm_query calm_stmt
  have "calm (touch_last_used i)" for i unfolding touch_last_used_def by (rule calm_stmt)
  then have "calm (authenticate_opaque e p token)" "calm (authenticate_auth_user a)"
    "calm (authenticate_erased_opaque e t p token)" for e p token a t
    unfolding authenticate_opaque_def authenticate_auth_user_def authenticate_erased_opaque_def
    by (auto intro!: calms split: option.split)
  then have "calm (authenticate_opaque_service env rq token)" "calm (bind_jwt_service_principal p)"
    "calm (finalize_principal env p)" for token p
    unfolding authenticate_opaque_service_def bind_jwt_service_principal_def finalize_principal_def Let_def
    by (auto intro!: calms split: option.split)
  then have "calm (authenticate_bearer env rq token)" for token
    unfolding authenticate_bearer_def by (auto intro!: calms)
  then show ?thesis unfolding get_current_user_def
    by (auto intro!: calms calm_catch split: option.split prod.split exn.split)
qed

lemma touch_quiet:
  "quiet w \<Longrightarrow> \<exists>d. bindM (touch_last_used i) f w = f () (w\<lparr>wdb := d\<rparr>) \<and> quiet (w\<lparr>wdb := d\<rparr>)"
  by (auto simp: touch_last_used_def bind_stmt_quiet)

lemma authenticate_opaque_quiet:
  assumes "quiet w"
  obtains (found) r d where "first_row (\<lambda>r. sa_prefix r = Some prefix) (service_accounts (wdb w)) = Some r"
      "account_live r" "sa_hash r = Some (sv_hash env token)" "sv_hash env token \<noteq> []"
      "authenticate_opaque env prefix token w = (Inr (Some r), w\<lparr>wdb := d\<rparr>)"
  | (refused) "authenticate_opaque env prefix token w = (Inr None, w)"
      "\<And>r. first_row (\<lambda>r. sa_prefix r = Some prefix) (service_accounts (wdb w)) = Some r \<Longrightarrow>
        sv_hash env token \<noteq> [] \<Longrightarrow> \<not> (account_live r \<and> sa_hash r = Some (sv_hash env token))"
proof (cases "first_row (\<lambda>r. sa_prefix r = Some prefix) (service_accounts (wdb w))")
  case None
  with assms refused show thesis by (simp add: authenticate_opaque_def bind_query_quiet ret_def)
next
  case (Some r)
  show thesis
  proof (cases "account_live r \<and> sa_hash r = Some (sv_hash env token) \<and> sv_hash env token \<noteq> []")
    case True
    from assms obtain d where "bindM (touch_last_used (sa_id r)) (\<lambda>_. ret (Some r)) w = ret (Some r) (w\<lparr>wdb := d\<rparr>)"
      using touch_quiet by metis
    with True Some assms show thesis
      by (intro found [of r d]) (simp_all add: authenticate_opaque_def bind_query_quiet ret_def)
  next
    case False
    with Some assms show thesis
      by (intro refused) (auto simp: authenticate_opaque_def bind_query_quiet ret_def split: option.split)
  qed
qed

lemma authenticate_auth_user_quiet:
  assumes "quiet w" and "authenticate_auth_user a w = (Inr (Some r), w')"
  shows "r \<in> set (service_accounts (wdb w))" "sa_auth_user r = Some a" "account_live r"
proof -
  from assms obtain q where q: "first_row (\<lambda>r. sa_auth_user r = Some a) (service_accounts (wdb w)) = Some q"
    and live: "account_live q" and run: "bindM (touch_last_used (sa_id q)) (\<lambda>_. ret (Some q)) w = (Inr (Some r), w')"
    by (auto simp: authenticate_auth_user_def bind_query_quiet ret_def split: option.splits if_splits)
  from touch_quiet [OF assms(1), of "sa_id q" "\<lambda>_. ret (Some q)"] run have "r = q" by (auto simp: ret_def)
  with q live have "first_row (\<lambda>r. sa_auth_user r = Some a) (service_accounts (wdb w)) = Some r \<and> account_live r" by simp
  then show "r \<in> set (service_accounts (wdb w))" "sa_auth_user r = Some a" "account_live r"
    using first_row_SomeD [of _ _ r] by auto
qed

lemma authenticate_erased_quiet:
  assumes "quiet w" and "authenticate_erased_opaque env t prefix token w = (Inr (Some q), w')"
  shows "q \<in> set (erase_receipts (wdb w))" "er_tenant q = t" "er_status q = Erase_completed"
    "er_prefix q = Some prefix" "er_hash q = Some (sv_hash env token)" "w' = w"
proof -
  from assms have "first_row (\<lambda>r. er_tenant r = t \<and> er_status r = Erase_completed \<and> er_completed r \<noteq> None
      \<and> er_prefix r = Some prefix) (erase_receipts (wdb w)) = Some q \<and> er_hash q = Some (sv_hash env token) \<and> w' = w"
    by (auto simp: authenticate_erased_opaque_def bind_query_quiet ret_def split: option.splits if_splits)
  then show "q \<in> set (erase_receipts (wdb w))" "er_tenant q = t" "er_status q = Erase_completed"
    "er_prefix q = Some prefix" "er_hash q = Some (sv_hash env token)" "w' = w"
    by (auto dest: first_row_SomeD)
qed

lemma opaque_service_runs:
  assumes "quiet w" and "authenticate_opaque_service env rq token w = (Inr u, w')"
  shows "case au_kind u of
      SERVICE \<Rightarrow> \<exists>r \<in> set (service_accounts (wdb w)). account_live r \<and> au_user_id u = sa_id r
        \<and> au_tenant_id u = Some (sa_tenant r) \<and> au_scopes u = sa_scopes r
        \<and> sa_prefix r = service_token_prefix token \<and> sa_hash r = Some (sv_hash env token)
        \<and> (erase_retry_tenant_id env rq \<noteq> None \<longrightarrow>
              au_token_prefix u = sa_prefix r \<and> au_token_hash u = sa_hash r)
    | ERASE_TOMBSTONE \<Rightarrow> \<exists>q \<in> set (erase_receipts (wdb w)). er_status q = Erase_completed
        \<and> er_hash q = Some (sv_hash env token) \<and> erase_retry_tenant_id env rq = Some (er_tenant q)
        \<and> au_tenant_id u = Some (er_tenant q)
    | USER \<Rightarrow> False"
proof -
  from assms(2) obtain prefix where prefix: "service_token_prefix token = Some prefix"
    by (auto simp: authenticate_opaque_service_def raise_def split: option.splits)
  let ?e = "sv_env.truncate env"
  have h: "sv_hash ?e token = sv_hash env token" by (simp add: sv_env.truncate_def)
  from assms(1) show ?thesis
  proof (cases rule: authenticate_opaque_quiet [where prefix = prefix and env = ?e and token = token])
    case (found r d)
    from first_row_SomeD [OF found(1)] have "r \<in> set (service_accounts (wdb w))" "sa_prefix r = Some prefix" by auto
    moreover from assms(2) prefix found(5)
    have "u = auth_user_from_service_row r (if erase_retry_tenant_id env rq \<noteq> None then Some prefix else None)
        (if erase_retry_tenant_id env rq \<noteq> None then Some (sv_hash env token) else None)"
      by (auto simp: authenticate_opaque_service_def bindM_def ret_def Let_def)
    ultimately show ?thesis using found(2,3) prefix h
      by (auto simp: auth_user_from_service_row_def)
  next
    case refused
    with assms(2) prefix obtain t where t: "erase_retry_tenant_id env rq = Some t"
      and tomb: "bindM (authenticate_erased_opaque ?e t prefix token) (\<lambda>tomb. case tomb of
          None \<Rightarrow> raise (unauthorized ''invalid service token'')
        | Some r \<Rightarrow> ret (auth_user_from_erase_tombstone r)) w = (Inr u, w')"
      by (auto simp: authenticate_opaque_service_def bindM_def [of "authenticate_opaque _ _ _"] raise_def Let_def
          split: option.splits)
    from tomb obtain q w1 where q: "authenticate_erased_opaque ?e t prefix token w = (Inr (Some q), w1)"
      and u: "u = auth_user_from_erase_tombstone q"
      by (auto simp: bindM_def raise_def ret_def split: prod.splits sum.splits option.splits)
    show ?thesis using authenticate_erased_quiet [OF assms(1) q] t h u
      by (auto simp: auth_user_from_erase_tombstone_def plain_principal_def)
  qed
qed

text \<open>A verified JWT is a user, or service-shaped by the block only administrators can write.\<close>

lemma principal_from_claims_kind:
  "principal_from_claims env claims = Inr p \<Longrightarrow>
   au_kind p = (if forjd_metadata claims = None then USER else SERVICE)
   \<and> py_str (sv_repr env) (py_or (jget claims ''role'') (JStr ''authenticated'')) \<noteq> ''service_role''"
  by (auto simp: principal_from_claims_def plain_principal_def Let_def split: if_splits option.splits)

lemma verify_supabase_jwt_claims:
  assumes "verify_supabase_jwt env token = Inr p"
  shows "\<exists>claims. principal_from_claims env claims = Inr p
    \<and> ((jwks_url env \<noteq> None \<and> at_jwks env token = Inr claims)
      \<or> (py_strip (at_jwt_secret env) \<noteq> [] \<and> at_hs256 env (py_strip (at_jwt_secret env)) token = Inr claims))"
  using assms by (auto simp: verify_supabase_jwt_def Let_def split: option.splits sum.splits if_splits)

lemma verify_supabase_jwt_kind:
  "verify_supabase_jwt env token = Inr p \<Longrightarrow> au_kind p \<in> {USER, SERVICE}"
  by (auto dest!: verify_supabase_jwt_claims principal_from_claims_kind split: if_splits)

lemma finalize_runs: "finalize_principal env u w = (Inr v, w') \<Longrightarrow> v = u"
  by (auto simp: finalize_principal_def bind_lift ret_def split: sum.splits)

lemma bind_finalize:
  "bindM m (finalize_principal env) w = (Inr u, w') \<Longrightarrow> \<exists>w1. m w = (Inr u, w1)"
  by (auto simp: bindM_def split: prod.splits sum.splits dest: finalize_runs)

lemma current_user_bearer:
  assumes "get_current_user env rq (Some (scheme, token)) w = (Inr u, w')"
  shows "authenticate_bearer env rq token w = (Inr u, w')"
  using assms
  by (auto simp: get_current_user_def catch_def bindM_def lift_def raise_def
      split: if_splits prod.splits sum.splits exn.splits)

text \<open>
  C23: Whoever passes authentication is backed by the database or by the identity provider.  A service
  principal is a live account: its tenant and scopes are those of the row, and the credential is the
  row's opaque token or a service-shaped JWT of the row's auth user whose tenant claim agrees.  A
  tombstone is a completed erase receipt that kept the hash of the very token, on the erase route of
  its own tenant.  Everything else is a user with a verified JWT.
\<close>

theorem principals_are_backed:
  assumes w: "quiet w" and run: "get_current_user env rq (Some (scheme, token)) w = (Inr u, w')"
  shows "case au_kind u of
      SERVICE \<Rightarrow> \<exists>r \<in> set (service_accounts (wdb w)). account_live r \<and> au_user_id u = sa_id r
        \<and> au_tenant_id u = Some (sa_tenant r) \<and> au_scopes u = sa_scopes r
        \<and> (if looks_like_service_token token
            then sa_prefix r = service_token_prefix token \<and> sa_hash r = Some (sv_hash env token)
            else \<exists>p. verify_supabase_jwt env token = Inr p \<and> au_kind p = SERVICE
              \<and> sa_auth_user r = Some (au_user_id p) \<and> au_tenant_id p \<in> {None, Some [], Some (sa_tenant r)})
    | ERASE_TOMBSTONE \<Rightarrow> \<exists>q \<in> set (erase_receipts (wdb w)). er_status q = Erase_completed
        \<and> er_hash q = Some (sv_hash env token) \<and> erase_retry_tenant_id env rq = Some (er_tenant q)
        \<and> au_tenant_id u = Some (er_tenant q)
    | USER \<Rightarrow> \<not> looks_like_service_token token \<and> verify_supabase_jwt env token = Inr u"
proof (cases "looks_like_service_token token")
  case True
  with current_user_bearer [OF run] have "bindM (authenticate_opaque_service env rq token) (finalize_principal env) w = (Inr u, w')"
    by (auto simp: authenticate_bearer_def raise_def split: if_splits)
  from bind_finalize [OF this] obtain w1 where "authenticate_opaque_service env rq token w = (Inr u, w1)" ..
  from opaque_service_runs [OF w this] True show ?thesis by (cases "au_kind u") auto
next
  case False
  from current_user_bearer [OF run] False obtain p where p: "verify_supabase_jwt env token = Inr p"
    and rest: "(if au_kind p = SERVICE then if \<not> hr_pool rq then raise database_unavailable
        else bindM (bind_jwt_service_principal p) (finalize_principal env) else finalize_principal env p) w = (Inr u, w')"
    by (auto simp: authenticate_bearer_def bind_lift raise_def split: if_splits sum.splits)
  show ?thesis
  proof (cases "au_kind p = SERVICE")
    case service: True
    with rest have "bindM (bind_jwt_service_principal p) (finalize_principal env) w = (Inr u, w')"
      by (auto simp: raise_def split: if_splits)
    from bind_finalize [OF this] obtain w1 where "bind_jwt_service_principal p w = (Inr u, w1)" ..
    then obtain r w2 where r: "authenticate_auth_user (au_user_id p) w = (Inr (Some r), w2)"
      and u: "u = auth_user_from_service_row r None None"
      and claim: "au_tenant_id p \<in> {None, Some [], Some (sa_tenant r)}"
      by (auto simp: bind_jwt_service_principal_def bindM_def raise_def ret_def auth_user_from_service_row_def Let_def
          split: prod.splits sum.splits option.splits if_splits)
    from authenticate_auth_user_quiet [OF w r] u claim p service False show ?thesis
      by (auto simp: auth_user_from_service_row_def intro!: bexI [of _ r])
  next
    case user: False
    from verify_supabase_jwt_kind [OF p] user have "au_kind p = USER" by simp
    with rest finalize_runs [of env p w u w'] p False show ?thesis by simp
  qed
qed

theorem principals_are_backed_witness:
  "\<exists>u w'. get_current_user demo_at demo_other_route (Some (''Bearer'', demo_token)) (demo_tn_world demo_tn_account ''p'') = (Inr u, w')
    \<and> au_kind u = SERVICE
    \<and> (\<exists>r \<in> set (service_accounts demo_tn_account). account_live r \<and> au_user_id u = sa_id r \<and> au_scopes u = sa_scopes r)"
proof -
  let ?w = "demo_tn_world demo_tn_account ''p''"
  obtain out w' where run: "get_current_user demo_at demo_other_route (Some (''Bearer'', demo_token)) ?w = (out, w')" by force
  have "case fst (get_current_user demo_at demo_other_route (Some (''Bearer'', demo_token)) ?w) of
      Inr u \<Rightarrow> au_kind u = SERVICE | Inl e \<Rightarrow> False" by code_simp
  with run obtain u where u: "out = Inr u" "au_kind u = SERVICE" by (cases out) auto
  with run principals_are_backed [of ?w demo_at demo_other_route "''Bearer''" demo_token u w'] show ?thesis by auto
qed

subsection \<open>Revocation\<close>



lemma account_le_dead: "account_le r r' \<Longrightarrow> \<not> account_live r \<Longrightarrow> \<not> account_live r'"
  by (auto simp: account_le_def account_live_def)


















subsection \<open>Minting\<close>

lemma hex_digit_char: "n < 16 \<Longrightarrow> hex_digit n \<noteq> CHR ''_''"
proof
  assume "n < 16" and "hex_digit n = CHR ''_''"
  then have "code_point (hex_digit n) = 95" by (simp add: code_point_def)
  with \<open>n < 16\<close> show False by (auto simp: hex_digit_def code_point_char_of split: if_splits)
qed

lemma token_hex_length: "length (token_hex bs) = 2 * length bs"
  by (induction bs) (auto simp: token_hex_def)

lemma token_hex_chars: "CHR ''_'' \<notin> set (token_hex bs)"
proof -
  have "code_point c div 16 < 16" for c using code_point_less [of c] by simp
  then show ?thesis using hex_digit_char by (auto simp: token_hex_def; metis mod_less_divisor zero_less_numeral)
qed

lemma split_once_append:
  "c \<notin> set xs \<Longrightarrow> split_once c (xs @ c # ys) = Some (xs, ys)"
  by (induction xs) auto

lemma b64encode_first:
  assumes "bs \<noteq> []"
  obtains c cs where "b64encode bs = c # cs" and "c \<noteq> CHR ''=''"
proof -
  have q: "b64_char (code_point a div 4) \<noteq> CHR ''=''" for a
    using code_point_less [of a] by (intro b64_char_pad) simp
  from assms q that show thesis by (cases bs rule: b64encode.cases) (auto simp: Let_def)
qed

lemma token_urlsafe_nonempty: "bs \<noteq> [] \<Longrightarrow> token_urlsafe bs \<noteq> []"
proof -
  assume "bs \<noteq> []"
  then obtain c cs where "b64encode bs = c # cs" and "c \<noteq> CHR ''=''"
    using b64encode_first by blast
  then have "\<exists>x \<in> set (rev (b64encode bs)). x \<noteq> CHR ''=''" by auto
  then show ?thesis by (auto simp: token_urlsafe_def dropWhile_eq_Nil_conv)
qed

text \<open>A minted token has the shape the authentication looks for, and carries its prefix.\<close>

lemma minted_token_shape:
  assumes "mint_opaque_token env a = (token, prefix, hash)"
    and "length (an_prefix a) = 4" and "an_secret a \<noteq> []"
  shows "looks_like_service_token token" "service_token_prefix token = Some prefix"
    "hash = sv_hash env token"
proof -
  from assms(1) have t: "token = ''fjsvc_'' @ prefix @ CHR ''_'' # token_urlsafe (an_secret a)"
    and p: "prefix = token_hex (an_prefix a)" and "hash = sv_hash env token"
    by (auto simp: mint_opaque_token_def service_token_marker_def Let_def)
  then show "hash = sv_hash env token" by simp
  have split: "split_once (CHR ''_'') (drop (length service_token_marker) token)
      = Some (prefix, token_urlsafe (an_secret a))"
    using split_once_append [OF token_hex_chars, of "an_prefix a"] by (simp add: t p service_token_marker_def)
  then show l: "looks_like_service_token token"
    using token_urlsafe_nonempty [OF assms(3)] assms(2)
    by (simp add: looks_like_service_token_def t p py_startswith_def service_token_marker_def
        token_hex_length service_prefix_len_def)
  show "service_token_prefix token = Some prefix" using l split by (simp add: service_token_prefix_def)
qed

lemma require_account_admin_quiet:
  assumes "quiet w"
  shows "snd (require_account_admin user t roles w) = w"
  using assms
  by (auto simp: require_account_admin_def require_member_def user_role_in_tenant_def no_op_def
      lift_def bindM_def query_quiet stmt_quiet raise_def ret_def split: sum.splits option.splits prod.splits)

lemma store_account_quiet:
  "quiet w \<Longrightarrow> store_account mk w = (case insert_account (mk (now (wdb w))) (wdb w) of
     Inl e \<Rightarrow> (Inl (if e = unique_violation
         then HTTPException 409 ''service account conflict (prefix or auth_user_id)'' else e), w)
   | Inr d \<Rightarrow> (Inr (mk (now (wdb w))), w\<lparr>wdb := d\<rparr>))"
  by (auto simp: store_account_def catch_def stmt_quiet raise_def split: sum.splits)

lemma record_required_quiet:
  "quiet w \<Longrightarrow> record_required act actor t rt rid det w
    = (Inr (), w\<lparr>wdb := add_audit (audit_record act actor t rt rid det) (wdb w)\<rparr>)"
  by (simp add: record_required_def stmt_quiet)

lemma create_account_runs:
  assumes w: "quiet w" and run: "create_service_account env user q w = (Inr v, w')"
  obtains scopes minted row d where "normalize_scopes (aq_scopes q) (aq_erase q) = Inr scopes"
    "minted = (if aq_mint q then Some (mint_opaque_token env (wext w 0)) else None)"
    "row = new_account (wrnd w 0) (aq_tenant q) (take 128 (py_strip (aq_name q)))
       (take 64 (py_strip (aq_subprocessor q))) (map_option snd minted) (aq_auth_user q) scopes
       (Some (au_user_id user)) (now (wdb w))"
    "insert_account row (wdb w) = Inr d" "service_accounts (wdb w') = service_accounts d"
    "v = (public_row row)\<lparr>av_token := map_option fst minted\<rparr>" "quiet w'"
proof -
  note gate = bind_read [of "require_account_admin user (aq_tenant q) [''owner'', ''admin'']" w,
      OF require_account_admin_quiet [OF w]]
  let ?minted = "if aq_mint q then Some (mint_opaque_token env (wext w 0)) else None"
  from run obtain scopes where scopes: "normalize_scopes (aq_scopes q) (aq_erase q) = Inr scopes"
    by (auto simp: create_service_account_def gate bind_lift split: sum.splits)
  let ?row = "new_account (wrnd w 0) (aq_tenant q) (take 128 (py_strip (aq_name q)))
       (take 64 (py_strip (aq_subprocessor q))) (map_option snd ?minted) (aq_auth_user q) scopes
       (Some (au_user_id user)) (now (wdb w))"
  let ?w = "w\<lparr>wext := (\<lambda>n. wext w (Suc n)), wrnd := (\<lambda>n. wrnd w (Suc n))\<rparr>"
  have q: "quiet ?w" using w by simp
  note eval = create_service_account_def gate bind_lift bind_receive bind_uuid4 bindM_def [of "store_account _"]
    bindM_def [of "record_required _ _ _ _ _ _"] store_account_quiet record_required_quiet raise_def ret_def Let_def
  show thesis
  proof (cases "insert_account ?row (wdb w)")
    case (Inl e)
    with run scopes w show thesis by (auto simp: eval split: sum.splits if_splits)
  next
    case (Inr d)
    with run scopes w
    have "v = (public_row ?row)\<lparr>av_token := map_option fst ?minted\<rparr>"
      "service_accounts (wdb w') = service_accounts d" "quiet w'"
      by (auto simp: eval add_audit_def split: sum.splits if_splits)
    with scopes Inr show thesis by (intro that [of scopes ?minted ?row d]) auto
  qed
qed

text \<open>
  C27: A token minted for a new account authenticates, at once, exactly that account: its identifier,
  its tenant and the scopes that were asked for, after cleaning.  The table keeps only the hash.
\<close>

theorem minted_token_round_trip:
  assumes w: "quiet w" and inv: "tn_inv (wdb w)"
    and create: "create_service_account (sv_env.truncate env) user q w = (Inr v, w')" and mint: "aq_mint q"
    and bytes: "length (an_prefix (wext w 0)) = 4" "an_secret (wext w 0) \<noteq> []"
    and hash: "\<forall>s. sv_hash env s \<noteq> []" and pool: "hr_pool rq" and free: "\<forall>u. at_principal_limit env u = Inr ()"
  shows "\<exists>token u. av_token v = Some token \<and> fst (get_current_user env rq (Some (''Bearer'', token)) w') = Inr u
    \<and> au_kind u = SERVICE \<and> au_user_id u = av_id v \<and> au_tenant_id u = Some (aq_tenant q)
    \<and> normalize_scopes (aq_scopes q) (aq_erase q) = Inr (au_scopes u)"
proof -
  let ?e = "sv_env.truncate env"
  obtain scopes minted row d where scopes: "normalize_scopes (aq_scopes q) (aq_erase q) = Inr scopes"
    and m: "minted = (if aq_mint q then Some (mint_opaque_token ?e (wext w 0)) else None)"
    and row: "row = new_account (wrnd w 0) (aq_tenant q) (take 128 (py_strip (aq_name q)))
       (take 64 (py_strip (aq_subprocessor q))) (map_option snd minted) (aq_auth_user q) scopes
       (Some (au_user_id user)) (now (wdb w))"
    and ins: "insert_account row (wdb w) = Inr d" and rows: "service_accounts (wdb w') = service_accounts d"
    and v: "v = (public_row row)\<lparr>av_token := map_option fst minted\<rparr>" and w': "quiet w'"
    by (rule create_account_runs [OF w create])
  obtain token prefix h where tok: "mint_opaque_token ?e (wext w 0) = (token, prefix, h)" by (metis prod_cases3)
  note shape = minted_token_shape [OF tok bytes]
  have r: "sa_prefix row = Some prefix" "sa_hash row = Some (sv_hash ?e token)" "account_live row"
    "sa_id row = av_id v" "sa_tenant row = aq_tenant q" "sa_scopes row = scopes" "av_token v = Some token"
    using shape(3) by (simp_all add: row m mint tok new_account_def account_live_def v public_row_def)
  from ins r(1) have "service_accounts d = service_accounts (wdb w) @ [row]"
    and "\<forall>x \<in> set (service_accounts (wdb w)). sa_prefix x \<noteq> Some prefix"
    by (force simp: insert_account_def split: if_splits)+
  with rows r(1) have first: "first_row (\<lambda>x. sa_prefix x = Some prefix) (service_accounts (wdb w')) = Some row"
    by (simp add: first_row_snoc first_row_None_iff)
  from w' obtain d' where "authenticate_opaque ?e prefix token w' = (Inr (Some row), w'\<lparr>wdb := d'\<rparr>)"
  proof (cases rule: authenticate_opaque_quiet [where prefix = prefix and env = ?e and token = token])
    case (found x y)
    with first that show thesis by auto
  next
    case refused
    from refused(2) [OF first] r(2,3) hash show thesis by (auto simp: sv_env.truncate_def)
  qed
  moreover have "py_lower ''Bearer'' = ''bearer''" by code_simp
  ultimately have "\<exists>u. fst (get_current_user env rq (Some (''Bearer'', token)) w') = Inr u
      \<and> u = auth_user_from_service_row row (au_token_prefix u) (au_token_hash u)"
    using shape(1,2) pool free
    by (auto simp: get_current_user_def catch_def authenticate_bearer_def authenticate_opaque_service_def bindM_def
        finalize_principal_def lift_def ret_def auth_user_from_service_row_def Let_def)
  then obtain u where u: "fst (get_current_user env rq (Some (''Bearer'', token)) w') = Inr u"
    "u = auth_user_from_service_row row (au_token_prefix u) (au_token_hash u)" by blast
  then have "au_kind u = SERVICE \<and> au_user_id u = av_id v \<and> au_tenant_id u = Some (aq_tenant q) \<and> au_scopes u = scopes"
    using r by (cases u) (auto simp: auth_user_from_service_row_def)
  with u(1) r(7) scopes show ?thesis by blast
qed

theorem minted_token_round_trip_witness:
  "\<exists>v w'. create_service_account (sv_env.truncate demo_at) demo_owner demo_account_request (demo_tn_world demo_tn_tenant ''a'') = (Inr v, w')
    \<and> (\<exists>token u. av_token v = Some token \<and> fst (get_current_user demo_at demo_other_route (Some (''Bearer'', token)) w') = Inr u
        \<and> au_tenant_id u = Some ''t0'')"
proof -
  let ?w = "demo_tn_world demo_tn_tenant ''a''"
  obtain out w' where run: "create_service_account (sv_env.truncate demo_at) demo_owner demo_account_request ?w = (out, w')" by force
  have "case fst (create_service_account (sv_env.truncate demo_at) demo_owner demo_account_request ?w) of
      Inr v \<Rightarrow> True | Inl e \<Rightarrow> False" by code_simp
  with run obtain v where v: "out = Inr v" by (cases out) auto
  have "length (an_prefix demo_tn_answer) = 4" "an_secret demo_tn_answer \<noteq> []" "aq_mint demo_account_request"
    "aq_tenant demo_account_request = ''t0''"
    by (simp_all add: demo_tn_answer_def demo_account_request_def)
  with run v minted_token_round_trip [of ?w demo_at demo_owner demo_account_request v w' demo_other_route] demo_tn_inv(1)
  show ?thesis by fastforce
qed

subsection \<open>The credential of an erased tenant\<close>

lemma open_receipt_cred:
  assumes op: "open_receipt t actor (Some p, Some h) d = Inr d1" and new: "\<not> erased t d"
    and r: "r \<in> set (erase_receipts d1)" "er_tenant r = t"
  shows "er_prefix r = Some p \<and> er_hash r = Some h"
proof (cases "list_ex (\<lambda>r. er_tenant r = t) (erase_receipts d)")
  case True
  with op have "erase_receipts d1 = upd_where (\<lambda>r. er_tenant r = t \<and> er_status r \<noteq> Erase_completed)
      (\<lambda>r. r\<lparr>er_requested_by := actor, er_prefix := Some p, er_hash := Some h\<rparr>) (erase_receipts d)"
    by (auto simp: open_receipt_def or_else_def split: if_splits)
  with r(1) obtain x where "x \<in> set (erase_receipts d)"
    "r = (if er_tenant x = t \<and> er_status x \<noteq> Erase_completed
      then x\<lparr>er_requested_by := actor, er_prefix := Some p, er_hash := Some h\<rparr> else x)"
    by (auto elim!: in_upd_whereE)
  with r(2) new show ?thesis by (auto simp: erased_def split: if_splits)
next
  case False
  then have "r \<notin> set (erase_receipts d)" using r(2) by (auto simp: list_ex_iff)
  moreover from op False have "erase_receipts d1 = erase_receipts d @ [\<lparr>er_tenant = t, er_requested_by = actor,
      er_status = Erase_pending, er_counts = [], er_prefix = Some p, er_hash = Some h, er_completed = None\<rparr>]"
    by (auto simp: open_receipt_def split: if_splits)
  ultimately have "r = \<lparr>er_tenant = t, er_requested_by = actor, er_status = Erase_pending, er_counts = [],
      er_prefix = Some p, er_hash = Some h, er_completed = None\<rparr>"
    using r(1) by simp
  then show ?thesis by simp
qed

lemma open_receipt_accounts: "open_receipt t actor cred d = Inr d1 \<Longrightarrow> service_accounts d1 = service_accounts d"
  by (auto simp: open_receipt_def split: if_splits)

lemma committed_receipt_cred:
  assumes "erase_tx er a actor (Some p, Some h) t d = (Inr res, d')" and "\<not> rr_replay res"
  obtains q where "completed_receipt t d' = Some q" "er_prefix q = Some p" "er_hash q = Some h"
    "er_completed q \<noteq> None" "res = (receipt_result q)\<lparr>rr_replay := False\<rparr>" "\<not> erased t d"
    "service_accounts d' = filter (\<lambda>r. sa_tenant r \<noteq> t) (service_accounts d)"
  using assms(1)
proof (cases rule: erase_tx_cases)
  case (committed d1 d3 n cs q)
  have d3: "erase_receipts d3 = erase_receipts d1" "service_accounts d3 = service_accounts d"
    using delete_artifacts_frame [OF committed(3)] erase_batches_db [of t "[]" d1]
    by (auto simp: open_receipt_accounts [OF committed(2)])
  from committed(6) have q: "q \<in> set (erase_receipts d')" "er_tenant q = t" "er_status q = Erase_completed"
    by (auto simp: completed_receipt_def dest: first_row_SomeD)
  obtain cs' where rs: "erase_receipts d' = upd_where (\<lambda>r. er_tenant r = t)
       (\<lambda>r. r\<lparr>er_status := Erase_completed, er_counts := cs', er_completed := Some (now d3)\<rparr>) (erase_receipts d1)"
    using erase_rows_fields(13) [of t n cs d3] d3(1) committed(5) by auto
  from q(1) [unfolded rs] obtain r where r: "r \<in> set (erase_receipts d1)"
    "q = (if er_tenant r = t then r\<lparr>er_status := Erase_completed, er_counts := cs', er_completed := Some (now d3)\<rparr> else r)"
    by (rule in_upd_whereE)
  then have "er_tenant r = t" using q(2) by (simp split: if_splits)
  with r open_receipt_cred [OF committed(2,1) r(1)]
  have "er_prefix q = Some p" "er_hash q = Some h" "er_completed q \<noteq> None" by simp_all
  moreover have "service_accounts d' = filter (\<lambda>r. sa_tenant r \<noteq> t) (service_accounts d)"
    using erase_rows_fields(6) [of t n cs d3] d3(2) committed(5) by simp
  ultimately show thesis by (intro that [of q] committed(1,6)) (use committed(7) in simp_all)
qed (use assms(2) in \<open>simp_all add: receipt_result_def\<close>)

text \<open>
  C24: The token that erased its tenant is of no use but to read the receipt again: on the erase route
  it yields a tombstone principal, whose erase returns the recorded result and changes nothing, and
  which passes no tenant gate; on any other route, or for any other tenant, it is refused.
\<close>

theorem erased_credential_only_replays:
  assumes w: "quiet w" and inv: "tn_inv (wdb w)" and shape: "looks_like_service_token token"
    and route: "erase_retry_tenant_id env rq = Some t"
    and auth: "get_current_user env rq (Some (scheme, token)) w = (Inr u, w1)" and kind: "au_kind u = SERVICE"
    and erase: "erase_tenant er u t w1 = (Inr res, w2)" and new: "\<not> rr_replay res"
    and pool: "hr_pool rq" "hr_pool rq2" and free: "\<forall>u. at_principal_limit env u = Inr ()"
    and other: "erase_retry_tenant_id env rq2 \<noteq> Some t"
  shows "(\<exists>u'. get_current_user env rq (Some (scheme, token)) w2 = (Inr u', w2) \<and> au_kind u' = ERASE_TOMBSTONE
      \<and> erase_tenant er u' t w2 = (Inr (res\<lparr>rr_replay := True\<rparr>), w2)
      \<and> (\<forall>t' roles scopes (w :: (tn_db, tn_answer) world).
           \<exists>e. fst (require_tenant_access u' t' roles scopes w) = Inl (HTTPException 403 e)))
    \<and> (\<exists>e. fst (get_current_user env rq2 (Some (scheme, token)) w2) = Inl e)"
proof -
  let ?e = "sv_env.truncate env"
  from principals_are_backed [OF w auth] kind shape obtain r where r: "r \<in> set (service_accounts (wdb w))"
    "au_tenant_id u = Some (sa_tenant r)" "sa_prefix r = service_token_prefix token" by auto
  from shape obtain p where p: "service_token_prefix token = Some p"
    by (auto simp: service_token_prefix_def looks_like_service_token_def split: option.splits)
  from current_user_bearer [OF auth] shape pool(1)
  have "bindM (authenticate_opaque_service env rq token) (finalize_principal env) w = (Inr u, w1)"
    by (simp add: authenticate_bearer_def)
  from bind_finalize [OF this] obtain wx where "authenticate_opaque_service env rq token w = (Inr u, wx)" ..
  from opaque_service_runs [OF w this] kind route p
  have cred: "au_token_prefix u = Some p" "au_token_hash u = Some (sv_hash env token)" by auto
  have env: "env_in tn_rely w" by (rule quiet_env_in [OF w tn_rely_refl])
  from tn.safe_run [OF safe_get_current_user env inv, of env rq "Some (scheme, token)"] auth
  have inv1: "tn_inv (wdb w1)" and R: "tn_rely (wdb w) (wdb w1)" by auto
  have w1: "quiet w1" using calm_current_user w auth unfolding calm_def by (metis snd_conv)
  from erase_tenant_runs [OF w1 erase] new obtain a c role where c: "credential_tombstone u = Inr c" and w2: "quiet w2"
    and tx: "erase_tx er a (actor_id u) c t (wdb w1) = (Inr res, wdb w2)"
    and gate: "fst (require_tenant_access u t (Some [''owner'', ''admin'']) (Some [''tenants:erase'']) w1) = Inr role"
    by (auto simp: receipt_result_def)
  from gate kind r(2) have t: "sa_tenant r = t" by (auto simp: require_tenant_access_def raise_def split: if_splits)
  from c cred have c': "c = (Some p, Some (sv_hash env token))" "length (sv_hash env token) = 64"
    by (auto simp: credential_tombstone_def split: if_splits)
  obtain q where q: "completed_receipt t (wdb w2) = Some q" "er_prefix q = Some p"
    "er_hash q = Some (sv_hash env token)" "er_completed q \<noteq> None" "res = (receipt_result q)\<lparr>rr_replay := False\<rparr>"
    and before: "\<not> erased t (wdb w1)"
    and left: "service_accounts (wdb w2) = filter (\<lambda>r. sa_tenant r \<noteq> t) (service_accounts (wdb w1))"
    by (rule committed_receipt_cred [OF tx [unfolded c'(1)] new])
  from tn_relyD(6) [OF R inv r(1)] before t obtain r' where r': "r' \<in> set (service_accounts (wdb w1))"
    "sa_prefix r' = Some p" "sa_tenant r' = t"
    using r(3) p by (auto simp: account_le_def)
  have none: "first_row (\<lambda>r. sa_prefix r = Some p) (service_accounts (wdb w2)) = None"
    unfolding first_row_None_iff left
  proof (intro ballI notI)
    fix x assume "x \<in> set (filter (\<lambda>r. sa_tenant r \<noteq> t) (service_accounts (wdb w1)))" "sa_prefix x = Some p"
    then have x: "x \<in> set (service_accounts (wdb w1))" "sa_tenant x \<noteq> t" "sa_prefix x = Some p" by simp_all
    from inv1 have "distinct (given_values sa_prefix (service_accounts (wdb w1)))" by (simp add: tn_inv_def accounts_ok_def)
    from given_values_inj [OF this x(1) r'(1) x(3) r'(2)] x(2) r'(3) show False by simp
  qed
  have refused: "authenticate_opaque ?e p token w2 = (Inr None, w2)"
    by (simp add: authenticate_opaque_def bind_query_quiet [OF w2] none ret_def)
  have inv2: "tn_inv (wdb w2)"
    using tn_rely_erase [OF inv1 credential_tombstone_ok [OF c] tx] inv1 by (rule tn.rely_inv)
  then have hashes: "distinct (given_values er_hash (erase_receipts (wdb w2)))" by (simp add: tn_inv_def receipts_ok_def)
  have receipt: "first_row (\<lambda>r. er_tenant r = t \<and> er_status r = Erase_completed \<and> er_completed r \<noteq> None
      \<and> er_prefix r = Some p) (erase_receipts (wdb w2)) = Some q"
  proof -
    from q(1) have "q \<in> set (erase_receipts (wdb w2))" "er_tenant q = t" "er_status q = Erase_completed"
      by (auto simp: completed_receipt_def dest: first_row_SomeD)
    moreover have "distinct (map er_tenant (erase_receipts (wdb w2)))"
      using inv2 by (simp add: tn_inv_def receipts_ok_def)
    ultimately show ?thesis using q(2,4)
      by (intro first_row_unique) (auto dest: distinct_map_eqD)
  qed
  have tomb: "authenticate_erased_opaque ?e t p token w2 = (Inr (Some q), w2)"
    using receipt q(3) c'(2)
    by (simp add: authenticate_erased_opaque_def bind_query_quiet [OF w2] ret_def sv_env.truncate_def)
  from auth have bearer: "py_lower scheme = ''bearer''"
    by (auto simp: get_current_user_def bindM_def lift_def raise_def split: if_splits sum.splits)
  let ?u = "auth_user_from_erase_tombstone q"
  have "get_current_user env rq (Some (scheme, token)) w2 = (Inr ?u, w2)"
    using bearer shape pool(1) p route free refused tomb
    by (simp add: get_current_user_def catch_def authenticate_bearer_def authenticate_opaque_service_def bindM_def
        finalize_principal_def lift_def ret_def Let_def)
  moreover have "au_kind ?u = ERASE_TOMBSTONE" "au_tenant_id ?u = Some (er_tenant q)"
    by (simp_all add: auth_user_from_erase_tombstone_def plain_principal_def)
  moreover have "er_tenant q = t" using q(1) by (auto simp: completed_receipt_def dest: first_row_SomeD)
  ultimately have replays: "\<exists>u'. get_current_user env rq (Some (scheme, token)) w2 = (Inr u', w2) \<and> au_kind u' = ERASE_TOMBSTONE
      \<and> erase_tenant er u' t w2 = (Inr (res\<lparr>rr_replay := True\<rparr>), w2)
      \<and> (\<forall>t' roles scopes (w :: (tn_db, tn_answer) world). \<exists>e. fst (require_tenant_access u' t' roles scopes w) = Inl (HTTPException 403 e))"
    by (intro exI [of _ ?u])
      (simp add: erase_tenant_def bind_query_quiet [OF w2] q(1,5) can_read_receipt_def ret_def receipt_result_def
        require_tenant_access_def raise_def)
  have elsewhere: "\<exists>e. authenticate_opaque_service env rq2 token w2 = (Inl e, w2)"
  proof (cases "erase_retry_tenant_id env rq2")
    case None
    then show ?thesis using p refused
      by (simp add: authenticate_opaque_service_def bindM_def raise_def Let_def)
  next
    case (Some t')
    have "authenticate_erased_opaque ?e t' p token w2 = (Inr None, w2)"
    proof -
      have False if x: "first_row (\<lambda>r. er_tenant r = t' \<and> er_status r = Erase_completed \<and> er_completed r \<noteq> None
          \<and> er_prefix r = Some p) (erase_receipts (wdb w2)) = Some x" "er_hash x = Some (sv_hash env token)" for x
      proof -
        from q(1) have "q \<in> set (erase_receipts (wdb w2))" "er_tenant q = t"
          by (auto simp: completed_receipt_def dest: first_row_SomeD)
        with given_values_inj [OF hashes, of x q "sv_hash env token"] x q(3) first_row_SomeD [OF x(1)] Some other
        show False by auto
      qed
      then show ?thesis
        by (auto simp: authenticate_erased_opaque_def bind_query_quiet [OF w2] ret_def sv_env.truncate_def
            split: option.split)
    qed
    with Some show ?thesis using p refused
      by (simp add: authenticate_opaque_service_def bindM_def raise_def Let_def)
  qed
  have "\<exists>e. fst (get_current_user env rq2 (Some (scheme, token)) w2) = Inl e"
    using elsewhere bearer shape pool(2)
    by (auto simp: get_current_user_def catch_def authenticate_bearer_def bindM_def lift_def raise_def
        split: sum.split exn.split prod.split)
  with replays show ?thesis by blast
qed

theorem erased_credential_only_replays_witness:
  "\<exists>u w1 res w2 u'. get_current_user demo_at demo_retry_route (Some (''Bearer'', demo_token)) (demo_tn_world demo_tn_account ''e'') = (Inr u, w1)
    \<and> erase_tenant demo_er u ''t0'' w1 = (Inr res, w2)
    \<and> get_current_user demo_at demo_retry_route (Some (''Bearer'', demo_token)) w2 = (Inr u', w2) \<and> au_kind u' = ERASE_TOMBSTONE
    \<and> erase_tenant demo_er u' ''t0'' w2 = (Inr (res\<lparr>rr_replay := True\<rparr>), w2)"
proof -
  let ?w = "demo_tn_world demo_tn_account ''e''"
  have "case get_current_user demo_at demo_retry_route (Some (''Bearer'', demo_token)) ?w of
      (Inr u, w1) \<Rightarrow> au_kind u = SERVICE \<and> (case fst (erase_tenant demo_er u ''t0'' w1) of
          Inr res \<Rightarrow> \<not> rr_replay res | Inl e \<Rightarrow> False)
    | _ \<Rightarrow> False" by code_simp
  then obtain u w1 where u: "get_current_user demo_at demo_retry_route (Some (''Bearer'', demo_token)) ?w = (Inr u, w1)"
    "au_kind u = SERVICE" "case fst (erase_tenant demo_er u ''t0'' w1) of Inr res \<Rightarrow> \<not> rr_replay res | Inl e \<Rightarrow> False"
    by (auto split: prod.splits sum.splits)
  obtain out w2 where e: "erase_tenant demo_er u ''t0'' w1 = (out, w2)" by force
  with u(3) obtain res where "out = Inr res" "\<not> rr_replay res" by (cases out) auto
  with u e demo_tn_inv(2) demo_token_shape(1)
    erased_credential_only_replays [of ?w demo_token demo_at demo_retry_route "''t0''" "''Bearer''" u w1 demo_er res w2 demo_other_route]
  show ?thesis by auto
qed

subsection \<open>The tables in every history\<close>

text \<open>
  In every reachable database identifiers, token prefixes and auth users of accounts are unique,
  a revoked account is inactive, every account and membership belongs to an existing tenant, a
  partner's reference is provisioned once, its runtime account exists in the provision's tenant and
  cannot resolve other tenants or act with the wildcard, and an erase receipt is completed exactly
  when it has a completion time, and keeps the hash of at most one credential, which is no other's.
\<close>

theorem accounts_consistent:
  assumes "tn_reachable env er d"
  shows "distinct (map sa_id (service_accounts d)) \<and> distinct (given_values sa_prefix (service_accounts d))
    \<and> distinct (given_values sa_auth_user (service_accounts d))
    \<and> (\<forall>r \<in> set (service_accounts d). (sa_active r \<longrightarrow> sa_revoked r = None) \<and> tenant_exists (sa_tenant r) d)
    \<and> (\<forall>m \<in> set (tenant_members d). tenant_exists (tm_tenant m) d)
    \<and> distinct (map (\<lambda>p. (pp_partner p, pp_ref p)) (partner_provisions d))
    \<and> (\<forall>p \<in> set (partner_provisions d). \<exists>a \<in> set (service_accounts d). sa_id a = pp_account p
         \<and> sa_tenant a = pp_tenant p \<and> ''*'' \<notin> set (sa_scopes a) \<and> ''status:tenant-resolve'' \<notin> set (sa_scopes a))
    \<and> distinct (map er_tenant (erase_receipts d)) \<and> distinct (given_values er_hash (erase_receipts d))
    \<and> (\<forall>q \<in> set (erase_receipts d). er_status q = Erase_completed \<longleftrightarrow> er_completed q \<noteq> None)"
proof -
  have "tn_inv d" by (rule tns.reachable_inv [OF assms])
  then show ?thesis
    by (auto simp: tn_inv_def tenants_ok_def accounts_ok_def account_ok_def provisions_ok_def receipts_ok_def
        receipt_ok_def runtime_of_def restricted_def)
qed

theorem accounts_consistent_witness: "tenant_exists ''t0'' demo_tn_revoked"
  using accounts_consistent [OF demo_tn_reachable(3)] by (simp add: demo_tn_rows demo_account_def)

text \<open>
  What a history has committed stays: an account keeps its tenant, its prefix and its scopes, a
  revocation is never undone, a key hash never changes except by being cleared, a provision keeps its
  tenant, a completed receipt never changes, unless the tenant has been erased in the meantime.
\<close>

theorem account_history:
  assumes "tn_reachable env er (wdb w)" and "interfered (tn_run env er) w"
    and run: "d' = wdb (snd (tn_run env er c w))"
  shows "(\<forall>r \<in> set (service_accounts (wdb w)). erased (sa_tenant r) d'
      \<or> (\<exists>r' \<in> set (service_accounts d'). sa_id r' = sa_id r \<and> sa_tenant r' = sa_tenant r
           \<and> sa_prefix r' = sa_prefix r \<and> sa_scopes r' = sa_scopes r \<and> sa_hash r' \<in> {sa_hash r, None}
           \<and> (account_live r' \<longrightarrow> account_live r)))
    \<and> (\<forall>p \<in> set (partner_provisions (wdb w)). erased (pp_tenant p) d'
      \<or> (\<exists>p' \<in> set (partner_provisions d'). pp_partner p' = pp_partner p \<and> pp_ref p' = pp_ref p
           \<and> pp_tenant p' = pp_tenant p))
    \<and> (\<forall>q \<in> set (erase_receipts (wdb w)). er_status q = Erase_completed \<longrightarrow> q \<in> set (erase_receipts d'))
    \<and> (\<exists>es. audit_events d' = audit_events (wdb w) @ es)"
proof -
  note R = tn_relyD [OF tns.reachable_step [OF assms(1,2), of c, folded run] tns.reachable_inv [OF assms(1)]]
  have "erased (sa_tenant r) d' \<or> (\<exists>r' \<in> set (service_accounts d'). sa_id r' = sa_id r \<and> sa_tenant r' = sa_tenant r
      \<and> sa_prefix r' = sa_prefix r \<and> sa_scopes r' = sa_scopes r \<and> sa_hash r' \<in> {sa_hash r, None}
      \<and> (account_live r' \<longrightarrow> account_live r))" if "r \<in> set (service_accounts (wdb w))" for r
    using R(6) [OF that] account_le_dead by (fastforce simp: account_le_def)
  moreover have "erased (pp_tenant p) d' \<or> (\<exists>p' \<in> set (partner_provisions d'). pp_partner p' = pp_partner p
      \<and> pp_ref p' = pp_ref p \<and> pp_tenant p' = pp_tenant p)" if "p \<in> set (partner_provisions (wdb w))" for p
    using R(7) [OF that] by (auto simp: provision_le_def)
  ultimately show ?thesis using R(3,4) by blast
qed

theorem account_history_witness:
  "\<forall>r \<in> set (service_accounts demo_tn_account). erased (sa_tenant r) demo_tn_revoked
     \<or> (\<exists>r' \<in> set (service_accounts demo_tn_revoked). sa_id r' = sa_id r \<and> sa_scopes r' = sa_scopes r)"
  using account_history [of demo_at demo_er "demo_tn_world demo_tn_account ''r''", OF _ _ demo_tn_steps(3) [symmetric]] demo_tn_reachable(2)
  by fastforce

subsection \<open>Provisioning\<close>

lemma first_row_upd_where:
  "(\<And>r. p r \<Longrightarrow> p (f r)) \<Longrightarrow> first_row p (upd_where p f rs) = map_option f (first_row p rs)"
  by (induction rs) (auto simp: first_row_def table_simps)

text \<open>The provision that a request finds afterwards, with its tenant and its account.\<close>

definition provisioned :: "string \<Rightarrow> string \<Rightarrow> tenant_row \<Rightarrow> account_row \<Rightarrow> tn_db \<Rightarrow> bool" where
  "provisioned key ref t a d \<longleftrightarrow> (\<exists>p. first_row (\<lambda>p. pp_partner p = key \<and> pp_ref p = ref) (partner_provisions d) = Some p
     \<and> first_row (\<lambda>t. tn_id t = pp_tenant p) (tenants d) = Some t
     \<and> first_row (\<lambda>a. sa_id a = pp_account p \<and> sa_tenant a = pp_tenant p) (service_accounts d) = Some a)"

lemma minted_row_found:
  assumes "service_accounts d' = service_accounts d @ [row]" and "aid \<notin> sa_id ` set (service_accounts d)"
    and "sa_id row = aid" and "sa_tenant row = tid"
  shows "first_row (\<lambda>a. sa_id a = aid \<and> sa_tenant a = tid) (service_accounts d') = Some row"
proof -
  have "sa_id a \<noteq> aid" if "a \<in> set (service_accounts d)" for a
    using imageI [OF that, of sa_id] assms(2) by auto
  then have "first_row (\<lambda>a. sa_id a = aid \<and> sa_tenant a = tid) (service_accounts d) = None"
    by (auto simp: first_row_None_iff)
  with assms(1,3,4) show ?thesis by (simp add: first_row_snoc)
qed

lemma insert_provision_fields:
  "insert_provision p d = Inr d' \<Longrightarrow> partner_provisions d' = partner_provisions d @ [p]
     \<and> service_accounts d' = service_accounts d \<and> tenants d' = tenants d"
  by (auto simp: insert_provision_def split: if_splits)

lemma move_provision_fields:
  "move_provision key ref aid d = Inr d' \<Longrightarrow> partner_provisions d' =
      upd_where (\<lambda>q. pp_partner q = key \<and> pp_ref q = ref) (\<lambda>q. q\<lparr>pp_account := aid\<rparr>) (partner_provisions d)
     \<and> service_accounts d' = service_accounts d \<and> tenants d' = tenants d"
  by (auto simp: move_provision_def split: if_splits)

lemma minted_view_tenant:
  "minted_view created t minted row d = Inr (v, d') \<Longrightarrow>
   first_row (\<lambda>x. tn_id x = t) (tenants d) = Some (pv_tenant v)"
  by (auto simp: minted_view_def split: option.splits)

lemma create_provision_found:
  assumes run: "create_provision key ref slug name scopes minted ids d = Inr (v, d')"
    and new: "first_row (\<lambda>p. pp_partner p = key \<and> pp_ref p = ref) (partner_provisions d) = None"
  shows "\<exists>a. provisioned key ref (pv_tenant v) a d' \<and> pv_account v = (public_row a)\<lparr>av_token := Some (fst minted)\<rparr>
    \<and> account_live a"
proof -
  obtain tid aid pid where ids: "ids = (tid, aid, pid)" by (cases ids)
  let ?p = "\<lparr>pp_id = pid, pp_partner = key, pp_ref = ref, pp_tenant = tid, pp_account = aid\<rparr>"
  from run obtain row d1 d2 d3 where
    ins: "insert_tenant \<lparr>tn_id = tid, tn_slug = slug, tn_name = name, tn_directory = None, tn_created = now d\<rparr> d = Inr d1"
    and mint: "mint_runtime tid key minted scopes aid d1 = Inr (row, d2)"
    and prov: "insert_provision ?p d2 = Inr d3"
    and view: "minted_view True tid minted row (add_audit (provision_audit key ref tid True False aid) d3) = Inr (v, d')"
    by (auto simp: create_provision_def ids split: sum.splits prod.splits)
  note m = mint_runtime_row [OF mint] and i = insert_provision_fields [OF prov] and v = minted_view_db [OF view]
  have "partner_provisions d1 = partner_provisions d" using ins by (auto simp: insert_tenant_def split: if_splits)
  then have "first_row (\<lambda>p. pp_partner p = key \<and> pp_ref p = ref) (partner_provisions d') = Some ?p"
    using i v m(6) new by (simp add: add_audit_def first_row_snoc)
  moreover have "first_row (\<lambda>a. sa_id a = aid \<and> sa_tenant a = tid) (service_accounts d') = Some row"
    using minted_row_found [OF m(2,7,3,4)] i v by (simp add: add_audit_def)
  moreover have "first_row (\<lambda>t. tn_id t = tid) (tenants d') = Some (pv_tenant v)"
    using minted_view_tenant [OF view] v by simp
  ultimately show ?thesis using v m(10) by (auto simp: provisioned_def)
qed

lemma remint_provision_found:
  assumes run: "remint_provision key ref scopes minted aid p d = Inr (v, d')"
    and old: "first_row (\<lambda>p. pp_partner p = key \<and> pp_ref p = ref) (partner_provisions d) = Some p"
    and inv: "tn_inv d"
  shows "\<exists>a. provisioned key ref (pv_tenant v) a d' \<and> pv_account v = (public_row a)\<lparr>av_token := Some (fst minted)\<rparr>
    \<and> account_live a \<and> sa_id a \<notin> sa_id ` set (service_accounts d)
    \<and> first_row (\<lambda>t. tn_id t = pp_tenant p) (tenants d) = Some (pv_tenant v)
    \<and> (\<forall>r \<in> set (service_accounts d'). sa_id r = pp_account p \<longrightarrow> sa_tenant r = pp_tenant p \<longrightarrow> \<not> account_live r)"
proof -
  from run obtain row d1 d2 where
    mint: "mint_runtime (pp_tenant p) key minted scopes aid (revoke_provisioned p d) = Inr (row, d1)"
    and mv: "move_provision key ref aid d1 = Inr d2"
    and view: "minted_view False (pp_tenant p) minted row
      (add_audit (provision_audit key ref (pp_tenant p) False True aid) d2) = Inr (v, d')"
    by (auto simp: remint_provision_def split: sum.splits prod.splits)
  note m = mint_runtime_row [OF mint] and i = move_provision_fields [OF mv] and v = minted_view_db [OF view]
  have "map sa_id (service_accounts (revoke_provisioned p d)) = map sa_id (service_accounts d)"
    by (simp add: revoke_provisioned_def map_upd_where)
  from arg_cong [OF this, of set]
  have ids: "sa_id ` set (service_accounts (revoke_provisioned p d)) = sa_id ` set (service_accounts d)" by simp
  have "first_row (\<lambda>p. pp_partner p = key \<and> pp_ref p = ref) (partner_provisions d') = Some (p\<lparr>pp_account := aid\<rparr>)"
    using i v m(6) old by (simp add: add_audit_def revoke_provisioned_def first_row_upd_where)
  moreover have found: "first_row (\<lambda>a. sa_id a = aid \<and> sa_tenant a = pp_tenant p) (service_accounts d') = Some row"
    using minted_row_found [OF m(2,7,3,4)] i v by (simp add: add_audit_def)
  moreover have ten: "first_row (\<lambda>t. tn_id t = pp_tenant p) (tenants d') = Some (pv_tenant v)"
    using minted_view_tenant [OF view] v by simp
  moreover have "tenants d' = tenants d" using i v m(11) by (simp add: add_audit_def revoke_provisioned_def)
  moreover have "\<not> account_live r" if r: "r \<in> set (service_accounts d')" "sa_id r = pp_account p" "sa_tenant r = pp_tenant p" for r
  proof -
    from old have "p \<in> set (partner_provisions d)" by (auto dest: first_row_SomeD)
    with inv have "pp_account p \<in> sa_id ` set (service_accounts d)"
      by (force simp: tn_inv_def provisions_ok_def runtime_of_def)
    with m(3,7) ids r(2) have "r \<noteq> row" by auto
    with r(1) i v m(2) have "r \<in> set (service_accounts (revoke_provisioned p d))" by (simp add: add_audit_def)
    then obtain x where "r = (if sa_id x = pp_account p \<and> sa_tenant x = pp_tenant p \<and> sa_revoked x = None
        then x\<lparr>sa_active := False, sa_revoked := Some (now d), sa_updated := now d\<rparr> else x)"
      by (auto simp: revoke_provisioned_def elim!: in_upd_whereE)
    with r(2,3) show ?thesis by (auto simp: account_live_def split: if_splits)
  qed
  ultimately show ?thesis using v m(10,3,7) ids by (auto simp: provisioned_def)
qed

lemma existing_response_found:
  assumes "first_row (\<lambda>p. pp_partner p = key \<and> pp_ref p = ref) (partner_provisions d) = Some p"
  shows "existing_response p d = Inr v \<longleftrightarrow> (\<exists>t a. provisioned key ref t a d
    \<and> v = \<lparr>pv_created = False, pv_reminted = False, pv_tenant = t, pv_account = public_row a\<rparr>)"
  using assms by (auto simp: existing_response_def provisioned_def split: option.splits)

text \<open>Alone, a provision is its checks and then its transaction.\<close>

lemma provision_runs:
  assumes "quiet w"
  shows "provision_partner_tenant env q w = (Inr v, w') \<longleftrightarrow>
    (\<exists>key ref slug name scopes. provision_identity q = Inr (key, ref) \<and> schema_ready (wdb w)
       \<and> provision_plan env q key ref = Inr (slug, name, scopes)
       \<and> (\<exists>d. provision_stmt q key ref slug name scopes (mint_opaque_token env (wext w 0))
              (wrnd w 0, wrnd w 1, wrnd w 2) (wdb w) = Inr (v, d)
            \<and> w' = w\<lparr>wext := (\<lambda>n. wext w (Suc n)), wrnd := (\<lambda>n. wrnd w (Suc (Suc (Suc n)))), wdb := d\<rparr>))"
  using assms
  by (auto simp: provision_partner_tenant_def bind_lift ensure_secure_schema_def ensure_schema_def quiet_binds
      stmt_quiet numeral_2_eq_2 split: sum.splits prod.splits)

lemma provision_stmt_schema:
  "provision_stmt q key ref slug name scopes minted ids d = Inr (v, d') \<Longrightarrow> schema_ready d' = schema_ready d"
  by (auto simp: provision_stmt_def remint_provision_def create_provision_def mint_runtime_def insert_account_def
      insert_tenant_def insert_provision_def move_provision_def revoke_provisioned_def Let_def
      split: option.splits if_splits sum.splits prod.splits dest!: minted_view_db)

lemma provision_stmt_found:
  assumes run: "provision_stmt q key ref slug name scopes minted ids d = Inr (v, d')" and inv: "tn_inv d"
  shows "\<exists>a. provisioned key ref (pv_tenant v) a d' \<and> (pv_account v)\<lparr>av_token := None\<rparr> = public_row a"
proof (cases "first_row (\<lambda>p. pp_partner p = key \<and> pp_ref p = ref) (partner_provisions d)")
  case None
  with run have "create_provision key ref slug name scopes minted ids d = Inr (v, d')" by (simp add: provision_stmt_def)
  from create_provision_found [OF this None] show ?thesis by (auto simp: public_row_def)
next
  case (Some p)
  show ?thesis
  proof (cases "pr_remint q")
    case True
    with run Some have "remint_provision key ref scopes minted (fst (snd ids)) p d = Inr (v, d')"
      by (simp add: provision_stmt_def)
    from remint_provision_found [OF this Some inv] show ?thesis by (auto simp: public_row_def)
  next
    case False
    with run Some have "existing_response p d = Inr v" "d' = d" by (auto simp: provision_stmt_def split: sum.splits)
    with existing_response_found [OF Some, of v] obtain t a where "provisioned key ref t a d"
      "v = \<lparr>pv_created = False, pv_reminted = False, pv_tenant = t, pv_account = public_row a\<rparr>" by auto
    with \<open>d' = d\<close> show ?thesis by (auto simp: public_row_def)
  qed
qed

text \<open>
  C28: Provisioning is idempotent.  After a provision of a partner's reference, whoever repeats it, at
  any later moment while the rows are as they were, gets the same tenant and the same account without
  a token, and changes nothing; with \<open>remint_if_exists\<close> it gets the same tenant and a new account
  with a token, and no row of the previous account is live any more.
\<close>

theorem provision_idempotent:
  assumes w: "quiet w" "quiet w2" and inv: "tn_inv (wdb w)"
    and first: "provision_partner_tenant env q w = (Inr v, w')" and later: "wdb w2 = wdb w'"
  shows "(\<exists>w3. provision_partner_tenant env (q\<lparr>pr_remint := False\<rparr>) w2 = (Inr \<lparr>pv_created = False,
        pv_reminted = False, pv_tenant = pv_tenant v, pv_account = (pv_account v)\<lparr>av_token := None\<rparr>\<rparr>, w3)
      \<and> wdb w3 = wdb w')
    \<and> (\<forall>v3 w3. provision_partner_tenant env (q\<lparr>pr_remint := True\<rparr>) w2 = (Inr v3, w3) \<longrightarrow>
        pv_tenant v3 = pv_tenant v \<and> av_token (pv_account v3) \<noteq> None \<and> av_id (pv_account v3) \<noteq> av_id (pv_account v)
        \<and> (\<forall>r \<in> set (service_accounts (wdb w3)). sa_id r = av_id (pv_account v) \<longrightarrow>
              sa_tenant r = av_tenant (pv_account v) \<longrightarrow> \<not> account_live r))"
proof -
  from provision_runs [OF w(1), THEN iffD1, OF first] obtain key ref slug name scopes where
    ident: "provision_identity q = Inr (key, ref)" and ready: "schema_ready (wdb w)"
    and plan: "provision_plan env q key ref = Inr (slug, name, scopes)"
    and stm: "provision_stmt q key ref slug name scopes (mint_opaque_token env (wext w 0))
              (wrnd w 0, wrnd w 1, wrnd w 2) (wdb w) = Inr (v, wdb w')"
    by auto
  have same: "provision_identity (q\<lparr>pr_remint := b\<rparr>) = provision_identity q"
    "provision_plan env (q\<lparr>pr_remint := b\<rparr>) key ref = provision_plan env q key ref" for b
    by (simp_all add: provision_identity_def provision_plan_def cong: sum.case_cong if_cong)
  have inv': "tn_inv (wdb w')"
    using tn_rely_provision [OF stm provision_plan_restricted [OF plan] inv] inv by (rule tn.rely_inv)
  have ready': "schema_ready (wdb w')" using provision_stmt_schema [OF stm] ready by simp
  obtain a where a: "provisioned key ref (pv_tenant v) a (wdb w')" "(pv_account v)\<lparr>av_token := None\<rparr> = public_row a"
    using provision_stmt_found [OF stm inv] by blast
  then obtain p where p: "first_row (\<lambda>p. pp_partner p = key \<and> pp_ref p = ref) (partner_provisions (wdb w')) = Some p"
    "first_row (\<lambda>a. sa_id a = pp_account p \<and> sa_tenant a = pp_tenant p) (service_accounts (wdb w')) = Some a"
    "first_row (\<lambda>t. tn_id t = pp_tenant p) (tenants (wdb w')) = Some (pv_tenant v)"
    by (auto simp: provisioned_def)
  from arg_cong [OF a(2), of av_id] arg_cong [OF a(2), of av_tenant] first_row_SomeD [OF p(2)]
  have acc: "av_id (pv_account v) = pp_account p" "av_tenant (pv_account v) = pp_tenant p" "a \<in> set (service_accounts (wdb w'))"
    "sa_id a = pp_account p"
    by (simp_all add: public_row_def)
  let ?v = "\<lparr>pv_created = False, pv_reminted = False, pv_tenant = pv_tenant v, pv_account = (pv_account v)\<lparr>av_token := None\<rparr>\<rparr>"
  have "existing_response p (wdb w') = Inr ?v" using existing_response_found [OF p(1)] a by auto
  then have "provision_stmt (q\<lparr>pr_remint := False\<rparr>) key ref slug name scopes minted ids (wdb w') = Inr (?v, wdb w')" for minted ids
    using p(1) by (simp add: provision_stmt_def)
  with ident plan ready' same later have "provision_partner_tenant env (q\<lparr>pr_remint := False\<rparr>) w2 = (Inr ?v,
      w2\<lparr>wext := (\<lambda>n. wext w2 (Suc n)), wrnd := (\<lambda>n. wrnd w2 (Suc (Suc (Suc n)))), wdb := wdb w'\<rparr>)"
    unfolding provision_runs [OF w(2)] by simp
  then have "\<exists>w3. provision_partner_tenant env (q\<lparr>pr_remint := False\<rparr>) w2 = (Inr ?v, w3) \<and> wdb w3 = wdb w'"
    by auto
  moreover have "pv_tenant v3 = pv_tenant v \<and> av_token (pv_account v3) \<noteq> None \<and> av_id (pv_account v3) \<noteq> av_id (pv_account v)
        \<and> (\<forall>r \<in> set (service_accounts (wdb w3)). sa_id r = av_id (pv_account v) \<longrightarrow>
              sa_tenant r = av_tenant (pv_account v) \<longrightarrow> \<not> account_live r)"
    if run3: "provision_partner_tenant env (q\<lparr>pr_remint := True\<rparr>) w2 = (Inr v3, w3)" for v3 w3
  proof -
    from run3 [unfolded provision_runs [OF w(2)] same later] ident plan obtain d
      where st3: "provision_stmt (q\<lparr>pr_remint := True\<rparr>) key ref slug name scopes (mint_opaque_token env (wext w2 0))
              (wrnd w2 0, wrnd w2 1, wrnd w2 2) (wdb w') = Inr (v3, d)" and "wdb w3 = d"
      by (auto simp: same)
    then have "remint_provision key ref scopes (mint_opaque_token env (wext w2 0)) (wrnd w2 1) p (wdb w') = Inr (v3, wdb w3)"
      using p(1) by (simp add: provision_stmt_def)
    from remint_provision_found [OF this p(1) inv'] obtain b where b:
      "pv_account v3 = (public_row b)\<lparr>av_token := Some (fst (mint_opaque_token env (wext w2 0)))\<rparr>"
      "sa_id b \<notin> sa_id ` set (service_accounts (wdb w'))"
      "first_row (\<lambda>t. tn_id t = pp_tenant p) (tenants (wdb w')) = Some (pv_tenant v3)"
      "\<forall>r \<in> set (service_accounts (wdb w3)). sa_id r = pp_account p \<longrightarrow> sa_tenant r = pp_tenant p \<longrightarrow> \<not> account_live r"
      by blast
    have "pp_account p \<in> sa_id ` set (service_accounts (wdb w'))" using acc(3,4) by (metis imageI)
    with b(2) have "sa_id b \<noteq> pp_account p" by auto
    with b(1,3,4) p(3) acc(1,2) show ?thesis by (simp add: public_row_def)
  qed
  ultimately show ?thesis by blast
qed

theorem provision_idempotent_witness:
  "\<exists>v w' w3 v3. provision_partner_tenant (sv_env.truncate demo_at) demo_provision (demo_tn_world demo_tn_fresh ''p'') = (Inr v, w')
    \<and> provision_partner_tenant (sv_env.truncate demo_at) (demo_provision\<lparr>pr_remint := False\<rparr>)
        (demo_tn_world (wdb w') ''q'') = (Inr v3, w3) \<and> pv_tenant v3 = pv_tenant v"
proof -
  let ?w = "demo_tn_world demo_tn_fresh ''p''"
  obtain out w' where run: "provision_partner_tenant (sv_env.truncate demo_at) demo_provision ?w = (out, w')" by force
  have "case fst (provision_partner_tenant (sv_env.truncate demo_at) demo_provision ?w) of Inr v \<Rightarrow> True | Inl e \<Rightarrow> False"
    by code_simp
  with run obtain v where v: "out = Inr v" by (cases out) auto
  have "tn_inv demo_tn_fresh" by (rule tns.fresh_inv) (simp add: fresh_tn_def demo_tn_fresh_def)
  with run v provision_idempotent [of ?w "demo_tn_world (wdb w') ''q''" "sv_env.truncate demo_at" demo_provision v w']
  show ?thesis by auto
qed

end
