(* ===== verification/Retention.thy ===== *)
theory Retention
  imports Ingest
begin

section \<open>Retention\<close>

text \<open>
  \<open>services/retention.py\<close>: the sweep that deletes aged telemetry, results, sessions and completed
  receipts, at most \<open>batch_limit\<close> rows of a table at a time.  The statements name no order, so which
  of the expired rows go first is the database's choice: a scan, the order in which the positions of
  a table of a given size are visited, is an input.  Deleting an event clears the reference to it in
  \<open>embedding_vectors\<close> (\<open>ON DELETE SET NULL\<close>).
\<close>

type_synonym scan = "nat \<Rightarrow> nat list"

type_synonym 'a rt_prog = "(ig_db, scan, 'a) prog"

record rt_env =
  rt_telemetry_days :: int
  rt_results_days :: int
  rt_receipts_days :: int

definition batch_limit :: nat where "batch_limit = 5000"

definition days :: "int \<Rightarrow> time" where "days n = secs (86400 * n)"

text \<open>\<open>DELETE .. WHERE ctid IN (SELECT ctid .. WHERE p LIMIT n)\<close>: the count and the rows that stay.\<close>

definition batch_hits :: "scan \<Rightarrow> nat \<Rightarrow> ('r \<Rightarrow> bool) \<Rightarrow> 'r list \<Rightarrow> nat list" where
  "batch_hits scan limit p rows =
     take limit (filter (\<lambda>i. i < length rows \<and> p (rows ! i)) (remdups (scan (length rows))))"

definition delete_batch :: "scan \<Rightarrow> nat \<Rightarrow> ('r \<Rightarrow> bool) \<Rightarrow> 'r list \<Rightarrow> nat \<times> 'r list" where
  "delete_batch scan limit p rows = (let hits = batch_hits scan limit p rows in
     (length hits, map snd (filter (\<lambda>(i, _). i \<notin> set hits) (enumerate 0 rows))))"

definition old_event :: "rt_env \<Rightarrow> time \<Rightarrow> event_row \<Rightarrow> bool" where
  "old_event env t r \<longleftrightarrow> ev_created r < t - days (rt_telemetry_days env)"

definition old_result :: "rt_env \<Rightarrow> time \<Rightarrow> stream_row \<Rightarrow> bool" where
  "old_result env t r \<longleftrightarrow> st_created r < t - days (rt_results_days env)"

definition before :: "time option \<Rightarrow> time \<Rightarrow> bool" where
  "before x t \<longleftrightarrow> (case x of None \<Rightarrow> False | Some s \<Rightarrow> s < t)"

definition old_session :: "time \<Rightarrow> session_row \<Rightarrow> bool" where
  "old_session t s \<longleftrightarrow> before (cs_expires s) (t - days 7) \<or> before (cs_revoked s) (t - days 7)"

definition old_receipt :: "rt_env \<Rightarrow> time \<Rightarrow> batch_row \<Rightarrow> bool" where
  "old_receipt env t b \<longleftrightarrow> ib_status b = B_completed
     \<and> before (ib_completed b) (t - days (rt_receipts_days env))"

definition sweep_events :: "rt_env \<Rightarrow> scan \<Rightarrow> ig_db \<Rightarrow> nat \<times> ig_db" where
  "sweep_events env scan d =
     (case delete_batch scan batch_limit (old_event env (now d)) (telemetry d) of (n, rows) \<Rightarrow>
        (n, d\<lparr>telemetry := rows, embeddings := upd_where
           (\<lambda>e. \<exists>r \<in> set (telemetry d). em_event e = Some (ev_id r) \<and> r \<notin> set rows)
           (\<lambda>e. e\<lparr>em_event := None\<rparr>) (embeddings d)\<rparr>))"

definition sweep_results :: "rt_env \<Rightarrow> scan \<Rightarrow> ig_db \<Rightarrow> nat \<times> ig_db" where
  "sweep_results env scan d =
     (case delete_batch scan batch_limit (old_result env (now d)) (stream_results d) of (n, rows) \<Rightarrow>
        (n, d\<lparr>stream_results := rows\<rparr>))"

definition sweep_sessions :: "scan \<Rightarrow> ig_db \<Rightarrow> nat \<times> ig_db" where
  "sweep_sessions scan d =
     (case delete_batch scan batch_limit (old_session (now d)) (crypto_sessions d) of (n, rows) \<Rightarrow>
        (n, d\<lparr>crypto_sessions := rows\<rparr>))"

definition sweep_receipts :: "rt_env \<Rightarrow> scan \<Rightarrow> ig_db \<Rightarrow> nat \<times> ig_db" where
  "sweep_receipts env scan d =
     (case delete_batch scan batch_limit (old_receipt env (now d)) (ingest_batches d) of (n, rows) \<Rightarrow>
        (n, d\<lparr>ingest_batches := rows\<rparr>))"

definition sweep :: "(scan \<Rightarrow> ig_db \<Rightarrow> nat \<times> ig_db) \<Rightarrow> nat rt_prog" where
  "sweep f = bindM receive (\<lambda>scan. stmt (\<lambda>d. Inr (f scan d)))"

definition tick_retention :: "rt_env \<Rightarrow> (string \<times> nat) list rt_prog" where
  "tick_retention env =
     bindM (sweep (sweep_events env)) (\<lambda>a.
     bindM (sweep (sweep_results env)) (\<lambda>b.
     bindM (sweep sweep_sessions) (\<lambda>c.
     bindM (sweep (sweep_receipts env)) (\<lambda>e.
     ret [(''telemetry_events'', a), (''stream_results'', b), (''crypto_sessions'', c), (''ingest_receipts'', e)]))))"

text \<open>
  The supervised loop, for a number of rounds: what each round reports to the health registry (\<open>None\<close>
  a success) and the delay after it.
\<close>

fun retention_rounds :: "rt_env \<Rightarrow> rat \<Rightarrow> nat \<Rightarrow> (exn option \<times> rat) list rt_prog" where
  "retention_rounds env interval 0 = ret []"
| "retention_rounds env interval (Suc n) =
     bindM (catch (bindM (tick_retention env) (\<lambda>_. ret (None, interval)))
       (\<lambda>e. ret (Some e, min interval 5))) (\<lambda>r.
     bindM (retention_rounds env interval n) (\<lambda>rs. ret (r # rs)))"

subsection \<open>A bounded delete\<close>

text \<open>A scan visits every row.\<close>

definition full_scan :: "scan \<Rightarrow> bool" where
  "full_scan scan \<longleftrightarrow> (\<forall>n. {..<n} \<subseteq> set (scan n))"

lemma enumerate_nth: "(i, x) \<in> set (enumerate 0 xs) \<longleftrightarrow> i < length xs \<and> x = xs ! i"
  by (auto simp: in_set_enumerate_eq)

lemma filter_fst_enumerate: "map fst (filter (\<lambda>x. P (fst x)) (enumerate 0 xs)) = filter P [0..<length xs]"
  using filter_map [of P fst "enumerate 0 xs"] by (simp add: comp_def)

lemma filter_snd_enumerate: "map snd (filter (\<lambda>x. P (snd x)) (enumerate 0 xs)) = filter P xs"
  using filter_map [of P snd "enumerate 0 xs"] by (simp add: comp_def)

lemma filter_positions:
  "length (filter (\<lambda>i. i < length xs \<and> p (xs ! i)) [0..<length xs]) = length (filter p xs)"
proof -
  have "map snd (filter (\<lambda>x. p (snd x)) (enumerate 0 xs)) = map snd (filter (\<lambda>x. p (xs ! fst x)) (enumerate 0 xs))"
    by (rule arg_cong [where f = "map snd"], rule filter_cong) (auto simp: enumerate_nth)
  then have "length (filter p xs) = length (filter (\<lambda>x. p (xs ! fst x)) (enumerate 0 xs))"
    by (metis filter_snd_enumerate length_map)
  also have "\<dots> = length (filter (\<lambda>i. p (xs ! i)) [0..<length xs])"
    by (metis filter_fst_enumerate [where P = "\<lambda>i. p (xs ! i)"] length_map)
  also have "filter (\<lambda>i. p (xs ! i)) [0..<length xs] = filter (\<lambda>i. i < length xs \<and> p (xs ! i)) [0..<length xs]"
    by (rule filter_cong) auto
  finally show ?thesis by simp
qed

lemma batch_hits_distinct: "distinct (batch_hits scan limit p rows)"
  by (simp add: batch_hits_def)

lemma batch_hits_expired: "i \<in> set (batch_hits scan limit p rows) \<Longrightarrow> i < length rows \<and> p (rows ! i)"
  by (auto simp: batch_hits_def dest!: in_set_takeD)

lemma delete_batch_filter:
  assumes "\<And>r. q r \<Longrightarrow> \<not> p r"
  shows "filter q (snd (delete_batch scan limit p rows)) = filter q rows"
proof -
  have "filter q (snd (delete_batch scan limit p rows))
      = map snd (filter (\<lambda>(i, r). q r) (filter (\<lambda>(i, _). i \<notin> set (batch_hits scan limit p rows)) (enumerate 0 rows)))"
    by (simp add: delete_batch_def Let_def filter_map comp_def case_prod_beta')
  also have "\<dots> = map snd (filter (\<lambda>(i, r). q r) (enumerate 0 rows))"
    using assms by (auto simp: filter_filter enumerate_nth intro!: arg_cong [where f = "map snd"] filter_cong
      dest: batch_hits_expired)
  also have "\<dots> = filter q rows" by (simp add: case_prod_beta' filter_snd_enumerate)
  finally show ?thesis .
qed

lemma delete_batch_subset: "set (snd (delete_batch scan limit p rows)) \<subseteq> set rows"
  by (auto simp: delete_batch_def Let_def enumerate_nth)

lemma delete_batch_length: "length (snd (delete_batch scan limit p rows)) + fst (delete_batch scan limit p rows) = length rows"
proof -
  let ?h = "batch_hits scan limit p rows"
  have "map fst (filter (\<lambda>(i, _). i \<in> set ?h) (enumerate 0 rows)) = filter (\<lambda>i. i \<in> set ?h) [0..<length rows]"
    by (simp add: case_prod_beta' filter_fst_enumerate [where P = "\<lambda>i. i \<in> set ?h"])
  moreover have "set (filter (\<lambda>i. i \<in> set ?h) [0..<length rows]) = set ?h"
    using batch_hits_expired by fastforce
  then have "length (filter (\<lambda>i. i \<in> set ?h) [0..<length rows]) = length ?h"
    using distinct_card [OF batch_hits_distinct, of scan limit p rows]
      distinct_card [of "filter (\<lambda>i. i \<in> set ?h) [0..<length rows]"] by simp
  ultimately have "length (filter (\<lambda>(i, _). i \<in> set ?h) (enumerate 0 rows)) = length ?h"
    by (metis length_map)
  with sum_length_filter_compl [of "\<lambda>(i, _). i \<in> set ?h" "enumerate 0 rows"] show ?thesis
    by (simp add: delete_batch_def Let_def case_prod_beta')
qed

lemma delete_batch_count:
  assumes "full_scan scan"
  shows "fst (delete_batch scan limit p rows) = min limit (length (filter p rows))"
proof -
  let ?c = "filter (\<lambda>i. i < length rows \<and> p (rows ! i)) (remdups (scan (length rows)))"
  let ?u = "filter (\<lambda>i. i < length rows \<and> p (rows ! i)) [0..<length rows]"
  have "set ?c = set ?u" using assms by (auto simp: full_scan_def)
  then have "length ?c = length ?u"
    using distinct_card [of ?c] distinct_card [of ?u] by simp
  also have "\<dots> = length (filter p rows)" by (rule filter_positions)
  finally show ?thesis by (simp add: delete_batch_def Let_def batch_hits_def)
qed

lemma delete_batch_backlog:
  assumes "full_scan scan"
  shows "length (filter p (snd (delete_batch scan limit p rows))) = length (filter p rows) - limit"
  using delete_batch_length [of scan limit p rows] delete_batch_count [OF assms, of limit p rows]
    delete_batch_filter [of "\<lambda>r. \<not> p r" p scan limit rows]
    sum_length_filter_compl [of p rows] sum_length_filter_compl [of p "snd (delete_batch scan limit p rows)"]
  by simp

subsection \<open>The sweep\<close>

text \<open>A table after deletes bounded by \<open>k\<close> rows: the other rows are untouched, the backlog is shorter.\<close>

definition swept :: "('r \<Rightarrow> bool) \<Rightarrow> nat \<Rightarrow> 'r list \<Rightarrow> 'r list \<Rightarrow> bool" where
  "swept p k old new \<longleftrightarrow> filter (\<lambda>r. \<not> p r) new = filter (\<lambda>r. \<not> p r) old \<and> set new \<subseteq> set old
     \<and> length (filter p new) = length (filter p old) - k"

lemma swept_delete_batch: "full_scan scan \<Longrightarrow> swept p k rows (snd (delete_batch scan k p rows))"
  by (simp add: swept_def delete_batch_filter delete_batch_subset delete_batch_backlog)

lemma swept_trans: "swept p j a b \<Longrightarrow> swept p k b c \<Longrightarrow> swept p (j + k) a c"
  by (auto simp: swept_def)

lemma swept_refl: "swept p 0 a a"
  by (simp add: swept_def)

lemma swept_all: "swept p k old new \<Longrightarrow> length (filter p old) \<le> k \<Longrightarrow> new = filter (\<lambda>r. \<not> p r) old"
proof -
  assume s: "swept p k old new" and "length (filter p old) \<le> k"
  then have "filter p new = []" by (simp add: swept_def)
  then have "filter (\<lambda>r. \<not> p r) new = new" by (simp add: filter_empty_conv filter_id_conv)
  with s show ?thesis by (simp add: swept_def)
qed

text \<open>What \<open>n\<close> sweeps at one moment leave of a database.\<close>

definition swept_db :: "rt_env \<Rightarrow> nat \<Rightarrow> ig_db \<Rightarrow> ig_db \<Rightarrow> bool" where
  "swept_db env k d d' \<longleftrightarrow> now d' = now d
     \<and> swept (old_event env (now d)) k (telemetry d) (telemetry d')
     \<and> swept (old_result env (now d)) k (stream_results d) (stream_results d')
     \<and> swept (old_session (now d)) k (crypto_sessions d) (crypto_sessions d')
     \<and> swept (old_receipt env (now d)) k (ingest_batches d) (ingest_batches d')
     \<and> list_all2 (\<lambda>e e'. e' = e \<or> e' = e\<lparr>em_event := None\<rparr>
          \<and> (\<exists>r \<in> set (telemetry d). old_event env (now d) r \<and> em_event e = Some (ev_id r)))
         (embeddings d) (embeddings d')"

lemma swept_removed: "swept p k old new \<Longrightarrow> r \<in> set old \<Longrightarrow> r \<notin> set new \<Longrightarrow> p r"
proof -
  assume s: "swept p k old new" and "r \<in> set old" "r \<notin> set new"
  from s have "set (filter (\<lambda>r. \<not> p r) new) = set (filter (\<lambda>r. \<not> p r) old)" by (simp add: swept_def)
  with \<open>r \<in> set old\<close> \<open>r \<notin> set new\<close> show "p r" by auto
qed

lemma swept_db_trans:
  assumes a: "swept_db env j d d1" and b: "swept_db env k d1 d2"
  shows "swept_db env (j + k) d d2"
proof -
  have "set (telemetry d1) \<subseteq> set (telemetry d)" "now d1 = now d" using a by (auto simp: swept_db_def swept_def)
  with a b have "list_all2 (\<lambda>e e'. e' = e \<or> e' = e\<lparr>em_event := None\<rparr>
          \<and> (\<exists>r \<in> set (telemetry d). old_event env (now d) r \<and> em_event e = Some (ev_id r)))
         (embeddings d) (embeddings d2)"
    unfolding swept_db_def by (elim conjE) (erule list_all2_trans [rotated], assumption, auto)
  with a b \<open>now d1 = now d\<close> show ?thesis
    by (auto simp: swept_db_def intro: swept_trans)
qed

lemma sweep_quiet: "quiet w \<Longrightarrow> sweep f w = (Inr (fst (f (wext w 0) (wdb w))),
    w\<lparr>wext := (\<lambda>n. wext w (Suc n)), wdb := snd (f (wext w 0) (wdb w))\<rparr>)"
  by (simp add: sweep_def bind_receive stmt_quiet split: prod.splits)

definition tick_db :: "rt_env \<Rightarrow> scan \<Rightarrow> scan \<Rightarrow> scan \<Rightarrow> scan \<Rightarrow> ig_db \<Rightarrow> ig_db" where
  "tick_db env a b c e d = snd (sweep_receipts env e (snd (sweep_sessions c
     (snd (sweep_results env b (snd (sweep_events env a d)))))))"

lemma tick_quiet:
  assumes "quiet w"
  shows "\<exists>counts. tick_retention env w = (Inr counts, w\<lparr>wext := (\<lambda>n. wext w (Suc (Suc (Suc (Suc n))))),
      wdb := tick_db env (wext w 0) (wext w 1) (wext w 2) (wext w 3) (wdb w)\<rparr>)"
  using assms by (simp add: tick_retention_def bindM_def sweep_quiet ret_def tick_db_def numeral_2_eq_2 numeral_3_eq_3)

lemma sweep_fields:
  "snd (sweep_results env b d) = d\<lparr>stream_results := snd (delete_batch b batch_limit (old_result env (now d)) (stream_results d))\<rparr>"
  "snd (sweep_sessions b d) = d\<lparr>crypto_sessions := snd (delete_batch b batch_limit (old_session (now d)) (crypto_sessions d))\<rparr>"
  "snd (sweep_receipts env b d) = d\<lparr>ingest_batches := snd (delete_batch b batch_limit (old_receipt env (now d)) (ingest_batches d))\<rparr>"
  by (simp_all add: sweep_results_def sweep_sessions_def sweep_receipts_def split: prod.splits)

lemma sweep_events_fields:
  "now (snd (sweep_events env a d)) = now d"
  "telemetry (snd (sweep_events env a d)) = snd (delete_batch a batch_limit (old_event env (now d)) (telemetry d))"
  "stream_results (snd (sweep_events env a d)) = stream_results d"
  "crypto_sessions (snd (sweep_events env a d)) = crypto_sessions d"
  "ingest_batches (snd (sweep_events env a d)) = ingest_batches d"
  "embeddings (snd (sweep_events env a d)) = upd_where (\<lambda>e. \<exists>r \<in> set (telemetry d). em_event e = Some (ev_id r)
     \<and> r \<notin> set (snd (delete_batch a batch_limit (old_event env (now d)) (telemetry d))))
       (\<lambda>e. e\<lparr>em_event := None\<rparr>) (embeddings d)"
  by (simp_all add: sweep_events_def split: prod.splits)

lemma tick_swept:
  assumes "full_scan a" "full_scan b" "full_scan c" "full_scan e"
  shows "swept_db env batch_limit d (tick_db env a b c e d)"
proof -
  let ?t = "snd (delete_batch a batch_limit (old_event env (now d)) (telemetry d))"
  have s: "swept (old_event env (now d)) batch_limit (telemetry d) ?t" using assms(1) by (rule swept_delete_batch)
  have "list_all2 (\<lambda>e e'. e' = e \<or> e' = e\<lparr>em_event := None\<rparr>
          \<and> (\<exists>r \<in> set (telemetry d). old_event env (now d) r \<and> em_event e = Some (ev_id r)))
         (embeddings d) (embeddings (snd (sweep_events env a d)))"
    unfolding sweep_events_fields(6) upd_where_def list_all2_map2
    by (rule list.rel_refl) (use swept_removed [OF s] in auto)
  then show ?thesis
    using assms s
    by (simp add: swept_db_def tick_db_def sweep_fields sweep_events_fields(1-5) swept_delete_batch)
qed

lemma rounds_quiet:
  assumes "quiet w" and "\<forall>n. full_scan (wext w n)"
  shows "\<exists>w'. retention_rounds env interval n w = (Inr (replicate n (None, interval)), w')
    \<and> swept_db env (n * batch_limit) (wdb w) (wdb w')"
  using assms
proof (induction n arbitrary: w)
  case 0
  then show ?case by (auto simp: ret_def swept_db_def swept_refl list.rel_refl)
next
  case (Suc n)
  obtain counts where t: "tick_retention env w = (Inr counts, w\<lparr>wext := (\<lambda>n. wext w (Suc (Suc (Suc (Suc n))))),
      wdb := tick_db env (wext w 0) (wext w 1) (wext w 2) (wext w 3) (wdb w)\<rparr>)" (is "_ = (_, ?w)")
    using tick_quiet [OF Suc.prems(1), of env] by blast
  from Suc.IH [of ?w] Suc.prems obtain w' where w': "retention_rounds env interval n ?w = (Inr (replicate n (None, interval)), w')"
    "swept_db env (n * batch_limit) (wdb ?w) (wdb w')" by auto
  have "swept_db env batch_limit (wdb w) (wdb ?w)" using Suc.prems(2) by (simp add: tick_swept)
  from swept_db_trans [OF this w'(2)] w'(1) t show ?case
    by (simp add: bindM_def catch_def ret_def)
qed

text \<open>
  C29: The sweep drains.  A round deletes at most 5000 rows of a table and none that is not expired, and
  what it leaves keeps its order, so \<open>n\<close> rounds leave \<open>n * 5000\<close> expired rows fewer, whatever order
  the database scans in.  Once the backlog is within \<open>n * 5000\<close>, \<open>n\<close> rounds end with no expired row,
  every other row in place, each round reporting success; an embedding loses its event only when the
  event was expired.
\<close>

theorem retention_drains:
  assumes "quiet w" and "\<forall>n. full_scan (wext w n)"
  shows "\<exists>w'. retention_rounds env interval n w = (Inr (replicate n (None, interval)), w')
    \<and> swept_db env (n * batch_limit) (wdb w) (wdb w')
    \<and> (length (filter (old_event env (now (wdb w))) (telemetry (wdb w))) \<le> n * batch_limit \<longrightarrow>
         telemetry (wdb w') = filter (\<lambda>r. \<not> old_event env (now (wdb w)) r) (telemetry (wdb w)))
    \<and> (length (filter (old_result env (now (wdb w))) (stream_results (wdb w))) \<le> n * batch_limit \<longrightarrow>
         stream_results (wdb w') = filter (\<lambda>r. \<not> old_result env (now (wdb w)) r) (stream_results (wdb w)))
    \<and> (length (filter (old_session (now (wdb w))) (crypto_sessions (wdb w))) \<le> n * batch_limit \<longrightarrow>
         crypto_sessions (wdb w') = filter (\<lambda>r. \<not> old_session (now (wdb w)) r) (crypto_sessions (wdb w)))
    \<and> (length (filter (old_receipt env (now (wdb w))) (ingest_batches (wdb w))) \<le> n * batch_limit \<longrightarrow>
         ingest_batches (wdb w') = filter (\<lambda>r. \<not> old_receipt env (now (wdb w)) r) (ingest_batches (wdb w)))"
proof -
  from rounds_quiet [OF assms] obtain w' where
    "retention_rounds env interval n w = (Inr (replicate n (None, interval)), w')"
    "swept_db env (n * batch_limit) (wdb w) (wdb w')" by blast
  then show ?thesis by (intro exI [of _ w']) (auto simp: swept_db_def dest: swept_all)
qed

definition demo_rt_session :: "string \<Rightarrow> time option \<Rightarrow> session_row" where
  "demo_rt_session s revoked = \<lparr>cs_id = s, cs_tenant = ''T'', cs_session = s, cs_user = ''u'',
     cs_identity = ''key'', cs_ephemeral = None, cs_hint = None, cs_created = 0, cs_updated = 0,
     cs_expires = None, cs_revoked = revoked\<rparr>"

definition demo_rt_db :: ig_db where
  "demo_rt_db = \<lparr>now = days 100, schema_ready = True, tenant_members = [], audit_events = [],
     crypto_sessions = [demo_rt_session ''a'' (Some 0), demo_rt_session ''b'' None,
       demo_rt_session ''c'' (Some (days 99))],
     telemetry = [], stream_results = [], dead_letters = [], checkpoints = [], advisory_locks = [],
     ingest_batches = [], embeddings = []\<rparr>"

theorem retention_drains_witness:
  "crypto_sessions (wdb (snd (retention_rounds \<lparr>rt_telemetry_days = 30, rt_results_days = 30, rt_receipts_days = 30\<rparr>
      3600 1 (quiet_world demo_rt_db (\<lambda>_ n. rev [0..<n]) (\<lambda>_. []))))) =
    [demo_rt_session ''b'' None, demo_rt_session ''c'' (Some (days 99))]"
proof -
  let ?w = "quiet_world demo_rt_db (\<lambda>_ n. rev [0..<n]) (\<lambda>_. []) :: (ig_db, scan) world"
  have full: "\<forall>n. full_scan (wext ?w n)" by (auto simp: full_scan_def quiet_world_def)
  from retention_drains [OF quiet_quiet_world full, of "\<lparr>rt_telemetry_days = 30, rt_results_days = 30,
      rt_receipts_days = 30\<rparr>" 3600 1]
  show ?thesis
    by (auto simp: demo_rt_db_def demo_rt_session_def old_session_def before_def days_def secs_def batch_limit_def)
qed

subsection \<open>What the sweep forgets\<close>

text \<open>
  The row of a revoked session is what keeps the session revoked (\<open>session_revoked\<close>): once the sweep
  has deleted it, a registration under the same name makes a session that is active.
\<close>

lemma swept_session_registers_again:
  assumes sweep: "length (filter (old_session (now d)) (crypto_sessions d)) \<le> batch_limit" "full_scan scan"
    and old: "\<And>s. s \<in> set (crypto_sessions d) \<Longrightarrow> same_session (cs_tenant row) (cs_session row) s \<Longrightarrow> old_session (now d) s"
    and ok: "40 \<le> length (cs_identity row)" "length (cs_identity row) \<le> 64"
      "cs_id row \<notin> cs_id ` set (crypto_sessions d)"
  shows "\<exists>d'. upsert_session_stmt may f row (snd (sweep_sessions scan d)) = Inr (Some row, d')"
proof -
  have rows: "crypto_sessions (snd (sweep_sessions scan d)) = filter (\<lambda>s. \<not> old_session (now d) s) (crypto_sessions d)"
    using swept_all [OF swept_delete_batch [OF sweep(2)] sweep(1)] by (simp add: sweep_fields)
  have "first_row (same_session (cs_tenant row) (cs_session row)) (crypto_sessions (snd (sweep_sessions scan d))) = None"
    using old unfolding rows first_row_None_iff by auto
  with ok show ?thesis by (auto simp: upsert_session_stmt_def rows)
qed

end
