(* ===== verification/Monitoring.thy ===== *)
theory Monitoring
  imports Projections
begin

section \<open>Scores, training runs and the tables of the status pages\<close>

text \<open>
  The tables behind the status pages and the analytics, and \<open>services/ml/store.py\<close>: what the two
  services read of the scores and training runs, and the writers of both.  A table a deployment may
  lack is an \<open>option\<close> (\<open>UndefinedTableError\<close>); a \<open>DOUBLE PRECISION\<close> column holds a finite number; a
  float computation is exact, \<open>round\<close> rounds half to even.  \<open>float\<close> of a text and the rendering of
  an identifier are the library's.
\<close>

subsection \<open>Tables\<close>

record page_row =
  sp_id :: uuid
  sp_tenant :: uuid
  sp_slug :: string
  sp_title :: string
  sp_description :: string
  sp_published :: bool
  sp_created :: time
  sp_updated :: time

record service_row =
  ss_id :: uuid
  ss_page :: uuid
  ss_tenant :: uuid
  ss_name :: string
  ss_status :: string
  ss_description :: string
  ss_probe :: "string option"
  ss_order :: int
  ss_updated :: time

record incident_row =
  si_id :: uuid
  si_page :: uuid
  si_tenant :: uuid
  si_title :: string
  si_status :: string
  si_severity :: string
  si_body :: string
  si_started :: time
  si_resolved :: "time option"

record probe_row =
  hp_service :: uuid
  hp_tenant :: uuid
  hp_ms :: int
  hp_active :: bool
  hp_observed :: time

record rollup_row =
  ag_tenant :: uuid
  ag_start :: time
  ag_requests :: int
  ag_avg :: rat
  ag_p99 :: rat
  ag_error_rate :: rat
  ag_threats :: int
  ag_incidents :: int
  ag_visitors :: int
  ag_metadata :: jdict

record score_row =
  ml_tenant :: uuid
  ml_family :: string
  ml_model :: string
  ml_score :: "rat option"
  ml_anomaly :: bool
  ml_features :: json
  ml_metadata :: json
  ml_created :: time

record run_rec =
  tr_id :: uuid
  tr_tenant :: uuid
  tr_model :: string
  tr_version :: string
  tr_status :: string
  tr_metrics :: json
  tr_artifact :: "string option"
  tr_family :: string
  tr_created :: time

record intel_row =
  ti_tenant :: "uuid option"
  ti_platform :: bool
  ti_created :: time

record case_row =
  ic_tenant :: uuid
  ic_status :: string
  ic_created :: time

record mo_db = pj_db +
  mo_tenants :: "uuid list"
  status_pages :: "page_row list"
  status_services :: "service_row list"
  status_incidents :: "incident_row list"
  probes :: "probe_row list option"
  rollups :: "rollup_row list option"
  ml_scores :: "score_row list option"
  training_runs :: "run_rec list option"
  threat_intel :: "intel_row list"
  incident_cases :: "case_row list"

type_synonym 'a mo_prog = "(mo_db, unit, 'a) prog"

record mo_env =
  mo_float :: "string \<Rightarrow> rat option"
  mo_repr :: "json \<Rightarrow> string"
  mo_refresh :: time
  mo_model_version :: string

definition undefined_table :: exn where
  "undefined_table = OtherError ''UndefinedTableError'' []"

definition fetch_table :: "(mo_db \<Rightarrow> 'r list option) \<Rightarrow> (mo_db \<Rightarrow> 'r list \<Rightarrow> 'a) \<Rightarrow> 'a mo_prog" where
  "fetch_table table q = stmt (\<lambda>d. case table d of None \<Rightarrow> Inl undefined_table | Some rs \<Rightarrow> Inr (q d rs, d))"

subsection \<open>Numbers\<close>

definition round_half_even :: "rat \<Rightarrow> int" where
  "round_half_even x = (let f = floor x; r = x - of_int f in
     if r < 1 / 2 then f else if 1 / 2 < r then f + 1 else if even f then f else f + 1)"

definition py_round :: "nat \<Rightarrow> rat \<Rightarrow> rat" where
  "py_round n x = of_int (round_half_even (x * 10 ^ n)) / 10 ^ n"

definition clamp_pct :: "rat \<Rightarrow> rat" where "clamp_pct x = max 0 (min 100 x)"

subsection \<open>Temporal signal and predicted SLA (services/ml/store.py)\<close>

definition newest :: "('r \<Rightarrow> time) \<Rightarrow> 'r list \<Rightarrow> 'r list" where
  "newest t rs = rev (sort_key t rs)"

definition list_recent_scores :: "uuid \<Rightarrow> string option \<Rightarrow> nat \<Rightarrow> score_row list mo_prog" where
  "list_recent_scores tenant family limit = fetch_table ml_scores (\<lambda>_ rs. take limit (newest ml_created
     (filter (\<lambda>r. ml_tenant r = tenant \<and> (case family of None \<Rightarrow> True | Some f \<Rightarrow> f = [] \<or> ml_family r = f)) rs)))"

record temporal =
  ts_forecast :: "rat option"
  ts_status :: string
  ts_backend :: "string option"
  ts_samples :: int
  ts_scored_at :: "time option"
  ts_norse :: bool

definition empty_temporal_signal :: "string \<Rightarrow> temporal" where
  "empty_temporal_signal status = \<lparr>ts_forecast = None, ts_status = status, ts_backend = None,
     ts_samples = 0, ts_scored_at = None, ts_norse = False\<rparr>"

definition predicted_sla_from_metrics :: "mo_env \<Rightarrow> json \<Rightarrow> rat option" where
  "predicted_sla_from_metrics env metrics = (case metrics of
     JObj kvs \<Rightarrow> (let raw = (case jget kvs ''average_sla'' of JNull \<Rightarrow> jget kvs ''predicted_sla'' | v \<Rightarrow> v) in
       case py_float (mo_float env) raw of Inl _ \<Rightarrow> None | Inr v \<Rightarrow> Some (py_round 2 (clamp_pct v)))
   | _ \<Rightarrow> None)"

definition latest_predicted_sla :: "mo_env \<Rightarrow> uuid \<Rightarrow> rat option mo_prog" where
  "latest_predicted_sla env tenant =
     bindM (catch (fetch_table training_runs (\<lambda>_ rs. take 1 (newest tr_created (filter (\<lambda>r. tr_tenant r = tenant
         \<and> tr_status r \<in> {''completed'', ''success'', ''ok''} \<and> (tr_family r = ''sla'' \<or> tr_model r = ''sla'')) rs))))
       (\<lambda>e. if e = undefined_table then ret [] else raise e)) (\<lambda>rows.
     case rows of [] \<Rightarrow> ret None | r # _ \<Rightarrow> ret (predicted_sla_from_metrics env (tr_metrics r)))"

definition dict_or_empty :: "json \<Rightarrow> jdict" where
  "dict_or_empty v = (case v of JObj kvs \<Rightarrow> kvs | _ \<Rightarrow> [])"

definition temporal_signal_from_score :: "mo_env \<Rightarrow> score_row option \<Rightarrow> time \<Rightarrow> temporal" where
  "temporal_signal_from_score env row t = (case row of None \<Rightarrow> empty_temporal_signal ''insufficient_data''
   | Some r \<Rightarrow>
       (let features = dict_or_empty (ml_features r); metadata = dict_or_empty (ml_metadata r);
            scored = ml_created r;
            invalid = (empty_temporal_signal ''error'')\<lparr>ts_scored_at := Some scored\<rparr>;
            backend = py_strip (py_str (mo_repr env) (py_or (jget features ''backend'') (JStr [])));
            samples = py_int (py_or (jget_default features ''sample_count'' (jget metadata ''sample_count'')) (JInt 0)) in
        case (ml_score r, samples) of
          (Some score, Inr n) \<Rightarrow>
            if \<not> (0 \<le> score \<and> score \<le> 1) then invalid
            else if backend \<notin> {''norse_lif'', ''gru_mlp_fallback''} then invalid
            else if max 0 n \<le> 0 then invalid
            else if scored - t > secs 300 then invalid
            else \<lparr>ts_forecast = Some (py_round 2 (score * 100)),
              ts_status = (if t - scored > 2 * mo_refresh env then ''stale'' else ''ready''),
              ts_backend = Some backend, ts_samples = max 0 n, ts_scored_at = Some scored,
              ts_norse = (backend = ''norse_lif'')\<rparr>
        | _ \<Rightarrow> invalid))"

definition latest_temporal_signal :: "mo_env \<Rightarrow> uuid \<Rightarrow> temporal mo_prog" where
  "latest_temporal_signal env tenant =
     bindM (list_recent_scores tenant (Some ''norse_ssn'') 1) (\<lambda>rows.
     case rows of
       r # _ \<Rightarrow> bindM read_clock (\<lambda>t. ret (temporal_signal_from_score env (Some r) t))
     | [] \<Rightarrow> bindM (fetch_table training_runs (\<lambda>_ rs. take 1 (newest tr_created (filter (\<lambda>r. tr_tenant r = tenant
           \<and> (tr_family r = ''norse_ssn'' \<or> tr_model r = ''norse_ssn'')) rs)))) (\<lambda>runs.
         let signal = empty_temporal_signal ''insufficient_data'' in
         case runs of [] \<Rightarrow> ret signal
         | run # _ \<Rightarrow>
             if py_lower (tr_status run) \<noteq> ''insufficient_data'' then ret signal
             else (case tr_metrics run of
                 JObj metrics \<Rightarrow> (case py_int (py_or (jget metrics ''sample_count'') (JInt 0)) of
                     Inl _ \<Rightarrow> ret signal | Inr n \<Rightarrow> ret (signal\<lparr>ts_samples := max 0 n\<rparr>))
               | _ \<Rightarrow> ret signal)))"

subsection \<open>Writers\<close>

definition ensure_ml_store_schema :: "unit mo_prog" where
  "ensure_ml_store_schema = stmt (\<lambda>d. Inr ((), d\<lparr>
     training_runs := Some (case training_runs d of None \<Rightarrow> [] | Some rs \<Rightarrow> rs),
     ml_scores := Some (case ml_scores d of None \<Rightarrow> [] | Some rs \<Rightarrow> rs)\<rparr>))"

definition tenant_missing :: exn where
  "tenant_missing = OtherError ''ForeignKeyViolationError'' []"

definition record_training_run ::
  "mo_env \<Rightarrow> uuid \<Rightarrow> string \<Rightarrow> string \<Rightarrow> jdict \<Rightarrow> string option \<Rightarrow> string \<Rightarrow> string \<Rightarrow> uuid mo_prog" where
  "record_training_run env tenant family model metrics artifact status version =
     bindM ensure_ml_store_schema (\<lambda>_.
     bindM uuid4 (\<lambda>rid.
     stmt (\<lambda>d. case training_runs d of None \<Rightarrow> Inl undefined_table
       | Some rs \<Rightarrow> if tenant \<notin> set (mo_tenants d) then Inl tenant_missing
           else Inr (rid, d\<lparr>training_runs := Some (rs @ [\<lparr>tr_id = rid, tr_tenant = tenant, tr_model = model,
             tr_version = (if version = [] then mo_model_version env else version), tr_status = status,
             tr_metrics = JObj metrics, tr_artifact = artifact, tr_family = family, tr_created = now d\<rparr>])\<rparr>))))"

definition score_value :: "json \<Rightarrow> exn + rat option" where
  "score_value v = (case v of JNull \<Rightarrow> Inr None | _ \<Rightarrow> (case num_value v of
     Some q \<Rightarrow> Inr (Some q) | None \<Rightarrow> Inl (OtherError ''DataError'' [])))"

definition insert_score :: "mo_env \<Rightarrow> uuid \<Rightarrow> string \<Rightarrow> jdict \<Rightarrow> mo_db \<Rightarrow> exn + mo_db" where
  "insert_score env tenant family row d = (case (score_value (jget row ''score''), ml_scores d) of
     (Inl e, _) \<Rightarrow> Inl e
   | (_, None) \<Rightarrow> Inl undefined_table
   | (Inr score, Some rs) \<Rightarrow> if tenant \<notin> set (mo_tenants d) then Inl tenant_missing
       else Inr (d\<lparr>ml_scores := Some (rs @ [\<lparr>ml_tenant = tenant, ml_family = family,
         ml_model = py_str (mo_repr env) (py_or (jget row ''model_name'') (JStr family)), ml_score = score,
         ml_anomaly = truthy (jget row ''is_anomaly''), ml_features = py_or (jget row ''features'') (JObj []),
         ml_metadata = py_or (jget row ''metadata'') (JObj []), ml_created = now d\<rparr>])\<rparr>))"

fun persist_rows :: "mo_env \<Rightarrow> uuid \<Rightarrow> string \<Rightarrow> int \<Rightarrow> jdict list \<Rightarrow> int mo_prog" where
  "persist_rows env tenant family n [] = ret n"
| "persist_rows env tenant family n (row # rows) =
     bindM (stmt (\<lambda>d. case insert_score env tenant family row d of Inl e \<Rightarrow> Inl e | Inr d' \<Rightarrow> Inr ((), d')))
       (\<lambda>_. persist_rows env tenant family (n + 1) rows)"

definition persist_scores :: "mo_env \<Rightarrow> uuid \<Rightarrow> string \<Rightarrow> jdict list \<Rightarrow> int mo_prog" where
  "persist_scores env tenant family rows = bindM ensure_ml_store_schema (\<lambda>_. persist_rows env tenant family 0 rows)"

definition list_recent_training_runs :: "uuid \<Rightarrow> nat \<Rightarrow> run_rec list mo_prog" where
  "list_recent_training_runs tenant limit = fetch_table training_runs (\<lambda>_ rs. map (\<lambda>r. r\<lparr>
       tr_family := (if tr_family r = [] then tr_model r else tr_family r),
       tr_metrics := (case tr_metrics r of JObj kvs \<Rightarrow> JObj kvs | _ \<Rightarrow> JObj [])\<rparr>)
     (take limit (newest tr_created (filter (\<lambda>r. tr_tenant r = tenant) rs))))"

subsection \<open>Rounding\<close>

lemma round_half_even_mono: "x \<le> y \<Longrightarrow> round_half_even x \<le> round_half_even y"
proof -
  assume xy: "x \<le> y"
  then have f: "floor x \<le> floor y" by (rule floor_mono)
  have step: "floor z \<le> round_half_even z \<and> round_half_even z \<le> floor z + 1" for z
    by (simp add: round_half_even_def Let_def)
  show ?thesis
  proof (cases "floor x = floor y")
    case True
    with xy show ?thesis by (auto simp: round_half_even_def Let_def)
  next
    case False
    with f step [of x] step [of y] show ?thesis by linarith
  qed
qed

lemma round_half_even_int [simp]: "round_half_even (of_int n) = n"
  by (simp add: round_half_even_def)

lemma py_round_mono: "x \<le> y \<Longrightarrow> py_round n x \<le> py_round n y"
  unfolding py_round_def by (intro divide_right_mono) (simp_all add: round_half_even_mono mult_right_mono)

lemma py_round_int: "py_round n (of_int k) = of_int k"
proof -
  have "of_int k * 10 ^ n = (of_int (k * 10 ^ n) :: rat)" by simp
  then show ?thesis unfolding py_round_def by (simp only: round_half_even_int) simp
qed

lemma py_round_pct:
  assumes "0 \<le> x" "x \<le> 100"
  shows "0 \<le> py_round n x \<and> py_round n x \<le> 100"
  using py_round_mono [OF assms(1), of n] py_round_mono [OF assms(2), of n] py_round_int [of n 0] py_round_int [of n 100]
  by simp

lemma clamp_pct_bounds [simp]: "0 \<le> clamp_pct x" "clamp_pct x \<le> 100"
  by (simp_all add: clamp_pct_def)

end
