(* ===== verification/Status_Pages.thy ===== *)
theory Status_Pages
  imports Monitoring Partner "HOL-Library.AList"
begin

section \<open>Status pages: slugs, pages, services, incidents\<close>

text \<open>
  The managed half of \<open>services/status.py\<close>: the operations of members and scoped services on pages,
  their services and incidents, and the move of a page to another tenant.  The tables have their
  constraints: the unique slug and its format, the known statuses, and the composite foreign keys that
  bind a service or an incident to a page of the same tenant (checked after every statement).
\<close>

subsection \<open>Slugs\<close>

definition status_slug_ok :: "string \<Rightarrow> bool" where
  "status_slug_ok s = label_match ''-'' 1 62 s"

definition platform_status_slug :: string where "platform_status_slug = ''platform-status''"

definition service_statuses :: "string list" where
  "service_statuses = [''operational'', ''degraded'', ''partial_outage'', ''major_outage'', ''maintenance'', ''unknown'']"

definition incident_statuses :: "string list" where
  "incident_statuses = [''investigating'', ''identified'', ''monitoring'', ''resolved'']"

definition incident_severities :: "string list" where
  "incident_severities = [''minor'', ''major'', ''critical'']"

text \<open>\<open>re.sub("[^a-z0-9]+", "-", s)\<close>: \<open>run\<close> tells that a run has already been replaced.\<close>

fun dash_runs :: "bool \<Rightarrow> string \<Rightarrow> string" where
  "dash_runs run [] = []"
| "dash_runs run (c # cs) = (if lower_alnum c then c # dash_runs False cs
     else if run then dash_runs True cs else CHR ''-'' # dash_runs True cs)"

definition strip_dashes :: "string \<Rightarrow> string" where
  "strip_dashes s = rev (dropWhile (\<lambda>c. c = CHR ''-'') (rev (dropWhile (\<lambda>c. c = CHR ''-'') s)))"

definition slugify_identifier :: "string \<Rightarrow> string" where
  "slugify_identifier value = strip_dashes (dash_runs False (py_lower (py_strip value)))"

definition add_candidate :: "string \<Rightarrow> string list \<Rightarrow> string list" where
  "add_candidate c out = (if c \<noteq> [] \<and> c \<notin> set out \<and> status_slug_ok c then out @ [c] else out)"

definition domain_stem :: "string \<Rightarrow> string option" where
  "domain_stem text = map_option fst (split_once (CHR ''.'') text)"

definition public_slug_candidates :: "string \<Rightarrow> string list" where
  "public_slug_candidates raw =
     (let text = py_lower (py_strip raw);
          out = add_candidate (slugify_identifier text) (add_candidate text []) in
      case domain_stem text of None \<Rightarrow> out | Some stem \<Rightarrow> add_candidate (slugify_identifier stem) out)"

definition public_slug_prefix :: "string \<Rightarrow> string option" where
  "public_slug_prefix raw =
     (let text = py_lower (py_strip raw) in
      if text = [] then None
      else let prefix = slugify_identifier (case domain_stem text of None \<Rightarrow> text | Some stem \<Rightarrow> stem) in
        if length prefix < 3 \<or> \<not> status_slug_ok prefix then None else Some prefix)"

subsection \<open>Rows\<close>

definition check_violation :: exn where "check_violation = OtherError ''CheckViolationError'' []"

definition page_gate :: "auth_user \<Rightarrow> uuid \<Rightarrow> string list \<Rightarrow> unit mo_prog" where
  "page_gate user tenant roles =
     bindM (require_tenant_access user tenant (Some roles) (Some [''status:write''])) (\<lambda>_. ret ())"

definition read_gate :: "auth_user \<Rightarrow> uuid \<Rightarrow> unit mo_prog" where
  "read_gate user tenant =
     bindM (require_tenant_access user tenant None (Some [''status:read''])) (\<lambda>_. ret ())"

definition page_of :: "uuid \<Rightarrow> uuid \<Rightarrow> page_row \<Rightarrow> bool" where
  "page_of tenant page p \<longleftrightarrow> sp_id p = page \<and> sp_tenant p = tenant"

definition require_page :: "uuid \<Rightarrow> uuid \<Rightarrow> page_row mo_prog" where
  "require_page tenant page =
     bindM (query (\<lambda>d. first_row (page_of tenant page) (status_pages d))) (\<lambda>row.
     case row of None \<Rightarrow> raise (ValueError ''status page not found'') | Some p \<Rightarrow> ret p)"

definition insert_page :: "page_row \<Rightarrow> mo_db \<Rightarrow> exn + mo_db" where
  "insert_page p d =
     (if \<not> status_slug_ok (sp_slug p) then Inl check_violation
      else if sp_id p \<in> sp_id ` set (status_pages d) \<or> sp_slug p \<in> sp_slug ` set (status_pages d)
      then Inl unique_violation
      else if sp_tenant p \<notin> set (mo_tenants d) then Inl foreign_key_violation
      else Inr (d\<lparr>status_pages := status_pages d @ [p]\<rparr>))"

definition create_page ::
  "auth_user \<Rightarrow> uuid \<Rightarrow> string \<Rightarrow> string \<Rightarrow> string \<Rightarrow> bool \<Rightarrow> page_row mo_prog" where
  "create_page user tenant slug title description published =
     bindM ensure_secure_schema (\<lambda>_.
     bindM (page_gate user tenant [''owner'', ''admin'']) (\<lambda>_.
     let slug = py_lower (py_strip slug) in
     if \<not> status_slug_ok slug then raise (ValueError ''invalid slug'')
     else if slug = platform_status_slug
     then raise (ValueError ''slug 'platform-status' is reserved for the DEML platform tenant'')
     else bindM uuid4 (\<lambda>pid.
       stmt (\<lambda>d. let p = \<lparr>sp_id = pid, sp_tenant = tenant, sp_slug = slug, sp_title = py_strip title,
            sp_description = description, sp_published = published, sp_created = now d, sp_updated = now d\<rparr> in
         case insert_page p d of Inl e \<Rightarrow> Inl e | Inr d' \<Rightarrow> Inr (p, d')))))"

definition coalesce :: "'a option \<Rightarrow> 'a \<Rightarrow> 'a" where
  "coalesce x y = (case x of None \<Rightarrow> y | Some v \<Rightarrow> v)"

record page_patch =
  pu_slug :: "string option"
  pu_title :: "string option"
  pu_description :: "string option"
  pu_published :: "bool option"

definition patch_page :: "page_patch \<Rightarrow> time \<Rightarrow> page_row \<Rightarrow> page_row" where
  "patch_page q t p = p\<lparr>sp_slug := coalesce (pu_slug q) (sp_slug p), sp_title := coalesce (pu_title q) (sp_title p),
     sp_description := coalesce (pu_description q) (sp_description p),
     sp_published := coalesce (pu_published q) (sp_published p), sp_updated := t\<rparr>"

definition update_page_stmt :: "page_patch \<Rightarrow> uuid \<Rightarrow> uuid \<Rightarrow> mo_db \<Rightarrow> exn + page_row option \<times> mo_db" where
  "update_page_stmt q tenant page d =
     (case first_row (page_of tenant page) (status_pages d) of None \<Rightarrow> Inr (None, d)
      | Some p \<Rightarrow> (let p' = patch_page q (now d) p in
          if \<not> status_slug_ok (sp_slug p') then Inl check_violation
          else if list_ex (\<lambda>r. sp_id r \<noteq> page \<and> sp_slug r = sp_slug p') (status_pages d) then Inl unique_violation
          else Inr (Some p', d\<lparr>status_pages := upd_where (page_of tenant page) (patch_page q (now d)) (status_pages d)\<rparr>)))"

definition clean_slug :: "string option \<Rightarrow> exn + string option" where
  "clean_slug slug = (case slug of None \<Rightarrow> Inr None
     | Some s \<Rightarrow> (let s = py_lower (py_strip s) in
         if \<not> status_slug_ok s then Inl (ValueError ''invalid slug'')
         else if s = platform_status_slug
         then Inl (ValueError ''slug 'platform-status' is reserved for the DEML platform tenant'')
         else Inr (Some s)))"

definition update_page :: "auth_user \<Rightarrow> uuid \<Rightarrow> uuid \<Rightarrow> page_patch \<Rightarrow> page_row mo_prog" where
  "update_page user tenant page q =
     bindM (page_gate user tenant [''owner'', ''admin'']) (\<lambda>_.
     bindM (require_page tenant page) (\<lambda>existing.
     if sp_slug existing = platform_status_slug then raise (ValueError ''platform status page is immutable'')
     else bindM (lift (clean_slug (pu_slug q))) (\<lambda>slug.
     bindM (stmt (update_page_stmt (q\<lparr>pu_slug := slug, pu_title := map_option py_strip (pu_title q)\<rparr>) tenant page))
       (\<lambda>row. case row of None \<Rightarrow> raise (ValueError ''status page not found'') | Some p \<Rightarrow> ret p))))"

text \<open>Deleting a page takes its services, incidents and their probe observations along.\<close>

definition drop_probes :: "(uuid \<times> uuid) list \<Rightarrow> mo_db \<Rightarrow> mo_db" where
  "drop_probes gone d =
     d\<lparr>probes := map_option (filter (\<lambda>h. (hp_service h, hp_tenant h) \<notin> set gone)) (probes d)\<rparr>"

definition services_of :: "uuid \<Rightarrow> uuid \<Rightarrow> mo_db \<Rightarrow> service_row list" where
  "services_of tenant page d = filter (\<lambda>s. ss_page s = page \<and> ss_tenant s = tenant) (status_services d)"

definition delete_page_stmt :: "uuid \<Rightarrow> uuid \<Rightarrow> mo_db \<Rightarrow> nat \<times> mo_db" where
  "delete_page_stmt tenant page d =
     (let n = length (filter (page_of tenant page) (status_pages d)) in
      if n = 0 then (0, d)
      else (n, drop_probes (map (\<lambda>s. (ss_id s, ss_tenant s)) (services_of tenant page d))
        (d\<lparr>status_pages := filter (\<lambda>p. \<not> page_of tenant page p) (status_pages d),
           status_services := filter (\<lambda>s. \<not> (ss_page s = page \<and> ss_tenant s = tenant)) (status_services d),
           status_incidents := filter (\<lambda>i. \<not> (si_page i = page \<and> si_tenant i = tenant)) (status_incidents d)\<rparr>)))"

definition delete_page :: "auth_user \<Rightarrow> uuid \<Rightarrow> uuid \<Rightarrow> unit mo_prog" where
  "delete_page user tenant page =
     bindM (page_gate user tenant [''owner'', ''admin'']) (\<lambda>_.
     bindM (require_page tenant page) (\<lambda>existing.
     if sp_slug existing = platform_status_slug then raise (ValueError ''platform status page is immutable'')
     else bindM (stmt (\<lambda>d. Inr (delete_page_stmt tenant page d))) (\<lambda>n.
       if n = 0 then raise (ValueError ''status page not found'') else ret ())))"

subsection \<open>Services\<close>

definition http_url :: "string \<Rightarrow> bool" where
  "http_url s \<longleftrightarrow> py_startswith (py_lower s) ''http://'' \<or> py_startswith (py_lower s) ''https://''"

definition resolve_probe_url :: "string option \<Rightarrow> string \<Rightarrow> string option" where
  "resolve_probe_url probe description =
     (case map_option py_strip probe of
        Some p \<Rightarrow> if http_url p then Some p
          else if http_url (py_strip description) then Some (py_strip description) else None
      | None \<Rightarrow> if http_url (py_strip description) then Some (py_strip description) else None)"

definition page_exists :: "uuid \<Rightarrow> uuid \<Rightarrow> mo_db \<Rightarrow> bool" where
  "page_exists tenant page d \<longleftrightarrow> list_ex (page_of tenant page) (status_pages d)"

definition insert_service :: "service_row \<Rightarrow> mo_db \<Rightarrow> exn + mo_db" where
  "insert_service s d =
     (if ss_status s \<notin> set service_statuses then Inl check_violation
      else if ss_id s \<in> ss_id ` set (status_services d) then Inl unique_violation
      else if \<not> page_exists (ss_tenant s) (ss_page s) d then Inl foreign_key_violation
      else Inr (d\<lparr>status_services := status_services d @ [s]\<rparr>))"

definition service_of :: "uuid \<Rightarrow> uuid \<Rightarrow> service_row \<Rightarrow> bool" where
  "service_of tenant sid s \<longleftrightarrow> ss_id s = sid \<and> ss_tenant s = tenant"

definition update_service_stmt ::
  "(service_row \<Rightarrow> service_row) \<Rightarrow> uuid \<Rightarrow> uuid \<Rightarrow> mo_db \<Rightarrow> exn + service_row option \<times> mo_db" where
  "update_service_stmt f tenant sid d =
     (case first_row (service_of tenant sid) (status_services d) of None \<Rightarrow> Inr (None, d)
      | Some s \<Rightarrow> if ss_status (f s) \<notin> set service_statuses then Inl check_violation
          else Inr (Some (f s), d\<lparr>status_services := upd_where (service_of tenant sid) f (status_services d)\<rparr>))"

record service_spec =
  sn_name :: string
  sn_status :: string
  sn_description :: string
  sn_probe :: "string option"
  sn_order :: int

definition upsert_service :: "auth_user \<Rightarrow> uuid \<Rightarrow> uuid \<Rightarrow> service_spec \<Rightarrow> service_row mo_prog" where
  "upsert_service user tenant page q =
     bindM (page_gate user tenant [''owner'', ''admin'', ''member'']) (\<lambda>_.
     if sn_status q \<notin> set service_statuses then raise (ValueError (''invalid service status: '' @ sn_status q))
     else bindM (require_page tenant page) (\<lambda>p.
     let name = py_strip (sn_name q); probe = resolve_probe_url (sn_probe q) (sn_description q) in
     bindM (query (\<lambda>d. first_row (\<lambda>s. ss_page s = sp_id p \<and> ss_tenant s = tenant
         \<and> py_lower (ss_name s) = py_lower name) (status_services d))) (\<lambda>existing. case existing of
       Some s \<Rightarrow> bindM (stmt (\<lambda>d. update_service_stmt (\<lambda>s. s\<lparr>ss_name := name, ss_status := sn_status q,
            ss_description := sn_description q, ss_probe := probe, ss_order := sn_order q,
            ss_updated := now d\<rparr>) tenant (ss_id s) d))
         (\<lambda>row. case row of None \<Rightarrow> raise TypeError | Some s \<Rightarrow> ret s)
     | None \<Rightarrow> bindM uuid4 (\<lambda>sid. stmt (\<lambda>d.
         let s = \<lparr>ss_id = sid, ss_page = sp_id p, ss_tenant = tenant, ss_name = name, ss_status = sn_status q,
             ss_description = sn_description q, ss_probe = probe, ss_order = sn_order q, ss_updated = now d\<rparr> in
         case insert_service s d of Inl e \<Rightarrow> Inl e | Inr d' \<Rightarrow> Inr (s, d'))))))"

record service_patch =
  su_name :: "string option"
  su_status :: "string option"
  su_description :: "string option"
  su_probe :: "string option"
  su_order :: "int option"

definition btrim :: "string \<Rightarrow> string" where
  "btrim s = rev (dropWhile (\<lambda>c. c = CHR '' '') (rev (dropWhile (\<lambda>c. c = CHR '' '') s)))"

definition probe_or_description :: "string option \<Rightarrow> string option \<Rightarrow> string option" where
  "probe_or_description probe description =
     (if probe \<in> {None, Some []} then (case description of
        Some t \<Rightarrow> if http_url t then Some (btrim t) else probe | None \<Rightarrow> probe)
      else probe)"

definition patch_service ::
  "service_patch \<Rightarrow> string option \<Rightarrow> bool \<Rightarrow> time \<Rightarrow> service_row \<Rightarrow> service_row" where
  "patch_service q explicit clear t s =
     s\<lparr>ss_name := coalesce (map_option py_strip (su_name q)) (ss_name s),
       ss_status := coalesce (su_status q) (ss_status s),
       ss_description := coalesce (su_description q) (ss_description s),
       ss_probe := (if clear then None else case explicit of Some u \<Rightarrow> Some u
         | None \<Rightarrow> probe_or_description (ss_probe s) (su_description q)),
       ss_order := coalesce (su_order q) (ss_order s), ss_updated := t\<rparr>"

definition update_service_row :: "uuid \<Rightarrow> uuid \<Rightarrow> service_patch \<Rightarrow> service_row mo_prog" where
  "update_service_row tenant sid q =
     (let trimmed = map_option py_strip (su_probe q); clear = (trimmed = Some []);
          explicit = (case trimmed of None \<Rightarrow> None | Some t \<Rightarrow> if t = [] then None else resolve_probe_url (Some t) []) in
      bindM (stmt (\<lambda>d. update_service_stmt (patch_service q explicit clear (now d)) tenant sid d)) (\<lambda>row.
      case row of None \<Rightarrow> raise (ValueError ''status service not found'') | Some s \<Rightarrow> ret s))"

definition update_service :: "auth_user \<Rightarrow> uuid \<Rightarrow> uuid \<Rightarrow> service_patch \<Rightarrow> service_row mo_prog" where
  "update_service user tenant sid q =
     bindM (page_gate user tenant [''owner'', ''admin'', ''member'']) (\<lambda>_.
     case su_status q of
       Some st \<Rightarrow> if st \<notin> set service_statuses then raise (ValueError (''invalid service status: '' @ st))
         else update_service_row tenant sid q
     | None \<Rightarrow> update_service_row tenant sid q)"

definition delete_service_stmt :: "uuid \<Rightarrow> uuid \<Rightarrow> mo_db \<Rightarrow> nat \<times> mo_db" where
  "delete_service_stmt tenant sid d =
     (let n = length (filter (service_of tenant sid) (status_services d)) in
      if n = 0 then (0, d)
      else (n, drop_probes [(sid, tenant)]
        (d\<lparr>status_services := filter (\<lambda>s. \<not> service_of tenant sid s) (status_services d)\<rparr>)))"

definition delete_service :: "auth_user \<Rightarrow> uuid \<Rightarrow> uuid \<Rightarrow> unit mo_prog" where
  "delete_service user tenant sid =
     bindM (page_gate user tenant [''owner'', ''admin'', ''member'']) (\<lambda>_.
     bindM (stmt (\<lambda>d. Inr (delete_service_stmt tenant sid d))) (\<lambda>n.
     if n = 0 then raise (ValueError ''status service not found'') else ret ()))"

subsection \<open>Incidents\<close>

definition incident_checks :: "incident_row \<Rightarrow> bool" where
  "incident_checks i \<longleftrightarrow> si_status i \<in> set incident_statuses \<and> si_severity i \<in> set incident_severities"

definition insert_incident :: "incident_row \<Rightarrow> mo_db \<Rightarrow> exn + mo_db" where
  "insert_incident i d =
     (if \<not> incident_checks i then Inl check_violation
      else if si_id i \<in> si_id ` set (status_incidents d) then Inl unique_violation
      else if \<not> page_exists (si_tenant i) (si_page i) d then Inl foreign_key_violation
      else Inr (d\<lparr>status_incidents := status_incidents d @ [i]\<rparr>))"

definition list_incidents :: "auth_user \<Rightarrow> uuid \<Rightarrow> uuid \<Rightarrow> incident_row list mo_prog" where
  "list_incidents user tenant page =
     bindM (read_gate user tenant) (\<lambda>_.
     bindM (require_page tenant page) (\<lambda>_.
     query (\<lambda>d. take 100 (newest si_started
       (filter (\<lambda>i. si_page i = page \<and> si_tenant i = tenant) (status_incidents d))))))"

definition create_incident ::
  "auth_user \<Rightarrow> uuid \<Rightarrow> uuid \<Rightarrow> string \<Rightarrow> string \<Rightarrow> string \<Rightarrow> string \<Rightarrow> incident_row mo_prog" where
  "create_incident user tenant page title status severity body =
     bindM (page_gate user tenant [''owner'', ''admin'', ''member'']) (\<lambda>_.
     bindM (require_page tenant page) (\<lambda>p.
     bindM uuid4 (\<lambda>iid. stmt (\<lambda>d.
       let i = \<lparr>si_id = iid, si_page = sp_id p, si_tenant = tenant, si_title = py_strip title, si_status = status,
           si_severity = severity, si_body = body, si_started = now d,
           si_resolved = (if status = ''resolved'' then Some (now d) else None)\<rparr> in
       case insert_incident i d of Inl e \<Rightarrow> Inl e | Inr d' \<Rightarrow> Inr (i, d')))))"

record incident_patch =
  iu_title :: "string option"
  iu_status :: "string option"
  iu_severity :: "string option"
  iu_body :: "string option"

definition patch_incident :: "incident_patch \<Rightarrow> time \<Rightarrow> incident_row \<Rightarrow> incident_row" where
  "patch_incident q t i =
     i\<lparr>si_title := coalesce (map_option py_strip (iu_title q)) (si_title i),
       si_status := coalesce (iu_status q) (si_status i),
       si_severity := coalesce (iu_severity q) (si_severity i), si_body := coalesce (iu_body q) (si_body i),
       si_resolved := (case iu_status q of None \<Rightarrow> si_resolved i
         | Some st \<Rightarrow> if st = ''resolved'' then Some (coalesce (si_resolved i) t) else None)\<rparr>"

definition incident_of :: "uuid \<Rightarrow> uuid \<Rightarrow> incident_row \<Rightarrow> bool" where
  "incident_of tenant iid i \<longleftrightarrow> si_id i = iid \<and> si_tenant i = tenant"

definition update_incident_stmt ::
  "incident_patch \<Rightarrow> uuid \<Rightarrow> uuid \<Rightarrow> mo_db \<Rightarrow> exn + incident_row option \<times> mo_db" where
  "update_incident_stmt q tenant iid d =
     (case first_row (incident_of tenant iid) (status_incidents d) of None \<Rightarrow> Inr (None, d)
      | Some i \<Rightarrow> if \<not> incident_checks (patch_incident q (now d) i) then Inl check_violation
          else Inr (Some (patch_incident q (now d) i),
            d\<lparr>status_incidents := upd_where (incident_of tenant iid) (patch_incident q (now d)) (status_incidents d)\<rparr>))"

definition update_incident :: "auth_user \<Rightarrow> uuid \<Rightarrow> uuid \<Rightarrow> incident_patch \<Rightarrow> incident_row mo_prog" where
  "update_incident user tenant iid q =
     bindM (page_gate user tenant [''owner'', ''admin'', ''member'']) (\<lambda>_.
     bindM (stmt (update_incident_stmt q tenant iid)) (\<lambda>row.
     case row of None \<Rightarrow> raise (ValueError ''status incident not found'') | Some i \<Rightarrow> ret i))"

definition delete_incident_stmt :: "uuid \<Rightarrow> uuid \<Rightarrow> mo_db \<Rightarrow> nat \<times> mo_db" where
  "delete_incident_stmt tenant iid d =
     (length (filter (incident_of tenant iid) (status_incidents d)),
      d\<lparr>status_incidents := filter (\<lambda>i. \<not> incident_of tenant iid i) (status_incidents d)\<rparr>)"

definition delete_incident :: "auth_user \<Rightarrow> uuid \<Rightarrow> uuid \<Rightarrow> unit mo_prog" where
  "delete_incident user tenant iid =
     bindM (page_gate user tenant [''owner'', ''admin'', ''member'']) (\<lambda>_.
     bindM (stmt (\<lambda>d. Inr (delete_incident_stmt tenant iid d))) (\<lambda>n.
     if n = 0 then raise (ValueError ''status incident not found'') else ret ()))"

subsection \<open>Moving a page to another tenant\<close>

text \<open>
  One transaction.  Every statement checks the composite foreign keys: a child row may only name a
  page (or service) of its own tenant, and a referenced row may not change its key.
\<close>

definition children_ok :: "mo_db \<Rightarrow> bool" where
  "children_ok d \<longleftrightarrow> list_all (\<lambda>s. page_exists (ss_tenant s) (ss_page s) d) (status_services d)
     \<and> list_all (\<lambda>i. page_exists (si_tenant i) (si_page i) d) (status_incidents d)
     \<and> (case probes d of None \<Rightarrow> True | Some hs \<Rightarrow>
          list_all (\<lambda>h. list_ex (service_of (hp_tenant h) (hp_service h)) (status_services d)) hs)"

definition checked :: "mo_db \<Rightarrow> exn + mo_db" where
  "checked d = (if children_ok d then Inr d else Inl foreign_key_violation)"

definition move_services :: "uuid \<Rightarrow> uuid \<Rightarrow> uuid \<Rightarrow> mo_db \<Rightarrow> mo_db" where
  "move_services target page source d = d\<lparr>status_services := upd_where
     (\<lambda>s. ss_page s = page \<and> ss_tenant s = source) (\<lambda>s. s\<lparr>ss_tenant := target\<rparr>) (status_services d)\<rparr>"

definition move_incidents :: "uuid \<Rightarrow> uuid \<Rightarrow> uuid \<Rightarrow> mo_db \<Rightarrow> mo_db" where
  "move_incidents target page source d = d\<lparr>status_incidents := upd_where
     (\<lambda>i. si_page i = page \<and> si_tenant i = source) (\<lambda>i. i\<lparr>si_tenant := target\<rparr>) (status_incidents d)\<rparr>"

definition move_probes :: "uuid \<Rightarrow> uuid \<Rightarrow> uuid \<Rightarrow> mo_db \<Rightarrow> mo_db" where
  "move_probes target page source d = d\<lparr>probes := map_option (upd_where
     (\<lambda>h. hp_tenant h = source \<and> list_ex (\<lambda>s. ss_id s = hp_service h \<and> ss_page s = page) (status_services d))
     (\<lambda>h. h\<lparr>hp_tenant := target\<rparr>)) (probes d)\<rparr>"

definition move_page :: "uuid \<Rightarrow> uuid \<Rightarrow> uuid \<Rightarrow> mo_db \<Rightarrow> mo_db" where
  "move_page target page source d = d\<lparr>status_pages := upd_where (page_of source page)
     (\<lambda>p. p\<lparr>sp_tenant := target, sp_updated := now d\<rparr>) (status_pages d)\<rparr>"

definition bind_sum :: "exn + 'a \<Rightarrow> ('a \<Rightarrow> exn + 'b) \<Rightarrow> exn + 'b" where
  "bind_sum x f = (case x of Inl e \<Rightarrow> Inl e | Inr a \<Rightarrow> f a)"

text \<open>
  The handler for a missing table catches the client's exception, but the server has aborted the
  transaction: its next statement is refused.
\<close>

definition failed_transaction :: exn where
  "failed_transaction = OtherError ''InFailedSQLTransactionError'' []"

definition rehome_stmt :: "uuid \<Rightarrow> uuid \<Rightarrow> uuid \<Rightarrow> mo_db \<Rightarrow> exn + unit \<times> mo_db" where
  "rehome_stmt target page source d =
     bind_sum (checked (move_services target page source d)) (\<lambda>d.
     bind_sum (checked (move_incidents target page source d)) (\<lambda>d.
     bind_sum (if probes d = None then Inl failed_transaction else checked (move_probes target page source d)) (\<lambda>d.
     bind_sum (checked (move_page target page source d)) (\<lambda>d. Inr ((), d)))))"

record rehomed =
  rm_moved :: bool
  rm_page :: uuid
  rm_slug :: string
  rm_tenant :: uuid

definition rehome_status_page :: "string \<Rightarrow> uuid \<Rightarrow> rehomed mo_prog" where
  "rehome_status_page slug target =
     bindM (query (\<lambda>d. first_row (\<lambda>p. sp_slug p = slug) (status_pages d))) (\<lambda>row. case row of
       None \<Rightarrow> raise (ValueError ''status page not found'')
     | Some p \<Rightarrow>
         if sp_tenant p = target
         then ret \<lparr>rm_moved = False, rm_page = sp_id p, rm_slug = sp_slug p, rm_tenant = target\<rparr>
         else bindM (query (\<lambda>d. target \<in> set (mo_tenants d))) (\<lambda>present.
           if \<not> present then raise (ValueError ''target tenant not found'')
           else bindM (stmt (rehome_stmt target (sp_id p) (sp_tenant p))) (\<lambda>_.
             ret \<lparr>rm_moved = True, rm_page = sp_id p, rm_slug = sp_slug p, rm_tenant = target\<rparr>)))"

end
