(* ===== verification/Status_Public.thy ===== *)
theory Status_Public
  imports Status_Pages
begin

section \<open>Status pages: what a page shows\<close>

text \<open>
  The reading half of \<open>services/status.py\<close> and the public routes of \<open>api/v1/status.py\<close>: uptime and
  latency from the probe observations, the figures from the rollups and scores of the page's own
  tenant, the overall status, and the lookup of a published page by its address.
\<close>

subsection \<open>Overall status\<close>

definition status_rank :: "string \<Rightarrow> nat" where
  "status_rank s = (if s = ''major_outage'' then 5 else if s = ''partial_outage'' then 4
     else if s = ''degraded'' then 3 else if s = ''maintenance'' then 2 else if s = ''operational'' then 0 else 1)"

text \<open>\<open>max(xs, key=..)\<close>: the first of the largest.\<close>

fun max_by :: "('a \<Rightarrow> nat) \<Rightarrow> 'a \<Rightarrow> 'a list \<Rightarrow> 'a" where
  "max_by f best [] = best"
| "max_by f best (x # xs) = max_by f (if f best < f x then x else best) xs"

definition overall_status :: "string list \<Rightarrow> string" where
  "overall_status ss = (case ss of [] \<Rightarrow> ''unknown'' | s # rest \<Rightarrow> max_by status_rank s rest)"

definition honest_overall_status :: "string list \<Rightarrow> bool \<Rightarrow> string" where
  "honest_overall_status ss samples = (let overall = overall_status ss in
     if overall = ''operational'' \<and> \<not> samples then ''unknown'' else overall)"

subsection \<open>Uptime\<close>

type_synonym day_stats = "(int \<times> int \<times> int) list"

record day_row =
  dy_service :: uuid
  dy_day :: int
  dy_total :: int
  dy_active :: int

record day_point =
  dp_day :: int
  dp_status :: string
  dp_uptime :: "rat option"

definition history_days :: nat where "history_days = 30"
definition analytics_window :: time where "analytics_window = secs (24 * 3600)"

definition day_of :: "time \<Rightarrow> int" where "day_of t = t div secs 86400"

definition uptime_pct :: "int \<Rightarrow> int \<Rightarrow> rat" where
  "uptime_pct active n = py_round 2 (100 * of_int active / of_int n)"

definition day_status :: "int \<Rightarrow> int \<Rightarrow> string \<times> rat option" where
  "day_status active n =
     (if n \<le> 0 then (''no_data'', None)
      else (if active = n then ''up'' else if active = 0 then ''down'' else ''partial'',
            Some (uptime_pct active n)))"

definition day_counts :: "day_stats \<Rightarrow> int \<Rightarrow> int \<times> int" where
  "day_counts stats day = (case map_of stats day of None \<Rightarrow> (0, 0) | Some c \<Rightarrow> c)"

definition fill_uptime_history :: "day_stats \<Rightarrow> nat \<Rightarrow> int \<Rightarrow> day_point list" where
  "fill_uptime_history stats days today = map (\<lambda>k. let day = today - int k; c = day_counts stats day;
       st = day_status (fst c) (snd c) in \<lparr>dp_day = day, dp_status = fst st, dp_uptime = snd st\<rparr>) (rev [0..<days])"

definition uptime_from_day_stats :: "day_stats \<Rightarrow> rat option" where
  "uptime_from_day_stats stats =
     (let active = sum_list (map (\<lambda>(_, a, _). max a 0) stats);
          n = sum_list (map (\<lambda>(_, _, t). max t 0) stats) in
      if n \<le> 0 then None else Some (uptime_pct (min active n) n))"

fun merge_day_stats :: "uuid option \<Rightarrow> day_row list \<Rightarrow> day_stats \<Rightarrow> day_stats" where
  "merge_day_stats service [] merged = merged"
| "merge_day_stats service (r # rs) merged =
     (if service \<noteq> None \<and> Some (dy_service r) \<noteq> service then merge_day_stats service rs merged
      else let c = day_counts merged (dy_day r) in
        merge_day_stats service rs
          (AList.update (dy_day r) (fst c + dy_active r, snd c + dy_total r) merged))"

text \<open>\<open>GROUP BY service_id, day ORDER BY day\<close>.\<close>

definition own_probes :: "uuid \<Rightarrow> uuid list \<Rightarrow> time \<Rightarrow> probe_row list \<Rightarrow> probe_row list" where
  "own_probes tenant services since hs =
     filter (\<lambda>h. hp_tenant h = tenant \<and> hp_service h \<in> set services \<and> since \<le> hp_observed h) hs"

definition day_rows :: "probe_row list \<Rightarrow> day_row list" where
  "day_rows hs = map (\<lambda>(s, day). let g = filter (\<lambda>h. hp_service h = s \<and> day_of (hp_observed h) = day) hs in
       \<lparr>dy_service = s, dy_day = day, dy_total = int (length g), dy_active = int (length (filter hp_active g))\<rparr>)
     (sort_key snd (remdups (map (\<lambda>h. (hp_service h, day_of (hp_observed h))) hs)))"

definition probe_day_rollups :: "uuid \<Rightarrow> uuid list \<Rightarrow> nat \<Rightarrow> day_row list mo_prog" where
  "probe_day_rollups tenant services days =
     (if services = [] then ret []
      else bindM read_clock (\<lambda>t. fetch_table probes
        (\<lambda>_ hs. day_rows (own_probes tenant services (t - secs (86400 * int days)) hs))))"

text \<open>\<open>percentile_cont(0.99)\<close> interpolates; the grouping sets give a row per service and one for all.\<close>

record latency_row =
  lt_service :: "uuid option"
  lt_samples :: nat
  lt_p99 :: "rat option"

definition percentile_cont :: "rat \<Rightarrow> int list \<Rightarrow> rat option" where
  "percentile_cont p xs = (case sort xs of [] \<Rightarrow> None
     | ys \<Rightarrow> (let pos = p * of_nat (length ys - 1); lo = nat (floor pos); hi = nat (ceiling pos) in
         Some (of_int (ys ! lo) + (pos - of_nat lo) * (of_int (ys ! hi) - of_int (ys ! lo)))))"

definition latency_of :: "uuid option \<Rightarrow> probe_row list \<Rightarrow> latency_row" where
  "latency_of service hs = \<lparr>lt_service = service, lt_samples = length hs,
     lt_p99 = percentile_cont (99 / 100) (map hp_ms hs)\<rparr>"

definition probe_latency_24h :: "uuid \<Rightarrow> uuid list \<Rightarrow> latency_row list mo_prog" where
  "probe_latency_24h tenant services =
     (if services = [] then ret []
      else bindM read_clock (\<lambda>t. fetch_table probes (\<lambda>_ hs.
        let own = own_probes tenant services (t - analytics_window) hs in
        map (\<lambda>s. latency_of (Some s) (filter (\<lambda>h. hp_service h = s) own)) (remdups (map hp_service own))
          @ [latency_of None own])))"

definition p99_of :: "latency_row option \<Rightarrow> rat option" where
  "p99_of row = (case row of None \<Rightarrow> None
     | Some r \<Rightarrow> if 0 < lt_samples r then map_option (py_round 2) (lt_p99 r) else None)"

definition analytics_kpis_24h :: "uuid \<Rightarrow> int mo_prog" where
  "analytics_kpis_24h tenant =
     bindM read_clock (\<lambda>t. catch (fetch_table rollups (\<lambda>_ rs. sum_list (map ag_requests
        (filter (\<lambda>r. ag_tenant r = tenant \<and> t - analytics_window \<le> ag_start r) rs)))) (\<lambda>_. ret 0))"

record telemetry_view =
  tv_empty :: "day_point list"
  tv_history :: "day_point list"
  tv_uptime :: "rat option"
  tv_service_history :: "(uuid \<times> day_point list) list"
  tv_service_sla :: "(uuid \<times> rat option) list"
  tv_service_p99 :: "(uuid \<times> rat option) list"
  tv_p99 :: "rat option"
  tv_requests :: int

definition public_page_telemetry :: "uuid \<Rightarrow> uuid list \<Rightarrow> telemetry_view mo_prog" where
  "public_page_telemetry tenant services =
     bindM read_clock (\<lambda>t. let today = day_of t in
     bindM (probe_day_rollups tenant services history_days) (\<lambda>rows.
     bindM (probe_latency_24h tenant services) (\<lambda>lat.
     let page = merge_day_stats None rows [] in
     bindM (analytics_kpis_24h tenant) (\<lambda>requests.
     ret \<lparr>tv_empty = fill_uptime_history [] history_days today,
       tv_history = fill_uptime_history page history_days today,
       tv_uptime = uptime_from_day_stats page,
       tv_service_history = map (\<lambda>s. (s, fill_uptime_history (merge_day_stats (Some s) rows []) history_days today)) services,
       tv_service_sla = map (\<lambda>s. (s, uptime_from_day_stats (merge_day_stats (Some s) rows []))) services,
       tv_service_p99 = map (\<lambda>s. (s, p99_of (first_row (\<lambda>r. lt_service r = Some s) lat))) services,
       tv_p99 = p99_of (first_row (\<lambda>r. lt_service r = None) lat),
       tv_requests = requests\<rparr>))))"

subsection \<open>Intelligence\<close>

record intelligence =
  iv_temporal :: temporal
  iv_sla :: "rat option"
  iv_score :: "rat option"
  iv_ratio :: "rat option"
  iv_threats :: int

definition max_score :: "rat list \<Rightarrow> rat option" where
  "max_score xs = (case xs of [] \<Rightarrow> None | x # rest \<Rightarrow> Some (fold max rest x))"

definition public_page_intelligence :: "mo_env \<Rightarrow> uuid \<Rightarrow> intelligence mo_prog" where
  "public_page_intelligence env tenant =
     bindM read_clock (\<lambda>t.
     bindM (catch (fetch_table rollups (\<lambda>_ rs. sum_list (map ag_threats (take 48 (newest ag_start
         (filter (\<lambda>r. ag_tenant r = tenant \<and> t - analytics_window \<le> ag_start r) rs)))))) (\<lambda>_. ret 0)) (\<lambda>threats.
     bindM (catch (latest_temporal_signal env tenant) (\<lambda>e. ret (empty_temporal_signal
         (if e = undefined_table then ''insufficient_data'' else ''error'')))) (\<lambda>signal.
     bindM (catch (bindM (list_recent_scores tenant (Some ''classical_anomaly'') 50) (\<lambda>scores.
         ret (if scores = [] then (None, None)
           else (max_score (concat (map (\<lambda>r. case ml_score r of None \<Rightarrow> [] | Some q \<Rightarrow> [q]) scores)),
                 Some (of_nat (length (filter ml_anomaly scores)) / of_nat (length scores))))))
         (\<lambda>_. ret (None, None))) (\<lambda>(score, ratio).
     bindM (catch (latest_predicted_sla env tenant) (\<lambda>_. ret None)) (\<lambda>sla.
     ret \<lparr>iv_temporal = signal, iv_sla = sla, iv_score = score, iv_ratio = ratio, iv_threats = threats\<rparr>)))))"

definition predicted_sla :: "intelligence \<Rightarrow> rat option" where
  "predicted_sla i = map_option (\<lambda>v. py_round 2 (clamp_pct v)) (iv_sla i)"

record kpis =
  kp_uptime :: "rat option"
  kp_history :: "day_point list"
  kp_p99 :: "rat option"
  kp_requests :: int
  kp_temporal :: temporal
  kp_sla :: "rat option"
  kp_score :: "rat option"
  kp_ratio :: "rat option"
  kp_threats :: int

definition kpi_fields :: "telemetry_view \<Rightarrow> intelligence \<Rightarrow> kpis" where
  "kpi_fields tv i = \<lparr>kp_uptime = tv_uptime tv, kp_history = tv_history tv, kp_p99 = tv_p99 tv,
     kp_requests = tv_requests tv, kp_temporal = iv_temporal i, kp_sla = predicted_sla i,
     kp_score = iv_score i, kp_ratio = iv_ratio i, kp_threats = iv_threats i\<rparr>"

subsection \<open>Pages\<close>

record page_dict =
  pd_id :: uuid
  pd_slug :: string
  pd_title :: string
  pd_description :: string
  pd_published :: bool
  pd_created :: time
  pd_updated :: time

definition public_page_dict :: "page_row \<Rightarrow> page_dict" where
  "public_page_dict p = \<lparr>pd_id = sp_id p, pd_slug = sp_slug p, pd_title = sp_title p,
     pd_description = sp_description p, pd_published = sp_published p, pd_created = sp_created p,
     pd_updated = sp_updated p\<rparr>"

record incident_dict =
  di_id :: uuid
  di_page :: uuid
  di_title :: string
  di_status :: string
  di_severity :: string
  di_body :: string
  di_started :: time
  di_resolved :: "time option"

definition incident_view :: "incident_row \<Rightarrow> incident_dict" where
  "incident_view i = \<lparr>di_id = si_id i, di_page = si_page i, di_title = si_title i, di_status = si_status i,
     di_severity = si_severity i, di_body = si_body i, di_started = si_started i, di_resolved = si_resolved i\<rparr>"

record service_view =
  vs_id :: uuid
  vs_page :: uuid
  vs_name :: string
  vs_status :: string
  vs_description :: string
  vs_order :: int
  vs_updated :: time
  vs_probe :: "string option"
  vs_sla :: "rat option"
  vs_history :: "day_point list"
  vs_p99 :: "rat option"

record page_view =
  pg_page :: page_dict
  pg_tenant :: "uuid option"
  pg_overall :: string
  pg_kpis :: kpis
  pg_services :: "service_view list"
  pg_incidents :: "incident_dict list"

definition in_order :: "service_row list \<Rightarrow> service_row list" where
  "in_order ss = sort_key (\<lambda>s. (ss_order s, ss_name s)) ss"

definition lookup :: "(uuid \<times> 'a) list \<Rightarrow> uuid \<Rightarrow> 'a \<Rightarrow> 'a" where
  "lookup kvs k d = (case map_of kvs k of None \<Rightarrow> d | Some v \<Rightarrow> v)"

definition enrich_service :: "telemetry_view \<Rightarrow> service_row \<Rightarrow> service_view" where
  "enrich_service tv s = \<lparr>vs_id = ss_id s, vs_page = ss_page s, vs_name = ss_name s,
     vs_status = ss_status s, vs_description = ss_description s, vs_order = ss_order s, vs_updated = ss_updated s,
     vs_probe = None, vs_sla = lookup (tv_service_sla tv) (ss_id s) None,
     vs_history = lookup (tv_service_history tv) (ss_id s) (tv_empty tv),
     vs_p99 = lookup (tv_service_p99 tv) (ss_id s) None\<rparr>"

definition list_services :: "auth_user \<Rightarrow> uuid \<Rightarrow> uuid \<Rightarrow> service_view list mo_prog" where
  "list_services user tenant page =
     bindM (read_gate user tenant) (\<lambda>_.
     bindM (require_page tenant page) (\<lambda>_.
     bindM (query (\<lambda>d. in_order (services_of tenant page d))) (\<lambda>rows.
     bindM (public_page_telemetry tenant (map ss_id rows)) (\<lambda>tv.
     ret (map (\<lambda>s. (enrich_service tv s)\<lparr>vs_probe := ss_probe s\<rparr>) rows)))))"

definition owned_page :: "mo_env \<Rightarrow> uuid \<Rightarrow> page_row \<Rightarrow> page_view mo_prog" where
  "owned_page env tenant p =
     bindM (query (\<lambda>d. in_order (filter (\<lambda>s. ss_page s = sp_id p) (status_services d)))) (\<lambda>rows.
     bindM (public_page_telemetry tenant (map ss_id rows)) (\<lambda>tv.
     bindM (public_page_intelligence env tenant) (\<lambda>i.
     ret \<lparr>pg_page = public_page_dict p, pg_tenant = Some (sp_tenant p),
       pg_overall = honest_overall_status (map ss_status rows) (tv_uptime tv \<noteq> None),
       pg_kpis = kpi_fields tv i, pg_services = [], pg_incidents = []\<rparr>)))"

fun each :: "('a \<Rightarrow> 'b mo_prog) \<Rightarrow> 'a list \<Rightarrow> 'b list mo_prog" where
  "each f [] = ret []"
| "each f (x # xs) = bindM (f x) (\<lambda>y. bindM (each f xs) (\<lambda>ys. ret (y # ys)))"

definition list_pages :: "mo_env \<Rightarrow> auth_user \<Rightarrow> uuid \<Rightarrow> page_view list mo_prog" where
  "list_pages env user tenant =
     bindM (read_gate user tenant) (\<lambda>_.
     bindM (query (\<lambda>d. newest sp_created (filter (\<lambda>p. sp_tenant p = tenant) (status_pages d)))) (\<lambda>rows.
     each (owned_page env tenant) rows))"

definition hydrate_public_page :: "mo_env \<Rightarrow> bool \<Rightarrow> bool \<Rightarrow> page_row \<Rightarrow> page_view mo_prog" where
  "hydrate_public_page env include_tenant detail p =
     (let tenant = sp_tenant p; page = sp_id p in
      bindM (query (\<lambda>d. in_order (services_of tenant page d))) (\<lambda>rows.
      bindM (public_page_telemetry tenant (map ss_id rows)) (\<lambda>tv.
      bindM (public_page_intelligence env tenant) (\<lambda>i.
      let view = \<lparr>pg_page = public_page_dict p, pg_tenant = (if include_tenant then Some tenant else None),
        pg_overall = honest_overall_status (map ss_status rows) (tv_uptime tv \<noteq> None),
        pg_kpis = kpi_fields tv i, pg_services = [], pg_incidents = []\<rparr> in
      if \<not> detail then ret view
      else bindM (query (\<lambda>d. take 20 (newest si_started
          (filter (\<lambda>i. si_page i = page \<and> si_tenant i = tenant) (status_incidents d))))) (\<lambda>incidents.
        ret (view\<lparr>pg_services := map (enrich_service tv) rows, pg_incidents := map incident_view incidents\<rparr>))))))"

definition list_published_pages :: "mo_env \<Rightarrow> page_view list mo_prog" where
  "list_published_pages env =
     bindM (query (\<lambda>d. sort_key (\<lambda>p. (if sp_slug p = platform_status_slug then 0 else 1 :: nat, sp_title p))
       (filter sp_published (status_pages d)))) (\<lambda>rows.
     each (hydrate_public_page env False False) rows)"

subsection \<open>The public address\<close>

fun published_by_candidates :: "string list \<Rightarrow> page_row option mo_prog" where
  "published_by_candidates [] = ret None"
| "published_by_candidates (c # cs) =
     bindM (query (\<lambda>d. first_row (\<lambda>p. sp_slug p = c \<and> sp_published p) (status_pages d))) (\<lambda>row.
     case row of Some p \<Rightarrow> ret (Some p) | None \<Rightarrow> published_by_candidates cs)"

definition published_by_prefix :: "string \<Rightarrow> page_row option mo_prog" where
  "published_by_prefix prefix =
     bindM (query (\<lambda>d. take 2 (filter (\<lambda>p. sp_published p
         \<and> (sp_slug p = prefix \<or> py_startswith (sp_slug p) (prefix @ ''-''))) (status_pages d)))) (\<lambda>rows.
     ret (case rows of [p] \<Rightarrow> Some p | _ \<Rightarrow> None))"

definition find_published :: "string \<Rightarrow> page_row option mo_prog" where
  "find_published slug =
     bindM (published_by_candidates (public_slug_candidates slug)) (\<lambda>found. case found of
       Some p \<Rightarrow> ret (Some p)
     | None \<Rightarrow> (case public_slug_prefix slug of None \<Rightarrow> ret None | Some prefix \<Rightarrow> published_by_prefix prefix))"

definition get_published_page :: "mo_env \<Rightarrow> string \<Rightarrow> bool \<Rightarrow> page_view option mo_prog" where
  "get_published_page env slug include_tenant =
     bindM (find_published slug) (\<lambda>found. case found of None \<Rightarrow> ret None
       | Some p \<Rightarrow> bindM (hydrate_public_page env include_tenant True p) (\<lambda>v. ret (Some v)))"

text \<open>The route: who learns the tenant of a published page.\<close>

definition may_learn_tenant :: "auth_user option \<Rightarrow> uuid \<Rightarrow> bool" where
  "may_learn_tenant user page_tenant = (case user of None \<Rightarrow> False
     | Some u \<Rightarrow> au_kind u = SERVICE \<and> au_tenant_id u \<notin> {None, Some []}
         \<and> (au_tenant_id u = Some page_tenant \<or> ''*'' \<in> set (au_scopes u)
            \<or> ''status:tenant-resolve'' \<in> set (au_scopes u)))"

definition public_page :: "mo_env \<Rightarrow> auth_user option \<Rightarrow> string \<Rightarrow> page_view mo_prog" where
  "public_page env user slug =
     bindM (get_published_page env slug True) (\<lambda>page. case page of
       None \<Rightarrow> raise (HTTPException 404 ''status page not found'')
     | Some v \<Rightarrow> ret (if may_learn_tenant user (coalesce (pg_tenant v) []) then v else v\<lparr>pg_tenant := None\<rparr>))"

end
