(* ===== verification/Analytics.thy ===== *)
theory Analytics
  imports Status_Public
begin

section \<open>Analytics: hourly rollups and the overview\<close>

text \<open>
  \<open>services/analytics.py\<close> and the benchmark summary of \<open>services/ml/store.py\<close>: one row per tenant and
  hour is computed from the stream results, the probe observations, the threat list and the incident
  cases, and the overview of a tenant is computed from these rows.  The text PostgreSQL shows for a
  JSON value that is not a string, and the clock label of a bucket, are parameters.
\<close>

record an_env =
  an_mo :: mo_env
  an_text :: "json \<Rightarrow> string"
  an_label :: "time \<Rightarrow> string"

definition ensure_analytics_schema :: "unit mo_prog" where
  "ensure_analytics_schema =
     bindM ensure_secure_schema (\<lambda>_.
     stmt (\<lambda>d. Inr ((), d\<lparr>rollups := Some (case rollups d of None \<Rightarrow> [] | Some rs \<Rightarrow> rs)\<rparr>)))"

subsection \<open>Formulas\<close>

definition percentile_index :: "int \<Rightarrow> rat \<Rightarrow> int" where
  "percentile_index n pct = (if n \<le> 0 then 0 else max 0 (ceiling (of_int n * pct) - 1))"

record ces =
  ce_threat :: rat
  ce_sla :: rat
  ce_stability :: rat
  ce_level :: rat

definition ces_composite :: "rat \<Rightarrow> int \<Rightarrow> rat \<Rightarrow> ces" where
  "ces_composite uptime incidents p99 =
     (let threat = min 100 (of_int (incidents * 20) + (if 500 < p99 then 30 else 0));
          sla = max 0 (uptime - (if 800 < p99 then 5 else 0));
          stability = max 0 (100 - of_int (incidents * 10) - (if 300 < p99 then 15 else 0)) in
      \<lparr>ce_threat = threat, ce_sla = sla, ce_stability = stability,
       ce_level = max 0 (min 100 (sla * (1 / 2) + stability * (2 / 5) + (100 - threat) * (1 / 10)))\<rparr>)"

definition uptime_status :: "rat \<Rightarrow> string" where
  "uptime_status ratio = (if 1 \<le> ratio then ''operational'' else if 99 / 100 \<le> ratio then ''degraded''
     else if 95 / 100 \<le> ratio then ''partial_outage'' else ''major_outage'')"

subsection \<open>Routing tags\<close>

type_synonym counts = "(string \<times> int) list"

definition add_count :: "string \<Rightarrow> int \<Rightarrow> counts \<Rightarrow> counts" where
  "add_count name n cs = AList.update name (coalesce (map_of cs name) 0 + n) cs"

definition top_counts :: "counts \<Rightarrow> counts" where
  "top_counts cs = filter (\<lambda>c. 0 < snd c) (take 12 (sort_key (\<lambda>(name, n). (- n, name)) cs))"

text \<open>\<open>NULLIF(BTRIM(doc->>key), '')\<close>.\<close>

definition tag_text :: "an_env \<Rightarrow> jdict \<Rightarrow> string \<Rightarrow> string option" where
  "tag_text env doc key = (case jget doc key of JNull \<Rightarrow> None
     | v \<Rightarrow> (let s = btrim (case v of JStr s \<Rightarrow> s | _ \<Rightarrow> an_text env v) in if s = [] then None else Some s))"

definition py_isdigit :: "string \<Rightarrow> bool" where
  "py_isdigit s \<longleftrightarrow> s \<noteq> [] \<and> list_all (\<lambda>c. is_digit c \<or> code_point c \<in> {178, 179, 185}) s"

record tags =
  tg_regions :: counts
  tg_components :: counts
  tg_statuses :: counts
  tg_visitors :: "string list"

definition no_tags :: tags where
  "no_tags = \<lparr>tg_regions = [], tg_components = [], tg_statuses = [], tg_visitors = []\<rparr>"

definition count_named :: "string \<Rightarrow> counts \<Rightarrow> counts" where
  "count_named name cs = (if name = [] then cs else add_count name 1 cs)"

definition count_tags :: "an_env \<Rightarrow> stream_row \<Rightarrow> tags \<Rightarrow> tags" where
  "count_tags env r g =
     (let tag = tag_text env (st_metadata r);
          region = py_strip (coalesce (case tag ''region'' of None \<Rightarrow> tag ''source'' | s \<Rightarrow> s) []);
          comp = py_strip (coalesce (tag ''component'') []);
          label = py_lower (py_strip (coalesce (tag ''label'') []));
          key = py_strip (coalesce (tag_text env (dict_or_empty (st_features r)) ''key_id'') []) in
      \<lparr>tg_regions = count_named region (tg_regions g), tg_components = count_named comp (tg_components g),
       tg_statuses = (if label \<in> {''1xx'', ''2xx'', ''3xx'', ''4xx'', ''5xx''} \<or> py_isdigit label
         then add_count label 1 (tg_statuses g) else tg_statuses g),
       tg_visitors = (if key = [] then tg_visitors g else List.insert key (tg_visitors g))\<rparr>)"

definition in_window :: "time \<Rightarrow> time \<Rightarrow> time \<Rightarrow> bool" where
  "in_window start stop t \<longleftrightarrow> start \<le> t \<and> t < stop"

definition window_results :: "uuid \<Rightarrow> time \<Rightarrow> time \<Rightarrow> mo_db \<Rightarrow> stream_row list" where
  "window_results tenant start stop d =
     filter (\<lambda>r. st_tenant r = tenant \<and> in_window start stop (st_created r)) (stream_results d)"

definition routing_distributions :: "an_env \<Rightarrow> uuid \<Rightarrow> time \<Rightarrow> time \<Rightarrow> tags mo_prog" where
  "routing_distributions env tenant start stop =
     bindM (query (window_results tenant start stop)) (\<lambda>rows. ret (fold (count_tags env) rows no_tags))"

definition named_counts :: "string \<Rightarrow> counts \<Rightarrow> json" where
  "named_counts key cs = JArr (map (\<lambda>(name, n). JObj [(key, JStr name), (''count'', JInt n)]) (top_counts cs))"

subsection \<open>Probe statistics\<close>

record probe_stats =
  ps_samples :: int
  ps_active :: int
  ps_avg :: rat
  ps_p99 :: rat

definition no_probes :: probe_stats where
  "no_probes = \<lparr>ps_samples = 0, ps_active = 0, ps_avg = 0, ps_p99 = 0\<rparr>"

definition average :: "rat list \<Rightarrow> rat" where
  "average xs = (if xs = [] then 0 else sum_list xs / of_nat (length xs))"

definition window_probe_rows :: "uuid \<Rightarrow> time \<Rightarrow> time \<Rightarrow> probe_row list \<Rightarrow> probe_row list" where
  "window_probe_rows tenant start stop hs = filter (\<lambda>h. hp_tenant h = tenant \<and> in_window start stop (hp_observed h)) hs"

definition stats_of_probes :: "probe_row list \<Rightarrow> probe_stats" where
  "stats_of_probes hs =
     \<lparr>ps_samples = int (length hs), ps_active = int (length (filter hp_active hs)),
      ps_avg = average (map (\<lambda>h. of_int (hp_ms h)) hs),
      ps_p99 = coalesce (percentile_cont (99 / 100) (map hp_ms hs)) 0\<rparr>"

definition clean_stats :: "probe_stats option \<Rightarrow> probe_stats" where
  "clean_stats row = (case row of None \<Rightarrow> no_probes
     | Some s \<Rightarrow> (let n = max (ps_samples s) 0 in
         if n = 0 then no_probes
         else \<lparr>ps_samples = n, ps_active = min (max (ps_active s) 0) n, ps_avg = max (ps_avg s) 0, ps_p99 = max (ps_p99 s) 0\<rparr>))"

definition probe_stats_in :: "uuid \<Rightarrow> time \<Rightarrow> time \<Rightarrow> probe_stats mo_prog" where
  "probe_stats_in tenant start stop =
     bindM (catch (bindM (fetch_table probes (\<lambda>_ hs. stats_of_probes (window_probe_rows tenant start stop hs))) (\<lambda>s. ret (Some s)))
       (\<lambda>e. if e = undefined_table then ret None else raise e)) (\<lambda>row. ret (clean_stats row))"

subsection \<open>The hourly rollup\<close>

definition hour_of :: "time \<Rightarrow> time" where "hour_of t = t - t mod secs 3600"

definition percent :: "int \<Rightarrow> int \<Rightarrow> rat" where
  "percent part n = (if n = 0 then 0 else of_int part / of_int n * 100)"

definition float_or_null :: "rat option \<Rightarrow> json" where
  "float_or_null x = (case x of None \<Rightarrow> JNull | Some q \<Rightarrow> JFloat q)"

definition probe_uptime :: "probe_stats \<Rightarrow> rat option" where
  "probe_uptime ps = (if ps_samples ps = 0 then None else Some (percent (ps_active ps) (ps_samples ps)))"

definition bucket_metadata :: "probe_stats \<Rightarrow> int \<Rightarrow> rat \<Rightarrow> tags \<Rightarrow> jdict" where
  "bucket_metadata ps anomalies rate g =
     [(''source'', JStr ''stream_results''),
      (''latency_source'', JStr ''health_probe_observations''),
      (''latency_sample_count'', JInt (ps_samples ps)),
      (''latency_data_available'', JBool (0 < ps_samples ps)),
      (''uptime_source'', JStr ''health_probe_observations''),
      (''uptime_sample_count'', JInt (ps_samples ps)),
      (''uptime_active_count'', JInt (ps_active ps)),
      (''uptime_percent'', float_or_null (probe_uptime ps)),
      (''uptime_data_available'', JBool (0 < ps_samples ps)),
      (''anomaly_count'', JInt anomalies),
      (''anomaly_rate_percent'', JFloat rate),
      (''origin_distribution'', named_counts ''region'' (tg_regions g)),
      (''endpoint_counts'', named_counts ''endpoint'' (tg_components g)),
      (''http_statuses'', named_counts ''status'' (tg_statuses g))]"

definition same_bucket :: "rollup_row \<Rightarrow> rollup_row \<Rightarrow> bool" where
  "same_bucket r q \<longleftrightarrow> ag_tenant q = ag_tenant r \<and> ag_start q = ag_start r"

text \<open>\<open>INSERT .. ON CONFLICT (tenant_id, bucket_start, bucket_size) DO UPDATE\<close>: every column is replaced.\<close>

definition upsert_rollup :: "rollup_row \<Rightarrow> mo_db \<Rightarrow> exn + unit \<times> mo_db" where
  "upsert_rollup r d = (case rollups d of None \<Rightarrow> Inl undefined_table
     | Some rs \<Rightarrow>
         if list_ex (same_bucket r) rs then Inr ((), d\<lparr>rollups := Some (upd_where (same_bucket r) (\<lambda>_. r) rs)\<rparr>)
         else if ag_tenant r \<notin> set (mo_tenants d) then Inl tenant_missing
         else Inr ((), d\<lparr>rollups := Some (rs @ [r])\<rparr>))"

record bucket_view =
  bv_row :: rollup_row
  bv_measured :: bool
  bv_uptime :: "rat option"
  bv_avg :: "rat option"
  bv_p99 :: "rat option"

definition rollup_of :: "uuid \<Rightarrow> time \<Rightarrow> int \<Rightarrow> int \<Rightarrow> probe_stats \<Rightarrow> int \<Rightarrow> int \<Rightarrow> tags \<Rightarrow> rollup_row" where
  "rollup_of tenant start n anomalies ps threats cases g =
     \<lparr>ag_tenant = tenant, ag_start = start, ag_requests = n, ag_avg = ps_avg ps, ag_p99 = ps_p99 ps,
      ag_error_rate = percent anomalies n, ag_threats = threats, ag_incidents = cases,
      ag_visitors = int (length (tg_visitors g)),
      ag_metadata = bucket_metadata ps anomalies (percent anomalies n) g\<rparr>"

definition aggregate_from :: "an_env \<Rightarrow> uuid \<Rightarrow> time \<Rightarrow> bucket_view mo_prog" where
  "aggregate_from env tenant start =
     (let stop = start + secs 3600 in
     bindM (query (\<lambda>d. let rs = window_results tenant start stop d in (int (length rs), int (length (filter st_anomaly rs))))) (\<lambda>(n, anomalies).
     bindM (probe_stats_in tenant start stop) (\<lambda>ps.
     bindM (query (\<lambda>d. int (length (filter (\<lambda>i. (ti_tenant i = Some tenant \<or> ti_platform i) \<and> in_window start stop (ti_created i)) (threat_intel d))))) (\<lambda>threats.
     bindM (query (\<lambda>d. int (length (filter (\<lambda>c. ic_tenant c = tenant \<and> ic_status c \<in> {''open'', ''investigating''}
        \<and> in_window start stop (ic_created c)) (incident_cases d))))) (\<lambda>cases.
     bindM (routing_distributions env tenant start stop) (\<lambda>g.
     let r = rollup_of tenant start n anomalies ps threats cases g; measured = 0 < ps_samples ps in
     bindM (stmt (upsert_rollup r)) (\<lambda>_.
     ret \<lparr>bv_row = r, bv_measured = measured, bv_uptime = probe_uptime ps,
       bv_avg = (if measured then Some (ps_avg ps) else None), bv_p99 = (if measured then Some (ps_p99 ps) else None)\<rparr>)))))))"

definition aggregate_hour :: "an_env \<Rightarrow> uuid \<Rightarrow> time option \<Rightarrow> bucket_view mo_prog" where
  "aggregate_hour env tenant bucket =
     bindM ensure_analytics_schema (\<lambda>_.
     bindM (case bucket of Some t \<Rightarrow> ret t | None \<Rightarrow> bindM read_clock (\<lambda>t. ret (hour_of t))) (\<lambda>start.
     aggregate_from env tenant start))"

subsection \<open>Reading the rollups\<close>

definition sample_count :: "jdict \<Rightarrow> string \<Rightarrow> exn + int" where
  "sample_count doc key = (case py_int (py_or (jget doc key) (JInt 0)) of Inl e \<Rightarrow> Inl e | Inr n \<Rightarrow> Inr (max n 0))"

definition rollup_latency_sample_count :: "rollup_row \<Rightarrow> int" where
  "rollup_latency_sample_count r =
     (if jget (ag_metadata r) ''latency_source'' \<noteq> JStr ''health_probe_observations'' then 0
      else case sample_count (ag_metadata r) ''latency_sample_count'' of Inl _ \<Rightarrow> 0 | Inr n \<Rightarrow> n)"

definition rollup_uptime_counts :: "rollup_row \<Rightarrow> int \<times> int" where
  "rollup_uptime_counts r =
     (if jget (ag_metadata r) ''uptime_source'' \<noteq> JStr ''health_probe_observations'' then (0, 0)
      else case (sample_count (ag_metadata r) ''uptime_sample_count'', sample_count (ag_metadata r) ''uptime_active_count'') of
          (Inr n, Inr active) \<Rightarrow> (min active n, n)
        | _ \<Rightarrow> (0, 0))"

definition rollup_anomaly_rate :: "an_env \<Rightarrow> rollup_row \<Rightarrow> rat" where
  "rollup_anomaly_rate env r = (case map_of (ag_metadata r) ''anomaly_rate_percent'' of
     Some v \<Rightarrow> (case py_float (mo_float (an_mo env)) (py_or v (JInt 0)) of Inl _ \<Rightarrow> 0 | Inr q \<Rightarrow> min (max q 0) 100)
   | None \<Rightarrow> min (max (ag_error_rate r) 0) 100)"

definition rollup_anomalies :: "an_env \<Rightarrow> rollup_row \<Rightarrow> rat" where
  "rollup_anomalies env r = (let requests = max (ag_requests r) 0 in
     case map_of (ag_metadata r) ''anomaly_count'' of
       Some v \<Rightarrow> (case py_float (mo_float (an_mo env)) (py_or v (JInt 0)) of Inl _ \<Rightarrow> 0
         | Inr q \<Rightarrow> min (max q 0) (of_int requests))
     | None \<Rightarrow> of_int requests * rollup_anomaly_rate env r / 100)"

definition weighted_anomaly_rate :: "an_env \<Rightarrow> rollup_row list \<Rightarrow> rat" where
  "weighted_anomaly_rate env rows =
     (let busy = filter (\<lambda>r. 0 < max (ag_requests r) 0) rows;
          weighted = sum_list (map (rollup_anomalies env) busy);
          requests = sum_list (map (\<lambda>r. max (ag_requests r) 0) busy) in
      if 0 < requests then min 100 (100 * weighted / of_int requests)
      else if rows = [] then 0
      else sum_list (map (rollup_anomaly_rate env) rows) / of_nat (length rows))"

definition pressure :: "an_env \<Rightarrow> rollup_row list \<Rightarrow> rat" where
  "pressure env rows = (if rows = [] then 0
     else of_int (sum_list (map ag_threats rows)) / of_nat (length rows) * 10 + weighted_anomaly_rate env rows)"

definition spiking_temporal_forecast :: "an_env \<Rightarrow> rollup_row list \<Rightarrow> rat option" where
  "spiking_temporal_forecast env rows =
     (if length rows < 2 then None
      else let chronological = rev rows; mid = max 1 (length chronological div 2);
               older = pressure env (take mid chronological); newer = pressure env (drop mid chronological) in
        if older \<le> 0 \<and> newer \<le> 0 then None
        else Some (py_round 1 (min 100 (newer / max older 1 * 40 + max 0 (newer - older) * 2))))"

subsection \<open>The benchmark summary (services/ml/store.py)\<close>

record benchmark =
  bm_score :: "rat option"
  bm_accuracy :: "rat option"
  bm_mae :: "rat option"
  bm_rmse :: "rat option"
  bm_samples :: int
  bm_models :: nat
  bm_measured :: nat
  bm_status :: string
  bm_created :: "time option"

definition empty_benchmark :: benchmark where
  "empty_benchmark = \<lparr>bm_score = None, bm_accuracy = None, bm_mae = None, bm_rmse = None, bm_samples = 0,
     bm_models = 0, bm_measured = 0, bm_status = ''insufficient_data'', bm_created = None\<rparr>"

record tally =
  ta_scores :: "rat list"
  ta_accuracies :: "rat list"
  ta_maes :: "rat list"
  ta_rmses :: "rat list"
  ta_samples :: int
  ta_families :: "string list"

text \<open>The loop over the score keys: a value that is no number tries the next key, a number ends it.\<close>

fun tally_score :: "mo_env \<Rightarrow> jdict \<Rightarrow> string list \<Rightarrow> tally \<Rightarrow> tally" where
  "tally_score env metrics [] s = s"
| "tally_score env metrics (key # keys) s =
     (if jget metrics key = JNull then tally_score env metrics keys s
      else case py_float (mo_float env) (jget metrics key) of
        Inl _ \<Rightarrow> tally_score env metrics keys s
      | Inr v \<Rightarrow>
          if key \<in> {''accuracy'', ''r2''} \<and> 0 \<le> v \<and> v \<le> 1 then s\<lparr>ta_accuracies := ta_accuracies s @ [v * 100]\<rparr>
          else if key = ''benchmark_score'' \<or> (0 \<le> v \<and> v \<le> 100)
          then s\<lparr>ta_scores := ta_scores s @ [if 1 < v \<or> key = ''benchmark_score'' then v else v * 100]\<rparr>
          else s)"

definition float_metric :: "mo_env \<Rightarrow> jdict \<Rightarrow> string \<Rightarrow> rat list" where
  "float_metric env metrics key = (if jget metrics key = JNull then []
     else case py_float (mo_float env) (jget metrics key) of Inl _ \<Rightarrow> [] | Inr q \<Rightarrow> [q])"

fun metric_samples :: "jdict \<Rightarrow> string list \<Rightarrow> int" where
  "metric_samples metrics [] = 0"
| "metric_samples metrics (key # keys) = (if jget metrics key = JNull then metric_samples metrics keys
     else case py_int (jget metrics key) of Inl _ \<Rightarrow> 0 | Inr n \<Rightarrow> n)"

definition score_keys :: "string list" where
  "score_keys = [''benchmark_score'', ''score'', ''ces_sla'', ''r2'', ''accuracy'']"

definition or_else :: "string \<Rightarrow> string \<Rightarrow> string" where "or_else a b = (if a = [] then b else a)"

definition tally_run :: "mo_env \<Rightarrow> run_rec \<Rightarrow> tally \<Rightarrow> tally" where
  "tally_run env r s =
     (let metrics = dict_or_empty (tr_metrics r);
          s = tally_score env metrics score_keys (s\<lparr>ta_families := List.insert (or_else (tr_family r) (or_else (tr_model r) ''model'')) (ta_families s)\<rparr>) in
      s\<lparr>ta_accuracies := ta_accuracies s @ map (\<lambda>a. if a \<le> 1 then a * 100 else a) (float_metric env metrics ''accuracy''),
        ta_maes := ta_maes s @ float_metric env metrics ''mae'',
        ta_rmses := ta_rmses s @ float_metric env metrics ''rmse'',
        ta_samples := ta_samples s + metric_samples metrics [''n_samples'', ''dataset_size'', ''n_windows'', ''n_points'']\<rparr>)"

definition mean_rounded :: "nat \<Rightarrow> rat list \<Rightarrow> rat option" where
  "mean_rounded n xs = (if xs = [] then None else Some (py_round n (average xs)))"

definition score_percent :: "tally \<Rightarrow> rat option" where
  "score_percent s =
     (case mean_rounded 2 (ta_scores s) of Some q \<Rightarrow> Some q
      | None \<Rightarrow> (case mean_rounded 2 (ta_accuracies s) of Some q \<Rightarrow> Some q
         | None \<Rightarrow> if ta_rmses s = [] then None
             else Some (py_round 2 (max 0 (min 100 (100 - average (ta_rmses s) * 10))))))"

definition benchmark_from_training_runs :: "mo_env \<Rightarrow> run_rec list \<Rightarrow> benchmark" where
  "benchmark_from_training_runs env runs =
     (let completed = filter (\<lambda>r. py_lower (tr_status r) \<in> {''completed'', ''success'', ''ok'', []}) runs in
      if completed = [] then empty_benchmark
      else let s = fold (tally_run env) completed \<lparr>ta_scores = [], ta_accuracies = [], ta_maes = [], ta_rmses = [],
             ta_samples = 0, ta_families = []\<rparr>; score = score_percent s; models = length (ta_families s) in
        \<lparr>bm_score = score, bm_accuracy = mean_rounded 2 (ta_accuracies s), bm_mae = mean_rounded 6 (ta_maes s),
         bm_rmse = mean_rounded 6 (ta_rmses s), bm_samples = ta_samples s, bm_models = models,
         bm_measured = (if score = None then 0 else models),
         bm_status = (if score = None then ''insufficient_data'' else ''measured''),
         bm_created = Some (tr_created (hd completed))\<rparr>)"

subsection \<open>The overview\<close>

definition latest_signal :: "an_env \<Rightarrow> uuid \<Rightarrow> temporal mo_prog" where
  "latest_signal env tenant = catch (latest_temporal_signal (an_mo env) tenant)
     (\<lambda>e. ret (empty_temporal_signal (if e = undefined_table then ''insufficient_data'' else ''error'')))"

definition latest_sla :: "an_env \<Rightarrow> uuid \<Rightarrow> rat option mo_prog" where
  "latest_sla env tenant = catch (latest_predicted_sla (an_mo env) tenant) (\<lambda>_. ret None)"

definition own_benchmark :: "an_env \<Rightarrow> uuid \<Rightarrow> benchmark mo_prog" where
  "own_benchmark env tenant = catch (bindM (list_recent_training_runs tenant 40)
     (\<lambda>runs. ret (benchmark_from_training_runs (an_mo env) runs))) (\<lambda>_. ret empty_benchmark)"

record time_point =
  tp_label :: string
  tp_latency :: "rat option"
  tp_samples :: int
  tp_requests :: int
  tp_uptime :: "rat option"
  tp_uptime_samples :: int
  tp_threats :: int

definition series_point :: "an_env \<Rightarrow> rollup_row \<Rightarrow> time_point" where
  "series_point env r =
     (let n = rollup_latency_sample_count r; c = rollup_uptime_counts r in
      \<lparr>tp_label = an_label env (ag_start r), tp_latency = (if 0 < n then Some (ag_p99 r) else None),
       tp_samples = n, tp_requests = ag_requests r,
       tp_uptime = (if 0 < snd c then Some (uptime_pct (fst c) (snd c)) else None),
       tp_uptime_samples = snd c, tp_threats = ag_threats r\<rparr>)"

definition chart_items :: "json \<Rightarrow> exn + json list" where
  "chart_items v = (if \<not> truthy v then Inr []
     else case v of JArr xs \<Rightarrow> Inr xs | JStr _ \<Rightarrow> Inr [] | JObj _ \<Rightarrow> Inr [] | _ \<Rightarrow> Inl TypeError)"

fun merge_items :: "an_env \<Rightarrow> string \<Rightarrow> json list \<Rightarrow> counts \<Rightarrow> exn + counts" where
  "merge_items env key [] cs = Inr cs"
| "merge_items env key (JObj item # items) cs =
     (let name = py_strip (py_str (mo_repr (an_mo env)) (py_or (py_or (jget item key) (jget item ''name'')) (JStr []))) in
      if name = [] then merge_items env key items cs
      else case py_int (py_or (jget item ''count'') (JInt 0)) of Inl e \<Rightarrow> Inl e
        | Inr n \<Rightarrow> merge_items env key items (add_count name n cs))"
| "merge_items env key (_ # items) cs = merge_items env key items cs"

definition merge_chart :: "an_env \<Rightarrow> string \<Rightarrow> string \<Rightarrow> jdict \<Rightarrow> counts \<Rightarrow> exn + counts" where
  "merge_chart env chart key doc cs = bind_sum (chart_items (jget doc chart)) (\<lambda>items. merge_items env key items cs)"

record charts =
  ct_origins :: counts
  ct_statuses :: counts
  ct_endpoints :: counts

fun merge_charts :: "an_env \<Rightarrow> rollup_row list \<Rightarrow> charts \<Rightarrow> exn + charts" where
  "merge_charts env [] c = Inr c"
| "merge_charts env (r # rs) c =
     bind_sum (merge_chart env ''origin_distribution'' ''region'' (ag_metadata r) (ct_origins c)) (\<lambda>origins.
     bind_sum (merge_chart env ''http_statuses'' ''status'' (ag_metadata r) (ct_statuses c)) (\<lambda>statuses.
     bind_sum (merge_chart env ''endpoint_counts'' ''endpoint'' (ag_metadata r) (ct_endpoints c)) (\<lambda>endpoints.
     merge_charts env rs \<lparr>ct_origins = origins, ct_statuses = statuses, ct_endpoints = endpoints\<rparr>)))"

record ces_view =
  cv_threat :: "rat option"
  cv_sla :: "rat option"
  cv_stability :: "rat option"
  cv_level :: "rat option"

definition ces_view_of :: "ces \<Rightarrow> ces_view" where
  "ces_view_of c = \<lparr>cv_threat = Some (ce_threat c), cv_sla = Some (ce_sla c),
     cv_stability = Some (ce_stability c), cv_level = Some (ce_level c)\<rparr>"

record overview_view =
  ov_window :: int
  ov_requests :: int
  ov_threats :: int
  ov_incidents :: int
  ov_visitors :: int
  ov_p99 :: "rat option"
  ov_uptime :: "rat option"
  ov_status :: string
  ov_data :: bool
  ov_benchmark :: benchmark
  ov_ces :: ces_view
  ov_temporal :: temporal
  ov_sla :: "rat option"
  ov_series :: "time_point list"
  ov_origins :: counts
  ov_statuses :: counts
  ov_endpoints :: counts

definition own_rollups :: "uuid \<Rightarrow> time \<Rightarrow> rollup_row list mo_prog" where
  "own_rollups tenant since = fetch_table rollups (\<lambda>_ rs.
     newest ag_start (filter (\<lambda>r. ag_tenant r = tenant \<and> since \<le> ag_start r) rs))"

definition latest_rollups :: "uuid \<Rightarrow> rollup_row list mo_prog" where
  "latest_rollups tenant = fetch_table rollups (\<lambda>_ rs. take 24 (newest ag_start (filter (\<lambda>r. ag_tenant r = tenant) rs)))"

definition window_hours :: "rollup_row list \<Rightarrow> int" where
  "window_hours rs = (if rs = [] then 24 else max 1 ((ag_start (hd rs) - ag_start (last rs)) div secs 3600 + 1))"

definition overview_body :: "an_env \<Rightarrow> uuid \<Rightarrow> overview_view mo_prog" where
  "overview_body env tenant =
     bindM (latest_signal env tenant) (\<lambda>signal.
     bindM (latest_sla env tenant) (\<lambda>sla.
     bindM read_clock (\<lambda>t. let since = t - analytics_window in
     bindM (own_rollups tenant since) (\<lambda>recent.
     bindM (probe_stats_in tenant since t) (\<lambda>ps.
     bindM (if recent = [] then bindM (latest_rollups tenant) (\<lambda>rs. ret (rs, window_hours rs)) else ret (recent, 24)) (\<lambda>(rows, hours).
     let incidents = sum_list (map ag_incidents rows); measured = 0 < ps_samples ps;
         p99 = (if measured then Some (ps_p99 ps) else None);
         uptime = (if measured then Some (uptime_pct (ps_active ps) (ps_samples ps)) else None);
         ces = (case uptime of Some u \<Rightarrow> ces_view_of (ces_composite u incidents (coalesce p99 0))
           | None \<Rightarrow> \<lparr>cv_threat = (if rows = [] then None else Some (min 100 (of_int (incidents * 20)))),
               cv_sla = None, cv_stability = None, cv_level = None\<rparr>) in
     bindM (lift (merge_charts env rows \<lparr>ct_origins = [], ct_statuses = [], ct_endpoints = []\<rparr>)) (\<lambda>c.
     bindM (own_benchmark env tenant) (\<lambda>bench.
     ret \<lparr>ov_window = hours, ov_requests = sum_list (map ag_requests rows), ov_threats = sum_list (map ag_threats rows),
       ov_incidents = incidents, ov_visitors = sum_list (map ag_visitors rows), ov_p99 = p99, ov_uptime = uptime,
       ov_status = (case uptime of None \<Rightarrow> ''unknown'' | Some u \<Rightarrow> uptime_status (u / 100)),
       ov_data = (rows \<noteq> [] \<or> measured), ov_benchmark = bench, ov_ces = ces, ov_temporal = signal, ov_sla = sla,
       ov_series = map (series_point env) (rev rows), ov_origins = top_counts (ct_origins c),
       ov_statuses = top_counts (ct_statuses c), ov_endpoints = top_counts (ct_endpoints c)\<rparr>))))))))"

definition overview :: "an_env \<Rightarrow> auth_user \<Rightarrow> uuid \<Rightarrow> overview_view mo_prog" where
  "overview env user tenant =
     bindM (require_tenant_access user tenant None (Some [''analytics:read''])) (\<lambda>_.
     bindM ensure_analytics_schema (\<lambda>_.
     overview_body env tenant))"

end
