(* ===== verification/Status_Safety.thy ===== *)
theory Status_Safety
  imports Analytics System
begin

section \<open>Status pages: invariant, relation, histories\<close>

text \<open>
  The invariant of the tables behind the status pages, what no call ever does to them, and the
  histories of the calls.  A probe observation arrives from the data plane; the schema only lets it
  name a service of its own tenant.
\<close>

subsection \<open>The invariant\<close>

definition pages_ok :: "page_row list \<Rightarrow> bool" where
  "pages_ok ps \<longleftrightarrow> distinct (map sp_id ps) \<and> distinct (map sp_slug ps) \<and> (\<forall>p \<in> set ps. status_slug_ok (sp_slug p))"

definition services_ok :: "service_row list \<Rightarrow> bool" where
  "services_ok ss \<longleftrightarrow> distinct (map ss_id ss) \<and> (\<forall>s \<in> set ss. ss_status s \<in> set service_statuses)"

definition incident_ok :: "incident_row \<Rightarrow> bool" where
  "incident_ok i \<longleftrightarrow> incident_checks i \<and> (si_status i = ''resolved'' \<longleftrightarrow> si_resolved i \<noteq> None)"

definition incidents_ok :: "incident_row list \<Rightarrow> bool" where
  "incidents_ok is \<longleftrightarrow> distinct (map si_id is) \<and> (\<forall>i \<in> set is. incident_ok i)"

definition rows_of :: "'r list option \<Rightarrow> 'r list" where
  "rows_of t = (case t of None \<Rightarrow> [] | Some rs \<Rightarrow> rs)"

definition rollups_ok :: "rollup_row list \<Rightarrow> bool" where
  "rollups_ok rs \<longleftrightarrow> distinct (map (\<lambda>r. (ag_tenant r, ag_start r)) rs)"

definition mo_inv :: "mo_db \<Rightarrow> bool" where
  "mo_inv d \<longleftrightarrow> pages_ok (status_pages d) \<and> services_ok (status_services d) \<and> incidents_ok (status_incidents d)
     \<and> children_ok d \<and> rollups_ok (rows_of (rollups d))"

definition platform_pages :: "mo_db \<Rightarrow> page_row list" where
  "platform_pages d = filter (\<lambda>p. sp_slug p = platform_status_slug) (status_pages d)"

definition mo_rely :: "mo_db \<Rightarrow> mo_db \<Rightarrow> bool" where
  "mo_rely d d' \<longleftrightarrow> (mo_inv d \<longrightarrow> mo_inv d' \<and> now d \<le> now d' \<and> platform_pages d' = platform_pages d
     \<and> (\<exists>es. audit_events d' = audit_events d @ es)
     \<and> (\<exists>rs. rows_of (ml_scores d') = rows_of (ml_scores d) @ rs)
     \<and> (\<exists>rs. rows_of (training_runs d') = rows_of (training_runs d) @ rs))"

lemma mo_rely_refl: "mo_rely d d"
  by (simp add: mo_rely_def)

lemma mo_rely_trans: "mo_rely d d' \<Longrightarrow> mo_rely d' d'' \<Longrightarrow> mo_rely d d''"
  unfolding mo_rely_def by (metis append.assoc order_trans)

interpretation mo: protocol mo_inv mo_rely
  by unfold_locales (rule mo_rely_refl, erule (1) mo_rely_trans, simp_all add: mo_rely_def)

lemma children_frame:
  assumes "status_pages d' = status_pages d" and "status_services d' = status_services d"
    and "status_incidents d' = status_incidents d" and "probes d' = probes d"
  shows "children_ok d' = children_ok d"
  using assms by (simp add: children_ok_def page_exists_def cong: option.case_cong)

lemma mo_rely_frame:
  assumes "status_pages d' = status_pages d" and "status_services d' = status_services d"
    and "status_incidents d' = status_incidents d" and "probes d' = probes d" and "now d \<le> now d'"
    and "rollups_ok (rows_of (rollups d)) \<Longrightarrow> rollups_ok (rows_of (rollups d'))"
    and "audit_events d' = audit_events d @ es" and "rows_of (ml_scores d') = rows_of (ml_scores d) @ rs"
    and "rows_of (training_runs d') = rows_of (training_runs d) @ rs'"
  shows "mo_rely d d'"
  unfolding mo_rely_def using assms children_frame [OF assms(1-4)] by (simp add: mo_inv_def platform_pages_def)

interpretation moc: core_protocol mo_inv mo_rely
  by unfold_locales (rule mo_rely_frame; simp add: add_audit_def)

text \<open>A step on the page tables.\<close>

lemma mo_relyI:
  assumes "mo_inv d \<Longrightarrow> mo_inv d'" and "now d' = now d" and "audit_events d' = audit_events d"
    and "ml_scores d' = ml_scores d" and "training_runs d' = training_runs d"
    and "mo_inv d \<Longrightarrow> platform_pages d' = platform_pages d"
  shows "mo_rely d d'"
  unfolding mo_rely_def using assms by auto

lemma page_exists_append [simp]: "page_exists t p (d\<lparr>status_pages := ps @ qs\<rparr>) \<longleftrightarrow>
    page_exists t p (d\<lparr>status_pages := ps\<rparr>) \<or> list_ex (page_of t p) qs"
  by (simp add: page_exists_def)

lemma children_mono:
  assumes "children_ok d" and "\<And>t p. page_exists t p d \<Longrightarrow> page_exists t p d'"
    and "\<And>s. s \<in> set (status_services d') \<Longrightarrow> page_exists (ss_tenant s) (ss_page s) d \<or> page_exists (ss_tenant s) (ss_page s) d'"
    and "\<And>i. i \<in> set (status_incidents d') \<Longrightarrow> page_exists (si_tenant i) (si_page i) d \<or> page_exists (si_tenant i) (si_page i) d'"
    and "\<And>t s. list_ex (service_of t s) (status_services d) \<Longrightarrow> list_ex (service_of t s) (status_services d')"
    and "probes d' = probes d"
  shows "children_ok d'"
  using assms by (auto simp: children_ok_def list_all_iff split: option.splits)

subsection \<open>Pages\<close>

lemma insert_page_rely:
  assumes "insert_page p d = Inr d'" and "sp_slug p \<noteq> platform_status_slug"
  shows "mo_rely d d'"
proof (rule mo_relyI)
  from assms(1) have d': "d' = d\<lparr>status_pages := status_pages d @ [p]\<rparr>" "status_slug_ok (sp_slug p)"
    "sp_id p \<notin> sp_id ` set (status_pages d)" "sp_slug p \<notin> sp_slug ` set (status_pages d)"
    by (auto simp: insert_page_def split: if_splits)
  show "mo_inv d \<Longrightarrow> mo_inv d'"
    using d' by (auto simp: mo_inv_def pages_ok_def d'(1) children_ok_def page_exists_def list_all_iff split: option.splits)
  show "platform_pages d' = platform_pages d" using d'(1) assms(2) by (simp add: platform_pages_def)
qed (use assms in \<open>auto simp: insert_page_def split: if_splits\<close>)

lemma safe_create_page: "safe mo_inv mo_rely (create_page user tenant slug title description published)"
  unfolding create_page_def ensure_secure_schema_def page_gate_def Let_def
  by (intro moc.core_intros mo.safe_stmt) (auto split: sum.splits intro: insert_page_rely)

text \<open>The row an operation has looked at is not, and does not become, the platform page.\<close>

definition not_platform :: "uuid \<Rightarrow> mo_db \<Rightarrow> bool" where
  "not_platform page d \<longleftrightarrow> (\<forall>p \<in> set (status_pages d). sp_id p = page \<longrightarrow> sp_slug p \<noteq> platform_status_slug)"

lemma not_platform_alt: "not_platform page d \<longleftrightarrow> page \<notin> sp_id ` set (platform_pages d)"
  by (auto simp: not_platform_def platform_pages_def)

lemma not_platform_stable: "stable mo_rely (\<lambda>d. mo_inv d \<and> not_platform page d)"
  unfolding stable_def not_platform_alt by (auto simp: mo_rely_def)

lemma keeps_require_page:
  "keeps mo_inv mo_rely (\<lambda>_. True) (require_page tenant page)
     (\<lambda>p d. sp_slug p \<noteq> platform_status_slug \<longrightarrow> not_platform page d)"
proof -
  have "keeps mo_inv mo_rely (\<lambda>_. True) (query (\<lambda>d. first_row (page_of tenant page) (status_pages d)))
      (\<lambda>row d. \<forall>p. row = Some p \<longrightarrow> sp_slug p \<noteq> platform_status_slug \<longrightarrow> not_platform page d)"
  proof (rule mo.keeps_query [OF mo.stable_true])
    fix d
    assume "mo_inv d"
    then have "distinct (map sp_id (status_pages d))" by (simp add: mo_inv_def pages_ok_def)
    then show "\<forall>p. first_row (page_of tenant page) (status_pages d) = Some p \<longrightarrow>
        sp_slug p \<noteq> platform_status_slug \<longrightarrow> not_platform page d"
      by (auto simp: not_platform_def page_of_def dest!: first_row_SomeD dest: distinct_map_eqD)
  qed
  then show ?thesis
    unfolding require_page_def by (rule keeps_bind) (auto intro!: keeps_intros split: option.split)
qed

lemma page_of_patch: "page_of t q (patch_page u n p) = page_of t q p"
  by (simp add: page_of_def patch_page_def)

lemma platform_upd_pages:
  assumes "\<And>p. p \<in> set ps \<Longrightarrow> P p \<Longrightarrow> sp_slug p \<noteq> platform_status_slug \<and> sp_slug (f p) \<noteq> platform_status_slug"
  shows "filter (\<lambda>p. sp_slug p = platform_status_slug) (upd_where P f ps)
    = filter (\<lambda>p. sp_slug p = platform_status_slug) ps"
  using assms by (induction ps) (auto simp: table_simps)

lemma page_exists_upd:
  assumes "\<And>p. p \<in> set (status_pages d) \<Longrightarrow> P p \<Longrightarrow> sp_id (f p) = sp_id p \<and> sp_tenant (f p) = sp_tenant p"
  shows "page_exists t q (d\<lparr>status_pages := upd_where P f (status_pages d)\<rparr>) = page_exists t q d"
  using assms by (auto simp: page_exists_def list_ex_iff set_upd_where page_of_def split: if_splits)

lemma update_page_rely:
  assumes run: "update_page_stmt q tenant page d = Inr (row, d')" and np: "not_platform page d"
    and slug: "pu_slug q \<noteq> Some platform_status_slug"
  shows "mo_rely d d'"
proof (cases "first_row (page_of tenant page) (status_pages d)")
  case None
  with run show ?thesis by (auto simp: update_page_stmt_def intro: mo_rely_refl)
next
  case (Some p)
  let ?f = "patch_page q (now d)"
  from run Some have d': "d' = d\<lparr>status_pages := upd_where (page_of tenant page) ?f (status_pages d)\<rparr>"
    and ok: "status_slug_ok (sp_slug (?f p))"
    and free: "\<forall>r \<in> set (status_pages d). sp_id r \<noteq> page \<longrightarrow> sp_slug r \<noteq> sp_slug (?f p)"
    by (auto simp: update_page_stmt_def Let_def list_ex_iff split: if_splits)
  from first_row_SomeD [OF Some] have p: "p \<in> set (status_pages d)" "sp_id p = page" "sp_tenant p = tenant"
    by (auto simp: page_of_def)
  have other: "\<not> page_of tenant page r \<Longrightarrow> r \<in> set (status_pages d) \<Longrightarrow> mo_inv d \<Longrightarrow> sp_id r \<noteq> page" for r
    using p by (auto simp: page_of_def mo_inv_def pages_ok_def dest: distinct_map_eqD)
  have same: "page_of tenant page r \<Longrightarrow> r \<in> set (status_pages d) \<Longrightarrow> mo_inv d \<Longrightarrow> r = p" for r
    using p by (auto simp: page_of_def mo_inv_def pages_ok_def dest: distinct_map_eqD)
  show ?thesis
  proof (rule mo_relyI)
    assume inv: "mo_inv d"
    have "map sp_id (status_pages d') = map sp_id (status_pages d)"
      unfolding d' by (simp add: map_upd_where patch_page_def)
    moreover have "distinct (map sp_slug (status_pages d'))"
    proof -
      have "distinct (status_pages d)" "inj_on sp_slug (set (status_pages d))" "distinct (map sp_id (status_pages d))"
        using inv by (auto simp: mo_inv_def pages_ok_def distinct_map)
      moreover from calculation(3) \<open>map sp_id (status_pages d') = _\<close> have "distinct (status_pages d')"
        by (metis distinct_map)
      moreover have "inj_on sp_slug (set (status_pages d'))"
      proof (rule inj_onI)
        fix a b
        assume "a \<in> set (status_pages d')" "b \<in> set (status_pages d')" and eq: "sp_slug a = sp_slug b"
        then obtain r s where r: "r \<in> set (status_pages d)" "a = (if page_of tenant page r then ?f r else r)"
          and s: "s \<in> set (status_pages d)" "b = (if page_of tenant page s then ?f s else s)"
          by (auto simp: d' set_upd_where)
        have "page_of tenant page r \<Longrightarrow> r = p" "page_of tenant page s \<Longrightarrow> s = p"
          "\<not> page_of tenant page r \<Longrightarrow> sp_id r \<noteq> page" "\<not> page_of tenant page s \<Longrightarrow> sp_id s \<noteq> page"
          using same [OF _ _ inv] other [OF _ _ inv] r(1) s(1) by blast+
        with r s free eq calculation(2) show "a = b"
          by (cases "page_of tenant page r"; cases "page_of tenant page s") (auto dest: inj_onD)
      qed
      ultimately show ?thesis by (simp add: distinct_map)
    qed
    moreover have "status_slug_ok (sp_slug a)" if "a \<in> set (status_pages d')" for a
      using that same [OF _ _ inv] ok inv by (auto simp: d' set_upd_where mo_inv_def pages_ok_def split: if_splits)
    moreover have "children_ok d'"
      by (rule children_mono [of d]) (use inv in \<open>auto simp: mo_inv_def d' page_exists_upd patch_page_def children_ok_def list_all_iff\<close>)
    ultimately show "mo_inv d'" using inv by (simp add: mo_inv_def pages_ok_def d')
    show "platform_pages d' = platform_pages d"
      unfolding d' platform_pages_def using np slug
      by (auto simp: not_platform_def page_of_def patch_page_def coalesce_def intro!: platform_upd_pages split: option.splits)
  qed (simp_all add: d')
qed

lemma clean_slug_platform: "clean_slug s = Inr slug \<Longrightarrow> slug \<noteq> Some platform_status_slug"
  by (auto simp: clean_slug_def Let_def split: option.splits if_splits)

lemma safe_update_page: "safe mo_inv mo_rely (update_page user tenant page q)"
proof -
  have "keeps mo_inv mo_rely (not_platform page)
      (stmt (update_page_stmt (q\<lparr>pu_slug := slug, pu_title := title\<rparr>) tenant page)) (\<lambda>_ _. True)"
    if "slug \<noteq> Some platform_status_slug" for slug title
    by (rule mo.keeps_stmt [OF not_platform_stable]) (use that in \<open>auto intro: update_page_rely\<close>)
  then have tail: "keeps mo_inv mo_rely (not_platform page) (bindM (lift (clean_slug (pu_slug q))) (\<lambda>slug.
      bindM (stmt (update_page_stmt (q\<lparr>pu_slug := slug, pu_title := map_option py_strip (pu_title q)\<rparr>) tenant page))
        (\<lambda>row. case row of None \<Rightarrow> raise (ValueError ''status page not found'') | Some p \<Rightarrow> ret p))) (\<lambda>_ _. True)"
    by (intro keeps_bind [where Q' = "\<lambda>slug d. slug \<noteq> Some platform_status_slug \<and> not_platform page d"] keeps_lift)
      (auto dest: clean_slug_platform intro!: keeps_pure keeps_bind [where Q' = "\<lambda>_ _. True"] keeps_intros split: option.split)
  show ?thesis
    unfolding update_page_def page_gate_def
    by (intro keeps_bind [where Q' = "\<lambda>_ _. True"] moc.core_intros keeps_bind [OF keeps_require_page] keeps_if keeps_raise
        keeps_conseq [OF tail]) auto
qed

lemma delete_page_children:
  assumes inv: "children_ok d"
  shows "children_ok (snd (delete_page_stmt tenant page d))"
proof (cases "filter (page_of tenant page) (status_pages d) = []")
  case True
  with inv show ?thesis by (simp add: delete_page_stmt_def)
next
  case False
  let ?d = "snd (delete_page_stmt tenant page d)"
  from False have f: "status_pages ?d = filter (\<lambda>p. \<not> page_of tenant page p) (status_pages d)"
    "status_services ?d = filter (\<lambda>s. \<not> (ss_page s = page \<and> ss_tenant s = tenant)) (status_services d)"
    "status_incidents ?d = filter (\<lambda>i. \<not> (si_page i = page \<and> si_tenant i = tenant)) (status_incidents d)"
    "probes ?d = map_option (filter (\<lambda>h. (hp_service h, hp_tenant h) \<notin> (\<lambda>s. (ss_id s, ss_tenant s)) ` set (services_of tenant page d))) (probes d)"
    by (simp_all add: delete_page_stmt_def Let_def drop_probes_def)
  have kept: "page_exists t p d \<Longrightarrow> (p, t) \<noteq> (page, tenant) \<Longrightarrow> page_exists t p ?d" for t p
    by (auto simp: page_exists_def f list_ex_iff page_of_def)
  have "list_ex (service_of (hp_tenant h) (hp_service h)) (status_services ?d)"
    if "list_ex (service_of (hp_tenant h) (hp_service h)) (status_services d)"
      "(hp_service h, hp_tenant h) \<notin> (\<lambda>s. (ss_id s, ss_tenant s)) ` set (services_of tenant page d)" for h
    using that by (force simp: f list_ex_iff service_of_def services_of_def)
  with inv show ?thesis
    by (auto simp: children_ok_def f(2-4) list_all_iff intro!: kept split: option.splits)
qed

lemma delete_page_rely:
  assumes "not_platform page d"
  shows "mo_rely d (snd (delete_page_stmt tenant page d))"
proof (rule mo_relyI)
  show "mo_inv d \<Longrightarrow> mo_inv (snd (delete_page_stmt tenant page d))"
    using delete_page_children [of d tenant page]
    by (auto simp: mo_inv_def pages_ok_def services_ok_def incidents_ok_def delete_page_stmt_def Let_def drop_probes_def
        distinct_map_filter)
  show "platform_pages (snd (delete_page_stmt tenant page d)) = platform_pages d"
    using assms by (auto simp: delete_page_stmt_def Let_def drop_probes_def platform_pages_def not_platform_def page_of_def
        intro!: filter_cong)
qed (simp_all add: delete_page_stmt_def Let_def drop_probes_def)

lemma safe_delete_page: "safe mo_inv mo_rely (delete_page user tenant page)"
proof -
  have "keeps mo_inv mo_rely (not_platform page) (stmt (\<lambda>d. Inr (delete_page_stmt tenant page d))) (\<lambda>_ _. True)"
    by (rule mo.keeps_stmt [OF not_platform_stable]) (use delete_page_rely in \<open>force simp: prod_eq_iff\<close>)
  then have tail: "keeps mo_inv mo_rely (not_platform page) (bindM (stmt (\<lambda>d. Inr (delete_page_stmt tenant page d)))
      (\<lambda>n. if n = 0 then raise (ValueError ''status page not found'') else ret ())) (\<lambda>_ _. True)"
    by (rule keeps_bind) (auto intro!: keeps_intros)
  show ?thesis
    unfolding delete_page_def page_gate_def
    by (intro keeps_bind [where Q' = "\<lambda>_ _. True"] moc.core_intros keeps_bind [OF keeps_require_page] keeps_if keeps_raise
        keeps_conseq [OF tail]) auto
qed

subsection \<open>Services\<close>

lemma insert_service_rely: "insert_service s d = Inr d' \<Longrightarrow> mo_rely d d'"
  by (rule mo_relyI)
    (auto simp: insert_service_def mo_inv_def services_ok_def platform_pages_def children_ok_def page_exists_def
      list_all_iff list_ex_iff split: if_splits option.splits)

lemma update_service_rely:
  assumes run: "update_service_stmt f tenant sid d = Inr (row, d')"
    and f: "\<And>s. ss_id (f s) = ss_id s" "\<And>s. ss_page (f s) = ss_page s" "\<And>s. ss_tenant (f s) = ss_tenant s"
  shows "mo_rely d d'"
proof (cases "first_row (service_of tenant sid) (status_services d)")
  case None
  with run show ?thesis by (auto simp: update_service_stmt_def intro: mo_rely_refl)
next
  case (Some s)
  from run Some have d': "d' = d\<lparr>status_services := upd_where (service_of tenant sid) f (status_services d)\<rparr>"
    and ok: "ss_status (f s) \<in> set service_statuses"
    by (auto simp: update_service_stmt_def split: if_splits)
  from first_row_SomeD [OF Some] have s: "s \<in> set (status_services d)" "ss_id s = sid" by (auto simp: service_of_def)
  have so: "service_of t i (f r) = service_of t i r" for t i r by (simp add: service_of_def f)
  show ?thesis
  proof (rule mo_relyI)
    assume inv: "mo_inv d"
    have one: "service_of tenant sid r \<Longrightarrow> r \<in> set (status_services d) \<Longrightarrow> r = s" for r
      using s inv by (auto simp: service_of_def mo_inv_def services_ok_def dest: distinct_map_eqD)
    have "services_ok (status_services d')"
      using inv ok one by (auto simp: d' mo_inv_def services_ok_def map_upd_where f set_upd_where)
    moreover have "children_ok d'"
      by (rule children_mono [of d])
        (use inv in \<open>auto simp: mo_inv_def d' children_ok_def page_exists_def list_all_iff set_upd_where f list_ex_upd_where so\<close>)
    ultimately show "mo_inv d'" using inv by (simp add: mo_inv_def d')
  qed (simp_all add: d' platform_pages_def)
qed

lemma safe_require_page: "safe mo_inv mo_rely (require_page tenant page)"
  by (rule keeps_conseq [OF keeps_require_page]) auto

lemma safe_upsert_service: "safe mo_inv mo_rely (upsert_service user tenant page q)"
  unfolding upsert_service_def page_gate_def Let_def
  by (intro moc.core_intros safe_require_page mo.safe_stmt)
    (auto split: sum.splits intro: insert_service_rely update_service_rely)

lemma safe_update_service: "safe mo_inv mo_rely (update_service user tenant sid q)"
  unfolding update_service_def update_service_row_def page_gate_def Let_def
  by (intro moc.core_intros mo.safe_stmt) (auto simp: patch_service_def intro: update_service_rely)

lemma delete_service_rely: "mo_rely d (snd (delete_service_stmt tenant sid d))"
proof (rule mo_relyI)
  let ?d = "snd (delete_service_stmt tenant sid d)"
  assume inv: "mo_inv d"
  have "children_ok ?d"
    using inv by (fastforce simp: mo_inv_def children_ok_def delete_service_stmt_def Let_def drop_probes_def page_exists_def
        list_all_iff list_ex_iff service_of_def split: option.splits)
  with inv show "mo_inv ?d"
    by (auto simp: mo_inv_def services_ok_def delete_service_stmt_def Let_def drop_probes_def distinct_map_filter)
qed (simp_all add: delete_service_stmt_def Let_def drop_probes_def platform_pages_def)

lemma safe_delete_service: "safe mo_inv mo_rely (delete_service user tenant sid)"
  unfolding delete_service_def page_gate_def
  by (intro moc.core_intros mo.safe_stmt) (auto, metis delete_service_rely snd_conv)

subsection \<open>Incidents\<close>

lemma mo_rely_incidents:
  assumes "mo_inv d \<Longrightarrow> incidents_ok is"
    and "\<And>i. mo_inv d \<Longrightarrow> i \<in> set is \<Longrightarrow> page_exists (si_tenant i) (si_page i) d"
  shows "mo_rely d (d\<lparr>status_incidents := is\<rparr>)"
  by (rule mo_relyI)
    (use assms in \<open>auto simp: mo_inv_def platform_pages_def children_ok_def page_exists_def list_all_iff split: option.splits\<close>)

lemma incident_page: "mo_inv d \<Longrightarrow> i \<in> set (status_incidents d) \<Longrightarrow> page_exists (si_tenant i) (si_page i) d"
  by (simp add: mo_inv_def children_ok_def list_all_iff)

lemma insert_incident_rely:
  assumes "insert_incident i d = Inr d'" and "si_status i = ''resolved'' \<longleftrightarrow> si_resolved i \<noteq> None"
  shows "mo_rely d d'"
proof -
  from assms have d': "d' = d\<lparr>status_incidents := status_incidents d @ [i]\<rparr>" "incident_checks i"
    "si_id i \<notin> si_id ` set (status_incidents d)" "page_exists (si_tenant i) (si_page i) d"
    by (auto simp: insert_incident_def split: if_splits)
  show ?thesis
    unfolding d'(1) by (rule mo_rely_incidents)
      (use d' assms(2) incident_page in \<open>auto simp: mo_inv_def incidents_ok_def incident_ok_def\<close>)
qed

lemma patch_incident_keys [simp]:
  "si_id (patch_incident q t i) = si_id i" "si_tenant (patch_incident q t i) = si_tenant i"
  "si_page (patch_incident q t i) = si_page i" "si_started (patch_incident q t i) = si_started i"
  by (simp_all add: patch_incident_def)

lemma patch_incident_ok: "incident_ok i \<Longrightarrow> incident_checks (patch_incident q t i) \<Longrightarrow> incident_ok (patch_incident q t i)"
  by (auto simp: incident_ok_def patch_incident_def coalesce_def split: option.splits if_splits)

lemma update_incident_rely:
  assumes run: "update_incident_stmt q tenant iid d = Inr (row, d')"
  shows "mo_rely d d'"
proof (cases "first_row (incident_of tenant iid) (status_incidents d)")
  case None
  with run show ?thesis by (auto simp: update_incident_stmt_def intro: mo_rely_refl)
next
  case (Some i)
  from run Some have d': "d' = d\<lparr>status_incidents := upd_where (incident_of tenant iid) (patch_incident q (now d)) (status_incidents d)\<rparr>"
    and ok: "incident_checks (patch_incident q (now d) i)"
    by (auto simp: update_incident_stmt_def split: if_splits)
  from first_row_SomeD [OF Some] have i: "i \<in> set (status_incidents d)" "si_id i = iid" by (auto simp: incident_of_def)
  have one: "incident_of tenant iid r \<Longrightarrow> r \<in> set (status_incidents d) \<Longrightarrow> mo_inv d \<Longrightarrow> r = i" for r
    using i by (auto simp: incident_of_def mo_inv_def incidents_ok_def dest: distinct_map_eqD)
  show ?thesis
    unfolding d' by (rule mo_rely_incidents)
      (use one ok incident_page in \<open>auto simp: mo_inv_def incidents_ok_def map_upd_where set_upd_where patch_incident_ok\<close>)
qed

lemma delete_incident_rely: "mo_rely d (snd (delete_incident_stmt tenant iid d))"
  unfolding delete_incident_stmt_def snd_conv
  by (rule mo_rely_incidents) (auto simp: mo_inv_def incidents_ok_def distinct_map_filter incident_page)

lemma safe_create_incident: "safe mo_inv mo_rely (create_incident user tenant page title status severity body)"
  unfolding create_incident_def page_gate_def Let_def
  by (intro moc.core_intros safe_require_page mo.safe_stmt) (auto split: sum.splits if_splits intro!: insert_incident_rely)

lemma safe_update_incident: "safe mo_inv mo_rely (update_incident user tenant iid q)"
  unfolding update_incident_def page_gate_def
  by (intro moc.core_intros mo.safe_stmt) (auto intro: update_incident_rely)

lemma safe_delete_incident: "safe mo_inv mo_rely (delete_incident user tenant iid)"
  unfolding delete_incident_def page_gate_def
  by (intro moc.core_intros mo.safe_stmt) (auto, metis delete_incident_rely snd_conv)

lemma safe_list_incidents: "safe mo_inv mo_rely (list_incidents user tenant page)"
  unfolding list_incidents_def read_gate_def by (intro moc.core_intros safe_require_page mo.safe_query) auto

subsection \<open>Scores and training runs\<close>

lemma safe_fetch_table: "safe mo_inv mo_rely (fetch_table table q)"
  unfolding fetch_table_def by (rule mo.safe_stmt) (auto intro: mo_rely_refl split: option.splits)

lemma safe_ensure_ml: "safe mo_inv mo_rely ensure_ml_store_schema"
  unfolding ensure_ml_store_schema_def
  by (rule mo.safe_stmt) (auto simp: rows_of_def intro!: mo_rely_frame [where es = "[]" and rs = "[]" and rs' = "[]"] split: option.splits)

lemma safe_record_training_run:
  "safe mo_inv mo_rely (record_training_run env tenant family model metrics artifact status version)"
  unfolding record_training_run_def
proof (intro keeps_intros safe_ensure_ml TrueI mo.safe_stmt)
  fix rid v and d d' :: mo_db
  assume "(case training_runs d of None \<Rightarrow> Inl undefined_table
       | Some rs \<Rightarrow> if tenant \<notin> set (mo_tenants d) then Inl tenant_missing
           else Inr (rid, d\<lparr>training_runs := Some (rs @ [\<lparr>tr_id = rid, tr_tenant = tenant, tr_model = model,
             tr_version = (if version = [] then mo_model_version env else version), tr_status = status,
             tr_metrics = JObj metrics, tr_artifact = artifact, tr_family = family, tr_created = now d\<rparr>])\<rparr>))
    = Inr (v, d')"
  then obtain r where "training_runs d \<noteq> None" "d' = d\<lparr>training_runs := Some (rows_of (training_runs d) @ [r])\<rparr>"
    by (auto simp: rows_of_def split: option.splits if_splits)
  then show "mo_rely d d'"
    by (intro mo_rely_frame [where es = "[]" and rs = "[]" and rs' = "[r]"]) (auto simp: rows_of_def)
qed

lemma insert_score_rely:
  assumes "insert_score env tenant family row d = Inr d'"
  shows "mo_rely d d'"
proof -
  from assms obtain r where "ml_scores d \<noteq> None" "d' = d\<lparr>ml_scores := Some (rows_of (ml_scores d) @ [r])\<rparr>"
    by (auto simp: insert_score_def rows_of_def split: option.splits if_splits sum.splits)
  then show ?thesis
    by (intro mo_rely_frame [where es = "[]" and rs = "[r]" and rs' = "[]"]) (auto simp: rows_of_def)
qed

lemma safe_persist_scores: "safe mo_inv mo_rely (persist_scores env tenant family rows)"
proof -
  have "safe mo_inv mo_rely (persist_rows env tenant family n rows)" for n
    by (induction rows arbitrary: n)
      (auto intro!: keeps_intros mo.safe_stmt split: sum.splits intro: insert_score_rely)
  then show ?thesis unfolding persist_scores_def by (intro keeps_intros safe_ensure_ml)
qed

subsection \<open>Reading\<close>

lemmas reading = keeps_intros mo.safe_query safe_fetch_table moc.safe_require_tenant_access safe_require_page

lemma safe_telemetry: "safe mo_inv mo_rely (public_page_telemetry tenant services)"
  unfolding public_page_telemetry_def probe_day_rollups_def probe_latency_24h_def analytics_kpis_24h_def Let_def
  by (intro reading) auto

lemma safe_temporal: "safe mo_inv mo_rely (latest_temporal_signal env tenant)"
  unfolding latest_temporal_signal_def list_recent_scores_def Let_def
  by (intro reading TrueI keeps_bind [where Q' = "\<lambda>_ _. True"]) (auto intro!: reading split: list.split json.split sum.split)

lemma safe_predicted: "safe mo_inv mo_rely (latest_predicted_sla env tenant)"
  unfolding latest_predicted_sla_def by (intro reading TrueI) (auto intro!: reading split: list.split)

lemma safe_intelligence: "safe mo_inv mo_rely (public_page_intelligence env tenant)"
  unfolding public_page_intelligence_def list_recent_scores_def
  by (intro reading safe_temporal safe_predicted) auto

lemma safe_each: "(\<And>x. safe mo_inv mo_rely (f x)) \<Longrightarrow> safe mo_inv mo_rely (each f xs)"
  by (induction xs) (auto intro!: keeps_intros)

lemma safe_hydrate: "safe mo_inv mo_rely (hydrate_public_page env include_tenant detail p)"
  unfolding hydrate_public_page_def Let_def by (intro reading safe_telemetry safe_intelligence) auto

lemma safe_list_pages: "safe mo_inv mo_rely (list_pages env user tenant)"
  unfolding list_pages_def read_gate_def owned_page_def
  by (intro reading safe_each safe_telemetry safe_intelligence) auto

lemma safe_list_services: "safe mo_inv mo_rely (list_services user tenant page)"
  unfolding list_services_def read_gate_def by (intro reading safe_telemetry) auto

lemma safe_published: "safe mo_inv mo_rely (list_published_pages env)"
  unfolding list_published_pages_def by (intro reading safe_each safe_hydrate)

lemma safe_find_published: "safe mo_inv mo_rely (find_published slug)"
proof -
  have "safe mo_inv mo_rely (published_by_candidates cs)" for cs
    by (induction cs) (auto intro!: reading split: option.split)
  then show ?thesis
    unfolding find_published_def published_by_prefix_def by (intro reading) auto
qed

lemma safe_public_page: "safe mo_inv mo_rely (public_page env user slug)"
  unfolding public_page_def get_published_page_def by (intro reading safe_find_published safe_hydrate) auto

subsection \<open>Rollups\<close>

lemma safe_ensure_analytics: "safe mo_inv mo_rely ensure_analytics_schema"
  unfolding ensure_analytics_schema_def ensure_secure_schema_def
  by (intro moc.core_intros mo.safe_stmt)
    (auto simp: rows_of_def intro!: mo_rely_frame [where es = "[]" and rs = "[]" and rs' = "[]"] split: option.splits)

lemma rollups_ok_upsert:
  assumes "rollups_ok rs"
  shows "rollups_ok (if list_ex (same_bucket r) rs then upd_where (same_bucket r) (\<lambda>_. r) rs else rs @ [r])"
proof (cases "list_ex (same_bucket r) rs")
  case True
  have "map (\<lambda>r. (ag_tenant r, ag_start r)) (upd_where (same_bucket r) (\<lambda>_. r) rs) = map (\<lambda>r. (ag_tenant r, ag_start r)) rs"
    by (simp add: upd_where_def same_bucket_def)
  with True assms show ?thesis by (simp add: rollups_ok_def)
next
  case False
  with assms show ?thesis by (auto simp: rollups_ok_def list_ex_iff same_bucket_def)
qed

lemma upsert_rollup_rely: "upsert_rollup r d = Inr (u, d') \<Longrightarrow> mo_rely d d'"
  using rollups_ok_upsert [of "rows_of (rollups d)" r]
  by (auto simp: upsert_rollup_def rows_of_def intro!: mo_rely_frame [where es = "[]" and rs = "[]" and rs' = "[]"]
      split: option.splits if_splits)

lemma safe_probe_stats: "safe mo_inv mo_rely (probe_stats_in tenant start stop)"
  unfolding probe_stats_in_def by (intro reading TrueI)

lemma safe_aggregate_from: "safe mo_inv mo_rely (aggregate_from env tenant start)"
  unfolding aggregate_from_def routing_distributions_def Let_def
  by (intro reading safe_probe_stats) (auto intro!: reading safe_probe_stats mo.safe_stmt intro: upsert_rollup_rely split: prod.split)

lemma safe_aggregate_hour: "safe mo_inv mo_rely (aggregate_hour env tenant bucket)"
  unfolding aggregate_hour_def
  by (intro reading safe_ensure_analytics safe_aggregate_from TrueI)

lemma safe_list_training_runs: "safe mo_inv mo_rely (list_recent_training_runs tenant limit)"
  unfolding list_recent_training_runs_def by (intro reading)

lemma safe_overview: "safe mo_inv mo_rely (overview env user tenant)"
  unfolding overview_def overview_body_def latest_signal_def latest_sla_def own_benchmark_def own_rollups_def
    latest_rollups_def Let_def
  by (intro reading safe_ensure_analytics safe_temporal safe_predicted safe_probe_stats safe_list_training_runs)
    (auto intro!: reading safe_list_training_runs split: prod.split)

subsection \<open>Histories\<close>

definition record_probe :: "probe_row \<Rightarrow> mo_db \<Rightarrow> exn + unit \<times> mo_db" where
  "record_probe h d = (case probes d of None \<Rightarrow> Inl undefined_table
     | Some hs \<Rightarrow> if list_ex (service_of (hp_tenant h) (hp_service h)) (status_services d)
         then Inr ((), d\<lparr>probes := Some (hs @ [h])\<rparr>) else Inl foreign_key_violation)"

lemma record_probe_rely: "record_probe h d = Inr (u, d') \<Longrightarrow> mo_rely d d'"
  by (rule mo_relyI)
    (auto simp: record_probe_def mo_inv_def children_ok_def page_exists_def platform_pages_def split: option.splits if_splits)

lemma safe_probe: "safe mo_inv mo_rely (stmt (record_probe h))"
  by (rule mo.safe_stmt) (auto intro: record_probe_rely)

datatype mo_call =
    M_create_page auth_user uuid string string string bool
  | M_update_page auth_user uuid uuid page_patch
  | M_delete_page auth_user uuid uuid
  | M_pages auth_user uuid
  | M_published
  | M_public "auth_user option" string
  | M_services auth_user uuid uuid
  | M_upsert_service auth_user uuid uuid service_spec
  | M_update_service auth_user uuid uuid service_patch
  | M_delete_service auth_user uuid uuid
  | M_incidents auth_user uuid uuid
  | M_create_incident auth_user uuid uuid string string string string
  | M_update_incident auth_user uuid uuid incident_patch
  | M_delete_incident auth_user uuid uuid
  | M_training_run uuid string string jdict "string option" string string
  | M_scores uuid string "jdict list"
  | M_probe probe_row
  | M_aggregate uuid "time option"
  | M_overview auth_user uuid

fun mo_run :: "an_env \<Rightarrow> mo_call \<Rightarrow> unit mo_prog" where
  "mo_run env (M_create_page u t s ti de p) = ignore (create_page u t s ti de p)"
| "mo_run env (M_update_page u t p q) = ignore (update_page u t p q)"
| "mo_run env (M_delete_page u t p) = delete_page u t p"
| "mo_run env (M_pages u t) = ignore (list_pages (an_mo env) u t)"
| "mo_run env M_published = ignore (list_published_pages (an_mo env))"
| "mo_run env (M_public u s) = ignore (public_page (an_mo env) u s)"
| "mo_run env (M_services u t p) = ignore (list_services u t p)"
| "mo_run env (M_upsert_service u t p q) = ignore (upsert_service u t p q)"
| "mo_run env (M_update_service u t s q) = ignore (update_service u t s q)"
| "mo_run env (M_delete_service u t s) = delete_service u t s"
| "mo_run env (M_incidents u t p) = ignore (list_incidents u t p)"
| "mo_run env (M_create_incident u t p ti st se b) = ignore (create_incident u t p ti st se b)"
| "mo_run env (M_update_incident u t i q) = ignore (update_incident u t i q)"
| "mo_run env (M_delete_incident u t i) = delete_incident u t i"
| "mo_run env (M_training_run t f m ms a st v) = ignore (record_training_run (an_mo env) t f m ms a st v)"
| "mo_run env (M_scores t f rows) = ignore (persist_scores (an_mo env) t f rows)"
| "mo_run env (M_probe h) = stmt (record_probe h)"
| "mo_run env (M_aggregate t b) = ignore (aggregate_hour env t b)"
| "mo_run env (M_overview u t) = ignore (overview env u t)"

definition fresh_mo :: "mo_db \<Rightarrow> bool" where
  "fresh_mo d \<longleftrightarrow> status_pages d = [] \<and> status_services d = [] \<and> status_incidents d = []
     \<and> rows_of (probes d) = [] \<and> rows_of (rollups d) = []"

text \<open>The page of the platform itself is created by the operators, not through these calls.\<close>

definition platform_mo :: "mo_db \<Rightarrow> bool" where
  "platform_mo d \<longleftrightarrow> (\<exists>p d0. fresh_mo d0 \<and> sp_slug p = platform_status_slug \<and> d = d0\<lparr>status_pages := [p]\<rparr>)"

interpretation mos: service mo_inv mo_rely "mo_run env" "\<lambda>d. fresh_mo d \<or> platform_mo d" for env
proof
  show "safe mo_inv mo_rely (mo_run env c)" for c
    by (cases c)
      (simp_all add: safe_ignore safe_create_page safe_update_page safe_delete_page safe_list_pages safe_published
        safe_public_page safe_list_services safe_upsert_service safe_update_service safe_delete_service safe_list_incidents
        safe_create_incident safe_update_incident safe_delete_incident safe_record_training_run safe_persist_scores
        safe_probe safe_aggregate_hour safe_overview)
  show "0 \<le> t \<Longrightarrow> mo_inv d \<Longrightarrow> mo_rely d (elapse t d)" for t d
    by (rule mo_rely_frame [where es = "[]" and rs = "[]" and rs' = "[]"]) (simp_all add: elapse_def)
  have "status_slug_ok platform_status_slug" by code_simp
  then show "fresh_mo d \<or> platform_mo d \<Longrightarrow> mo_inv d" for d
    by (auto simp: fresh_mo_def platform_mo_def mo_inv_def pages_ok_def services_ok_def incidents_ok_def children_ok_def rollups_ok_def rows_of_def split: option.splits)
qed

abbreviation mo_reachable :: "an_env \<Rightarrow> mo_db \<Rightarrow> bool" where
  "mo_reachable env \<equiv> reachable (mo_run env) (\<lambda>d. fresh_mo d \<or> platform_mo d)"

end
