(* ===== verification/Status_Demo.thy ===== *)
theory Status_Demo
  imports Status_Safety
begin

section \<open>Status pages: a concrete history\<close>

text \<open>
  The platform page, a published page of a tenant with one service, a probe of it and a resolved
  incident, on which the witnesses evaluate.
\<close>

definition demo_mo_env :: mo_env where
  "demo_mo_env = \<lparr>mo_float = (\<lambda>_. None), mo_repr = (\<lambda>_. []), mo_refresh = secs 60, mo_model_version = ''v1''\<rparr>"

definition demo_an :: an_env where
  "demo_an = \<lparr>an_mo = demo_mo_env, an_text = (\<lambda>_. []), an_label = (\<lambda>_. ''00:00'')\<rparr>"

definition demo_keeper :: auth_user where "demo_keeper = \<lparr>au_user_id = ''u'', au_kind = USER, au_tenant_id = None, au_subprocessor = None, au_scopes = [],
     au_token_prefix = None, au_token_hash = None\<rparr>"

definition demo_mo_fresh :: mo_db where
  "demo_mo_fresh = \<lparr>now = secs 8640000, schema_ready = True,
     tenant_members = [\<lparr>tm_tenant = ''T'', tm_user = ''u'', tm_role = ''owner''\<rparr>], audit_events = [],
     crypto_sessions = [],
     telemetry = [], stream_results = [], dead_letters = [], checkpoints = [], advisory_locks = [],
     mo_tenants = [''D'', ''T'', ''V''],
     status_pages = [\<lparr>sp_id = ''P'', sp_tenant = ''D'', sp_slug = platform_status_slug, sp_title = ''Platform'',
       sp_description = [], sp_published = True, sp_created = 0, sp_updated = 0\<rparr>],
     status_services = [], status_incidents = [], probes = Some [], rollups = Some [], ml_scores = Some [],
     training_runs = Some [], threat_intel = [], incident_cases = []\<rparr>"

definition demo_mo_world :: "mo_db \<Rightarrow> string \<Rightarrow> (mo_db, unit) world" where
  "demo_mo_world d p = quiet_world d (\<lambda>_. ()) (\<lambda>n. p @ digits_of n)"

abbreviation demo_mo_call :: "mo_call \<Rightarrow> mo_db \<Rightarrow> string \<Rightarrow> mo_db" where
  "demo_mo_call c d p \<equiv> wdb (snd (mo_run demo_an c (demo_mo_world d p)))"

definition demo_page :: page_row where
  "demo_page = \<lparr>sp_id = ''p0'', sp_tenant = ''T'', sp_slug = ''acme'', sp_title = ''Acme'', sp_description = [],
     sp_published = True, sp_created = secs 8640000, sp_updated = secs 8640000\<rparr>"

definition demo_service :: service_row where
  "demo_service = \<lparr>ss_id = ''s0'', ss_page = ''p0'', ss_tenant = ''T'', ss_name = ''API'', ss_status = ''operational'',
     ss_description = [], ss_probe = None, ss_order = 0, ss_updated = secs 8640000\<rparr>"

definition demo_probe :: probe_row where
  "demo_probe = \<lparr>hp_service = ''s0'', hp_tenant = ''T'', hp_ms = 20, hp_active = True, hp_observed = secs 8630000\<rparr>"

definition demo_incident :: incident_row where
  "demo_incident = \<lparr>si_id = ''i0'', si_page = ''p0'', si_tenant = ''T'', si_title = ''Outage'', si_status = ''resolved'',
     si_severity = ''minor'', si_body = [], si_started = secs 8640000, si_resolved = Some (secs 8640000)\<rparr>"

definition demo_mo_page :: mo_db where
  "demo_mo_page = demo_mo_fresh\<lparr>status_pages := status_pages demo_mo_fresh @ [demo_page]\<rparr>"

definition demo_mo_service :: mo_db where
  "demo_mo_service = demo_mo_page\<lparr>status_services := [demo_service]\<rparr>"

definition demo_mo_probe :: mo_db where
  "demo_mo_probe = demo_mo_service\<lparr>probes := Some [demo_probe]\<rparr>"

definition demo_mo :: mo_db where
  "demo_mo = demo_mo_probe\<lparr>status_incidents := [demo_incident]\<rparr>"

definition demo_service_spec :: service_spec where
  "demo_service_spec = \<lparr>sn_name = ''API'', sn_status = ''operational'', sn_description = [], sn_probe = None, sn_order = 0\<rparr>"

lemma demo_mo_steps:
  "demo_mo_call (M_create_page demo_keeper ''T'' ''acme'' ''Acme'' [] True) demo_mo_fresh ''p'' = demo_mo_page"
  "demo_mo_call (M_upsert_service demo_keeper ''T'' ''p0'' demo_service_spec) demo_mo_page ''s'' = demo_mo_service"
  "demo_mo_call (M_probe demo_probe) demo_mo_service ''h'' = demo_mo_probe"
  "demo_mo_call (M_create_incident demo_keeper ''T'' ''p0'' ''Outage'' ''resolved'' ''minor'' []) demo_mo_probe ''i'' = demo_mo"
  by code_simp+

lemma demo_mo_reachable:
  "mo_reachable demo_an demo_mo_page" "mo_reachable demo_an demo_mo"
proof -
  have "fresh_mo (demo_mo_fresh\<lparr>status_pages := []\<rparr>)"
    by (simp add: fresh_mo_def demo_mo_fresh_def rows_of_def)
  then have "platform_mo demo_mo_fresh"
    unfolding platform_mo_def
    by (intro exI [of _ "hd (status_pages demo_mo_fresh)"] exI [of _ "demo_mo_fresh\<lparr>status_pages := []\<rparr>"])
      (simp add: demo_mo_fresh_def)
  then have "mo_reachable demo_an demo_mo_fresh" by (simp add: reachable.fresh)
  then show p: "mo_reachable demo_an demo_mo_page"
    unfolding demo_mo_steps(1) [symmetric] demo_mo_world_def by (rule reachable_quiet)
  have "mo_reachable demo_an demo_mo_service"
    unfolding demo_mo_steps(2) [symmetric] demo_mo_world_def by (rule reachable_quiet [OF p])
  then have "mo_reachable demo_an demo_mo_probe"
    unfolding demo_mo_steps(3) [symmetric] demo_mo_world_def by (rule reachable_quiet)
  then show "mo_reachable demo_an demo_mo"
    unfolding demo_mo_steps(4) [symmetric] demo_mo_world_def by (rule reachable_quiet)
qed

lemma demo_mo_worlds [simp]:
  "quiet (demo_mo_world d p)" "wdb (demo_mo_world d p) = d" "interfered (mo_run env) (demo_mo_world d p)"
  by (simp_all add: demo_mo_world_def)

lemma demo_mo_tables [simp]:
  "now demo_mo = secs 8640000" "status_pages demo_mo = [hd (status_pages demo_mo_fresh), demo_page]"
  "status_services demo_mo = [demo_service]" "status_incidents demo_mo = [demo_incident]" "probes demo_mo = Some [demo_probe]"
  "mo_tenants demo_mo = [''D'', ''T'', ''V'']"
  by (simp_all add: demo_mo_def demo_mo_probe_def demo_mo_service_def demo_mo_page_def demo_mo_fresh_def)

end
