(* ===== verification/Status_Properties.thy ===== *)
theory Status_Properties
  imports Status_Demo
begin

section \<open>Status pages: properties\<close>

subsection \<open>Uptime is a count of probes\<close>

lemma update_sum:
  fixes g :: "'v \<Rightarrow> int"
  shows "sum_list (map (g \<circ> snd) (AList.update k v al))
    = sum_list (map (g \<circ> snd) al) + g v - (case map_of al k of None \<Rightarrow> 0 | Some old \<Rightarrow> g old)"
  by (induction al) (auto split: option.splits)

lemma group_sizes:
  assumes "finite K"
  shows "(\<Sum>k \<in> K. length (filter (\<lambda>h. f h = k \<and> p h) hs)) = length (filter (\<lambda>h. f h \<in> K \<and> p h) hs)"
proof (induction hs)
  case (Cons h hs)
  have "(\<Sum>k \<in> K. length (filter (\<lambda>h. f h = k \<and> p h) (h # hs)))
      = (\<Sum>k \<in> K. length (filter (\<lambda>h. f h = k \<and> p h) hs) + (if f h = k \<and> p h then 1 else 0))"
    by (rule sum.cong) auto
  also have "\<dots> = length (filter (\<lambda>h. f h \<in> K \<and> p h) hs) + (\<Sum>k \<in> K. if f h = k \<and> p h then 1 else 0)"
    by (simp add: sum.distrib Cons.IH)
  also have "(\<Sum>k \<in> K. if f h = k \<and> p h then 1 else 0 :: nat) = (if f h \<in> K \<and> p h then 1 else 0)"
    using assms by (cases "p h") (auto simp: sum.delta')
  finally show ?case by auto
qed simp

definition chosen :: "uuid option \<Rightarrow> uuid \<Rightarrow> bool" where
  "chosen svc s \<longleftrightarrow> svc = None \<or> Some s = svc"

lemma merge_counts:
  "day_counts (merge_day_stats svc rows merged) day =
     (fst (day_counts merged day) + sum_list (map dy_active (filter (\<lambda>r. dy_day r = day \<and> chosen svc (dy_service r)) rows)),
      snd (day_counts merged day) + sum_list (map dy_total (filter (\<lambda>r. dy_day r = day \<and> chosen svc (dy_service r)) rows)))"
proof (induction rows arbitrary: merged)
  case (Cons r rows)
  have "day_counts (AList.update (dy_day r) c merged) day = (if day = dy_day r then c else day_counts merged day)" for c
    by (simp add: day_counts_def update_conv)
  with Cons.IH show ?case by (auto simp: chosen_def Let_def)
qed simp

lemma merge_totals:
  fixes g :: "int \<times> int \<Rightarrow> int"
  assumes add: "\<And>a b c d. 0 \<le> a \<Longrightarrow> 0 \<le> b \<Longrightarrow> 0 \<le> c \<Longrightarrow> 0 \<le> d \<Longrightarrow> g (a + c, b + d) = g (a, b) + g (c, d)"
    and zero: "g (0, 0) = 0"
    and rows: "\<forall>r \<in> set rows. 0 \<le> dy_active r \<and> 0 \<le> dy_total r"
    and merged: "\<forall>c \<in> set (map snd merged). 0 \<le> fst c \<and> 0 \<le> snd c"
  shows "sum_list (map (g \<circ> snd) (merge_day_stats svc rows merged))
    = sum_list (map (g \<circ> snd) merged) + sum_list (map (\<lambda>r. g (dy_active r, dy_total r)) (filter (\<lambda>r. chosen svc (dy_service r)) rows))"
  using rows merged
proof (induction rows arbitrary: merged)
  case (Cons r rows)
  show ?case
  proof (cases "chosen svc (dy_service r)")
    case False
    with Cons show ?thesis by (auto simp: chosen_def)
  next
    case True
    let ?c = "day_counts merged (dy_day r)"
    let ?m = "AList.update (dy_day r) (fst ?c + dy_active r, snd ?c + dy_total r) merged"
    have c: "0 \<le> fst ?c" "0 \<le> snd ?c"
      using Cons.prems(2) by (fastforce simp: day_counts_def split: option.split dest: map_of_SomeD)+
    have "set (map snd (AList.update (dy_day r) v merged)) \<subseteq> insert v (set (map snd merged))" for v
      by (induction merged) auto
    from this [of "(fst ?c + dy_active r, snd ?c + dy_total r)"] Cons.prems c have m: "\<forall>c \<in> set (map snd ?m). 0 \<le> fst c \<and> 0 \<le> snd c" by fastforce
    have "g (fst ?c + dy_active r, snd ?c + dy_total r) = g ?c + g (dy_active r, dy_total r)"
      using add [OF c, of "dy_active r" "dy_total r"] Cons.prems(1) by simp
    moreover have "(case map_of merged (dy_day r) of None \<Rightarrow> 0 | Some old \<Rightarrow> g old) = g ?c"
      by (simp add: day_counts_def zero split: option.split)
    ultimately have "sum_list (map (g \<circ> snd) ?m) = sum_list (map (g \<circ> snd) merged) + g (dy_active r, dy_total r)"
      by (simp add: update_sum)
    with Cons.IH [OF _ m] Cons.prems(1) True show ?thesis by (auto simp: chosen_def Let_def comp_def)
  qed
qed simp

text \<open>What the grouped rows of some observations add up to.\<close>

lemma day_rows_sum:
  assumes "\<And>s day. val (s, day) = int (length (filter (\<lambda>h. hp_service h = s \<and> day_of (hp_observed h) = day \<and> p h) hs))"
  shows "sum_list (map val (filter sel (sort_key snd (remdups (map (\<lambda>h. (hp_service h, day_of (hp_observed h))) hs)))))
    = int (length (filter (\<lambda>h. sel (hp_service h, day_of (hp_observed h)) \<and> p h) hs))"
proof -
  let ?k = "\<lambda>h. (hp_service h, day_of (hp_observed h))"
  let ?ks = "filter sel (sort_key snd (remdups (map ?k hs)))"
  have d: "distinct ?ks" by simp
  have set: "set ?ks = {k \<in> ?k ` set hs. sel k}" by auto
  have "sum_list (map val ?ks) = (\<Sum>k \<in> set ?ks. val k)" using sum_list_distinct_conv_sum_set [OF d] by simp
  also have "\<dots> = (\<Sum>k \<in> set ?ks. int (length (filter (\<lambda>h. ?k h = k \<and> p h) hs)))"
    by (rule sum.cong) (auto simp: assms intro!: arg_cong [where f = length] filter_cong)
  also have "\<dots> = int (\<Sum>k \<in> set ?ks. length (filter (\<lambda>h. ?k h = k \<and> p h) hs))" by simp
  also have "\<dots> = int (length (filter (\<lambda>h. ?k h \<in> set ?ks \<and> p h) hs))" by (simp only: group_sizes [OF finite_set])
  also have "filter (\<lambda>h. ?k h \<in> set ?ks \<and> p h) hs = filter (\<lambda>h. sel (?k h) \<and> p h) hs"
    by (rule filter_cong) (auto simp: set)
  finally show ?thesis .
qed

lemma day_rows_alt: "day_rows hs = map (\<lambda>k. \<lparr>dy_service = fst k, dy_day = snd k,
    dy_total = int (length (filter (\<lambda>h. hp_service h = fst k \<and> day_of (hp_observed h) = snd k) hs)),
    dy_active = int (length (filter (\<lambda>h. hp_service h = fst k \<and> day_of (hp_observed h) = snd k \<and> hp_active h) hs))\<rparr>)
  (sort_key snd (remdups (map (\<lambda>h. (hp_service h, day_of (hp_observed h))) hs)))"
  unfolding day_rows_def by (intro map_cong refl) (auto simp: Let_def conj_ac intro!: arg_cong [where f = length] filter_cong)

lemma day_rows_total:
  "sum_list (map dy_total (filter (\<lambda>r. sel (dy_service r, dy_day r)) (day_rows hs)))
    = int (length (filter (\<lambda>h. sel (hp_service h, day_of (hp_observed h))) hs))"
  unfolding day_rows_alt filter_map map_map comp_def
  by (subst day_rows_sum [where p = "\<lambda>_. True"]) simp_all

lemma day_rows_active:
  "sum_list (map dy_active (filter (\<lambda>r. sel (dy_service r, dy_day r)) (day_rows hs)))
    = int (length (filter (\<lambda>h. sel (hp_service h, day_of (hp_observed h)) \<and> hp_active h) hs))"
  unfolding day_rows_alt filter_map map_map comp_def
  by (subst day_rows_sum [where p = hp_active]) simp_all

text \<open>The reference: direct counts over observations.\<close>

definition up_count :: "probe_row list \<Rightarrow> int" where "up_count hs = int (length (filter hp_active hs))"

definition on_day :: "int \<Rightarrow> probe_row list \<Rightarrow> probe_row list" where
  "on_day day hs = filter (\<lambda>h. day_of (hp_observed h) = day) hs"

definition point_of :: "probe_row list \<Rightarrow> int \<Rightarrow> day_point" where
  "point_of hs day = (let g = on_day day hs in
     \<lparr>dp_day = day,
      dp_status = (if g = [] then ''no_data'' else if list_all hp_active g then ''up''
        else if list_all (\<lambda>h. \<not> hp_active h) g then ''down'' else ''partial''),
      dp_uptime = (if g = [] then None else Some (py_round 2 (100 * of_int (up_count g) / of_nat (length g))))\<rparr>)"

definition uptime_of :: "probe_row list \<Rightarrow> rat option" where
  "uptime_of hs = (if hs = [] then None else Some (py_round 2 (100 * of_int (up_count hs) / of_nat (length hs))))"

lemma up_count_bounds: "0 \<le> up_count hs \<and> up_count hs \<le> int (length hs)"
  by (simp add: up_count_def)

lemma up_count_all: "up_count hs = int (length hs) \<longleftrightarrow> list_all hp_active hs"
  by (simp add: up_count_def list_all_iff) (metis filter_id_conv length_filter_less less_irrefl)

lemma up_count_none: "up_count hs = 0 \<longleftrightarrow> list_all (\<lambda>h. \<not> hp_active h) hs"
  by (simp add: up_count_def list_all_iff filter_empty_conv)

lemma day_status_counts: "day_status (up_count g) (int (length g)) = (dp_status (point_of hs day), dp_uptime (point_of hs day))"
  if "g = on_day day hs"
  using that by (simp add: day_status_def point_of_def Let_def uptime_pct_def up_count_all up_count_none)

lemma merged_day:
  "day_counts (merge_day_stats svc (day_rows hs) []) day
    = (let g = on_day day (filter (\<lambda>h. chosen svc (hp_service h)) hs) in (up_count g, int (length g)))"
  using day_rows_active [of "\<lambda>k. snd k = day \<and> chosen svc (fst k)" hs]
    day_rows_total [of "\<lambda>k. snd k = day \<and> chosen svc (fst k)" hs]
  by (simp add: merge_counts day_counts_def [of "[]"] on_day_def up_count_def Let_def conj_ac)

lemma merged_history:
  "fill_uptime_history (merge_day_stats svc (day_rows hs) []) n today
    = map (\<lambda>k. point_of (filter (\<lambda>h. chosen svc (hp_service h)) hs) (today - int k)) (rev [0..<n])"
  unfolding fill_uptime_history_def
  by (intro map_cong refl) (simp add: merged_day Let_def day_status_counts [OF refl] point_of_def)

lemma day_rows_nonneg: "\<forall>r \<in> set (day_rows hs). 0 \<le> dy_active r \<and> 0 \<le> dy_total r"
  by (auto simp: day_rows_def Let_def)

lemma merged_uptime:
  "uptime_from_day_stats (merge_day_stats svc (day_rows hs) [])
    = uptime_of (filter (\<lambda>h. chosen svc (hp_service h)) hs)"
proof -
  let ?m = "merge_day_stats svc (day_rows hs) []" and ?hs = "filter (\<lambda>h. chosen svc (hp_service h)) hs"
  have "sum_list (map (\<lambda>(_, a, _). max a 0) ?m) = sum_list (map ((\<lambda>(a, b). max a 0) \<circ> snd) ?m)"
    by (simp add: comp_def case_prod_beta')
  also have "\<dots> = sum_list (map (\<lambda>r. max (dy_active r) 0) (filter (\<lambda>r. chosen svc (dy_service r)) (day_rows hs)))"
    by (subst merge_totals) (use day_rows_nonneg in auto)
  also have "\<dots> = sum_list (map dy_active (filter (\<lambda>r. chosen svc (dy_service r)) (day_rows hs)))"
    using day_rows_nonneg [of hs] by (intro arg_cong [where f = sum_list] map_cong) (auto simp: max_def)
  also have "\<dots> = up_count ?hs"
    using day_rows_active [of "\<lambda>k. chosen svc (fst k)" hs] by (simp add: up_count_def conj_ac)
  finally have a: "sum_list (map (\<lambda>(_, a, _). max a 0) ?m) = up_count ?hs" .
  have "sum_list (map (\<lambda>(_, _, t). max t 0) ?m) = sum_list (map ((\<lambda>(a, b). max b 0) \<circ> snd) ?m)"
    by (simp add: comp_def case_prod_beta')
  also have "\<dots> = sum_list (map (\<lambda>r. max (dy_total r) 0) (filter (\<lambda>r. chosen svc (dy_service r)) (day_rows hs)))"
    by (subst merge_totals) (use day_rows_nonneg in auto)
  also have "\<dots> = sum_list (map dy_total (filter (\<lambda>r. chosen svc (dy_service r)) (day_rows hs)))"
    using day_rows_nonneg [of hs] by (intro arg_cong [where f = sum_list] map_cong) (auto simp: max_def)
  also have "\<dots> = int (length ?hs)" using day_rows_total [of "\<lambda>k. chosen svc (fst k)" hs] by simp
  finally show ?thesis
    using a up_count_bounds [of ?hs] by (simp add: uptime_from_day_stats_def Let_def uptime_of_def uptime_pct_def min_absorb1)
qed

lemma uptime_of_bounds: "uptime_of hs = Some u \<Longrightarrow> 0 \<le> u \<and> u \<le> 100"
proof -
  assume "uptime_of hs = Some u"
  then have u: "u = py_round 2 (100 * of_int (up_count hs) / of_nat (length hs))" and n: "0 < length hs"
    by (auto simp: uptime_of_def split: if_splits)
  have "(of_int (up_count hs) :: rat) \<le> of_nat (length hs)"
    using up_count_bounds [of hs] by (metis of_int_le_iff of_int_of_nat_eq)
  then show ?thesis
    unfolding u using n up_count_bounds [of hs] by (intro py_round_pct) (simp_all add: field_simps)
qed

lemma point_of_alt: "dp_uptime (point_of hs day) = uptime_of (on_day day hs)"
  by (simp add: point_of_def uptime_of_def Let_def)

subsection \<open>Reading alone\<close>

lemma bind_read_clock: "bindM read_clock f w = f (now (wdb w)) w"
  by (simp add: bindM_def read_clock_def)

lemma bind_assoc: "bindM (bindM m f) g w = bindM m (\<lambda>a. bindM (f a) g) w"
  by (simp add: bindM_def split: prod.split sum.split)

lemma fetch_table_quiet: "quiet w \<Longrightarrow> fetch_table table q w =
    ((case table (wdb w) of None \<Rightarrow> Inl undefined_table | Some rs \<Rightarrow> Inr (q (wdb w) rs)), w)"
  by (simp add: fetch_table_def stmt_quiet split: option.split)

lemma bind_fetch_quiet: "quiet w \<Longrightarrow> bindM (fetch_table table q) f w =
    (case table (wdb w) of None \<Rightarrow> (Inl undefined_table, w) | Some rs \<Rightarrow> f (q (wdb w) rs) w)"
  by (simp add: bindM_def fetch_table_quiet split: option.split)

lemma catch_read: "snd (m w) = w \<Longrightarrow> catch m h w = (case fst (m w) of Inl e \<Rightarrow> h e w | Inr a \<Rightarrow> (Inr a, w))"
  by (cases "m w"; cases "fst (m w)") (auto simp: catch_def)

lemma kpis_quiet: "quiet w \<Longrightarrow> analytics_kpis_24h tenant w = (Inr (sum_list (map ag_requests
    (filter (\<lambda>r. ag_tenant r = tenant \<and> now (wdb w) - analytics_window \<le> ag_start r) (rows_of (rollups (wdb w)))))), w)"
  by (simp add: analytics_kpis_24h_def bind_read_clock catch_read fetch_table_quiet rows_of_def ret_def split: option.split)

definition window_probes :: "uuid \<Rightarrow> uuid list \<Rightarrow> mo_db \<Rightarrow> probe_row list" where
  "window_probes tenant services d =
     own_probes tenant services (now d - secs (86400 * int history_days)) (rows_of (probes d))"

definition of_service :: "uuid \<Rightarrow> probe_row list \<Rightarrow> probe_row list" where
  "of_service s hs = filter (\<lambda>h. hp_service h = s) hs"

definition history_of :: "int \<Rightarrow> probe_row list \<Rightarrow> day_point list" where
  "history_of today hs = map (\<lambda>k. point_of hs (today - int k)) (rev [0..<history_days])"

lemma chosen_simps: "filter (\<lambda>h. chosen None (hp_service h)) hs = hs"
  "filter (\<lambda>h. chosen (Some s) (hp_service h)) hs = of_service s hs"
  by (simp_all add: chosen_def of_service_def)

lemma telemetry_quiet:
  assumes w: "quiet w" and some: "probes (wdb w) \<noteq> None" "services \<noteq> []"
  shows "\<exists>tv. public_page_telemetry tenant services w = (Inr tv, w)
    \<and> tv_history tv = history_of (day_of (now (wdb w))) (window_probes tenant services (wdb w))
    \<and> tv_uptime tv = uptime_of (window_probes tenant services (wdb w))
    \<and> tv_service_history tv = map (\<lambda>s. (s, history_of (day_of (now (wdb w))) (of_service s (window_probes tenant services (wdb w))))) services
    \<and> tv_service_sla tv = map (\<lambda>s. (s, uptime_of (of_service s (window_probes tenant services (wdb w))))) services"
  using assms
  by (auto simp: public_page_telemetry_def probe_day_rollups_def probe_latency_24h_def bind_assoc bind_read_clock bind_fetch_quiet
      bindM_def [of "analytics_kpis_24h tenant"] kpis_quiet ret_def Let_def merged_history merged_uptime chosen_simps
      window_probes_def history_of_def rows_of_def)

text \<open>
  C31: Uptime is what was measured.  The figures of a page and of each of its services are direct counts
  over the probe observations of the page's tenant and services in the last 30 days: thirty
  consecutive days ending today, each without data, up, down or partial as its own probes say, and
  every percentage between 0 and 100.
\<close>

theorem uptime_counts_probes:
  assumes "quiet w" and "probes (wdb w) \<noteq> None" and "services \<noteq> []"
  shows "\<exists>tv. public_page_telemetry tenant services w = (Inr tv, w)
    \<and> tv_history tv = history_of (day_of (now (wdb w))) (window_probes tenant services (wdb w))
    \<and> tv_uptime tv = uptime_of (window_probes tenant services (wdb w))
    \<and> tv_service_history tv = map (\<lambda>s. (s, history_of (day_of (now (wdb w))) (of_service s (window_probes tenant services (wdb w))))) services
    \<and> tv_service_sla tv = map (\<lambda>s. (s, uptime_of (of_service s (window_probes tenant services (wdb w))))) services
    \<and> map dp_day (tv_history tv) = map (\<lambda>k. day_of (now (wdb w)) - 29 + int k) [0..<30]
    \<and> (\<forall>u \<in> set_option (tv_uptime tv) \<union> (\<Union>p \<in> set (tv_history tv). set_option (dp_uptime p)). 0 \<le> u \<and> u \<le> 100)"
proof -
  from telemetry_quiet [OF assms] obtain tv where tv: "public_page_telemetry tenant services w = (Inr tv, w)"
    "tv_history tv = history_of (day_of (now (wdb w))) (window_probes tenant services (wdb w))"
    "tv_uptime tv = uptime_of (window_probes tenant services (wdb w))"
    "tv_service_history tv = map (\<lambda>s. (s, history_of (day_of (now (wdb w))) (of_service s (window_probes tenant services (wdb w))))) services"
    "tv_service_sla tv = map (\<lambda>s. (s, uptime_of (of_service s (window_probes tenant services (wdb w))))) services"
    by blast
  have "map dp_day (history_of today hs) = map (\<lambda>k. today - 29 + int k) [0..<30]" for today hs
    by (simp add: history_of_def history_days_def point_of_def Let_def comp_def numeral_eq_Suc upt_rec)
  moreover have "0 \<le> u \<and> u \<le> 100" if "p \<in> set (history_of today hs)" "dp_uptime p = Some u" for p u today hs
    using that by (auto simp: history_of_def point_of_alt dest: uptime_of_bounds)
  moreover note uptime_of_bounds
  ultimately show ?thesis using tv by (intro exI [of _ tv]) auto
qed

subsection \<open>Green needs evidence\<close>

lemma max_by_ge: "\<forall>y \<in> set (x # xs). f y \<le> f (max_by f x xs)"
proof (induction xs arbitrary: x)
  case (Cons a xs)
  show ?case using Cons.IH [of x] Cons.IH [of a] by auto
qed simp

lemma status_rank_0: "status_rank s = 0 \<longleftrightarrow> s = ''operational''"
  by (simp add: status_rank_def)

lemma honest_operational:
  assumes "honest_overall_status ss samples = ''operational''"
  shows "samples \<and> ss \<noteq> [] \<and> (\<forall>s \<in> set ss. s = ''operational'')"
proof -
  from assms have "overall_status ss = ''operational''" and samples
    by (auto simp: honest_overall_status_def Let_def split: if_splits)
  moreover from this(1) obtain s rest where "ss = s # rest" "max_by status_rank s rest = ''operational''"
    by (cases ss) (auto simp: overall_status_def)
  moreover from this(2) max_by_ge [of s rest status_rank] have "\<forall>y \<in> set (s # rest). status_rank y = 0"
    by (auto simp: status_rank_def [of "''operational''"])
  ultimately show ?thesis by (auto simp: status_rank_0)
qed

lemma bind_InrD: "bindM m f w = (Inr b, w') \<Longrightarrow> \<exists>a w1. m w = (Inr a, w1) \<and> f a w1 = (Inr b, w')"
  by (auto simp: bindM_def split: prod.splits sum.splits)

lemma set_in_order [simp]: "set (in_order ss) = set ss"
  by (simp add: in_order_def)

lemma in_order_Nil [simp]: "in_order ss = [] \<longleftrightarrow> ss = []"
  by (simp add: in_order_def sort_key_Nil_iff)

text \<open>
  C32: A page never claims to be operational without evidence: if its overall status is operational then
  it has services, all of them are operational, and a probe of one of them, of the page's own tenant,
  was observed within the last 30 days.
\<close>

theorem green_is_evidenced:
  assumes w: "quiet w" and run: "hydrate_public_page env include_tenant detail p w = (Inr v, w')"
    and green: "pg_overall v = ''operational''"
  shows "services_of (sp_tenant p) (sp_id p) (wdb w) \<noteq> []
    \<and> (\<forall>s \<in> set (services_of (sp_tenant p) (sp_id p) (wdb w)). ss_status s = ''operational'')
    \<and> (\<exists>h \<in> set (rows_of (probes (wdb w))). hp_tenant h = sp_tenant p
        \<and> hp_service h \<in> ss_id ` set (services_of (sp_tenant p) (sp_id p) (wdb w))
        \<and> now (wdb w) - secs (86400 * 30) \<le> hp_observed h)"
proof -
  let ?rows = "in_order (services_of (sp_tenant p) (sp_id p) (wdb w))"
  from run w obtain tv w1 i w2 where tv: "public_page_telemetry (sp_tenant p) (map ss_id ?rows) w = (Inr tv, w1)"
    and i: "public_page_intelligence env (sp_tenant p) w1 = (Inr i, w2)"
    and v: "pg_overall v = honest_overall_status (map ss_status ?rows) (tv_uptime tv \<noteq> None)"
    unfolding hydrate_public_page_def Let_def bind_query_quiet [OF w]
    by (force dest!: bind_InrD simp: ret_def query_def split: if_splits dest: sym)
  from honest_operational [OF v [symmetric, unfolded green]]
  have ss: "tv_uptime tv \<noteq> None" "?rows \<noteq> []" "\<forall>s \<in> set ?rows. ss_status s = ''operational''" by auto
  have "probes (wdb w) \<noteq> None"
    using tv ss(2) w by (auto simp: public_page_telemetry_def probe_day_rollups_def bind_assoc bind_read_clock bind_fetch_quiet Let_def
        split: option.splits)
  with telemetry_quiet [OF w, of "map ss_id ?rows" "sp_tenant p"] tv ss(2)
  have "tv_uptime tv = uptime_of (window_probes (sp_tenant p) (map ss_id ?rows) (wdb w))" by auto
  with ss(1) have "window_probes (sp_tenant p) (map ss_id ?rows) (wdb w) \<noteq> []" by (auto simp: uptime_of_def)
  then obtain h where "h \<in> set (window_probes (sp_tenant p) (map ss_id ?rows) (wdb w))" by (meson last_in_set)
  with ss show ?thesis by (auto simp: window_probes_def own_probes_def history_days_def)
qed

subsection \<open>A page shows its own tenant's data\<close>

text \<open>Two databases that agree on the rows of one tenant.\<close>

definition agree_on :: "uuid \<Rightarrow> mo_db \<Rightarrow> mo_db \<Rightarrow> bool" where
  "agree_on t d d' \<longleftrightarrow> now d' = now d
     \<and> filter (\<lambda>s. ss_tenant s = t) (status_services d') = filter (\<lambda>s. ss_tenant s = t) (status_services d)
     \<and> filter (\<lambda>i. si_tenant i = t) (status_incidents d') = filter (\<lambda>i. si_tenant i = t) (status_incidents d)
     \<and> map_option (filter (\<lambda>h. hp_tenant h = t)) (probes d') = map_option (filter (\<lambda>h. hp_tenant h = t)) (probes d)
     \<and> map_option (filter (\<lambda>r. ag_tenant r = t)) (rollups d') = map_option (filter (\<lambda>r. ag_tenant r = t)) (rollups d)
     \<and> map_option (filter (\<lambda>r. ml_tenant r = t)) (ml_scores d') = map_option (filter (\<lambda>r. ml_tenant r = t)) (ml_scores d)
     \<and> map_option (filter (\<lambda>r. tr_tenant r = t)) (training_runs d') = map_option (filter (\<lambda>r. tr_tenant r = t)) (training_runs d)"

text \<open>A program that only reads, and only the rows of one tenant.\<close>

definition reads :: "uuid \<Rightarrow> 'a mo_prog \<Rightarrow> bool" where
  "reads t m \<longleftrightarrow> (\<forall>w w'. quiet w \<longrightarrow> quiet w' \<longrightarrow> agree_on t (wdb w) (wdb w') \<longrightarrow>
     fst (m w') = fst (m w) \<and> snd (m w) = w \<and> snd (m w') = w')"

named_theorems reads_intros "programs that read the rows of one tenant"

lemma reads_ret [reads_intros]: "reads t (ret a)"
  by (simp add: reads_def ret_def)

lemma reads_raise [reads_intros]: "reads t (raise e)"
  by (simp add: reads_def raise_def)

lemma reads_clock [reads_intros]: "reads t read_clock"
  by (simp add: reads_def read_clock_def agree_on_def)

lemma reads_bind [reads_intros]: "reads t m \<Longrightarrow> (\<And>a. reads t (f a)) \<Longrightarrow> reads t (bindM m f)"
  unfolding reads_def by (auto simp: bind_read split: sum.split)

lemma reads_catch [reads_intros]: "reads t m \<Longrightarrow> (\<And>e. reads t (h e)) \<Longrightarrow> reads t (catch m h)"
  unfolding reads_def by (auto simp: catch_read split: sum.split)

lemma reads_if [reads_intros]: "reads t m \<Longrightarrow> reads t m' \<Longrightarrow> reads t (if b then m else m')"
  by simp

lemma reads_query:
  assumes "\<And>d d'. agree_on t d d' \<Longrightarrow> q d' = q d"
  shows "reads t (query q)"
  using assms by (simp add: reads_def query_quiet)

text \<open>A query on a table that looks at the tenant's rows only.\<close>

lemma reads_fetch:
  assumes "\<And>d d'. agree_on t d d' \<Longrightarrow> map_option (filter sel) (table d') = map_option (filter sel) (table d)"
    and "\<And>d d' rs rs'. agree_on t d d' \<Longrightarrow> filter sel rs' = filter sel rs \<Longrightarrow> q d' rs' = q d rs"
  shows "reads t (fetch_table table q)"
  unfolding reads_def
proof (intro allI impI)
  fix w w' :: "(mo_db, unit) world"
  assume "quiet w" "quiet w'" and ag: "agree_on t (wdb w) (wdb w')"
  with assms(1) [OF ag] assms(2) [OF ag]
  show "fst (fetch_table table q w') = fst (fetch_table table q w) \<and> snd (fetch_table table q w) = w \<and> snd (fetch_table table q w') = w'"
    by (cases "table (wdb w)"; cases "table (wdb w')") (auto simp: fetch_table_quiet)
qed

lemma filter_by_sel: "filter sel rs' = filter sel rs \<Longrightarrow> (\<And>r. p r \<Longrightarrow> sel r) \<Longrightarrow> filter p rs' = filter p rs"
proof -
  assume e: "filter sel rs' = filter sel rs" and "\<And>r. p r \<Longrightarrow> sel r"
  then have "filter p xs = filter p (filter sel xs)" for xs by (auto simp: filter_filter intro: filter_cong)
  from this [of rs'] this [of rs] e show ?thesis by simp
qed

lemma agree_tables:
  assumes "agree_on t d d'"
  shows "now d' = now d" "map_option (filter (\<lambda>h. hp_tenant h = t)) (probes d') = map_option (filter (\<lambda>h. hp_tenant h = t)) (probes d)"
    "map_option (filter (\<lambda>r. ag_tenant r = t)) (rollups d') = map_option (filter (\<lambda>r. ag_tenant r = t)) (rollups d)"
    "map_option (filter (\<lambda>r. ml_tenant r = t)) (ml_scores d') = map_option (filter (\<lambda>r. ml_tenant r = t)) (ml_scores d)"
    "map_option (filter (\<lambda>r. tr_tenant r = t)) (training_runs d') = map_option (filter (\<lambda>r. tr_tenant r = t)) (training_runs d)"
    "services_of t page d' = services_of t page d"
    "filter (\<lambda>i. si_page i = page \<and> si_tenant i = t) (status_incidents d') = filter (\<lambda>i. si_page i = page \<and> si_tenant i = t) (status_incidents d)"
  using assms unfolding agree_on_def services_of_def
  by (auto elim!: filter_by_sel)

lemma reads_probes:
  assumes "\<And>rs rs'. filter (\<lambda>h. hp_tenant h = t) rs' = filter (\<lambda>h. hp_tenant h = t) rs \<Longrightarrow> q rs' = q rs"
  shows "reads t (fetch_table probes (\<lambda>_. q))"
  by (rule reads_fetch [OF agree_tables(2)]) (auto intro: assms)

lemma reads_rollups:
  assumes "\<And>rs rs'. filter (\<lambda>h. ag_tenant h = t) rs' = filter (\<lambda>h. ag_tenant h = t) rs \<Longrightarrow> q rs' = q rs"
  shows "reads t (fetch_table rollups (\<lambda>_. q))"
  by (rule reads_fetch [OF agree_tables(3)]) (auto intro: assms)

lemma reads_scores:
  assumes "\<And>rs rs'. filter (\<lambda>h. ml_tenant h = t) rs' = filter (\<lambda>h. ml_tenant h = t) rs \<Longrightarrow> q rs' = q rs"
  shows "reads t (fetch_table ml_scores (\<lambda>_. q))"
  by (rule reads_fetch [OF agree_tables(4)]) (auto intro: assms)

lemma reads_runs:
  assumes "\<And>rs rs'. filter (\<lambda>h. tr_tenant h = t) rs' = filter (\<lambda>h. tr_tenant h = t) rs \<Longrightarrow> q rs' = q rs"
  shows "reads t (fetch_table training_runs (\<lambda>_. q))"
  by (rule reads_fetch [OF agree_tables(5)]) (auto intro: assms)

lemma own_probes_sel: "filter (\<lambda>h. hp_tenant h = t) rs' = filter (\<lambda>h. hp_tenant h = t) rs \<Longrightarrow>
    own_probes t services since rs' = own_probes t services since rs"
  unfolding own_probes_def by (erule filter_by_sel) simp

lemma reads_telemetry: "reads t (public_page_telemetry t services)"
  unfolding public_page_telemetry_def probe_day_rollups_def probe_latency_24h_def analytics_kpis_24h_def Let_def
proof (intro reads_intros reads_probes reads_rollups)
  fix rs rs' :: "probe_row list" and since
  assume "filter (\<lambda>h. hp_tenant h = t) rs' = filter (\<lambda>h. hp_tenant h = t) rs"
  note own_probes_sel [OF this]
  then show "day_rows (own_probes t services since rs') = day_rows (own_probes t services since rs)"
    and "map (\<lambda>s. latency_of (Some s) (filter (\<lambda>h. hp_service h = s) (own_probes t services since rs')))
        (remdups (map hp_service (own_probes t services since rs'))) @ [latency_of None (own_probes t services since rs')]
      = map (\<lambda>s. latency_of (Some s) (filter (\<lambda>h. hp_service h = s) (own_probes t services since rs)))
        (remdups (map hp_service (own_probes t services since rs))) @ [latency_of None (own_probes t services since rs)]"
    by simp_all
next
  fix rs rs' :: "rollup_row list" and n
  assume "filter (\<lambda>h. ag_tenant h = t) rs' = filter (\<lambda>h. ag_tenant h = t) rs"
  then have "filter (\<lambda>r. ag_tenant r = t \<and> n - analytics_window \<le> ag_start r) rs'
      = filter (\<lambda>r. ag_tenant r = t \<and> n - analytics_window \<le> ag_start r) rs"
    by (rule filter_by_sel) simp
  then show "sum_list (map ag_requests (filter (\<lambda>r. ag_tenant r = t \<and> n - analytics_window \<le> ag_start r) rs'))
      = sum_list (map ag_requests (filter (\<lambda>r. ag_tenant r = t \<and> n - analytics_window \<le> ag_start r) rs))"
    by simp
qed

lemma reads_scores_of: "reads t (list_recent_scores t family limit)"
  unfolding list_recent_scores_def
  by (rule reads_scores, rule arg_cong [where f = "\<lambda>xs. take limit (newest ml_created xs)"], erule filter_by_sel) simp

lemma reads_list [reads_intros]: "reads t m \<Longrightarrow> (\<And>x xs. reads t (f x xs)) \<Longrightarrow> reads t (case xs of [] \<Rightarrow> m | x # xs \<Rightarrow> f x xs)"
  by (cases xs) simp_all

lemma reads_newest_runs:
  assumes "\<And>r. p r \<Longrightarrow> tr_tenant r = t"
  shows "reads t (fetch_table training_runs (\<lambda>_ rs. take n (newest tr_created (filter p rs))))"
  by (rule reads_runs, rule arg_cong [where f = "\<lambda>xs. take n (newest tr_created xs)"], erule filter_by_sel) (rule assms)

lemma reads_predicted: "reads t (latest_predicted_sla env t)"
  unfolding latest_predicted_sla_def
  by (rule reads_bind, rule reads_catch, rule reads_newest_runs, simp)
    (auto intro!: reads_intros)

lemma reads_temporal: "reads t (latest_temporal_signal env t)"
  unfolding latest_temporal_signal_def Let_def
  by (rule reads_bind [OF reads_scores_of], rule reads_list, rule reads_bind, rule reads_newest_runs, simp, rule reads_list)
    (auto intro!: reads_intros split: json.split sum.split)

lemma reads_intelligence: "reads t (public_page_intelligence env t)"
  unfolding public_page_intelligence_def
proof (intro reads_intros reads_temporal reads_predicted reads_scores_of reads_rollups)
  fix rs rs' :: "rollup_row list" and n
  assume "filter (\<lambda>h. ag_tenant h = t) rs' = filter (\<lambda>h. ag_tenant h = t) rs"
  then have "filter (\<lambda>r. ag_tenant r = t \<and> n - analytics_window \<le> ag_start r) rs'
      = filter (\<lambda>r. ag_tenant r = t \<and> n - analytics_window \<le> ag_start r) rs"
    by (rule filter_by_sel) simp
  then show "sum_list (map ag_threats (take 48 (newest ag_start (filter (\<lambda>r. ag_tenant r = t \<and> n - analytics_window \<le> ag_start r) rs'))))
      = sum_list (map ag_threats (take 48 (newest ag_start (filter (\<lambda>r. ag_tenant r = t \<and> n - analytics_window \<le> ag_start r) rs))))"
    by simp
qed (auto intro!: reads_intros reads_predicted split: prod.split)

text \<open>
  C30: Tenant isolation of the public pages.  What a published page shows, with its services, incidents,
  uptime, latency, scores, forecasts and threat counts, is determined by the rows of its own tenant:
  in any two databases that agree on these the page is the same, whatever the other tenants' rows are.
\<close>

theorem page_isolated:
  assumes "quiet w" and "quiet w'" and "agree_on (sp_tenant p) (wdb w) (wdb w')"
  shows "fst (hydrate_public_page env include_tenant detail p w') = fst (hydrate_public_page env include_tenant detail p w)"
proof -
  have "reads (sp_tenant p) (hydrate_public_page env include_tenant detail p)"
    unfolding hydrate_public_page_def Let_def
    by (intro reads_intros reads_telemetry reads_intelligence reads_query) (simp_all add: agree_tables)
  with assms show ?thesis unfolding reads_def by blast
qed

subsection \<open>The public address\<close>

lemma bind_cases: "bindM m f w = (r, w') \<Longrightarrow>
    (\<exists>e. m w = (Inl e, w') \<and> r = Inl e) \<or> (\<exists>a w1. m w = (Inr a, w1) \<and> f a w1 = (r, w'))"
  by (auto simp: bindM_def split: prod.splits sum.splits)

lemma each_InrD: "each f xs w = (Inr ys, w') \<Longrightarrow> y \<in> set ys \<Longrightarrow> \<exists>x w1 w2. x \<in> set xs \<and> f x w1 = (Inr y, w2)"
proof (induction xs arbitrary: w ys)
  case (Cons x xs)
  from Cons.prems(1) obtain z w1 zs where "f x w = (Inr z, w1)" "each f xs w1 = (Inr zs, w')" "ys = z # zs"
    by (auto simp: ret_def dest!: bind_InrD)
  with Cons.IH Cons.prems(2) show ?case by (metis list.set_intros set_ConsD)
qed (simp add: ret_def)

lemma hydrate_tenant: "hydrate_public_page env include_tenant detail p w = (Inr v, w') \<Longrightarrow>
    pg_tenant v = (if include_tenant then Some (sp_tenant p) else None) \<and> pg_page v = public_page_dict p
      \<and> (\<forall>s \<in> set (pg_services v). vs_probe s = None)"
  by (auto simp: hydrate_public_page_def Let_def ret_def enrich_service_def dest!: bind_InrD split: if_splits)

lemma by_candidates_quiet:
  assumes "quiet w"
  shows "\<exists>found. published_by_candidates cs w = (Inr found, w)
    \<and> (case found of Some p \<Rightarrow> p \<in> set (status_pages (wdb w)) \<and> sp_published p \<and> sp_slug p \<in> set cs
       | None \<Rightarrow> \<forall>p \<in> set (status_pages (wdb w)). sp_published p \<longrightarrow> sp_slug p \<notin> set cs)"
proof (induction cs)
  case (Cons c cs)
  show ?case
  proof (cases "first_row (\<lambda>p. sp_slug p = c \<and> sp_published p) (status_pages (wdb w))")
    case None
    from this [unfolded first_row_None_iff] have "\<forall>p \<in> set (status_pages (wdb w)). sp_published p \<longrightarrow> sp_slug p \<noteq> c" by blast
    with Cons.IH None assms show ?thesis by (auto simp: bind_query_quiet split: option.splits)
  next
    case (Some p)
    with first_row_SomeD [OF Some] assms show ?thesis by (auto simp: bind_query_quiet ret_def)
  qed
qed (simp add: ret_def)

lemma by_prefix_quiet:
  assumes "quiet w"
  shows "published_by_prefix prefix w = (Inr (case filter (\<lambda>p. sp_published p
      \<and> (sp_slug p = prefix \<or> py_startswith (sp_slug p) (prefix @ ''-''))) (status_pages (wdb w)) of [p] \<Rightarrow> Some p | _ \<Rightarrow> None), w)"
proof -
  have "(case take 2 xs of [p] \<Rightarrow> Some p | _ \<Rightarrow> None) = (case xs of [p] \<Rightarrow> Some p | _ \<Rightarrow> None)" for xs :: "page_row list"
    by (cases xs; cases "tl xs") (auto simp: numeral_2_eq_2 split: list.split)
  with assms show ?thesis by (simp add: published_by_prefix_def bind_query_quiet ret_def)
qed

end
