(* ===== verification/Status_Contracts.thy ===== *)
theory Status_Contracts
  imports Status_Properties
begin

section \<open>Status pages: the public address, the tables and the move\<close>

subsection \<open>What the public learns\<close>



subsection \<open>Finding a page\<close>

lemma candidates_text: "status_slug_ok (py_lower (py_strip raw)) \<Longrightarrow> \<exists>cs. public_slug_candidates raw = py_lower (py_strip raw) # cs"
  by (auto simp: public_slug_candidates_def Let_def add_candidate_def status_slug_ok_def label_match_def split: option.split)

definition prefix_page :: "string \<Rightarrow> page_row \<Rightarrow> bool" where
  "prefix_page x p \<longleftrightarrow> sp_published p \<and> (sp_slug p = x \<or> py_startswith (sp_slug p) (x @ ''-''))"

text \<open>
  The public lookup.  A published page with the (normalised) address asked for is found; what is found
  is a published page whose slug is a candidate for the address, or the only one with its prefix; and
  when nothing is found no published page has a candidate slug.
\<close>

theorem published_lookup:
  assumes w: "quiet w" and reach: "mo_reachable env (wdb w)"
  shows "\<exists>r. find_published slug w = (Inr r, w)
    \<and> (case r of
        Some p \<Rightarrow> p \<in> set (status_pages (wdb w)) \<and> sp_published p \<and> (sp_slug p \<in> set (public_slug_candidates slug)
          \<or> (\<exists>x. public_slug_prefix slug = Some x \<and> prefix_page x p
               \<and> (\<forall>q \<in> set (status_pages (wdb w)). prefix_page x q \<longrightarrow> q = p)))
      | None \<Rightarrow> (\<forall>p \<in> set (status_pages (wdb w)). sp_published p \<longrightarrow> sp_slug p \<notin> set (public_slug_candidates slug)))
    \<and> (\<forall>p \<in> set (status_pages (wdb w)). sp_published p \<and> sp_slug p = py_lower (py_strip slug) \<longrightarrow> r = Some p)"
proof -
  let ?ps = "status_pages (wdb w)"
  from mos.reachable_inv [OF reach] have inv: "pages_ok ?ps" by (simp add: mo_inv_def)
  from by_candidates_quiet [OF w] obtain found where found: "published_by_candidates (public_slug_candidates slug) w = (Inr found, w)"
    and isr: "case found of Some p \<Rightarrow> p \<in> set ?ps \<and> sp_published p \<and> sp_slug p \<in> set (public_slug_candidates slug)
       | None \<Rightarrow> \<forall>p \<in> set ?ps. sp_published p \<longrightarrow> sp_slug p \<notin> set (public_slug_candidates slug)" by blast
  have exact: "found = Some p" if p: "p \<in> set ?ps" "sp_published p" "sp_slug p = py_lower (py_strip slug)" for p
  proof -
    from inv p have "status_slug_ok (py_lower (py_strip slug))" by (auto simp: pages_ok_def)
    from candidates_text [OF this] obtain cs where cs: "public_slug_candidates slug = sp_slug p # cs" using p(3) by auto
    from p inv have "first_row (\<lambda>q. sp_slug q = sp_slug p \<and> sp_published q) ?ps = Some p"
      by (intro first_row_unique) (auto simp: pages_ok_def dest: distinct_map_eqD)
    with found w show ?thesis by (simp add: cs bind_query_quiet ret_def)
  qed
  show ?thesis
  proof (cases found)
    case (Some p)
    with found isr exact show ?thesis by (intro exI [of _ found]) (auto simp: find_published_def bindM_def ret_def)
  next
    case None
    note run = found [unfolded None]
    show ?thesis
    proof (cases "public_slug_prefix slug")
      case N: None
      with run isr exact None show ?thesis by (intro exI [of _ None]) (auto simp: find_published_def bindM_def ret_def)
    next
      case (Some x)
      define r where "r = (case filter (prefix_page x) ?ps of [p] \<Rightarrow> Some p | _ \<Rightarrow> None)"
      have found': "find_published slug w = (Inr r, w)"
        using run Some by (simp add: r_def find_published_def bindM_def by_prefix_quiet [OF w] prefix_page_def [abs_def])
      have only: "p \<in> set ?ps \<and> prefix_page x p \<and> (\<forall>q \<in> set ?ps. prefix_page x q \<longrightarrow> q = p)" if "r = Some p" for p
      proof -
        from that have "filter (prefix_page x) ?ps = [p]" by (auto simp: r_def split: list.splits)
        then have "{q \<in> set ?ps. prefix_page x q} = {p}" by (metis set_filter list.set(1) list.set(2))
        then show ?thesis by blast
      qed
      have missed: "\<forall>p \<in> set ?ps. sp_published p \<longrightarrow> sp_slug p \<notin> set (public_slug_candidates slug)"
        using isr None by simp
      have hit: "\<forall>p \<in> set ?ps. sp_published p \<and> sp_slug p = py_lower (py_strip slug) \<longrightarrow> r = Some p"
        using exact None by blast
      have pub: "prefix_page x p \<Longrightarrow> sp_published p" for p by (simp add: prefix_page_def)
      have "case r of
          Some p \<Rightarrow> p \<in> set ?ps \<and> sp_published p \<and> (sp_slug p \<in> set (public_slug_candidates slug)
            \<or> (\<exists>x. public_slug_prefix slug = Some x \<and> prefix_page x p \<and> (\<forall>q \<in> set ?ps. prefix_page x q \<longrightarrow> q = p)))
        | None \<Rightarrow> \<forall>p \<in> set ?ps. sp_published p \<longrightarrow> sp_slug p \<notin> set (public_slug_candidates slug)"
      proof (cases r)
        case N: None
        show ?thesis unfolding N option.case by (rule missed)
      next
        case S: (Some p)
        from only [OF S] pub Some show ?thesis unfolding S option.case by blast
      qed
      with found' hit show ?thesis by blast
    qed
  qed
qed

subsection \<open>The tables\<close>

text \<open>
  The tables of the status pages are consistent in every reachable database: slugs are valid and name
  one page; services, incidents and probe observations belong to a page or service of their own tenant;
  statuses and severities are the known ones; an incident is resolved exactly when it has a time of
  resolution.
\<close>

theorem status_tables_consistent:
  assumes "mo_reachable env d"
  shows "(\<forall>p \<in> set (status_pages d). status_slug_ok (sp_slug p)
        \<and> (\<forall>q \<in> set (status_pages d). sp_slug q = sp_slug p \<or> sp_id q = sp_id p \<longrightarrow> q = p))
    \<and> (\<forall>s \<in> set (status_services d). ss_status s \<in> set service_statuses
        \<and> (\<exists>p \<in> set (status_pages d). sp_id p = ss_page s \<and> sp_tenant p = ss_tenant s))
    \<and> (\<forall>i \<in> set (status_incidents d). si_status i \<in> set incident_statuses \<and> si_severity i \<in> set incident_severities
        \<and> (si_status i = ''resolved'' \<longleftrightarrow> si_resolved i \<noteq> None)
        \<and> (\<exists>p \<in> set (status_pages d). sp_id p = si_page i \<and> sp_tenant p = si_tenant i))
    \<and> (\<forall>h \<in> set (rows_of (probes d)). \<exists>s \<in> set (status_services d). ss_id s = hp_service h \<and> ss_tenant s = hp_tenant h)"
proof -
  from mos.reachable_inv [OF assms] have "pages_ok (status_pages d)" "services_ok (status_services d)"
    "incidents_ok (status_incidents d)" "children_ok d" by (simp_all add: mo_inv_def)
  then show ?thesis
    by (auto simp: pages_ok_def services_ok_def incidents_ok_def incident_ok_def incident_checks_def children_ok_def
        page_exists_def page_of_def service_of_def list_all_iff list_ex_iff rows_of_def
        dest: distinct_map_eqD split: option.splits)
qed

text \<open>
  What no call does.  Whatever the other workers do in between, no call creates, changes or removes the
  page of the platform, or gives another page its slug; scores and training runs are only added.
\<close>

theorem platform_page_immutable:
  assumes "mo_reachable env (wdb w)" and "interfered (mo_run env) w"
  shows "platform_pages (wdb (snd (mo_run env c w))) = platform_pages (wdb w)
    \<and> (\<exists>rs. rows_of (ml_scores (wdb (snd (mo_run env c w)))) = rows_of (ml_scores (wdb w)) @ rs)
    \<and> (\<exists>rs. rows_of (training_runs (wdb (snd (mo_run env c w)))) = rows_of (training_runs (wdb w)) @ rs)"
  using mos.reachable_step [OF assms, of c] mos.reachable_inv [OF assms(1)] by (simp add: mo_rely_def)

subsection \<open>Moving a page\<close>




subsection \<open>Concrete instances\<close>

lemma demo_probes_in_window: "window_probes ''T'' [''s0''] demo_mo = [demo_probe]"
  by (simp add: window_probes_def own_probes_def rows_of_def demo_probe_def history_days_def secs_def)

theorem uptime_counts_probes_witness:
  "\<exists>tv. public_page_telemetry ''T'' [''s0''] (demo_mo_world demo_mo ''x'') = (Inr tv, demo_mo_world demo_mo ''x'')
    \<and> tv_uptime tv = Some 100"
proof -
  have "uptime_of [demo_probe] = Some 100"
    by (simp add: uptime_of_def up_count_def demo_probe_def py_round_int [of 2 100, simplified])
  then show ?thesis
    using uptime_counts_probes [of "demo_mo_world demo_mo ''x''" "[''s0'']" "''T''"] by (auto simp: demo_probes_in_window)
qed

lemma demo_hydrated:
  "case hydrate_public_page demo_mo_env False True demo_page (demo_mo_world demo_mo ''x'') of
     (Inl e, w) \<Rightarrow> False | (Inr v, w) \<Rightarrow> pg_overall v = ''operational''"
  by code_simp

theorem green_is_evidenced_witness:
  "\<exists>h \<in> set (rows_of (probes demo_mo)). hp_tenant h = ''T'' \<and> secs (8640000 - 86400 * 30) \<le> hp_observed h"
proof -
  from demo_hydrated obtain v w' where "hydrate_public_page demo_mo_env False True demo_page (demo_mo_world demo_mo ''x'') = (Inr v, w')"
    "pg_overall v = ''operational''" by (auto split: prod.splits sum.splits)
  from green_is_evidenced [OF demo_mo_worlds(1) this] show ?thesis
    by (auto simp: demo_page_def secs_def)
qed

theorem page_isolated_witness:
  "fst (hydrate_public_page demo_mo_env True True demo_page
       (demo_mo_world (demo_mo\<lparr>status_services := demo_service\<lparr>ss_tenant := ''D''\<rparr> # status_services demo_mo\<rparr>) ''x''))
   = fst (hydrate_public_page demo_mo_env True True demo_page (demo_mo_world demo_mo ''x''))"
  by (rule page_isolated) (simp_all add: agree_on_def demo_page_def demo_service_def)



theorem published_lookup_witness:
  "find_published ''acme'' (demo_mo_world demo_mo ''x'') = (Inr (Some demo_page), demo_mo_world demo_mo ''x'')"
proof -
  have "sp_slug demo_page = py_lower (py_strip ''acme'')" "sp_published demo_page" by code_simp+
  with published_lookup [of "demo_mo_world demo_mo ''x''" demo_an "''acme''"] demo_mo_reachable(2) show ?thesis by auto
qed

theorem status_tables_consistent_witness:
  "si_resolved demo_incident \<noteq> None \<and> si_status demo_incident = ''resolved''"
  using status_tables_consistent [OF demo_mo_reachable(2)] by (simp add: demo_incident_def)

theorem platform_page_immutable_witness:
  "platform_pages (demo_mo_call (M_delete_page demo_keeper ''D'' ''P'') demo_mo ''x'') = platform_pages demo_mo"
  using platform_page_immutable [of demo_an "demo_mo_world demo_mo ''x''" "M_delete_page demo_keeper ''D'' ''P''"]
    demo_mo_reachable(2) by (simp only: demo_mo_worlds)


end
