(* ===== verification/Analytics_Properties.thy ===== *)
theory Analytics_Properties
  imports Status_Properties
begin

section \<open>Analytics: properties\<close>

subsection \<open>Scores and forecasts\<close>

lemma level_mono:
  fixes t :: rat
  assumes "t \<le> t'" and "s' \<le> s" and "b' \<le> b"
  shows "max 0 (min 100 (s' * (1 / 2) + b' * (2 / 5) + (100 - t') * (1 / 10)))
    \<le> max 0 (min 100 (s * (1 / 2) + b * (2 / 5) + (100 - t) * (1 / 10)))"
proof -
  have "s' * (1 / 2) + b' * (2 / 5) + (100 - t') * (1 / 10) \<le> s * (1 / 2) + b * (2 / 5) + (100 - t) * (1 / 10)"
    using assms by (intro add_mono mult_right_mono) auto
  then show ?thesis by (intro max.mono min.mono order_refl)
qed

text \<open>
  The composite score stays a percentage, and more incidents or a slower tail never raise it.
\<close>

theorem ces_bounds_monotone:
  assumes "0 \<le> u" and "u \<le> 100" and "0 \<le> i"
  shows "{ce_threat (ces_composite u i p), ce_sla (ces_composite u i p), ce_stability (ces_composite u i p),
      ce_level (ces_composite u i p)} \<subseteq> {0..100}
    \<and> (i \<le> j \<and> p \<le> q \<longrightarrow> ce_level (ces_composite u j q) \<le> ce_level (ces_composite u i p)
        \<and> ce_threat (ces_composite u i p) \<le> ce_threat (ces_composite u j q))"
proof
  have i: "0 \<le> (of_int i :: rat)" using assms(3) by simp
  show "{ce_threat (ces_composite u i p), ce_sla (ces_composite u i p), ce_stability (ces_composite u i p),
      ce_level (ces_composite u i p)} \<subseteq> {0..100}"
    using assms i by (simp add: ces_composite_def Let_def)
  show "i \<le> j \<and> p \<le> q \<longrightarrow> ce_level (ces_composite u j q) \<le> ce_level (ces_composite u i p)
      \<and> ce_threat (ces_composite u i p) \<le> ce_threat (ces_composite u j q)"
  proof
    assume "i \<le> j \<and> p \<le> q"
    then have ij: "(of_int i :: rat) \<le> of_int j" and pq: "p \<le> q" by simp_all
    let ?t = "\<lambda>i p. min 100 (of_int (i * 20) + (if 500 < p then 30 else 0)) :: rat"
    let ?s = "\<lambda>p. max 0 (u - (if 800 < p then 5 else 0)) :: rat"
    let ?b = "\<lambda>i p. max 0 (100 - of_int (i * 10) - (if 300 < p then 15 else 0)) :: rat"
    have t: "?t i p \<le> ?t j q" and s: "?s q \<le> ?s p" and b: "?b j q \<le> ?b i p" using ij pq by auto
    then show "ce_level (ces_composite u j q) \<le> ce_level (ces_composite u i p)
        \<and> ce_threat (ces_composite u i p) \<le> ce_threat (ces_composite u j q)"
      unfolding ces_composite_def Let_def ces.simps by (blast intro: level_mono)
  qed
qed

lemma rollup_anomaly_rate_bounds [simp]: "0 \<le> rollup_anomaly_rate env r" "rollup_anomaly_rate env r \<le> 100"
  by (auto simp: rollup_anomaly_rate_def split: option.split sum.split)

lemma rollup_anomalies_bounds: "0 \<le> rollup_anomalies env r \<and> rollup_anomalies env r \<le> of_int (max (ag_requests r) 0)"
proof -
  have "of_int n * rollup_anomaly_rate env r / 100 \<le> of_int n" if "0 \<le> n" for n
  proof -
    have "of_int n * rollup_anomaly_rate env r \<le> of_int n * 100" using that by (intro mult_left_mono) auto
    then show ?thesis by simp
  qed
  then show ?thesis by (auto simp: rollup_anomalies_def Let_def max_def split: option.split sum.split)
qed

lemma average_bounds:
  assumes "\<And>x. x \<in> set xs \<Longrightarrow> a \<le> x \<and> x \<le> b" and "xs \<noteq> []"
  shows "a \<le> sum_list xs / of_nat (length xs) \<and> sum_list xs / of_nat (length xs) \<le> (b :: rat)"
proof -
  have "a * of_nat (length xs) \<le> sum_list xs \<and> sum_list xs \<le> b * of_nat (length xs)" using assms(1)
    by (induction xs) (auto simp: algebra_simps, (smt (verit) add_mono)+)
  with assms(2) show ?thesis by (simp add: field_simps)
qed

lemma weighted_anomaly_rate_bounds: "0 \<le> weighted_anomaly_rate env rows \<and> weighted_anomaly_rate env rows \<le> 100"
proof -
  let ?busy = "filter (\<lambda>r. 0 < max (ag_requests r) 0) rows"
  have "0 \<le> sum_list (map (rollup_anomalies env) ?busy)"
    by (intro sum_list_nonneg) (auto simp: rollup_anomalies_bounds)
  moreover have "0 \<le> sum_list (map (rollup_anomaly_rate env) rows) / of_nat (length rows)
      \<and> sum_list (map (rollup_anomaly_rate env) rows) / of_nat (length rows) \<le> 100" if "rows \<noteq> []"
  proof -
    let ?m = "map (rollup_anomaly_rate env) rows"
    have "0 \<le> sum_list ?m / of_nat (length ?m) \<and> sum_list ?m / of_nat (length ?m) \<le> 100"
      by (rule average_bounds) (use that in auto)
    then show ?thesis by simp
  qed
  ultimately show ?thesis by (auto simp: weighted_anomaly_rate_def Let_def)
qed

text \<open>
  The spike forecast is a percentage; it is absent only when there are fewer than two buckets or
  neither half of them shows any threat or anomaly.
\<close>

theorem forecast_bounds:
  assumes "\<forall>r \<in> set rows. 0 \<le> ag_threats r"
  shows "(case spiking_temporal_forecast env rows of Some f \<Rightarrow> 0 \<le> f \<and> f \<le> 100
      | None \<Rightarrow> length rows < 2 \<or> ((\<forall>r \<in> set rows. ag_threats r = 0)
          \<and> (\<forall>half \<in> {take (length rows div 2) (rev rows), drop (length rows div 2) (rev rows)}. weighted_anomaly_rate env half = 0)))"
proof -
  have threats: "0 \<le> sum_list (map ag_threats xs)" if "set xs \<subseteq> set rows" for xs
    using assms that by (intro sum_list_nonneg) auto
  have p: "0 \<le> pressure env xs" if "set xs \<subseteq> set rows" for xs
    using threats [OF that] weighted_anomaly_rate_bounds [of env xs] by (simp add: pressure_def)
  have zero: "pressure env xs \<le> 0 \<Longrightarrow> weighted_anomaly_rate env xs = 0 \<and> (\<forall>r \<in> set xs. ag_threats r = 0)"
    if xs: "set xs \<subseteq> set rows" for xs
  proof -
    assume le: "pressure env xs \<le> 0"
    show ?thesis
    proof (cases "xs = []")
      case True
      then show ?thesis by (simp add: weighted_anomaly_rate_def)
    next
      case False
      let ?s = "of_int (sum_list (map ag_threats xs)) / of_nat (length xs) * 10 :: rat"
      have "0 \<le> ?s" using threats [OF xs] by simp
      moreover have "?s + weighted_anomaly_rate env xs \<le> 0" using le False by (simp add: pressure_def)
      ultimately have "weighted_anomaly_rate env xs = 0" "?s = 0"
        using weighted_anomaly_rate_bounds [of env xs] by linarith+
      moreover from this(2) False have "sum_list (map ag_threats xs) = 0" by simp
      then have "\<forall>r \<in> set xs. ag_threats r = 0"
        using assms xs by (subst (asm) sum_list_nonneg_eq_0_iff) auto
      ultimately show ?thesis by blast
    qed
  qed
  define mid where "mid = max 1 (length rows div 2)"
  let ?o = "take mid (rev rows)" and ?n = "drop mid (rev rows)"
  have sub: "set ?o \<subseteq> set rows" "set ?n \<subseteq> set rows"
    using set_take_subset [of mid "rev rows"] set_drop_subset [of mid "rev rows"] by auto
  have whole: "set rows = set ?o \<union> set ?n" by (metis append_take_drop_id set_append set_rev)
  show ?thesis
  proof (cases "length rows < 2")
    case True
    then show ?thesis by (simp add: spiking_temporal_forecast_def)
  next
    case False
    then have mid: "mid = length rows div 2" by (simp add: mid_def max_def)
    show ?thesis
    proof (cases "pressure env ?o \<le> 0 \<and> pressure env ?n \<le> 0")
      case True
      with False zero [OF sub(1)] zero [OF sub(2)] whole show ?thesis
        by (auto simp: spiking_temporal_forecast_def Let_def mid_def [symmetric] mid)
    next
      case F: False
      let ?x = "pressure env ?n / max (pressure env ?o) 1 * 40 + max 0 (pressure env ?n - pressure env ?o) * 2"
      have "0 \<le> ?x" using p [OF sub(1)] p [OF sub(2)] by (intro add_nonneg_nonneg mult_nonneg_nonneg divide_nonneg_nonneg) auto
      then have "0 \<le> min 100 ?x" "min 100 ?x \<le> 100" by auto
      moreover have "spiking_temporal_forecast env rows = Some (py_round 1 (min 100 ?x))"
        unfolding spiking_temporal_forecast_def Let_def length_rev mid_def [symmetric] using False F by (simp only: if_False)
      ultimately show ?thesis by (simp add: py_round_pct)
    qed
  qed
qed

subsection \<open>One rollup\<close>

lemma clean_stats_of: "clean_stats (Some (stats_of_probes hs)) =
    (if hs = [] then no_probes else (stats_of_probes hs)\<lparr>ps_avg := max (ps_avg (stats_of_probes hs)) 0, ps_p99 := max (ps_p99 (stats_of_probes hs)) 0\<rparr>)"
  by (auto simp: clean_stats_def stats_of_probes_def Let_def)

definition probe_summary :: "uuid \<Rightarrow> time \<Rightarrow> time \<Rightarrow> mo_db \<Rightarrow> probe_stats" where
  "probe_summary tenant start stop d =
     clean_stats (map_option (\<lambda>hs. stats_of_probes (window_probe_rows tenant start stop hs)) (probes d))"

lemma probe_stats_quiet: "quiet w \<Longrightarrow> probe_stats_in tenant start stop w = (Inr (probe_summary tenant start stop (wdb w)), w)"
  by (cases "probes (wdb w)")
    (simp_all add: probe_stats_in_def probe_summary_def bindM_def catch_def fetch_table_quiet ret_def)

lemma bind_probe_stats: "quiet w \<Longrightarrow> bindM (probe_stats_in tenant start stop) f w = f (probe_summary tenant start stop (wdb w)) w"
  by (simp add: bindM_def probe_stats_quiet)

lemma probe_summary_bounds: "0 \<le> ps_active (probe_summary tenant start stop d)
    \<and> ps_active (probe_summary tenant start stop d) \<le> ps_samples (probe_summary tenant start stop d)
    \<and> 0 \<le> ps_samples (probe_summary tenant start stop d)"
  by (auto simp: probe_summary_def clean_stats_def no_probes_def Let_def split: option.split)

definition hour_results :: "uuid \<Rightarrow> time \<Rightarrow> mo_db \<Rightarrow> stream_row list" where
  "hour_results tenant start d = window_results tenant start (start + secs 3600) d"

definition bucket_of :: "an_env \<Rightarrow> uuid \<Rightarrow> time \<Rightarrow> mo_db \<Rightarrow> rollup_row" where
  "bucket_of env tenant start d = (let stop = start + secs 3600; rs = hour_results tenant start d in
     rollup_of tenant start (int (length rs)) (int (length (filter st_anomaly rs))) (probe_summary tenant start stop d)
       (int (length (filter (\<lambda>i. (ti_tenant i = Some tenant \<or> ti_platform i) \<and> in_window start stop (ti_created i)) (threat_intel d))))
       (int (length (filter (\<lambda>c. ic_tenant c = tenant \<and> ic_status c \<in> {''open'', ''investigating''} \<and> in_window start stop (ic_created c)) (incident_cases d))))
       (fold (count_tags env) rs no_tags))"

definition put_bucket :: "rollup_row \<Rightarrow> rollup_row list \<Rightarrow> rollup_row list" where
  "put_bucket r rs = (if list_ex (same_bucket r) rs then upd_where (same_bucket r) (\<lambda>_. r) rs else rs @ [r])"

lemma upsert_rollup_put: "rollups d = Some rs \<Longrightarrow> ag_tenant r \<in> set (mo_tenants d) \<Longrightarrow>
    upsert_rollup r d = Inr ((), d\<lparr>rollups := Some (put_bucket r rs)\<rparr>)"
  by (simp add: upsert_rollup_def put_bucket_def)

lemma bucket_of_key [simp]: "ag_tenant (bucket_of env tenant start d) = tenant" "ag_start (bucket_of env tenant start d) = start"
  by (simp_all add: bucket_of_def rollup_of_def Let_def)

lemma aggregate_from_quiet:
  assumes w: "quiet w" and rs: "rollups (wdb w) = Some rs" and t: "tenant \<in> set (mo_tenants (wdb w))"
  shows "\<exists>v. aggregate_from env tenant start w
      = (Inr v, w\<lparr>wdb := (wdb w)\<lparr>rollups := Some (put_bucket (bucket_of env tenant start (wdb w)) rs)\<rparr>\<rparr>)
    \<and> bv_row v = bucket_of env tenant start (wdb w)"
proof -
  let ?r = "bucket_of env tenant start (wdb w)"
  have "upsert_rollup ?r (wdb w) = Inr ((), (wdb w)\<lparr>rollups := Some (put_bucket ?r rs)\<rparr>)"
    using rs t by (simp add: upsert_rollup_put)
  moreover have "aggregate_from env tenant start w = bindM (stmt (upsert_rollup ?r)) (\<lambda>_. ret
      \<lparr>bv_row = ?r, bv_measured = 0 < ps_samples (probe_summary tenant start (start + secs 3600) (wdb w)),
       bv_uptime = probe_uptime (probe_summary tenant start (start + secs 3600) (wdb w)),
       bv_avg = (if 0 < ps_samples (probe_summary tenant start (start + secs 3600) (wdb w)) then Some (ps_avg (probe_summary tenant start (start + secs 3600) (wdb w))) else None),
       bv_p99 = (if 0 < ps_samples (probe_summary tenant start (start + secs 3600) (wdb w)) then Some (ps_p99 (probe_summary tenant start (start + secs 3600) (wdb w))) else None)\<rparr>) w"
    unfolding aggregate_from_def routing_distributions_def bucket_of_def hour_results_def Let_def
    by (simp only: bind_assoc bind_query_quiet [OF w] bind_probe_stats [OF w] bind_ret prod.case)
  ultimately show ?thesis by (simp add: bind_stmt_quiet [OF w] ret_def)
qed

subsection \<open>Many rollups\<close>

lemma bucket_of_rollups [simp]: "bucket_of env tenant start (d\<lparr>rollups := x\<rparr>) = bucket_of env tenant start d"
  by (simp add: bucket_of_def hour_results_def window_results_def probe_summary_def Let_def)

lemma same_bucket_iff: "same_bucket r q \<longleftrightarrow> (ag_tenant q, ag_start q) = (ag_tenant r, ag_start r)"
  by (simp add: same_bucket_def)

lemma rollups_ok_put: "rollups_ok rs \<Longrightarrow> rollups_ok (put_bucket r rs)"
  unfolding put_bucket_def by (rule rollups_ok_upsert)

lemma set_put_bucket: "rollups_ok rs \<Longrightarrow> set (put_bucket r rs) = insert r {q \<in> set rs. \<not> same_bucket r q}"
  by (auto simp: put_bucket_def set_upd_where list_ex_iff)

lemma put_bucket_other: "\<not> Q r \<Longrightarrow> (\<And>q. same_bucket r q \<Longrightarrow> \<not> Q q) \<Longrightarrow> filter Q (put_bucket r rs) = filter Q rs"
proof -
  assume r: "\<not> Q r" and q: "\<And>q. same_bucket r q \<Longrightarrow> \<not> Q q"
  have "filter Q (upd_where (same_bucket r) (\<lambda>_. r) rs) = filter Q rs"
    by (induction rs) (use r q in \<open>auto simp: upd_where_def\<close>)
  with r show ?thesis by (simp add: put_bucket_def)
qed

lemma put_bucket_again: "put_bucket r (put_bucket r rs) = put_bucket r rs"
proof -
  have "upd_where (same_bucket r) (\<lambda>_. r) (upd_where (same_bucket r) (\<lambda>_. r) rs) = upd_where (same_bucket r) (\<lambda>_. r) rs"
    by (induction rs) (auto simp: upd_where_def same_bucket_def)
  moreover have "list_ex (same_bucket r) (upd_where (same_bucket r) (\<lambda>_. r) rs) = list_ex (same_bucket r) rs"
    by (induction rs) (auto simp: upd_where_def same_bucket_def)
  moreover have "\<not> list_ex (same_bucket r) rs \<Longrightarrow> upd_where (same_bucket r) (\<lambda>_. r) (rs @ [r]) = rs @ [r]"
    by (induction rs) (auto simp: upd_where_def same_bucket_def)
  ultimately show ?thesis by (auto simp: put_bucket_def same_bucket_def)
qed

definition put_buckets :: "an_env \<Rightarrow> uuid \<Rightarrow> time list \<Rightarrow> mo_db \<Rightarrow> rollup_row list \<Rightarrow> rollup_row list" where
  "put_buckets env tenant hours d rs = fold (\<lambda>h. put_bucket (bucket_of env tenant h d)) hours rs"

lemma each_aggregate_quiet:
  assumes "quiet w" and "rollups (wdb w) = Some rs" and "tenant \<in> set (mo_tenants (wdb w))"
  shows "\<exists>vs. each (aggregate_from env tenant) hours w
      = (Inr vs, w\<lparr>wdb := (wdb w)\<lparr>rollups := Some (put_buckets env tenant hours (wdb w) rs)\<rparr>\<rparr>)"
  using assms
proof (induction hours arbitrary: w rs)
  case Nil
  then have "(wdb w)\<lparr>rollups := Some rs\<rparr> = wdb w" by simp
  then show ?case by (simp add: ret_def put_buckets_def)
next
  case (Cons h hours)
  let ?w = "w\<lparr>wdb := (wdb w)\<lparr>rollups := Some (put_bucket (bucket_of env tenant h (wdb w)) rs)\<rparr>\<rparr>"
  from aggregate_from_quiet [OF Cons.prems] obtain v where v: "aggregate_from env tenant h w = (Inr v, ?w)" by blast
  from Cons.IH [of ?w "put_bucket (bucket_of env tenant h (wdb w)) rs"] Cons.prems obtain vs where
    "each (aggregate_from env tenant) hours ?w = (Inr vs, ?w\<lparr>wdb := (wdb ?w)\<lparr>rollups :=
       Some (put_buckets env tenant hours (wdb ?w) (put_bucket (bucket_of env tenant h (wdb w)) rs))\<rparr>\<rparr>)" by auto
  with v show ?case by (simp add: bindM_def ret_def put_buckets_def)
qed

lemma put_buckets_set:
  assumes "rollups_ok rs"
  shows "rollups_ok (put_buckets env tenant hours d rs)
    \<and> {r \<in> set (put_buckets env tenant hours d rs). ag_tenant r = tenant \<and> ag_start r \<in> set hours}
        = (\<lambda>h. bucket_of env tenant h d) ` set hours
    \<and> filter (\<lambda>r. \<not> (ag_tenant r = tenant \<and> ag_start r \<in> set hours)) (put_buckets env tenant hours d rs)
        = filter (\<lambda>r. \<not> (ag_tenant r = tenant \<and> ag_start r \<in> set hours)) rs"
proof (induction hours rule: rev_induct)
  case Nil
  then show ?case using assms by (simp add: put_buckets_def)
next
  case (snoc h hours)
  let ?r = "bucket_of env tenant h d" and ?rs = "put_buckets env tenant hours d rs"
  have step: "put_buckets env tenant (hours @ [h]) d rs = put_bucket ?r ?rs" by (simp add: put_buckets_def)
  let ?Q = "\<lambda>hours r. \<not> (ag_tenant r = tenant \<and> ag_start r \<in> set hours)"
  have "filter (?Q (hours @ [h])) (put_bucket ?r ?rs) = filter (?Q (hours @ [h])) ?rs"
    by (rule put_bucket_other) (auto simp: same_bucket_def)
  also have "\<dots> = filter (?Q (hours @ [h])) (filter (?Q hours) ?rs)"
    by (simp add: filter_filter) (rule filter_cong, auto)
  also have "\<dots> = filter (?Q (hours @ [h])) (filter (?Q hours) rs)" using snoc.IH by simp
  also have "\<dots> = filter (?Q (hours @ [h])) rs" by (simp add: filter_filter) (rule filter_cong, auto)
  finally have other: "filter (?Q (hours @ [h])) (put_bucket ?r ?rs) = filter (?Q (hours @ [h])) rs" .
  have "{r \<in> set (put_bucket ?r ?rs). ag_tenant r = tenant \<and> ag_start r \<in> set (hours @ [h])}
      = insert ?r {r \<in> set ?rs. ag_tenant r = tenant \<and> ag_start r \<in> set hours \<and> \<not> same_bucket ?r r}"
    using snoc.IH by (auto simp: set_put_bucket same_bucket_def)
  also have "\<dots> = insert ?r {r \<in> {r \<in> set ?rs. ag_tenant r = tenant \<and> ag_start r \<in> set hours}. \<not> same_bucket ?r r}" by blast
  also have "\<dots> = insert ?r {r \<in> (\<lambda>h. bucket_of env tenant h d) ` set hours. \<not> same_bucket ?r r}" using snoc.IH by simp
  also have "\<dots> = (\<lambda>h. bucket_of env tenant h d) ` set (hours @ [h])" by (auto simp: same_bucket_def)
  finally show ?case unfolding step using snoc.IH other by (auto simp: rollups_ok_put)
qed

subsection \<open>What the rollups add up to\<close>

lemma own_hour:
  assumes "hour_of h = h"
  shows "in_window h (h + secs 3600) t \<longleftrightarrow> hour_of t = h"
proof -
  let ?n = "secs 3600"
  have pos: "0 < ?n" by (simp add: secs_def)
  from assms have "h mod ?n = 0" by (simp add: hour_of_def)
  then obtain k where k: "h = ?n * k" by (metis mod_0_imp_dvd dvdE)
  have "hour_of t = ?n * (t div ?n)" by (simp add: hour_of_def minus_mod_eq_mult_div)
  moreover have "in_window h (h + ?n) t \<longleftrightarrow> t div ?n = k"
  proof
    assume "in_window h (h + ?n) t"
    then show "t div ?n = k" by (intro int_div_pos_eq [where r = "t - h"]) (auto simp: in_window_def k)
  next
    assume "t div ?n = k"
    then have "t = ?n * k + t mod ?n" by (metis mult_div_mod_eq)
    with pos pos_mod_sign [OF pos, of t] pos_mod_bound [OF pos, of t] show "in_window h (h + ?n) t" by (auto simp: in_window_def k)
  qed
  ultimately show ?thesis using pos by (simp add: k)
qed

lemma hour_results_alt: "hour_of h = h \<Longrightarrow>
    hour_results tenant h d = filter (\<lambda>r. hour_of (st_created r) = h \<and> st_tenant r = tenant) (stream_results d)"
  by (auto simp: hour_results_def window_results_def own_hour intro: filter_cong)

lemma bucket_counts:
  assumes "hour_of h = h"
  shows "ag_requests (bucket_of env tenant h d) = int (length (hour_results tenant h d))"
    and "rollup_anomalies env' (bucket_of env tenant h d) = of_nat (length (filter st_anomaly (hour_results tenant h d)))"
    and "rollup_latency_sample_count (bucket_of env tenant h d) = ps_samples (probe_summary tenant h (h + secs 3600) d)"
    and "rollup_uptime_counts (bucket_of env tenant h d)
      = (ps_active (probe_summary tenant h (h + secs 3600) d), ps_samples (probe_summary tenant h (h + secs 3600) d))"
proof -
  let ?r = "bucket_of env tenant h d" and ?ps = "probe_summary tenant h (h + secs 3600) d"
  let ?a = "length (filter st_anomaly (hour_results tenant h d))" and ?n = "length (hour_results tenant h d)"
  show n: "ag_requests ?r = int ?n" by (simp add: bucket_of_def rollup_of_def Let_def)
  have doc: "\<exists>rate g. ag_metadata ?r = bucket_metadata ?ps (int ?a) rate g" by (auto simp: bucket_of_def rollup_of_def Let_def)
  then have "map_of (ag_metadata ?r) ''anomaly_count'' = Some (JInt (int ?a))" by (auto simp: bucket_metadata_def)
  moreover have "py_float f (py_or (JInt i) (JInt 0)) = Inr (of_int i)" for f i by (simp add: py_or_def py_float_def)
  moreover have "?a \<le> ?n" by simp
  ultimately show "rollup_anomalies env' ?r = of_nat ?a" by (simp add: rollup_anomalies_def n)
  note b = probe_summary_bounds [of tenant h "h + secs 3600" d]
  have count: "sample_count doc key = Inr i" if "jget doc key = JInt i" "0 \<le> i" for doc key i
    using that by (simp add: sample_count_def py_or_def)
  from doc obtain rate g where m: "ag_metadata ?r = bucket_metadata ?ps (int ?a) rate g" by blast
  have "jget (ag_metadata ?r) ''latency_source'' = JStr ''health_probe_observations''"
    "jget (ag_metadata ?r) ''uptime_source'' = JStr ''health_probe_observations''"
    "jget (ag_metadata ?r) ''latency_sample_count'' = JInt (ps_samples ?ps)"
    "jget (ag_metadata ?r) ''uptime_sample_count'' = JInt (ps_samples ?ps)"
    "jget (ag_metadata ?r) ''uptime_active_count'' = JInt (ps_active ?ps)"
    unfolding m by (simp_all add: bucket_metadata_def json_simps)
  then show "rollup_latency_sample_count ?r = ps_samples ?ps" "rollup_uptime_counts ?r = (ps_active ?ps, ps_samples ?ps)"
    using b by (simp_all add: rollup_latency_sample_count_def rollup_uptime_counts_def count)
qed

lemma empty_bucket_rate:
  assumes "hour_results tenant h d = []"
  shows "rollup_anomaly_rate env' (bucket_of env tenant h d) = 0"
proof -
  have "map_of (ag_metadata (bucket_of env tenant h d)) ''anomaly_rate_percent'' = Some (JFloat 0)"
    using assms by (simp add: bucket_of_def rollup_of_def Let_def bucket_metadata_def percent_def)
  then show ?thesis by (simp add: rollup_anomaly_rate_def py_or_def py_float_def)
qed

lemma weighted_anomaly_rate_exact:
  assumes "\<forall>r \<in> set rows. 0 \<le> ag_requests r \<and> (ag_requests r = 0 \<longrightarrow> rollup_anomaly_rate env r = 0)"
  shows "weighted_anomaly_rate env rows = (if sum_list (map ag_requests rows) = 0 then 0
    else 100 * sum_list (map (rollup_anomalies env) rows) / of_int (sum_list (map ag_requests rows)))"
proof -
  let ?busy = "filter (\<lambda>r. 0 < max (ag_requests r) 0) rows"
  let ?n = "sum_list (map ag_requests rows)" and ?a = "sum_list (map (rollup_anomalies env) rows)"
  have idle: "rollup_anomalies env r = 0" if "ag_requests r = 0" for r
    using rollup_anomalies_bounds [of env r] that by simp
  have n: "sum_list (map (\<lambda>r. max (ag_requests r) 0) ?busy) = ?n"
    using assms by (induction rows) (auto simp: max_def)
  have a: "sum_list (map (rollup_anomalies env) ?busy) = ?a"
    using assms by (induction rows) (auto simp: max_def idle)
  have "?a \<le> of_int ?n \<and> 0 \<le> ?n"
    using assms by (induction rows) (auto simp: max_def intro!: add_mono rollup_anomalies_bounds [THEN conjunct2, THEN order_trans])
  moreover have "rows \<noteq> [] \<Longrightarrow> ?n = 0 \<Longrightarrow> sum_list (map (rollup_anomaly_rate env) rows) = 0"
  proof -
    assume "?n = 0"
    then have "\<forall>r \<in> set rows. ag_requests r = 0" using assms by (subst (asm) sum_list_nonneg_eq_0_iff) auto
    then show ?thesis using assms by (induction rows) auto
  qed
  ultimately show ?thesis unfolding weighted_anomaly_rate_def Let_def n a by (auto simp: min_def field_simps)
qed

text \<open>
  C40: The books balance.  After the hours of a list have been rolled up, in any order and whether or not
  they had been before, the tenant has one bucket for each of them and every other bucket is as it
  was; their requests add up to the events of these hours, and the anomaly rate the overview derives
  from them is the share of anomalous results among these events.
\<close>

theorem rollups_balance:
  assumes w: "quiet w" and reach: "mo_reachable env0 (wdb w)" and rs: "rollups (wdb w) = Some rs"
    and t: "tenant \<in> set (mo_tenants (wdb w))" and hours: "distinct hours" "\<forall>h \<in> set hours. hour_of h = h"
  shows "\<exists>vs rs'. each (aggregate_from env tenant) hours w = (Inr vs, w\<lparr>wdb := (wdb w)\<lparr>rollups := Some rs'\<rparr>\<rparr>)
    \<and> (let own = (\<lambda>r. ag_tenant r = tenant \<and> ag_start r \<in> set hours);
           events = filter (\<lambda>r. st_tenant r = tenant \<and> hour_of (st_created r) \<in> set hours) (stream_results (wdb w)) in
       ag_start ` set (filter own rs') = set hours \<and> length (filter own rs') = length hours
       \<and> filter (\<lambda>r. \<not> own r) rs' = filter (\<lambda>r. \<not> own r) rs
       \<and> sum_list (map ag_requests (filter own rs')) = int (length events)
       \<and> weighted_anomaly_rate env (filter own rs') = percent (int (length (filter st_anomaly events))) (int (length events)))"
proof -
  let ?d = "wdb w" and ?own = "\<lambda>r. ag_tenant r = tenant \<and> ag_start r \<in> set hours"
  let ?b = "\<lambda>h. bucket_of env tenant h ?d" and ?rs = "put_buckets env tenant hours ?d rs"
  let ?events = "filter (\<lambda>r. st_tenant r = tenant \<and> hour_of (st_created r) \<in> set hours) (stream_results ?d)"
  from each_aggregate_quiet [OF w rs t] obtain vs where
    run: "each (aggregate_from env tenant) hours w = (Inr vs, w\<lparr>wdb := ?d\<lparr>rollups := Some ?rs\<rparr>\<rparr>)" by blast
  from mos.reachable_inv [OF reach] rs have "rollups_ok rs" by (simp add: mo_inv_def rows_of_def)
  from put_buckets_set [OF this, of env tenant hours ?d]
  have ok: "rollups_ok ?rs" and set: "set (filter ?own ?rs) = ?b ` set hours"
    and other: "filter (\<lambda>r. \<not> ?own r) ?rs = filter (\<lambda>r. \<not> ?own r) rs" by auto
  have inj: "inj_on ?b (set hours)" by (rule inj_onI) (metis bucket_of_key(2))
  have dist: "distinct (filter ?own ?rs)" using ok by (simp add: rollups_ok_def distinct_map)
  have sum: "sum_list (map f (filter ?own ?rs)) = (\<Sum>h \<in> set hours. f (?b h))" for f :: "rollup_row \<Rightarrow> 'n :: comm_monoid_add"
    using sum_list_distinct_conv_sum_set [OF dist, of f] unfolding set by (simp only: sum.reindex [OF inj] comp_def)
  have len: "length (filter ?own ?rs) = length hours"
    using distinct_card [OF dist] card_image [OF inj] distinct_card [OF hours(1)] by (simp only: set)
  have split: "(\<Sum>h \<in> set hours. length (filter p (hour_results tenant h ?d))) = length (filter p ?events)" for p
  proof -
    have "(\<Sum>h \<in> set hours. length (filter p (hour_results tenant h ?d)))
        = (\<Sum>h \<in> set hours. length (filter (\<lambda>r. hour_of (st_created r) = h \<and> (st_tenant r = tenant \<and> p r)) (stream_results ?d)))"
      using hours(2) by (intro sum.cong refl) (simp add: hour_results_alt filter_filter conj_ac)
    also have "\<dots> = length (filter (\<lambda>r. hour_of (st_created r) \<in> set hours \<and> (st_tenant r = tenant \<and> p r)) (stream_results ?d))"
      by (rule group_sizes) simp
    also have "\<dots> = length (filter p ?events)" by (simp add: filter_filter conj_ac)
    finally show ?thesis .
  qed
  have n: "sum_list (map ag_requests (filter ?own ?rs)) = int (length ?events)"
    using split [of "\<lambda>_. True"] hours(2) by (simp add: sum bucket_counts flip: of_nat_sum)
  have anomalies: "sum_list (map (rollup_anomalies env) (filter ?own ?rs)) = of_nat (length (filter st_anomaly ?events))"
    using split [of st_anomaly] hours(2) by (simp add: sum bucket_counts(2) flip: of_nat_sum)
  have "weighted_anomaly_rate env (filter ?own ?rs) = percent (int (length (filter st_anomaly ?events))) (int (length ?events))"
  proof (subst weighted_anomaly_rate_exact)
    show "\<forall>r \<in> set (filter ?own ?rs). 0 \<le> ag_requests r \<and> (ag_requests r = 0 \<longrightarrow> rollup_anomaly_rate env r = 0)"
      unfolding set using hours(2) by (auto simp: bucket_counts(1) empty_bucket_rate)
  qed (simp only: n anomalies, simp add: percent_def)
  with run other n len set show ?thesis
    by (intro exI [of _ vs] exI [of _ ?rs]) (auto simp: Let_def image_image)
qed

subsection \<open>The overview of a tenant\<close>

lemma reads_lift [reads_intros]: "reads t (lift r)"
  by (simp add: reads_def lift_def)

lemma reads_probe_stats: "reads t (probe_stats_in t start stop)"
proof -
  have "reads t (fetch_table probes (\<lambda>_ hs. stats_of_probes (window_probe_rows t start stop hs)))"
  proof (rule reads_probes)
    fix rs rs' :: "probe_row list"
    assume "filter (\<lambda>h. hp_tenant h = t) rs' = filter (\<lambda>h. hp_tenant h = t) rs"
    then have "window_probe_rows t start stop rs' = window_probe_rows t start stop rs"
      unfolding window_probe_rows_def by (rule filter_by_sel) simp
    then show "stats_of_probes (window_probe_rows t start stop rs') = stats_of_probes (window_probe_rows t start stop rs)" by simp
  qed
  then show ?thesis unfolding probe_stats_in_def by (intro reads_intros)
qed

lemma reads_own_rollups: "reads t (own_rollups t since)"
  unfolding own_rollups_def
  by (rule reads_rollups, rule arg_cong [where f = "newest ag_start"], erule filter_by_sel) simp

lemma reads_latest_rollups: "reads t (latest_rollups t)"
  unfolding latest_rollups_def
  by (rule reads_rollups, rule arg_cong [where f = "\<lambda>xs. take 24 (newest ag_start xs)"], erule filter_by_sel) simp

lemma reads_training_runs: "reads t (list_recent_training_runs t limit)"
  unfolding list_recent_training_runs_def
proof (rule reads_runs)
  fix rs rs' :: "run_rec list"
  assume "filter (\<lambda>h. tr_tenant h = t) rs' = filter (\<lambda>h. tr_tenant h = t) rs"
  then show "map f (take limit (newest tr_created (filter (\<lambda>r. tr_tenant r = t) rs')))
      = map f (take limit (newest tr_created (filter (\<lambda>r. tr_tenant r = t) rs)))" for f :: "run_rec \<Rightarrow> run_rec" by simp
qed

text \<open>
  Behind the gate the overview of a tenant is determined by the tenant's own rows: its rollups, probe
  observations, scores and training runs.  The rows of other tenants never show.
\<close>

theorem overview_isolated:
  assumes "quiet w" and "quiet w'" and "agree_on tenant (wdb w) (wdb w')"
  shows "fst (overview_body env tenant w') = fst (overview_body env tenant w)"
proof -
  have "reads tenant (overview_body env tenant)"
    unfolding overview_body_def latest_signal_def latest_sla_def own_benchmark_def Let_def
    by (intro reads_bind reads_catch reads_temporal reads_predicted reads_clock reads_own_rollups reads_probe_stats
        reads_latest_rollups reads_training_runs reads_intros)
      (auto intro!: reads_intros reads_latest_rollups reads_training_runs split: prod.split)
  with assms show ?thesis unfolding reads_def by blast
qed

subsection \<open>A weight the benchmark does not mean\<close>

text \<open>
  The loop over the score keys already collects an accuracy between 0 and 1, and the statement after
  it collects the accuracy again: such a run counts twice in the mean, unless an earlier key ended
  the loop.
\<close>

definition accuracy_run :: "jdict \<Rightarrow> run_rec" where
  "accuracy_run metrics = \<lparr>tr_id = [], tr_tenant = ''T'', tr_model = ''m'', tr_version = [], tr_status = ''ok'',
     tr_metrics = JObj metrics, tr_artifact = None, tr_family = ''m'', tr_created = 0\<rparr>"

lemma accuracy_counted_twice:
  "bm_accuracy (benchmark_from_training_runs demo_mo_env
     [accuracy_run [(''accuracy'', JFloat (1 / 2))], accuracy_run [(''benchmark_score'', JFloat 90), (''accuracy'', JFloat 1)]])
   = Some (6667 / 100)"
  by code_simp

subsection \<open>Concrete instances\<close>

definition demo_result :: "string \<Rightarrow> string \<Rightarrow> time \<Rightarrow> bool \<Rightarrow> stream_row" where
  "demo_result i tenant t anomaly = \<lparr>st_id = i, st_tenant = tenant, st_source = None, st_kind = [], st_engine = [],
     st_score = JNull, st_anomaly = anomaly, st_features = JObj [], st_metadata = [], st_workflow = JNull,
     st_projection = [], st_version = 1, st_key = i, st_created = t\<rparr>"

definition demo_an_db :: mo_db where
  "demo_an_db = demo_mo_fresh\<lparr>stream_results := [demo_result ''a'' ''T'' (secs 3600) True,
     demo_result ''b'' ''T'' (secs 7300) False, demo_result ''c'' ''V'' (secs 3700) True,
     demo_result ''d'' ''T'' (secs 90000) True]\<rparr>"

lemma demo_an_reachable: "mo_reachable demo_an demo_an_db"
proof (rule reachable.fresh, rule disjI2)
  show "platform_mo demo_an_db"
    unfolding platform_mo_def
    by (intro exI [of _ "hd (status_pages demo_mo_fresh)"] exI [of _ "demo_an_db\<lparr>status_pages := []\<rparr>"])
      (simp add: demo_an_db_def demo_mo_fresh_def fresh_mo_def rows_of_def)
qed

theorem rollups_balance_witness:
  "\<exists>vs rs. each (aggregate_from demo_an ''T'') [secs 7200, secs 3600] (demo_mo_world demo_an_db ''x'')
      = (Inr vs, demo_mo_world (demo_an_db\<lparr>rollups := Some rs\<rparr>) ''x'')
    \<and> sum_list (map ag_requests (filter (\<lambda>r. ag_tenant r = ''T'' \<and> ag_start r \<in> {secs 7200, secs 3600}) rs)) = 2
    \<and> weighted_anomaly_rate demo_an (filter (\<lambda>r. ag_tenant r = ''T'' \<and> ag_start r \<in> {secs 7200, secs 3600}) rs) = 50"
proof -
  let ?w = "demo_mo_world demo_an_db ''x''"
  have hours: "distinct [secs 7200, secs 3600]" "\<forall>h \<in> set [secs 7200, secs 3600]. hour_of h = h"
    by (simp_all add: secs_def hour_of_def)
  have t: "rollups (wdb ?w) = Some []" "''T'' \<in> set (mo_tenants (wdb ?w))" "mo_reachable demo_an (wdb ?w)"
    using demo_an_reachable by (simp_all add: demo_an_db_def demo_mo_fresh_def)
  have e: "filter (\<lambda>r. st_tenant r = ''T'' \<and> hour_of (st_created r) \<in> set [secs 7200, secs 3600]) (stream_results demo_an_db)
      = [demo_result ''a'' ''T'' (secs 3600) True, demo_result ''b'' ''T'' (secs 7300) False]"
    by (simp add: demo_an_db_def demo_result_def hour_of_def secs_def)
  have u: "?w\<lparr>wdb := d\<rparr> = demo_mo_world d ''x''" for d by (simp add: demo_mo_world_def quiet_world_def)
  from rollups_balance [OF demo_mo_worlds(1) t(3,1,2) hours, of demo_an] show ?thesis
    unfolding demo_mo_worlds(2) u Let_def e by (auto simp: percent_def demo_result_def)
qed

theorem overview_isolated_witness:
  "fst (overview_body demo_an ''T'' (demo_mo_world (demo_an_db\<lparr>probes := Some [demo_probe\<lparr>hp_tenant := ''V''\<rparr>]\<rparr>) ''x''))
   = fst (overview_body demo_an ''T'' (demo_mo_world demo_an_db ''x''))"
  by (rule overview_isolated) (simp_all add: agree_on_def demo_an_db_def demo_mo_fresh_def)

theorem ces_bounds_monotone_witness:
  "ce_level (ces_composite 99 2 400) \<le> ce_level (ces_composite 99 1 200) \<and> ce_level (ces_composite 99 1 200) \<in> {0..100}"
  using ces_bounds_monotone [of 99 1 200 2 400] by auto

theorem forecast_bounds_witness:
  "case spiking_temporal_forecast demo_an [bucket_of demo_an ''T'' (secs 7200) demo_an_db, bucket_of demo_an ''T'' (secs 3600) demo_an_db] of
     Some f \<Rightarrow> 0 \<le> f \<and> f \<le> 100 | None \<Rightarrow> True"
proof -
  have "0 \<le> ag_threats (bucket_of demo_an ''T'' h demo_an_db)" for h by (simp add: bucket_of_def rollup_of_def Let_def)
  then show ?thesis
    using forecast_bounds [of "[bucket_of demo_an ''T'' (secs 7200) demo_an_db, bucket_of demo_an ''T'' (secs 3600) demo_an_db]" demo_an]
    by (auto split: option.splits)
qed

end
