(* ===== verification/Sanitize.thy ===== *)
theory Sanitize
  imports Py_Values
begin

section \<open>Sanitizing text\<close>

text \<open>
  \<open>core/sanitize.py\<close>: plain text keeps no markup and no control characters, third-party JSON is
  bounded and its secret keys are filtered.  Normalization (\<open>unicodedata.normalize\<close>) and the entity
  table (\<open>html.unescape\<close>) of the standard library are parameters.
\<close>

record text_env =
  tx_nfc :: "string \<Rightarrow> string"
  tx_unescape :: "string \<Rightarrow> string"

abbreviation newline :: char where "newline \<equiv> CHR 0x0A"
abbreviation return_char :: char where "return_char \<equiv> CHR 0x0D"
abbreviation tab_char :: char where "tab_char \<equiv> CHR 0x09"

text \<open>\<open>re.sub(r"<[^>]*>", "", text)\<close>\<close>

function strip_tags :: "string \<Rightarrow> string" where
  "strip_tags [] = []"
| "strip_tags (c # cs) =
     (if c = CHR ''<'' then (case dropWhile (\<lambda>x. x \<noteq> CHR ''>'') cs of
          [] \<Rightarrow> c # strip_tags cs | _ # rest \<Rightarrow> strip_tags rest)
      else c # strip_tags cs)"
  by pat_completeness auto

termination
proof (relation "measure length")
  fix c :: char and cs r rest
  assume "dropWhile (\<lambda>x. x \<noteq> CHR ''>'') cs = r # rest"
  then have "length (r # rest) \<le> length cs" by (metis length_dropWhile_le)
  then show "(rest, c # cs) \<in> measure length" by simp
qed auto

definition kept_char :: "bool \<Rightarrow> char \<Rightarrow> string" where
  "kept_char allow_newlines c = (let code = code_point c in
     if code = 0 then []
     else if c \<in> {tab_char, newline, return_char}
     then (if allow_newlines then [if c = return_char then newline else c] else if c = tab_char then '' '' else [])
     else if code < 32 \<or> code = 127 \<or> (128 \<le> code \<and> code \<le> 159) then []
     else [c])"

definition strip_controls :: "bool \<Rightarrow> string \<Rightarrow> string" where
  "strip_controls allow_newlines text = concat (map (kept_char allow_newlines) text)"

text \<open>\<open>re.sub(r"\s+", " ", text)\<close>, and the two substitutions that keep newlines.\<close>

definition starts :: "(char \<Rightarrow> bool) \<Rightarrow> string \<Rightarrow> bool" where
  "starts p s \<longleftrightarrow> (case s of [] \<Rightarrow> False | c # _ \<Rightarrow> p c)"

fun squeeze :: "string \<Rightarrow> string" where
  "squeeze [] = []"
| "squeeze (c # cs) = (if is_space c then (if starts is_space cs then squeeze cs else CHR '' '' # squeeze cs)
     else c # squeeze cs)"

definition is_blank :: "char \<Rightarrow> bool" where "is_blank c \<longleftrightarrow> c = CHR '' '' \<or> c = tab_char"

fun drop_trailing_blanks :: "string \<Rightarrow> string" where
  "drop_trailing_blanks [] = []"
| "drop_trailing_blanks (c # cs) =
     (if is_blank c \<and> starts (\<lambda>x. x = newline) (dropWhile is_blank cs) then drop_trailing_blanks cs
      else c # drop_trailing_blanks cs)"

fun cap_newlines :: "nat \<Rightarrow> string \<Rightarrow> string" where
  "cap_newlines n [] = []"
| "cap_newlines n (c # cs) = (if c = newline then (if n < 2 then c # cap_newlines (Suc n) cs else cap_newlines n cs)
     else c # cap_newlines 0 cs)"

definition py_rstrip :: "string \<Rightarrow> string" where
  "py_rstrip s = rev (dropWhile is_space (rev s))"

definition sanitize_text :: "text_env \<Rightarrow> nat option \<Rightarrow> bool \<Rightarrow> string \<Rightarrow> string" where
  "sanitize_text env max_length allow_newlines value =
     (let text = strip_controls allow_newlines (strip_tags (tx_unescape env (tx_nfc env value)));
          text = py_strip (if allow_newlines then cap_newlines 0 (drop_trailing_blanks text) else squeeze text) in
      case max_length of None \<Rightarrow> text
      | Some n \<Rightarrow> if n < length text then py_rstrip (take n text) else text)"

definition sanitize_label :: "text_env \<Rightarrow> nat \<Rightarrow> string \<Rightarrow> string" where
  "sanitize_label env n = sanitize_text env (Some n) False"

definition sanitize_body :: "text_env \<Rightarrow> nat \<Rightarrow> string \<Rightarrow> string" where
  "sanitize_body env n = sanitize_text env (Some n) True"

subsection \<open>Secret keys and third-party documents\<close>

definition secret_exact :: "string list" where
  "secret_exact = [''authorization'', ''cookie'', ''set_cookie'', ''x_api_key'', ''x_engine_token'', ''password'',
     ''secret'', ''token'', ''fjsvc_'', ''ciphertext'', ''sealed_payload'', ''private_key'', ''api_key'',
     ''hibp_api_key'', ''access_token'', ''refresh_token'', ''api_token'', ''provision_token'', ''engine_token'',
     ''signing_secret'', ''client_secret'', ''jwt_secret'', ''supabase_jwt_secret'', ''dsn'', ''sentry_dsn'',
     ''rollbar_access_token'', ''hf_token'', ''postgres_dsn'', ''redis_url'', ''database_url'', ''webhook_secret'',
     ''object_storage_secret_access_key'']"

definition secret_suffixes :: "string list" where
  "secret_suffixes = [''password'', ''secret'', ''token'', ''api_key'', ''private_key'', ''ciphertext'',
     ''sealed_payload'', ''access_token'', ''refresh_token'']"

definition normalize_secret_key :: "string \<Rightarrow> string" where
  "normalize_secret_key key = map (\<lambda>c. if c = CHR ''-'' then CHR ''_'' else c) (py_lower (py_strip key))"

definition is_secret_key :: "string \<Rightarrow> bool" where
  "is_secret_key key \<longleftrightarrow> (let n = normalize_secret_key key in
     n \<noteq> [] \<and> (n \<in> set secret_exact \<or> list_ex (\<lambda>w. n = w \<or> py_endswith n (CHR ''_'' # w)) secret_suffixes))"

definition filtered :: json where "filtered = JStr ''[Filtered]''"

fun sanitize_external :: "text_env \<Rightarrow> nat \<Rightarrow> json \<Rightarrow> json"
  and sanitize_items :: "text_env \<Rightarrow> nat \<Rightarrow> json list \<Rightarrow> json list"
  and sanitize_fields :: "text_env \<Rightarrow> nat \<Rightarrow> nat \<Rightarrow> jdict \<Rightarrow> jdict \<Rightarrow> jdict" where
  "sanitize_external env depth (JStr s) = (if 8 < depth then JStr ''[Truncated]'' else JStr (sanitize_text env (Some 4096) True s))"
| "sanitize_external env depth (JArr xs) = (if 8 < depth then JStr ''[Truncated]'' else JArr (take 500 (sanitize_items env (Suc depth) xs)))"
| "sanitize_external env depth (JObj kvs) = (if 8 < depth then JStr ''[Truncated]'' else JObj (sanitize_fields env (Suc depth) 0 [] kvs))"
| "sanitize_external env depth v = (if 8 < depth then JStr ''[Truncated]'' else v)"
| "sanitize_items env depth [] = []"
| "sanitize_items env depth (x # xs) = sanitize_external env depth x # sanitize_items env depth xs"
| "sanitize_fields env depth index acc [] = acc"
| "sanitize_fields env depth index acc ((k, v) # kvs) =
     (if 100 \<le> index then acc
      else (let label = sanitize_label env 128 k; key = (if label = [] then ''key_'' @ digits_of index else label) in
        sanitize_fields env depth (Suc index)
          (dict_set key (if is_secret_key key then filtered else sanitize_external env depth v) acc) kvs))"

subsection \<open>What sanitized text looks like\<close>

text \<open>A tag is an opening angle bracket with a closing one somewhere behind it.\<close>

fun has_tag :: "string \<Rightarrow> bool" where
  "has_tag [] = False"
| "has_tag (c # cs) = ((c = CHR ''<'' \<and> CHR ''>'' \<in> set cs) \<or> has_tag cs)"

lemma has_tag_between: "has_tag (a @ ''<'' @ b @ ''>'' @ c)"
  by (induction a) auto

lemma has_tag_iff: "has_tag s \<longleftrightarrow> (\<exists>a b c. s = a @ ''<'' @ b @ ''>'' @ c)"
proof
  show "has_tag s \<Longrightarrow> \<exists>a b c. s = a @ ''<'' @ b @ ''>'' @ c"
  proof (induction s)
    case (Cons x s)
    show ?case
    proof (cases "has_tag s")
      case True
      with Cons.IH obtain a b c where "s = a @ ''<'' @ b @ ''>'' @ c" by blast
      then have "x # s = (x # a) @ ''<'' @ b @ ''>'' @ c" by simp
      then show ?thesis by blast
    next
      case False
      with Cons.prems obtain b c where "x = CHR ''<''" "s = b @ CHR ''>'' # c" by (auto simp: in_set_conv_decomp)
      then have "x # s = [] @ ''<'' @ b @ ''>'' @ c" by simp
      then show ?thesis by blast
    qed
  qed simp
qed (auto simp only: has_tag_between)

definition brackets :: "string \<Rightarrow> string" where
  "brackets s = filter (\<lambda>c. c = CHR ''<'' \<or> c = CHR ''>'') s"

lemma brackets_simps [simp]:
  "brackets [] = []" "brackets (a @ b) = brackets a @ brackets b" "brackets (rev a) = rev (brackets a)"
  "brackets (c # cs) = (if c = CHR ''<'' \<or> c = CHR ''>'' then c # brackets cs else brackets cs)"
  by (simp_all add: brackets_def rev_filter)

lemma has_tag_brackets: "has_tag (brackets s) = has_tag s"
  by (induction s) (auto simp: brackets_def)

lemma has_tag_take: "has_tag (take n s) \<Longrightarrow> has_tag s"
  by (induction s arbitrary: n) (auto simp: take_Cons split: nat.splits dest: in_set_takeD)

lemma has_tag_append: "has_tag (a @ b) \<Longrightarrow> \<not> has_tag b \<Longrightarrow> CHR ''>'' \<notin> set b \<Longrightarrow> has_tag a"
  by (induction a) auto

lemma no_close_no_tag: "CHR ''>'' \<notin> set s \<Longrightarrow> \<not> has_tag s"
  by (induction s) auto

lemma strip_tags_cases:
  "c \<noteq> CHR ''<'' \<Longrightarrow> strip_tags (c # cs) = c # strip_tags cs"
  "dropWhile (\<lambda>x. x \<noteq> CHR ''>'') cs = [] \<Longrightarrow> strip_tags (CHR ''<'' # cs) = CHR ''<'' # strip_tags cs"
  "dropWhile (\<lambda>x. x \<noteq> CHR ''>'') cs = r # rest \<Longrightarrow> strip_tags (CHR ''<'' # cs) = strip_tags rest"
  by (simp_all only: strip_tags.simps if_False if_True simp_thms list.case)

declare strip_tags.simps(2) [simp del]

lemma set_strip_tags: "set (strip_tags s) \<subseteq> set s"
proof (induction s rule: strip_tags.induct)
  case (2 c cs)
  show ?case
  proof (cases "c = CHR ''<''")
    case True
    show ?thesis
    proof (cases "dropWhile (\<lambda>x. x \<noteq> CHR ''>'') cs")
      case Nil
      from 2(1) [OF True Nil] show ?thesis unfolding True strip_tags_cases(2) [OF Nil] by auto
    next
      case (Cons r rest)
      then have "set rest \<subseteq> set cs" by (metis set_dropWhileD list.set_intros(2) subsetI)
      with 2(2) [OF True Cons] show ?thesis unfolding True strip_tags_cases(3) [OF Cons] by auto
    qed
  next
    case False
    from 2(3) [OF this] show ?thesis unfolding strip_tags_cases(1) [OF False] by auto
  qed
qed simp

lemma strip_tags_clean: "\<not> has_tag (strip_tags s)"
proof (induction s rule: strip_tags.induct)
  case (2 c cs)
  show ?case
  proof (cases "c = CHR ''<''")
    case True
    show ?thesis
    proof (cases "dropWhile (\<lambda>x. x \<noteq> CHR ''>'') cs")
      case Nil
      then have "CHR ''>'' \<notin> set cs" by (simp only: dropWhile_eq_Nil_conv) blast
      then have "CHR ''>'' \<notin> set (strip_tags cs)" using set_strip_tags by blast
      with 2(1) [OF True Nil] show ?thesis unfolding True strip_tags_cases(2) [OF Nil] by simp
    next
      case (Cons r rest)
      from 2(2) [OF True Cons] show ?thesis unfolding True strip_tags_cases(3) [OF Cons] .
    qed
  next
    case False
    with 2(3) show ?thesis unfolding strip_tags_cases(1) [OF False] by simp
  qed
qed simp

lemma brackets_not_space: "is_space c \<Longrightarrow> c \<noteq> CHR ''<'' \<and> c \<noteq> CHR ''>''"
  by (auto simp: is_space_def code_point_def)

lemma brackets_strip_controls [simp]: "brackets (strip_controls b s) = brackets s"
  by (induction s) (auto simp: strip_controls_def kept_char_def Let_def code_point_def)

lemma brackets_squeeze [simp]: "brackets (squeeze s) = brackets s"
  by (induction s) (auto dest: brackets_not_space)

lemma brackets_drop_trailing_blanks [simp]: "brackets (drop_trailing_blanks s) = brackets s"
  by (induction s) (auto simp: is_blank_def)

lemma brackets_cap_newlines [simp]: "brackets (cap_newlines n s) = brackets s"
  by (induction s arbitrary: n) auto

lemma brackets_dropWhile [simp]: "brackets (dropWhile is_space s) = brackets s"
  by (induction s) (auto dest: brackets_not_space)

lemma brackets_strip [simp]: "brackets (py_strip s) = brackets s" "brackets (py_rstrip s) = brackets s"
  by (simp_all add: py_strip_def py_rstrip_def)

lemma sanitize_text_no_tag: "\<not> has_tag (sanitize_text env n b s)"
proof -
  let ?t = "strip_tags (tx_unescape env (tx_nfc env s))"
  have *: "\<not> has_tag t" if "brackets t = brackets ?t" for t
    using that strip_tags_clean [of "tx_unescape env (tx_nfc env s)"] by (metis has_tag_brackets)
  have "\<not> has_tag (py_rstrip (take k t))" if "brackets t = brackets ?t" for k t
  proof
    assume "has_tag (py_rstrip (take k t))"
    then have "has_tag (take k t)" by (metis has_tag_brackets brackets_strip(2))
    then show False using * [OF that] has_tag_take by blast
  qed
  with * show ?thesis by (auto simp: sanitize_text_def Let_def split: option.splits)
qed

definition printable :: "bool \<Rightarrow> char \<Rightarrow> bool" where
  "printable allow_newlines c \<longleftrightarrow> (let code = code_point c in
     (32 \<le> code \<and> code < 127) \<or> 160 \<le> code \<or> (allow_newlines \<and> (c = tab_char \<or> c = newline)))"

lemma printable_strip_controls: "list_all (printable b) (strip_controls b s)"
  by (induction s) (auto simp: strip_controls_def kept_char_def printable_def Let_def code_point_def)

lemma set_squeeze: "set (squeeze s) \<subseteq> insert (CHR '' '') (set s)"
  by (induction s) auto

lemma set_drop_trailing_blanks: "set (drop_trailing_blanks s) \<subseteq> set s"
  by (induction s) auto

lemma set_cap_newlines: "set (cap_newlines n s) \<subseteq> set s"
  by (induction s arbitrary: n) auto

lemma set_py_rstrip: "set (py_rstrip s) \<subseteq> set s"
  by (auto simp: py_rstrip_def dest: set_dropWhileD)

lemma set_py_strip: "set (py_strip s) \<subseteq> set s"
  by (auto simp: py_strip_def dest!: set_dropWhileD)

lemma sanitize_text_printable: "list_all (printable b) (sanitize_text env n b s)"
proof -
  let ?t = "strip_controls b (strip_tags (tx_unescape env (tx_nfc env s)))"
  have t: "c \<in> set ?t \<Longrightarrow> printable b c" for c
    using printable_strip_controls [of b] by (auto simp: list_all_iff)
  have space: "printable b (CHR '' '')" by (simp add: printable_def code_point_def)
  have "set (squeeze ?t) \<subseteq> Collect (printable b)" using set_squeeze [of ?t] t space by blast
  moreover have "set (cap_newlines 0 (drop_trailing_blanks ?t)) \<subseteq> Collect (printable b)"
    using set_cap_newlines set_drop_trailing_blanks t by blast
  ultimately have full: "set (py_strip (if b then cap_newlines 0 (drop_trailing_blanks ?t) else squeeze ?t)) \<subseteq> Collect (printable b)"
    using set_py_strip by (metis (full_types) subset_trans)
  have "set (py_rstrip (take k u)) \<subseteq> Collect (printable b)" if "set u \<subseteq> Collect (printable b)" for k u
    using set_py_rstrip [of "take k u"] set_take_subset [of k u] that by blast
  from full this [OF full] show ?thesis
    by (cases b; cases n) (auto simp: sanitize_text_def Let_def list_all_iff)
qed

lemma sanitize_text_length: "length (sanitize_text env (Some n) b s) \<le> n"
proof -
  have "length (py_rstrip (take n t)) \<le> n" for t :: string
    using length_dropWhile_le [of is_space "rev (take n t)"] by (simp add: py_rstrip_def)
  then show ?thesis by (simp add: sanitize_text_def Let_def)
qed

end
