(* ===== verification/Correlation.thy ===== *)
theory Correlation
  imports Playbook_Plan
begin

section \<open>Correlation rules and playbook triggers\<close>

text \<open>
  \<open>services/correlation.py\<close>: the built-in rules, each a predicate on the context of a signal that may
  raise, and the trigger conditions of a playbook.  A rule that raises is skipped; a condition that
  raises leaves the evaluation.
\<close>

record corr_env =
  cx_py :: py_env
  cx_float :: "string \<Rightarrow> rat option"

record corr_match =
  cm_rule :: string
  cm_title :: string
  cm_severity :: string
  cm_description :: string

type_synonym rule_fn = "corr_env \<Rightarrow> jdict \<Rightarrow> exn + bool"

subsection \<open>The rules\<close>

definition malicious_ip :: rule_fn where
  "malicious_ip env ctx = Inr (truthy (jget ctx ''is_malicious''))"

definition abuse_score :: "jdict \<Rightarrow> exn + int" where
  "abuse_score ctx = py_int (py_or (jget ctx ''abuse_score'') (py_or (jget ctx ''abuse_confidence_score'') (JInt 0)))"

definition high_abuse :: rule_fn where
  "high_abuse env ctx = (case abuse_score ctx of Inl e \<Rightarrow> Inl e | Inr n \<Rightarrow> Inr (75 < n))"

definition threat_seen :: "jdict \<Rightarrow> bool" where
  "threat_seen ctx \<longleftrightarrow> truthy (py_or (jget ctx ''threat_match'') (jget ctx ''malicious_ip_detected''))"

definition threat_match :: rule_fn where
  "threat_match env ctx = Inr (threat_seen ctx)"

definition below :: "json \<Rightarrow> rat \<Rightarrow> exn + bool" where
  "below v n = (case num_value v of None \<Rightarrow> Inl TypeError | Some q \<Rightarrow> Inr (q < n))"

definition behavioral_anomaly :: rule_fn where
  "behavioral_anomaly env ctx =
     (let entropy = jget ctx ''behavioral_entropy'' in
      if entropy \<noteq> JNull then (case py_float (cx_float env) entropy of Inl e \<Rightarrow> Inl e | Inr q \<Rightarrow> Inr (3 / 4 < q))
      else (case py_or (jget ctx ''behavioral'') (JObj []) of
          JObj b \<Rightarrow> (case below (jget_default b ''scroll_depth_pct'' (JInt 100)) 5 of
              Inl e \<Rightarrow> Inl e
            | Inr shallow \<Rightarrow> if shallow then below (jget_default b ''session_duration_s'' (JInt 60)) 8 else Inr False)
        | _ \<Rightarrow> Inl (OtherError ''AttributeError'' [])))"

definition anomaly_score :: "corr_env \<Rightarrow> jdict \<Rightarrow> exn + rat" where
  "anomaly_score env ctx = py_float (cx_float env) (py_or (jget ctx ''anomaly_score'') (JInt 0))"

definition high_anomaly_score :: rule_fn where
  "high_anomaly_score env ctx = (case anomaly_score env ctx of Inl e \<Rightarrow> Inl e | Inr q \<Rightarrow> Inr (7 / 10 \<le> q))"

definition correlation_rules :: "(corr_match \<times> rule_fn) list" where
  "correlation_rules =
    [(\<lparr>cm_rule = ''malicious_ip'', cm_title = ''Malicious IP detected'', cm_severity = ''critical'',
       cm_description = ''Traffic matched a known malicious indicator feed.''\<rparr>, malicious_ip),
     (\<lparr>cm_rule = ''high_abuse_score'', cm_title = ''High abuse confidence'', cm_severity = ''high'',
       cm_description = ''IP exceeded abuse confidence threshold (>75).''\<rparr>, high_abuse),
     (\<lparr>cm_rule = ''threat_correlation'', cm_title = ''Threat intel correlation'', cm_severity = ''high'',
       cm_description = ''Endpoint telemetry correlated with threat intelligence.''\<rparr>, threat_match),
     (\<lparr>cm_rule = ''behavioral_anomaly'', cm_title = ''Behavioral session anomaly'', cm_severity = ''medium'',
       cm_description = ''Session behavior deviates from expected human patterns.''\<rparr>, behavioral_anomaly),
     (\<lparr>cm_rule = ''ml_anomaly'', cm_title = ''ML anomaly threshold exceeded'', cm_severity = ''high'',
       cm_description = ''Platform threat model scored above auto-response threshold.''\<rparr>, high_anomaly_score)]"

definition evaluate_correlation_rules :: "corr_env \<Rightarrow> jdict \<Rightarrow> corr_match list" where
  "evaluate_correlation_rules env ctx = map fst (filter (\<lambda>(m, fn). fn env ctx = Inr True) correlation_rules)"

subsection \<open>The trigger of a playbook\<close>

text \<open>\<open>set(value)\<close>: only hashable elements; a string is its characters, a dict its keys.\<close>

definition py_set :: "json \<Rightarrow> exn + json list" where
  "py_set v = (case v of
     JArr xs \<Rightarrow> if list_ex (\<lambda>x. case x of JArr _ \<Rightarrow> True | JObj _ \<Rightarrow> True | _ \<Rightarrow> False) xs then Inl TypeError else Inr xs
   | JStr s \<Rightarrow> Inr (map (\<lambda>c. JStr [c]) s)
   | JObj kvs \<Rightarrow> Inr (map (\<lambda>kv. JStr (fst kv)) kvs)
   | _ \<Rightarrow> Inl TypeError)"

definition event_type_ok :: "jdict \<Rightarrow> jdict \<Rightarrow> exn + bool" where
  "event_type_ok conditions ctx = (let event_type = jget conditions ''event_type'' in
     Inr (truthy event_type \<longrightarrow> py_eq (jget ctx ''event_type'') event_type))"

definition min_abuse_ok :: "jdict \<Rightarrow> jdict \<Rightarrow> exn + bool" where
  "min_abuse_ok conditions ctx = (let min_abuse = jget conditions ''min_abuse_score'' in
     if min_abuse = JNull then Inr True
     else (case abuse_score ctx of Inl e \<Rightarrow> Inl e
       | Inr score \<Rightarrow> (case py_int min_abuse of Inl e \<Rightarrow> Inl e | Inr n \<Rightarrow> Inr (n \<le> score))))"

definition malicious_ok :: "jdict \<Rightarrow> jdict \<Rightarrow> exn + bool" where
  "malicious_ok conditions ctx = Inr (truthy (jget conditions ''is_malicious'') \<longrightarrow> truthy (jget ctx ''is_malicious''))"

definition threat_ok :: "jdict \<Rightarrow> jdict \<Rightarrow> exn + bool" where
  "threat_ok conditions ctx = Inr (truthy (jget conditions ''threat_match'') \<longrightarrow> threat_seen ctx)"

definition min_anomaly_ok :: "corr_env \<Rightarrow> jdict \<Rightarrow> jdict \<Rightarrow> exn + bool" where
  "min_anomaly_ok env conditions ctx = (let min_anomaly = jget conditions ''min_anomaly_score'' in
     if min_anomaly = JNull then Inr True
     else (case anomaly_score env ctx of Inl e \<Rightarrow> Inl e
       | Inr score \<Rightarrow> (case py_float (cx_float env) min_anomaly of Inl e \<Rightarrow> Inl e | Inr q \<Rightarrow> Inr (q \<le> score))))"

definition rules_ok :: "corr_env \<Rightarrow> jdict \<Rightarrow> jdict \<Rightarrow> exn + bool" where
  "rules_ok env conditions ctx = (let rule_ids = jget conditions ''rule_ids'' in
     if \<not> truthy rule_ids then Inr True
     else (case py_set rule_ids of Inl e \<Rightarrow> Inl e
       | Inr ids \<Rightarrow> Inr (list_ex (\<lambda>m. JStr (cm_rule m) \<in> set ids) (evaluate_correlation_rules env ctx))))"

fun all_hold :: "(exn + bool) list \<Rightarrow> exn + bool" where
  "all_hold [] = Inr True"
| "all_hold (Inl e # cs) = Inl e"
| "all_hold (Inr b # cs) = (if b then all_hold cs else Inr False)"

definition evaluate_playbook_trigger :: "corr_env \<Rightarrow> bool \<Rightarrow> jdict \<Rightarrow> jdict \<Rightarrow> exn + bool" where
  "evaluate_playbook_trigger env active conditions ctx =
     (if conditions = [] \<or> \<not> active then Inr False
      else all_hold [event_type_ok conditions ctx, min_abuse_ok conditions ctx, malicious_ok conditions ctx,
        threat_ok conditions ctx, min_anomaly_ok env conditions ctx, rules_ok env conditions ctx])"

subsection \<open>Facts\<close>

lemma all_hold_True_iff: "all_hold cs = Inr True \<longleftrightarrow> list_all (\<lambda>c. c = Inr True) cs"
  by (induction cs rule: all_hold.induct) auto

lemma matches_sublist: "set (evaluate_correlation_rules env ctx) \<subseteq> fst ` set correlation_rules"
  unfolding evaluate_correlation_rules_def by auto

lemma match_rule_ids: "m \<in> set (evaluate_correlation_rules env ctx) \<Longrightarrow>
    cm_rule m \<in> {''malicious_ip'', ''high_abuse_score'', ''threat_correlation'', ''behavioral_anomaly'', ''ml_anomaly''}
    \<and> cm_severity m \<in> {''medium'', ''high'', ''critical''}"
  using matches_sublist [of env ctx] by (auto simp: correlation_rules_def)

lemma distinct_matches: "distinct (map cm_rule (evaluate_correlation_rules env ctx))"
proof -
  have "distinct (map (\<lambda>r. cm_rule (fst r)) (filter p correlation_rules))" for p
    by (rule distinct_map_filter) (simp add: correlation_rules_def)
  then show ?thesis by (simp add: evaluate_correlation_rules_def comp_def)
qed

lemma malicious_matches: "truthy (jget ctx ''is_malicious'') \<Longrightarrow>
    \<exists>m ms. evaluate_correlation_rules env ctx = m # ms \<and> cm_rule m = ''malicious_ip'' \<and> cm_severity m = ''critical''"
  by (simp add: evaluate_correlation_rules_def correlation_rules_def malicious_ip_def)

lemma trigger_active: "evaluate_playbook_trigger env active conditions ctx = Inr True \<Longrightarrow> active \<and> conditions \<noteq> []"
  by (simp add: evaluate_playbook_trigger_def split: if_splits)

end
