(* ===== verification/Soc.thy ===== *)
theory Soc
  imports Correlation Playbook_Handlers
begin

section \<open>SOC cases\<close>

text \<open>
  \<open>services/soc.py\<close>: the incident cases of a tenant, and the tables of the signal lane
  (\<open>services/siem.py\<close>, the receipts of \<open>services/threat_intel.py\<close>) they refer to.  They live in the
  same database as the playbooks, so the database of the lane extends that of the playbooks.  The pool
  registers no JSON codec, hence a \<open>JSONB\<close> column arrives as text, and the dictionary test of
  \<open>_case_dict\<close> always answers with the empty dictionary.
\<close>

record soc_case_row =
  ca_id :: uuid
  ca_tenant :: uuid
  ca_title :: string
  ca_description :: string
  ca_status :: string
  ca_severity :: string
  ca_assignee :: "string option"
  ca_signal :: "uuid option"
  ca_correlation :: "uuid option"
  ca_rules :: "string list"
  ca_metadata :: json
  ca_creator :: string
  ca_created :: time
  ca_updated :: time

record signal_row =
  sg_id :: uuid
  sg_tenant :: uuid
  sg_client :: string
  sg_sha :: string
  sg_observed :: time
  sg_source :: string
  sg_category :: string
  sg_type :: string
  sg_severity :: string
  sg_title :: string
  sg_summary :: string
  sg_confidence :: int
  sg_observables :: "json list"
  sg_metadata :: jdict
  sg_completed :: "time option"
  sg_result :: json
  sg_creator :: string
  sg_created :: time

record correlation_row =
  co_id :: uuid
  co_tenant :: uuid
  co_key :: string
  co_sha :: string
  co_completed :: "time option"
  co_creator :: string
  co_matches :: nat
  co_case :: "uuid option"
  co_runs :: nat
  co_result :: json
  co_created :: time
  co_updated :: time

record sg_db = pb_db +
  security_signals :: "signal_row list"
  correlation_receipts :: "correlation_row list"
  soc_cases :: "soc_case_row list"
  live_accounts :: "(uuid \<times> string) list"

type_synonym 'a sg_prog = "(sg_db, net_answer, 'a) prog"

record sg_env = corr_env +
  se_case :: "soc_case_row \<Rightarrow> jdict"
  se_run :: "run_view \<Rightarrow> jdict"
  se_iso :: "time \<Rightarrow> string"

abbreviation "writer_roles \<equiv> [''owner'', ''admin'', ''member'']"

definition check_violation :: exn where "check_violation = OtherError ''CheckViolationError'' []"
definition not_null_violation :: exn where "not_null_violation = OtherError ''NotNullViolationError'' []"
definition foreign_key_violation :: exn where "foreign_key_violation = OtherError ''ForeignKeyViolationError'' []"

definition case_severities :: "string list" where
  "case_severities = [''low'', ''medium'', ''high'', ''critical'']"

definition case_statuses :: "string list" where
  "case_statuses = [''open'', ''investigating'', ''mitigated'', ''resolved'', ''false_positive'']"

definition ensure_soc_schema :: "unit sg_prog" where
  "ensure_soc_schema = bindM ensure_secure_schema (\<lambda>_. ensure_schema ''secure case schema missing; apply backend/sql/020'')"

definition case_dict :: "soc_case_row \<Rightarrow> soc_case_row" where
  "case_dict r = r\<lparr>ca_metadata := JObj []\<rparr>"

subsection \<open>Statements\<close>

definition same_source :: "soc_case_row \<Rightarrow> soc_case_row \<Rightarrow> bool" where
  "same_source r q \<longleftrightarrow> ca_tenant q = ca_tenant r \<and>
     (ca_signal r \<noteq> None \<and> ca_signal q = ca_signal r \<or> ca_correlation r \<noteq> None \<and> ca_correlation q = ca_correlation r)"

definition case_refs_ok :: "soc_case_row \<Rightarrow> sg_db \<Rightarrow> bool" where
  "case_refs_ok r d \<longleftrightarrow>
     (case ca_signal r of None \<Rightarrow> True | Some s \<Rightarrow> s \<in> sg_id ` set (security_signals d)) \<and>
     (case ca_correlation r of None \<Rightarrow> True | Some c \<Rightarrow> c \<in> co_id ` set (correlation_receipts d))"

text \<open>
  The two inserts differ in what a conflict does: \<open>ON CONFLICT DO NOTHING\<close> returns no row.
\<close>

definition insert_case :: "soc_case_row \<Rightarrow> sg_db \<Rightarrow> exn + soc_case_row option \<times> sg_db" where
  "insert_case r d =
     (let row = r\<lparr>ca_created := now d, ca_updated := now d\<rparr> in
      if ca_severity r \<notin> set case_severities then Inl check_violation
      else if list_ex (\<lambda>q. ca_id q = ca_id r \<or> same_source r q) (soc_cases d) then Inr (None, d)
      else if \<not> case_refs_ok r d then Inl foreign_key_violation
      else Inr (Some row, d\<lparr>soc_cases := soc_cases d @ [row]\<rparr>))"

definition new_case :: "uuid \<Rightarrow> uuid \<Rightarrow> string \<Rightarrow> string \<Rightarrow> string \<Rightarrow> json \<Rightarrow> string \<Rightarrow> soc_case_row" where
  "new_case i tenant title description severity metadata creator =
     \<lparr>ca_id = i, ca_tenant = tenant, ca_title = title, ca_description = description, ca_status = ''open'',
      ca_severity = severity, ca_assignee = None, ca_signal = None, ca_correlation = None, ca_rules = [],
      ca_metadata = metadata, ca_creator = creator, ca_created = 0, ca_updated = 0\<rparr>"

definition create_case :: "auth_user \<Rightarrow> uuid \<Rightarrow> string \<Rightarrow> string \<Rightarrow> string \<Rightarrow> jdict \<Rightarrow> soc_case_row sg_prog" where
  "create_case user tenant title description severity metadata =
     bindM (require_tenant_access user tenant (Some writer_roles) (Some [''cases:write''])) (\<lambda>_.
     bindM ensure_soc_schema (\<lambda>_.
     let details = [(''severity'', JStr severity), (''source'', JStr ''manual'')] in
     bindM (record_required ''case.create_attempt'' (Some (actor_id user)) (Some tenant) ''incident_case'' [] details) (\<lambda>_.
     bindM uuid4 (\<lambda>i.
     bindM (stmt (\<lambda>d. case insert_case (new_case i tenant (py_strip title) description severity (JObj metadata) (au_user_id user)) d of
         Inl e \<Rightarrow> Inl e
       | Inr (None, _) \<Rightarrow> Inl DatabaseError
       | Inr (Some row, d') \<Rightarrow> Inr (row, d'))) (\<lambda>row.
     bindM (record_required ''case.create'' (Some (actor_id user)) (Some tenant) ''incident_case'' (ca_id row) details) (\<lambda>_.
     ret (case_dict row)))))))"

definition list_cases :: "auth_user \<Rightarrow> uuid \<Rightarrow> int \<Rightarrow> soc_case_row list sg_prog" where
  "list_cases user tenant limit =
     bindM (require_tenant_access user tenant None (Some [''cases:read''])) (\<lambda>_.
     bindM ensure_soc_schema (\<lambda>_.
     bindM (query (\<lambda>d. take (nat (max 1 (min limit 500))) (rev (sort_key ca_created
         (filter (\<lambda>r. ca_tenant r = tenant) (soc_cases d)))))) (\<lambda>rows.
     ret (map case_dict rows))))"

text \<open>
  The columns a request sets; \<open>Some None\<close> is an explicit \<open>null\<close>.  The column \<open>metadata\<close> takes the
  JSON text of the value, so an explicit \<open>null\<close> becomes the JSON value \<open>null\<close>, not an SQL \<open>NULL\<close>.
\<close>

record case_updates =
  cu_title :: "string option option"
  cu_description :: "string option option"
  cu_status :: "string option option"
  cu_severity :: "string option option"
  cu_assignee :: "string option option"
  cu_metadata :: "json option"

definition case_fields :: "case_updates \<Rightarrow> string list" where
  "case_fields u =
     (if cu_assignee u \<noteq> None then [''assigned_actor_id''] else [])
     @ (if cu_description u \<noteq> None then [''description''] else [])
     @ (if cu_metadata u \<noteq> None then [''metadata''] else [])
     @ (if cu_severity u \<noteq> None then [''severity''] else [])
     @ (if cu_status u \<noteq> None then [''status''] else [])
     @ (if cu_title u \<noteq> None then [''title''] else [])"

definition patch_case :: "case_updates \<Rightarrow> time \<Rightarrow> soc_case_row \<Rightarrow> soc_case_row" where
  "patch_case u t r =
     (let text = (\<lambda>x old. case x of Some (Some v) \<Rightarrow> v | _ \<Rightarrow> old) in
      r\<lparr>ca_title := text (cu_title u) (ca_title r), ca_description := text (cu_description u) (ca_description r),
        ca_status := text (cu_status u) (ca_status r), ca_severity := text (cu_severity u) (ca_severity r),
        ca_assignee := (case cu_assignee u of Some v \<Rightarrow> v | None \<Rightarrow> ca_assignee r),
        ca_metadata := (case cu_metadata u of Some v \<Rightarrow> v | None \<Rightarrow> ca_metadata r), ca_updated := t\<rparr>)"

definition update_case_stmt :: "uuid \<Rightarrow> uuid \<Rightarrow> case_updates \<Rightarrow> sg_db \<Rightarrow> exn + soc_case_row option \<times> sg_db" where
  "update_case_stmt i tenant u d =
     (let hit = (\<lambda>r. ca_id r = i \<and> ca_tenant r = tenant) in
      case first_row hit (soc_cases d) of
        None \<Rightarrow> Inr (None, d)
      | Some r \<Rightarrow> (let r' = patch_case u (now d) r in
          if Some None \<in> {cu_title u, cu_description u, cu_status u, cu_severity u} then Inl not_null_violation
          else if ca_severity r' \<notin> set case_severities \<or> ca_status r' \<notin> set case_statuses then Inl check_violation
          else Inr (Some r', d\<lparr>soc_cases := upd_where hit (patch_case u (now d)) (soc_cases d)\<rparr>)))"

definition owns_actor :: "uuid \<Rightarrow> string \<Rightarrow> sg_db \<Rightarrow> bool" where
  "owns_actor tenant actor d \<longleftrightarrow>
     list_ex (\<lambda>m. tm_tenant m = tenant \<and> tm_user m = actor) (tenant_members d) \<or> (tenant, actor) \<in> set (live_accounts d)"

definition update_case :: "auth_user \<Rightarrow> uuid \<Rightarrow> uuid \<Rightarrow> case_updates \<Rightarrow> soc_case_row sg_prog" where
  "update_case user tenant i u =
     bindM (require_tenant_access user tenant (Some writer_roles) (Some [''cases:write''])) (\<lambda>_.
     bindM ensure_soc_schema (\<lambda>_.
     let details = [(''fields'', JArr (map JStr (case_fields u)))] in
     if case_fields u = [] then raise (ValueError ''at least one case field must be supplied'')
     else
     bindM (case cu_assignee u of
         Some (Some actor) \<Rightarrow> bindM (query (owns_actor tenant actor)) (\<lambda>owned.
           if owned then ret () else raise (HTTPException 404 ''assignee not found''))
       | _ \<Rightarrow> ret ()) (\<lambda>_.
     bindM (record_required ''case.update_attempt'' (Some (actor_id user)) (Some tenant) ''incident_case'' i details) (\<lambda>_.
     bindM (stmt (update_case_stmt i tenant u)) (\<lambda>row. case row of
         None \<Rightarrow> raise (HTTPException 404 ''case not found'')
       | Some r \<Rightarrow>
           bindM (record_required ''case.update'' (Some (actor_id user)) (Some tenant) ''incident_case'' i details) (\<lambda>_.
           ret (case_dict r)))))))"

subsection \<open>Opening a case from a context\<close>

definition match_dict :: "corr_match \<Rightarrow> jdict" where
  "match_dict m = [(''rule_id'', JStr (cm_rule m)), (''title'', JStr (cm_title m)),
     (''severity'', JStr (cm_severity m)), (''description'', JStr (cm_description m))]"

definition correlated_case ::
  "uuid \<Rightarrow> uuid \<Rightarrow> jdict \<Rightarrow> corr_match list \<Rightarrow> string \<Rightarrow> uuid option \<Rightarrow> uuid option \<Rightarrow> soc_case_row" where
  "correlated_case i tenant context matches creator signal correlation =
     (let primary = hd matches in
      (new_case i tenant (cm_title primary) (cm_description primary) (cm_severity primary)
        (JObj [(''context'', JObj context), (''matches'', JArr (map (\<lambda>m. JObj (match_dict m)) matches))]) creator)
        \<lparr>ca_rules := map cm_rule matches, ca_signal := signal, ca_correlation := correlation\<rparr>)"

definition select_case_by_source :: "uuid \<Rightarrow> uuid option \<Rightarrow> uuid option \<Rightarrow> sg_db \<Rightarrow> soc_case_row option" where
  "select_case_by_source tenant signal correlation d = first_row (\<lambda>r. ca_tenant r = tenant \<and>
     (signal \<noteq> None \<and> ca_signal r = signal \<or> correlation \<noteq> None \<and> ca_correlation r = correlation)) (soc_cases d)"

definition source_json :: "uuid option \<Rightarrow> json" where
  "source_json s = (case s of None \<Rightarrow> JNull | Some i \<Rightarrow> JStr i)"

definition open_case_from_context ::
  "sg_env \<Rightarrow> auth_user \<Rightarrow> uuid \<Rightarrow> jdict \<Rightarrow> uuid option \<Rightarrow> uuid option \<Rightarrow> soc_case_row option sg_prog" where
  "open_case_from_context env user tenant context signal correlation =
     bindM (require_tenant_access user tenant (Some writer_roles) (Some [''cases:write''])) (\<lambda>_.
     let matches = evaluate_correlation_rules (corr_env.truncate env) context;
         ids = JArr (map (\<lambda>m. JStr (cm_rule m)) matches) in
     if matches = [] then ret None
     else
     bindM ensure_soc_schema (\<lambda>_.
     bindM (record_required ''case.correlate_attempt'' (Some (actor_id user)) (Some tenant) ''incident_case''
         (case signal of Some s \<Rightarrow> s | None \<Rightarrow> (case correlation of Some c \<Rightarrow> c | None \<Rightarrow> ''unkeyed''))
         [(''rule_ids'', ids)]) (\<lambda>_.
     bindM uuid4 (\<lambda>i.
     bindM (stmt (insert_case (correlated_case i tenant context matches (au_user_id user) signal correlation))) (\<lambda>inserted.
     bindM (case inserted of
         Some r \<Rightarrow> ret (Some r)
       | None \<Rightarrow> if signal \<noteq> None \<or> correlation \<noteq> None then query (select_case_by_source tenant signal correlation)
           else ret None) (\<lambda>row. case row of
         None \<Rightarrow> ret None
       | Some r \<Rightarrow>
           bindM (if inserted = None then ret ()
             else record_required ''case.correlated'' (Some (actor_id user)) (Some tenant) ''incident_case'' (ca_id r)
               [(''rule_ids'', ids), (''source_signal_id'', source_json signal),
                (''source_correlation_id'', source_json correlation)]) (\<lambda>_.
           ret (Some (case_dict r)))))))))"

end
