(* ===== verification/Siem.thy ===== *)
theory Siem
  imports Soc
begin

section \<open>The signal lane: signals, correlation receipts, automation\<close>

text \<open>
  \<open>services/siem.py\<close>, \<open>run_matching_playbooks\<close> of \<open>services/playbooks.py\<close>, the correlation receipts of
  \<open>services/threat_intel.py\<close> and the route that uses them (\<open>api/v1/threat_intel.py\<close>).  A normalized
  signal is stored once per client identifier, correlated, turned into a case, handed to the playbooks,
  and completed with a snapshot of the result, which a repeated request gets back.
\<close>

subsection \<open>Requests and views\<close>

record observable =
  ob_type :: string
  ob_value :: string
  ob_role :: string
  ob_confidence :: int

record signal_request =
  sq_tenant :: uuid
  sq_client :: string
  sq_observed :: time
  sq_source :: string
  sq_category :: string
  sq_type :: string
  sq_severity :: string
  sq_title :: string
  sq_summary :: string
  sq_confidence :: int
  sq_observables :: "observable list"
  sq_metadata :: jdict
  sq_correlate :: bool
  sq_playbooks :: bool

definition observable_json :: "observable \<Rightarrow> json" where
  "observable_json b = JObj [(''type'', JStr (ob_type b)), (''value'', JStr (ob_value b)),
     (''role'', JStr (ob_role b)), (''confidence'', JInt (ob_confidence b))]"

definition content_sha256 :: "sg_env \<Rightarrow> signal_request \<Rightarrow> string" where
  "content_sha256 env q = pe_sha256 (cx_py env) (pe_dumps (cx_py env) (JObj
     [(''category'', JStr (sq_category q)), (''client_signal_id'', JStr (sq_client q)),
      (''confidence'', JInt (sq_confidence q)), (''metadata'', JObj (sq_metadata q)),
      (''observables'', JArr (map observable_json (sq_observables q))),
      (''observed_at'', JStr (se_iso env (sq_observed q))), (''severity'', JStr (sq_severity q)),
      (''signal_type'', JStr (sq_type q)), (''source'', JStr (sq_source q)), (''summary'', JStr (sq_summary q)),
      (''tenant_id'', JStr (sq_tenant q)), (''title'', JStr (sq_title q))]))"

text \<open>The columns a caller sees: the digest and the processing columns are left out.\<close>

definition signal_dict :: "signal_row \<Rightarrow> signal_row" where
  "signal_dict r = r\<lparr>sg_sha := [], sg_completed := None, sg_result := JNull\<rparr>"

record snapshot =
  sn_matches :: "jdict list"
  sn_case :: "jdict option"
  sn_runs :: "jdict list"

definition dicts_of :: "json \<Rightarrow> jdict list" where
  "dicts_of v = (case v of JArr xs \<Rightarrow> concat (map (\<lambda>x. case x of JObj kvs \<Rightarrow> [kvs] | _ \<Rightarrow> []) xs) | _ \<Rightarrow> [])"

definition snapshot_from :: "string \<Rightarrow> json \<Rightarrow> snapshot" where
  "snapshot_from runs_key v = (let parsed = (case v of JObj kvs \<Rightarrow> kvs | _ \<Rightarrow> []) in
     \<lparr>sn_matches = dicts_of (jget parsed ''matches''),
      sn_case = (case jget parsed ''case'' of JObj kvs \<Rightarrow> Some kvs | _ \<Rightarrow> None),
      sn_runs = dicts_of (jget parsed runs_key)\<rparr>)"

definition snapshot_json :: "string \<Rightarrow> snapshot \<Rightarrow> json" where
  "snapshot_json runs_key s = JObj [(''matches'', JArr (map JObj (sn_matches s))),
     (''case'', case sn_case s of None \<Rightarrow> JNull | Some c \<Rightarrow> JObj c), (runs_key, JArr (map JObj (sn_runs s)))]"

definition signal_processing_result :: "json \<Rightarrow> snapshot" where
  "signal_processing_result = snapshot_from ''playbook_runs''"

definition correlation_result_snapshot :: "json \<Rightarrow> snapshot" where
  "correlation_result_snapshot = snapshot_from ''playbooks''"

definition snapshot_of :: "sg_env \<Rightarrow> corr_match list \<Rightarrow> soc_case_row option \<Rightarrow> run_view list \<Rightarrow> snapshot" where
  "snapshot_of env matches c runs = \<lparr>sn_matches = map match_dict matches,
     sn_case = map_option (se_case env) c, sn_runs = map (se_run env) runs\<rparr>"

definition numeric_or :: "json \<Rightarrow> 'a \<Rightarrow> (rat \<Rightarrow> 'a) \<Rightarrow> 'a" where
  "numeric_or v dflt f = (case v of JInt i \<Rightarrow> f (of_int i) | JFloat q \<Rightarrow> f q | _ \<Rightarrow> dflt)"

definition trunc :: "rat \<Rightarrow> int" where "trunc q = (if 0 \<le> q then floor q else ceiling q)"

definition correlation_context :: "signal_request \<Rightarrow> jdict" where
  "correlation_context q =
     (let metadata = sq_metadata q;
          high_threat = sq_category q \<in> {''malware'', ''threat_intelligence''} \<and> sq_severity q \<in> {''high'', ''critical''} in
     [(''event_type'', JStr ''security_signal''), (''signal_type'', JStr (sq_type q)),
      (''category'', JStr (sq_category q)), (''severity'', JStr (sq_severity q)), (''source'', JStr (sq_source q)),
      (''confidence'', JInt (sq_confidence q)),
      (''is_malicious'', JBool (jget metadata ''is_malicious'' = JBool True \<or> high_threat)),
      (''threat_match'', JBool (jget metadata ''threat_match'' = JBool True \<or> high_threat)),
      (''abuse_confidence_score'', JInt (numeric_or (jget metadata ''abuse_confidence_score'') 0 trunc)),
      (''anomaly_score'', JFloat (numeric_or (jget metadata ''anomaly_score'') 0 (\<lambda>x. x))),
      (''behavioral_entropy'', jget metadata ''behavioral_entropy''),
      (''behavioral'', py_or (jget metadata ''behavioral'') (JObj [])),
      (''has_ip_observable'', JBool (list_ex (\<lambda>x. ob_type x \<in> {''ipv4'', ''ipv6''}) (sq_observables q)))])"

subsection \<open>Statements\<close>

definition ensure_siem_schema :: "unit sg_prog" where
  "ensure_siem_schema = bindM ensure_secure_schema (\<lambda>_. ensure_schema ''secure SIEM replay schema missing; apply backend/sql/025'')"

definition new_signal :: "sg_env \<Rightarrow> uuid \<Rightarrow> signal_request \<Rightarrow> string \<Rightarrow> signal_row" where
  "new_signal env i q creator =
     \<lparr>sg_id = i, sg_tenant = sq_tenant q, sg_client = sq_client q, sg_sha = content_sha256 env q,
      sg_observed = sq_observed q, sg_source = sq_source q, sg_category = sq_category q, sg_type = sq_type q,
      sg_severity = sq_severity q, sg_title = sq_title q, sg_summary = sq_summary q, sg_confidence = sq_confidence q,
      sg_observables = map observable_json (sq_observables q), sg_metadata = sq_metadata q,
      sg_completed = None, sg_result = JObj [], sg_creator = creator, sg_created = 0\<rparr>"

definition same_signal :: "uuid \<Rightarrow> string \<Rightarrow> signal_row \<Rightarrow> bool" where
  "same_signal tenant client r \<longleftrightarrow> sg_tenant r = tenant \<and> sg_client r = client"

definition insert_signal :: "signal_row \<Rightarrow> sg_db \<Rightarrow> exn + signal_row option \<times> sg_db" where
  "insert_signal r d =
     (let row = r\<lparr>sg_created := now d\<rparr> in
      if list_ex (same_signal (sg_tenant r) (sg_client r)) (security_signals d) then Inr (None, d)
      else if list_ex (\<lambda>q. sg_id q = sg_id r) (security_signals d) then Inl DatabaseError
      else Inr (Some row, d\<lparr>security_signals := security_signals d @ [row]\<rparr>))"

definition complete_signal :: "uuid \<Rightarrow> uuid \<Rightarrow> json \<Rightarrow> audit_row \<Rightarrow> sg_db \<Rightarrow> bool \<times> sg_db" where
  "complete_signal i tenant result audit d =
     (let hit = (\<lambda>r. sg_id r = i \<and> sg_tenant r = tenant \<and> sg_completed r = None) in
      if list_ex hit (security_signals d)
      then (True, add_audit audit (d\<lparr>security_signals := upd_where hit
        (\<lambda>r. r\<lparr>sg_completed := Some (now d), sg_result := result\<rparr>) (security_signals d)\<rparr>))
      else (False, d))"

subsection \<open>Automation\<close>

fun run_matching ::
  "sg_env \<Rightarrow> auth_user \<Rightarrow> uuid \<Rightarrow> jdict \<Rightarrow> string \<Rightarrow> string \<Rightarrow> uuid option \<Rightarrow> playbook_row list \<Rightarrow> run_view list sg_prog" where
  "run_matching env user tenant context prefix source signal [] = ret []"
| "run_matching env user tenant context prefix source signal (p # ps) =
     bindM (lift (evaluate_playbook_trigger (corr_env.truncate env) (pbk_active p) (pbk_conditions p) context)) (\<lambda>fires.
     if \<not> fires then run_matching env user tenant context prefix source signal ps
     else
     bindM (execute_playbook (cx_py env) user tenant (pbk_id p)
         (''auto:'' @ pe_sha256 (cx_py env) (prefix @ '':'' @ pbk_id p)) context source signal) (\<lambda>result.
     bindM (run_matching env user tenant context prefix source signal ps) (\<lambda>results.
     ret (result # results))))"

definition run_matching_playbooks ::
  "sg_env \<Rightarrow> auth_user \<Rightarrow> uuid \<Rightarrow> jdict \<Rightarrow> string \<Rightarrow> string \<Rightarrow> uuid option \<Rightarrow> run_view list sg_prog" where
  "run_matching_playbooks env user tenant context prefix source signal =
     bindM (authorize user tenant ''playbooks:execute'' None) (\<lambda>_.
     bindM ensure_playbook_schema (\<lambda>_.
     bindM (query (\<lambda>d. filter (\<lambda>p. pbk_tenant p = tenant \<and> pbk_active p) (playbooks d))) (\<lambda>rows.
     run_matching env user tenant context prefix source signal rows)))"

subsection \<open>A signal\<close>

record signal_answer =
  sa_signal :: signal_row
  sa_duplicate :: bool
  sa_snapshot :: snapshot

definition authorize_signal_snapshot :: "auth_user \<Rightarrow> uuid \<Rightarrow> snapshot \<Rightarrow> unit sg_prog" where
  "authorize_signal_snapshot user tenant s =
     bindM (if sn_case s \<noteq> None then require_tenant_access user tenant (Some writer_roles) (Some [''cases:write'']) else ret []) (\<lambda>_.
     bindM (if sn_runs s \<noteq> [] then require_tenant_access user tenant (Some writer_roles) (Some [''playbooks:execute'']) else ret []) (\<lambda>_.
     ret ()))"

text \<open>The playbooks, the snapshot and the completion of a signal whose case, if any, is \<open>c\<close>.\<close>

definition finish_signal ::
  "sg_env \<Rightarrow> auth_user \<Rightarrow> signal_request \<Rightarrow> signal_row \<Rightarrow> bool \<Rightarrow> soc_case_row option \<Rightarrow> signal_answer sg_prog" where
  "finish_signal env user q r created c =
     (let tenant = sq_tenant q; context = correlation_context q;
          matches = evaluate_correlation_rules (corr_env.truncate env) context in
     bindM (if sq_playbooks q
         then run_matching_playbooks env user tenant context (''signal:'' @ sg_id r) ''security_signal'' (Some (sg_id r))
         else ret []) (\<lambda>runs.
     let s = snapshot_of env matches c runs;
         audit = audit_record (if created then ''siem.signal.process'' else ''siem.signal.retry'')
           (Some (actor_id user)) (Some tenant) ''security_signal'' (sg_id r)
           [(''match_count'', JInt (int (length matches))), (''case_created'', JBool (c \<noteq> None)),
            (''playbook_run_count'', JInt (int (length runs))), (''duplicate'', JBool (\<not> created))] in
     bindM (stmt (\<lambda>d. Inr (complete_signal (sg_id r) tenant (snapshot_json ''playbook_runs'' s) audit d))) (\<lambda>completed.
     if completed then ret \<lparr>sa_signal = signal_dict r, sa_duplicate = \<not> created, sa_snapshot = s\<rparr>
     else
     bindM (query (\<lambda>d. first_row (\<lambda>x. sg_id x = sg_id r \<and> sg_tenant x = tenant) (security_signals d))) (\<lambda>row. case row of
         Some x \<Rightarrow> if sg_completed x = None
           then raise (RuntimeError ''security signal processing receipt could not be completed'')
           else ret \<lparr>sa_signal = signal_dict r, sa_duplicate = \<not> created, sa_snapshot = signal_processing_result (sg_result x)\<rparr>
       | None \<Rightarrow> raise (RuntimeError ''security signal processing receipt could not be completed'')))))"

definition process_signal :: "sg_env \<Rightarrow> auth_user \<Rightarrow> signal_request \<Rightarrow> signal_row \<Rightarrow> bool \<Rightarrow> signal_answer sg_prog" where
  "process_signal env user q r created =
     (let context = correlation_context q; matches = evaluate_correlation_rules (corr_env.truncate env) context in
     bindM (if sq_correlate q \<and> matches \<noteq> []
         then open_case_from_context env user (sq_tenant q) context (Some (sg_id r)) None else ret None)
       (finish_signal env user q r created))"

definition signal_details :: "signal_request \<Rightarrow> jdict" where
  "signal_details q = [(''source'', JStr (sq_source q)), (''category'', JStr (sq_category q)), (''severity'', JStr (sq_severity q))]"

definition create_signal :: "sg_env \<Rightarrow> auth_user \<Rightarrow> signal_request \<Rightarrow> signal_answer sg_prog" where
  "create_signal env user q =
     (let tenant = sq_tenant q; gate = (\<lambda>scope. require_tenant_access user tenant (Some writer_roles) (Some [scope])) in
     bindM (gate ''siem:write'') (\<lambda>_.
     bindM (if sq_correlate q then gate ''cases:write'' else ret []) (\<lambda>_.
     bindM (if sq_playbooks q then gate ''playbooks:execute'' else ret []) (\<lambda>_.
     bindM ensure_siem_schema (\<lambda>_.
     bindM (record_required ''siem.signal.accept_attempt'' (Some (actor_id user)) (Some tenant)
         ''security_signal'' (sq_client q) (signal_details q)) (\<lambda>_.
     bindM uuid4 (\<lambda>i.
     bindM (stmt (insert_signal (new_signal env i q (au_user_id user)))) (\<lambda>inserted. case inserted of
         Some r \<Rightarrow>
           bindM (record_required ''siem.signal.create'' (Some (actor_id user)) (Some tenant) ''security_signal'' (sg_id r)
               ((''client_signal_id'', JStr (sq_client q)) # signal_details q
                @ [(''observable_count'', JInt (int (length (sq_observables q))))])) (\<lambda>_.
           process_signal env user q r True)
       | None \<Rightarrow>
           bindM (query (\<lambda>d. first_row (same_signal tenant (sq_client q)) (security_signals d))) (\<lambda>row. case row of
             None \<Rightarrow> raise (RuntimeError ''idempotent security signal could not be resolved'')
           | Some r \<Rightarrow>
               if sg_sha r \<noteq> content_sha256 env q
               then raise (HTTPException 409 ''client_signal_id was already used with different normalized content'')
               else if sg_completed r \<noteq> None
               then (let s = signal_processing_result (sg_result r) in
                 bindM (authorize_signal_snapshot user tenant s) (\<lambda>_.
                 ret \<lparr>sa_signal = signal_dict r, sa_duplicate = True, sa_snapshot = s\<rparr>))
               else process_signal env user q r False)))))))))"

record signal_filter =
  sf_severity :: "string option"
  sf_category :: "string option"
  sf_source :: "string option"
  sf_after :: "time option"
  sf_before :: "time option"

definition passes_filter :: "signal_filter \<Rightarrow> signal_row \<Rightarrow> bool" where
  "passes_filter f r \<longleftrightarrow>
     (case sf_severity f of None \<Rightarrow> True | Some v \<Rightarrow> sg_severity r = v)
     \<and> (case sf_category f of None \<Rightarrow> True | Some v \<Rightarrow> sg_category r = v)
     \<and> (case sf_source f of None \<Rightarrow> True | Some v \<Rightarrow> sg_source r = v)
     \<and> (case sf_after f of None \<Rightarrow> True | Some t \<Rightarrow> t \<le> sg_observed r)
     \<and> (case sf_before f of None \<Rightarrow> True | Some t \<Rightarrow> sg_observed r \<le> t)"

definition list_signals :: "auth_user \<Rightarrow> uuid \<Rightarrow> signal_filter \<Rightarrow> int \<Rightarrow> signal_row list sg_prog" where
  "list_signals user tenant f limit =
     bindM (require_tenant_access user tenant None (Some [''siem:read''])) (\<lambda>_.
     bindM ensure_siem_schema (\<lambda>_.
     bindM (query (\<lambda>d. take (nat (max 1 (min limit 500))) (rev (sort_key (\<lambda>r. (sg_observed r, sg_id r))
         (filter (\<lambda>r. sg_tenant r = tenant \<and> passes_filter f r) (security_signals d)))))) (\<lambda>rows.
     ret (map signal_dict rows))))"

subsection \<open>Correlation receipts\<close>

definition insert_receipt :: "correlation_row \<Rightarrow> sg_db \<Rightarrow> exn + uuid option \<times> sg_db" where
  "insert_receipt r d =
     (let row = r\<lparr>co_created := now d, co_updated := now d\<rparr> in
      if list_ex (\<lambda>q. co_tenant q = co_tenant r \<and> co_key q = co_key r) (correlation_receipts d) then Inr (None, d)
      else if list_ex (\<lambda>q. co_id q = co_id r) (correlation_receipts d) then Inl DatabaseError
      else Inr (Some (co_id r), d\<lparr>correlation_receipts := correlation_receipts d @ [row]\<rparr>))"

definition new_receipt :: "uuid \<Rightarrow> uuid \<Rightarrow> string \<Rightarrow> string \<Rightarrow> string \<Rightarrow> correlation_row" where
  "new_receipt i tenant key sha creator = \<lparr>co_id = i, co_tenant = tenant, co_key = key, co_sha = sha, co_completed = None,
     co_creator = creator, co_matches = 0, co_case = None, co_runs = 0, co_result = JObj [], co_created = 0, co_updated = 0\<rparr>"

definition claim_correlation_receipt :: "uuid \<Rightarrow> string \<Rightarrow> string \<Rightarrow> string \<Rightarrow> (uuid \<times> bool) sg_prog" where
  "claim_correlation_receipt tenant key sha actor =
     bindM (ensure_schema ''secure threat schema missing'') (\<lambda>_.
     bindM uuid4 (\<lambda>i.
     bindM (stmt (insert_receipt (new_receipt i tenant key sha actor))) (\<lambda>inserted. case inserted of
         Some j \<Rightarrow> ret (j, True)
       | None \<Rightarrow>
           bindM (query (\<lambda>d. first_row (\<lambda>r. co_tenant r = tenant \<and> co_key r = key) (correlation_receipts d))) (\<lambda>row. case row of
             None \<Rightarrow> raise (RuntimeError ''idempotent correlation receipt could not be resolved'')
           | Some r \<Rightarrow> if co_sha r \<noteq> sha
               then raise (HTTPException 409 ''idempotency key was already used with a different correlation request'')
               else ret (co_id r, False)))))"

definition get_correlation_receipt_state :: "uuid \<Rightarrow> uuid \<Rightarrow> correlation_row option sg_prog" where
  "get_correlation_receipt_state tenant i =
     query (\<lambda>d. first_row (\<lambda>r. co_id r = i \<and> co_tenant r = tenant) (correlation_receipts d))"

definition complete_receipt_stmt ::
  "uuid \<Rightarrow> uuid \<Rightarrow> nat \<Rightarrow> uuid option \<Rightarrow> nat \<Rightarrow> json \<Rightarrow> string \<Rightarrow> sg_db \<Rightarrow> exn + bool \<times> sg_db" where
  "complete_receipt_stmt tenant i matches c runs result actor d =
     (let hit = (\<lambda>r. co_id r = i \<and> co_tenant r = tenant \<and> co_completed r = None);
          upd = (\<lambda>r. r\<lparr>co_completed := Some (now d), co_matches := matches, co_case := c, co_runs := runs,
            co_result := result, co_updated := now d\<rparr>) in
      if \<not> list_ex hit (correlation_receipts d) then Inr (False, d)
      else if (case c of None \<Rightarrow> False | Some x \<Rightarrow> x \<notin> ca_id ` set (soc_cases d)) then Inl foreign_key_violation
      else Inr (True, add_audit \<lparr>ae_actor = Some actor, ae_tenant = Some tenant, ae_action = ''siem.correlate'',
          ae_resource_type = ''correlation'', ae_resource_id = i,
          ae_details = [(''match_count'', JInt (int matches)), (''case_created'', JBool (c \<noteq> None)),
            (''playbook_run_count'', JInt (int runs))]\<rparr>
        (d\<lparr>correlation_receipts := upd_where hit upd (correlation_receipts d)\<rparr>)))"

definition complete_correlation_receipt ::
  "uuid \<Rightarrow> uuid \<Rightarrow> nat \<Rightarrow> uuid option \<Rightarrow> nat \<Rightarrow> json \<Rightarrow> string \<Rightarrow> bool sg_prog" where
  "complete_correlation_receipt tenant i matches c runs result actor =
     stmt (complete_receipt_stmt tenant i matches c runs result actor)"

record correlate_request =
  cq_tenant :: uuid
  cq_context :: jdict
  cq_playbooks :: bool
  cq_key :: "string option"

record correlate_answer =
  cr_duplicate :: bool
  cr_receipt :: uuid
  cr_snapshot :: snapshot

definition correlate :: "sg_env \<Rightarrow> auth_user \<Rightarrow> correlate_request \<Rightarrow> correlate_answer sg_prog" where
  "correlate env user q =
     (let tenant = cq_tenant q; gate = (\<lambda>scope. require_tenant_access user tenant (Some writer_roles) (Some [scope]));
          sha = pe_sha256 (cx_py env) (pe_dumps (cx_py env)
            (JObj [(''context'', JObj (cq_context q)), (''run_playbooks'', JBool (cq_playbooks q))]));
          key = (case cq_key q of Some (c # cs) \<Rightarrow> c # cs | _ \<Rightarrow> ''correlate:'' @ take 48 sha);
          stuck = RuntimeError ''correlation receipt could not be completed'' in
     bindM (gate ''siem:write'') (\<lambda>_.
     bindM (gate ''cases:write'') (\<lambda>_.
     bindM (if cq_playbooks q then gate ''playbooks:execute'' else ret []) (\<lambda>_.
     bindM (record_required ''siem.correlate_attempt'' (Some (actor_id user)) (Some tenant) ''correlation'' key
         [(''run_playbooks'', JBool (cq_playbooks q))]) (\<lambda>_.
     bindM (claim_correlation_receipt tenant key sha (au_user_id user)) (\<lambda>(i, created).
     bindM (get_correlation_receipt_state tenant i) (\<lambda>state. case state of
         None \<Rightarrow> raise (RuntimeError ''correlation receipt could not be resolved'')
       | Some st \<Rightarrow>
           if \<not> created \<and> co_completed st \<noteq> None
           then ret \<lparr>cr_duplicate = True, cr_receipt = i, cr_snapshot = correlation_result_snapshot (co_result st)\<rparr>
           else
           let matches = evaluate_correlation_rules (corr_env.truncate env) (cq_context q) in
           bindM (if matches \<noteq> [] then open_case_from_context env user tenant (cq_context q) None (Some i) else ret None) (\<lambda>c.
           bindM (if cq_playbooks q \<and> matches \<noteq> []
               then run_matching_playbooks env user tenant (cq_context q) (''correlation:'' @ i) ''correlation'' None
               else ret []) (\<lambda>runs.
           let s = snapshot_of env matches c runs in
           bindM (complete_correlation_receipt tenant i (length matches) (map_option ca_id c) (length runs)
               (snapshot_json ''playbooks'' s) (actor_id user)) (\<lambda>completed.
           if completed then ret \<lparr>cr_duplicate = \<not> created, cr_receipt = i, cr_snapshot = s\<rparr>
           else
           bindM (get_correlation_receipt_state tenant i) (\<lambda>final. case final of
               None \<Rightarrow> raise stuck
             | Some x \<Rightarrow> if co_completed x = None then raise stuck
                 else ret \<lparr>cr_duplicate = \<not> created, cr_receipt = i,
                   cr_snapshot = correlation_result_snapshot (co_result x)\<rparr>)))))))))))"

end
