(* ===== verification/Signal_Requests.thy ===== *)
theory Signal_Requests
  imports Sanitize Siem
begin

section \<open>Signal requests\<close>

text \<open>
  \<open>models/siem.py\<close>: the validators of a normalized signal, which keep raw payloads, credentials and
  direct identifiers out of the lane, and \<open>services/security_ingest.py\<close>, which turns an integration
  alert into a signal.  The regular expressions are written as searches over positions.  A request is
  given with its fields typed; the first failing validator is the error.  \<open>ipaddress.ip_address\<close>
  is a parameter: the version of an address and its canonical text.
\<close>

record siem_text_env = text_env +
  tx_ip :: "string \<Rightarrow> (nat \<times> string) option"

subsection \<open>Patterns\<close>

definition ascii_letter :: "char \<Rightarrow> bool" where
  "ascii_letter c \<longleftrightarrow> (let n = code_point c in (65 \<le> n \<and> n \<le> 90) \<or> (97 \<le> n \<and> n \<le> 122))"

definition ascii_word :: "char \<Rightarrow> bool" where
  "ascii_word c \<longleftrightarrow> ascii_letter c \<or> is_digit c"

definition word_char :: "char \<Rightarrow> bool" where
  "word_char c \<longleftrightarrow> is_alnum c \<or> c = CHR ''_''"

definition boundary :: "string \<Rightarrow> nat \<Rightarrow> bool" where
  "boundary s i \<longleftrightarrow> (0 < i \<and> i \<le> length s \<and> word_char (s ! (i - 1))) \<noteq> (i < length s \<and> word_char (s ! i))"

definition span :: "(char \<Rightarrow> bool) \<Rightarrow> string \<Rightarrow> nat \<Rightarrow> nat \<Rightarrow> bool" where
  "span p s i j \<longleftrightarrow> list_all p (take (j - i) (drop i s))"

definition email_at :: "string \<Rightarrow> nat \<Rightarrow> nat \<Rightarrow> nat \<Rightarrow> nat \<Rightarrow> bool" where
  "email_at s i a d e \<longleftrightarrow> boundary s i
     \<and> i < a \<and> span (\<lambda>c. ascii_word c \<or> c \<in> set ''._%+-'') s i a \<and> s ! a = CHR ''@''
     \<and> Suc a < d \<and> span (\<lambda>c. ascii_word c \<or> c \<in> set ''.-'') s (Suc a) d \<and> s ! d = CHR ''.''
     \<and> d + 2 < e \<and> e \<le> length s \<and> span ascii_letter s (Suc d) e \<and> boundary s e"

definition has_email :: "string \<Rightarrow> bool" where
  "has_email s \<longleftrightarrow> (let n = length s in
     list_ex (\<lambda>i. list_ex (\<lambda>a. list_ex (\<lambda>d. list_ex (email_at s i a d) [0..<Suc n]) [0..<n]) [0..<n]) [0..<n])"

definition jwt_char :: "char \<Rightarrow> bool" where
  "jwt_char c \<longleftrightarrow> ascii_word c \<or> c = CHR ''_'' \<or> c = CHR ''-''"

definition jwt_at :: "string \<Rightarrow> nat \<Rightarrow> nat \<Rightarrow> nat \<Rightarrow> nat \<Rightarrow> bool" where
  "jwt_at s i j k e \<longleftrightarrow> boundary s i \<and> take 3 (drop i s) = ''eyJ''
     \<and> i + 11 \<le> j \<and> span jwt_char s (i + 3) j \<and> s ! j = CHR ''.''
     \<and> j + 9 \<le> k \<and> span jwt_char s (Suc j) k \<and> s ! k = CHR ''.''
     \<and> k + 9 \<le> e \<and> e \<le> length s \<and> span jwt_char s (Suc k) e \<and> boundary s e"

definition has_jwt :: "string \<Rightarrow> bool" where
  "has_jwt s \<longleftrightarrow> (let n = length s in
     list_ex (\<lambda>i. list_ex (\<lambda>j. list_ex (\<lambda>k. list_ex (jwt_at s i j k) [0..<Suc n]) [0..<n]) [0..<n]) [0..<n])"

text \<open>Texts without the characters every match contains need no search.\<close>

lemma has_email_code [code]:
  "has_email s \<longleftrightarrow> CHR ''@'' \<in> set s \<and> (let n = length s in
     list_ex (\<lambda>i. list_ex (\<lambda>a. list_ex (\<lambda>d. list_ex (email_at s i a d) [0..<Suc n]) [0..<n]) [0..<n]) [0..<n])"
proof -
  have "CHR ''@'' \<in> set s" if "email_at s i a d e" for i a d e
    using that nth_mem [of a s] by (simp add: email_at_def)
  then show ?thesis by (auto simp: has_email_def Let_def list_ex_iff)
qed

lemma has_jwt_code [code]:
  "has_jwt s \<longleftrightarrow> CHR ''J'' \<in> set s \<and> CHR ''.'' \<in> set s \<and> (let n = length s in
     list_ex (\<lambda>i. list_ex (\<lambda>j. list_ex (\<lambda>k. list_ex (jwt_at s i j k) [0..<Suc n]) [0..<n]) [0..<n]) [0..<n])"
proof -
  have "CHR ''.'' \<in> set s \<and> CHR ''J'' \<in> set s" if "jwt_at s i j k e" for i j k e
  proof -
    from that have "CHR ''J'' \<in> set (take 3 (drop i s))" by (simp add: jwt_at_def)
    then have "CHR ''J'' \<in> set s" using in_set_takeD in_set_dropD by metis
    with that nth_mem [of j s] show ?thesis by (simp add: jwt_at_def)
  qed
  then show ?thesis by (auto simp: has_jwt_def Let_def list_ex_iff)
qed

definition client_id_ok :: "string \<Rightarrow> bool" where
  "client_id_ok s \<longleftrightarrow> (case s of [] \<Rightarrow> False
     | c # cs \<Rightarrow> ascii_word c \<and> length cs \<le> 127 \<and> list_all (\<lambda>x. ascii_word x \<or> x \<in> set ''_.:-'') cs)"

definition lower_letter :: "char \<Rightarrow> bool" where
  "lower_letter c \<longleftrightarrow> 97 \<le> code_point c \<and> code_point c \<le> 122"

definition type_name_ok :: "string \<Rightarrow> bool" where
  "type_name_ok s \<longleftrightarrow> (case s of [] \<Rightarrow> False
     | c # cs \<Rightarrow> lower_letter c \<and> length cs \<le> 127 \<and> list_all (\<lambda>x. lower_letter x \<or> is_digit x \<or> x \<in> set ''_.-'') cs)"

definition sha256_hex :: "string \<Rightarrow> bool" where
  "sha256_hex s \<longleftrightarrow> length s = 64 \<and> list_all (\<lambda>c. is_digit c \<or> c \<in> set ''abcdefABCDEF'') s"

definition cve_ok :: "string \<Rightarrow> bool" where
  "cve_ok s \<longleftrightarrow> py_lower (take 4 s) = ''cve-'' \<and> span is_digit s 4 8 \<and> 13 \<le> length s
     \<and> s ! 8 = CHR ''-'' \<and> list_all is_digit (drop 9 s)"

subsection \<open>Sensitive text and metadata\<close>

definition forbidden_key_parts :: "string list" where
  "forbidden_key_parts = [''raw'', ''ciphertext'', ''plaintext'', ''password'', ''secret'', ''token'',
     ''authorization'', ''cookie'', ''email'', ''username'', ''full_name'']"

definition reject_sensitive_text :: "siem_text_env \<Rightarrow> nat \<Rightarrow> bool \<Rightarrow> string \<Rightarrow> exn + string" where
  "reject_sensitive_text env max_length allow_newlines value =
     (let clean = sanitize_text (text_env.truncate env) (Some max_length) allow_newlines value; lowered = py_lower clean in
      if has_email clean then Inl (ValueError ''must use a pseudonym, not an email address'')
      else if py_contains ''-----begin '' lowered \<or> py_contains ''bearer '' lowered \<or> has_jwt clean
      then Inl (ValueError ''contains credential-like material'')
      else Inr clean)"

definition billion :: rat where "billion = 1000000000"

definition metadata_key :: "siem_text_env \<Rightarrow> string \<Rightarrow> exn + string" where
  "metadata_key env raw =
     (let key = sanitize_label (text_env.truncate env) 64 raw in
      if key = [] \<or> 64 < length key then Inl (ValueError ''metadata keys must be 1-64 characters'')
      else if list_ex (\<lambda>part. py_contains part (py_lower key)) forbidden_key_parts
      then Inl (ValueError ''metadata key is not allowed'')
      else Inr key)"

fun normalize_items :: "siem_text_env \<Rightarrow> json list \<Rightarrow> exn + json list" where
  "normalize_items env [] = Inr []"
| "normalize_items env (x # xs) =
     (case (case x of
          JStr s \<Rightarrow> if 256 < length s then Inl (ValueError ''metadata list item is too long'')
            else (case reject_sensitive_text env 512 False s of Inl e \<Rightarrow> Inl e | Inr t \<Rightarrow> Inr (JStr t))
        | JArr _ \<Rightarrow> Inl (ValueError ''metadata lists may contain only scalar values'')
        | JObj _ \<Rightarrow> Inl (ValueError ''metadata lists may contain only scalar values'')
        | v \<Rightarrow> Inr v) of
        Inl e \<Rightarrow> Inl e
      | Inr y \<Rightarrow> (case normalize_items env xs of Inl e \<Rightarrow> Inl e | Inr ys \<Rightarrow> Inr (y # ys)))"

fun normalize_value :: "siem_text_env \<Rightarrow> nat \<Rightarrow> json \<Rightarrow> exn + json"
  and normalize_fields :: "siem_text_env \<Rightarrow> nat \<Rightarrow> jdict \<Rightarrow> jdict \<Rightarrow> exn + jdict" where
  "normalize_value env depth (JStr s) =
     (if 512 < length s then Inl (ValueError ''metadata value is too long'')
      else (case reject_sensitive_text env 512 False s of Inl e \<Rightarrow> Inl e | Inr t \<Rightarrow> Inr (JStr t)))"
| "normalize_value env depth (JBool b) = Inr (JBool b)"
| "normalize_value env depth JNull = Inr JNull"
| "normalize_value env depth (JInt i) =
     (if \<bar>of_int i\<bar> \<le> billion then Inr (JInt i) else Inl (ValueError ''metadata value is outside the allowed range''))"
| "normalize_value env depth (JFloat q) =
     (if \<bar>q\<bar> \<le> billion then Inr (JFloat q) else Inl (ValueError ''metadata value is outside the allowed range''))"
| "normalize_value env depth (JObj kvs) =
     (if 2 < Suc depth then Inl (ValueError ''metadata nesting may not exceed two levels'')
      else if 16 < length kvs then Inl (ValueError ''metadata contains too many keys'')
      else (case normalize_fields env (Suc depth) [] kvs of Inl e \<Rightarrow> Inl e | Inr out \<Rightarrow> Inr (JObj out)))"
| "normalize_value env depth (JArr xs) =
     (if 20 < length xs then Inl (ValueError ''metadata list is too long'')
      else (case normalize_items env xs of Inl e \<Rightarrow> Inl e | Inr ys \<Rightarrow> Inr (JArr ys)))"
| "normalize_fields env depth clean [] = Inr clean"
| "normalize_fields env depth clean ((raw, v) # kvs) =
     (case metadata_key env raw of Inl e \<Rightarrow> Inl e
      | Inr key \<Rightarrow> (case normalize_value env depth v of Inl e \<Rightarrow> Inl e
          | Inr w \<Rightarrow> normalize_fields env depth (dict_set key w clean) kvs))"

definition validate_signal_metadata :: "siem_text_env \<Rightarrow> jdict \<Rightarrow> exn + jdict" where
  "validate_signal_metadata env kvs =
     (if 32 < length kvs then Inl (ValueError ''metadata may contain at most 32 keys'')
      else normalize_fields env 0 [] kvs)"

subsection \<open>Observables\<close>

text \<open>\<open>str_strip_whitespace\<close> of the request models strips the white space of Unicode.\<close>

definition unicode_space :: "char \<Rightarrow> bool" where
  "unicode_space c \<longleftrightarrow> (let n = code_point c in (9 \<le> n \<and> n \<le> 13) \<or> n = 32 \<or> n = 133 \<or> n = 160)"

definition model_strip :: "string \<Rightarrow> string" where
  "model_strip s = rev (dropWhile unicode_space (rev (dropWhile unicode_space s)))"

definition bounded_text :: "nat \<Rightarrow> nat \<Rightarrow> string \<Rightarrow> exn + string" where
  "bounded_text lo hi s = (let t = model_strip s in
     if length t < lo \<or> hi < length t then Inl (ValueError ''string length is out of bounds'') else Inr t)"

definition observable_types :: "string list" where
  "observable_types = [''ipv4'', ''ipv6'', ''domain'', ''hostname'', ''url_path'', ''file_sha256'', ''process_sha256'',
     ''cve'', ''cloud_resource'', ''device_pseudonym'', ''other_hash'']"

definition upper_ascii :: "string \<Rightarrow> string" where
  "upper_ascii s = map (\<lambda>c. if lower_letter c then char_of (code_point c - 32) else c) s"

definition normalize_observable :: "siem_text_env \<Rightarrow> string \<Rightarrow> string \<Rightarrow> exn + string" where
  "normalize_observable env t value =
     (if t = ''ipv4'' \<or> t = ''ipv6'' then
        (case tx_ip env value of None \<Rightarrow> Inl (ValueError ''not an IP address'')
         | Some (version, canonical) \<Rightarrow> if version \<noteq> (if t = ''ipv4'' then 4 else 6)
             then Inl (ValueError ''observable has the wrong address family'') else Inr canonical)
      else if t \<in> {''file_sha256'', ''process_sha256'', ''other_hash''} then
        (if sha256_hex value then Inr (py_lower value) else Inl (ValueError ''must be a SHA-256 hex digest''))
      else if t = ''cve'' then
        (if cve_ok value then Inr (upper_ascii value) else Inl (ValueError ''cve observable must use CVE-YYYY-NNNN format''))
      else if t = ''url_path'' then
        (if \<not> starts (\<lambda>c. c = CHR ''/'') value \<or> CHR ''?'' \<in> set value \<or> CHR ''#'' \<in> set value
         then Inl (ValueError ''url_path must be a path without query or fragment'') else Inr value)
      else if CHR ''@'' \<in> set value then Inl (ValueError ''observable values may not contain direct user identifiers'')
      else Inr value)"

definition validate_observable :: "siem_text_env \<Rightarrow> observable \<Rightarrow> exn + observable" where
  "validate_observable env b =
     (if ob_type b \<notin> set observable_types \<or> ob_role b \<notin> {''source'', ''destination'', ''target'', ''related''}
        \<or> ob_confidence b < 0 \<or> 100 < ob_confidence b then Inl (ValueError ''invalid observable'')
      else (case bounded_text 1 512 (ob_value b) of Inl e \<Rightarrow> Inl e
        | Inr s \<Rightarrow> (case reject_sensitive_text env 512 False s of Inl e \<Rightarrow> Inl e
          | Inr t \<Rightarrow> (case normalize_observable env (ob_type b) t of Inl e \<Rightarrow> Inl e
            | Inr v \<Rightarrow> Inr (b\<lparr>ob_value := v\<rparr>)))))"

fun validate_observables :: "siem_text_env \<Rightarrow> observable list \<Rightarrow> exn + observable list" where
  "validate_observables env [] = Inr []"
| "validate_observables env (b # bs) = (case validate_observable env b of Inl e \<Rightarrow> Inl e
     | Inr p \<Rightarrow> (case validate_observables env bs of Inl e \<Rightarrow> Inl e | Inr ps \<Rightarrow> Inr (p # ps)))"

subsection \<open>The request\<close>

definition signal_categories :: "string list" where
  "signal_categories = [''authentication'', ''malware'', ''network'', ''data_loss'', ''vulnerability'', ''cloud'',
     ''endpoint'', ''application'', ''threat_intelligence'', ''other'']"

definition signal_severities :: "string list" where
  "signal_severities = [''informational'', ''low'', ''medium'', ''high'', ''critical'']"

definition machine_name :: "string \<Rightarrow> exn + string" where
  "machine_name s = (case bounded_text 1 128 s of Inl e \<Rightarrow> Inl e
     | Inr t \<Rightarrow> (let normalized = py_lower (py_strip t) in
         if type_name_ok normalized then Inr normalized else Inl (ValueError ''must be a lowercase machine identifier'')))"

definition safe_text :: "siem_text_env \<Rightarrow> nat \<Rightarrow> nat \<Rightarrow> bool \<Rightarrow> string \<Rightarrow> exn + string" where
  "safe_text env lo hi allow_newlines s = (case bounded_text lo hi s of Inl e \<Rightarrow> Inl e
     | Inr t \<Rightarrow> reject_sensitive_text env hi allow_newlines t)"

definition and_then :: "exn + 'a \<Rightarrow> ('a \<Rightarrow> exn + 'b) \<Rightarrow> exn + 'b" where
  "and_then r f = (case r of Inl e \<Rightarrow> Inl e | Inr a \<Rightarrow> f a)"

definition client_id :: "string \<Rightarrow> exn + string" where
  "client_id s = (case bounded_text 1 128 s of Inl e \<Rightarrow> Inl e
     | Inr t \<Rightarrow> if client_id_ok t then Inr t else Inl (ValueError ''client_signal_id contains unsupported characters''))"

definition validate_signal :: "siem_text_env \<Rightarrow> signal_request \<Rightarrow> exn + signal_request" where
  "validate_signal env q =
     and_then (client_id (sq_client q)) (\<lambda>client.
     and_then (machine_name (sq_source q)) (\<lambda>source.
     and_then (machine_name (sq_type q)) (\<lambda>signal_type.
     and_then (safe_text env 1 255 False (sq_title q)) (\<lambda>title.
     and_then (safe_text env 0 2048 True (sq_summary q)) (\<lambda>summary.
     if sq_category q \<notin> set signal_categories \<or> sq_severity q \<notin> set signal_severities
        \<or> sq_confidence q < 0 \<or> 100 < sq_confidence q \<or> 32 < length (sq_observables q)
     then Inl (ValueError ''invalid signal'')
     else
     and_then (validate_observables env (sq_observables q)) (\<lambda>observables.
     and_then (validate_signal_metadata env (sq_metadata q)) (\<lambda>metadata.
     Inr (q\<lparr>sq_client := client, sq_source := source, sq_type := signal_type, sq_title := title, sq_summary := summary,
       sq_observables := observables, sq_metadata := metadata\<rparr>))))))))"

subsection \<open>Integration alerts\<close>

record alert =
  al_tenant :: uuid
  al_client :: string
  al_observed :: time
  al_source :: string
  al_severity :: string
  al_title :: string
  al_ip :: "string option"
  al_raw :: jdict

definition alert_malicious :: "alert \<Rightarrow> bool" where
  "alert_malicious a \<longleftrightarrow> py_lower (al_severity a) \<in> {''critical'', ''high''} \<or> jget (al_raw a) ''is_malicious'' = JBool True"

definition alert_abuse :: "alert \<Rightarrow> int" where
  "alert_abuse a = max 0 (min (numeric_or (jget (al_raw a) ''abuse_confidence_score'') (if alert_malicious a then 100 else 50) trunc) 100)"

definition alert_metadata :: "alert \<Rightarrow> jdict" where
  "alert_metadata a =
     dict_set ''anomaly_score'' (JFloat (numeric_or (jget (al_raw a) ''anomaly_score'') 0 (\<lambda>x. x)))
     (dict_set ''abuse_confidence_score'' (JInt (alert_abuse a))
     (dict_set ''threat_match'' (JBool (jget (al_raw a) ''threat_match'' = JBool True \<or> alert_malicious a))
     (dict_set ''is_malicious'' (JBool (alert_malicious a)) (al_raw a))))"

definition alert_request :: "alert \<Rightarrow> signal_request" where
  "alert_request a =
     \<lparr>sq_tenant = al_tenant a, sq_client = ''security-alert:'' @ al_client a, sq_observed = al_observed a,
      sq_source = al_source a, sq_category = ''threat_intelligence'', sq_type = ''integration.security_alert'',
      sq_severity = al_severity a, sq_title = al_title a,
      sq_summary = ''Legacy integration alert normalized into the SIEM signal lane'',
      sq_confidence = alert_abuse a,
      sq_observables = (case al_ip a of Some (c # cs) \<Rightarrow>
          [\<lparr>ob_type = (if CHR ''.'' \<in> set (c # cs) then ''ipv4'' else ''ipv6''), ob_value = c # cs, ob_role = ''related'', ob_confidence = 50\<rparr>]
        | _ \<Rightarrow> []),
      sq_metadata = alert_metadata a, sq_correlate = True, sq_playbooks = True\<rparr>"

definition ingest_security_alert :: "siem_text_env \<Rightarrow> sg_env \<Rightarrow> auth_user \<Rightarrow> alert \<Rightarrow> signal_answer sg_prog" where
  "ingest_security_alert tx env user a =
     bindM (require_tenant_access user (al_tenant a) (Some writer_roles) (Some [''integrations:write''])) (\<lambda>_.
     bindM (lift (validate_signal tx (alert_request a))) (\<lambda>q. create_signal env user q))"

end
