(* ===== verification/Playbook_Client.thy ===== *)
theory Playbook_Client
  imports Playbook_System
begin

section \<open>Playbooks as a part of a larger service\<close>

text \<open>
  The signal lane runs playbooks on its own database, which extends theirs.  \<open>playbook_step\<close> says what a
  statement of the playbooks may do to such a database: it keeps the tables of the extension, and every run
  keeps its identity.  The locale \<open>playbook_client\<close> is the contract of a protocol that admits these steps;
  then every operation of the playbooks keeps the protocol, and \<open>execute_playbook\<close> returns a run of the
  playbook it was asked to run.
\<close>

definition run_identity :: "run_row \<Rightarrow> uuid \<times> uuid \<times> uuid \<times> string \<times> uuid option" where
  "run_identity r = (run_id r, run_tenant r, run_playbook r, run_key r, run_signal r)"

definition runs_kept :: "run_row list \<Rightarrow> run_row list \<Rightarrow> bool" where
  "runs_kept rs rs' \<longleftrightarrow> run_identity ` set rs \<subseteq> run_identity ` set rs'
     \<and> (distinct (map run_id rs) \<longrightarrow> distinct (map run_id rs'))
     \<and> (distinct (map (\<lambda>r. (run_tenant r, run_key r)) rs) \<longrightarrow> distinct (map (\<lambda>r. (run_tenant r, run_key r)) rs'))"

definition playbook_step :: "'z pb_db_scheme \<Rightarrow> 'z pb_db_scheme \<Rightarrow> bool" where
  "playbook_step d d' \<longleftrightarrow> now d' = now d \<and> schema_ready d' = schema_ready d \<and> tenant_members d' = tenant_members d
     \<and> pb_db.more d' = pb_db.more d \<and> runs_kept (playbook_runs d) (playbook_runs d')"

lemma runs_kept_refl [simp]: "runs_kept rs rs"
  by (simp add: runs_kept_def)

lemma runs_kept_trans: "runs_kept rs rs' \<Longrightarrow> runs_kept rs' rs'' \<Longrightarrow> runs_kept rs rs''"
  unfolding runs_kept_def by blast

lemma playbook_step_same: "now d' = now d \<Longrightarrow> schema_ready d' = schema_ready d \<Longrightarrow> tenant_members d' = tenant_members d \<Longrightarrow>
    pb_db.more d' = pb_db.more d \<Longrightarrow> playbook_runs d' = playbook_runs d \<Longrightarrow> playbook_step d d'"
  by (simp add: playbook_step_def)

lemma add_audit_pb [simp]:
  "playbook_runs (add_audit r d) = playbook_runs (d :: 'z pb_db_scheme)"
  "pb_db.more (add_audit r d) = pb_db.more (d :: 'z pb_db_scheme)"
  by (simp_all add: add_audit_def)

lemma step_audit: "playbook_step d (add_audit r d)"
  by (rule playbook_step_same) simp_all

subsection \<open>The statements\<close>

lemma runs_kept_identity:
  assumes "map run_identity rs' = map run_identity rs"
  shows "runs_kept rs rs'"
proof -
  have eq: "map (g \<circ> run_identity) rs' = map (g \<circ> run_identity) rs" for g :: "uuid \<times> uuid \<times> uuid \<times> string \<times> uuid option \<Rightarrow> 'b"
    using assms by (metis map_map)
  have "map run_id rs' = map run_id rs" using eq [of fst] by (simp add: run_identity_def comp_def)
  moreover have "map (\<lambda>r. (run_tenant r, run_key r)) rs' = map (\<lambda>r. (run_tenant r, run_key r)) rs"
    using eq [of "\<lambda>(i, t, p, k, s). (t, k)"] by (simp add: run_identity_def comp_def)
  moreover have "run_identity ` set rs' = run_identity ` set rs" using assms by (metis list.set_map)
  ultimately show ?thesis by (simp add: runs_kept_def)
qed

lemma map_identity_upd: "(\<And>r. run_identity (f r) = run_identity r) \<Longrightarrow> runs_kept rs (upd_where p f rs)"
  by (rule runs_kept_identity) (simp add: upd_where_def)

lemma step_set_run_status: "playbook_step d (set_run_status rid tenant st fin d)"
  unfolding playbook_step_def set_run_status_def
  by (simp add: map_identity_upd run_identity_def)

lemma step_insert_run: "insert_run row d = Inr (x, d') \<Longrightarrow> playbook_step d d'"
  by (auto simp: insert_run_def insert_unless_def Let_def playbook_step_def runs_kept_def list_ex_iff split: if_splits) blast+

lemma step_insert_result: "insert_result rid run a l d = Inr (x, d') \<Longrightarrow> playbook_step d d'"
  by (auto simp: insert_result_def Let_def split: prod.splits if_splits intro!: playbook_step_same)

lemma step_persist_outcome: "persist_outcome rid run tenant own out act nm d = (x, d') \<Longrightarrow> playbook_step d d'"
  by (auto simp: persist_outcome_def Let_def split: option.splits intro!: playbook_step_same)

lemma step_claim: "claim_due_webhook_retry worker d = (x, d') \<Longrightarrow> playbook_step d d'"
  by (auto simp: claim_due_webhook_retry_def Let_def split: option.splits list.splits intro!: playbook_step_same)

lemma step_finalize: "finalize_expired_retry_leases d = (x, d') \<Longrightarrow> playbook_step d d'"
  by (auto simp: finalize_expired_retry_leases_def Let_def intro!: playbook_step_same)

lemma step_acknowledge: "acknowledge_stmt rid run tenant st ext md act d = (x, d') \<Longrightarrow> playbook_step d d'"
  by (auto simp: acknowledge_stmt_def Let_def split: option.splits if_splits intro!: playbook_step_same)

lemma step_queue_retry: "queue_retry rid run tenant d = (x, d') \<Longrightarrow> playbook_step d d'"
  by (auto simp: queue_retry_def Let_def split: option.splits if_splits prod.splits intro!: playbook_step_same)

lemma playbook_step_refl: "playbook_step d d"
  by (rule playbook_step_same) simp_all

lemma playbook_step_trans: "playbook_step d d' \<Longrightarrow> playbook_step d' d'' \<Longrightarrow> playbook_step d d''"
  unfolding playbook_step_def by (auto intro: runs_kept_trans)

lemma step_insert_actions: "insert_actions env pid n new d = Inr (rows, d') \<Longrightarrow> playbook_step d d'"
proof (induction new arbitrary: n d rows d')
  case Nil
  then show ?case by (simp add: playbook_step_refl)
next
  case (Cons x new)
  obtain a aid where x: "x = (a, aid)" by force
  from Cons.prems obtain row rs where
      "insert_actions env pid (Suc n) new (d\<lparr>playbook_actions := playbook_actions d @ [row]\<rparr>) = Inr (rs, d')"
    by (auto simp: x Let_def split: sum.splits)
  from Cons.IH [OF this] show ?case by (simp add: playbook_step_def)
qed

lemma step_create: "(let (row, d1) = insert_playbook pid tenant nm desc conds d in
     case insert_actions env pid 0 new d1 of Inl e \<Rightarrow> Inl e | Inr (rows, d2) \<Rightarrow> Inr ((row, rows), d2)) = Inr (x, d') \<Longrightarrow>
   playbook_step d d'"
  by (auto simp: insert_playbook_def Let_def playbook_step_def split: sum.splits dest!: step_insert_actions)

lemma step_update: "update_playbook_txn env tenant pid upd acts d = Inr (x, d') \<Longrightarrow> playbook_step d d'"
  by (auto simp: update_playbook_txn_def delete_actions_of_def Let_def playbook_step_def
      split: sum.splits option.splits dest!: step_insert_actions)

lemma step_finalize_stmt: "finalize_stmt d = (x, d') \<Longrightarrow> playbook_step d d'"
  by (auto simp: finalize_stmt_def split: prod.splits intro: step_finalize)

lemmas playbook_steps = step_audit step_set_run_status step_insert_run step_insert_result step_persist_outcome
  step_claim step_finalize step_acknowledge step_queue_retry step_create step_update

context protocol
begin

text \<open>What interference cannot invalidate is carried over a program that keeps the protocol.\<close>

lemma keeps_fact: "(A \<Longrightarrow> keeps inv R (\<lambda>_. True) m Q) \<Longrightarrow> keeps inv R (\<lambda>_. A) m Q"
  using keeps_pure [of A inv R "\<lambda>_. True" m Q] by simp

lemma safe_then:
  assumes "safe inv R m" and "stable R (\<lambda>d. inv d \<and> F d)" and "\<And>a. keeps inv R F (f a) Q"
  shows "keeps inv R F (bindM m f) Q"
  by (rule keeps_bind [OF keeps_conseq [OF keeps_frame [OF assms(1,2)]] assms(3)]) auto

end

text \<open>A run once stored is found again, with its identity, and is what the caller gets.\<close>

definition has_run :: "uuid \<times> uuid \<times> uuid \<times> string \<times> uuid option \<Rightarrow> 'z pb_db_scheme \<Rightarrow> bool" where
  "has_run ident d \<longleftrightarrow> ident \<in> run_identity ` set (playbook_runs d)"

subsection \<open>The contract\<close>

locale playbook_client = core_protocol inv R
  for inv :: "'z pb_db_scheme \<Rightarrow> bool" and R :: "'z pb_db_scheme \<Rightarrow> 'z pb_db_scheme \<Rightarrow> bool" +
  assumes rely_playbook: "inv d \<Longrightarrow> playbook_step d d' \<Longrightarrow> R d d'"
    and rely_runs: "inv d \<Longrightarrow> R d d' \<Longrightarrow> run_identity ` set (playbook_runs d) \<subseteq> run_identity ` set (playbook_runs d')"
    and inv_run_ids: "inv d \<Longrightarrow> distinct (map run_id (playbook_runs d))"
begin

lemma safe_playbook: "(\<And>d a d'. f d = Inr (a, d') \<Longrightarrow> playbook_step d d') \<Longrightarrow> safe inv R (stmt f)"
  by (rule safe_stmt) (blast intro: rely_playbook)

lemma safe_set_status: "safe inv R (stmt (\<lambda>d. Inr ((), set_run_status rid tenant st fin d)))"
  by (rule safe_playbook) (auto intro: step_set_run_status)

lemma safe_run_webhook: "safe inv R (run_webhook env c ctx run rid)"
  unfolding run_webhook_def Let_def
  by (auto intro!: keeps_intros safe_emit rely_playbook playbook_step_same
      split: sum.splits outbound_error.splits http_answer.splits)

lemmas client_intros = core_intros safe_run_webhook safe_set_status safe_playbook TrueI

lemma client_persist: "safe inv R (persist_webhook_outcome tenant run rid own n mx out actor act)"
  unfolding persist_webhook_outcome_def Let_def by (intro client_intros) (auto intro: playbook_steps)

lemma safe_run_actions: "safe inv R (run_actions env actor tenant run ctx actions)"
proof (induction actions)
  case (Cons a actions)
  show ?case
    unfolding run_actions.simps present_action_def webhook_action_def control_action_def Let_def
    by (intro client_intros client_persist Cons.IH) (auto intro: playbook_steps)
qed (simp add: keeps_ret)

lemma client_refresh: "safe inv R (refresh_run_status tenant rid)"
  unfolding refresh_run_status_def Let_def by (intro client_intros)

lemma client_fetch: "safe inv R (fetch_run tenant rid)"
  unfolding fetch_run_def by (intro client_intros)

lemma client_execute_run_actions: "safe inv R (execute_run_actions env user tenant run pid)"
  unfolding execute_run_actions_def Let_def by (intro client_intros safe_run_actions client_refresh)

lemma client_authorize: "safe inv R (authorize user tenant scope roles)"
  unfolding authorize_def by (intro client_intros)

lemma safe_playbook_schema: "safe inv R ensure_playbook_schema"
  unfolding ensure_playbook_schema_def by (rule safe_ensure_schema)

lemma client_draw_ids: "safe inv R (draw_ids n)"
  by (induction n) (auto intro!: keeps_intros)

lemmas playbook_intros = client_intros client_authorize safe_playbook_schema client_draw_ids client_refresh client_fetch
  client_execute_run_actions

lemma client_create_playbook: "safe inv R (create_playbook env user tenant nm desc conds actions)"
  unfolding create_playbook_def by (intro playbook_intros) (erule step_create)

lemma client_update_playbook: "safe inv R (update_playbook env user tenant pid upd actions)"
  unfolding update_playbook_def Let_def by (intro playbook_intros) (erule step_update)

lemma client_list_playbooks: "safe inv R (list_playbooks user tenant)"
  unfolding list_playbooks_def by (intro playbook_intros)

lemma client_resume_existing: "safe inv R (resume_existing_run env user tenant pid ctx src sig e)"
  unfolding resume_existing_run_def by (intro playbook_intros)

lemma client_start_run: "safe inv R (start_run env user tenant pid key ctx src sig)"
  unfolding start_run_def by (intro playbook_intros client_resume_existing) (erule step_insert_run)

lemma client_execute_playbook: "safe inv R (execute_playbook env user tenant pid key ctx src sig)"
  unfolding execute_playbook_def by (intro playbook_intros client_resume_existing client_start_run)

lemma client_acknowledge_action: "safe inv R (acknowledge_action env user tenant rid aid ok ext md)"
  unfolding acknowledge_action_def Let_def by (intro playbook_intros) (auto intro: step_acknowledge)

lemma client_retry_action: "safe inv R (retry_action user tenant rid aid)"
  unfolding retry_action_def by (intro playbook_intros) (auto intro: step_queue_retry)

lemma client_list_runs: "safe inv R (list_runs user tenant pid sig limit)"
  unfolding list_runs_def by (intro playbook_intros)

lemma client_audit_exhausted: "safe inv R (audit_exhausted rows)"
  by (induction rows rule: audit_exhausted.induct) (auto intro!: playbook_intros)

lemma client_retry_claimed: "safe inv R (retry_claimed env own r run c)"
  unfolding retry_claimed_def Let_def by (intro playbook_intros client_persist)

lemma client_retry_loop: "safe inv R (retry_loop env own n c)"
proof (induction n arbitrary: c)
  case (Suc n)
  show ?case
    unfolding retry_loop.simps by (intro playbook_intros client_retry_claimed Suc.IH) (auto intro: step_claim)
qed (simp add: keeps_ret)

lemma client_tick_retries: "safe inv R (tick_playbook_retries env batch wid rdy)"
  unfolding tick_playbook_retries_def Let_def
  by (intro playbook_intros client_audit_exhausted client_retry_loop) (auto intro: step_finalize_stmt)

lemma client_resume_all: "safe inv R (resume_all env runs counts)"
  by (induction env runs counts rule: resume_all.induct) (auto intro!: playbook_intros)

lemma client_tick_continuations: "safe inv R (tick_playbook_continuations env batch rdy)"
  unfolding tick_playbook_continuations_def by (intro playbook_intros client_resume_all)

lemma safe_pb_call: "safe inv R (pb_run env c)"
  by (cases c)
    (simp_all add: safe_ignore client_create_playbook client_update_playbook client_list_playbooks
      client_execute_playbook client_acknowledge_action client_retry_action client_list_runs
      client_tick_retries client_tick_continuations)

lemma stable_has_run: "stable R (\<lambda>d. inv d \<and> has_run ident d)"
  unfolding stable_def has_run_def using rely_inv rely_runs by blast

lemma found_run:
  assumes "inv d" and "has_run (rid, tenant, pid, key, sig) d"
    and "first_row (\<lambda>r. run_id r = rid \<and> run_tenant r = tenant) (playbook_runs d) = Some run"
  shows "run_identity run = (rid, tenant, pid, key, sig)"
proof -
  from assms(2) obtain q where q: "q \<in> set (playbook_runs d)" "run_identity q = (rid, tenant, pid, key, sig)"
    by (force simp: has_run_def)
  from first_row_SomeD [OF assms(3)] have "run \<in> set (playbook_runs d)" "run_id run = rid" by auto
  with q inv_run_ids [OF assms(1)] have "run = q" by (auto simp: run_identity_def distinct_map inj_on_def)
  with q show ?thesis by simp
qed

lemma keeps_fetch_run:
  "keeps inv R (has_run (rid, tenant, pid, key, sig)) (fetch_run tenant rid)
     (\<lambda>v _. run_identity (rv_run v) = (rid, tenant, pid, key, sig))"
  unfolding fetch_run_def
proof (rule keeps_bind [OF keeps_query [OF stable_has_run]])
  show "case Option.bind (first_row (\<lambda>r. run_id r = rid \<and> run_tenant r = tenant) (playbook_runs d)) (\<lambda>r. run_with_name r d) of
      None \<Rightarrow> True | Some (run, _) \<Rightarrow> run_identity run = (rid, tenant, pid, key, sig)"
    if "inv d" "has_run (rid, tenant, pid, key, sig) d" for d
    using found_run [OF that] by (auto simp: run_with_name_def split: bind_splits option.splits)
  show "keeps inv R (\<lambda>_. case x of None \<Rightarrow> True | Some (run, _) \<Rightarrow> run_identity run = (rid, tenant, pid, key, sig))
      (case x of None \<Rightarrow> raise (HTTPException 404 ''playbook run not found'')
       | Some (run, name) \<Rightarrow> bindM (query (results_of rid)) (\<lambda>rows. ret (run_dict run name rows)))
      (\<lambda>v _. run_identity (rv_run v) = (rid, tenant, pid, key, sig))" for x
  proof (cases x)
    case (Some rn)
    obtain run name where rn: "rn = (run, name)" by force
    show ?thesis
      unfolding Some rn option.case prod.case
      by (rule keeps_fact) (auto intro!: keeps_bind [OF safe_query] keeps_ret simp: run_dict_def run_identity_def)
  qed (simp add: keeps_raise)
qed

lemma keeps_resume:
  "keeps inv R (has_run (run_identity e)) (resume_existing_run env user (run_tenant e) pid ctx src sig e)
     (\<lambda>v _. run_identity (rv_run v) = (run_id e, run_tenant e, pid, run_key e, sig))"
proof -
  have go: "keeps inv R (has_run (run_identity e)) (bindM (execute_run_actions env (Some user) (run_tenant e) (run_id e) pid)
      (\<lambda>_. bindM (fetch_run (run_tenant e) (run_id e)) (\<lambda>result. ret (result\<lparr>rv_duplicate := Some True\<rparr>))))
      (\<lambda>v _. run_identity (rv_run v) = (run_id e, run_tenant e, pid, run_key e, sig))"
    if "run_playbook e = pid" "run_signal e = sig"
  proof -
    from that have e: "run_identity e = (run_id e, run_tenant e, pid, run_key e, sig)" by (simp add: run_identity_def)
    show ?thesis
      unfolding e
      by (intro safe_then [OF client_execute_run_actions stable_has_run] keeps_bind [OF keeps_fetch_run] keeps_ret) simp
  qed
  show ?thesis
    unfolding resume_existing_run_def by (intro keeps_if keeps_raise go) simp_all
qed

lemma selected_run: "select_run_by_key tenant key d = Some e \<Longrightarrow>
    has_run (run_identity e) d \<and> run_tenant e = tenant \<and> run_key e = key"
  by (auto simp: select_run_by_key_def has_run_def dest!: first_row_SomeD)

abbreviation returns_run :: "uuid \<Rightarrow> uuid \<Rightarrow> string \<Rightarrow> uuid option \<Rightarrow> run_view \<Rightarrow> 'z pb_db_scheme \<Rightarrow> bool" where
  "returns_run tenant pid key sig \<equiv> \<lambda>v _. \<exists>rid. run_identity (rv_run v) = (rid, tenant, pid, key, sig)"

lemma keeps_resume_selected:
  assumes "run_tenant e = tenant" and "run_key e = key"
  shows "keeps inv R (has_run (run_identity e)) (resume_existing_run env user tenant pid ctx src sig e) (returns_run tenant pid key sig)"
  using keeps_conseq [OF keeps_resume, where Q = "returns_run tenant pid key sig"] assms by blast

lemma keeps_resume_found:
  "keeps inv R (\<lambda>d. case x of None \<Rightarrow> True | Some e \<Rightarrow> has_run (run_identity e) d \<and> run_tenant e = tenant \<and> run_key e = key)
     (case x of None \<Rightarrow> m | Some e \<Rightarrow> resume_existing_run env user tenant pid ctx src sig e) (returns_run tenant pid key sig)"
  if "keeps inv R (\<lambda>_. True) m (returns_run tenant pid key sig)"
proof (cases x)
  case None
  with that show ?thesis by simp
next
  case (Some e)
  have "keeps inv R (\<lambda>d. (run_tenant e = tenant \<and> run_key e = key) \<and> has_run (run_identity e) d)
      (resume_existing_run env user tenant pid ctx src sig e) (returns_run tenant pid key sig)"
    by (rule keeps_pure) (simp add: keeps_resume_selected)
  then show ?thesis unfolding Some option.case by (rule keeps_conseq) blast+
qed

lemma keeps_select_run:
  "keeps inv R (\<lambda>_. True) (query (select_run_by_key tenant key))
     (\<lambda>x d. case x of None \<Rightarrow> True | Some e \<Rightarrow> has_run (run_identity e) d \<and> run_tenant e = tenant \<and> run_key e = key)"
  by (rule keeps_query [OF stable_true]) (auto split: option.splits dest: selected_run)

lemma insert_run_has: "insert_run row d = Inr (Some run, d') \<Longrightarrow>
    has_run (run_identity run) d' \<and> run_identity run = run_identity row"
  by (auto simp: insert_run_def insert_unless_def Let_def has_run_def run_identity_def split: if_splits)

lemma keeps_new_run:
  assumes "run_identity run = (rid, tenant, pid, key, sig)"
  shows "keeps inv R (has_run (run_identity run)) (bindM (record_required a b c e (run_id run) f) (\<lambda>_.
       bindM (execute_run_actions env (Some user) tenant (run_id run) pid) (\<lambda>_.
       bindM (fetch_run tenant (run_id run)) (\<lambda>result.
       bindM (record_required a' b c e' (run_id run) (f' result)) (\<lambda>_. ret (result\<lparr>rv_duplicate := Some False\<rparr>))))))
      (returns_run tenant pid key sig)"
proof -
  from assms have r: "run_id run = rid" by (simp add: run_identity_def)
  have tail: "keeps inv R (\<lambda>_. run_identity (rv_run v) = (rid, tenant, pid, key, sig))
      (bindM (record_required a' b c e' rid (f' v)) (\<lambda>_. ret (v\<lparr>rv_duplicate := Some False\<rparr>))) (returns_run tenant pid key sig)" for v
    by (rule keeps_fact) (auto intro!: keeps_bind [OF safe_record_required] keeps_ret)
  show ?thesis
    unfolding assms r
    by (intro safe_then [OF safe_record_required stable_has_run] safe_then [OF client_execute_run_actions stable_has_run]
        keeps_bind [OF keeps_fetch_run tail])
qed

lemma keeps_insert_run:
  "keeps inv R (\<lambda>_. True) (stmt (insert_run row))
     (\<lambda>x d. case x of None \<Rightarrow> True | Some run \<Rightarrow> run_identity run = run_identity row \<and> has_run (run_identity run) d)"
proof (rule keeps_stmt [OF stable_true])
  fix d x d' assume "inv d" and i: "insert_run row d = Inr (x, d')"
  then have "R d d'" by (intro rely_playbook step_insert_run)
  with insert_run_has [of row d _ d'] i
  show "R d d' \<and> (case x of None \<Rightarrow> True | Some run \<Rightarrow> run_identity run = run_identity row \<and> has_run (run_identity run) d')"
    by (cases x) (auto simp del: split_paired_Ex)
qed

lemma keeps_start_run:
  "keeps inv R (\<lambda>_. True) (start_run env user tenant pid key ctx src sig) (returns_run tenant pid key sig)"
proof -
  have sel: "keeps inv R (\<lambda>_. True) (query (select_playbook pid tenant))
      (\<lambda>x _. case x of None \<Rightarrow> True | Some (p, _) \<Rightarrow> pbk_id p = pid)"
    by (rule keeps_query [OF stable_true]) (auto simp: select_playbook_def split: option.splits dest!: first_row_SomeD)
  have row: "run_identity (new_run_row env user tenant rid p key ctx src sig plan) = (rid, tenant, pbk_id p, key, sig)" for rid p plan
    by (simp add: new_run_row_def run_identity_def)
  show ?thesis
    unfolding start_run_def
  proof (rule keeps_bind [OF sel], goal_cases)
    case (1 x)
    show ?case
    proof (cases x)
      case None
      then show ?thesis by (simp add: keeps_raise)
    next
      case (Some ps)
      obtain p snapshot where ps: "ps = (p, snapshot)" by force
      show ?thesis
        unfolding Some ps option.case prod.case
      proof (rule keeps_fact, intro keeps_if keeps_raise keeps_bind [OF keeps_lift, where Q' = "\<lambda>_ _. True"]
          keeps_bind [OF keeps_uuid4, where Q' = "\<lambda>_ _. True"] keeps_bind [OF keeps_insert_run] TrueI, goal_cases)
        case (1 plan rid inserted)
        show ?case
        proof (cases inserted)
          case None
          show ?thesis
            unfolding None option.case
            by (intro keeps_bind [OF keeps_select_run] keeps_resume_found keeps_raise)
        next
          case run: (Some run)
          have "keeps inv R (\<lambda>d. run_identity run = (rid, tenant, pid, key, sig) \<and> has_run (run_identity run) d) m
              (returns_run tenant pid key sig)"
            if "run_identity run = (rid, tenant, pid, key, sig) \<Longrightarrow>
              keeps inv R (has_run (run_identity run)) m (returns_run tenant pid key sig)" for m
            using that by (rule keeps_pure)
          from this [OF keeps_new_run] show ?thesis
            unfolding run option.case row 1(1) .
        qed
      qed
    qed
  qed
qed

lemma keeps_execute_playbook:
  "keeps inv R (\<lambda>_. True) (execute_playbook env user tenant pid key ctx src sig) (returns_run tenant pid key sig)"
  unfolding execute_playbook_def
  by (intro keeps_bind [OF client_authorize] keeps_bind [OF safe_playbook_schema] keeps_bind [OF safe_record_required]
      keeps_bind [OF keeps_select_run] keeps_resume_found keeps_start_run)

end

end
