(* ===== verification/Siem_Safety.thy ===== *)
theory Siem_Safety
  imports Signal_Requests Playbook_Client
begin

section \<open>The signal lane: invariant, relation, histories\<close>

text \<open>
  The invariant of signals, receipts and cases; what no call ever does to them: rows are never
  removed, a signal keeps its content, and what is completed stays as it is.  The playbooks run on the
  same database, so their calls are part of the histories.
\<close>

subsection \<open>Tables that only grow\<close>

definition grows :: "('r \<Rightarrow> 'r \<Rightarrow> bool) \<Rightarrow> 'r list \<Rightarrow> 'r list \<Rightarrow> bool" where
  "grows le rs rs' \<longleftrightarrow> (\<forall>r \<in> set rs. \<exists>r' \<in> set rs'. le r r')"

lemma grows_refl: "(\<And>r. le r r) \<Longrightarrow> grows le rs rs"
  by (auto simp: grows_def)

lemma grows_trans: "(\<And>a b c. le a b \<Longrightarrow> le b c \<Longrightarrow> le a c) \<Longrightarrow> grows le rs rs' \<Longrightarrow> grows le rs' rs'' \<Longrightarrow> grows le rs rs''"
  unfolding grows_def by meson

lemma grows_append: "(\<And>r. le r r) \<Longrightarrow> grows le rs (rs @ qs)"
  by (auto simp: grows_def)

lemma grows_upd: "(\<And>r. le r r) \<Longrightarrow> (\<And>r. r \<in> set rs \<Longrightarrow> p r \<Longrightarrow> le r (f r)) \<Longrightarrow> grows le rs (upd_where p f rs)"
  unfolding grows_def using upd_where_le [of rs p le f] by blast

lemma growsE: "grows le rs rs' \<Longrightarrow> r \<in> set rs \<Longrightarrow> (\<And>r'. r' \<in> set rs' \<Longrightarrow> le r r' \<Longrightarrow> thesis) \<Longrightarrow> thesis"
  unfolding grows_def by blast

subsection \<open>The invariant\<close>

definition signal_ok :: "signal_row \<Rightarrow> bool" where
  "signal_ok r \<longleftrightarrow> (if sg_completed r = None then sg_result r = JObj []
     else snapshot_json ''playbook_runs'' (signal_processing_result (sg_result r)) = sg_result r)"

definition signals_ok :: "signal_row list \<Rightarrow> bool" where
  "signals_ok rs \<longleftrightarrow> distinct (map sg_id rs) \<and> distinct (map (\<lambda>r. (sg_tenant r, sg_client r)) rs) \<and> (\<forall>r \<in> set rs. signal_ok r)"

definition receipt_ok :: "correlation_row \<Rightarrow> bool" where
  "receipt_ok r \<longleftrightarrow> (if co_completed r = None then co_result r = JObj [] \<and> co_case r = None
     else snapshot_json ''playbooks'' (correlation_result_snapshot (co_result r)) = co_result r)"

definition receipts_ok :: "correlation_row list \<Rightarrow> bool" where
  "receipts_ok rs \<longleftrightarrow> distinct (map co_id rs) \<and> distinct (map (\<lambda>r. (co_tenant r, co_key r)) rs) \<and> (\<forall>r \<in> set rs. receipt_ok r)"

definition cases_ok :: "soc_case_row list \<Rightarrow> bool" where
  "cases_ok cs \<longleftrightarrow> distinct (map ca_id cs) \<and> (\<forall>c \<in> set cs. \<forall>b \<in> set cs. same_source c b \<longrightarrow> b = c)
     \<and> (\<forall>c \<in> set cs. ca_severity c \<in> set case_severities \<and> ca_status c \<in> set case_statuses)"

definition has_signal :: "uuid \<Rightarrow> uuid \<Rightarrow> sg_db \<Rightarrow> bool" where
  "has_signal tenant i d \<longleftrightarrow> (\<exists>r \<in> set (security_signals d). sg_id r = i \<and> sg_tenant r = tenant)"

definition has_receipt :: "uuid \<Rightarrow> uuid \<Rightarrow> sg_db \<Rightarrow> bool" where
  "has_receipt tenant i d \<longleftrightarrow> (\<exists>r \<in> set (correlation_receipts d). co_id r = i \<and> co_tenant r = tenant)"

definition has_case :: "uuid \<Rightarrow> uuid \<Rightarrow> sg_db \<Rightarrow> bool" where
  "has_case tenant i d \<longleftrightarrow> (\<exists>c \<in> set (soc_cases d). ca_id c = i \<and> ca_tenant c = tenant)"

definition sources_ok :: "sg_db \<Rightarrow> bool" where
  "sources_ok d \<longleftrightarrow> (\<forall>c \<in> set (soc_cases d).
       (\<forall>s. ca_signal c = Some s \<longrightarrow> has_signal (ca_tenant c) s d)
       \<and> (\<forall>i. ca_correlation c = Some i \<longrightarrow> has_receipt (ca_tenant c) i d))
     \<and> (\<forall>r \<in> set (correlation_receipts d). \<forall>c. co_case r = Some c \<longrightarrow> has_case (co_tenant r) c d)"

definition runs_ok :: "run_row list \<Rightarrow> bool" where
  "runs_ok rs \<longleftrightarrow> distinct (map run_id rs) \<and> distinct (map (\<lambda>r. (run_tenant r, run_key r)) rs)"

definition sg_inv :: "sg_db \<Rightarrow> bool" where
  "sg_inv d \<longleftrightarrow> signals_ok (security_signals d) \<and> receipts_ok (correlation_receipts d) \<and> cases_ok (soc_cases d)
     \<and> sources_ok d \<and> runs_ok (playbook_runs d)"

subsection \<open>What no call does\<close>

definition signal_le :: "signal_row \<Rightarrow> signal_row \<Rightarrow> bool" where
  "signal_le r r' \<longleftrightarrow> r' = r\<lparr>sg_completed := sg_completed r', sg_result := sg_result r'\<rparr>
     \<and> (sg_completed r \<noteq> None \<longrightarrow> r' = r)"

definition receipt_le :: "correlation_row \<Rightarrow> correlation_row \<Rightarrow> bool" where
  "receipt_le r r' \<longleftrightarrow> co_id r' = co_id r \<and> co_tenant r' = co_tenant r \<and> co_key r' = co_key r \<and> co_sha r' = co_sha r
     \<and> (co_completed r \<noteq> None \<longrightarrow> r' = r)"

definition case_le :: "soc_case_row \<Rightarrow> soc_case_row \<Rightarrow> bool" where
  "case_le c c' \<longleftrightarrow> ca_id c' = ca_id c \<and> ca_tenant c' = ca_tenant c \<and> ca_signal c' = ca_signal c
     \<and> ca_correlation c' = ca_correlation c \<and> ca_rules c' = ca_rules c \<and> ca_creator c' = ca_creator c \<and> ca_created c' = ca_created c"

lemma le_refl [simp]: "signal_le r r" "receipt_le q q" "case_le c c"
  by (simp_all add: signal_le_def receipt_le_def case_le_def)

lemma le_trans:
  "signal_le r r' \<Longrightarrow> signal_le r' r'' \<Longrightarrow> signal_le r r''"
  "receipt_le q q' \<Longrightarrow> receipt_le q' q'' \<Longrightarrow> receipt_le q q''"
  "case_le c c' \<Longrightarrow> case_le c' c'' \<Longrightarrow> case_le c c''"
  by (cases r; cases r'; cases r''; auto simp: signal_le_def)
    (auto simp: receipt_le_def case_le_def)

definition sg_rely :: "sg_db \<Rightarrow> sg_db \<Rightarrow> bool" where
  "sg_rely d d' \<longleftrightarrow> (sg_inv d \<longrightarrow> sg_inv d' \<and> now d \<le> now d'
     \<and> grows signal_le (security_signals d) (security_signals d')
     \<and> grows receipt_le (correlation_receipts d) (correlation_receipts d')
     \<and> grows case_le (soc_cases d) (soc_cases d')
     \<and> run_identity ` set (playbook_runs d) \<subseteq> run_identity ` set (playbook_runs d'))"

lemma sg_rely_trans: "sg_rely d d' \<Longrightarrow> sg_rely d' d'' \<Longrightarrow> sg_rely d d''"
  unfolding sg_rely_def
  by (meson grows_trans le_trans order_trans subset_trans)

interpretation sg: protocol sg_inv sg_rely
  by unfold_locales (simp add: sg_rely_def grows_refl, erule (1) sg_rely_trans, simp_all add: sg_rely_def)

lemma same_more:
  assumes "pb_db.more d' = pb_db.more (d :: sg_db)"
  shows "security_signals d' = security_signals d" "correlation_receipts d' = correlation_receipts d"
    "soc_cases d' = soc_cases d" "live_accounts d' = live_accounts d"
  using assms by (cases d; cases d'; simp)+

lemma sources_cong: "soc_cases d' = soc_cases d \<Longrightarrow> security_signals d' = security_signals d \<Longrightarrow>
    correlation_receipts d' = correlation_receipts d \<Longrightarrow> sources_ok d' = sources_ok d"
  by (simp add: sources_ok_def has_signal_def has_receipt_def has_case_def)

lemma rely_playbook_step:
  assumes "playbook_step d d'"
  shows "sg_rely d d'"
  using assms same_more [of d' d] sources_cong [of d' d]
  unfolding sg_rely_def sg_inv_def playbook_step_def runs_kept_def runs_ok_def
  by (simp add: grows_refl)

interpretation sgp: playbook_client sg_inv sg_rely
proof unfold_locales
  show "sg_rely d (add_audit row d)" for d row by (rule rely_playbook_step) (rule step_audit)
  show "playbook_step d d' \<Longrightarrow> sg_rely d d'" for d d' by (rule rely_playbook_step)
qed (simp_all add: sg_rely_def sg_inv_def runs_ok_def)

subsection \<open>Snapshots\<close>

lemma dicts_of_map [simp]: "dicts_of (JArr (map JObj xs)) = xs"
  unfolding dicts_of_def by (induction xs) simp_all

lemma snapshot_round_trip: "k \<noteq> ''matches'' \<Longrightarrow> k \<noteq> ''case'' \<Longrightarrow> snapshot_from k (snapshot_json k s) = s"
  by (cases s) (simp add: snapshot_from_def snapshot_json_def jget_def split: option.split)

lemma signal_round_trip [simp]: "signal_processing_result (snapshot_json ''playbook_runs'' s) = s"
  by (simp add: signal_processing_result_def snapshot_round_trip)

lemma receipt_round_trip [simp]: "correlation_result_snapshot (snapshot_json ''playbooks'' s) = s"
  by (simp add: correlation_result_snapshot_def snapshot_round_trip)

subsection \<open>References survive\<close>

lemma signal_le_keys: "signal_le r r' \<Longrightarrow> sg_id r' = sg_id r \<and> sg_tenant r' = sg_tenant r \<and> sg_client r' = sg_client r
    \<and> sg_sha r' = sg_sha r"
  by (cases r; cases r'; simp add: signal_le_def)

lemma has_signal_mono: "grows signal_le (security_signals d) (security_signals d') \<Longrightarrow> has_signal t i d \<Longrightarrow> has_signal t i d'"
  unfolding has_signal_def grows_def using signal_le_keys by metis

lemma has_receipt_mono: "grows receipt_le (correlation_receipts d) (correlation_receipts d') \<Longrightarrow> has_receipt t i d \<Longrightarrow> has_receipt t i d'"
  unfolding has_receipt_def by (auto elim!: growsE simp: receipt_le_def)

lemma has_case_mono: "grows case_le (soc_cases d) (soc_cases d') \<Longrightarrow> has_case t i d \<Longrightarrow> has_case t i d'"
  unfolding has_case_def by (auto elim!: growsE simp: case_le_def)

lemma sources_mono:
  assumes "sources_ok d" and g: "grows signal_le (security_signals d) (security_signals d')"
      "grows receipt_le (correlation_receipts d) (correlation_receipts d')" "grows case_le (soc_cases d) (soc_cases d')"
    and c: "\<And>c. c \<in> set (soc_cases d') \<Longrightarrow> (\<exists>b \<in> set (soc_cases d). ca_tenant c = ca_tenant b \<and> ca_signal c = ca_signal b \<and> ca_correlation c = ca_correlation b)
        \<or> (\<forall>s. ca_signal c = Some s \<longrightarrow> has_signal (ca_tenant c) s d) \<and> (\<forall>i. ca_correlation c = Some i \<longrightarrow> has_receipt (ca_tenant c) i d)"
    and r: "\<And>r. r \<in> set (correlation_receipts d') \<Longrightarrow> (\<exists>q \<in> set (correlation_receipts d). co_tenant r = co_tenant q \<and> co_case r = co_case q)
        \<or> (\<forall>c. co_case r = Some c \<longrightarrow> has_case (co_tenant r) c d)"
  shows "sources_ok d'"
  unfolding sources_ok_def
proof (intro conjI ballI allI impI)
  fix c s assume "c \<in> set (soc_cases d')" "ca_signal c = Some s"
  with c [of c] assms(1) have "has_signal (ca_tenant c) s d" by (fastforce simp: sources_ok_def)
  then show "has_signal (ca_tenant c) s d'" by (rule has_signal_mono [OF g(1)])
next
  fix c i assume "c \<in> set (soc_cases d')" "ca_correlation c = Some i"
  with c [of c] assms(1) have "has_receipt (ca_tenant c) i d" by (fastforce simp: sources_ok_def)
  then show "has_receipt (ca_tenant c) i d'" by (rule has_receipt_mono [OF g(2)])
next
  fix q c assume "q \<in> set (correlation_receipts d')" "co_case q = Some c"
  with r [of q] assms(1) have "has_case (co_tenant q) c d" by (fastforce simp: sources_ok_def)
  then show "has_case (co_tenant q) c d'" by (rule has_case_mono [OF g(3)])
qed

lemma sources_signals:
  assumes "sources_ok d" and "grows signal_le (security_signals d) (security_signals d')"
    and "soc_cases d' = soc_cases d" and "correlation_receipts d' = correlation_receipts d @ rs"
    and "\<And>r. r \<in> set rs \<Longrightarrow> co_case r = None"
  shows "sources_ok d'"
proof (rule sources_mono [OF assms(1,2)])
  show "grows receipt_le (correlation_receipts d) (correlation_receipts d')" unfolding assms(4) by (rule grows_append) simp
  show "grows case_le (soc_cases d) (soc_cases d')" unfolding assms(3) by (rule grows_refl) simp
  fix c assume "c \<in> set (soc_cases d')"
  then show "(\<exists>b \<in> set (soc_cases d). ca_tenant c = ca_tenant b \<and> ca_signal c = ca_signal b \<and> ca_correlation c = ca_correlation b)
      \<or> (\<forall>s. ca_signal c = Some s \<longrightarrow> has_signal (ca_tenant c) s d) \<and> (\<forall>i. ca_correlation c = Some i \<longrightarrow> has_receipt (ca_tenant c) i d)"
    unfolding assms(3) by blast
next
  fix r assume "r \<in> set (correlation_receipts d')"
  then have "r \<in> set (correlation_receipts d) \<or> co_case r = None" using assms(4,5) by auto
  then show "(\<exists>q \<in> set (correlation_receipts d). co_tenant r = co_tenant q \<and> co_case r = co_case q)
      \<or> (\<forall>c. co_case r = Some c \<longrightarrow> has_case (co_tenant r) c d)" by auto
qed

text \<open>A step of the lane: it keeps the runs, the clock, and the tables it does not name.\<close>

lemma sg_relyI:
  assumes "now d' = now d" and "playbook_runs d' = playbook_runs d"
    and "grows signal_le (security_signals d) (security_signals d')"
    and "grows receipt_le (correlation_receipts d) (correlation_receipts d')"
    and "grows case_le (soc_cases d) (soc_cases d')"
    and "sg_inv d \<Longrightarrow> signals_ok (security_signals d') \<and> receipts_ok (correlation_receipts d') \<and> cases_ok (soc_cases d') \<and> sources_ok d'"
  shows "sg_rely d d'"
  unfolding sg_rely_def using assms by (auto simp: sg_inv_def)

subsection \<open>Statements of the lane\<close>

lemma add_audit_sg [simp]:
  "security_signals (add_audit a d) = security_signals (d :: sg_db)" "correlation_receipts (add_audit a d) = correlation_receipts (d :: sg_db)"
  "soc_cases (add_audit a d) = soc_cases (d :: sg_db)"
  by (simp_all add: add_audit_def)

lemma insert_signal_rely:
  assumes "insert_signal r d = Inr (x, d')" and "sg_completed r = None" and "sg_result r = JObj []"
  shows "sg_rely d d'"
proof (cases x)
  case None
  with assms(1) have "d' = d" by (auto simp: insert_signal_def Let_def split: if_splits)
  then show ?thesis by (simp add: sg.rely_refl)
next
  case (Some x')
  define row where "row = r\<lparr>sg_created := now d\<rparr>"
  from assms(1) Some have d': "d' = d\<lparr>security_signals := security_signals d @ [row]\<rparr>"
    and new: "\<forall>q \<in> set (security_signals d). \<not> same_signal (sg_tenant r) (sg_client r) q \<and> sg_id q \<noteq> sg_id r"
    by (auto simp: insert_signal_def row_def Let_def list_ex_iff split: if_splits)
  have row: "signal_ok row" "sg_id row \<notin> sg_id ` set (security_signals d)"
      "(sg_tenant row, sg_client row) \<notin> (\<lambda>r. (sg_tenant r, sg_client r)) ` set (security_signals d)"
    using new assms(2,3) by (auto simp: row_def same_signal_def signal_ok_def)
  show ?thesis
  proof (rule sg_relyI)
    assume inv: "sg_inv d"
    then have "sources_ok d'" by (intro sources_signals [of d d' "[]"]) (simp_all add: d' sg_inv_def grows_append)
    with inv row show "signals_ok (security_signals d') \<and> receipts_ok (correlation_receipts d') \<and> cases_ok (soc_cases d') \<and> sources_ok d'"
      by (auto simp: d' sg_inv_def signals_ok_def)
  qed (simp_all add: d' grows_append grows_refl)
qed

lemma complete_signal_rely:
  assumes "complete_signal i tenant (snapshot_json ''playbook_runs'' s) audit d = (x, d')"
  shows "sg_rely d d'"
proof (cases x)
  case False
  with assms have "d' = d" by (auto simp: complete_signal_def Let_def split: if_splits)
  then show ?thesis by (simp add: sg.rely_refl)
next
  case True
  define p :: "signal_row \<Rightarrow> bool" where "p = (\<lambda>r. sg_id r = i \<and> sg_tenant r = tenant \<and> sg_completed r = None)"
  define f :: "signal_row \<Rightarrow> signal_row" where "f = (\<lambda>r. r\<lparr>sg_completed := Some (now d), sg_result := snapshot_json ''playbook_runs'' s\<rparr>)"
  from assms True have d': "d' = add_audit audit (d\<lparr>security_signals := upd_where p f (security_signals d)\<rparr>)"
    by (auto simp: complete_signal_def Let_def p_def f_def split: if_splits)
  have g: "grows signal_le (security_signals d) (upd_where p f (security_signals d))"
    by (rule grows_upd) (auto simp: p_def f_def signal_le_def)
  show ?thesis
  proof (rule sg_relyI)
    assume inv: "sg_inv d"
    then have "sources_ok d'" by (intro sources_signals [of d d' "[]"]) (simp_all add: d' g sg_inv_def)
    moreover have "map sg_id (upd_where p f rs) = map sg_id rs"
      "map (\<lambda>r. (sg_tenant r, sg_client r)) (upd_where p f rs) = map (\<lambda>r. (sg_tenant r, sg_client r)) rs" for rs
      by (simp_all add: upd_where_def f_def)
    ultimately show "signals_ok (security_signals d') \<and> receipts_ok (correlation_receipts d') \<and> cases_ok (soc_cases d') \<and> sources_ok d'"
      using inv by (simp add: d' sg_inv_def signals_ok_def ball_upd_where) (simp add: signal_ok_def f_def)
  qed (simp_all add: d' g grows_refl)
qed

lemma insert_receipt_rely:
  assumes "insert_receipt r d = Inr (x, d')" and "co_completed r = None" and "co_result r = JObj []" and "co_case r = None"
  shows "sg_rely d d'"
proof (cases x)
  case None
  with assms(1) have "d' = d" by (auto simp: insert_receipt_def Let_def split: if_splits)
  then show ?thesis by (simp add: sg.rely_refl)
next
  case (Some j)
  define row where "row = r\<lparr>co_created := now d, co_updated := now d\<rparr>"
  from assms Some have d': "d' = d\<lparr>correlation_receipts := correlation_receipts d @ [row]\<rparr>"
    and row: "receipt_ok row" "co_case row = None" "co_id row \<notin> co_id ` set (correlation_receipts d)"
      "(co_tenant row, co_key row) \<notin> (\<lambda>r. (co_tenant r, co_key r)) ` set (correlation_receipts d)"
    by (auto simp: insert_receipt_def row_def Let_def list_ex_iff receipt_ok_def split: if_splits)
  show ?thesis
  proof (rule sg_relyI)
    assume inv: "sg_inv d"
    then have "sources_ok d'" using row(2) by (intro sources_signals [of d d' "[row]"]) (simp_all add: d' sg_inv_def grows_refl)
    with inv row show "signals_ok (security_signals d') \<and> receipts_ok (correlation_receipts d') \<and> cases_ok (soc_cases d') \<and> sources_ok d'"
      by (auto simp: d' sg_inv_def receipts_ok_def)
  qed (simp_all add: d' grows_append grows_refl)
qed

lemma complete_receipt_rely:
  assumes "complete_receipt_stmt tenant i m c n (snapshot_json ''playbooks'' s) actor d = Inr (x, d')"
    and "\<And>j. c = Some j \<Longrightarrow> has_case tenant j d"
  shows "sg_rely d d'"
proof (cases x)
  case False
  with assms have "d' = d" by (auto simp: complete_receipt_stmt_def Let_def split: if_splits)
  then show ?thesis by (simp add: sg.rely_refl)
next
  case True
  define p :: "correlation_row \<Rightarrow> bool" where "p = (\<lambda>r. co_id r = i \<and> co_tenant r = tenant \<and> co_completed r = None)"
  define f :: "correlation_row \<Rightarrow> correlation_row" where "f = (\<lambda>r. r\<lparr>co_completed := Some (now d), co_matches := m, co_case := c, co_runs := n,
            co_result := snapshot_json ''playbooks'' s, co_updated := now d\<rparr>)"
  from assms True obtain audit where d': "d' = add_audit audit (d\<lparr>correlation_receipts := upd_where p f (correlation_receipts d)\<rparr>)"
    by (auto simp: complete_receipt_stmt_def Let_def p_def f_def split: if_splits)
  have g: "grows receipt_le (correlation_receipts d) (upd_where p f (correlation_receipts d))"
    by (rule grows_upd) (auto simp: p_def f_def receipt_le_def)
  show ?thesis
  proof (rule sg_relyI)
    assume inv: "sg_inv d"
    have "sources_ok d'"
    proof (rule sources_mono [of d])
      fix r assume "r \<in> set (correlation_receipts d')"
      then show "(\<exists>q \<in> set (correlation_receipts d). co_tenant r = co_tenant q \<and> co_case r = co_case q)
        \<or> (\<forall>c. co_case r = Some c \<longrightarrow> has_case (co_tenant r) c d)"
        using assms(2) by (auto simp: d' set_upd_where p_def f_def)
    qed (use inv in \<open>auto simp: d' g sg_inv_def grows_refl\<close>)
    moreover have "map co_id (upd_where p f rs) = map co_id rs"
      "map (\<lambda>r. (co_tenant r, co_key r)) (upd_where p f rs) = map (\<lambda>r. (co_tenant r, co_key r)) rs" for rs
      by (simp_all add: upd_where_def f_def)
    ultimately show "signals_ok (security_signals d') \<and> receipts_ok (correlation_receipts d') \<and> cases_ok (soc_cases d') \<and> sources_ok d'"
      using inv by (simp add: d' sg_inv_def receipts_ok_def ball_upd_where) (simp add: receipt_ok_def f_def)
  qed (simp_all add: d' g grows_refl)
qed

lemma insert_case_rely:
  assumes "insert_case c d = Inr (x, d')" and "ca_status c = ''open''"
    and "\<And>s. ca_signal c = Some s \<Longrightarrow> has_signal (ca_tenant c) s d"
    and "\<And>i. ca_correlation c = Some i \<Longrightarrow> has_receipt (ca_tenant c) i d"
  shows "sg_rely d d'"
proof (cases x)
  case None
  with assms(1) have "d' = d" by (auto simp: insert_case_def Let_def split: if_splits)
  then show ?thesis by (simp add: sg.rely_refl)
next
  case (Some row)
  with assms(1) have d': "d' = d\<lparr>soc_cases := soc_cases d @ [row]\<rparr>" and row: "row = c\<lparr>ca_created := now d, ca_updated := now d\<rparr>"
    and ok: "ca_severity c \<in> set case_severities" "\<And>b. b \<in> set (soc_cases d) \<Longrightarrow> ca_id b \<noteq> ca_id c \<and> \<not> same_source c b"
    by (auto simp: insert_case_def Let_def list_ex_iff split: if_splits)
  have src: "same_source row b = same_source c b" "same_source b row \<longleftrightarrow> same_source c b" for b
    by (auto simp: same_source_def row)
  have fresh: "ca_id row \<notin> ca_id ` set (soc_cases d)" "\<forall>b \<in> set (soc_cases d). \<not> same_source row b \<and> \<not> same_source b row"
    using ok(2) src by (auto simp: row) metis+
  have st: "ca_severity row \<in> set case_severities" "ca_status row \<in> set case_statuses"
    using ok(1) assms(2) by (simp_all add: row case_statuses_def)
  show ?thesis
  proof (rule sg_relyI)
    assume inv: "sg_inv d"
    have "sources_ok d'"
    proof (rule sources_mono [of d])
      fix b assume "b \<in> set (soc_cases d')"
      then show "(\<exists>q \<in> set (soc_cases d). ca_tenant b = ca_tenant q \<and> ca_signal b = ca_signal q \<and> ca_correlation b = ca_correlation q)
        \<or> (\<forall>s. ca_signal b = Some s \<longrightarrow> has_signal (ca_tenant b) s d) \<and> (\<forall>i. ca_correlation b = Some i \<longrightarrow> has_receipt (ca_tenant b) i d)"
        using assms(3,4) by (auto simp: d' row)
    qed (use inv in \<open>auto simp: d' sg_inv_def grows_refl grows_append\<close>)
    with inv fresh st show "signals_ok (security_signals d') \<and> receipts_ok (correlation_receipts d') \<and> cases_ok (soc_cases d') \<and> sources_ok d'"
      by (auto simp: d' sg_inv_def cases_ok_def)
  qed (simp_all add: d' grows_append grows_refl)
qed

lemma update_case_rely:
  assumes "update_case_stmt i tenant u d = Inr (x, d')"
  shows "sg_rely d d'"
proof (cases "d' = d")
  case True
  then show ?thesis by (simp add: sg.rely_refl)
next
  case False
  define p :: "soc_case_row \<Rightarrow> bool" where "p = (\<lambda>r. ca_id r = i \<and> ca_tenant r = tenant)"
  define f :: "soc_case_row \<Rightarrow> soc_case_row" where "f = patch_case u (now d)"
  from assms False obtain r where r: "first_row p (soc_cases d) = Some r"
    and ok: "ca_severity (f r) \<in> set case_severities" "ca_status (f r) \<in> set case_statuses"
    and d': "d' = d\<lparr>soc_cases := upd_where p f (soc_cases d)\<rparr>"
    by (auto simp: update_case_stmt_def Let_def p_def f_def split: option.splits if_splits)
  have keys: "ca_id (f c) = ca_id c" "ca_tenant (f c) = ca_tenant c" "ca_signal (f c) = ca_signal c" "ca_correlation (f c) = ca_correlation c"
    "case_le c (f c)" for c
    by (simp_all add: f_def patch_case_def Let_def case_le_def)
  have g: "grows case_le (soc_cases d) (upd_where p f (soc_cases d))" by (rule grows_upd) (simp_all add: keys)
  show ?thesis
  proof (rule sg_relyI)
    assume inv: "sg_inv d"
    then have "c = r" if "c \<in> set (soc_cases d)" "p c" for c
      using that first_row_SomeD [OF r] by (auto simp: sg_inv_def cases_ok_def p_def distinct_map inj_on_def)
    then have ok': "ca_severity (f c) \<in> set case_severities \<and> ca_status (f c) \<in> set case_statuses"
      if "c \<in> set (soc_cases d)" "p c" for c using ok that by blast
    have "same_source (if p c then f c else c) (if p b then f b else b) = same_source c b" for b c
      by (simp add: same_source_def keys)
    then have uniq: "\<forall>c \<in> set (upd_where p f (soc_cases d)). \<forall>b \<in> set (upd_where p f (soc_cases d)). same_source c b \<longrightarrow> b = c"
      using inv by (auto simp: ball_upd_where sg_inv_def cases_ok_def)
    have "sources_ok d'"
    proof (rule sources_mono [of d])
      fix b assume "b \<in> set (soc_cases d')"
      then show "(\<exists>q \<in> set (soc_cases d). ca_tenant b = ca_tenant q \<and> ca_signal b = ca_signal q \<and> ca_correlation b = ca_correlation q)
        \<or> (\<forall>s. ca_signal b = Some s \<longrightarrow> has_signal (ca_tenant b) s d) \<and> (\<forall>i. ca_correlation b = Some i \<longrightarrow> has_receipt (ca_tenant b) i d)"
        by (auto simp: d' set_upd_where keys)
    qed (use inv in \<open>auto simp: d' g sg_inv_def grows_refl\<close>)
    moreover have "map ca_id (upd_where p f rs) = map ca_id rs" for rs by (simp add: upd_where_def keys)
    ultimately show "signals_ok (security_signals d') \<and> receipts_ok (correlation_receipts d') \<and> cases_ok (soc_cases d') \<and> sources_ok d'"
      using inv ok' uniq by (auto simp: d' sg_inv_def cases_ok_def ball_upd_where)
  qed (simp_all add: d' g grows_refl)
qed

end
