(* ===== verification/Siem_System.thy ===== *)
theory Siem_System
  imports Siem_Safety
begin

section \<open>The signal lane: operations and histories\<close>

text \<open>
  Every operation of the lane keeps the invariant and the relation of \<open>Siem_Safety\<close> under any
  interference that does; what an operation has read of a row it finds again later.
\<close>

lemma stable_refs:
  "stable sg_rely (\<lambda>d. sg_inv d \<and> has_signal t i d)"
  "stable sg_rely (\<lambda>d. sg_inv d \<and> has_receipt t i d)"
  "stable sg_rely (\<lambda>d. sg_inv d \<and> has_case t i d)"
  unfolding stable_def by (auto simp: sg_rely_def intro: has_signal_mono has_receipt_mono has_case_mono)

text \<open>A row is known once read: later it is the same up to its completion.\<close>

definition knows :: "signal_row \<Rightarrow> sg_db \<Rightarrow> bool" where
  "knows r d \<longleftrightarrow> (\<exists>x \<in> set (security_signals d). signal_le r x)"

lemma stable_knows: "stable sg_rely (\<lambda>d. sg_inv d \<and> knows r d)"
  unfolding stable_def knows_def sg_rely_def by (auto elim!: growsE intro: le_trans(1))

lemma knows_signal: "knows r d \<Longrightarrow> has_signal (sg_tenant r) (sg_id r) d"
  unfolding knows_def has_signal_def using signal_le_keys by blast

lemma knows_unique:
  assumes "sg_inv d" and "knows r d" and "x \<in> set (security_signals d)" and "sg_id x = sg_id r"
  shows "signal_le r x"
proof -
  from assms(2) obtain y where y: "y \<in> set (security_signals d)" "signal_le r y" by (auto simp: knows_def)
  with assms(1,3,4) signal_le_keys [OF y(2)] have "y = x"
    by (auto simp: sg_inv_def signals_ok_def distinct_map inj_on_def)
  with y(2) show ?thesis by simp
qed

subsection \<open>Cases\<close>

definition case_found :: "uuid \<Rightarrow> uuid option \<Rightarrow> soc_case_row option \<Rightarrow> sg_db \<Rightarrow> bool" where
  "case_found tenant signal r d \<longleftrightarrow> (case r of None \<Rightarrow> True
     | Some c \<Rightarrow> has_case tenant (ca_id c) d \<and> ca_tenant c = tenant \<and> (signal = None \<or> ca_signal c = signal))"

lemma stable_case_found: "stable sg_rely (\<lambda>d. sg_inv d \<and> case_found t s r d)"
proof -
  have "stable sg_rely (\<lambda>d. sg_inv d \<and> has_case t (ca_id c) d)" for c by (rule stable_refs)
  then show ?thesis unfolding case_found_def stable_def by (auto split: option.splits simp: sg_rely_def)
qed

definition refs :: "uuid \<Rightarrow> uuid option \<Rightarrow> uuid option \<Rightarrow> sg_db \<Rightarrow> bool" where
  "refs tenant signal correlation d \<longleftrightarrow>
     (\<forall>s. signal = Some s \<longrightarrow> has_signal tenant s d) \<and> (\<forall>i. correlation = Some i \<longrightarrow> has_receipt tenant i d)"

lemma stable_case_refs: "stable sg_rely (\<lambda>d. sg_inv d \<and> refs t s c d)"
  unfolding stable_def refs_def by (auto simp: sg_rely_def intro: has_signal_mono has_receipt_mono)

lemma insert_case_row: "insert_case c d = Inr (Some r, d') \<Longrightarrow> r \<in> set (soc_cases d') \<and> ca_id r = ca_id c
    \<and> ca_tenant r = ca_tenant c \<and> ca_signal r = ca_signal c"
  by (auto simp: insert_case_def Let_def split: if_splits)

lemma keeps_insert_case:
  assumes "ca_status c = ''open''"
  shows "keeps sg_inv sg_rely (refs (ca_tenant c) (ca_signal c) (ca_correlation c)) (stmt (insert_case c))
     (\<lambda>r d. case_found (ca_tenant c) (ca_signal c) r d)"
proof (rule sg.keeps_stmt [OF stable_case_refs])
  fix d r d'
  assume "sg_inv d" and p: "refs (ca_tenant c) (ca_signal c) (ca_correlation c) d" and i: "insert_case c d = Inr (r, d')"
  from insert_case_rely [OF i assms] p have "sg_rely d d'" by (simp add: refs_def)
  with insert_case_row [of c d _ d'] i show "sg_rely d d' \<and> case_found (ca_tenant c) (ca_signal c) r d'"
    by (cases r) (auto simp: case_found_def has_case_def)
qed

lemma safe_insert_case:
  assumes "ca_signal c = None" and "ca_correlation c = None" and "ca_status c = ''open''"
    and "\<And>d r d'. f d = Inr (r, d') \<Longrightarrow> \<exists>x. insert_case c d = Inr (x, d')"
  shows "safe sg_inv sg_rely (stmt f)"
proof (rule sg.safe_stmt)
  fix d r d' assume "f d = Inr (r, d')"
  then obtain x where "insert_case c d = Inr (x, d')" using assms(4) by blast
  from insert_case_rely [OF this assms(3)] assms(1,2) show "sg_rely d d'" by simp
qed

lemma safe_create_case: "safe sg_inv sg_rely (create_case user tenant title desc sev md)"
  unfolding create_case_def ensure_soc_schema_def ensure_secure_schema_def Let_def
  by (intro sgp.core_intros TrueI safe_insert_case [where c = "new_case i tenant (py_strip title) desc sev (JObj md) (au_user_id user)" for i])
    (auto simp: new_case_def split: sum.splits prod.splits option.splits)

lemma safe_list_cases: "safe sg_inv sg_rely (list_cases user tenant limit)"
  unfolding list_cases_def ensure_soc_schema_def ensure_secure_schema_def by (intro sgp.core_intros TrueI)

lemma safe_update_case: "safe sg_inv sg_rely (update_case user tenant i u)"
  unfolding update_case_def ensure_soc_schema_def ensure_secure_schema_def Let_def
  by (intro sgp.core_intros TrueI sg.safe_stmt) (erule update_case_rely)

lemma select_case_found: "select_case_by_source tenant signal correlation d = Some r \<Longrightarrow> signal = None \<or> correlation = None \<Longrightarrow>
    case_found tenant signal (Some r) d"
  by (auto simp: select_case_by_source_def case_found_def has_case_def dest!: first_row_SomeD)

lemma keeps_open_case:
  assumes one: "signal = None \<or> correlation = None"
  shows "keeps sg_inv sg_rely (refs tenant signal correlation)
    (open_case_from_context env user tenant context signal correlation) (case_found tenant signal)"
proof -
  have fin: "keeps sg_inv sg_rely (case_found tenant signal r)
      (case r of None \<Rightarrow> ret None | Some c \<Rightarrow> bindM (if b then ret () else record_required x1 x2 x3 x4 (ca_id c) x5) (\<lambda>_. ret (Some (case_dict c))))
      (case_found tenant signal)" for r b x1 x2 x3 x4 x5
  proof (cases r)
    case None
    then show ?thesis by (simp add: case_found_def keeps_ret)
  next
    case (Some c)
    show ?thesis
      unfolding Some option.case
      by (intro sg.safe_then [OF _ stable_case_found] sgp.core_intros TrueI keeps_ret)
        (auto simp: case_found_def case_dict_def)
  qed
  have found: "keeps sg_inv sg_rely (case_found tenant signal x)
      (case x of Some r \<Rightarrow> ret (Some r) | None \<Rightarrow> if signal \<noteq> None \<or> correlation \<noteq> None
         then query (select_case_by_source tenant signal correlation) else ret None) (case_found tenant signal)" for x
  proof (cases x)
    case None
    have "keeps sg_inv sg_rely (\<lambda>_. True) (query (select_case_by_source tenant signal correlation)) (case_found tenant signal)"
    proof (rule sg.keeps_query [OF sg.stable_true])
      show "case_found tenant signal (select_case_by_source tenant signal correlation d) d" for d
        using select_case_found [OF _ one] by (cases "select_case_by_source tenant signal correlation d") (auto simp: case_found_def)
    qed
    moreover have "case_found tenant signal None = (\<lambda>_. True)" by (simp add: case_found_def fun_eq_iff)
    ultimately show ?thesis unfolding None option.case by (auto intro!: keeps_if keeps_ret)
  qed (simp add: keeps_ret)
  have ins: "keeps sg_inv sg_rely (refs tenant signal correlation)
      (stmt (insert_case (correlated_case i tenant context ms creator signal correlation))) (case_found tenant signal)" for i ms creator
    using keeps_insert_case [of "correlated_case i tenant context ms creator signal correlation"]
    by (simp add: correlated_case_def new_case_def Let_def)
  show ?thesis
    unfolding open_case_from_context_def ensure_soc_schema_def ensure_secure_schema_def Let_def
    by (intro sg.safe_then [OF sgp.safe_require_tenant_access stable_case_refs] keeps_if
        sg.safe_then [OF safe_bind [OF sgp.safe_ensure_schema sgp.safe_ensure_schema] stable_case_refs]
        sg.safe_then [OF sgp.safe_record_required stable_case_refs] sg.safe_then [OF keeps_uuid4 stable_case_refs]
        keeps_bind [OF ins] keeps_bind [OF found] fin TrueI)
      (simp add: keeps_ret case_found_def)
qed

subsection \<open>Automation\<close>

definition fires :: "sg_env \<Rightarrow> jdict \<Rightarrow> playbook_row \<Rightarrow> bool" where
  "fires env context p \<longleftrightarrow>
     evaluate_playbook_trigger (corr_env.truncate env) (pbk_active p) (pbk_conditions p) context = Inr True"

lemma keeps_run_matching:
  "keeps sg_inv sg_rely (\<lambda>_. True) (run_matching env user tenant context prefix source signal ps)
     (\<lambda>vs _. map (\<lambda>v. run_playbook (rv_run v)) vs = map pbk_id (filter (fires env context) ps)
        \<and> (\<forall>v \<in> set vs. run_tenant (rv_run v) = tenant \<and> run_signal (rv_run v) = signal))"
proof (induction ps)
  case Nil
  then show ?case by (simp add: keeps_ret)
next
  case (Cons p ps)
  let ?trigger = "evaluate_playbook_trigger (corr_env.truncate env) (pbk_active p) (pbk_conditions p) context"
  have ask: "keeps sg_inv sg_rely (\<lambda>_. True) (lift ?trigger) (\<lambda>b _. b \<longleftrightarrow> fires env context p)"
    by (rule keeps_lift) (auto simp: fires_def)
  show ?case
    unfolding run_matching.simps
  proof (rule keeps_bind [OF ask], rule sg.keeps_fact, intro keeps_if, goal_cases)
    case (1 b)
    then show ?case by (intro keeps_conseq [OF Cons.IH]) auto
  next
    case (2 b)
    let ?key = "''auto:'' @ pe_sha256 (cx_py env) (prefix @ '':'' @ pbk_id p)"
    have more: "keeps sg_inv sg_rely (\<lambda>_. \<exists>rid. run_identity (rv_run v) = (rid, tenant, pbk_id p, ?key, signal))
        (bindM (run_matching env user tenant context prefix source signal ps) (\<lambda>vs. ret (v # vs)))
        (\<lambda>vs _. map (\<lambda>v. run_playbook (rv_run v)) vs = map pbk_id (filter (fires env context) (p # ps))
          \<and> (\<forall>v \<in> set vs. run_tenant (rv_run v) = tenant \<and> run_signal (rv_run v) = signal))" for v
    proof (rule sg.keeps_fact)
      assume "\<exists>rid. run_identity (rv_run v) = (rid, tenant, pbk_id p, ?key, signal)"
      then have v: "run_tenant (rv_run v) = tenant" "run_playbook (rv_run v) = pbk_id p" "run_signal (rv_run v) = signal"
        unfolding run_identity_def by blast+
      have f: "filter (fires env context) (p # ps) = p # filter (fires env context) ps" using 2 by simp
      show "keeps sg_inv sg_rely (\<lambda>_. True)
        (bindM (run_matching env user tenant context prefix source signal ps) (\<lambda>vs. ret (v # vs)))
        (\<lambda>vs _. map (\<lambda>v. run_playbook (rv_run v)) vs = map pbk_id (filter (fires env context) (p # ps))
          \<and> (\<forall>v \<in> set vs. run_tenant (rv_run v) = tenant \<and> run_signal (rv_run v) = signal))"
        unfolding f by (rule keeps_bind [OF Cons.IH], rule keeps_ret) (simp add: v)
    qed
    show ?case by (rule keeps_bind [OF sgp.keeps_execute_playbook more])
  qed
qed

lemma safe_run_matching: "safe sg_inv sg_rely (run_matching_playbooks env user tenant context prefix source signal)"
  unfolding run_matching_playbooks_def
  by (intro sgp.playbook_intros keeps_conseq [OF keeps_run_matching])

subsection \<open>Signals\<close>

definition completed_as :: "sg_env \<Rightarrow> signal_request \<Rightarrow> signal_answer \<Rightarrow> sg_db \<Rightarrow> bool" where
  "completed_as env q a d \<longleftrightarrow> (\<exists>r \<in> set (security_signals d). same_signal (sq_tenant q) (sq_client q) r
     \<and> sg_sha r = content_sha256 env q \<and> sg_completed r \<noteq> None \<and> signal_dict r = sa_signal a
     \<and> signal_processing_result (sg_result r) = sa_snapshot a)"

lemma stable_completed_as: "stable sg_rely (\<lambda>d. sg_inv d \<and> completed_as env q a d)"
  unfolding stable_def completed_as_def sg_rely_def by (auto elim!: growsE simp: signal_le_def)

lemma signal_le_dict: "signal_le r x \<Longrightarrow> signal_dict x = signal_dict r"
  by (cases r; cases x; simp add: signal_le_def signal_dict_def)

lemma completed_signal_row:
  assumes "complete_signal i t (snapshot_json ''playbook_runs'' s) audit d = (True, d')" and "sg_inv d" and "knows r d"
    and "i = sg_id r" and "t = sg_tenant r"
  shows "\<exists>x \<in> set (security_signals d'). signal_le r x \<and> sg_completed x \<noteq> None \<and> signal_processing_result (sg_result x) = s"
proof -
  define p :: "signal_row \<Rightarrow> bool" where "p = (\<lambda>r. sg_id r = i \<and> sg_tenant r = t \<and> sg_completed r = None)"
  define f :: "signal_row \<Rightarrow> signal_row"
    where "f = (\<lambda>r. r\<lparr>sg_completed := Some (now d), sg_result := snapshot_json ''playbook_runs'' s\<rparr>)"
  from assms(1) have hit: "list_ex p (security_signals d)"
    and d': "d' = add_audit audit (d\<lparr>security_signals := upd_where p f (security_signals d)\<rparr>)"
    by (auto simp: complete_signal_def Let_def p_def f_def split: if_splits)
  from hit obtain x where x: "x \<in> set (security_signals d)" "p x" by (auto simp: list_ex_iff)
  with assms(4) knows_unique [OF assms(2,3) x(1)] have "signal_le r x" by (simp add: p_def)
  moreover have "signal_le x (f x)" using x(2) by (auto simp: signal_le_def f_def p_def)
  ultimately have "signal_le r (f x)" by (rule le_trans(1))
  moreover have "f x \<in> set (security_signals d')" using in_upd_whereI [OF x(1), of p f] x(2) by (simp add: d')
  ultimately show ?thesis by (intro bexI [of _ "f x"]) (simp_all add: f_def)
qed

lemma completed_asI:
  assumes "x \<in> set (security_signals d)" and "signal_le r x" and "sg_completed x \<noteq> None"
    and "same_signal (sq_tenant q) (sq_client q) r" and "sg_sha r = content_sha256 env q"
  shows "completed_as env q \<lparr>sa_signal = signal_dict r, sa_duplicate = b, sa_snapshot = signal_processing_result (sg_result x)\<rparr> d"
  using assms signal_le_keys [OF assms(2)] signal_le_dict [OF assms(2)]
  by (auto simp: completed_as_def same_signal_def intro!: bexI [of _ x])

lemma keeps_process_signal:
  assumes same: "same_signal (sq_tenant q) (sq_client q) r" and sha: "sg_sha r = content_sha256 env q"
  shows "keeps sg_inv sg_rely (knows r) (process_signal env user q r created) (completed_as env q)"
proof -
  let ?t = "sq_tenant q"
  from same have t: "sg_tenant r = ?t" by (simp add: same_signal_def)
  have refs: "knows r d \<Longrightarrow> refs ?t (Some (sg_id r)) None d" for d
    using knows_signal [of r d] t by (simp add: refs_def)
  have "safe sg_inv sg_rely (ret None :: soc_case_row option sg_prog)" by (simp add: keeps_ret)
  then have opened: "keeps sg_inv sg_rely (knows r)
      (if b then open_case_from_context env user ?t ctx (Some (sg_id r)) None else ret None) (\<lambda>_. knows r)" for b ctx
  proof (cases b)
    case True
    have "keeps sg_inv sg_rely (\<lambda>d. refs ?t (Some (sg_id r)) None d \<and> knows r d)
        (open_case_from_context env user ?t ctx (Some (sg_id r)) None) (\<lambda>c d. case_found ?t (Some (sg_id r)) c d \<and> knows r d)"
      by (rule sg.keeps_frame [OF keeps_open_case stable_knows]) simp
    then have "keeps sg_inv sg_rely (knows r) (open_case_from_context env user ?t ctx (Some (sg_id r)) None) (\<lambda>_. knows r)"
      by (rule keeps_conseq) (blast intro: refs)+
    with True show ?thesis by simp
  qed (simp add: keeps_ret)
  have ran: "safe sg_inv sg_rely (if b then run_matching_playbooks env user ?t ctx prefix source s else ret [])" for b ctx prefix source s
    by (simp add: safe_run_matching keeps_ret)
  have compl: "keeps sg_inv sg_rely (knows r)
      (stmt (\<lambda>d. Inr (complete_signal (sg_id r) ?t (snapshot_json ''playbook_runs'' s) audit d)))
      (\<lambda>b d. if b then completed_as env q \<lparr>sa_signal = signal_dict r, sa_duplicate = \<not> created, sa_snapshot = s\<rparr> d else knows r d)" for s audit
  proof (rule sg.keeps_stmt [OF stable_knows])
    fix d b d'
    assume inv: "sg_inv d" and k: "knows r d"
      and "Inr (complete_signal (sg_id r) ?t (snapshot_json ''playbook_runs'' s) audit d) = Inr (b, d')"
    then have c: "complete_signal (sg_id r) ?t (snapshot_json ''playbook_runs'' s) audit d = (b, d')" by simp
    from complete_signal_rely [OF c] have R: "sg_rely d d'" .
    show "sg_rely d d' \<and> (if b then completed_as env q \<lparr>sa_signal = signal_dict r, sa_duplicate = \<not> created, sa_snapshot = s\<rparr> d'
        else knows r d')"
    proof (cases b)
      case True
      with c have "complete_signal (sg_id r) ?t (snapshot_json ''playbook_runs'' s) audit d = (True, d')" by simp
      from completed_signal_row [OF this inv k] t obtain x where x: "x \<in> set (security_signals d')" "signal_le r x"
        "sg_completed x \<noteq> None" "signal_processing_result (sg_result x) = s" by auto
      from completed_asI [OF x(1-3) same sha] x(4) R True show ?thesis by simp
    next
      case False
      from R inv k stable_knows have "knows r d'" unfolding stable_def by blast
      with False R show ?thesis by simp
    qed
  qed
  have look: "keeps sg_inv sg_rely (knows r) (query (\<lambda>d. first_row (\<lambda>x. sg_id x = sg_id r \<and> sg_tenant x = ?t) (security_signals d)))
      (\<lambda>x d. case x of None \<Rightarrow> True | Some x \<Rightarrow> sg_completed x \<noteq> None \<longrightarrow> completed_as env q
        \<lparr>sa_signal = signal_dict r, sa_duplicate = \<not> created, sa_snapshot = signal_processing_result (sg_result x)\<rparr> d)"
  proof (rule sg.keeps_query [OF stable_knows])
    fix d assume inv: "sg_inv d" and k: "knows r d"
    show "case first_row (\<lambda>x. sg_id x = sg_id r \<and> sg_tenant x = ?t) (security_signals d) of None \<Rightarrow> True
      | Some x \<Rightarrow> sg_completed x \<noteq> None \<longrightarrow> completed_as env q
        \<lparr>sa_signal = signal_dict r, sa_duplicate = \<not> created, sa_snapshot = signal_processing_result (sg_result x)\<rparr> d"
    proof (cases "first_row (\<lambda>x. sg_id x = sg_id r \<and> sg_tenant x = ?t) (security_signals d)")
      case (Some x)
      from first_row_SomeD [OF this] have x: "x \<in> set (security_signals d)" "sg_id x = sg_id r" by auto
      with Some completed_asI [OF x(1) knows_unique [OF inv k x] _ same sha] show ?thesis by simp
    qed simp
  qed
  have answer: "keeps sg_inv sg_rely (\<lambda>d. case x of None \<Rightarrow> True | Some x \<Rightarrow> sg_completed x \<noteq> None \<longrightarrow> completed_as env q
        \<lparr>sa_signal = signal_dict r, sa_duplicate = \<not> created, sa_snapshot = signal_processing_result (sg_result x)\<rparr> d)
      (case x of Some x \<Rightarrow> if sg_completed x = None
           then raise (RuntimeError ''security signal processing receipt could not be completed'')
           else ret \<lparr>sa_signal = signal_dict r, sa_duplicate = \<not> created, sa_snapshot = signal_processing_result (sg_result x)\<rparr>
       | None \<Rightarrow> raise (RuntimeError ''security signal processing receipt could not be completed'')) (completed_as env q)" for x
    by (cases x) (auto intro!: keeps_raise keeps_if keeps_ret)
  have decide: "keeps sg_inv sg_rely (\<lambda>d. if b then completed_as env q \<lparr>sa_signal = signal_dict r, sa_duplicate = \<not> created, sa_snapshot = s\<rparr> d else knows r d)
      (if b then ret \<lparr>sa_signal = signal_dict r, sa_duplicate = \<not> created, sa_snapshot = s\<rparr>
       else bindM (query (\<lambda>d. first_row (\<lambda>x. sg_id x = sg_id r \<and> sg_tenant x = ?t) (security_signals d))) (\<lambda>row. case row of
           Some x \<Rightarrow> if sg_completed x = None
             then raise (RuntimeError ''security signal processing receipt could not be completed'')
             else ret \<lparr>sa_signal = signal_dict r, sa_duplicate = \<not> created, sa_snapshot = signal_processing_result (sg_result x)\<rparr>
         | None \<Rightarrow> raise (RuntimeError ''security signal processing receipt could not be completed'')))
      (completed_as env q)" for b s
    by (cases b) (simp_all add: keeps_ret keeps_bind [OF look answer])
  show ?thesis
    unfolding process_signal_def finish_signal_def Let_def
    by (intro keeps_bind [OF opened] sg.safe_then [OF ran stable_knows] keeps_bind [OF compl] decide)
qed

lemma insert_signal_row: "insert_signal r d = Inr (Some x, d') \<Longrightarrow> x \<in> set (security_signals d') \<and> x = r\<lparr>sg_created := now d\<rparr>"
  by (auto simp: insert_signal_def Let_def split: if_splits)

lemma keeps_insert_signal:
  "keeps sg_inv sg_rely (\<lambda>_. True) (stmt (insert_signal (new_signal env i q creator)))
     (\<lambda>x d. case x of None \<Rightarrow> True
        | Some r \<Rightarrow> (same_signal (sq_tenant q) (sq_client q) r \<and> sg_sha r = content_sha256 env q) \<and> knows r d)"
proof (rule sg.keeps_stmt [OF sg.stable_true])
  fix d x d' assume "sg_inv d" and n: "insert_signal (new_signal env i q creator) d = Inr (x, d')"
  have "sg_rely d d'" by (rule insert_signal_rely [OF n]) (simp_all add: new_signal_def)
  then show "sg_rely d d' \<and> (case x of None \<Rightarrow> True
      | Some r \<Rightarrow> (same_signal (sq_tenant q) (sq_client q) r \<and> sg_sha r = content_sha256 env q) \<and> knows r d')"
  proof (cases x)
    case (Some r)
    from insert_signal_row [OF n [unfolded Some]] have m: "r \<in> set (security_signals d')"
      and r: "r = (new_signal env i q creator)\<lparr>sg_created := now d\<rparr>" by blast+
    from r have "same_signal (sq_tenant q) (sq_client q) r" "sg_sha r = content_sha256 env q"
      by (simp_all add: same_signal_def new_signal_def)
    moreover from m have "knows r d'" unfolding knows_def by (intro bexI [of _ r]) simp_all
    ultimately show ?thesis using Some \<open>sg_rely d d'\<close> by simp
  qed simp
qed

definition read_signal :: "sg_env \<Rightarrow> signal_request \<Rightarrow> signal_row option \<Rightarrow> sg_db \<Rightarrow> bool" where
  "read_signal env q x d \<longleftrightarrow> (case x of None \<Rightarrow> True
     | Some r \<Rightarrow> same_signal (sq_tenant q) (sq_client q) r \<and> knows r d
       \<and> (sg_completed r \<noteq> None \<longrightarrow> sg_sha r = content_sha256 env q \<longrightarrow> completed_as env q
         \<lparr>sa_signal = signal_dict r, sa_duplicate = True, sa_snapshot = signal_processing_result (sg_result r)\<rparr> d))"

lemma keeps_select_signal:
  "keeps sg_inv sg_rely (\<lambda>_. True) (query (\<lambda>d. first_row (same_signal (sq_tenant q) (sq_client q)) (security_signals d)))
     (read_signal env q)"
proof (rule sg.keeps_query [OF sg.stable_true])
  fix d
  show "read_signal env q (first_row (same_signal (sq_tenant q) (sq_client q)) (security_signals d)) d"
  proof (cases "first_row (same_signal (sq_tenant q) (sq_client q)) (security_signals d)")
    case (Some r)
    from first_row_SomeD [OF Some] have r: "r \<in> set (security_signals d)" "same_signal (sq_tenant q) (sq_client q) r" by auto
    then have "knows r d" unfolding knows_def by (intro bexI [of _ r]) simp_all
    with completed_asI [OF r(1) le_refl(1) _ r(2)] r(2) Some show ?thesis by (simp add: read_signal_def)
  qed (simp add: read_signal_def)
qed

lemma safe_authorize_snapshot: "safe sg_inv sg_rely (authorize_signal_snapshot user tenant s)"
  unfolding authorize_signal_snapshot_def by (intro sgp.core_intros TrueI)

lemma keeps_answer_signal:
  "keeps sg_inv sg_rely (read_signal env q x)
     (case x of None \<Rightarrow> raise (RuntimeError ''idempotent security signal could not be resolved'')
      | Some r \<Rightarrow>
         if sg_sha r \<noteq> content_sha256 env q
         then raise (HTTPException 409 ''client_signal_id was already used with different normalized content'')
         else if sg_completed r \<noteq> None
         then bindM (authorize_signal_snapshot user tenant (signal_processing_result (sg_result r))) (\<lambda>_.
           ret \<lparr>sa_signal = signal_dict r, sa_duplicate = True, sa_snapshot = signal_processing_result (sg_result r)\<rparr>)
         else process_signal env user q r False) (completed_as env q)"
proof (cases x)
  case (Some r)
  let ?a = "\<lparr>sa_signal = signal_dict r, sa_duplicate = True, sa_snapshot = signal_processing_result (sg_result r)\<rparr>"
  show ?thesis
    unfolding Some option.case
  proof (intro keeps_if keeps_raise, goal_cases)
    case 1
    have "keeps sg_inv sg_rely (completed_as env q ?a)
        (bindM (authorize_signal_snapshot user tenant (signal_processing_result (sg_result r))) (\<lambda>_. ret ?a)) (completed_as env q)"
      by (intro sg.safe_then [OF safe_authorize_snapshot stable_completed_as] keeps_ret)
    then show ?case by (rule keeps_conseq) (use 1 in \<open>auto simp: read_signal_def\<close>)
  next
    case 2
    have "keeps sg_inv sg_rely (\<lambda>d. same_signal (sq_tenant q) (sq_client q) r \<and> knows r d)
        (process_signal env user q r False) (completed_as env q)"
      by (rule keeps_pure, rule keeps_process_signal) (use 2 in auto)
    then show ?case by (rule keeps_conseq) (auto simp: read_signal_def)
  qed
qed (simp add: keeps_raise)

lemma keeps_create_signal: "keeps sg_inv sg_rely (\<lambda>_. True) (create_signal env user q) (completed_as env q)"
proof -
  have safe_gate: "safe sg_inv sg_rely (if b then require_tenant_access user t roles sc else ret [])" for b t roles sc
    by (simp add: sgp.safe_require_tenant_access keeps_ret)
  have created: "keeps sg_inv sg_rely
      (\<lambda>d. (same_signal (sq_tenant q) (sq_client q) r \<and> sg_sha r = content_sha256 env q) \<and> knows r d)
      (bindM (record_required x1 x2 x3 x4 (sg_id r) x5) (\<lambda>_. process_signal env user q r True)) (completed_as env q)" for r x1 x2 x3 x4 x5
    by (rule keeps_pure) (intro sg.safe_then [OF sgp.safe_record_required stable_knows] keeps_process_signal, simp_all)
  show ?thesis
    unfolding create_signal_def ensure_siem_schema_def ensure_secure_schema_def Let_def
  proof (intro keeps_bind [OF sgp.safe_require_tenant_access] keeps_bind [OF safe_gate]
      keeps_bind [OF safe_bind [OF sgp.safe_ensure_schema sgp.safe_ensure_schema]] keeps_bind [OF sgp.safe_record_required]
      keeps_bind [OF keeps_uuid4, where Q' = "\<lambda>_ _. True"] keeps_bind [OF keeps_insert_signal] TrueI, goal_cases)
    case (1 _ _ _ _ _ i x)
    show ?case
    proof (cases x)
      case None
      show ?thesis
        unfolding None option.case by (rule keeps_bind [OF keeps_select_signal keeps_answer_signal])
    next
      case (Some r)
      show ?thesis unfolding Some option.case by (rule created)
    qed
  qed
qed

lemma safe_create_signal: "safe sg_inv sg_rely (create_signal env user q)"
  by (rule keeps_conseq [OF keeps_create_signal]) auto

lemma safe_list_signals: "safe sg_inv sg_rely (list_signals user tenant f limit)"
  unfolding list_signals_def ensure_siem_schema_def ensure_secure_schema_def by (intro sgp.core_intros TrueI)

lemma safe_ingest_alert: "safe sg_inv sg_rely (ingest_security_alert tx env user a)"
  unfolding ingest_security_alert_def by (intro sgp.core_intros safe_create_signal TrueI)

subsection \<open>Correlation\<close>

lemma keeps_claim_receipt: "keeps sg_inv sg_rely (\<lambda>_. True) (claim_correlation_receipt tenant key sha actor)
    (\<lambda>x d. has_receipt tenant (fst x) d)"
proof -
  have ins: "keeps sg_inv sg_rely (\<lambda>_. True) (stmt (insert_receipt (new_receipt i tenant key sha actor)))
      (\<lambda>x d. case x of None \<Rightarrow> True | Some j \<Rightarrow> has_receipt tenant j d)" for i
  proof (rule sg.keeps_stmt [OF sg.stable_true])
    fix d x d' assume n: "insert_receipt (new_receipt i tenant key sha actor) d = Inr (x, d')"
    have "sg_rely d d'" by (rule insert_receipt_rely [OF n]) (simp_all add: new_receipt_def)
    with n show "sg_rely d d' \<and> (case x of None \<Rightarrow> True | Some j \<Rightarrow> has_receipt tenant j d')"
      by (auto simp: insert_receipt_def Let_def has_receipt_def new_receipt_def split: if_splits)
  qed
  have look: "keeps sg_inv sg_rely (\<lambda>_. True) (query (\<lambda>d. first_row (\<lambda>r. co_tenant r = tenant \<and> co_key r = key) (correlation_receipts d)))
      (\<lambda>x d. case x of None \<Rightarrow> True | Some r \<Rightarrow> has_receipt tenant (co_id r) d)"
    by (rule sg.keeps_query [OF sg.stable_true]) (auto simp: has_receipt_def split: option.splits dest!: first_row_SomeD)
  have found: "keeps sg_inv sg_rely (\<lambda>d. case x of None \<Rightarrow> True | Some r \<Rightarrow> has_receipt tenant (co_id r) d)
      (case x of None \<Rightarrow> raise (RuntimeError ''idempotent correlation receipt could not be resolved'')
       | Some r \<Rightarrow> if co_sha r \<noteq> sha
           then raise (HTTPException 409 ''idempotency key was already used with a different correlation request'')
           else ret (co_id r, False)) (\<lambda>x d. has_receipt tenant (fst x) d)" for x :: "correlation_row option"
    by (cases x) (auto intro!: keeps_raise keeps_if keeps_ret)
  show ?thesis
    unfolding claim_correlation_receipt_def
  proof (intro keeps_bind [OF sgp.safe_ensure_schema] keeps_bind [OF keeps_uuid4, where Q' = "\<lambda>_ _. True"]
      keeps_bind [OF ins] TrueI, goal_cases)
    case (1 _ i x)
    show ?case
      by (cases x) (simp_all add: keeps_bind [OF look found] keeps_ret)
  qed
qed

lemma safe_complete_receipt:
  assumes "\<And>d. sg_inv d \<Longrightarrow> P d \<Longrightarrow> \<forall>j. c = Some j \<longrightarrow> has_case tenant j d" and "stable sg_rely (\<lambda>d. sg_inv d \<and> P d)"
  shows "keeps sg_inv sg_rely P (complete_correlation_receipt tenant i m c n (snapshot_json ''playbooks'' s) actor) (\<lambda>_ _. True)"
  unfolding complete_correlation_receipt_def
proof (rule sg.keeps_stmt [OF assms(2)])
  fix d x d' assume "sg_inv d" "P d" "complete_receipt_stmt tenant i m c n (snapshot_json ''playbooks'' s) actor d = Inr (x, d')"
  then show "sg_rely d d' \<and> True" using assms(1) by (intro conjI TrueI complete_receipt_rely) blast+
qed

lemma safe_correlate: "safe sg_inv sg_rely (correlate env user q)"
proof -
  let ?t = "cq_tenant q"
  have state: "safe sg_inv sg_rely (get_correlation_receipt_state t i)" for t i
    unfolding get_correlation_receipt_state_def by (rule sg.safe_query)
  have tail: "keeps sg_inv sg_rely (case_found ?t None c)
      (bindM (if b then run_matching_playbooks env user ?t ctx prefix ''correlation'' None else ret []) (\<lambda>runs.
       bindM (complete_correlation_receipt ?t i m (map_option ca_id c) (length runs)
         (snapshot_json ''playbooks'' (snapshot_of env ms c runs)) (actor_id user)) (f runs))) (\<lambda>_ _. True)"
    if "\<And>runs done. safe sg_inv sg_rely (f runs done)" for b ctx prefix i m c ms f
    by (rule sg.safe_then [OF _ stable_case_found], simp add: safe_run_matching keeps_ret,
        rule keeps_bind [OF safe_complete_receipt [OF _ stable_case_found] that])
      (auto simp: case_found_def split: option.splits)
  have opened: "keeps sg_inv sg_rely (has_receipt ?t i)
      (if b then open_case_from_context env user ?t ctx None (Some i) else ret None) (case_found ?t None)" for b ctx i
  proof (cases b)
    case True
    have "keeps sg_inv sg_rely (has_receipt ?t i) (open_case_from_context env user ?t ctx None (Some i)) (case_found ?t None)"
      by (rule keeps_conseq [OF keeps_open_case]) (simp_all add: refs_def)
    with True show ?thesis by simp
  next
    case False
    then show ?thesis by (simp add: keeps_ret case_found_def)
  qed
  have gate: "safe sg_inv sg_rely (if b then require_tenant_access user t roles sc else ret [])" for b t roles sc
    by (simp add: sgp.safe_require_tenant_access keeps_ret)
  show ?thesis
    unfolding correlate_def Let_def
  proof (intro keeps_bind [OF sgp.safe_require_tenant_access] keeps_bind [OF gate] keeps_bind [OF sgp.safe_record_required]
      keeps_bind [OF keeps_claim_receipt], goal_cases)
    case (1 _ _ _ _ x)
    obtain i created where x: "x = (i, created)" by force
    have ending: "safe sg_inv sg_rely (if finished then ret (a :: correlate_answer)
      else bindM (get_correlation_receipt_state ?t i) (\<lambda>final. case final of None \<Rightarrow> raise e
        | Some y \<Rightarrow> if co_completed y = None then raise e' else ret (g y)))" for finished a e e' g
      by (intro keeps_intros state TrueI)
    show ?case
      unfolding x prod.case fst_conv
    proof (rule sg.safe_then [OF state stable_refs(2)], goal_cases)
      case (1 st)
      show ?case
      proof (cases st)
        case None
        then show ?thesis by (simp add: keeps_raise)
      next
        case (Some st')
        show ?thesis
          unfolding Some option.case
          by (intro keeps_if keeps_ret TrueI keeps_bind [OF opened] tail ending)
      qed
    qed
  qed
qed

subsection \<open>Histories\<close>

datatype sg_call =
    S_signal auth_user signal_request
  | S_alert auth_user alert
  | S_signals auth_user uuid signal_filter int
  | S_correlate auth_user correlate_request
  | S_case auth_user uuid string string string jdict
  | S_cases auth_user uuid int
  | S_update auth_user uuid uuid case_updates
  | S_playbook pb_call

fun sg_run :: "siem_text_env \<Rightarrow> sg_env \<Rightarrow> sg_call \<Rightarrow> unit sg_prog" where
  "sg_run tx env (S_signal u q) = ignore (create_signal env u q)"
| "sg_run tx env (S_alert u a) = ignore (ingest_security_alert tx env u a)"
| "sg_run tx env (S_signals u t f n) = ignore (list_signals u t f n)"
| "sg_run tx env (S_correlate u q) = ignore (correlate env u q)"
| "sg_run tx env (S_case u t title desc sev md) = ignore (create_case u t title desc sev md)"
| "sg_run tx env (S_cases u t n) = ignore (list_cases u t n)"
| "sg_run tx env (S_update u t i upd) = ignore (update_case u t i upd)"
| "sg_run tx env (S_playbook c) = pb_run (cx_py env) c"

definition fresh_sg :: "sg_db \<Rightarrow> bool" where
  "fresh_sg d \<longleftrightarrow> security_signals d = [] \<and> correlation_receipts d = [] \<and> soc_cases d = [] \<and> playbook_runs d = []"

abbreviation sg_reachable :: "siem_text_env \<Rightarrow> sg_env \<Rightarrow> sg_db \<Rightarrow> bool" where
  "sg_reachable tx env \<equiv> reachable (sg_run tx env) fresh_sg"

lemma elapse_sg:
  "security_signals (elapse t d) = security_signals (d :: sg_db)" "correlation_receipts (elapse t d) = correlation_receipts d"
  "soc_cases (elapse t d) = soc_cases d" "playbook_runs (elapse t d) = playbook_runs d"
  by (simp_all add: elapse_def)

interpretation sgs: service sg_inv sg_rely "sg_run tx env" fresh_sg for tx env
proof
  show "safe sg_inv sg_rely (sg_run tx env c)" for c
    by (cases c) (simp_all add: safe_ignore safe_create_signal safe_ingest_alert safe_list_signals safe_correlate
      safe_create_case safe_list_cases safe_update_case sgp.safe_pb_call)
  show "0 \<le> t \<Longrightarrow> sg_inv d \<Longrightarrow> sg_rely d (elapse t d)" for t d
    using sources_cong [of "elapse t d" d]
    by (simp add: sg_rely_def sg_inv_def elapse_sg grows_refl) (simp add: elapse_def)
  show "fresh_sg d \<Longrightarrow> sg_inv d" for d
    by (simp add: fresh_sg_def sg_inv_def signals_ok_def receipts_ok_def cases_ok_def sources_ok_def runs_ok_def)
qed

end
