(* ===== verification/Siem_Outcomes.thy ===== *)
theory Siem_Outcomes
  imports Siem_System
begin

section \<open>The signal lane: how a request ends\<close>

text \<open>
  What \<open>create_signal\<close> does when no other request of the lane interferes.  The playbooks it runs
  leave the tables of the lane alone: \<open>lane_rely\<close> is the contract of \<open>playbook_client\<close> that says so.
\<close>

definition lane_inv :: "sg_db \<Rightarrow> bool" where
  "lane_inv d \<longleftrightarrow> distinct (map run_id (playbook_runs d))"

definition lane :: "sg_db \<Rightarrow> member_row list \<times> signal_row list \<times> correlation_row list \<times> soc_case_row list" where
  "lane d = (tenant_members d, security_signals d, correlation_receipts d, soc_cases d)"

definition lane_rely :: "sg_db \<Rightarrow> sg_db \<Rightarrow> bool" where
  "lane_rely d d' \<longleftrightarrow> (lane_inv d \<longrightarrow> lane_inv d' \<and> lane d' = lane d
     \<and> run_identity ` set (playbook_runs d) \<subseteq> run_identity ` set (playbook_runs d'))"

interpretation lane: playbook_client lane_inv lane_rely
proof unfold_locales
  show "lane_rely d d' \<Longrightarrow> lane_rely d' d'' \<Longrightarrow> lane_rely d d''" for d d' d''
    unfolding lane_rely_def by auto
  have step: "playbook_step d d' \<Longrightarrow> lane_rely d d'" for d d'
    using same_more [of d' d] by (simp add: lane_rely_def lane_inv_def lane_def playbook_step_def runs_kept_def)
  show "lane_rely d (add_audit row d)" for d row by (rule step) (rule step_audit)
  show "playbook_step d d' \<Longrightarrow> lane_rely d d'" for d d' by (rule step)
qed (simp_all add: lane_rely_def lane_inv_def)

lemma quiet_lane: "quiet w \<Longrightarrow> env_in lane_rely w"
  by (simp add: quiet_def env_in_def lane_rely_def)

text \<open>A program that keeps the contract carries every fact about the lane.\<close>

abbreviation on_lane :: "(member_row list \<times> signal_row list \<times> correlation_row list \<times> soc_case_row list \<Rightarrow> bool) \<Rightarrow> sg_db \<Rightarrow> bool" where
  "on_lane F \<equiv> \<lambda>d. lane_inv d \<and> F (lane d)"

lemma stable_lane: "stable lane_rely (on_lane F)"
  by (simp add: stable_def lane_rely_def)

lemma lane_triple:
  assumes "safe lane_inv lane_rely m"
  shows "triple lane_rely (on_lane F) m (\<lambda>_. on_lane F) (\<lambda>_ _. True)"
proof (rule tripleI)
  fix w r w'
  assume w: "env_in lane_rely w" "on_lane F (wdb w)" "m w = (r, w')"
  then have "lane_inv (wdb w) \<and> lane_rely (wdb w) (wdb w) \<and> True \<and> F (lane (wdb w))"
    by (simp add: lane_rely_def)
  from lane.keeps_run_full [where F = "\<lambda>d. F (lane d)", OF assms stable_lane w(1) this w(3)]
  show "env_in lane_rely w' \<and> post (\<lambda>_. on_lane F) (\<lambda>_ _. True) r (wdb w')"
    by (cases r) auto
qed

lemma safe_lane_matching: "safe lane_inv lane_rely (run_matching env user tenant ctx prefix source signal ps)"
  by (induction ps) (auto intro!: lane.playbook_intros lane.client_execute_playbook)

lemma safe_lane_playbooks: "safe lane_inv lane_rely (run_matching_playbooks env user tenant ctx prefix source signal)"
  unfolding run_matching_playbooks_def by (intro lane.playbook_intros safe_lane_matching)

subsection \<open>Processing a signal\<close>

definition pending :: "signal_row \<Rightarrow> signal_row list \<Rightarrow> bool" where
  "pending r rs \<longleftrightarrow> list_ex (\<lambda>x. sg_id x = sg_id r \<and> sg_tenant x = sg_tenant r \<and> sg_completed x = None) rs"

definition waits :: "signal_row \<Rightarrow> soc_case_row list option \<Rightarrow> member_row list \<times> signal_row list \<times> correlation_row list \<times> soc_case_row list \<Rightarrow> bool" where
  "waits r cs \<equiv> \<lambda>(_, rs, _, cs'). pending r rs \<and> (case cs of None \<Rightarrow> True | Some xs \<Rightarrow> cs' = xs)"

lemma finish_triple:
  assumes t: "sg_tenant r = sq_tenant q"
  shows "triple lane_rely (on_lane (waits r cs)) (finish_signal env user q r created c)
    (\<lambda>a d. (case cs of None \<Rightarrow> True | Some xs \<Rightarrow> soc_cases d = xs)
      \<and> sn_case (sa_snapshot a) = map_option (se_case env) c \<and> (sn_runs (sa_snapshot a) \<noteq> [] \<longrightarrow> sq_playbooks q)
      \<and> sa_duplicate a = (\<not> created) \<and> sa_signal a = signal_dict r) (\<lambda>_ _. True)"
proof -
  let ?keeps = "\<lambda>d. case cs of None \<Rightarrow> True | Some xs \<Rightarrow> soc_cases d = xs"
  have ran: "triple lane_rely (on_lane (waits r cs))
      (if b then run_matching_playbooks env user tenant ctx prefix src sig else ret [])
      (\<lambda>runs d. (runs \<noteq> [] \<longrightarrow> b) \<and> on_lane (waits r cs) d) (\<lambda>_ _. True)" for b tenant ctx prefix src sig
  proof (cases b)
    case True
    show ?thesis
      unfolding if_P [OF True] by (rule triple_conseq [OF lane_triple [OF safe_lane_playbooks, where F = "waits r cs"]]) (auto simp: True)
  qed (auto intro!: triple_ret)
  have compl: "triple lane_rely (on_lane (waits r cs))
      (stmt (\<lambda>d. Inr (complete_signal (sg_id r) (sq_tenant q) (snapshot_json ''playbook_runs'' s) audit d)))
      (\<lambda>b d. b \<and> ?keeps d) (\<lambda>_ _. True)" for s audit
    by (rule triple_stmt [OF stable_lane])
      (auto simp: complete_signal_def Let_def waits_def pending_def lane_def t split: if_splits option.splits)
  show ?thesis
    unfolding finish_signal_def Let_def
  proof (rule triple_bind [OF ran], rule triple_pre_pure, rule triple_bind [OF compl], rule triple_pre_pure, goal_cases)
    case (1 runs completed)
    then show ?case by (auto simp: snapshot_of_def intro!: triple_ret)
  qed
qed

lemma waits_stmt_case: "triple lane_rely (on_lane (waits r None)) (stmt (insert_case c)) (\<lambda>_. on_lane (waits r None)) (\<lambda>_ _. True)"
  by (rule triple_stmt [OF stable_lane])
    (auto simp: insert_case_def Let_def waits_def lane_def lane_inv_def split: if_splits)

lemma lane_read: "triple lane_rely (on_lane F) (query f) (\<lambda>_. on_lane F) (\<lambda>_ _. True)"
  by (rule lane_triple [OF lane.safe_query])

lemma open_case_waits:
  "triple lane_rely (on_lane (waits r None)) (open_case_from_context env user tenant ctx sig corr)
    (\<lambda>_. on_lane (waits r None)) (\<lambda>_ _. True)"
  unfolding open_case_from_context_def ensure_soc_schema_def ensure_secure_schema_def Let_def
  by (intro triple_bind [OF lane_triple [OF lane.safe_require_tenant_access]] triple_if triple_ret
      triple_bind [OF lane_triple [OF safe_bind [OF lane.safe_ensure_schema lane.safe_ensure_schema]]]
      triple_bind [OF lane_triple [OF lane.safe_record_required]] triple_bind [OF lane_triple [OF keeps_uuid4]] triple_bind [OF waits_stmt_case] TrueI)
   (auto split: option.split intro!: triple_ret triple_bind [where Q' = "\<lambda>_. on_lane (waits r None)"] lane_read
      lane_triple [OF lane.safe_record_required])

lemma process_triple:
  assumes t: "sg_tenant r = sq_tenant q"
  shows "triple lane_rely (on_lane (waits r None)) (process_signal env user q r created)
    (\<lambda>a d. (sn_case (sa_snapshot a) \<noteq> None \<longrightarrow> sq_correlate q) \<and> (sn_runs (sa_snapshot a) \<noteq> [] \<longrightarrow> sq_playbooks q)
      \<and> sa_duplicate a = (\<not> created)) (\<lambda>_ _. True)"
proof -
  have op: "triple lane_rely (on_lane (waits r None)) (if sq_correlate q \<and> b then open_case_from_context env user tenant ctx sig corr else ret None)
      (\<lambda>c d. (c \<noteq> None \<longrightarrow> sq_correlate q) \<and> on_lane (waits r None) d) (\<lambda>_ _. True)" for b tenant ctx sig corr
  proof (cases "sq_correlate q \<and> b")
    case True
    show ?thesis unfolding if_P [OF True] by (rule triple_conseq [OF open_case_waits]) (auto simp: True)
  qed (auto intro!: triple_ret)
  show ?thesis
    unfolding process_signal_def Let_def
    by (rule triple_bind [OF op], rule triple_pre_pure, rule triple_conseq [OF finish_triple [OF t]]) auto
qed

subsection \<open>A request without interference\<close>

definition passes :: "auth_user \<Rightarrow> uuid \<Rightarrow> string \<Rightarrow> (sg_db, net_answer) world \<Rightarrow> bool" where
  "passes user tenant scope w \<longleftrightarrow>
     (\<exists>role. fst (require_tenant_access user tenant (Some writer_roles) (Some [scope]) w) = Inr role)"

lemma bind_gate:
  assumes "quiet w"
  shows "bindM (require_tenant_access user tenant roles scopes) f w =
    (case fst (require_tenant_access user tenant roles scopes w) of Inl e \<Rightarrow> (Inl e, w) | Inr r \<Rightarrow> f r w)"
  by (rule bind_read) (rule require_tenant_access_quiet [OF assms])

lemma bind_pass: "quiet w \<Longrightarrow> passes user tenant scope w \<Longrightarrow>
    bindM (require_tenant_access user tenant (Some writer_roles) (Some [scope])) (\<lambda>_. m) w = m w"
  by (auto simp: passes_def bind_gate)

lemma gate_needed: "quiet w \<Longrightarrow>
    fst (bindM (require_tenant_access user tenant (Some writer_roles) (Some [scope])) (\<lambda>_. m) w) = Inr a \<Longrightarrow>
    passes user tenant scope w"
  by (auto simp: passes_def bind_gate split: sum.splits)

lemma bind_pass_if: "quiet w \<Longrightarrow> (b \<longrightarrow> passes user tenant scope w) \<Longrightarrow>
    bindM (if b then require_tenant_access user tenant (Some writer_roles) (Some [scope]) else ret []) (\<lambda>_. m) w = m w"
  by (simp add: bind_pass bind_ret)

lemma gate_needed_if: "quiet w \<Longrightarrow>
    fst (bindM (if b then require_tenant_access user tenant (Some writer_roles) (Some [scope]) else ret []) (\<lambda>_. m) w) = Inr a \<Longrightarrow>
    b \<longrightarrow> passes user tenant scope w"
  by (auto intro: gate_needed)

lemma bind_schema: "quiet v \<Longrightarrow> bindM (ensure_schema m) f v = (if schema_ready (wdb v) then f () v else (Inl (RuntimeError m), v))"
  by (simp add: ensure_schema_def bind_stmt_quiet)

lemma bind_nested: "bindM (bindM m f) g = bindM m (\<lambda>a. bindM (f a) g)"
  by (rule ext) (simp add: bindM_def split: prod.splits sum.splits)

lemma bind_siem_schema: "quiet v \<Longrightarrow> bindM ensure_siem_schema f v =
    (if schema_ready (wdb v) then f () v else (Inl (RuntimeError ''secure schema missing''), v))"
  by (simp add: ensure_siem_schema_def ensure_secure_schema_def bind_nested bind_schema)

lemma bind_audit: "quiet v \<Longrightarrow> bindM (record_required a b c e x y) f v = f () (v\<lparr>wdb := add_audit (audit_record a b c e x y) (wdb v)\<rparr>)"
  by (simp add: record_required_def bind_stmt_quiet)

definition accepted :: "auth_user \<Rightarrow> signal_request \<Rightarrow> (sg_db, net_answer) world \<Rightarrow> (sg_db, net_answer) world" where
  "accepted user q w = w\<lparr>wdb := add_audit (audit_record ''siem.signal.accept_attempt'' (Some (actor_id user))
     (Some (sq_tenant q)) ''security_signal'' (sq_client q) (signal_details q)) (wdb w), wrnd := (\<lambda>n. wrnd w (Suc n))\<rparr>"

lemma accepted_simps [simp]:
  "quiet w \<Longrightarrow> quiet (accepted user q w)" "security_signals (wdb (accepted user q w)) = security_signals (wdb w)"
  "soc_cases (wdb (accepted user q w)) = soc_cases (wdb w)" "playbook_runs (wdb (accepted user q w)) = playbook_runs (wdb w)"
  "tenant_members (wdb (accepted user q w)) = tenant_members (wdb w)" "now (wdb (accepted user q w)) = now (wdb w)"
  "wrnd (accepted user q w) = (\<lambda>n. wrnd w (Suc n))" "schema_ready (wdb (accepted user q w)) = schema_ready (wdb w)"
  by (simp_all add: accepted_def)

definition answer_signal :: "sg_env \<Rightarrow> auth_user \<Rightarrow> signal_request \<Rightarrow> signal_row option \<Rightarrow> signal_answer sg_prog" where
  "answer_signal env user q x = (case x of
      None \<Rightarrow> raise (RuntimeError ''idempotent security signal could not be resolved'')
    | Some r \<Rightarrow>
        if sg_sha r \<noteq> content_sha256 env q
        then raise (HTTPException 409 ''client_signal_id was already used with different normalized content'')
        else if sg_completed r \<noteq> None
        then bindM (authorize_signal_snapshot user (sq_tenant q) (signal_processing_result (sg_result r))) (\<lambda>_.
          ret \<lparr>sa_signal = signal_dict r, sa_duplicate = True, sa_snapshot = signal_processing_result (sg_result r)\<rparr>)
        else process_signal env user q r False)"

definition create_audit :: "auth_user \<Rightarrow> signal_request \<Rightarrow> signal_row \<Rightarrow> audit_row" where
  "create_audit user q r = audit_record ''siem.signal.create'' (Some (actor_id user)) (Some (sq_tenant q)) ''security_signal'' (sg_id r)
     ((''client_signal_id'', JStr (sq_client q)) # signal_details q @ [(''observable_count'', JInt (int (length (sq_observables q))))])"

lemma create_signal_eval:
  assumes w: "quiet w" and ready: "schema_ready (wdb w)" and gates: "passes user (sq_tenant q) ''siem:write'' w"
    "sq_correlate q \<longrightarrow> passes user (sq_tenant q) ''cases:write'' w"
    "sq_playbooks q \<longrightarrow> passes user (sq_tenant q) ''playbooks:execute'' w"
  shows "create_signal env user q w =
    (let w1 = accepted user q w in
     case insert_signal (new_signal env (wrnd w 0) q (au_user_id user)) (wdb w1) of
       Inl e \<Rightarrow> (Inl e, w1)
     | Inr (Some r, d) \<Rightarrow> process_signal env user q r True (w1\<lparr>wdb := add_audit (create_audit user q r) d\<rparr>)
     | Inr (None, d) \<Rightarrow> answer_signal env user q (first_row (same_signal (sq_tenant q) (sq_client q)) (security_signals d)) (w1\<lparr>wdb := d\<rparr>))"
  using w ready gates
  by (simp add: create_signal_def Let_def bind_pass bind_pass_if bind_siem_schema bind_audit bind_uuid4 bind_stmt_quiet
      accepted_def split: sum.split prod.split)
    (auto simp: bind_audit bind_query_quiet create_audit_def answer_signal_def Let_def split: option.split)

lemma create_signal_gates:
  assumes w: "quiet w" and ok: "fst (create_signal env user q w) = Inr a"
  shows "schema_ready (wdb w)" and "passes user (sq_tenant q) ''siem:write'' w"
    "sq_correlate q \<longrightarrow> passes user (sq_tenant q) ''cases:write'' w"
    "sq_playbooks q \<longrightarrow> passes user (sq_tenant q) ''playbooks:execute'' w"
proof -
  note run = ok [unfolded create_signal_def Let_def]
  show 1: "passes user (sq_tenant q) ''siem:write'' w"
    by (rule gate_needed [OF w run])
  note run = run [unfolded bind_pass [OF w 1]]
  show 2: "sq_correlate q \<longrightarrow> passes user (sq_tenant q) ''cases:write'' w"
    by (rule gate_needed_if [OF w run])
  note run = run [unfolded bind_pass_if [OF w 2]]
  show 3: "sq_playbooks q \<longrightarrow> passes user (sq_tenant q) ''playbooks:execute'' w"
    by (rule gate_needed_if [OF w run])
  note run = run [unfolded bind_pass_if [OF w 3]]
  show "schema_ready (wdb w)" using run [unfolded bind_siem_schema [OF w]] by (auto split: if_splits)
qed

text \<open>The three ways a request ends well.\<close>

lemma create_signal_ends:
  assumes w: "quiet w" and ok: "fst (create_signal env user q w) = Inr a"
  obtains (new) r w1 where "create_signal env user q w = process_signal env user q r True w1" and "quiet w1"
      and "r = (new_signal env (wrnd w 0) q (au_user_id user))\<lparr>sg_created := now (wdb w)\<rparr>"
      and "security_signals (wdb w1) = security_signals (wdb w) @ [r]" and "sg_id r \<notin> sg_id ` set (security_signals (wdb w))"
      and "soc_cases (wdb w1) = soc_cases (wdb w)" and "playbook_runs (wdb w1) = playbook_runs (wdb w)"
      and "tenant_members (wdb w1) = tenant_members (wdb w)" and "wrnd w1 = (\<lambda>n. wrnd w (Suc n))" and "schema_ready (wdb w1)"
  | (again) r w1 where "create_signal env user q w = process_signal env user q r False w1" and "quiet w1"
      and "r \<in> set (security_signals (wdb w1))" and "sg_completed r = None" and "same_signal (sq_tenant q) (sq_client q) r"
      and "playbook_runs (wdb w1) = playbook_runs (wdb w)"
  | (replayed) r w1 where "create_signal env user q w =
        bindM (authorize_signal_snapshot user (sq_tenant q) (signal_processing_result (sg_result r))) (\<lambda>_.
          ret \<lparr>sa_signal = signal_dict r, sa_duplicate = True, sa_snapshot = signal_processing_result (sg_result r)\<rparr>) w1"
      and "quiet w1" and "tenant_members (wdb w1) = tenant_members (wdb w)"
proof -
  define w1 where "w1 = accepted user q w"
  note w1 = accepted_simps [where user = user and q = q and w = w, folded w1_def]
  note run = create_signal_eval [OF w create_signal_gates [OF w ok], where env = env, unfolded Let_def, folded w1_def]
  define n where "n = new_signal env (wrnd w 0) q (au_user_id user)"
  note run = run [folded n_def]
  have ready: "schema_ready (wdb w)" by (rule create_signal_gates(1) [OF w ok])
  show thesis
  proof (cases "insert_signal n (wdb w1)")
    case (Inl e)
    with run ok show thesis by simp
  next
    case (Inr p)
    obtain x d where p: "p = (x, d)" by force
    show thesis
    proof (cases x)
      case (Some r)
      from Inr p Some have r: "r = n\<lparr>sg_created := now (wdb w)\<rparr>"
        and d: "d = (wdb w1)\<lparr>security_signals := security_signals (wdb w1) @ [r]\<rparr>"
        and fresh: "sg_id r \<notin> sg_id ` set (security_signals (wdb w1))"
        using w1(6) by (auto simp: insert_signal_def Let_def list_ex_iff split: if_splits)
      from run Inr p Some have "create_signal env user q w =
          process_signal env user q r True (w1\<lparr>wdb := add_audit (create_audit user q r) d\<rparr>)" by simp
      then show thesis
        by (rule new) (use w w1 r d fresh ready in \<open>simp_all add: n_def\<close>)
    next
      case None
      from Inr p None have d: "d = wdb w1" by (auto simp: insert_signal_def Let_def split: if_splits)
      from run Inr p None d have run: "create_signal env user q w = answer_signal env user q
          (first_row (same_signal (sq_tenant q) (sq_client q)) (security_signals (wdb w1))) w1" by simp
      show thesis
      proof (cases "first_row (same_signal (sq_tenant q) (sq_client q)) (security_signals (wdb w1))")
        case None
        with run ok show thesis by (simp add: answer_signal_def raise_def)
      next
        case (Some r)
        from first_row_SomeD [OF this] have r: "r \<in> set (security_signals (wdb w1))" "same_signal (sq_tenant q) (sq_client q) r" by auto
        have sha: "sg_sha r = content_sha256 env q"
          using run ok Some by (cases "sg_sha r = content_sha256 env q") (simp_all add: answer_signal_def raise_def)
        show thesis
        proof (cases "sg_completed r = None")
          case True
          with run Some sha have "create_signal env user q w = process_signal env user q r False w1" by (simp add: answer_signal_def)
          then show thesis by (rule again) (use w w1 r True in simp_all)
        next
          case False
          with run Some sha have "create_signal env user q w =
            bindM (authorize_signal_snapshot user (sq_tenant q) (signal_processing_result (sg_result r))) (\<lambda>_.
              ret \<lparr>sa_signal = signal_dict r, sa_duplicate = True, sa_snapshot = signal_processing_result (sg_result r)\<rparr>) w1"
            by (simp add: answer_signal_def)
          then show thesis by (rule replayed) (use w w1 in simp_all)
        qed
      qed
    qed
  qed
qed

end
