(* ===== verification/Siem_Demo.thy ===== *)
theory Siem_Demo
  imports Siem_Outcomes Demo
begin

section \<open>The signal lane: a concrete instance\<close>

text \<open>
  An instance of the parameters, a service with every scope, a database with one playbook that reacts
  to malicious signals, and the history of one alert, on which the witnesses evaluate the operations.
\<close>

definition demo_sg_env :: sg_env where
  "demo_sg_env = \<lparr>cx_py = demo_env, cx_float = (\<lambda>_. None), se_case = (\<lambda>c. [(''id'', JStr (ca_id c))]),
     se_run = (\<lambda>v. [(''id'', JStr (run_id (rv_run v)))]), se_iso = (\<lambda>_. ''t'')\<rparr>"

definition demo_tx :: siem_text_env where
  "demo_tx = \<lparr>tx_nfc = (\<lambda>s. s), tx_unescape = (\<lambda>s. s), tx_ip = (\<lambda>s. if s = ''203.0.113.7'' then Some (4, s) else None)\<rparr>"

definition demo_sg_db :: sg_db where
  "demo_sg_db = \<lparr>now = 1000000, schema_ready = True, tenant_members = [], audit_events = [],
     playbooks = [demo_playbook\<lparr>pbk_conditions := [(''is_malicious'', JBool True)]\<rparr>],
     playbook_actions = [demo_action ''A3'' ''block_ip'' 0],
     playbook_runs = [], action_results = [], deliveries = [],
     security_signals = [], correlation_receipts = [], soc_cases = [], live_accounts = []\<rparr>"

definition demo_sg_world :: "sg_db \<Rightarrow> string \<Rightarrow> (sg_db, net_answer) world" where
  "demo_sg_world d prefix = quiet_world d (\<lambda>_. demo_answer 200) (\<lambda>n. prefix @ digits_of n)"

lemma demo_sg_world: "quiet (demo_sg_world d prefix)" "wdb (demo_sg_world d prefix) = d"
  by (simp_all add: demo_sg_world_def quiet_def quiet_world_def)

definition demo_alert :: alert where
  "demo_alert = \<lparr>al_tenant = ''T'', al_client = ''a1'', al_observed = 5, al_source = ''edr'', al_severity = ''high'',
     al_title = ''Beacon to <b>C2</b>'', al_ip = Some ''203.0.113.7'', al_raw = [(''note'', JStr ''seen twice'')]\<rparr>"

lemma demo_sg_fresh: "sg_reachable demo_tx demo_sg_env demo_sg_db"
  by (rule reachable.fresh) (simp add: fresh_sg_def demo_sg_db_def)

text \<open>The request the alert becomes.\<close>

definition demo_signal :: signal_request where
  "demo_signal = (case validate_signal demo_tx (alert_request demo_alert) of Inr q \<Rightarrow> q | Inl _ \<Rightarrow> alert_request demo_alert)"

lemma demo_signal_ok: "validate_signal demo_tx (alert_request demo_alert) = Inr demo_signal
    \<and> sq_title demo_signal = ''Beacon to C2'' \<and> sq_client demo_signal = ''security-alert:a1'' \<and> sq_tenant demo_signal = ''T''"
  by code_simp

definition demo_alerted :: sg_db where
  "demo_alerted = wdb (snd (ingest_security_alert demo_tx demo_sg_env demo_user demo_alert (demo_sg_world demo_sg_db ''s'')))"

lemma demo_alert_answer:
  "(case fst (ingest_security_alert demo_tx demo_sg_env demo_user demo_alert (demo_sg_world demo_sg_db ''s'')) of
      Inr a \<Rightarrow> \<not> sa_duplicate a \<and> sg_id (sa_signal a) = ''s0'' \<and> sn_case (sa_snapshot a) = Some [(''id'', JStr ''s1'')]
        \<and> length (sn_runs (sa_snapshot a)) = 1
    | Inl _ \<Rightarrow> False)"
  by code_simp

end
