(* ===== verification/Siem_Properties.thy ===== *)
theory Siem_Properties
  imports Siem_Demo
begin

section \<open>The signal lane: properties\<close>

text \<open>
  What a caller and an operator of the lane may rely on.  The statements are about the operations of
  \<open>Siem\<close>, \<open>Soc\<close>, \<open>Correlation\<close> and \<open>Signal_Requests\<close>; the witnesses evaluate them on a small
  history.
\<close>

subsection \<open>Triggers\<close>



subsection \<open>The tables of the lane\<close>

text \<open>
  C35: In every history of the lane: signal identifiers and client identifiers are unique, an open signal has
  no result and a completed one has a well-formed snapshot; the same holds of the correlation receipts;
  at most one case exists per signal and per receipt, and the signal, receipt or case a row names exists
  in the same tenant.  Whatever other requests do next, the content of a signal stays, a completed signal
  or receipt never changes, and a case keeps its source and rules.
\<close>

theorem signals_consistent:
  assumes "sg_reachable tx env d" and "interferes (sg_run tx env) f"
  shows "signals_ok (security_signals d) \<and> receipts_ok (correlation_receipts d) \<and> cases_ok (soc_cases d) \<and> sources_ok d
    \<and> grows signal_le (security_signals d) (security_signals (f d))
    \<and> grows receipt_le (correlation_receipts d) (correlation_receipts (f d))
    \<and> grows case_le (soc_cases d) (soc_cases (f d))"
  using sgs.reachable_inv [OF assms(1)] sgs.interferes_rely [OF assms(2), of d] by (simp add: sg_rely_def sg_inv_def)

lemma demo_alerted_reachable: "sg_reachable demo_tx demo_sg_env demo_alerted"
proof -
  have "sg_reachable demo_tx demo_sg_env (wdb (snd (sg_run demo_tx demo_sg_env (S_alert demo_user demo_alert) (demo_sg_world demo_sg_db ''s''))))"
    by (rule reachable.step) (simp_all add: demo_sg_world demo_sg_fresh interfered_quiet)
  then show ?thesis by (simp add: demo_alerted_def ignore_def bindM_def ret_def split: prod.splits sum.splits)
qed

theorem signals_consistent_witness:
  "distinct (map sg_id (security_signals demo_alerted)) \<and> length (security_signals demo_alerted) = 1 \<and> length (soc_cases demo_alerted) = 1"
proof (intro conjI)
  show "distinct (map sg_id (security_signals demo_alerted))"
    using signals_consistent [OF demo_alerted_reachable interferes.idle [of 0]] by (simp add: signals_ok_def)
  show "length (security_signals demo_alerted) = 1" by code_simp
  show "length (soc_cases demo_alerted) = 1" by code_simp
qed

text \<open>
  C36: A signal that was accepted is never processed twice.  Whatever other requests did during the first
  request and after it, repeating it answers with the same signal and the stored result, marked as
  a duplicate, for whoever may write signals and cases and execute playbooks; no signal, case or run is
  added.
\<close>

theorem signal_replay:
  assumes reach: "sg_reachable tx env (wdb w)" and env: "interfered (sg_run tx env) w"
    and first: "fst (create_signal env user q w) = Inr a"
    and later: "interferes (sg_run tx env) f" and v: "quiet v" "wdb v = f (wdb (snd (create_signal env user q w)))"
    and same: "sq_tenant q' = sq_tenant q" "sq_client q' = sq_client q" "content_sha256 env q' = content_sha256 env q"
    and may: "schema_ready (wdb v)" "list_all (\<lambda>scope. passes user' (sq_tenant q) scope v) [''siem:write'', ''cases:write'', ''playbooks:execute'']"
  shows "fst (create_signal env user' q' v) = Inr \<lparr>sa_signal = sa_signal a, sa_duplicate = True, sa_snapshot = sa_snapshot a\<rparr>
    \<and> (let d = wdb (snd (create_signal env user' q' v)) in security_signals d = security_signals (wdb v)
      \<and> soc_cases d = soc_cases (wdb v) \<and> playbook_runs d = playbook_runs (wdb v))"
proof -
  note inv = sgs.reachable_inv [OF reach]
  from sg.keeps_run [OF keeps_create_signal sgs.interfered_env_in [OF env] inv TrueI first]
  have done1: "completed_as env q a (wdb (snd (create_signal env user q w)))" .
  from sg.safe_run [OF safe_create_signal sgs.interfered_env_in [OF env] inv]
  have inv1: "sg_inv (wdb (snd (create_signal env user q w)))" ..
  from stable_completed_as [of env q a] sgs.interferes_rely [OF later] inv1 done1 v(2)
  have inv2: "sg_inv (wdb v)" and "completed_as env q a (wdb v)" unfolding stable_def by metis+
  then obtain r where r: "r \<in> set (security_signals (wdb v))" "same_signal (sq_tenant q) (sq_client q) r"
      "sg_sha r = content_sha256 env q" "sg_completed r \<noteq> None" "signal_dict r = sa_signal a"
      "signal_processing_result (sg_result r) = sa_snapshot a"
    by (auto simp: completed_as_def)
  have row: "first_row (same_signal (sq_tenant q) (sq_client q)) (security_signals (wdb v)) = Some r"
  proof (cases "first_row (same_signal (sq_tenant q) (sq_client q)) (security_signals (wdb v))")
    case (Some x)
    from first_row_SomeD [OF this] have "x \<in> set (security_signals (wdb v))" "same_signal (sq_tenant q) (sq_client q) x" by auto
    moreover have "distinct (map (\<lambda>r. (sg_tenant r, sg_client r)) (security_signals (wdb v)))"
      using inv2 by (simp add: sg_inv_def signals_ok_def)
    ultimately have "x = r" using r(1,2) by (auto simp: distinct_map inj_on_def same_signal_def)
    with Some show ?thesis by simp
  qed (use r(1,2) in \<open>auto simp: first_row_None_iff\<close>)
  define v1 where "v1 = accepted user' q' v"
  note v1 = accepted_simps [where user = user' and q = q' and w = v, folded v1_def]
  have pass: "passes user' (sq_tenant q) scope v1 = passes user' (sq_tenant q) scope v" for scope
    unfolding passes_def using require_tenant_access_stable [OF v(1) v1(1) [OF v(1)] v1(5)] by simp
  have "insert_signal (new_signal env i q' c) (wdb v1) = Inr (None, wdb v1)" for i c
    using r(1,2) v1(2) by (auto simp: insert_signal_def new_signal_def same same_signal_def list_ex_iff Let_def)
  then have "create_signal env user' q' v = answer_signal env user' q' (Some r) v1"
    using create_signal_eval [OF v(1) may(1), of user' q' env] may(2) v1(2) by (simp add: same row Let_def v1_def [symmetric])
  also have "\<dots> = (Inr \<lparr>sa_signal = sa_signal a, sa_duplicate = True, sa_snapshot = sa_snapshot a\<rparr>, v1)"
    using may(2) r(3-6) v1(1) [OF v(1)]
    by (simp add: answer_signal_def same authorize_signal_snapshot_def bind_nested bind_pass_if pass bind_ret)
      (simp add: ret_def)
  finally show ?thesis by (simp add: v1)
qed

theorem signal_replay_witness:
  "case fst (create_signal demo_sg_env demo_user demo_signal (demo_sg_world demo_sg_db ''s'')) of
      Inr a \<Rightarrow> fst (create_signal demo_sg_env demo_user demo_signal (demo_sg_world
          (elapse 7 (wdb (snd (create_signal demo_sg_env demo_user demo_signal (demo_sg_world demo_sg_db ''s''))))) ''t''))
        = Inr \<lparr>sa_signal = sa_signal a, sa_duplicate = True, sa_snapshot = sa_snapshot a\<rparr>
        \<and> length (sn_runs (sa_snapshot a)) = 1
    | Inl _ \<Rightarrow> False"
proof -
  let ?w = "demo_sg_world demo_sg_db ''s''"
  let ?d = "wdb (snd (create_signal demo_sg_env demo_user demo_signal ?w))"
  have ok: "case fst (create_signal demo_sg_env demo_user demo_signal ?w) of Inr a \<Rightarrow> length (sn_runs (sa_snapshot a)) = 1 | Inl _ \<Rightarrow> False"
    by code_simp
  then obtain a where a: "fst (create_signal demo_sg_env demo_user demo_signal ?w) = Inr a" "length (sn_runs (sa_snapshot a)) = 1"
    by (auto split: sum.splits)
  have t: "sq_tenant demo_signal = ''T''" using demo_signal_ok by simp
  have "passes demo_user ''T'' scope w" for scope w
    by (simp add: passes_def require_tenant_access_def demo_user_def service_has_scope_def ret_def)
  moreover have "schema_ready ?d" by code_simp
  ultimately have "fst (create_signal demo_sg_env demo_user demo_signal (demo_sg_world (elapse 7 ?d) ''t''))
      = Inr \<lparr>sa_signal = sa_signal a, sa_duplicate = True, sa_snapshot = sa_snapshot a\<rparr>"
    using signal_replay [OF _ interfered_quiet a(1) interferes.idle [of 7], of demo_tx "demo_sg_world (elapse 7 ?d) ''t''" demo_signal demo_user]
    by (simp add: demo_sg_world demo_sg_fresh t elapse_def)
  with a show ?thesis by simp
qed

subsection \<open>Who sees what\<close>

lemma reachable_lane: "sg_reachable tx env d \<Longrightarrow> lane_inv d"
  using sgs.reachable_inv [of tx env d] by (simp add: sg_inv_def runs_ok_def lane_inv_def)

text \<open>
  C37: Without interference by another request of the lane, the answer to a signal contains a case only if
  the caller may write cases, and runs only if the caller may execute playbooks, also when the answer is
  the stored result of an earlier request.
\<close>

theorem snapshot_needs_scope:
  assumes "sg_reachable tx env (wdb w)" and "quiet w" and "fst (create_signal env user q w) = Inr a"
  shows "(sn_case (sa_snapshot a) \<noteq> None \<longrightarrow> passes user (sq_tenant q) ''cases:write'' w)
    \<and> (sn_runs (sa_snapshot a) \<noteq> [] \<longrightarrow> passes user (sq_tenant q) ''playbooks:execute'' w)"
proof -
  note gates = create_signal_gates [OF assms(2,3)]
  show ?thesis
    using assms(2,3)
  proof (cases rule: create_signal_ends)
    case (new r w1)
    have t: "sg_tenant r = sq_tenant q" and "pending r (security_signals (wdb w1))"
      using new(3,4) by (simp_all add: new_signal_def pending_def)
    then have "on_lane (waits r None) (wdb w1)"
      using reachable_lane [OF assms(1)] new(7) by (simp add: lane_inv_def waits_def lane_def)
    from tripleD [OF process_triple [OF t, of env user True] quiet_lane [OF new(2)] this] assms(3) gates
    show ?thesis by (simp add: new(1))
  next
    case (again r w1)
    have t: "sg_tenant r = sq_tenant q" and "pending r (security_signals (wdb w1))"
      using again(3,4,5) by (auto simp: same_signal_def pending_def list_ex_iff)
    then have "on_lane (waits r None) (wdb w1)"
      using reachable_lane [OF assms(1)] again(6) by (simp add: lane_inv_def waits_def lane_def)
    from tripleD [OF process_triple [OF t, of env user False] quiet_lane [OF again(2)] this] assms(3) gates
    show ?thesis by (simp add: again(1))
  next
    case (replayed r w1)
    let ?s = "signal_processing_result (sg_result r)"
    have same: "passes user (sq_tenant q) scope w1 = passes user (sq_tenant q) scope w" for scope
      unfolding passes_def using require_tenant_access_stable [OF assms(2) replayed(2,3)] by simp
    have run: "fst (bindM (authorize_signal_snapshot user (sq_tenant q) ?s) (\<lambda>_.
        ret \<lparr>sa_signal = signal_dict r, sa_duplicate = True, sa_snapshot = ?s\<rparr>) w1) = Inr a"
      using assms(3) replayed(1) by simp
    then have a: "sa_snapshot a = ?s" by (auto simp: bindM_def ret_def split: prod.splits sum.splits)
    note run = run [unfolded authorize_signal_snapshot_def bind_nested bind_ret]
    from gate_needed_if [OF replayed(2) run] have 1: "sn_case ?s \<noteq> None \<longrightarrow> passes user (sq_tenant q) ''cases:write'' w1" .
    note run = run [unfolded bind_pass_if [OF replayed(2) 1]]
    from gate_needed_if [OF replayed(2) run] 1 show ?thesis by (simp add: a same)
  qed
qed

theorem snapshot_needs_scope_witness:
  "fst (create_signal demo_sg_env (demo_user\<lparr>au_scopes := [''siem:write'']\<rparr>) demo_signal (demo_sg_world demo_alerted ''t'')) =
      Inl (HTTPException 403 ''insufficient service scope'')
   \<and> passes demo_user ''T'' ''cases:write'' (demo_sg_world demo_sg_db ''s'')"
proof
  have "case fst (create_signal demo_sg_env demo_user demo_signal (demo_sg_world demo_sg_db ''s'')) of
      Inr a \<Rightarrow> sn_case (sa_snapshot a) = Some [(''id'', JStr ''s1'')] | Inl _ \<Rightarrow> False"
    by code_simp
  then obtain a where a: "fst (create_signal demo_sg_env demo_user demo_signal (demo_sg_world demo_sg_db ''s'')) = Inr a"
      "sn_case (sa_snapshot a) = Some [(''id'', JStr ''s1'')]"
    by (auto split: sum.splits)
  have "sq_tenant demo_signal = ''T''" using demo_signal_ok by simp
  with snapshot_needs_scope [OF _ _ a(1), of demo_tx] a(2)
  show "passes demo_user ''T'' ''cases:write'' (demo_sg_world demo_sg_db ''s'')"
    by (simp add: demo_sg_world demo_sg_fresh)
qed code_simp

subsection \<open>Automation\<close>



end
