(* ===== verification/Spec2Isabelle.thy ===== *)
theory Spec2Isabelle
  imports Playbook_Policies Exports_Properties Ingest_Properties Routing_Properties Access_Properties Rate_Limit
    Accounts_Properties Retention Status_Contracts Analytics_Properties Siem_Properties
begin

text \<open>
  \<^bold>\<open>FORJD backend: a model of its durable services.\<close>

  FORJD is a multi-tenant platform for sealed telemetry.  Its backend (\<open>backend/app\<close>, Python on
  asyncpg, Redis and an object store) keeps every obligation it accepts as a row of a database
  table, and moves the rows by short SQL statements issued from request handlers and from worker
  loops that run on any number of replicas.  This development models those services.

  \<^bold>\<open>Parts and theories.\<close>

    \<^item> \<open>Prelude\<close>, \<open>Effects\<close>, \<open>Py_Values\<close>: row updates and lookups; programs; the values of
      Python's \<open>json\<close> and the string functions the services use.
    \<^item> \<open>Platform\<close> (\<open>services/tenants.py\<close>, \<open>services/audit.py\<close>, \<open>core/auth.py\<close>): principals, the
      tenant gate, the audit writer and its redaction.
    \<^item> \<open>Outbound\<close> (\<open>services/threat_intel.py\<close>): the guard on webhook destinations.
    \<^item> \<open>Playbook_Plan\<close>, \<open>Playbook_Store\<close>, \<open>Playbook_Runs\<close>, \<open>Playbook_Handlers\<close>
      (\<open>services/playbooks.py\<close>): plan normalisation and retry policy; the tables and one definition
      per SQL statement; the execution of a run; the public operations and both worker ticks.
      \<open>Playbook_Safety\<close>, \<open>Playbook_Protocol\<close>, \<open>Playbook_System\<close>, \<open>Lease\<close>, \<open>Playbook_Lease\<close>:
      the invariant of the tables, its preservation by every operation, the reachable
      databases, and leases.  \<open>Demo\<close>, \<open>Playbook_Properties\<close>: a concrete tenant and the properties.
    \<^item> \<open>Exports_Store\<close>, \<open>Exports\<close>, \<open>Exports_Safety\<close>, \<open>Exports_System\<close>, \<open>Exports_Properties\<close>
      (\<open>services/exports.py\<close>): the export jobs and their artifacts.
    \<^item> \<open>Workflows\<close>, \<open>Workflow_Facts\<close>, \<open>Routing_Properties\<close> (\<open>workflows/\<close>): field validators,
      loading, alias index, resolution.
    \<^item> \<open>Crypto\<close> (\<open>core/crypto.py\<close>) and \<open>Sessions\<close> (\<open>services/sessions.py\<close>): the sealed envelope
      and the directory of public session keys.
    \<^item> \<open>Ingest_Requests\<close>, \<open>Acceptance\<close> (\<open>models/ingest.py\<close>, \<open>services/ingest.py\<close>): what a sealed
      event looks like on the wire, and the transaction that accepts a batch of them with its
      processing receipts and audit rows.
    \<^item> \<open>Projections\<close>, \<open>Projector\<close>, \<open>Ingest\<close> (\<open>services/projections.py\<close>, \<open>services/replay.py\<close>,
      \<open>services/ingest_processing.py\<close>): checkpoints, idempotent results, dead letters, replay, and the
      durable processing of the receipts.
    \<^item> \<open>Ingest_Safety\<close>, \<open>Acceptance_Safety\<close>, \<open>Ingest_System\<close>, \<open>Ingest_Outcomes\<close>,
      \<open>Ingest_Properties\<close>: the invariants of these tables, their preservation, the reachable
      databases, how attempts end, and the properties.
    \<^item> \<open>Accounts\<close>, \<open>Authentication\<close>, \<open>Partner\<close>, \<open>Erase\<close> (\<open>services/service_accounts.py\<close>,
      \<open>core/auth.py\<close>, \<open>services/partner_provision.py\<close>, \<open>services/tenant_erase.py\<close>,
      \<open>services/tenants.py\<close>): tenants and machine credentials, who a request is, the provision of a
      partner's tenant, and the erase of a tenant with its artifacts and receipt.
      \<open>Accounts_Safety\<close>, \<open>Erase_Safety\<close>, \<open>Accounts_System\<close>, \<open>Accounts_Demo\<close>,
      \<open>Accounts_Properties\<close>: their invariant, histories, a concrete history and the properties.
    \<^item> \<open>Retention\<close> (\<open>services/retention.py\<close>): the bounded deletes of expired rows and the rounds of
      the worker.
    \<^item> \<open>Monitoring\<close> (\<open>services/ml/store.py\<close>), \<open>Status_Pages\<close>, \<open>Status_Public\<close>
      (\<open>services/status.py\<close>, the public routes of \<open>api/v1/status.py\<close>): scores and training runs; the
      operations on pages, services and incidents; what a page shows and how it is found.
      \<open>Status_Safety\<close>, \<open>Status_Demo\<close>, \<open>Status_Properties\<close>, \<open>Status_Contracts\<close>: invariant and
      histories, a concrete history, and the properties.
    \<^item> \<open>Analytics\<close>, \<open>Analytics_Properties\<close> (\<open>services/analytics.py\<close>): the hourly rollups, the
      scores and forecasts computed from them, the overview of a tenant, and their properties.
    \<^item> \<open>Correlation\<close> (\<open>services/correlation.py\<close>), \<open>Soc\<close> (\<open>services/soc.py\<close>), \<open>Siem\<close>
      (\<open>services/siem.py\<close>, the receipts of \<open>services/threat_intel.py\<close>, the correlate route),
      \<open>Sanitize\<close> (\<open>core/sanitize.py\<close>), \<open>Signal_Requests\<close> (\<open>models/siem.py\<close>,
      \<open>services/security_ingest.py\<close>): rules and triggers, cases, signals and their automation, the
      text a request may contain.  \<open>Playbook_Client\<close>, \<open>Siem_Safety\<close>, \<open>Siem_System\<close>,
      \<open>Siem_Outcomes\<close>, \<open>Siem_Demo\<close>, \<open>Siem_Properties\<close>: the playbook operations as part of
      another service, invariant, histories, how a request ends, a concrete alert, and the properties.
    \<^item> \<open>System\<close>: histories of a service, shared by all of these.
    \<^item> \<open>Rate_Limit\<close> (\<open>core/rate_limit.py\<close>): the sliding window and its callers;
      \<open>Access_Properties\<close>: the tenant gate, the audit rows and the outbound allowlist.

  A sealed event enters through \<open>Acceptance.ingest_events\<close>: the tenant gate, the session check, the
  router (\<open>Workflows.resolve_workflow\<close>), then one transaction that appends to \<open>telemetry\<close>, registers a
  receipt per group (\<open>Ingest.register_processing_batch\<close>) and writes the audit rows.  The receipts are
  processed at once or by the tick (\<open>Ingest.tick_ingest_processing\<close>): lease, engine, results, dead
  letters resolved and checkpoint advanced in one fenced transaction.  The projector
  (\<open>Projector.run_projection_core\<close>) reads behind the checkpoint; replay and the retry of a dead
  letter write the same results.

  A normalized signal takes the other lane: \<open>Signal_Requests.ingest_security_alert\<close> or
  \<open>Siem.create_signal\<close> stores it once, correlates it, opens a case, runs the playbooks whose trigger
  fires, and completes it with a snapshot that a repeated request gets back.

  \<^bold>\<open>Programs.\<close>  A handler is a function on a world (\<open>Effects.world\<close>): the database, what the
  outside answers, fresh identifiers, and the interference the database suffers before each
  statement.  One SQL statement, or one transaction, is one step; between two steps anything the
  other workers may do can happen.  A step completes, or is lost before or after its commit, in
  which case the program sees a connection error.  An exception of the code is the left value of
  the result, so every raise and every \<open>except\<close> branch is a branch of the model.  Rows are records
  with the columns of the code's tables, times are microseconds, identifiers are strings.

  \<^bold>\<open>What the lemmas show.\<close>  For each group of tables a theory \<open>.._Safety\<close> states the invariant
  and the rely, a reflexive and transitive relation between databases that says what no step may
  undo.  The locale \<open>protocol\<close> of \<open>Effects\<close> turns the two into Hoare-style rules; it is interpreted
  on each service, and each operation is proved to keep the protocol under interference that keeps
  it.  As every operation is itself such interference, the invariants hold in every interleaving of
  any number of workers: the locale \<open>service\<close> of \<open>System\<close> concludes this for every reachable
  database, and is interpreted in \<open>Playbook_System\<close>, \<open>Exports_System\<close>, \<open>Ingest_System\<close>,
  \<open>Accounts_System\<close>, \<open>Status_Safety\<close> and \<open>Siem_System\<close>.  The signal lane calls the
  playbooks on a larger database: the locale \<open>playbook_client\<close> of \<open>Playbook_Client\<close> is what a rely
  must allow for that, and proves every playbook operation once for all its clients; it is interpreted
  in \<open>Siem_Safety\<close> and, for the facts the playbooks leave alone, in \<open>Siem_Outcomes\<close>.  The locale \<open>lease_queue\<close> of \<open>Lease\<close> is
  the contract of a table claimed by leases; it is interpreted on the retry queue, the export
  queue, the processing batches and the dead letters.

  Two more arguments are used on top of this.  What a published page shows is a program that only
  reads; \<open>Status_Properties.reads\<close> says that a program depends on the rows of one tenant only, and
  has a rule per program construct, so that the isolation of tenants is proved along the code.  The
  uptime figures are proved equal to counts over the raw observations, the definition a reader of the
  page would expect.

  \<^bold>\<open>Numbers.\<close>  Floating point values are exact rationals and \<open>round\<close> rounds half to even; a
  \<open>DOUBLE PRECISION\<close> column holds a finite number.

  \<^bold>\<open>Parameters.\<close>  \<open>hashlib\<close>, \<open>hmac\<close>, \<open>json\<close>, \<open>urllib.parse\<close>, \<open>ipaddress\<close>, IDNA, polars, the
  PDF renderer and the presigner are fields of environment records; nothing is assumed of them
  beyond what a theorem names.  Answers of HTTP peers, the resolver, Redis and the processor flows are
  inputs.

  \<^bold>\<open>Bounds.\<close>  The one loop with fuel is the page loop of the exports (\<open>load_pages\<close>): each round but
  the last collects at least one row, and the fuel is one more than the requested rows.

  \<^bold>\<open>Not modelled.\<close>  The DDL of the schema migrations (their constraints are part of the model),
  logging, health pings, cancellation, the supervised worker loops (they call the ticks for ever),
  the heartbeat tasks as tasks (their statement is interference, its verdict an input), rendering
  libraries, HTTP routing, and the services listed as such in the manifest.
\<close>

end
